(* ===== verification/Prelude.thy ===== *)
theory Prelude
  imports Main "HOL-Library.AList"
begin

text \<open>
  Shared foundations of the development: the JavaScript values, strings and insertion-ordered
  maps the TypeScript sources compute with, and the state-and-exception monad in which the
  stateful operations are written, with its invariant and Hoare rules.

  A JavaScript string is a \<^typ>\<open>string\<close>: a list of code units below 256. A \<open>bigint\<close> is an
  \<^typ>\<open>int\<close>; a \<open>number\<close> that holds a time or a count is an \<^typ>\<open>int\<close> too, and the
  \<open>Number.isSafeInteger\<close> tests of the sources are written out.
\<close>

named_theorems jm_eval \<open>evaluation of monadic code\<close>
named_theorems jinv_intros \<open>invariant preservation rules\<close>

section \<open>Strings\<close>

definition js_whitespace :: "char \<Rightarrow> bool" where
  "js_whitespace c \<longleftrightarrow> (of_char c :: nat) \<in> {9, 10, 11, 12, 13, 32, 160}"

definition js_trim :: "string \<Rightarrow> string" where
  "js_trim s = rev (dropWhile js_whitespace (rev (dropWhile js_whitespace s)))"

definition js_lower_char :: "char \<Rightarrow> char" where
  "js_lower_char c =
     (let n = (of_char c :: nat)
      in if (65 \<le> n \<and> n \<le> 90) \<or> (192 \<le> n \<and> n \<le> 222 \<and> n \<noteq> 215)
         then char_of (n + 32) else c)"

definition js_lower :: "string \<Rightarrow> string" where
  "js_lower s = map js_lower_char s"

definition is_digit :: "char \<Rightarrow> bool" where
  "is_digit c \<longleftrightarrow> 48 \<le> (of_char c :: nat) \<and> (of_char c :: nat) \<le> 57"

definition digit_val :: "char \<Rightarrow> nat" where
  "digit_val c = of_char c - 48"

text \<open>The regular expression \<open>^[0-9a-f]$\<close> on one character.\<close>

definition is_lower_hex :: "char \<Rightarrow> bool" where
  "is_lower_hex c \<longleftrightarrow> is_digit c \<or> (97 \<le> (of_char c :: nat) \<and> (of_char c :: nat) \<le> 102)"

text \<open>The regular expression \<open>^\d+$\<close>.\<close>

definition all_digits :: "string \<Rightarrow> bool" where
  "all_digits s \<longleftrightarrow> s \<noteq> [] \<and> list_all is_digit s"

text \<open>The regular expression \<open>^0x[0-9a-f]{n}$\<close>.\<close>

definition is_0x_hex :: "nat \<Rightarrow> string \<Rightarrow> bool" where
  "is_0x_hex n s \<longleftrightarrow> take 2 s = ''0x'' \<and> length s = n + 2 \<and> list_all is_lower_hex (drop 2 s)"

definition digit_char :: "nat \<Rightarrow> char" where
  "digit_char d = char_of (48 + d)"

fun nat_str :: "nat \<Rightarrow> string" where
  "nat_str n = (if n < 10 then [digit_char n] else nat_str (n div 10) @ [digit_char (n mod 10)])"

declare nat_str.simps [simp del]

text \<open>\<open>String(n)\<close> and \<open>n.toString()\<close> for a \<open>bigint\<close> or a safe integer.\<close>

definition int_str :: "int \<Rightarrow> string" where
  "int_str i = (if i < 0 then CHR ''-'' # nat_str (nat (- i)) else nat_str (nat i))"

definition digits_val :: "string \<Rightarrow> nat" where
  "digits_val s = foldl (\<lambda>acc c. acc * 10 + digit_val c) 0 s"

text \<open>
  \<open>BigInt(s)\<close> of a string: surrounding whitespace is ignored, the empty string is zero, an
  optional sign precedes decimal digits, and the prefixes \<open>0x\<close>, \<open>0o\<close>, \<open>0b\<close> (no sign) select a
  radix. \<open>None\<close> is the \<open>SyntaxError\<close>.
\<close>

definition radix_digit :: "nat \<Rightarrow> char \<Rightarrow> nat option" where
  "radix_digit r c =
     (let n = (of_char c :: nat);
          v = (if 48 \<le> n \<and> n \<le> 57 then n - 48
               else if 97 \<le> n \<and> n \<le> 102 then n - 87
               else if 65 \<le> n \<and> n \<le> 70 then n - 55 else 99)
      in if v < r then Some v else None)"

fun radix_val :: "nat \<Rightarrow> nat \<Rightarrow> string \<Rightarrow> nat option" where
  "radix_val r acc [] = Some acc"
| "radix_val r acc (c # cs) =
     (case radix_digit r c of None \<Rightarrow> None | Some d \<Rightarrow> radix_val r (acc * r + d) cs)"

definition js_BigInt :: "string \<Rightarrow> int option" where
  "js_BigInt raw =
     (let s = js_trim raw; c = take 1 s; t = drop 1 s; p = take 2 s; u = drop 2 s in
      if s = [] then Some 0
      else if all_digits s then Some (int (digits_val s))
      else if c = ''-'' then (if all_digits t then Some (- int (digits_val t)) else None)
      else if c = ''+'' then (if all_digits t then Some (int (digits_val t)) else None)
      else if u = [] then None
      else if p = ''0x'' \<or> p = ''0X'' then map_option int (radix_val 16 0 u)
      else if p = ''0o'' \<or> p = ''0O'' then map_option int (radix_val 8 0 u)
      else if p = ''0b'' \<or> p = ''0B'' then map_option int (radix_val 2 0 u)
      else None)"

subsection \<open>Decimal spelling and its inverse\<close>

lemma of_char_char_of_less [simp]: "n < 256 \<Longrightarrow> (of_char (char_of n) :: nat) = n"
  by simp

lemma is_digit_digit_char [simp]: "d < 10 \<Longrightarrow> is_digit (digit_char d)"
  by (simp add: is_digit_def digit_char_def)

lemma digit_val_digit_char [simp]: "d < 10 \<Longrightarrow> digit_val (digit_char d) = d"
  by (simp add: digit_val_def digit_char_def)

lemma nat_str_digits [simp]: "list_all is_digit (nat_str n)"
proof (induction n rule: nat_str.induct)
  case (1 n)
  then show ?case by (subst nat_str.simps) simp
qed

lemma nat_str_nonempty [simp]: "nat_str n \<noteq> []"
  by (subst nat_str.simps) simp

lemma all_digits_nat_str [simp]: "all_digits (nat_str n)"
  by (simp add: all_digits_def)

lemma digits_val_append_one: "digits_val (s @ [c]) = digits_val s * 10 + digit_val c"
  by (simp add: digits_val_def)

lemma digits_val_nat_str [simp]: "digits_val (nat_str n) = n"
proof (induction n rule: nat_str.induct)
  case (1 n)
  show ?case
  proof (cases "n < 10")
    case True
    then show ?thesis by (subst nat_str.simps) (simp add: digits_val_def)
  next
    case False
    with 1 have "digits_val (nat_str (n div 10)) = n div 10" by simp
    with False show ?thesis
      by (subst nat_str.simps) (simp add: digits_val_append_one)
  qed
qed

lemma nat_str_inject [simp]: "nat_str m = nat_str n \<longleftrightarrow> m = n"
  by (metis digits_val_nat_str)

lemma is_digit_not_whitespace: "is_digit c \<Longrightarrow> \<not> js_whitespace c"
  by (auto simp: is_digit_def js_whitespace_def)

lemma dropWhile_none: "list_all (\<lambda>x. \<not> P x) xs \<Longrightarrow> dropWhile P xs = xs"
  by (cases xs) auto

lemma js_trim_no_whitespace: "list_all (\<lambda>c. \<not> js_whitespace c) s \<Longrightarrow> js_trim s = s"
  by (simp add: js_trim_def dropWhile_none list_all_rev)

lemma js_trim_digits: "list_all is_digit s \<Longrightarrow> js_trim s = s"
  by (rule js_trim_no_whitespace) (auto simp: list_all_iff dest: is_digit_not_whitespace)

lemma js_trim_nat_str [simp]: "js_trim (nat_str n) = nat_str n"
  by (rule js_trim_digits) simp

lemma dash_not_whitespace [simp]: "\<not> js_whitespace CHR ''-''"
  by (simp add: js_whitespace_def)

lemma dash_not_digit [simp]: "\<not> is_digit CHR ''-''"
  by (simp add: is_digit_def)

lemma all_digits_int_str: "0 \<le> i \<Longrightarrow> all_digits (int_str i)"
  by (simp add: int_str_def)

lemma js_trim_int_str [simp]: "js_trim (int_str i) = int_str i"
  by (rule js_trim_no_whitespace)
     (auto simp: int_str_def list_all_iff
       dest: is_digit_not_whitespace [OF list_all_iff [THEN iffD1, OF nat_str_digits, THEN bspec]])

lemma not_all_digits_dash [simp]: "\<not> all_digits (CHR ''-'' # s)"
  by (simp add: all_digits_def)

lemma js_BigInt_digits: "all_digits s \<Longrightarrow> js_BigInt s = Some (int (digits_val s))"
  by (simp add: js_BigInt_def Let_def js_trim_digits all_digits_def)

lemma js_BigInt_int_str [simp]: "js_BigInt (int_str i) = Some i"
proof (cases "i < 0")
  case True
  have "js_trim (int_str i) = int_str i" by simp
  with True show ?thesis
    unfolding js_BigInt_def Let_def by (simp add: int_str_def)
next
  case False
  then show ?thesis
    by (simp add: int_str_def js_BigInt_digits)
qed

lemma int_str_inject [simp]: "int_str i = int_str j \<longleftrightarrow> i = j"
  by (metis js_BigInt_int_str option.inject)

lemma int_str_nonempty [simp]: "int_str i \<noteq> []"
  by (simp add: int_str_def)

lemma int_str_nonempty_sym [simp]: "[] \<noteq> int_str i"
  by (metis int_str_nonempty)

lemma dropWhile_suffix_head: "dropWhile P xs = y # ys \<Longrightarrow> \<not> P y"
  by (metis hd_dropWhile list.discI list.sel(1))

lemma js_trim_idem [simp]: "js_trim (js_trim s) = js_trim s"
proof -
  let ?d = "dropWhile js_whitespace"
  let ?t = "rev (?d (rev (?d s)))"
  have "?d ?t = ?t"
  proof (cases ?t)
    case Nil
    then show ?thesis by (metis dropWhile.simps(1))
  next
    case (Cons c cs)
    have "rev (?d s) = takeWhile js_whitespace (rev (?d s)) @ ?d (rev (?d s))"
      by (rule takeWhile_dropWhile_id [symmetric])
    then have "?d s = ?t @ rev (takeWhile js_whitespace (rev (?d s)))"
      by (metis rev_append rev_rev_ident)
    with Cons have "\<exists>ys. ?d s = c # ys" by auto
    then have "\<not> js_whitespace c" by (auto dest: dropWhile_suffix_head)
    with Cons show ?thesis by simp
  qed
  then show ?thesis by (simp only: js_trim_def rev_rev_ident dropWhile_idem)
qed

section \<open>Insertion-ordered maps\<close>

text \<open>
  A JavaScript \<open>Map\<close> is an association list in insertion order: \<open>AList.update\<close> keeps the
  position of a key that is present and appends a new one, as \<open>Map.prototype.set\<close> does.
\<close>

type_synonym ('k, 'v) jsmap = "('k \<times> 'v) list"

abbreviation jsmap_wf :: "('k, 'v) jsmap \<Rightarrow> bool" where
  "jsmap_wf m \<equiv> distinct (map fst m)"

lemma map_of_update_alist: "map_of (AList.update k v m) = (map_of m)(k \<mapsto> v)"
  by (simp add: update_conv')

lemma jsmap_wf_update [simp]: "jsmap_wf m \<Longrightarrow> jsmap_wf (AList.update k v m)"
  by (rule distinct_update)

lemma jsmap_wf_delete [simp]: "jsmap_wf m \<Longrightarrow> jsmap_wf (AList.delete k m)"
  by (rule distinct_delete)

lemma jsmap_wf_filter [simp]: "jsmap_wf m \<Longrightarrow> jsmap_wf (filter P m)"
  by (rule distinct_map_filter)

lemma map_of_filter_key: "map_of (filter (\<lambda>(k, v). P k) m) k = (if P k then map_of m k else None)"
  by (induction m) auto

lemma set_update_alist:
  "jsmap_wf m \<Longrightarrow>
   set (AList.update k v m) = insert (k, v) {(k', v'). (k', v') \<in> set m \<and> k' \<noteq> k}"
  by (induction m) (auto simp: rev_image_eqI)

text \<open>\<open>Set.prototype.add\<close> on an insertion-ordered set.\<close>

definition set_add :: "'a \<Rightarrow> 'a list \<Rightarrow> 'a list" where
  "set_add x xs = (if x \<in> set xs then xs else xs @ [x])"

lemma set_set_add [simp]: "set (set_add x xs) = insert x (set xs)"
  by (auto simp: set_add_def)

lemma distinct_set_add [simp]: "distinct (set_add x xs) \<longleftrightarrow> distinct xs"
  by (auto simp: set_add_def)

section \<open>The first free number\<close>

text \<open>
  The loop \<open>while (taken.has(candidate)) candidate += 1\<close> of the nonce reservations. It stops
  because each round passes one element of a finite set.
\<close>

function next_free :: "int list \<Rightarrow> int \<Rightarrow> int" where
  "next_free taken c = (if c \<in> set taken then next_free taken (c + 1) else c)"
  by pat_completeness auto
termination
proof (relation "measure (\<lambda>(taken, c). card {n \<in> set taken. c \<le> n})", goal_cases)
  case (2 taken c)
  then have "c \<in> {n \<in> set taken. c \<le> n} - {n \<in> set taken. c + 1 \<le> n}" by auto
  then have "{n \<in> set taken. c + 1 \<le> n} \<subset> {n \<in> set taken. c \<le> n}" by fastforce
  then show ?case by (simp add: psubset_card_mono)
qed simp

declare next_free.simps [simp del]

lemma next_free_ge: "c \<le> next_free taken c"
proof (induction taken c rule: next_free.induct)
  case (1 taken c)
  then show ?case by (subst next_free.simps) auto
qed

lemma next_free_not_taken: "next_free taken c \<notin> set taken"
proof (induction taken c rule: next_free.induct)
  case (1 taken c)
  then show ?case by (subst next_free.simps) auto
qed

lemma next_free_least: "c \<le> n \<Longrightarrow> n < next_free taken c \<Longrightarrow> n \<in> set taken"
proof (induction taken c rule: next_free.induct)
  case (1 taken c)
  show ?case
  proof (cases "c \<in> set taken")
    case True
    with 1 show ?thesis
      by (cases "n = c") (auto simp: next_free.simps [of taken c])
  next
    case False
    with 1 show ?thesis by (simp add: next_free.simps [of taken c])
  qed
qed

section \<open>Untyped JavaScript values\<close>

text \<open>
  A value of type \<open>unknown\<close>. \<open>JNum\<close> is a safe integer; every other number (a fraction, an
  unsafe integer, \<open>NaN\<close>, an infinity) is \<open>JOther\<close> with its spelling under \<open>String(...)\<close>.
\<close>

datatype jsval =
    JUndefined
  | JNull
  | JBool bool
  | JNum int
  | JOther string
  | JBigInt int
  | JStr string
  | JArr "jsval list"
  | JObj "(string \<times> jsval) list"

text \<open>Property read on an object; an absent key reads \<open>undefined\<close>.\<close>

fun jfield :: "(string \<times> jsval) list \<Rightarrow> string \<Rightarrow> jsval" where
  "jfield fs k = (case map_of fs k of None \<Rightarrow> JUndefined | Some v \<Rightarrow> v)"

definition safe_integer :: "int \<Rightarrow> bool" where
  "safe_integer n \<longleftrightarrow> - 9007199254740991 \<le> n \<and> n \<le> 9007199254740991"

section \<open>A monad of state and exceptions\<close>

text \<open>
  A stateful JavaScript function that may throw: it takes the state and returns either the thrown
  error (\<^const>\<open>Inl\<close>) or its result (\<^const>\<open>Inr\<close>), with the state as it is at that point. State
  changed before a throw stays changed, as in JavaScript.
\<close>

type_synonym ('s, 'e, 'a) jsm = "'s \<Rightarrow> ('e + 'a) \<times> 's"

definition jret :: "'a \<Rightarrow> ('s, 'e, 'a) jsm" where
  "jret x = (\<lambda>s. (Inr x, s))"

definition jthrow :: "'e \<Rightarrow> ('s, 'e, 'a) jsm" where
  "jthrow e = (\<lambda>s. (Inl e, s))"

definition jbind :: "('s, 'e, 'a) jsm \<Rightarrow> ('a \<Rightarrow> ('s, 'e, 'b) jsm) \<Rightarrow> ('s, 'e, 'b) jsm" where
  "jbind m f = (\<lambda>s. case m s of (Inl e, t) \<Rightarrow> (Inl e, t) | (Inr x, t) \<Rightarrow> f x t)"

definition jseq :: "('s, 'e, 'a) jsm \<Rightarrow> ('s, 'e, 'b) jsm \<Rightarrow> ('s, 'e, 'b) jsm" where
  "jseq m n = jbind m (\<lambda>_. n)"

text \<open>\<open>try m catch (e) { h e }\<close>.\<close>

definition jcatch :: "('s, 'e, 'a) jsm \<Rightarrow> ('e \<Rightarrow> ('s, 'e, 'a) jsm) \<Rightarrow> ('s, 'e, 'a) jsm" where
  "jcatch m h = (\<lambda>s. case m s of (Inl e, t) \<Rightarrow> h e t | (Inr x, t) \<Rightarrow> (Inr x, t))"

definition jget :: "('s \<Rightarrow> 'a) \<Rightarrow> ('s, 'e, 'a) jsm" where
  "jget f = (\<lambda>s. (Inr (f s), s))"

definition jmod :: "('s \<Rightarrow> 's) \<Rightarrow> ('s, 'e, unit) jsm" where
  "jmod f = (\<lambda>s. (Inr (), f s))"

definition jwhen :: "bool \<Rightarrow> ('s, 'e, unit) jsm \<Rightarrow> ('s, 'e, unit) jsm" where
  "jwhen b m = (if b then m else jret ())"

text \<open>Lift a pure computation that may fail.\<close>

definition jlift :: "'e + 'a \<Rightarrow> ('s, 'e, 'a) jsm" where
  "jlift r = (\<lambda>s. (r, s))"

text \<open>\<open>for (const x of xs) body(x)\<close>.\<close>

fun jfor :: "'a list \<Rightarrow> ('a \<Rightarrow> ('s, 'e, unit) jsm) \<Rightarrow> ('s, 'e, unit) jsm" where
  "jfor [] body = jret ()"
| "jfor (x # xs) body = jseq (body x) (jfor xs body)"

text \<open>A loop that collects one result per element.\<close>

fun jmapm :: "('a \<Rightarrow> ('s, 'e, 'b) jsm) \<Rightarrow> 'a list \<Rightarrow> ('s, 'e, 'b list) jsm" where
  "jmapm f [] = jret []"
| "jmapm f (x # xs) = jbind (f x) (\<lambda>y. jbind (jmapm f xs) (\<lambda>ys. jret (y # ys)))"

lemma jm_apply [jm_eval]:
  "jret x s = (Inr x, s)"
  "jthrow e s = (Inl e, s)"
  "jget f s = (Inr (f s), s)"
  "jmod g s = (Inr (), g s)"
  "jlift r s = (r, s)"
  by (simp_all add: jret_def jthrow_def jget_def jmod_def jlift_def)

lemma jbind_apply [jm_eval]:
  "jbind m f s = (case m s of (Inl e, t) \<Rightarrow> (Inl e, t) | (Inr x, t) \<Rightarrow> f x t)"
  by (simp add: jbind_def)

lemma jseq_apply [jm_eval]:
  "jseq m n s = (case m s of (Inl e, t) \<Rightarrow> (Inl e, t) | (Inr x, t) \<Rightarrow> n t)"
  by (simp add: jseq_def jbind_def)

lemma jcatch_apply [jm_eval]:
  "jcatch m h s = (case m s of (Inl e, t) \<Rightarrow> h e t | (Inr x, t) \<Rightarrow> (Inr x, t))"
  by (simp add: jcatch_def)

lemma jwhen_simps [jm_eval, simp]:
  "jwhen True m = m"
  "jwhen False m = jret ()"
  by (simp_all add: jwhen_def)

subsection \<open>Invariants of monadic code\<close>

text \<open>
  \<open>jinv R m\<close>: every run of \<open>m\<close>, throwing or not, relates the state before to the state after
  by \<open>R\<close>. With \<open>R\<close> reflexive and transitive this composes along the code.
\<close>

definition jinv :: "('s \<Rightarrow> 's \<Rightarrow> bool) \<Rightarrow> ('s, 'e, 'a) jsm \<Rightarrow> bool" where
  "jinv R m \<longleftrightarrow> (\<forall>s. R s (snd (m s)))"

lemma jinvD: "jinv R m \<Longrightarrow> m s = (r, t) \<Longrightarrow> R s t"
  by (metis jinv_def snd_conv)

lemma jinvI: "(\<And>s r t. m s = (r, t) \<Longrightarrow> R s t) \<Longrightarrow> jinv R m"
  unfolding jinv_def by (metis prod.collapse)

lemma jinv_jget [jinv_intros]: "reflp R \<Longrightarrow> jinv R (jget f)"
  by (simp add: jinv_def jm_eval reflpD)

lemma jinv_jret [jinv_intros]: "reflp R \<Longrightarrow> jinv R (jret x)"
  by (simp add: jinv_def jm_eval reflpD)

lemma jinv_jthrow [jinv_intros]: "reflp R \<Longrightarrow> jinv R (jthrow e)"
  by (simp add: jinv_def jm_eval reflpD)

lemma jinv_jlift [jinv_intros]: "reflp R \<Longrightarrow> jinv R (jlift r)"
  by (simp add: jinv_def jm_eval reflpD)

lemma jinv_jmod [jinv_intros]: "(\<And>s. R s (f s)) \<Longrightarrow> jinv R (jmod f)"
  by (simp add: jinv_def jm_eval)

lemma jinv_jbind [jinv_intros]:
  assumes "transp R" and "jinv R m" and "\<And>x. jinv R (f x)"
  shows "jinv R (jbind m f)"
proof (rule jinvI)
  fix s r t
  assume run: "jbind m f s = (r, t)"
  obtain q u where m: "m s = (q, u)" by (cases "m s")
  with assms(2) have su: "R s u" by (rule jinvD)
  show "R s t"
  proof (cases q)
    case (Inl e)
    with run m su show ?thesis by (simp add: jm_eval)
  next
    case (Inr x)
    with run m have "f x u = (r, t)" by (simp add: jm_eval)
    with assms(3) have "R u t" by (rule jinvD)
    with assms(1) su show ?thesis by (rule transpD)
  qed
qed

lemma jinv_jseq [jinv_intros]:
  "transp R \<Longrightarrow> jinv R m \<Longrightarrow> jinv R n \<Longrightarrow> jinv R (jseq m n)"
  by (simp add: jseq_def jinv_jbind)

lemma jinv_jcatch [jinv_intros]:
  assumes "transp R" and "jinv R m" and "\<And>e. jinv R (h e)"
  shows "jinv R (jcatch m h)"
proof (rule jinvI)
  fix s r t
  assume run: "jcatch m h s = (r, t)"
  obtain q u where m: "m s = (q, u)" by (cases "m s")
  with assms(2) have su: "R s u" by (rule jinvD)
  show "R s t"
  proof (cases q)
    case (Inl e)
    with run m have "h e u = (r, t)" by (simp add: jm_eval)
    with assms(3) have "R u t" by (rule jinvD)
    with assms(1) su show ?thesis by (rule transpD)
  next
    case (Inr x)
    with run m su show ?thesis by (simp add: jm_eval)
  qed
qed

lemma jinv_jwhen [jinv_intros]: "reflp R \<Longrightarrow> (b \<Longrightarrow> jinv R m) \<Longrightarrow> jinv R (jwhen b m)"
  by (simp add: jwhen_def jinv_jret)

lemma jinv_if [jinv_intros]:
  "(b \<Longrightarrow> jinv R m) \<Longrightarrow> (\<not> b \<Longrightarrow> jinv R n) \<Longrightarrow> jinv R (if b then m else n)"
  by simp

lemma jinv_jfor [jinv_intros]:
  "reflp R \<Longrightarrow> transp R \<Longrightarrow> (\<And>x. jinv R (body x)) \<Longrightarrow> jinv R (jfor xs body)"
  by (induction xs) (auto intro: jinv_jret jinv_jseq)

lemma jinv_jmapm [jinv_intros]:
  "reflp R \<Longrightarrow> transp R \<Longrightarrow> (\<And>x. jinv R (f x)) \<Longrightarrow> jinv R (jmapm f xs)"
  by (induction xs) (auto intro!: jinv_jret jinv_jbind)

lemma jinv_option [jinv_intros]:
  "jinv R n \<Longrightarrow> (\<And>x. jinv R (f x)) \<Longrightarrow>
   jinv R (case x of None \<Rightarrow> n | Some y \<Rightarrow> f y)"
  by (cases x) auto

lemma jinv_sum [jinv_intros]:
  "(\<And>e. jinv R (f e)) \<Longrightarrow> (\<And>x. jinv R (g x)) \<Longrightarrow>
   jinv R (case r of Inl e \<Rightarrow> f e | Inr x \<Rightarrow> g x)"
  by (cases r) auto

lemma jinv_prod [jinv_intros]:
  "(\<And>x y. jinv R (f x y)) \<Longrightarrow> jinv R (case p of (x, y) \<Rightarrow> f x y)"
  by (cases p) auto

lemma jinv_let [jinv_intros]: "jinv R (f x) \<Longrightarrow> jinv R (let y = x in f y)"
  by simp

text \<open>Preservation of a state predicate, as a reflexive and transitive relation.\<close>

definition keeps :: "('s \<Rightarrow> bool) \<Rightarrow> 's \<Rightarrow> 's \<Rightarrow> bool" where
  "keeps P s t \<longleftrightarrow> (P s \<longrightarrow> P t)"

lemma keeps_refl [simp, intro]: "reflp (keeps P)"
  by (simp add: reflp_def keeps_def)

lemma keeps_trans [simp, intro]: "transp (keeps P)"
  by (auto simp: transp_def keeps_def)

lemma jinv_keepsD: "jinv (keeps P) m \<Longrightarrow> m s = (r, t) \<Longrightarrow> P s \<Longrightarrow> P t"
  by (auto dest: jinvD simp: keeps_def)

lemma jinv_jmod_keeps [jinv_intros]: "(\<And>s. P s \<Longrightarrow> P (f s)) \<Longrightarrow> jinv (keeps P) (jmod f)"
  by (simp add: jinv_def jm_eval keeps_def)

lemma jinv_jbind_post:
  assumes "transp R" and "jinv R m" and "\<And>s x t. m s = (Inr x, t) \<Longrightarrow> P x" and "\<And>x. P x \<Longrightarrow> jinv R (f x)"
  shows "jinv R (jbind m f)"
proof (rule jinvI)
  fix s r t
  assume run: "jbind m f s = (r, t)"
  obtain q u where m: "m s = (q, u)" by (cases "m s")
  with assms(2) have su: "R s u" by (rule jinvD)
  show "R s t"
  proof (cases q)
    case (Inl e)
    with run m su show ?thesis by (simp add: jm_eval)
  next
    case (Inr x)
    with run m have "f x u = (r, t)" by (simp add: jm_eval)
    moreover from assms(3) m Inr have "P x" by blast
    ultimately have "R u t" using assms(4) jinvD by metis
    with assms(1) su show ?thesis by (rule transpD)
  qed
qed

lemma jinv_list [jinv_intros]:
  "jinv R n \<Longrightarrow> (\<And>y ys. jinv R (f y ys)) \<Longrightarrow> jinv R (case xs of [] \<Rightarrow> n | y # ys \<Rightarrow> f y ys)"
  by (cases xs) auto

subsection \<open>Hoare triples\<close>

text \<open>
  \<open>jvalid P m Q E\<close>: from a state with \<open>P\<close>, a normal return satisfies \<open>Q\<close> and a throw \<open>E\<close>.
\<close>

definition jvalid ::
  "('s \<Rightarrow> bool) \<Rightarrow> ('s, 'e, 'a) jsm \<Rightarrow> ('a \<Rightarrow> 's \<Rightarrow> bool) \<Rightarrow> ('e \<Rightarrow> 's \<Rightarrow> bool) \<Rightarrow> bool" where
  "jvalid P m Q E \<longleftrightarrow>
     (\<forall>s. P s \<longrightarrow> (case m s of (Inl e, t) \<Rightarrow> E e t | (Inr x, t) \<Rightarrow> Q x t))"

lemma jvalidD_ret: "jvalid P m Q E \<Longrightarrow> P s \<Longrightarrow> m s = (Inr x, t) \<Longrightarrow> Q x t"
  by (auto simp: jvalid_def dest!: spec [where x = s])

lemma jvalidD_throw: "jvalid P m Q E \<Longrightarrow> P s \<Longrightarrow> m s = (Inl e, t) \<Longrightarrow> E e t"
  by (auto simp: jvalid_def dest!: spec [where x = s])

lemma jvalidI:
  "(\<And>s x t. P s \<Longrightarrow> m s = (Inr x, t) \<Longrightarrow> Q x t) \<Longrightarrow>
   (\<And>s e t. P s \<Longrightarrow> m s = (Inl e, t) \<Longrightarrow> E e t) \<Longrightarrow> jvalid P m Q E"
  unfolding jvalid_def by (auto split: prod.split sum.split)

lemma jvalid_jbind:
  assumes "jvalid P m Q E" and "\<And>x. jvalid (Q x) (f x) R E"
  shows "jvalid P (jbind m f) R E"
  by (rule jvalidI)
     (auto simp: jm_eval split: prod.splits sum.splits
       dest: jvalidD_ret [OF assms(1)] jvalidD_throw [OF assms(1)]
         jvalidD_ret [OF assms(2)] jvalidD_throw [OF assms(2)])

lemma jbind_ret_iff:
  "jbind m f s = (Inr y, t) \<longleftrightarrow> (\<exists>x u. m s = (Inr x, u) \<and> f x u = (Inr y, t))"
  by (auto simp: jm_eval split: prod.splits sum.splits)

lemma jseq_ret_iff:
  "jseq m n s = (Inr y, t) \<longleftrightarrow> (\<exists>x u. m s = (Inr x, u) \<and> n u = (Inr y, t))"
  by (auto simp: jm_eval split: prod.splits sum.splits)

text \<open>The two ways a sequence of two computations ends.\<close>

lemma jbind_cases [consumes 1, case_names throws continues]:
  assumes "jbind m f s = (r, t)"
  obtains e where "m s = (Inl e, t)" "r = Inl e" | x u where "m s = (Inr x, u)" "f x u = (r, t)"
  using assms by (auto simp: jm_eval split: prod.splits sum.splits)

lemma jseq_cases [consumes 1, case_names throws continues]:
  assumes "jseq m n s = (r, t)"
  obtains e where "m s = (Inl e, t)" "r = Inl e" | x u where "m s = (Inr x, u)" "n u = (r, t)"
  using assms by (auto simp: jm_eval split: prod.splits sum.splits)

lemma jinv_mono: "jinv R m \<Longrightarrow> (\<And>s t. R s t \<Longrightarrow> R' s t) \<Longrightarrow> jinv R' m"
  by (simp add: jinv_def)

end
