(* ===== verification/NonceTypes.thy ===== *)
theory NonceTypes
  imports Prelude
begin

text \<open>
  The data of the nonce coordinator (\<open>packages/wallet/src/core/signingEngine/nonce/nonceTypes.ts\<close>,
  with the chain target of \<open>interfaces/ecdsaChainTarget.ts\<close>): lease states, lanes, leases, durable
  coordination records, degradations, alerts and trace events. A TypeScript union that ties a lane
  family to its nonce type is one \<^theory_text>\<open>datatype\<close>, so no ill-typed lease exists in the model.
\<close>

datatype NonceLeaseState =
    Reserved | Released | Expired | Signed | SignedLeaseExpired | BroadcastAccepted
  | BroadcastRejected | Finalized | Dropped | Replaced | Reconciled

fun lease_state_str :: "NonceLeaseState \<Rightarrow> string" where
  "lease_state_str Reserved = ''reserved''"
| "lease_state_str Released = ''released''"
| "lease_state_str Expired = ''expired''"
| "lease_state_str Signed = ''signed''"
| "lease_state_str SignedLeaseExpired = ''signed_lease_expired''"
| "lease_state_str BroadcastAccepted = ''broadcast_accepted''"
| "lease_state_str BroadcastRejected = ''broadcast_rejected''"
| "lease_state_str Finalized = ''finalized''"
| "lease_state_str Dropped = ''dropped''"
| "lease_state_str Replaced = ''replaced''"
| "lease_state_str Reconciled = ''reconciled''"

definition NONCE_LEASE_STATES :: "NonceLeaseState list" where
  "NONCE_LEASE_STATES =
     [Reserved, Released, Expired, Signed, SignedLeaseExpired, BroadcastAccepted,
      BroadcastRejected, Finalized, Dropped, Replaced, Reconciled]"

datatype NonceCoordinatorTraceEventName =
    LeaseReserved | LeaseReleased | LeaseExpired | LeaseSigned | LeaseBroadcastAccepted
  | LeaseBroadcastRejected | LeaseFinalized | LeaseDropped | LeaseReplaced | Metrics | LaneAlert
  | CoordinationDegraded | LanesCleared | LaneReconciled

datatype EvmNonceOutcomeReason = OutcomeDropped | OutcomeReplaced

fun outcome_reason_str :: "EvmNonceOutcomeReason \<Rightarrow> string" where
  "outcome_reason_str OutcomeDropped = ''dropped''"
| "outcome_reason_str OutcomeReplaced = ''replaced''"

datatype NonceLeaseReleaseReason = Cancelled | AuthFailed | SigningFailed | NonceFailed

fun release_reason_str :: "NonceLeaseReleaseReason \<Rightarrow> string" where
  "release_reason_str Cancelled = ''cancelled''"
| "release_reason_str AuthFailed = ''auth_failed''"
| "release_reason_str SigningFailed = ''signing_failed''"
| "release_reason_str NonceFailed = ''nonce_failed''"

datatype NonceCoordinatorDegradationReason =
    WebLocksUnavailable | IndexedDBUnavailable | DurableLockTimeout | DurableStoreError
  | MalformedDurableRecord

fun degradation_reason_str :: "NonceCoordinatorDegradationReason \<Rightarrow> string" where
  "degradation_reason_str WebLocksUnavailable = ''web_locks_unavailable''"
| "degradation_reason_str IndexedDBUnavailable = ''indexeddb_unavailable''"
| "degradation_reason_str DurableLockTimeout = ''durable_lock_timeout''"
| "degradation_reason_str DurableStoreError = ''durable_store_error''"
| "degradation_reason_str MalformedDurableRecord = ''malformed_durable_record''"

datatype NonceCoordinatorFallback = InRuntimeLock | NoFallback

fun fallback_str :: "NonceCoordinatorFallback \<Rightarrow> string" where
  "fallback_str InRuntimeLock = ''in_runtime_lock''"
| "fallback_str NoFallback = ''none''"

section \<open>Lanes\<close>

datatype chain_target =
    EvmTarget (chainId: int) (networkSlug: string)
  | TempoTarget (chainId: int) (networkSlug: string)

fun chain_target_kind :: "chain_target \<Rightarrow> string" where
  "chain_target_kind (EvmTarget c n) = ''evm''"
| "chain_target_kind (TempoTarget c n) = ''tempo''"

record EvmNonceLane =
  chainTarget :: chain_target
  subjectId :: string
  sender :: string
  nonceKey :: "int option"

record NearNonceLane =
  networkKey :: string
  walletId :: string
  nearAccountId :: string
  publicKey :: string

datatype NonceLane = EvmLane EvmNonceLane | NearLane NearNonceLane

fun lane_family :: "NonceLane \<Rightarrow> string" where
  "lane_family (EvmLane l) = ''evm''"
| "lane_family (NearLane l) = ''near''"

section \<open>Leases\<close>

text \<open>
  \<open>EvmNonceLease\<close> pairs an EVM lane with a \<open>bigint\<close> nonce, \<open>NearNonceLease\<close> a NEAR lane with a
  decimal string.
\<close>

datatype lease_slot = EvmSlot EvmNonceLane int | NearSlot NearNonceLane string

record NonceLease =
  leaseId :: string
  slot :: lease_slot
  operationId :: string
  operationFingerprint :: string
  lease_state :: NonceLeaseState
  reservedAtMs :: int
  expiresAtMs :: int
  batchId :: "string option"
  txIndex :: "int option"

fun slot_lane :: "lease_slot \<Rightarrow> NonceLane" where
  "slot_lane (EvmSlot l n) = EvmLane l"
| "slot_lane (NearSlot l n) = NearLane l"

definition lease_lane :: "NonceLease \<Rightarrow> NonceLane" where
  "lease_lane l = slot_lane (slot l)"

record PreparedNonceOperationContext =
  op_operationId :: string
  op_operationFingerprint :: string
  op_accountId :: string

section \<open>Durable records\<close>

datatype NonceDurableLeaseLifecycle =
    DurableReserved | DurableSigned | DurableBroadcastAccepted (lifecycle_txHash: string)

fun durable_state_str :: "NonceDurableLeaseLifecycle \<Rightarrow> string" where
  "durable_state_str DurableReserved = ''reserved''"
| "durable_state_str DurableSigned = ''signed''"
| "durable_state_str (DurableBroadcastAccepted h) = ''broadcast_accepted''"

datatype record_lane =
    EvmRecordLane (rec_chainTarget: chain_target) (rec_accountId: string) (rec_sender: string)
      (rec_nonceKey: "int option")
  | NearRecordLane (rec_walletId: string) (rec_nearAccountId: string) (rec_publicKey: string)

record NonceLaneCoordinationRecord =
  rec_laneKey :: string
  rec_leaseId :: string
  rec_networkKey :: string
  rec_nonce :: int
  rec_operationId :: string
  rec_operationFingerprint :: string
  rec_reservedAtMs :: int
  rec_expiresAtMs :: int
  rec_updatedAtMs :: int
  rec_runtimeId :: "string option"
  rec_fencingToken :: "string option"
  rec_batchId :: "string option"
  rec_txIndex :: "int option"
  rec_lifecycle :: NonceDurableLeaseLifecycle
  rec_lane :: record_lane

definition record_family :: "NonceLaneCoordinationRecord \<Rightarrow> string" where
  "record_family r =
     (case rec_lane r of EvmRecordLane _ _ _ _ \<Rightarrow> ''evm'' | NearRecordLane _ _ _ \<Rightarrow> ''near'')"

record ParsedNonceLaneCoordinationRecord =
  parsed_record :: NonceLaneCoordinationRecord
  parsed_lane :: NonceLane
  canonicalLaneKey :: string
  parsed_nonce :: int

record NonceCoordinatorDegradation =
  deg_reason :: NonceCoordinatorDegradationReason
  deg_laneFamily :: "string option"
  deg_networkKey :: "string option"
  deg_accountId :: "string option"
  deg_fallback :: NonceCoordinatorFallback

datatype NonceLaneCoordinationReadResult =
    ReadOk ParsedNonceLaneCoordinationRecord
  | ReadFailure (failure_degradation: NonceCoordinatorDegradation)
      (failure_laneKey: string) (failure_leaseId: string)

record NonceCoordinatorAlert =
  alert_lane :: EvmNonceLane
  alert_reason :: EvmNonceOutcomeReason
  alert_count :: int
  alert_windowMs :: int
  alert_firstSeenAtMs :: int
  alert_lastSeenAtMs :: int

section \<open>Lane status and errors\<close>

record NonceLaneStatus =
  chainNextNonce :: int
  unresolvedInFlightNonces :: "int list"
  blocked :: bool
  blockedNonce :: "int option"

text \<open>
  What the operations throw. \<open>ExternalError\<close> is an error of a port (RPC client, lock, browser
  API) with its message; the code compares such messages.
\<close>

datatype nonce_error =
    FieldRequired string
  | LeaseNotFound
  | OperationMismatch
  | OperationFingerprintMismatch
  | IllegalTransition NonceLeaseState string
  | EvmLeaseExpected
  | LaneBlocked int int
  | TxHashRequired
  | InvalidRecoveredTxHash
  | NearClientMissing
  | NearAccessKeyNotInitialized
  | NearContextMissing
  | IncompleteBatch
  | ReplacementNonceUsed string string
  | InvalidBigInt string
  | InvalidField string
  | AccessKeyInvalid string
  | ImplicitAccountFundingRequired string
  | AccountLookupFailed string
  | BlockInfoFailed
  | InvalidNearAccountId string
  | StoreRejected
  | DurableLockTimedOut
  | ExternalError string

end
