(* ===== verification/Codec.thy ===== *)
theory Codec
  imports Prelude
begin

text \<open>
  The interface of self-delimiting field encodings, which the key strings of the nonce lanes and the
  length-prefixed digest preimages share: a decoder recovers one field and hands back the rest.
  From that law alone, sequences of fields are recovered exactly, so different field lists never
  share an encoding.
\<close>

fun join_with :: "'b list \<Rightarrow> 'b list list \<Rightarrow> 'b list" where
  "join_with sep [] = []"
| "join_with sep [x] = x"
| "join_with sep (x # y # zs) = x @ sep @ join_with sep (y # zs)"

lemma join_with_Cons: "xs \<noteq> [] \<Longrightarrow> join_with sep (x # xs) = x @ sep @ join_with sep xs"
  by (cases xs) auto

locale field_codec =
  fixes enc :: "'a \<Rightarrow> 'b list"
    and dec :: "'b list \<Rightarrow> ('a \<times> 'b list) option"
    and ok :: "'a \<Rightarrow> bool"
  assumes dec_enc: "ok x \<Longrightarrow> dec (enc x @ rest) = Some (x, rest)"
    and enc_nonempty: "ok x \<Longrightarrow> enc x \<noteq> []"
begin

lemma enc_append_inject:
  assumes "ok x" and "ok y" and "enc x @ r = enc y @ s"
  shows "x = y \<and> r = s"
proof -
  have "dec (enc x @ r) = Some (x, r)" by (rule dec_enc [OF assms(1)])
  moreover have "dec (enc y @ s) = Some (y, s)" by (rule dec_enc [OF assms(2)])
  ultimately show ?thesis by (metis assms(3) option.inject prod.inject)
qed

lemma concat_inject:
  "\<forall>x \<in> set xs. ok x \<Longrightarrow> \<forall>y \<in> set ys. ok y \<Longrightarrow>
   concat (map enc xs) = concat (map enc ys) \<Longrightarrow> xs = ys"
proof (induction xs arbitrary: ys)
  case Nil
  then show ?case by (cases ys) (auto dest: enc_nonempty)
next
  case (Cons x xs)
  show ?case
  proof (cases ys)
    case Nil
    with Cons.prems show ?thesis by (auto dest: enc_nonempty)
  next
    case (Cons y zs)
    with Cons.prems have "x = y \<and> concat (map enc xs) = concat (map enc zs)"
      by (intro enc_append_inject) auto
    with Cons.IH [of zs] Cons.prems Cons show ?thesis by auto
  qed
qed

lemma join_inject:
  "sep \<noteq> [] \<Longrightarrow> \<forall>x \<in> set xs. ok x \<Longrightarrow> \<forall>y \<in> set ys. ok y \<Longrightarrow>
   join_with sep (map enc xs) = join_with sep (map enc ys) \<Longrightarrow> xs = ys"
proof (induction xs arbitrary: ys)
  case Nil
  then show ?case by (cases ys; cases "tl ys") (auto dest: enc_nonempty)
next
  case (Cons x xs)
  let ?tail = "\<lambda>zs. if zs = [] then [] else sep @ join_with sep (map enc zs)"
  have split: "join_with sep (map enc (z # zs)) = enc z @ ?tail zs" for z zs
    by (cases zs) auto
  show ?case
  proof (cases ys)
    case Nil
    with Cons.prems split [of x xs] show ?thesis by (auto dest: enc_nonempty)
  next
    case (Cons y zs)
    have "enc x @ ?tail xs = enc y @ ?tail zs"
      using Cons.prems(4) Cons split [of x xs] split [of y zs] by simp
    moreover have "ok x" "ok y" using Cons.prems Cons by auto
    ultimately have *: "x = y \<and> ?tail xs = ?tail zs" by (intro enc_append_inject)
    have "xs = zs"
    proof (cases "xs = [] \<or> zs = []")
      case True
      with * \<open>sep \<noteq> []\<close> show ?thesis by (auto split: if_splits)
    next
      case False
      with * have "join_with sep (map enc xs) = join_with sep (map enc zs)" by simp
      with Cons.IH [of zs] Cons.prems Cons show ?thesis by auto
    qed
    with * Cons show ?thesis by simp
  qed
qed

end

end
