(* ===== verification/NonceLaneKeys.thy ===== *)
theory NonceLaneKeys
  imports NonceTypes Codec
begin

text \<open>
  Lane keys and identifiers (\<open>nonce/nonceLaneKeys.ts\<close>, \<open>thresholdEcdsaChainTargetKey\<close> of
  \<open>interfaces/ecdsaChainTarget.ts\<close>): the length-prefixed key encoding, the canonical key of a lane,
  lease and batch identifiers, and the views of lanes and leases handed to other layers.
\<close>

definition encode_key_part :: "string \<Rightarrow> string" where
  "encode_key_part value = nat_str (length value) @ '':'' @ value"

definition encodeNonceKeyParts :: "string list \<Rightarrow> string" where
  "encodeNonceKeyParts parts = join_with ''|'' (map encode_key_part parts)"

definition thresholdEcdsaChainTargetKey :: "chain_target \<Rightarrow> string" where
  "thresholdEcdsaChainTargetKey target =
     (case target of
        EvmTarget c _ \<Rightarrow> ''evm:eip155:'' @ int_str c
      | TempoTarget c _ \<Rightarrow> ''tempo:'' @ int_str c)"

definition thresholdEcdsaChainTargetsEqual :: "chain_target \<Rightarrow> chain_target \<Rightarrow> bool" where
  "thresholdEcdsaChainTargetsEqual l r \<longleftrightarrow>
     thresholdEcdsaChainTargetKey l = thresholdEcdsaChainTargetKey r"

record ReserveNonceInput =
  in_chainTarget :: chain_target
  in_subjectId :: string
  in_sender :: string
  in_nonceKey :: "int option"

record ManagedNonceReservation = ReserveNonceInput +
  mr_nonce :: int
  mr_leaseId :: string
  mr_operationId :: string
  mr_operationFingerprint :: string
  mr_reservedAtMs :: "int option"
  mr_expiresAtMs :: "int option"

definition evmReserveNonceInputToLane :: "'z ReserveNonceInput_scheme \<Rightarrow> EvmNonceLane" where
  "evmReserveNonceInputToLane input =
     \<lparr>chainTarget = in_chainTarget input, subjectId = in_subjectId input,
      sender = in_sender input, nonceKey = in_nonceKey input\<rparr>"

definition evmLaneToReserveNonceInput :: "EvmNonceLane \<Rightarrow> ReserveNonceInput" where
  "evmLaneToReserveNonceInput lane =
     \<lparr>in_chainTarget = chainTarget lane, in_subjectId = subjectId lane,
      in_sender = sender lane, in_nonceKey = nonceKey lane\<rparr>"

definition assertEvmLease :: "NonceLease \<Rightarrow> nonce_error + (EvmNonceLane \<times> int)" where
  "assertEvmLease lease =
     (case slot lease of EvmSlot l n \<Rightarrow> Inr (l, n) | NearSlot _ _ \<Rightarrow> Inl EvmLeaseExpected)"

definition evmNonceLeaseToManagedReservation ::
  "NonceLease \<Rightarrow> nonce_error + ManagedNonceReservation" where
  "evmNonceLeaseToManagedReservation lease =
     (case assertEvmLease lease of
        Inl e \<Rightarrow> Inl e
      | Inr (lane, n) \<Rightarrow> Inr
          \<lparr>in_chainTarget = chainTarget lane, in_subjectId = subjectId lane,
           in_sender = sender lane, in_nonceKey = nonceKey lane,
           mr_nonce = n, mr_leaseId = leaseId lease, mr_operationId = operationId lease,
           mr_operationFingerprint = operationFingerprint lease,
           mr_reservedAtMs = Some (reservedAtMs lease), mr_expiresAtMs = Some (expiresAtMs lease)\<rparr>)"

definition evmManagedReservationToLane :: "ManagedNonceReservation \<Rightarrow> EvmNonceLane" where
  "evmManagedReservationToLane reservation = evmReserveNonceInputToLane reservation"

record NonceLeaseRef =
  ref_leaseId :: string
  ref_operationId :: string
  ref_operationFingerprint :: string
  ref_nonce :: string
  ref_batchId :: "string option"
  ref_txIndex :: "int option"

definition nonceLeaseToRef :: "NonceLease \<Rightarrow> NonceLeaseRef" where
  "nonceLeaseToRef lease =
     \<lparr>ref_leaseId = leaseId lease, ref_operationId = operationId lease,
      ref_operationFingerprint = operationFingerprint lease,
      ref_nonce = (case slot lease of EvmSlot _ n \<Rightarrow> int_str n | NearSlot _ s \<Rightarrow> s),
      ref_batchId = (case batchId lease of Some b \<Rightarrow> if b = [] then None else Some b | None \<Rightarrow> None),
      ref_txIndex = (case txIndex lease of Some i \<Rightarrow> if safe_integer i then Some i else None
                     | None \<Rightarrow> None)\<rparr>"

definition nonceLaneNetworkKey :: "NonceLane \<Rightarrow> string" where
  "nonceLaneNetworkKey lane =
     (case lane of NearLane l \<Rightarrow> networkKey l
      | EvmLane l \<Rightarrow> thresholdEcdsaChainTargetKey (chainTarget l))"

definition nonceLaneSubjectId :: "NonceLane \<Rightarrow> string" where
  "nonceLaneSubjectId lane = (case lane of NearLane l \<Rightarrow> walletId l | EvmLane l \<Rightarrow> subjectId l)"

definition nearNonceLaneKey :: "NearNonceLane \<Rightarrow> string" where
  "nearNonceLaneKey lane =
     encodeNonceKeyParts [''near'', networkKey lane, walletId lane, nearAccountId lane, publicKey lane]"

definition nonceLaneKey :: "NonceLane \<Rightarrow> string" where
  "nonceLaneKey lane =
     (case lane of
        NearLane l \<Rightarrow> nearNonceLaneKey l
      | EvmLane l \<Rightarrow> encodeNonceKeyParts
          [''evm'', thresholdEcdsaChainTargetKey (chainTarget l), subjectId l,
           js_lower (sender l), case nonceKey l of Some k \<Rightarrow> int_str k | None \<Rightarrow> ''''])"

definition assertOperationMatches ::
  "NonceLease \<Rightarrow> string \<Rightarrow> string \<Rightarrow> nonce_error + unit" where
  "assertOperationMatches lease opId opFp =
     (if operationId lease \<noteq> opId then Inl OperationMismatch
      else if operationFingerprint lease \<noteq> opFp then Inl OperationFingerprintMismatch
      else Inr ())"

text \<open>The random identifier \<open>secureRandomId(...)\<close> is an argument: it comes from WebCrypto.\<close>

definition createNonceLeaseId :: "string \<Rightarrow> string \<Rightarrow> string \<Rightarrow> string \<Rightarrow> string" where
  "createNonceLeaseId chain opId nonce randomId =
     ''nonce-lease-v1:'' @ encodeNonceKeyParts [chain, opId, nonce, randomId]"

definition createNonceBatchId :: "string \<Rightarrow> string \<Rightarrow> string \<Rightarrow> int \<Rightarrow> string \<Rightarrow> string" where
  "createNonceBatchId chain opId firstNonce count randomId =
     ''nonce-batch-v1:'' @ encodeNonceKeyParts [chain, opId, firstNonce, int_str count, randomId]"

section \<open>The key encoding is a self-delimiting field encoding\<close>

definition decode_key_part :: "string \<Rightarrow> (string \<times> string) option" where
  "decode_key_part s =
     (let ds = takeWhile is_digit s; r = dropWhile is_digit s; n = digits_val ds
      in if ds = [] \<or> take 1 r \<noteq> '':'' \<or> length (drop 1 r) < n then None
         else Some (take n (drop 1 r), drop n (drop 1 r)))"

lemma colon_not_digit [simp]: "\<not> is_digit CHR '':''"
  by (simp add: is_digit_def)

lemma takeWhile_digits_colon:
  "list_all is_digit ds \<Longrightarrow> takeWhile is_digit (ds @ CHR '':'' # r) = ds"
  "list_all is_digit ds \<Longrightarrow> dropWhile is_digit (ds @ CHR '':'' # r) = CHR '':'' # r"
  by (auto simp: list_all_iff)

interpretation key_part: field_codec encode_key_part decode_key_part "\<lambda>_. True"
  by unfold_locales
     (simp_all add: encode_key_part_def decode_key_part_def Let_def takeWhile_digits_colon)

lemma encodeNonceKeyParts_inject:
  "encodeNonceKeyParts xs = encodeNonceKeyParts ys \<longleftrightarrow> xs = ys"
  unfolding encodeNonceKeyParts_def
  by (auto dest: key_part.join_inject [rotated 3])

lemma chain_target_key_inject:
  "thresholdEcdsaChainTargetKey t = thresholdEcdsaChainTargetKey u \<longleftrightarrow>
     chain_target_kind t = chain_target_kind u \<and> chainId t = chainId u"
  by (cases t; cases u) (auto simp: thresholdEcdsaChainTargetKey_def)

text \<open>Two EVM lanes are the same lane: the network slug and the case of the address do not count.\<close>

definition same_evm_lane :: "EvmNonceLane \<Rightarrow> EvmNonceLane \<Rightarrow> bool" where
  "same_evm_lane l m \<longleftrightarrow>
     chain_target_kind (chainTarget l) = chain_target_kind (chainTarget m) \<and>
     chainId (chainTarget l) = chainId (chainTarget m) \<and>
     subjectId l = subjectId m \<and> js_lower (sender l) = js_lower (sender m) \<and>
     nonceKey l = nonceKey m"

fun same_lane :: "NonceLane \<Rightarrow> NonceLane \<Rightarrow> bool" where
  "same_lane (EvmLane l) (EvmLane m) = same_evm_lane l m"
| "same_lane (NearLane l) (NearLane m) = (l = m)"
| "same_lane _ _ = False"

lemma nonce_key_part_inject:
  "(case k of Some i \<Rightarrow> int_str i | None \<Rightarrow> '''') = (case k' of Some i \<Rightarrow> int_str i | None \<Rightarrow> '''')
   \<longleftrightarrow> k = k'"
  by (cases k; cases k') simp_all

lemma nonceLaneKey_eq_iff: "nonceLaneKey l = nonceLaneKey m \<longleftrightarrow> same_lane l m"
  by (cases l; cases m)
     (auto simp: nonceLaneKey_def nearNonceLaneKey_def encodeNonceKeyParts_inject
       chain_target_key_inject same_evm_lane_def nonce_key_part_inject)

lemma createNonceLeaseId_inject:
  "createNonceLeaseId c o1 n r = createNonceLeaseId c' o1' n' r' \<longleftrightarrow>
     c = c' \<and> o1 = o1' \<and> n = n' \<and> r = r'"
  by (simp add: createNonceLeaseId_def encodeNonceKeyParts_inject)

lemma nonceLaneKey_family:
  "nonceLaneKey (EvmLane l) \<noteq> nonceLaneKey (NearLane m)"
  by (simp add: nonceLaneKey_eq_iff)

lemma nonceLaneKey_nonempty [simp]: "nonceLaneKey l \<noteq> []"
  by (cases l) (simp_all add: nonceLaneKey_def nearNonceLaneKey_def encodeNonceKeyParts_def
      encode_key_part_def)

end
