(* ===== verification/NonceLeaseStates.thy ===== *)
theory NonceLeaseStates
  imports NonceTypes
begin

text \<open>
  The lease state machine of \<open>nonce/nonceLeaseState.ts\<close>: one reducer per transition, the combined
  reducer, the activity predicates, and the facts about whole lease histories that the coordinator
  relies on.
\<close>

datatype NonceLeaseTransition =
    TRelease | TExpire | TMarkSigned | TBroadcastAccepted | TBroadcastRejected | TFinalize | TDrop
  | TReplace | TReconcile

fun transition_str :: "NonceLeaseTransition \<Rightarrow> string" where
  "transition_str TRelease = ''release''"
| "transition_str TExpire = ''expire''"
| "transition_str TMarkSigned = ''mark_signed''"
| "transition_str TBroadcastAccepted = ''broadcast_accepted''"
| "transition_str TBroadcastRejected = ''broadcast_rejected''"
| "transition_str TFinalize = ''finalize''"
| "transition_str TDrop = ''drop''"
| "transition_str TReplace = ''replace''"
| "transition_str TReconcile = ''reconcile''"

datatype NonceLeaseTransitionResult =
    Accepted NonceLeaseState
  | Rejected (rejected_current: NonceLeaseState) (rejected_transition: NonceLeaseTransition)

fun reduceReleaseNonceLeaseState :: "NonceLeaseState \<Rightarrow> NonceLeaseTransitionResult" where
  "reduceReleaseNonceLeaseState Released = Accepted Released"
| "reduceReleaseNonceLeaseState Reserved = Accepted Released"
| "reduceReleaseNonceLeaseState current = Rejected current TRelease"

fun reduceExpireNonceLeaseState :: "NonceLeaseState \<Rightarrow> NonceLeaseTransitionResult" where
  "reduceExpireNonceLeaseState Reserved = Accepted Expired"
| "reduceExpireNonceLeaseState Signed = Accepted SignedLeaseExpired"
| "reduceExpireNonceLeaseState Expired = Accepted Expired"
| "reduceExpireNonceLeaseState SignedLeaseExpired = Accepted SignedLeaseExpired"
| "reduceExpireNonceLeaseState current = Rejected current TExpire"

fun reduceMarkSignedNonceLeaseState :: "NonceLeaseState \<Rightarrow> NonceLeaseTransitionResult" where
  "reduceMarkSignedNonceLeaseState Reserved = Accepted Signed"
| "reduceMarkSignedNonceLeaseState Signed = Accepted Signed"
| "reduceMarkSignedNonceLeaseState current = Rejected current TMarkSigned"

fun reduceBroadcastAcceptedNonceLeaseState :: "NonceLeaseState \<Rightarrow> NonceLeaseTransitionResult" where
  "reduceBroadcastAcceptedNonceLeaseState Signed = Accepted BroadcastAccepted"
| "reduceBroadcastAcceptedNonceLeaseState BroadcastAccepted = Accepted BroadcastAccepted"
| "reduceBroadcastAcceptedNonceLeaseState current = Rejected current TBroadcastAccepted"

fun reduceBroadcastRejectedNonceLeaseState :: "NonceLeaseState \<Rightarrow> NonceLeaseTransitionResult" where
  "reduceBroadcastRejectedNonceLeaseState Signed = Accepted BroadcastRejected"
| "reduceBroadcastRejectedNonceLeaseState BroadcastRejected = Accepted BroadcastRejected"
| "reduceBroadcastRejectedNonceLeaseState current = Rejected current TBroadcastRejected"

fun reduceFinalizeNonceLeaseState :: "NonceLeaseState \<Rightarrow> NonceLeaseTransitionResult" where
  "reduceFinalizeNonceLeaseState BroadcastAccepted = Accepted Finalized"
| "reduceFinalizeNonceLeaseState Finalized = Accepted Finalized"
| "reduceFinalizeNonceLeaseState current = Rejected current TFinalize"

fun reduceDropNonceLeaseState :: "NonceLeaseState \<Rightarrow> NonceLeaseTransitionResult" where
  "reduceDropNonceLeaseState BroadcastAccepted = Accepted Dropped"
| "reduceDropNonceLeaseState Dropped = Accepted Dropped"
| "reduceDropNonceLeaseState current = Rejected current TDrop"

fun reduceReplaceNonceLeaseState :: "NonceLeaseState \<Rightarrow> NonceLeaseTransitionResult" where
  "reduceReplaceNonceLeaseState BroadcastAccepted = Accepted Replaced"
| "reduceReplaceNonceLeaseState Replaced = Accepted Replaced"
| "reduceReplaceNonceLeaseState current = Rejected current TReplace"

fun reduceReconcileNonceLeaseState :: "NonceLeaseState \<Rightarrow> NonceLeaseTransitionResult" where
  "reduceReconcileNonceLeaseState Released = Accepted Reconciled"
| "reduceReconcileNonceLeaseState Expired = Accepted Reconciled"
| "reduceReconcileNonceLeaseState SignedLeaseExpired = Accepted Reconciled"
| "reduceReconcileNonceLeaseState BroadcastRejected = Accepted Reconciled"
| "reduceReconcileNonceLeaseState Dropped = Accepted Reconciled"
| "reduceReconcileNonceLeaseState Replaced = Accepted Reconciled"
| "reduceReconcileNonceLeaseState Reconciled = Accepted Reconciled"
| "reduceReconcileNonceLeaseState current = Rejected current TReconcile"

fun tryReduceNonceLeaseState ::
  "NonceLeaseState \<Rightarrow> NonceLeaseTransition \<Rightarrow> NonceLeaseTransitionResult" where
  "tryReduceNonceLeaseState current TRelease = reduceReleaseNonceLeaseState current"
| "tryReduceNonceLeaseState current TExpire = reduceExpireNonceLeaseState current"
| "tryReduceNonceLeaseState current TMarkSigned = reduceMarkSignedNonceLeaseState current"
| "tryReduceNonceLeaseState current TBroadcastAccepted =
     reduceBroadcastAcceptedNonceLeaseState current"
| "tryReduceNonceLeaseState current TBroadcastRejected =
     reduceBroadcastRejectedNonceLeaseState current"
| "tryReduceNonceLeaseState current TFinalize = reduceFinalizeNonceLeaseState current"
| "tryReduceNonceLeaseState current TDrop = reduceDropNonceLeaseState current"
| "tryReduceNonceLeaseState current TReplace = reduceReplaceNonceLeaseState current"
| "tryReduceNonceLeaseState current TReconcile = reduceReconcileNonceLeaseState current"

definition reduceNonceLeaseState ::
  "NonceLeaseState \<Rightarrow> NonceLeaseTransition \<Rightarrow> nonce_error + NonceLeaseState" where
  "reduceNonceLeaseState current transition =
     (case tryReduceNonceLeaseState current transition of
        Accepted st \<Rightarrow> Inr st
      | Rejected c t \<Rightarrow> Inl (IllegalTransition c (transition_str t)))"

definition isInFlightNonceLeaseState :: "NonceLeaseState \<Rightarrow> bool" where
  "isInFlightNonceLeaseState st \<longleftrightarrow> st = Reserved \<or> st = Signed"

definition isActiveEvmLeaseState :: "NonceLeaseState \<Rightarrow> bool" where
  "isActiveEvmLeaseState st \<longleftrightarrow> st = Reserved \<or> st = Signed \<or> st = BroadcastAccepted"

definition isActiveNearLeaseState :: "NonceLeaseState \<Rightarrow> bool" where
  "isActiveNearLeaseState st \<longleftrightarrow> st = Reserved \<or> st = Signed \<or> st = BroadcastAccepted"

definition isActiveCoordinationLeaseRecord :: "NonceLaneCoordinationRecord \<Rightarrow> int \<Rightarrow> bool" where
  "isActiveCoordinationLeaseRecord r nowMs =
     (case rec_lifecycle r of
        DurableBroadcastAccepted _ \<Rightarrow> True
      | DurableReserved \<Rightarrow> rec_expiresAtMs r > nowMs
      | DurableSigned \<Rightarrow> rec_expiresAtMs r > nowMs)"

section \<open>Lease histories\<close>

text \<open>
  The interface the coordinator relies on: a partial step function over states, which states are
  live (still hold their nonce), and a progress measure. A dead state never becomes live again and
  every step that changes the state makes progress.
\<close>

locale lease_machine =
  fixes step :: "'s \<Rightarrow> 't \<Rightarrow> 's option"
    and live :: "'s \<Rightarrow> bool"
    and rank :: "'s \<Rightarrow> nat"
    and top :: nat
  assumes dead_stays_dead: "step s t = Some s' \<Longrightarrow> \<not> live s \<Longrightarrow> \<not> live s'"
    and step_progress: "step s t = Some s' \<Longrightarrow> s' \<noteq> s \<Longrightarrow> rank s < rank s'"
    and rank_le_top: "rank s \<le> top"
begin

text \<open>The states a lease goes through under a list of transitions, illegal ones refused.\<close>

fun run :: "'s \<Rightarrow> 't list \<Rightarrow> 's" where
  "run s [] = s"
| "run s (t # ts) = (case step s t of None \<Rightarrow> run s ts | Some s' \<Rightarrow> run s' ts)"

fun changes :: "'s \<Rightarrow> 't list \<Rightarrow> nat" where
  "changes s [] = 0"
| "changes s (t # ts) =
     (case step s t of None \<Rightarrow> changes s ts
      | Some s' \<Rightarrow> (if s' = s then 0 else 1) + changes s' ts)"

lemma run_dead: "\<not> live s \<Longrightarrow> \<not> live (run s ts)"
  by (induction ts arbitrary: s) (auto split: option.splits dest: dead_stays_dead)

lemma run_rank: "rank s \<le> rank (run s ts)"
proof (induction ts arbitrary: s)
  case (Cons t ts)
  show ?case
  proof (cases "step s t")
    case (Some s')
    have "rank s \<le> rank s'" using step_progress [OF Some] by fastforce
    also have "\<dots> \<le> rank (run s' ts)" by (rule Cons.IH)
    finally show ?thesis using Some by simp
  qed (simp add: Cons.IH)
qed simp

lemma changes_bounded: "rank s + changes s ts \<le> top"
proof (induction ts arbitrary: s)
  case Nil
  show ?case by (simp add: rank_le_top)
next
  case (Cons t ts)
  show ?case
  proof (cases "step s t")
    case (Some s')
    show ?thesis
    proof (cases "s' = s")
      case False
      with Some have "rank s + 1 \<le> rank s'" by (simp add: step_progress Suc_leI)
      with Cons.IH [of s'] Some False show ?thesis by simp
    qed (use Cons.IH [of s] Some in simp)
  qed (simp add: Cons.IH)
qed

end

definition lease_step :: "NonceLeaseState \<Rightarrow> NonceLeaseTransition \<Rightarrow> NonceLeaseState option" where
  "lease_step s t = (case tryReduceNonceLeaseState s t of Accepted s' \<Rightarrow> Some s' | Rejected _ _ \<Rightarrow> None)"

fun lease_rank :: "NonceLeaseState \<Rightarrow> nat" where
  "lease_rank Reserved = 0"
| "lease_rank Signed = 1"
| "lease_rank BroadcastAccepted = 2"
| "lease_rank Released = 3"
| "lease_rank Expired = 3"
| "lease_rank SignedLeaseExpired = 3"
| "lease_rank BroadcastRejected = 3"
| "lease_rank Finalized = 3"
| "lease_rank Dropped = 3"
| "lease_rank Replaced = 3"
| "lease_rank Reconciled = 4"

lemma lease_step_active:
  "lease_step s t = Some s' \<Longrightarrow> isActiveEvmLeaseState s' \<Longrightarrow> isActiveEvmLeaseState s"
  by (cases t; cases s) (auto simp: lease_step_def isActiveEvmLeaseState_def)

lemma lease_step_rank: "lease_step s t = Some s' \<Longrightarrow> s' \<noteq> s \<Longrightarrow> lease_rank s < lease_rank s'"
  by (cases t; cases s) (auto simp: lease_step_def)

lemma lease_rank_bound: "lease_rank s \<le> 4"
  by (cases s) auto

interpretation nonce_lease: lease_machine lease_step isActiveEvmLeaseState lease_rank 4
  by unfold_locales (auto dest: lease_step_active lease_step_rank intro: lease_rank_bound)

text \<open>The states a lease has been through once a signature may exist.\<close>

definition signed_history :: "NonceLeaseState \<Rightarrow> bool" where
  "signed_history s \<longleftrightarrow>
     s \<in> {Signed, SignedLeaseExpired, BroadcastAccepted, BroadcastRejected, Finalized, Dropped,
          Replaced, Reconciled}"

lemma signed_history_step:
  "lease_step s t = Some s' \<Longrightarrow> signed_history s \<Longrightarrow> signed_history s'"
  by (cases t; cases s) (auto simp: lease_step_def signed_history_def)

lemma signed_history_run:
  "signed_history s \<Longrightarrow> signed_history (nonce_lease.run s ts)"
  by (induction ts arbitrary: s) (auto split: option.splits dest: signed_history_step)

lemma reduceNonceLeaseState_Inr_iff:
  "reduceNonceLeaseState s t = Inr s' \<longleftrightarrow> lease_step s t = Some s'"
  by (auto simp: reduceNonceLeaseState_def lease_step_def split: NonceLeaseTransitionResult.splits)

lemma reduceNonceLeaseState_active:
  "reduceNonceLeaseState s t = Inr s' \<Longrightarrow> isActiveEvmLeaseState s' \<Longrightarrow> isActiveEvmLeaseState s"
  by (simp add: reduceNonceLeaseState_Inr_iff lease_step_active)

section \<open>Properties of lease histories\<close>

text \<open>
  The state of a lease after a list of requested transitions, each applied by
  \<^const>\<open>reduceNonceLeaseState\<close>; a transition it throws on leaves the lease as it was.
\<close>

fun lease_history :: "NonceLeaseState \<Rightarrow> NonceLeaseTransition list \<Rightarrow> NonceLeaseState" where
  "lease_history s [] = s"
| "lease_history s (t # ts) =
     (case reduceNonceLeaseState s t of Inl e \<Rightarrow> lease_history s ts | Inr s' \<Rightarrow> lease_history s' ts)"

fun lease_changes :: "NonceLeaseState \<Rightarrow> NonceLeaseTransition list \<Rightarrow> nat" where
  "lease_changes s [] = 0"
| "lease_changes s (t # ts) =
     (case reduceNonceLeaseState s t of Inl e \<Rightarrow> lease_changes s ts
      | Inr s' \<Rightarrow> (if s' = s then 0 else 1) + lease_changes s' ts)"

lemma lease_history_run: "lease_history s ts = nonce_lease.run s ts"
  by (induction ts arbitrary: s) (auto simp: reduceNonceLeaseState_def lease_step_def
      split: NonceLeaseTransitionResult.split)

lemma lease_changes_count: "lease_changes s ts = nonce_lease.changes s ts"
  by (induction ts arbitrary: s) (auto simp: reduceNonceLeaseState_def lease_step_def
      split: NonceLeaseTransitionResult.split)

text \<open>
  A lease that no longer holds its nonce (released, expired, rejected, finalized, dropped, replaced
  or reconciled) never holds it again, whatever transitions are requested afterwards.
\<close>

theorem lease_never_revives:
  assumes "\<not> isActiveEvmLeaseState s"
  shows "\<not> isActiveEvmLeaseState (lease_history s ts)"
  unfolding lease_history_run using assms by (rule nonce_lease.run_dead)

theorem lease_never_revives_witness:
  "\<not> isActiveEvmLeaseState (lease_history Released [TMarkSigned, TBroadcastAccepted, TReconcile])"
  by (rule lease_never_revives) (simp add: isActiveEvmLeaseState_def)

text \<open>
  A lease changes its state at most four times, so a lease history always settles.
\<close>

theorem lease_changes_at_most_four: "lease_changes s ts \<le> 4"
  unfolding lease_changes_count using nonce_lease.changes_bounded [of s ts] by simp

text \<open>
  Once a lease has been signed it can never be reported as released, as expired unsigned, or as
  reserved again: a nonce a signature exists for is never taken for an unused one.
\<close>

theorem signed_lease_never_unsigned:
  assumes "s \<in> {Signed, SignedLeaseExpired, BroadcastAccepted}"
  shows "lease_history s ts \<notin> {Reserved, Released, Expired}"
proof -
  from assms have "signed_history (lease_history s ts)"
    unfolding lease_history_run by (intro signed_history_run) (auto simp: signed_history_def)
  then show ?thesis by (auto simp: signed_history_def)
qed

theorem signed_lease_never_unsigned_witness:
  "lease_history Signed [TRelease, TExpire, TRelease] \<notin> {Reserved, Released, Expired}"
  by (rule signed_lease_never_unsigned) simp

end
