(* ===== verification/EvmNonceLanes.thy ===== *)
theory EvmNonceLanes
  imports NonceLaneKeys NonceLeaseStates
begin

text \<open>
  The EVM lane state of \<open>nonce/evmNonceLane.ts\<close>. Each function is the pure body of its source
  function: the port results the source awaits (the chain nonce, the active lease nonces) are
  arguments here and are fetched by the coordinator model. Sets of \<open>nonce.toString()\<close> are lists of
  the nonces themselves, since decimal spelling is injective. \<open>inflightRefresh\<close> is left out: under
  the lane lock it is \<open>null\<close> whenever a refresh starts.
\<close>

datatype in_flight_status = FlightAccepted | FlightReplaced

record EvmInFlightNonceRecord =
  flight_nonce :: int
  flight_txHash :: "string option"
  flight_status :: in_flight_status
  flight_acceptedAtMs :: int
  flight_updatedAtMs :: int

record EvmNonceLaneState =
  chainNonce :: "int option"
  nextCandidate :: "int option"
  inFlight :: "(int, EvmInFlightNonceRecord) jsmap"
  lastRefreshMs :: "int option"

definition createEvmNonceLaneState :: EvmNonceLaneState where
  "createEvmNonceLaneState =
     \<lparr>chainNonce = None, nextCandidate = None, inFlight = [], lastRefreshMs = None\<rparr>"

definition getOrCreateEvmNonceLaneState ::
  "(string, EvmNonceLaneState) jsmap \<Rightarrow> string \<Rightarrow> EvmNonceLaneState \<times> (string, EvmNonceLaneState) jsmap" where
  "getOrCreateEvmNonceLaneState states laneKey =
     (case map_of states laneKey of
        Some existing \<Rightarrow> (existing, states)
      | None \<Rightarrow> (createEvmNonceLaneState, AList.update laneKey createEvmNonceLaneState states))"

definition indexEvmNonceLaneBySubject ::
  "(string, string list) jsmap \<Rightarrow> EvmNonceLane \<Rightarrow> string \<Rightarrow> (string, string list) jsmap" where
  "indexEvmNonceLaneBySubject accountLaneKeys lane laneKey =
     (let accountId = js_trim (subjectId lane) in
      if accountId = [] then accountLaneKeys
      else case map_of accountLaneKeys accountId of
        None \<Rightarrow> AList.update accountId [laneKey] accountLaneKeys
      | Some keys \<Rightarrow> AList.update accountId (set_add laneKey keys) accountLaneKeys)"

definition maxBigint :: "int list \<Rightarrow> int" where
  "maxBigint vs = (case vs of [] \<Rightarrow> 0 | v # rest \<Rightarrow> foldl (\<lambda>m x. if m > x then m else x) v rest)"

definition minBigint :: "int \<Rightarrow> int \<Rightarrow> int" where
  "minBigint a b = (if a < b then a else b)"

text \<open>The larger of the running maximum (from \<open>0n\<close>) and each value.\<close>

definition highestOf :: "int list \<Rightarrow> int" where
  "highestOf vs = foldl (\<lambda>m v. if v > m then v else m) 0 vs"

definition refreshEvmLaneFromChain ::
  "EvmNonceLaneState \<Rightarrow> int \<Rightarrow> int \<Rightarrow> int list \<Rightarrow> EvmNonceLaneState" where
  "refreshEvmLaneFromChain st nowMs chainNext activeLeaseNonces =
     (let highestActiveLease = highestOf activeLeaseNonces;
          prunedInFlight = filter (\<lambda>(k, r). \<not> flight_nonce r < chainNext) (inFlight st);
          highestInFlight = highestOf (map (\<lambda>(k, r). flight_nonce r) prunedInFlight);
          hasOutstandingLocalNonce = (activeLeaseNonces \<noteq> [] \<or> prunedInFlight \<noteq> []);
          nextFromCurrent =
            (if hasOutstandingLocalNonce
             then (case nextCandidate st of None \<Rightarrow> 0 | Some n \<Rightarrow> n) else 0);
          nextFromActiveLease = (if highestActiveLease > 0 then highestActiveLease + 1 else 0);
          nextFromInFlight = (if highestInFlight > 0 then highestInFlight + 1 else 0)
      in st\<lparr>inFlight := prunedInFlight,
            nextCandidate :=
              Some (maxBigint [0, chainNext, nextFromCurrent, nextFromActiveLease, nextFromInFlight]),
            chainNonce := Some chainNext,
            lastRefreshMs := Some nowMs\<rparr>)"

text \<open>
  The source reads the active leases only when the three earlier tests fail; \<open>Inl\<close> is the decision
  taken before that read, \<open>Inr\<close> the decision as a function of the number of active leases.
\<close>

definition shouldRefreshEvmLane ::
  "EvmNonceLaneState \<Rightarrow> int \<Rightarrow> int \<Rightarrow> bool + (nat \<Rightarrow> bool)" where
  "shouldRefreshEvmLane st nowMs refreshTtlMs =
     (case nextCandidate st of None \<Rightarrow> Inl True
      | Some _ \<Rightarrow> (case lastRefreshMs st of None \<Rightarrow> Inl True
        | Some refreshed \<Rightarrow>
            if inFlight st \<noteq> [] then Inl True
            else Inr (\<lambda>activeCount. if activeCount > 0 then False
                                    else nowMs - refreshed \<ge> refreshTtlMs)))"

definition releaseEvmNonceReservationState ::
  "EvmNonceLaneState \<Rightarrow> int \<Rightarrow> int list \<Rightarrow> EvmNonceLaneState" where
  "releaseEvmNonceReservationState st nonce otherActive =
     (let st1 = st\<lparr>inFlight := AList.delete nonce (inFlight st)\<rparr>
      in if otherActive = [] \<and> inFlight st1 = [] then st1\<lparr>lastRefreshMs := None\<rparr> else st1)"

definition requireEvmTransactionHash :: "string \<Rightarrow> nonce_error + string" where
  "requireEvmTransactionHash value =
     (let normalized = js_lower (js_trim value)
      in if is_0x_hex 64 normalized then Inr normalized else Inl TxHashRequired)"

definition raiseNextCandidate :: "EvmNonceLaneState \<Rightarrow> int \<Rightarrow> EvmNonceLaneState" where
  "raiseNextCandidate st minNext =
     (case nextCandidate st of
        None \<Rightarrow> st\<lparr>nextCandidate := Some minNext\<rparr>
      | Some n \<Rightarrow> if n < minNext then st\<lparr>nextCandidate := Some minNext\<rparr> else st)"

text \<open>The state change of \<open>markEvmBroadcastAcceptedState\<close> and the transaction hash it persists.\<close>

definition markEvmBroadcastAcceptedState ::
  "EvmNonceLaneState \<Rightarrow> int \<Rightarrow> string \<Rightarrow> int \<Rightarrow> nonce_error + (string \<times> EvmNonceLaneState)" where
  "markEvmBroadcastAcceptedState st nonce rawTxHash nowMs =
     (case requireEvmTransactionHash rawTxHash of
        Inl e \<Rightarrow> Inl e
      | Inr txHash \<Rightarrow>
          Inr (txHash,
            raiseNextCandidate
              (st\<lparr>inFlight := AList.update nonce
                   \<lparr>flight_nonce = nonce, flight_txHash = Some txHash, flight_status = FlightAccepted,
                    flight_acceptedAtMs = nowMs, flight_updatedAtMs = nowMs\<rparr> (inFlight st)\<rparr>)
              (nonce + 1)))"

definition markEvmFinalizedState :: "EvmNonceLaneState \<Rightarrow> int \<Rightarrow> int \<Rightarrow> EvmNonceLaneState" where
  "markEvmFinalizedState st nonce nowMs =
     (let minNext = nonce + 1;
          st1 = st\<lparr>inFlight := AList.delete nonce (inFlight st),
                   chainNonce := Some (case chainNonce st of None \<Rightarrow> minNext
                                       | Some c \<Rightarrow> maxBigint [c, minNext])\<rparr>
      in (raiseNextCandidate st1 minNext)\<lparr>lastRefreshMs := Some nowMs\<rparr>)"

definition markEvmDroppedOrReplacedState ::
  "EvmNonceLaneState \<Rightarrow> int \<Rightarrow> EvmNonceOutcomeReason \<Rightarrow> string option \<Rightarrow> int \<Rightarrow> EvmNonceLaneState" where
  "markEvmDroppedOrReplacedState st nonce reason txHash nowMs =
     (let st1 =
        (case reason of
           OutcomeDropped \<Rightarrow>
             (let st2 = st\<lparr>inFlight := AList.delete nonce (inFlight st)\<rparr>
              in if (case chainNonce st2 of None \<Rightarrow> True | Some c \<Rightarrow> c \<le> nonce)
                 then st2\<lparr>nextCandidate :=
                        Some (case nextCandidate st2 of None \<Rightarrow> nonce
                              | Some n \<Rightarrow> minBigint n nonce)\<rparr>
                 else st2)
         | OutcomeReplaced \<Rightarrow>
             (let previous = map_of (inFlight st) nonce
              in st\<lparr>inFlight := AList.update nonce
                   \<lparr>flight_nonce = nonce,
                    flight_txHash =
                      (case txHash of Some h \<Rightarrow> (if h = [] then Option.bind previous flight_txHash
                                                  else Some h)
                       | None \<Rightarrow> Option.bind previous flight_txHash),
                    flight_status = FlightReplaced,
                    flight_acceptedAtMs =
                      (case previous of Some p \<Rightarrow> flight_acceptedAtMs p | None \<Rightarrow> nowMs),
                    flight_updatedAtMs = nowMs\<rparr> (inFlight st)\<rparr>))
      in st1\<lparr>lastRefreshMs := None\<rparr>)"

text \<open>The first in-flight record with the least nonce.\<close>

fun oldestInFlight :: "EvmInFlightNonceRecord list \<Rightarrow> (int \<times> int) option \<Rightarrow> (int \<times> int) option" where
  "oldestInFlight [] acc = acc"
| "oldestInFlight (r # rs) acc =
     oldestInFlight rs
       (case acc of
          None \<Rightarrow> Some (flight_nonce r, flight_updatedAtMs r)
        | Some (n, u) \<Rightarrow> if flight_nonce r < n then Some (flight_nonce r, flight_updatedAtMs r)
                        else Some (n, u))"

definition readBlockedEvmInFlight ::
  "EvmNonceLaneState \<Rightarrow> int \<Rightarrow> int \<Rightarrow> (int \<times> int) option" where
  "readBlockedEvmInFlight st nowMs staleInFlightThresholdMs =
     (if inFlight st = [] then None
      else case chainNonce st of
        None \<Rightarrow> None
      | Some c \<Rightarrow>
          (case oldestInFlight (map snd (inFlight st)) None of
             None \<Rightarrow> None
           | Some (oldestNonce, oldestUpdatedAtMs) \<Rightarrow>
               if c > oldestNonce then None
               else let ageMs = max 0 (nowMs - oldestUpdatedAtMs)
                    in if ageMs < staleInFlightThresholdMs then None
                       else Some (oldestNonce, ageMs)))"

definition reconcileEvmLaneState ::
  "EvmNonceLaneState \<Rightarrow> int \<Rightarrow> int \<Rightarrow> int \<Rightarrow> NonceLaneStatus" where
  "reconcileEvmLaneState st chainNext nowMs staleInFlightThresholdMs =
     (let blockedState = readBlockedEvmInFlight st nowMs staleInFlightThresholdMs
      in \<lparr>chainNextNonce = chainNext,
          unresolvedInFlightNonces = sort (map (\<lambda>(k, r). flight_nonce r) (inFlight st)),
          blocked = (blockedState \<noteq> None),
          blockedNonce = map_option fst blockedState\<rparr>)"

definition createEvmNonceLaneBlockedError :: "int \<Rightarrow> int \<Rightarrow> nonce_error" where
  "createEvmNonceLaneBlockedError nonce ageMs = LaneBlocked nonce ageMs"

text \<open>
  The candidate loop of \<open>reserveEvmNonceLeaseUnlocked\<close>: the first nonce from the chain nonce on that
  no active lease and no in-flight transaction holds.
\<close>

definition chooseEvmCandidate :: "EvmNonceLaneState \<Rightarrow> int list \<Rightarrow> int" where
  "chooseEvmCandidate st activeLeaseNonces =
     next_free (activeLeaseNonces @ map fst (inFlight st))
       (case chainNonce st of Some c \<Rightarrow> c
        | None \<Rightarrow> (case nextCandidate st of Some n \<Rightarrow> n | None \<Rightarrow> 0))"

section \<open>Lane state invariant\<close>

text \<open>
  The in-flight map is keyed by each record's own nonce, and once a chain nonce is known the next
  candidate is known too and, unless a report of a dropped transaction lowered it, at or past it.
\<close>

definition evm_state_ok :: "EvmNonceLaneState \<Rightarrow> bool" where
  "evm_state_ok st \<longleftrightarrow>
     jsmap_wf (inFlight st) \<and> (\<forall>(k, r) \<in> set (inFlight st). flight_nonce r = k) \<and>
     (lastRefreshMs st \<noteq> None \<longrightarrow> chainNonce st \<noteq> None \<and> nextCandidate st \<noteq> None)"

lemma foldl_max_ge:
  "m \<le> foldl (\<lambda>m x. if m > x then m else x) m xs \<and>
   (\<forall>x \<in> set xs. x \<le> foldl (\<lambda>m x. if m > x then m else x) m (xs :: int list))"
proof (induction xs arbitrary: m)
  case (Cons x xs)
  show ?case using Cons.IH [of "if m > x then m else x"] by (auto split: if_splits)
qed simp

lemma maxBigint_ge: "v \<in> set vs \<Longrightarrow> v \<le> maxBigint vs"
  using foldl_max_ge by (auto simp: maxBigint_def split: list.split)

lemma highestOf_ge: "v \<in> set vs \<Longrightarrow> v \<le> highestOf vs"
proof -
  have "m \<le> foldl (\<lambda>m v. if v > m then v else m) m xs \<and>
        (\<forall>x \<in> set xs. x \<le> foldl (\<lambda>m v. if v > m then v else m) m xs)" for m and xs :: "int list"
  proof (induction xs arbitrary: m)
    case (Cons x xs)
    show ?case using Cons.IH [of "if x > m then x else m"] by (auto split: if_splits)
  qed simp
  then show "v \<in> set vs \<Longrightarrow> ?thesis" by (auto simp: highestOf_def)
qed

lemma evm_state_ok_create [simp]: "evm_state_ok createEvmNonceLaneState"
  by (simp add: evm_state_ok_def createEvmNonceLaneState_def)

lemma evm_state_ok_refresh:
  "evm_state_ok st \<Longrightarrow> evm_state_ok (refreshEvmLaneFromChain st nowMs c active)"
  by (auto simp: evm_state_ok_def refreshEvmLaneFromChain_def Let_def)

lemma set_alist_delete: "set (AList.delete k m) = {(k', v) \<in> set m. k' \<noteq> k}"
  by (auto simp: AList.delete_eq)

lemma evm_state_ok_delete_flight:
  "evm_state_ok st \<Longrightarrow> evm_state_ok (st\<lparr>inFlight := AList.delete n (inFlight st)\<rparr>)"
  by (auto simp: evm_state_ok_def set_alist_delete)

lemma evm_state_ok_set_flight:
  "evm_state_ok st \<Longrightarrow> flight_nonce r = n \<Longrightarrow>
   evm_state_ok (st\<lparr>inFlight := AList.update n r (inFlight st)\<rparr>)"
  by (auto simp: evm_state_ok_def set_update_alist)

lemma evm_state_ok_raise: "evm_state_ok st \<Longrightarrow> evm_state_ok (raiseNextCandidate st n)"
  by (auto simp: evm_state_ok_def raiseNextCandidate_def split: option.split)

lemma raise_known: "nextCandidate (raiseNextCandidate st n) \<noteq> None"
  by (simp add: raiseNextCandidate_def split: option.split)

lemma evm_state_ok_release:
  "evm_state_ok st \<Longrightarrow> evm_state_ok (releaseEvmNonceReservationState st n active)"
  using evm_state_ok_delete_flight [of st n]
  by (simp add: evm_state_ok_def releaseEvmNonceReservationState_def Let_def)

lemma evm_state_ok_accept:
  "evm_state_ok st \<Longrightarrow> markEvmBroadcastAcceptedState st n h t = Inr (h', st') \<Longrightarrow> evm_state_ok st'"
  by (auto simp: markEvmBroadcastAcceptedState_def evm_state_ok_raise evm_state_ok_set_flight
      split: sum.splits)

lemma evm_state_ok_finalize: "evm_state_ok st \<Longrightarrow> evm_state_ok (markEvmFinalizedState st n t)"
  using evm_state_ok_delete_flight [of st n]
  by (auto simp: markEvmFinalizedState_def Let_def evm_state_ok_def raiseNextCandidate_def
      split: option.splits)

lemma evm_state_ok_stale: "evm_state_ok st \<Longrightarrow> evm_state_ok (st\<lparr>lastRefreshMs := None\<rparr>)"
  by (simp add: evm_state_ok_def)

lemma evm_state_ok_next: "evm_state_ok st \<Longrightarrow> evm_state_ok (st\<lparr>nextCandidate := Some n\<rparr>)"
  by (simp add: evm_state_ok_def)

lemma evm_state_ok_outcome:
  "evm_state_ok st \<Longrightarrow> evm_state_ok (markEvmDroppedOrReplacedState st n reason h t)"
  by (cases reason)
     (auto simp: markEvmDroppedOrReplacedState_def Let_def
       intro!: evm_state_ok_stale evm_state_ok_next evm_state_ok_delete_flight
         evm_state_ok_set_flight)

lemmas evm_state_ok_ops =
  evm_state_ok_create evm_state_ok_refresh evm_state_ok_release evm_state_ok_accept
  evm_state_ok_finalize evm_state_ok_outcome evm_state_ok_next evm_state_ok_set_flight evm_state_ok_delete_flight

section \<open>What the lane functions guarantee\<close>

lemma chooseEvmCandidate_fresh:
  "chooseEvmCandidate st active \<notin> set active"
  "chooseEvmCandidate st active \<notin> fst ` set (inFlight st)"
  using next_free_not_taken [of "active @ map fst (inFlight st)"]
  by (simp_all add: chooseEvmCandidate_def)

lemma chooseEvmCandidate_ge_chain: "chainNonce st = Some c \<Longrightarrow> c \<le> chooseEvmCandidate st active"
  using next_free_ge by (simp add: chooseEvmCandidate_def)

lemma chooseEvmCandidate_no_gap:
  assumes "chainNonce st = Some c" and "c \<le> n" and "n < chooseEvmCandidate st active"
  shows "n \<in> set active \<or> n \<in> fst ` set (inFlight st)"
  using next_free_least [of c n "active @ map fst (inFlight st)"] assms
  by (auto simp: chooseEvmCandidate_def)

lemma refresh_drops_only_confirmed:
  "r \<in> set (inFlight (refreshEvmLaneFromChain st t c active)) \<longleftrightarrow>
     r \<in> set (inFlight st) \<and> c \<le> flight_nonce (snd r)"
  by (cases r) (auto simp: refreshEvmLaneFromChain_def Let_def)

lemma refresh_next_covers:
  "chainNonce (refreshEvmLaneFromChain st t c active) = Some c"
  "\<exists>m. nextCandidate (refreshEvmLaneFromChain st t c active) = Some m \<and> c \<le> m \<and>
       (\<forall>n \<in> set active. 0 < n \<longrightarrow> n < m) \<and>
       (\<forall>r \<in> set (inFlight (refreshEvmLaneFromChain st t c active)).
          0 < flight_nonce (snd r) \<longrightarrow> flight_nonce (snd r) < m)"
proof -
  let ?st = "refreshEvmLaneFromChain st t c active"
  let ?pruned = "filter (\<lambda>(k, r). \<not> flight_nonce r < c) (inFlight st)"
  let ?fs = "map (\<lambda>(k, r). flight_nonce r) ?pruned"
  show "chainNonce ?st = Some c" by (simp add: refreshEvmLaneFromChain_def Let_def)
  have flights: "inFlight ?st = ?pruned" by (simp add: refreshEvmLaneFromChain_def Let_def)
  define m where "m = the (nextCandidate ?st)"
  have m: "nextCandidate ?st = Some m" by (simp add: m_def refreshEvmLaneFromChain_def Let_def)
  have le: "v \<le> m" if "v \<in> {c, if highestOf active > 0 then highestOf active + 1 else 0,
      if highestOf ?fs > 0 then highestOf ?fs + 1 else 0}" for v
    using that by (auto simp: m_def refreshEvmLaneFromChain_def Let_def intro!: maxBigint_ge)
  have "n < m" if "n \<in> set active" "0 < n" for n
    using that highestOf_ge [of n active] le [of "highestOf active + 1"] by auto
  moreover have "flight_nonce (snd r) < m" if "r \<in> set ?pruned" "0 < flight_nonce (snd r)" for r
  proof -
    have "flight_nonce (snd r) \<in> set ?fs" using that(1) by (force simp: split_beta)
    then have "flight_nonce (snd r) \<le> highestOf ?fs" by (rule highestOf_ge)
    with that(2) le [of "highestOf ?fs + 1"] show ?thesis by auto
  qed
  ultimately show "\<exists>m. nextCandidate ?st = Some m \<and> c \<le> m \<and>
       (\<forall>n \<in> set active. 0 < n \<longrightarrow> n < m) \<and>
       (\<forall>r \<in> set (inFlight ?st). 0 < flight_nonce (snd r) \<longrightarrow> flight_nonce (snd r) < m)"
    using m le [of c] unfolding flights by blast
qed

text \<open>The scan of \<^const>\<open>oldestInFlight\<close> finds a record of least nonce.\<close>

lemma oldestInFlight_spec:
  "oldestInFlight rs acc = Some (n, u) \<Longrightarrow>
   (acc = Some (n, u) \<or> (\<exists>r \<in> set rs. flight_nonce r = n \<and> flight_updatedAtMs r = u)) \<and>
   (\<forall>r \<in> set rs. n \<le> flight_nonce r) \<and> (\<forall>k v. acc = Some (k, v) \<longrightarrow> n \<le> k)"
proof (induction rs arbitrary: acc)
  case (Cons r rs)
  then show ?case
    by (cases acc) (force split: if_splits prod.splits)+
qed auto

lemma oldestInFlight_None: "oldestInFlight rs acc = None \<longleftrightarrow> rs = [] \<and> acc = None"
  by (induction rs arbitrary: acc) (auto split: option.splits if_splits)

lemma readBlockedEvmInFlight_Some:
  assumes "readBlockedEvmInFlight st nowMs limit = Some (n, age)"
  shows "\<exists>r \<in> snd ` set (inFlight st). flight_nonce r = n \<and> age = max 0 (nowMs - flight_updatedAtMs r)"
    and "\<And>r. r \<in> snd ` set (inFlight st) \<Longrightarrow> n \<le> flight_nonce r"
    and "limit \<le> age"
    and "\<exists>c. chainNonce st = Some c \<and> c \<le> n"
proof -
  from assms obtain c u where c: "chainNonce st = Some c"
    and old: "oldestInFlight (map snd (inFlight st)) None = Some (n, u)"
    and rest: "\<not> c > n" "age = max 0 (nowMs - u)" "\<not> age < limit"
    by (auto simp: readBlockedEvmInFlight_def Let_def split: if_splits option.splits prod.splits)
  from oldestInFlight_spec [OF old] rest
  show "\<exists>r \<in> snd ` set (inFlight st). flight_nonce r = n \<and> age = max 0 (nowMs - flight_updatedAtMs r)"
    and "\<And>r. r \<in> snd ` set (inFlight st) \<Longrightarrow> n \<le> flight_nonce r"
    by auto
  from rest c show "limit \<le> age" and "\<exists>c. chainNonce st = Some c \<and> c \<le> n" by auto
qed

end
