(* ===== verification/ChainTargets.thy ===== *)
theory ChainTargets
  imports NonceLaneKeys
begin

text \<open>
  Coercions of untyped values, wallet identifiers (\<open>shared-ts/src/utils/domainIds.ts\<close>), chain networks
  (\<open>core/config/chains.ts\<close>) and the construction of concrete ECDSA chain targets
  (\<open>interfaces/ecdsaChainTarget.ts\<close>).
\<close>

section \<open>Coercions\<close>

text \<open>\<open>String(v)\<close>.\<close>

fun js_String :: "jsval \<Rightarrow> string" where
  "js_String JUndefined = ''undefined''"
| "js_String JNull = ''null''"
| "js_String (JBool b) = (if b then ''true'' else ''false'')"
| "js_String (JNum n) = int_str n"
| "js_String (JOther s) = s"
| "js_String (JBigInt n) = int_str n"
| "js_String (JStr s) = s"
| "js_String (JArr vs) =
     join_with '','' (map (\<lambda>v. if v = JUndefined \<or> v = JNull then [] else js_String v) vs)"
| "js_String (JObj fs) = ''[object Object]''"

text \<open>\<open>v ?? w\<close>.\<close>

definition js_nullish :: "jsval \<Rightarrow> jsval \<Rightarrow> jsval" where
  "js_nullish v w = (if v = JUndefined \<or> v = JNull then w else v)"

text \<open>\<open>String(v || '')\<close>: falsy values give the empty string.\<close>

definition js_String_or_empty :: "jsval \<Rightarrow> string" where
  "js_String_or_empty v =
     (if v \<in> {JUndefined, JNull, JBool False, JNum 0, JBigInt 0, JStr [], JOther ''NaN''}
      then [] else js_String v)"

text \<open>
  A decimal literal of the \<open>StringToNumber\<close> grammar: digits, an optional fraction and an optional
  exponent. The value is the literal's integer value when it has one. (A literal that differs from
  an integer by less than a rounding step of a double is not rounded to it here.)
\<close>

definition decimal_literal :: "string \<Rightarrow> int option" where
  "decimal_literal s =
     (let ip = takeWhile is_digit s; r1 = dropWhile is_digit s;
          hasDot = (take 1 r1 = ''.'');
          fp = (if hasDot then takeWhile is_digit (drop 1 r1) else []);
          r2 = (if hasDot then dropWhile is_digit (drop 1 r1) else r1);
          hasExp = (take 1 r2 = ''e'' \<or> take 1 r2 = ''E'');
          er = drop 1 r2;
          eneg = (take 1 er = ''-'');
          ed = (if eneg \<or> take 1 er = ''+'' then drop 1 er else er);
          m = digits_val (ip @ fp);
          e = (if hasExp then (if eneg then - int (digits_val ed) else int (digits_val ed)) else 0)
              - int (length fp)
      in if ip @ fp = [] then None
         else if hasExp \<and> \<not> all_digits ed then None
         else if \<not> hasExp \<and> r2 \<noteq> [] then None
         else if 0 \<le> e then Some (int m * 10 ^ nat e)
         else if m mod 10 ^ nat (- e) = 0 then Some (int (m div 10 ^ nat (- e))) else None)"

definition string_to_number :: "string \<Rightarrow> int option" where
  "string_to_number raw =
     (let s = js_trim raw; p = take 2 s; u = drop 2 s in
      if s = [] then Some 0
      else if u \<noteq> [] \<and> (p = ''0x'' \<or> p = ''0X'') then map_option int (radix_val 16 0 u)
      else if u \<noteq> [] \<and> (p = ''0o'' \<or> p = ''0O'') then map_option int (radix_val 8 0 u)
      else if u \<noteq> [] \<and> (p = ''0b'' \<or> p = ''0B'') then map_option int (radix_val 2 0 u)
      else if take 1 s = ''-'' then map_option uminus (decimal_literal (drop 1 s))
      else if take 1 s = ''+'' then decimal_literal (drop 1 s)
      else decimal_literal s)"

text \<open>\<open>Number(v)\<close> when the result is a safe integer.\<close>

definition safe_int :: "int \<Rightarrow> int option" where
  "safe_int n = (if safe_integer n then Some n else None)"

definition js_Number :: "jsval \<Rightarrow> int option" where
  "js_Number v =
     (case v of
        JUndefined \<Rightarrow> None
      | JNull \<Rightarrow> Some 0
      | JBool b \<Rightarrow> Some (if b then 1 else 0)
      | JNum n \<Rightarrow> safe_int n
      | JOther s \<Rightarrow> None
      | JBigInt n \<Rightarrow> safe_int n
      | JStr s \<Rightarrow> Option.bind (string_to_number s) safe_int
      | JArr vs \<Rightarrow> Option.bind (string_to_number (js_String (JArr vs))) safe_int
      | JObj fs \<Rightarrow> None)"

section \<open>Wallet identifiers\<close>

definition parseDomainId :: "jsval \<Rightarrow> string \<Rightarrow> nonce_error + string" where
  "parseDomainId raw fieldName =
     (case raw of
        JUndefined \<Rightarrow> Inl (FieldRequired fieldName)
      | JNull \<Rightarrow> Inl (FieldRequired fieldName)
      | JStr s \<Rightarrow> (let value = js_trim s in
                  if value = [] then Inl (FieldRequired fieldName) else Inr value)
      | _ \<Rightarrow> Inl (InvalidField fieldName))"

definition hasControlCharacter :: "string \<Rightarrow> bool" where
  "hasControlCharacter value = list_ex (\<lambda>c. (of_char c :: nat) \<le> 31 \<or> (of_char c :: nat) = 127) value"

definition hasWhitespaceOrControlCharacters :: "string \<Rightarrow> bool" where
  "hasWhitespaceOrControlCharacters value =
     (list_ex js_whitespace value \<or> hasControlCharacter value)"

definition parseWalletId :: "jsval \<Rightarrow> nonce_error + string" where
  "parseWalletId raw =
     (case parseDomainId raw ''walletId'' of
        Inl e \<Rightarrow> Inl e
      | Inr value \<Rightarrow>
          if hasWhitespaceOrControlCharacters value then Inl (InvalidField ''walletId'')
          else Inr value)"

definition toWalletId :: "jsval \<Rightarrow> nonce_error + string" where
  "toWalletId value = parseWalletId value"

section \<open>Chain networks\<close>

definition SEAMS_CHAIN_NETWORKS :: "string list" where
  "SEAMS_CHAIN_NETWORKS =
     [''near-mainnet'', ''near-testnet'', ''tempo-mainnet'', ''tempo-testnet'', ''arc-mainnet'',
      ''arc-testnet'', ''ethereum-mainnet'', ''ethereum-sepolia'']"

definition isSeamsChainNetwork :: "string \<Rightarrow> bool" where
  "isSeamsChainNetwork value \<longleftrightarrow> value \<in> set SEAMS_CHAIN_NETWORKS"

definition isNearChainNetwork :: "string \<Rightarrow> bool" where
  "isNearChainNetwork value \<longleftrightarrow> isSeamsChainNetwork value \<and> take 5 value = ''near-''"

definition isTempoChainNetwork :: "string \<Rightarrow> bool" where
  "isTempoChainNetwork value \<longleftrightarrow> isSeamsChainNetwork value \<and> take 6 value = ''tempo-''"

datatype SeamsChainFamily = NearFamily | TempoFamily | EvmFamily

definition chainFamilyFromNetwork :: "string \<Rightarrow> SeamsChainFamily" where
  "chainFamilyFromNetwork network =
     (if isNearChainNetwork network then NearFamily
      else if isTempoChainNetwork network then TempoFamily else EvmFamily)"

section \<open>Chain targets\<close>

datatype BoundaryEcdsaChainFamily = BoundaryEvm | BoundaryTempo

definition nonEmptyString :: "jsval \<Rightarrow> string option" where
  "nonEmptyString value =
     (let normalized = js_trim (js_String (js_nullish value (JStr []))) in
      if normalized = [] then None else Some normalized)"

definition normalizePositiveSafeInteger :: "jsval \<Rightarrow> string \<Rightarrow> nonce_error + int" where
  "normalizePositiveSafeInteger value field =
     (case js_Number value of
        None \<Rightarrow> Inl (InvalidField field)
      | Some n \<Rightarrow> if n \<le> 0 then Inl (InvalidField field) else Inr n)"

definition defaultNetworkSlug :: "BoundaryEcdsaChainFamily \<Rightarrow> int \<Rightarrow> string" where
  "defaultNetworkSlug kind c =
     (case kind of BoundaryTempo \<Rightarrow> ''tempo-'' @ int_str c | BoundaryEvm \<Rightarrow> ''evm-'' @ int_str c)"

definition thresholdEcdsaChainTargetFromChainFamily ::
  "BoundaryEcdsaChainFamily \<Rightarrow> jsval \<Rightarrow> jsval \<Rightarrow> nonce_error + chain_target" where
  "thresholdEcdsaChainTargetFromChainFamily chain chainIdV networkSlugV =
     (case normalizePositiveSafeInteger chainIdV ''chainId'' of
        Inl e \<Rightarrow> Inl e
      | Inr c \<Rightarrow>
          (let slug = (case nonEmptyString networkSlugV of Some s \<Rightarrow> s
                       | None \<Rightarrow> defaultNetworkSlug chain c)
           in Inr (case chain of BoundaryTempo \<Rightarrow> TempoTarget c slug | BoundaryEvm \<Rightarrow> EvmTarget c slug)))"

definition thresholdEcdsaChainTargetFromRequest ::
  "(string \<times> jsval) list \<Rightarrow> nonce_error + chain_target" where
  "thresholdEcdsaChainTargetFromRequest args =
     (let rawKind = js_lower (js_trim (js_String
            (js_nullish (jfield args ''kind'') (js_nullish (jfield args ''chain'') (JStr [])))));
          namespace = js_lower (js_trim (js_String
            (js_nullish (jfield args ''namespace'') (JStr ''eip155''))))
      in if rawKind \<noteq> ''evm'' \<and> rawKind \<noteq> ''tempo'' then Inl (InvalidField ''chainTarget'')
         else if rawKind = ''evm'' \<and> namespace \<noteq> ''eip155'' then Inl (InvalidField ''namespace'')
         else thresholdEcdsaChainTargetFromChainFamily
                (if rawKind = ''tempo'' then BoundaryTempo else BoundaryEvm)
                (jfield args ''chainId'') (jfield args ''networkSlug''))"

text \<open>A configured chain: its network name and, for the ECDSA families, its chain id.\<close>

record SeamsChainConfig =
  cfg_network :: string
  cfg_chainId :: jsval
  cfg_rpcUrl :: string

definition boundary_family :: "SeamsChainFamily \<Rightarrow> BoundaryEcdsaChainFamily option" where
  "boundary_family f =
     (case f of NearFamily \<Rightarrow> None | TempoFamily \<Rightarrow> Some BoundaryTempo | EvmFamily \<Rightarrow> Some BoundaryEvm)"

definition thresholdEcdsaChainTargetFromConfig :: "SeamsChainConfig \<Rightarrow> nonce_error + chain_target" where
  "thresholdEcdsaChainTargetFromConfig chain =
     (case boundary_family (chainFamilyFromNetwork (cfg_network chain)) of
        None \<Rightarrow> Inl (InvalidField ''network'')
      | Some f \<Rightarrow> thresholdEcdsaChainTargetFromChainFamily f (cfg_chainId chain)
                   (JStr (cfg_network chain)))"

text \<open>One target per configured ECDSA chain, the first of each key.\<close>

fun configuredTargetsLoop ::
  "SeamsChainConfig list \<Rightarrow> string list \<Rightarrow> chain_target list \<Rightarrow> nonce_error + chain_target list" where
  "configuredTargetsLoop [] seen targets = Inr targets"
| "configuredTargetsLoop (chain # rest) seen targets =
     (if boundary_family (chainFamilyFromNetwork (cfg_network chain)) = None
      then configuredTargetsLoop rest seen targets
      else case thresholdEcdsaChainTargetFromConfig chain of
        Inl e \<Rightarrow> Inl e
      | Inr target \<Rightarrow>
          (let key = thresholdEcdsaChainTargetKey target in
           if key \<in> set seen then configuredTargetsLoop rest seen targets
           else configuredTargetsLoop rest (set_add key seen) (targets @ [target])))"

definition configuredThresholdEcdsaChainTargets ::
  "SeamsChainConfig list \<Rightarrow> nonce_error + chain_target list" where
  "configuredThresholdEcdsaChainTargets cfgs = configuredTargetsLoop cfgs [] []"

definition thresholdEcdsaChainTargetFromConfiguredRequest ::
  "BoundaryEcdsaChainFamily \<Rightarrow> SeamsChainConfig list \<Rightarrow> jsval \<Rightarrow> jsval \<Rightarrow> nonce_error + chain_target" where
  "thresholdEcdsaChainTargetFromConfiguredRequest family cfgs explicitV networkSlugV =
     (case (if explicitV = JUndefined \<or> explicitV = JNull then Inr None
            else map_sum id Some (normalizePositiveSafeInteger explicitV ''chainId'')) of
        Inl e \<Rightarrow> Inl e
      | Inr explicitChainId \<Rightarrow>
          (let fallback =
             (case explicitChainId of
                None \<Rightarrow> Inl (FieldRequired ''chainId'')
              | Some c \<Rightarrow> thresholdEcdsaChainTargetFromChainFamily family (JNum c) networkSlugV)
           in case find (\<lambda>chain.
                boundary_family (chainFamilyFromNetwork (cfg_network chain)) = Some family \<and>
                (case explicitChainId of None \<Rightarrow> True
                 | Some c \<Rightarrow> js_Number (cfg_chainId chain) = Some c)) cfgs of
             None \<Rightarrow> fallback
           | Some chain \<Rightarrow>
               (case thresholdEcdsaChainTargetFromConfig chain of
                  Inl e \<Rightarrow> Inl e
                | Inr target \<Rightarrow>
                    if explicitChainId = None \<or> explicitChainId = Some (chainId target)
                    then Inr target else fallback)))"

section \<open>Lemmas\<close>

text \<open>A chain target the constructors produce, and what is stored of one.\<close>

definition chain_target_ok :: "chain_target \<Rightarrow> bool" where
  "chain_target_ok t \<longleftrightarrow>
     0 < chainId t \<and> safe_integer (chainId t) \<and> networkSlug t \<noteq> [] \<and> js_trim (networkSlug t) = networkSlug t"

definition chain_target_object :: "chain_target \<Rightarrow> (string \<times> jsval) list" where
  "chain_target_object t =
     (case t of
        EvmTarget c s \<Rightarrow> [(''kind'', JStr ''evm''), (''namespace'', JStr ''eip155''),
                           (''chainId'', JNum c), (''networkSlug'', JStr s)]
      | TempoTarget c s \<Rightarrow> [(''kind'', JStr ''tempo''), (''chainId'', JNum c), (''networkSlug'', JStr s)])"

lemma js_Number_safe: "js_Number v = Some n \<Longrightarrow> safe_integer n"
  by (auto simp: js_Number_def safe_int_def safe_integer_def split: jsval.splits if_splits bind_splits)

lemma js_trim_ascii_prefix: "js_trim ''evm'' = ''evm''" "js_trim ''tempo'' = ''tempo''" "js_trim ''eip155'' = ''eip155''"
  by (simp_all add: js_trim_def js_whitespace_def)

lemma js_lower_kinds: "js_lower ''evm'' = ''evm''" "js_lower ''tempo'' = ''tempo''" "js_lower ''eip155'' = ''eip155''"
  by (simp_all add: js_lower_def js_lower_char_def Let_def)

lemma list_all_js_nonspace_slug:
  "js_trim (''tempo-'' @ int_str c) = ''tempo-'' @ int_str c"
  "js_trim (''evm-'' @ int_str c) = ''evm-'' @ int_str c"
proof -
  have "list_all (\<lambda>x. \<not> js_whitespace x) (int_str c)"
    by (auto simp: int_str_def list_all_iff
        dest: is_digit_not_whitespace [OF list_all_iff [THEN iffD1, OF nat_str_digits, THEN bspec]])
  then show "js_trim (''tempo-'' @ int_str c) = ''tempo-'' @ int_str c"
    "js_trim (''evm-'' @ int_str c) = ''evm-'' @ int_str c"
    by (intro js_trim_no_whitespace; simp add: js_whitespace_def)+
qed

lemma FromChainFamily_ok:
  assumes "thresholdEcdsaChainTargetFromChainFamily f c s = Inr t"
  shows "chain_target_ok t"
proof -
  from assms obtain n where n: "js_Number c = Some n" "0 < n"
    and t: "t = (case f of BoundaryTempo \<Rightarrow> TempoTarget n
              (case nonEmptyString s of Some s \<Rightarrow> s | None \<Rightarrow> defaultNetworkSlug f n)
            | BoundaryEvm \<Rightarrow> EvmTarget n
              (case nonEmptyString s of Some s \<Rightarrow> s | None \<Rightarrow> defaultNetworkSlug f n))"
    by (auto simp: thresholdEcdsaChainTargetFromChainFamily_def normalizePositiveSafeInteger_def Let_def
        split: sum.splits option.splits if_splits)
  have slug: "x \<noteq> [] \<and> js_trim x = x" if "nonEmptyString s = Some x" for x
    using that by (auto simp: nonEmptyString_def Let_def split: if_splits)
  from n t slug js_Number_safe [OF n(1)] show ?thesis
    by (cases f) (auto simp: chain_target_ok_def defaultNetworkSlug_def
        list_all_js_nonspace_slug [unfolded append_Cons append_Nil] split: option.split)
qed

text \<open>The stored object of a well-formed target parses back to it.\<close>

lemma chain_target_roundtrip:
  "chain_target_ok t \<Longrightarrow> thresholdEcdsaChainTargetFromRequest (chain_target_object t) = Inr t"
  by (cases t)
     (simp_all add: thresholdEcdsaChainTargetFromRequest_def chain_target_object_def Let_def js_nullish_def
       js_trim_ascii_prefix js_lower_kinds thresholdEcdsaChainTargetFromChainFamily_def
       normalizePositiveSafeInteger_def js_Number_def safe_int_def chain_target_ok_def nonEmptyString_def)

definition targets_ok :: "string list \<Rightarrow> chain_target list \<Rightarrow> bool" where
  "targets_ok seen targets \<longleftrightarrow>
     set (map thresholdEcdsaChainTargetKey targets) \<subseteq> set seen \<and>
     distinct (map thresholdEcdsaChainTargetKey targets) \<and> list_all chain_target_ok targets"

lemma targets_ok_snoc:
  "targets_ok seen targets \<Longrightarrow> chain_target_ok t \<Longrightarrow> thresholdEcdsaChainTargetKey t \<notin> set seen \<Longrightarrow>
   targets_ok (set_add (thresholdEcdsaChainTargetKey t) seen) (targets @ [t])"
  by (auto simp: targets_ok_def)

lemma FromConfig_ok: "thresholdEcdsaChainTargetFromConfig c = Inr t \<Longrightarrow> chain_target_ok t"
  by (auto simp: thresholdEcdsaChainTargetFromConfig_def split: option.splits dest: FromChainFamily_ok)

lemma configuredTargetsLoop_ok:
  "configuredTargetsLoop cfgs seen targets = Inr ts \<Longrightarrow> targets_ok seen targets \<Longrightarrow>
   \<exists>seen'. targets_ok seen' ts"
proof (induction cfgs arbitrary: seen targets)
  case (Cons chain rest)
  show ?case
  proof (cases "boundary_family (chainFamilyFromNetwork (cfg_network chain)) = None")
    case False
    with Cons.prems(1) obtain t where t: "thresholdEcdsaChainTargetFromConfig chain = Inr t"
      by (auto split: sum.splits)
    let ?k = "thresholdEcdsaChainTargetKey t"
    show ?thesis
    proof (cases "?k \<in> set seen")
      case True
      with False t Cons.prems show ?thesis by (intro Cons.IH [of seen targets]) (auto simp: Let_def)
    next
      case fresh: False
      with False t Cons.prems show ?thesis
        by (intro Cons.IH [of "set_add ?k seen" "targets @ [t]"])
           (auto simp: Let_def targets_ok_snoc FromConfig_ok)
    qed
  qed (use Cons in auto)
qed auto

end
