(* ===== verification/NearNonceLanes.thy ===== *)
theory NearNonceLanes
  imports EvmNonceLanes ChainTargets
begin

text \<open>
  The NEAR lane state of \<open>nonce/nearNonceLane.ts\<close> (with \<open>nonceUtils.ts\<close> and
  \<open>nearNonceLaneIdentity.ts\<close>): one access-key subject with its transaction context, the locally
  reserved nonces and the accepted transactions. NEAR nonces are decimal strings, as in the source.
  The functions are written over the lane state alone; the answers of the RPC client are arguments.
  An operation runs to completion, so a lookup promise that is still in the state when an operation
  starts is settled; \<open>Unsettled\<close> only occurs inside a fetch.
\<close>

section \<open>Values of the RPC client\<close>

definition normalizeBigint :: "jsval \<Rightarrow> int option" where
  "normalizeBigint value =
     (case value of
        JBigInt n \<Rightarrow> Some n
      | JNum n \<Rightarrow> Some n
      | _ \<Rightarrow> (let normalized = js_trim (js_String_or_empty value)
             in if all_digits normalized then Some (int (digits_val normalized)) else None))"

definition normalizeSessionStatusRequiredString :: "string \<Rightarrow> string \<Rightarrow> nonce_error + string" where
  "normalizeSessionStatusRequiredString value label =
     (let normalized = js_trim value in if normalized = [] then Inl (FieldRequired label) else Inr normalized)"

fun js_includes :: "string \<Rightarrow> string \<Rightarrow> bool" where
  "js_includes [] pat = (pat = [])"
| "js_includes (c # cs) pat = (take (length pat) (c # cs) = pat \<or> js_includes cs pat)"

datatype key_permission =
    FullAccess
  | FunctionCall (fc_allowance: string) (fc_receiver: string) (fc_methods: "string list")

record AccessKeyView =
  ak_nonce :: int
  ak_permission :: key_permission
  ak_block_hash :: string
  ak_block_height :: int

definition string_field :: "(string \<times> jsval) list \<Rightarrow> string \<Rightarrow> string" where
  "string_field fs k = (case jfield fs k of JStr s \<Rightarrow> s | _ \<Rightarrow> '''')"

definition normalizeAccessKeyPermission :: "jsval \<Rightarrow> key_permission" where
  "normalizeAccessKeyPermission value =
     (case value of
        JObj fs \<Rightarrow>
          (case jfield fs ''FunctionCall'' of
             JObj fc \<Rightarrow> FunctionCall (string_field fc ''allowance'') (string_field fc ''receiver_id'')
               (case jfield fc ''method_names'' of
                  JArr vs \<Rightarrow> List.map_filter (\<lambda>v. case v of JStr s \<Rightarrow> Some s | _ \<Rightarrow> None) vs
                | _ \<Rightarrow> [])
           | JArr _ \<Rightarrow> FunctionCall '''' '''' []
           | _ \<Rightarrow> FullAccess)
      | _ \<Rightarrow> FullAccess)"

definition isAccessKeyViewLike :: "jsval \<Rightarrow> bool" where
  "isAccessKeyViewLike value =
     (case value of
        JObj fs \<Rightarrow> normalizeBigint (jfield fs ''nonce'') \<noteq> None
      | _ \<Rightarrow> False)"

text \<open>Only applied to values that passed \<^const>\<open>isAccessKeyViewLike\<close>; \<open>None\<close> is its throw.\<close>

definition normalizeAccessKeyView :: "jsval \<Rightarrow> AccessKeyView option" where
  "normalizeAccessKeyView value =
     (case value of
        JObj fs \<Rightarrow>
          (case normalizeBigint (jfield fs ''nonce'') of
             None \<Rightarrow> None
           | Some n \<Rightarrow> Some
               \<lparr>ak_nonce = n,
                ak_permission = normalizeAccessKeyPermission (jfield fs ''permission''),
                ak_block_hash = string_field fs ''block_hash'',
                ak_block_height = (case jfield fs ''block_height'' of JNum h \<Rightarrow> h | _ \<Rightarrow> 0)\<rparr>)
      | _ \<Rightarrow> None)"

definition makePlaceholderAccessKey :: AccessKeyView where
  "makePlaceholderAccessKey =
     \<lparr>ak_nonce = 0, ak_permission = FullAccess, ak_block_hash = '''', ak_block_height = 0\<rparr>"

text \<open>\<open>isBlockResultLike\<close>, with the height and hash the caller then reads.\<close>

definition isBlockResultLike :: "jsval \<Rightarrow> (string \<times> string) option" where
  "isBlockResultLike value =
     (case value of
        JObj fs \<Rightarrow>
          (case jfield fs ''header'' of
             JObj h \<Rightarrow>
               (case jfield h ''hash'' of
                  JStr hash \<Rightarrow>
                    if jfield h ''height'' = JUndefined then None
                    else Some (js_String (jfield h ''height''), hash)
                | _ \<Rightarrow> None)
           | _ \<Rightarrow> None)
      | _ \<Rightarrow> None)"

record TransactionContext =
  ctx_nearPublicKeyStr :: string
  ctx_accessKeyInfo :: AccessKeyView
  ctx_nextNonce :: string
  ctx_txBlockHeight :: string
  ctx_txBlockHash :: string

section \<open>The lane state\<close>

record NearAccessKeySubject =
  subj_walletId :: string
  subj_nearAccountId :: string
  subj_publicKey :: string

record NearNonceReadyContext =
  ready_transactionContext :: TransactionContext
  ready_lastNonceUpdateMs :: int
  ready_lastBlockHeightUpdateMs :: int

datatype lookup_promise = Unsettled | Settled "nonce_error + TransactionContext"

datatype NearNonceLaneLifecycle =
    Uninitialized
  | AccessKeyBound NearAccessKeySubject "NearNonceReadyContext option"
  | AccessKeyLookupPending NearAccessKeySubject "NearNonceReadyContext option" lookup_promise
  | ImplicitUnfunded NearAccessKeySubject
  | LookupFailed NearAccessKeySubject string

record NearInFlightNonceRecord =
  nflight_nonce :: int
  nflight_txHash :: string
  nflight_acceptedAtMs :: int
  nflight_updatedAtMs :: int

record NearNonceLaneState =
  lifecycle :: NearNonceLaneLifecycle
  inflightId :: nat
  refreshTimer :: bool
  prefetchTimer :: bool
  reservedNonces :: "string list"
  lastReservedNonce :: "string option"
  nearInFlight :: "(string, NearInFlightNonceRecord) jsmap"

type_synonym 'a near_m = "(NearNonceLaneState, nonce_error, 'a) jsm"

definition createNearNonceLaneState :: NearNonceLaneState where
  "createNearNonceLaneState =
     \<lparr>lifecycle = Uninitialized, inflightId = 0, refreshTimer = False, prefetchTimer = False,
      reservedNonces = [], lastReservedNonce = None, nearInFlight = []\<rparr>"

definition readNearAccessKeySubject :: "NearNonceLaneState \<Rightarrow> NearAccessKeySubject option" where
  "readNearAccessKeySubject st =
     (case lifecycle st of
        Uninitialized \<Rightarrow> None
      | AccessKeyBound s _ \<Rightarrow> Some s
      | AccessKeyLookupPending s _ _ \<Rightarrow> Some s
      | ImplicitUnfunded s \<Rightarrow> Some s
      | LookupFailed s _ \<Rightarrow> Some s)"

definition requireNearAccessKeySubject :: "NearNonceLaneState \<Rightarrow> nonce_error + NearAccessKeySubject" where
  "requireNearAccessKeySubject st =
     (case readNearAccessKeySubject st of None \<Rightarrow> Inl NearAccessKeyNotInitialized | Some s \<Rightarrow> Inr s)"

definition readNearReadyContext :: "NearNonceLaneLifecycle \<Rightarrow> NearNonceReadyContext option" where
  "readNearReadyContext lc =
     (case lc of
        AccessKeyBound _ c \<Rightarrow> c
      | AccessKeyLookupPending _ c _ \<Rightarrow> c
      | _ \<Rightarrow> None)"

definition readNearTransactionContext :: "NearNonceLaneState \<Rightarrow> TransactionContext option" where
  "readNearTransactionContext st = map_option ready_transactionContext (readNearReadyContext (lifecycle st))"

definition hasNearTransactionContext :: "NearNonceLaneState \<Rightarrow> bool" where
  "hasNearTransactionContext st \<longleftrightarrow> readNearTransactionContext st \<noteq> None"

definition readNearActiveAccountId :: "NearNonceLaneState \<Rightarrow> string option" where
  "readNearActiveAccountId st = map_option subj_nearAccountId (readNearAccessKeySubject st)"

definition readNearActivePublicKey :: "NearNonceLaneState \<Rightarrow> string option" where
  "readNearActivePublicKey st = map_option subj_publicKey (readNearAccessKeySubject st)"

definition readNearInflightFetch :: "NearNonceLaneState \<Rightarrow> lookup_promise option" where
  "readNearInflightFetch st =
     (case lifecycle st of AccessKeyLookupPending _ _ p \<Rightarrow> Some p | _ \<Rightarrow> None)"

definition hasNearInflightFetch :: "NearNonceLaneState \<Rightarrow> bool" where
  "hasNearInflightFetch st \<longleftrightarrow> readNearInflightFetch st \<noteq> None"

definition setNearAccessKeyReady ::
  "NearAccessKeySubject \<Rightarrow> TransactionContext \<Rightarrow> int \<Rightarrow> bool \<Rightarrow> bool \<Rightarrow>
   NearNonceLaneState \<Rightarrow> NearNonceLaneState" where
  "setNearAccessKeyReady subject ctx nowMs updateNonce updateBlock st =
     (let previous = readNearReadyContext (lifecycle st)
      in st\<lparr>lifecycle := AccessKeyBound subject (Some
           \<lparr>ready_transactionContext = ctx,
            ready_lastNonceUpdateMs =
              (if updateNonce then nowMs
               else case previous of Some p \<Rightarrow> ready_lastNonceUpdateMs p | None \<Rightarrow> nowMs),
            ready_lastBlockHeightUpdateMs =
              (if updateBlock then nowMs
               else case previous of Some p \<Rightarrow> ready_lastBlockHeightUpdateMs p | None \<Rightarrow> nowMs)\<rparr>)\<rparr>)"

definition setNearAccessKeyLookupPending ::
  "NearAccessKeySubject \<Rightarrow> lookup_promise \<Rightarrow> NearNonceLaneState \<Rightarrow> NearNonceLaneState" where
  "setNearAccessKeyLookupPending subject p st =
     st\<lparr>lifecycle := AccessKeyLookupPending subject (readNearReadyContext (lifecycle st)) p\<rparr>"

definition clearNearPrefetchTimer :: "NearNonceLaneState \<Rightarrow> NearNonceLaneState" where
  "clearNearPrefetchTimer st = st\<lparr>prefetchTimer := False\<rparr>"

definition clearNearTransactionContext :: "NearNonceLaneState \<Rightarrow> NearNonceLaneState" where
  "clearNearTransactionContext st =
     clearNearPrefetchTimer
       (st\<lparr>lifecycle := (case readNearAccessKeySubject st of
                          Some s \<Rightarrow> AccessKeyBound s None | None \<Rightarrow> Uninitialized),
           reservedNonces := [], lastReservedNonce := None, nearInFlight := [],
           refreshTimer := False\<rparr>)"

definition clearNearAccessKeyState :: "NearNonceLaneState \<Rightarrow> NearNonceLaneState" where
  "clearNearAccessKeyState st = clearNearTransactionContext (st\<lparr>lifecycle := Uninitialized\<rparr>)"

definition nearAccessKeySubjectsMatch ::
  "NearAccessKeySubject option \<Rightarrow> NearAccessKeySubject \<Rightarrow> bool" where
  "nearAccessKeySubjectsMatch l r \<longleftrightarrow>
     (case l of None \<Rightarrow> False
      | Some s \<Rightarrow> subj_walletId s = subj_walletId r \<and> subj_nearAccountId s = subj_nearAccountId r \<and>
                 subj_publicKey s = subj_publicKey r)"

definition initializeNearAccessKeyState :: "string \<Rightarrow> string \<Rightarrow> string \<Rightarrow> unit near_m" where
  "initializeNearAccessKeyState wId accId pk =
     jbind (jlift (normalizeSessionStatusRequiredString accId ''nearAccountId'')) (\<lambda>acc.
     jbind (jlift (normalizeSessionStatusRequiredString pk ''publicKey'')) (\<lambda>key.
     jbind (jlift (normalizeSessionStatusRequiredString wId ''walletId'')) (\<lambda>w.
       let subject = \<lparr>subj_walletId = w, subj_nearAccountId = acc, subj_publicKey = key\<rparr> in
       jmod (\<lambda>st.
         if nearAccessKeySubjectsMatch (readNearAccessKeySubject st) subject then st
         else clearNearTransactionContext (st\<lparr>lifecycle := AccessKeyBound subject None\<rparr>)))))"

definition commitNearTransactionContextForState ::
  "string \<Rightarrow> string \<Rightarrow> string \<Rightarrow> TransactionContext \<Rightarrow> int \<Rightarrow> unit near_m" where
  "commitNearTransactionContextForState wId accId pk ctx nowMs =
     jseq (initializeNearAccessKeyState wId accId pk)
       (jbind (jget requireNearAccessKeySubject) (\<lambda>r. jbind (jlift r) (\<lambda>subject.
          jmod (setNearAccessKeyReady subject ctx nowMs True True))))"

section \<open>Reserving and releasing nonces\<close>

definition bigint_of :: "string \<Rightarrow> nonce_error + int" where
  "bigint_of s = (case js_BigInt s of None \<Rightarrow> Inl (InvalidBigInt s) | Some n \<Rightarrow> Inr n)"

text \<open>\<open>s ? BigInt(s) + k : 0n\<close> for a nullable string.\<close>

definition bigint_plus_or_zero :: "string option \<Rightarrow> int \<Rightarrow> nonce_error + int" where
  "bigint_plus_or_zero s k =
     (case s of None \<Rightarrow> Inr 0
      | Some x \<Rightarrow> if x = [] then Inr 0
                 else (case bigint_of x of Inl e \<Rightarrow> Inl e | Inr n \<Rightarrow> Inr (n + k)))"

text \<open>The numbers whose decimal spelling is in a set of strings.\<close>

definition canonical_ints :: "string list \<Rightarrow> int list" where
  "canonical_ints ss =
     List.map_filter (\<lambda>s. case js_BigInt s of Some i \<Rightarrow> if int_str i = s then Some i else None
                     | None \<Rightarrow> None) ss"

fun planNearNonces :: "int list \<Rightarrow> nat \<Rightarrow> int \<Rightarrow> int list" where
  "planNearNonces taken 0 candidate = []"
| "planNearNonces taken (Suc k) candidate =
     (let c = next_free taken candidate in c # planNearNonces taken k (c + 1))"

text \<open>The context test of \<open>reserveNearNoncesFromState\<close>, made before the active leases are read.\<close>

definition requireNearTransactionContext :: "NearNonceLaneState \<Rightarrow> nonce_error + TransactionContext" where
  "requireNearTransactionContext st =
     (case readNearTransactionContext st of None \<Rightarrow> Inl NearContextMissing | Some c \<Rightarrow> Inr c)"

definition reserveNearNoncesFromState ::
  "TransactionContext \<Rightarrow> int \<Rightarrow> int list \<Rightarrow> string list near_m" where
  "reserveNearNoncesFromState ctx countInput activeDurableNonces =
     (if max 0 countInput \<le> 0 then jret []
      else
        jbind (jget lastReservedNonce) (\<lambda>lastReserved.
        jbind (jlift (bigint_plus_or_zero lastReserved 1)) (\<lambda>fromReserved.
        jbind (jlift (bigint_of (ctx_nextNonce ctx))) (\<lambda>fromContext.
        jbind (jget reservedNonces) (\<lambda>reserved.
          let highestDurable = highestOf activeDurableNonces;
              start = maxBigint [fromReserved, fromContext,
                        if highestDurable > 0 then highestDurable + 1 else 0];
              planned = map int_str
                (planNearNonces (canonical_ints reserved @ activeDurableNonces) (nat countInput) start)
          in jseq (jmod (\<lambda>st. st\<lparr>reservedNonces := fold set_add planned (reservedNonces st),
                               lastReservedNonce := Some (last planned)\<rparr>))
               (jret planned))))))"

fun maxParsed :: "string list \<Rightarrow> int option \<Rightarrow> int option" where
  "maxParsed [] acc = acc"
| "maxParsed (s # ss) acc =
     maxParsed ss
       (case js_BigInt s of
          None \<Rightarrow> acc
        | Some n \<Rightarrow> (case acc of None \<Rightarrow> Some n | Some m \<Rightarrow> if n > m then Some n else Some m))"

definition computeLastReservedNonce :: "string list \<Rightarrow> string option" where
  "computeLastReservedNonce reserved = map_option int_str (maxParsed reserved None)"

definition releaseNearNonceFromState :: "string \<Rightarrow> NearNonceLaneState \<Rightarrow> NearNonceLaneState" where
  "releaseNearNonceFromState nonce st =
     (if nonce \<notin> set (reservedNonces st) then st
      else let rest = removeAll nonce (reservedNonces st)
           in st\<lparr>reservedNonces := rest, lastReservedNonce := computeLastReservedNonce rest\<rparr>)"

definition pruneReservedNearNonces :: "int \<Rightarrow> string list \<Rightarrow> string list \<times> string option" where
  "pruneReservedNearNonces chainN reserved =
     (let next = filter (\<lambda>s. case js_BigInt s of None \<Rightarrow> False | Some n \<Rightarrow> \<not> n \<le> chainN) reserved
      in (next, map_option int_str (maxParsed next None)))"

definition pruneReservedIfAny :: "int \<Rightarrow> NearNonceLaneState \<Rightarrow> NearNonceLaneState" where
  "pruneReservedIfAny chainN st =
     (if reservedNonces st = [] then st
      else let (next, lastR) = pruneReservedNearNonces chainN (reservedNonces st)
           in st\<lparr>reservedNonces := next, lastReservedNonce := lastR\<rparr>)"

definition markNearBroadcastAcceptedState :: "string \<Rightarrow> string \<Rightarrow> int \<Rightarrow> unit near_m" where
  "markNearBroadcastAcceptedState nonceStr txHash nowMs =
     jbind (jlift (bigint_of nonceStr)) (\<lambda>n.
       jmod (\<lambda>st. st\<lparr>nearInFlight := AList.update (int_str n)
         \<lparr>nflight_nonce = n, nflight_txHash = txHash,
          nflight_acceptedAtMs = nowMs, nflight_updatedAtMs = nowMs\<rparr> (nearInFlight st)\<rparr>))"

section \<open>Reading the chain\<close>

definition isMissingNearAccessKeyError :: "string \<Rightarrow> bool" where
  "isMissingNearAccessKeyError message =
     (let normalized = js_lower message in
      list_ex (js_includes normalized)
        [''does not exist while viewing'', ''access key not found'', ''unknown public key'',
         ''unknown_account'', ''unknown account'', ''unknown_access_key'', ''does not exist'',
         ''doesn'' @ [CHR 0x27] @ ''t exist''])"

datatype near_tx_outcome = TxFinalized | TxMissing | TxUnknown

definition readNearTxOutcome :: "string + unit \<Rightarrow> near_tx_outcome" where
  "readNearTxOutcome answer =
     (case answer of
        Inr _ \<Rightarrow> TxFinalized
      | Inl message \<Rightarrow>
          if list_ex (js_includes (js_lower message))
               [''unknown transaction'', ''does not exist'', ''not found'', ''not found in storage'']
          then TxMissing else TxUnknown)"

definition isImplicitNearAccountId :: "string \<Rightarrow> bool" where
  "isImplicitNearAccountId s \<longleftrightarrow> length s = 64 \<and> list_all is_lower_hex s"

definition nextNonceOf :: "TransactionContext option \<Rightarrow> string option" where
  "nextNonceOf c = map_option ctx_nextNonce c"

text \<open>The context update that ends \<open>reconcileNearLaneState\<close>.\<close>

definition finishNearReconcile :: "NearNonceLane \<Rightarrow> AccessKeyView \<Rightarrow> int \<Rightarrow> unit near_m" where
  "finishNearReconcile lane accessKey nowMs =
     jbind (jget readNearTransactionContext) (\<lambda>previousContext.
     jbind (jget lastReservedNonce) (\<lambda>lastReserved.
     jbind (jlift (bigint_plus_or_zero (nextNonceOf previousContext) 0)) (\<lambda>fromContext.
     jbind (jlift (bigint_plus_or_zero lastReserved 1)) (\<lambda>fromReserved.
       let candidateNext = maxBigint [ak_nonce accessKey + 1, fromContext, fromReserved];
           base = (case previousContext of
             Some p \<Rightarrow> p
           | None \<Rightarrow> \<lparr>ctx_nearPublicKeyStr = publicKey lane, ctx_accessKeyInfo = accessKey,
                      ctx_nextNonce = '''', ctx_txBlockHeight = ''0'', ctx_txBlockHash = ''''\<rparr>)
       in jmod (\<lambda>st. pruneReservedIfAny (ak_nonce accessKey)
            (setNearAccessKeyReady
              \<lparr>subj_walletId = walletId lane, subj_nearAccountId = nearAccountId lane,
               subj_publicKey = publicKey lane\<rparr>
              (base\<lparr>ctx_accessKeyInfo := accessKey, ctx_nextNonce := int_str candidateNext\<rparr>)
              nowMs True False st))))))"

text \<open>
  \<open>updateNearNonceFromBlockchainState\<close>: the context after a finalized transaction. The whole body is
  in a \<open>try\<close>; a missing access key still moves the next nonce past the finalized one, any other
  error is swallowed.
\<close>

definition contextWithNonce ::
  "NearAccessKeySubject \<Rightarrow> TransactionContext option \<Rightarrow> AccessKeyView option \<Rightarrow> int \<Rightarrow> TransactionContext" where
  "contextWithNonce subject previousContext accessKey next =
     (case previousContext of
        Some p \<Rightarrow> (case accessKey of
            Some a \<Rightarrow> p\<lparr>ctx_accessKeyInfo := a, ctx_nextNonce := int_str next\<rparr>
          | None \<Rightarrow> p\<lparr>ctx_nextNonce := int_str next\<rparr>)
      | None \<Rightarrow> \<lparr>ctx_nearPublicKeyStr = subj_publicKey subject,
                 ctx_accessKeyInfo = (case accessKey of Some a \<Rightarrow> a | None \<Rightarrow> makePlaceholderAccessKey),
                 ctx_nextNonce = int_str next, ctx_txBlockHeight = ''0'', ctx_txBlockHash = ''''\<rparr>)"

definition accessKeyFromAnswer :: "string \<Rightarrow> string + jsval \<Rightarrow> nonce_error + AccessKeyView" where
  "accessKeyFromAnswer accountId answer =
     (case answer of
        Inl message \<Rightarrow> Inl (ExternalError message)
      | Inr raw \<Rightarrow> (case normalizeAccessKeyView raw of
          None \<Rightarrow> Inl (AccessKeyInvalid accountId)
        | Some a \<Rightarrow> Inr a))"

text \<open>The message of an error as \<open>errorMessage\<close> reads it, where the code matches on it.\<close>

definition error_message :: "nonce_error \<Rightarrow> string" where
  "error_message e =
     (case e of
        ExternalError m \<Rightarrow> m
      | AccessKeyInvalid acc \<Rightarrow> ''Access key not found or invalid for account '' @ acc
      | _ \<Rightarrow> '''')"

definition updateNearNonceFromBlockchainState ::
  "string + jsval \<Rightarrow> string \<Rightarrow> int \<Rightarrow> unit near_m" where
  "updateNearNonceFromBlockchainState answer actualNonce nowMs =
     jbind (jget requireNearAccessKeySubject) (\<lambda>r. jbind (jlift r) (\<lambda>subject.
     jcatch
       (jbind (jlift (accessKeyFromAnswer (subj_nearAccountId subject) answer)) (\<lambda>accessKey.
        jbind (jlift (bigint_of actualNonce)) (\<lambda>actual.
        jbind (jget readNearTransactionContext) (\<lambda>previousContext.
        jbind (jget lastReservedNonce) (\<lambda>lastReserved.
        jbind (jlift (bigint_plus_or_zero (nextNonceOf previousContext) 0)) (\<lambda>fromContext.
        jbind (jlift (bigint_plus_or_zero lastReserved 1)) (\<lambda>fromReserved.
          let candidateNext =
                maxBigint [ak_nonce accessKey + 1, actual + 1, fromContext, fromReserved]
          in jmod (\<lambda>st.
               pruneReservedIfAny (ak_nonce accessKey)
                 (releaseNearNonceFromState actualNonce
                   ((setNearAccessKeyReady subject
                       (contextWithNonce subject previousContext (Some accessKey) candidateNext)
                       nowMs True False st)
                    \<lparr>nearInFlight := AList.delete actualNonce (nearInFlight st)\<rparr>))))))))))
       (\<lambda>e. if isMissingNearAccessKeyError (error_message e)
            then
              jbind (jlift (bigint_of actualNonce)) (\<lambda>actual.
              jbind (jget readNearTransactionContext) (\<lambda>previousContext.
              jbind (jget lastReservedNonce) (\<lambda>lastReserved.
              jbind (jlift (bigint_plus_or_zero (nextNonceOf previousContext) 0)) (\<lambda>fromContext.
              jbind (jlift (bigint_plus_or_zero lastReserved 1)) (\<lambda>fromReserved.
                let candidateNext = maxBigint [actual + 1, fromContext, fromReserved]
                in jmod (setNearAccessKeyReady subject
                     (contextWithNonce subject previousContext None candidateNext) nowMs True False))))))
            else jret ())))"

definition refreshNearNonceAfterBroadcastRejectedState :: "string + jsval \<Rightarrow> int \<Rightarrow> unit near_m" where
  "refreshNearNonceAfterBroadcastRejectedState answer nowMs =
     jbind (jget requireNearAccessKeySubject) (\<lambda>r. jbind (jlift r) (\<lambda>subject.
     jbind (jlift (accessKeyFromAnswer (subj_nearAccountId subject) answer)) (\<lambda>accessKey.
     jbind (jget lastReservedNonce) (\<lambda>lastReserved.
     jbind (jlift (bigint_plus_or_zero lastReserved 1)) (\<lambda>fromReserved.
     jbind (jget readNearTransactionContext) (\<lambda>previousContext.
       let candidateNext = maxBigint [ak_nonce accessKey + 1, fromReserved, 1]
       in jmod (\<lambda>st. pruneReservedIfAny (ak_nonce accessKey)
            (setNearAccessKeyReady subject
              (contextWithNonce subject previousContext (Some accessKey) candidateNext)
              nowMs True False st))))))))"

definition shouldPrefetchNearContext :: "NearNonceLaneState \<Rightarrow> int \<Rightarrow> int \<Rightarrow> bool" where
  "shouldPrefetchNearContext st nowMs blockFreshnessThresholdMs =
     (case readNearReadyContext (lifecycle st) of
        None \<Rightarrow> True
      | Some c \<Rightarrow> nowMs - ready_lastBlockHeightUpdateMs c \<ge> blockFreshnessThresholdMs)"

section \<open>Fetching fresh data\<close>

definition jfinally :: "('s, 'e, 'a) jsm \<Rightarrow> ('s \<Rightarrow> 's) \<Rightarrow> ('s, 'e, 'a) jsm" where
  "jfinally m f = (\<lambda>s. case m s of (r, t) \<Rightarrow> (r, f t))"

text \<open>What the access-key task of the fetch records as \<open>accessKeyError\<close>.\<close>

definition accessKeyTaskError :: "NearAccessKeySubject \<Rightarrow> string + jsval \<Rightarrow> nonce_error option" where
  "accessKeyTaskError subject answer =
     (case answer of
        Inr _ \<Rightarrow> None
      | Inl message \<Rightarrow> Some
          (if isMissingNearAccessKeyError message
           then (if isImplicitNearAccountId (subj_nearAccountId subject)
                 then ImplicitAccountFundingRequired (subj_nearAccountId subject)
                 else AccountLookupFailed message)
           else ExternalError message))"

text \<open>The lifecycle an \<open>accessKeyError\<close> leaves behind before it is thrown.\<close>

definition recordAccessKeyError ::
  "NearAccessKeySubject \<Rightarrow> nonce_error \<Rightarrow> NearNonceLaneState \<Rightarrow> NearNonceLaneState" where
  "recordAccessKeyError subject e st =
     (case e of
        ImplicitAccountFundingRequired _ \<Rightarrow> st\<lparr>lifecycle := ImplicitUnfunded subject\<rparr>
      | AccountLookupFailed m \<Rightarrow> st\<lparr>lifecycle := LookupFailed subject m\<rparr>
      | _ \<Rightarrow> st)"

text \<open>The \<open>finally\<close> block: a lookup that is still pending falls back to its previous context.\<close>

definition settleNearLookup :: "NearAccessKeySubject \<Rightarrow> nat \<Rightarrow> NearNonceLaneState \<Rightarrow> NearNonceLaneState" where
  "settleNearLookup subject requestId st =
     (if requestId = inflightId st then
        (case lifecycle st of
           AccessKeyLookupPending s prev _ \<Rightarrow>
             if nearAccessKeySubjectsMatch (Some s) subject
             then st\<lparr>lifecycle := AccessKeyBound subject prev\<rparr> else st
         | _ \<Rightarrow> st)
      else st)"

text \<open>The body of the fetch after its tasks have been answered.\<close>

definition nearFetchBody ::
  "NearAccessKeySubject \<Rightarrow> nat \<Rightarrow> TransactionContext option \<Rightarrow> bool \<Rightarrow> bool \<Rightarrow>
   string + jsval \<Rightarrow> string + jsval \<Rightarrow> int \<Rightarrow> TransactionContext near_m" where
  "nearFetchBody subject requestId previous fetchAccessKey fetchBlock accessAnswer blockAnswer nowMs =
     jfinally
       (jseq
         (case (if fetchAccessKey then accessKeyTaskError subject accessAnswer else None) of
            Some e \<Rightarrow> jseq (jmod (recordAccessKeyError subject e)) (jthrow e)
          | None \<Rightarrow> jret ())
         (jbind
           (jlift (if fetchBlock
                   then (case blockAnswer of
                       Inl message \<Rightarrow> Inl (ExternalError message)
                     | Inr raw \<Rightarrow> (case isBlockResultLike raw of
                           None \<Rightarrow> Inl BlockInfoFailed
                         | Some hb \<Rightarrow> Inr hb))
                   else Inr (case previous of Some p \<Rightarrow> (ctx_txBlockHeight p, ctx_txBlockHash p)
                             | None \<Rightarrow> ([], []))))
           (\<lambda>(height, hash).
             let accessKey =
                   (case (if fetchAccessKey
                          then (case accessAnswer of Inr raw \<Rightarrow> normalizeAccessKeyView raw | Inl _ \<Rightarrow> None)
                          else None) of
                      Some a \<Rightarrow> a
                    | None \<Rightarrow> (case previous of Some p \<Rightarrow> ctx_accessKeyInfo p
                              | None \<Rightarrow> makePlaceholderAccessKey))
             in
             jbind (jget lastReservedNonce) (\<lambda>lastReserved.
             jbind (jlift (bigint_plus_or_zero (nextNonceOf previous) 0)) (\<lambda>fromContext.
             jbind (jlift (bigint_plus_or_zero lastReserved 1)) (\<lambda>fromReserved.
               let ctx = \<lparr>ctx_nearPublicKeyStr = subj_publicKey subject,
                          ctx_accessKeyInfo = accessKey,
                          ctx_nextNonce =
                            int_str (maxBigint [ak_nonce accessKey + 1, fromContext, fromReserved, 1]),
                          ctx_txBlockHeight = height, ctx_txBlockHash = hash\<rparr>
               in jseq
                 (jmod (\<lambda>st.
                    if nearAccessKeySubjectsMatch (readNearAccessKeySubject st) subject \<and>
                       requestId = inflightId st
                    then setNearAccessKeyReady subject ctx nowMs fetchAccessKey fetchBlock st
                    else st))
                 (jret ctx)))))))
       (settleNearLookup subject requestId)"

text \<open>
  \<open>fetchNearFreshDataForState\<close>. The async body runs synchronously up to its first \<open>await\<close>, which is
  only reached when there is something to fetch. With nothing to fetch it runs to its end before
  the lookup is marked pending, so the pending mark, with the settled promise, is what remains.
\<close>

definition fetchNearFreshDataForState ::
  "bool \<Rightarrow> int \<Rightarrow> int \<Rightarrow> int \<Rightarrow> int \<Rightarrow> string + jsval \<Rightarrow> string + jsval \<Rightarrow> TransactionContext near_m" where
  "fetchNearFreshDataForState force startMs doneMs nonceFreshnessThresholdMs
       blockFreshnessThresholdMs accessAnswer blockAnswer =
     (\<lambda>st.
       case (if force then None else readNearInflightFetch st) of
         Some (Settled r) \<Rightarrow> (r, st)
       | Some Unsettled \<Rightarrow> (Inl (ExternalError ''unsettled lookup''), st)
       | None \<Rightarrow>
         (case requireNearAccessKeySubject st of
            Inl e \<Rightarrow> (Inl e, st)
          | Inr subject \<Rightarrow>
            let requestId = Suc (inflightId st);
                st1 = st\<lparr>inflightId := requestId\<rparr>;
                ready = readNearReadyContext (lifecycle st1);
                previous = map_option ready_transactionContext ready;
                isNonceStale = (force \<or> (case ready of None \<Rightarrow> True
                  | Some c \<Rightarrow> startMs - ready_lastNonceUpdateMs c \<ge> nonceFreshnessThresholdMs));
                isBlockStale = (force \<or> (case ready of None \<Rightarrow> True
                  | Some c \<Rightarrow> startMs - ready_lastBlockHeightUpdateMs c \<ge> blockFreshnessThresholdMs));
                fetchAccessKey = (isNonceStale \<or> previous = None);
                fetchBlock = (isBlockStale \<or> (case previous of None \<Rightarrow> True
                  | Some p \<Rightarrow> ctx_txBlockHeight p = [] \<or> ctx_txBlockHash p = []));
                body = nearFetchBody subject requestId previous fetchAccessKey fetchBlock
                         accessAnswer blockAnswer doneMs
            in if fetchAccessKey \<or> fetchBlock
               then body (setNearAccessKeyLookupPending subject Unsettled st1)
               else (case body st1 of
                 (r, st2) \<Rightarrow> (r, setNearAccessKeyLookupPending subject (Settled r) st2))))"

section \<open>Lane invariant\<close>

text \<open>
  The reserved set holds canonical decimal strings once each and \<open>lastReservedNonce\<close> is its largest
  element; between operations no lookup is unsettled.
\<close>

definition near_state_ok :: "NearNonceLaneState \<Rightarrow> bool" where
  "near_state_ok st \<longleftrightarrow>
     distinct (reservedNonces st) \<and> (\<forall>s \<in> set (reservedNonces st). \<exists>n. s = int_str n) \<and>
     lastReservedNonce st = computeLastReservedNonce (reservedNonces st) \<and>
     readNearInflightFetch st \<noteq> Some Unsettled"

lemma canonical_ints_iff [simp]: "i \<in> set (canonical_ints ss) \<longleftrightarrow> int_str i \<in> set ss"
  by (force simp: canonical_ints_def map_filter_def split: option.splits if_splits)

lemma maxParsed_spec:
  assumes "\<forall>s \<in> set ss. \<exists>n. s = int_str n"
  shows "case maxParsed ss acc of
           None \<Rightarrow> ss = [] \<and> acc = None
         | Some m \<Rightarrow> (\<forall>n. int_str n \<in> set ss \<longrightarrow> n \<le> m) \<and> (\<forall>a. acc = Some a \<longrightarrow> a \<le> m) \<and>
                    (int_str m \<in> set ss \<or> acc = Some m)"
  using assms
proof (induction ss arbitrary: acc)
  case Nil
  then show ?case by (auto split: option.split)
next
  case (Cons s ss)
  then obtain k where s: "s = int_str k" by auto
  let ?acc = "case acc of None \<Rightarrow> Some k | Some m \<Rightarrow> if k > m then Some k else Some m"
  have step: "maxParsed (s # ss) acc = maxParsed ss ?acc" by (simp add: s)
  define a where "a = the ?acc"
  have a: "?acc = Some a" "k \<le> a" "\<And>b. acc = Some b \<Longrightarrow> b \<le> a" "a = k \<or> acc = Some a"
    by (cases acc; simp add: a_def)+
  from Cons.IH [of "Some a"] Cons.prems obtain m where m: "maxParsed ss (Some a) = Some m"
    "\<forall>n. int_str n \<in> set ss \<longrightarrow> n \<le> m" "a \<le> m" "int_str m \<in> set ss \<or> a = m"
    by (auto split: option.splits)
  have "maxParsed (s # ss) acc = Some m" using step a(1) m(1) by simp
  moreover have "n \<le> m" if "int_str n \<in> set (s # ss)" for n
    using that m(2,3) a(2) s by auto
  moreover have "b \<le> m" if "acc = Some b" for b using a(3) [OF that] m(3) by simp
  moreover have "int_str m \<in> set (s # ss) \<or> acc = Some m" using m(4) a(4) s by auto
  ultimately show ?case by simp
qed

lemma lastReserved_max:
  assumes "near_state_ok st" and "int_str n \<in> set (reservedNonces st)"
  shows "\<exists>m. lastReservedNonce st = Some (int_str m) \<and> n \<le> m"
proof -
  from assms have eq: "lastReservedNonce st = map_option int_str (maxParsed (reservedNonces st) None)"
    and "\<forall>s \<in> set (reservedNonces st). \<exists>n. s = int_str n"
    by (auto simp: near_state_ok_def computeLastReservedNonce_def)
  from maxParsed_spec [OF this(2), of None] assms(2) eq show ?thesis
    by (auto split: option.splits)
qed

lemma near_state_ok_create [simp]: "near_state_ok createNearNonceLaneState"
  by (simp add: near_state_ok_def createNearNonceLaneState_def computeLastReservedNonce_def
      readNearInflightFetch_def)

lemma near_state_ok_clear_context [simp]: "near_state_ok (clearNearTransactionContext st)"
  by (simp add: near_state_ok_def clearNearTransactionContext_def clearNearPrefetchTimer_def
      computeLastReservedNonce_def readNearInflightFetch_def split: option.split)

lemma near_state_ok_clear [simp]: "near_state_ok (clearNearAccessKeyState st)"
  by (simp add: clearNearAccessKeyState_def)

lemma near_state_ok_lifecycle:
  "near_state_ok st \<Longrightarrow> (\<forall>s c. lc \<noteq> AccessKeyLookupPending s c Unsettled) \<Longrightarrow>
   near_state_ok (st\<lparr>lifecycle := lc\<rparr>)"
  by (auto simp: near_state_ok_def readNearInflightFetch_def split: NearNonceLaneLifecycle.splits)

lemma near_state_ok_ready: "near_state_ok st \<Longrightarrow> near_state_ok (setNearAccessKeyReady s c t a b st)"
  by (simp add: setNearAccessKeyReady_def Let_def near_state_ok_lifecycle)

lemma near_state_ok_release: "near_state_ok st \<Longrightarrow> near_state_ok (releaseNearNonceFromState n st)"
  by (auto simp: near_state_ok_def releaseNearNonceFromState_def Let_def distinct_removeAll
      readNearInflightFetch_def)

lemma near_state_ok_prune: "near_state_ok st \<Longrightarrow> near_state_ok (pruneReservedIfAny c st)"
  by (auto simp: near_state_ok_def pruneReservedIfAny_def pruneReservedNearNonces_def Let_def
      computeLastReservedNonce_def readNearInflightFetch_def)

lemma near_state_ok_flights: "near_state_ok st \<Longrightarrow> near_state_ok (st\<lparr>nearInFlight := fl\<rparr>)"
  by (simp add: near_state_ok_def readNearInflightFetch_def)

lemma near_state_ok_timer: "near_state_ok st \<Longrightarrow> near_state_ok (st\<lparr>prefetchTimer := b\<rparr>)"
  by (simp add: near_state_ok_def readNearInflightFetch_def)

lemmas near_state_ok_ops =
  near_state_ok_ready near_state_ok_release near_state_ok_prune near_state_ok_flights
  near_state_ok_timer near_state_ok_clear_context near_state_ok_clear

section \<open>Reservation plans\<close>

lemma planNearNonces_spec:
  "length (planNearNonces taken k c) = k"
  "\<forall>n \<in> set (planNearNonces taken k c). c \<le> n \<and> n \<notin> set taken"
  "sorted_wrt (<) (planNearNonces taken k c)"
proof (induction k arbitrary: c)
  case (Suc k)
  case 2
  show ?case using Suc.IH(2) [of "next_free taken c + 1"] next_free_ge [of c taken]
      next_free_not_taken [of taken c] by (auto simp: Let_def)
next
  case (Suc k)
  case 3
  show ?case using Suc.IH(2) [of "next_free taken c + 1"] Suc.IH(3) [of "next_free taken c + 1"]
    by (auto simp: Let_def)
qed (simp_all add: Let_def)

lemma fold_set_add: "set (fold set_add xs ys) = set xs \<union> set ys"
  "distinct ys \<Longrightarrow> distinct (fold set_add xs ys)"
  by (induction xs arbitrary: ys) auto

text \<open>The result of a reservation, from a state that satisfies the invariant.\<close>

lemma reserveNear_result:
  assumes ok: "near_state_ok st"
    and run: "reserveNearNoncesFromState ctx count active st = (Inr nonces, st')"
    and count: "0 < count"
  obtains ns base where
    "nonces = map int_str ns" "int (length ns) = count" "sorted_wrt (<) ns"
    "js_BigInt (ctx_nextNonce ctx) = Some base"
    "\<And>n. n \<in> set ns \<Longrightarrow> base \<le> n"
    "\<And>n a. n \<in> set ns \<Longrightarrow> a \<in> set active \<Longrightarrow> 0 < a \<Longrightarrow> a < n"
    "\<And>n. n \<in> set ns \<Longrightarrow> n \<notin> set active"
    "\<And>n r. n \<in> set ns \<Longrightarrow> int_str r \<in> set (reservedNonces st) \<Longrightarrow> r < n"
    "st' = st\<lparr>reservedNonces := fold set_add nonces (reservedNonces st),
             lastReservedNonce := Some (last nonces)\<rparr>"
proof -
  from run count obtain fr base where
    fr: "bigint_plus_or_zero (lastReservedNonce st) 1 = Inr fr"
    and base: "js_BigInt (ctx_nextNonce ctx) = Some base"
    and run': "nonces = map int_str (planNearNonces (canonical_ints (reservedNonces st) @ active)
        (nat count) (maxBigint [fr, base, if highestOf active > 0 then highestOf active + 1 else 0]))"
      "st' = st\<lparr>reservedNonces := fold set_add nonces (reservedNonces st),
             lastReservedNonce := Some (last nonces)\<rparr>"
    by (auto simp: reserveNearNoncesFromState_def jm_eval Let_def bigint_of_def
        split: sum.splits option.splits)
  let ?start = "maxBigint [fr, base, if highestOf active > 0 then highestOf active + 1 else 0]"
  let ?ns = "planNearNonces (canonical_ints (reservedNonces st) @ active) (nat count) ?start"
  note spec = planNearNonces_spec [of "canonical_ints (reservedNonces st) @ active" "nat count" ?start]
  have start: "fr \<le> ?start" "base \<le> ?start" "highestOf active > 0 \<longrightarrow> highestOf active < ?start"
    using maxBigint_ge [of _ "[fr, base, if highestOf active > 0 then highestOf active + 1 else 0]"]
    by fastforce+
  show thesis
  proof (rule that [of ?ns base])
    fix n a assume "n \<in> set ?ns" "a \<in> set active" "0 < a"
    with spec(2) start(3) highestOf_ge [of a active] show "a < n" by fastforce
  next
    fix n r assume n: "n \<in> set ?ns" and r: "int_str r \<in> set (reservedNonces st)"
    from lastReserved_max [OF ok r] obtain m where "lastReservedNonce st = Some (int_str m)" "r \<le> m"
      by auto
    with fr have "r < fr" by (simp add: bigint_plus_or_zero_def bigint_of_def)
    with n spec(2) start(1) show "r < n" by fastforce
  qed (use spec run' base start count in auto)
qed

lemma computeLast_sorted_append:
  assumes "near_state_ok st" and "sorted_wrt (<) ns" and "ns \<noteq> []"
    and "\<And>n r. n \<in> set ns \<Longrightarrow> int_str r \<in> set (reservedNonces st) \<Longrightarrow> r < n"
  shows "computeLastReservedNonce (fold set_add (map int_str ns) (reservedNonces st)) =
         Some (last (map int_str ns))"
proof -
  let ?ss = "fold set_add (map int_str ns) (reservedNonces st)"
  have canon: "\<forall>s \<in> set ?ss. \<exists>n. s = int_str n"
    using assms(1) by (auto simp: fold_set_add near_state_ok_def)
  have top: "n \<le> last ns" if "int_str n \<in> set ?ss" for n
    using that assms(2-4) last_in_set [OF assms(3)]
    by (cases ns rule: rev_cases) (fastforce simp: fold_set_add sorted_wrt_append)+
  have mem: "int_str (last ns) \<in> set ?ss" using assms(3) by (simp add: fold_set_add)
  from maxParsed_spec [OF canon, of None] mem obtain m where m: "maxParsed ?ss None = Some m"
    "\<forall>n. int_str n \<in> set ?ss \<longrightarrow> n \<le> m" "int_str m \<in> set ?ss"
    by (auto split: option.splits)
  with top mem have "m = last ns" by (meson order_antisym)
  with m show ?thesis by (simp add: computeLastReservedNonce_def last_map assms(3))
qed

lemma near_state_ok_reserve:
  assumes "near_state_ok st" and "reserveNearNoncesFromState ctx count active st = (Inr nonces, st')"
  shows "near_state_ok st'"
proof (cases "0 < count")
  case True
  from assms True obtain ns where ns: "nonces = map int_str ns" "int (length ns) = count"
    "sorted_wrt (<) ns"
    "\<And>n r. n \<in> set ns \<Longrightarrow> int_str r \<in> set (reservedNonces st) \<Longrightarrow> r < n"
    and st': "st' = st\<lparr>reservedNonces := fold set_add nonces (reservedNonces st),
             lastReservedNonce := Some (last nonces)\<rparr>"
    by (auto elim!: reserveNear_result)
  from True ns(2) have "ns \<noteq> []" by auto
  with computeLast_sorted_append [OF assms(1) ns(3) _ ns(4)] assms(1) show ?thesis
    by (auto simp: st' ns(1) near_state_ok_def fold_set_add readNearInflightFetch_def)
next
  case False
  with assms show ?thesis by (simp add: reserveNearNoncesFromState_def jm_eval)
qed

section \<open>Every lane operation keeps the invariant\<close>

lemma requireNear_keeps [jinv_intros]:
  "reflp R \<Longrightarrow> transp R \<Longrightarrow> (\<And>x. jinv R (f x)) \<Longrightarrow>
   jinv R (jbind (jget g) (\<lambda>r. jbind (jlift r) f))"
  by (intro jinv_intros)

lemma near_state_ok_initialize:
  "jinv (keeps near_state_ok) (initializeNearAccessKeyState w a k)"
  unfolding initializeNearAccessKeyState_def Let_def
  by (intro jinv_intros keeps_refl keeps_trans) (auto intro: near_state_ok_ops)

lemma near_state_ok_commit:
  "jinv (keeps near_state_ok) (commitNearTransactionContextForState w a k c t)"
  unfolding commitNearTransactionContextForState_def
  by (intro jinv_intros keeps_refl keeps_trans near_state_ok_initialize)
     (auto intro: near_state_ok_ops)

lemma near_state_ok_accepted: "jinv (keeps near_state_ok) (markNearBroadcastAcceptedState n h t)"
  unfolding markNearBroadcastAcceptedState_def
  by (intro jinv_intros keeps_refl keeps_trans) (auto intro: near_state_ok_ops)

lemma near_state_ok_finishReconcile: "jinv (keeps near_state_ok) (finishNearReconcile lane k t)"
  unfolding finishNearReconcile_def Let_def
  by (intro jinv_intros keeps_refl keeps_trans) (auto intro: near_state_ok_ops)

lemma near_state_ok_updateNonce:
  "jinv (keeps near_state_ok) (updateNearNonceFromBlockchainState answer n t)"
  unfolding updateNearNonceFromBlockchainState_def Let_def
  by (intro jinv_intros keeps_refl keeps_trans) (auto intro!: near_state_ok_ops)

lemma near_state_ok_afterRejected:
  "jinv (keeps near_state_ok) (refreshNearNonceAfterBroadcastRejectedState answer t)"
  unfolding refreshNearNonceAfterBroadcastRejectedState_def Let_def
  by (intro jinv_intros keeps_refl keeps_trans) (auto intro: near_state_ok_ops)

text \<open>What holds while a fetch with a given request id is running for a subject.\<close>

definition fetching :: "NearAccessKeySubject \<Rightarrow> nat \<Rightarrow> NearNonceLaneState \<Rightarrow> NearNonceLaneState \<Rightarrow> bool" where
  "fetching subject requestId st0 st \<longleftrightarrow>
     inflightId st = requestId \<and> readNearAccessKeySubject st = Some subject \<and>
     reservedNonces st = reservedNonces st0 \<and> lastReservedNonce st = lastReservedNonce st0"

lemma fetching_record:
  "fetching s i st0 st \<Longrightarrow> fetching s i st0 (recordAccessKeyError s e st)"
  by (auto simp: fetching_def recordAccessKeyError_def readNearAccessKeySubject_def
      split: nonce_error.split)

lemma fetching_ready:
  "fetching s i st0 st \<Longrightarrow> fetching s i st0 (setNearAccessKeyReady s c t a b st)"
  by (auto simp: fetching_def setNearAccessKeyReady_def readNearAccessKeySubject_def Let_def)

lemma nearAccessKeySubjectsMatch_iff [simp]: "nearAccessKeySubjectsMatch l r \<longleftrightarrow> l = Some r"
  by (auto simp: nearAccessKeySubjectsMatch_def split: option.split)

lemma settle_ok:
  assumes "fetching s i st0 st" and "near_state_ok st0"
  shows "near_state_ok (settleNearLookup s i st)"
  using assms
  by (auto simp: fetching_def near_state_ok_def settleNearLookup_def readNearAccessKeySubject_def
      readNearInflightFetch_def split: NearNonceLaneLifecycle.splits)

lemma jfinally_rule: "jinv (keeps P) m \<Longrightarrow> jfinally m f s = (r, t) \<Longrightarrow> P s \<Longrightarrow> \<exists>u. P u \<and> t = f u"
  by (auto simp: jfinally_def split: prod.splits dest: jinv_keepsD)

lemma nearFetchBody_ok:
  assumes "fetching s i st0 st" and "near_state_ok st0"
    and "nearFetchBody s i prev fa fb aa ba t st = (r, st')"
  shows "near_state_ok st'"
proof -
  have "\<exists>u. fetching s i st0 u \<and> st' = settleNearLookup s i u"
    using _ assms(3) [unfolded nearFetchBody_def Let_def] assms(1)
    by (rule jfinally_rule)
       (intro jinv_intros keeps_refl keeps_trans; auto intro: fetching_record fetching_ready)
  with settle_ok assms(2) show ?thesis by blast
qed

lemma near_state_ok_fetch:
  "jinv (keeps near_state_ok) (fetchNearFreshDataForState force t0 t1 nt bt aa ba)"
proof (rule jinvI)
  fix st r st'
  assume run: "fetchNearFreshDataForState force t0 t1 nt bt aa ba st = (r, st')"
  show "keeps near_state_ok st st'"
    unfolding keeps_def
  proof
    assume ok: "near_state_ok st"
    show "near_state_ok st'"
    proof (cases "(if force then None else readNearInflightFetch st) = None \<and>
        (\<exists>s. requireNearAccessKeySubject st = Inr s)")
      case False
      with run ok show ?thesis
        by (auto simp: fetchNearFreshDataForState_def
            split: option.splits lookup_promise.splits sum.splits if_splits)
    next
      case True
      then obtain s where s: "requireNearAccessKeySubject st = Inr s" by blast
      let ?st1 = "st\<lparr>inflightId := Suc (inflightId st)\<rparr>"
      have subj: "readNearAccessKeySubject st = Some s"
        using s by (simp add: requireNearAccessKeySubject_def split: option.splits)
      have f1: "fetching s (Suc (inflightId st)) st ?st1"
        and f2: "fetching s (Suc (inflightId st)) st (setNearAccessKeyLookupPending s Unsettled ?st1)"
        using subj by (auto simp: fetching_def readNearAccessKeySubject_def
            setNearAccessKeyLookupPending_def split: NearNonceLaneLifecycle.splits)
      from run True s obtain fa fb prev where
        "nearFetchBody s (Suc (inflightId st)) prev fa fb aa ba t1
           (setNearAccessKeyLookupPending s Unsettled ?st1) = (r, st') \<or>
         (\<exists>st2. nearFetchBody s (Suc (inflightId st)) prev fa fb aa ba t1 ?st1 = (r, st2) \<and>
            st' = setNearAccessKeyLookupPending s (Settled r) st2)"
        by (simp add: fetchNearFreshDataForState_def Let_def split: if_splits prod.splits) blast+
      then show ?thesis
        using nearFetchBody_ok [OF f2 ok] nearFetchBody_ok [OF f1 ok]
        by (auto simp: setNearAccessKeyLookupPending_def intro: near_state_ok_lifecycle)
    qed
  qed
qed

end
