(* ===== verification/NearReadiness.thy ===== *)
theory NearReadiness
  imports NearNonceLanes
begin

text \<open>
  Execution readiness of a NEAR account (\<open>classifyNearExecutionReadiness\<close> of \<open>nearNonceLane.ts\<close>), the
  construction of a NEAR lane (\<open>nearNonceLaneIdentity.ts\<close>, with \<open>validateNearAccountId\<close> of the shared
  \<open>utils/near.ts\<close>), and what a context fetch leaves behind.
\<close>

record near_ready =
  nr_walletId :: string
  nr_nearAccountId :: string
  nr_nearPublicKeyStr :: string
  nr_nonce :: int
  nr_accessKeyNonce :: string
  nr_nextNonce :: string
  nr_txBlockHeight :: string
  nr_txBlockHash :: string

datatype NearExecutionReadiness =
    NearImplicitUnfunded string string string
  | NearAccessKeyAvailable near_ready
  | NearSponsoredNamedReady near_ready
  | NearAccountLookupFailed string string string string

definition readinessNonceFromTransactionContext :: "TransactionContext option \<Rightarrow> int" where
  "readinessNonceFromTransactionContext c =
     (let raw = js_trim (case c of None \<Rightarrow> ''0'' | Some x \<Rightarrow> ctx_nextNonce x) in
      if raw = [] then 0 else case js_BigInt raw of Some n \<Rightarrow> n | None \<Rightarrow> 0)"

definition classifyNearExecutionReadiness ::
  "string \<Rightarrow> string \<Rightarrow> string \<Rightarrow> bool \<Rightarrow> TransactionContext option \<Rightarrow> NearExecutionReadiness" where
  "classifyNearExecutionReadiness wId accId pk accessKeyAvailable c =
     (let w = js_trim wId; a = js_trim accId; k = js_trim pk in
      if \<not> accessKeyAvailable \<and> isImplicitNearAccountId a then NearImplicitUnfunded w a k
      else
        let ready = \<lparr>nr_walletId = w, nr_nearAccountId = a, nr_nearPublicKeyStr = k,
              nr_nonce = readinessNonceFromTransactionContext c,
              nr_accessKeyNonce = (case c of None \<Rightarrow> [] | Some x \<Rightarrow> js_trim (int_str (ak_nonce (ctx_accessKeyInfo x)))),
              nr_nextNonce = (case c of None \<Rightarrow> [] | Some x \<Rightarrow> js_trim (ctx_nextNonce x)),
              nr_txBlockHeight = (case c of None \<Rightarrow> [] | Some x \<Rightarrow> js_trim (ctx_txBlockHeight x)),
              nr_txBlockHash = (case c of None \<Rightarrow> [] | Some x \<Rightarrow> js_trim (ctx_txBlockHash x))\<rparr>
        in if isImplicitNearAccountId a then NearAccessKeyAvailable ready
           else NearSponsoredNamedReady ready)"

section \<open>Lane identity\<close>

text \<open>\<open>s.split('.')\<close>.\<close>

fun split_dots :: "string \<Rightarrow> string list" where
  "split_dots [] = [[]]"
| "split_dots (c # cs) =
     (if [c] = ''.'' then [] # split_dots cs
      else case split_dots cs of [] \<Rightarrow> [[c]] | p # ps \<Rightarrow> (c # p) # ps)"

text \<open>The regular expression \<open>^[a-z0-9_-]+$\<close> on one character.\<close>

definition is_near_name_char :: "char \<Rightarrow> bool" where
  "is_near_name_char c \<longleftrightarrow>
     is_digit c \<or> (97 \<le> (of_char c :: nat) \<and> (of_char c :: nat) \<le> 122) \<or> [c] = ''_'' \<or> [c] = ''-''"

text \<open>\<open>validateNearAccountId\<close> with its default options: the suffixes \<open>testnet\<close> and \<open>near\<close>.\<close>

definition validateNearAccountId :: "string \<Rightarrow> bool" where
  "validateNearAccountId s =
     (if s = [] then False
      else if isImplicitNearAccountId s then True
      else
        let parts = split_dots s in
        if length parts < 2 then False
        else
          let username = hd parts; suffix = last parts; domain = join_with ''.'' (tl parts) in
          if username = [] then False
          else if \<not> list_all is_near_name_char username then False
          else if domain = [] then False
          else suffix \<in> set [''testnet'', ''near''])"

definition toAccountId :: "string \<Rightarrow> nonce_error + string" where
  "toAccountId s = (if validateNearAccountId s then Inr s else Inl (InvalidNearAccountId s))"

definition requiredNearNonceLaneString :: "string \<Rightarrow> string \<Rightarrow> nonce_error + string" where
  "requiredNearNonceLaneString value field =
     (let normalized = js_trim value in if normalized = [] then Inl (FieldRequired field) else Inr normalized)"

definition resolveNearNonceNetworkKey :: "string list option \<Rightarrow> string" where
  "resolveNearNonceNetworkKey nets =
     (case nets of None \<Rightarrow> ''near''
      | Some networks \<Rightarrow>
          (case find (\<lambda>n. take 5 n = ''near-'') networks of None \<Rightarrow> ''near'' | Some n \<Rightarrow> n))"

text \<open>The object literal evaluates its fields in order, so the wallet id is checked first.\<close>

definition buildNearNonceLane ::
  "string list option \<Rightarrow> string \<Rightarrow> string \<Rightarrow> string \<Rightarrow> nonce_error + NearNonceLane" where
  "buildNearNonceLane nets wId accId pk =
     (case requiredNearNonceLaneString wId ''walletId'' of Inl e \<Rightarrow> Inl e | Inr w \<Rightarrow>
      case toAccountId accId of Inl e \<Rightarrow> Inl e | Inr a \<Rightarrow>
      case requiredNearNonceLaneString pk ''nearPublicKeyStr'' of Inl e \<Rightarrow> Inl e | Inr k \<Rightarrow>
        Inr \<lparr>networkKey = resolveNearNonceNetworkKey nets, walletId = w, nearAccountId = a,
             publicKey = k\<rparr>)"

section \<open>Lemmas\<close>

lemma classify_unfunded_iff:
  "(\<exists>w a k. classifyNearExecutionReadiness wId accId pk avail c = NearImplicitUnfunded w a k) \<longleftrightarrow>
     \<not> avail \<and> isImplicitNearAccountId (js_trim accId)"
  by (auto simp: classifyNearExecutionReadiness_def Let_def)

text \<open>A built lane is accepted by the access-key initialization as it is: no field is blank or padded.\<close>

lemma buildNearNonceLane_fields:
  assumes "buildNearNonceLane nets w a k = Inr lane"
  shows "walletId lane = js_trim w" "walletId lane \<noteq> []" "nearAccountId lane = a" "a \<noteq> []"
    "publicKey lane = js_trim k" "publicKey lane \<noteq> []"
  using assms
  by (auto simp: buildNearNonceLane_def requiredNearNonceLaneString_def toAccountId_def
      validateNearAccountId_def Let_def split: sum.splits if_splits)

text \<open>With a fresh context there is nothing to fetch and the fetch computes its context locally.\<close>

definition fresh_context :: "NearNonceLaneState \<Rightarrow> NearAccessKeySubject \<Rightarrow> NearNonceReadyContext \<Rightarrow> int \<Rightarrow> bool" where
  "fresh_context st subject c startMs \<longleftrightarrow>
     lifecycle st = AccessKeyBound subject (Some c) \<and>
     startMs - ready_lastNonceUpdateMs c < 5000 \<and> startMs - ready_lastBlockHeightUpdateMs c < 20000 \<and>
     ctx_txBlockHeight (ready_transactionContext c) \<noteq> [] \<and> ctx_txBlockHash (ready_transactionContext c) \<noteq> [] \<and>
     js_BigInt (ctx_nextNonce (ready_transactionContext c)) \<noteq> None"

lemma lastReserved_parses:
  "near_state_ok st \<Longrightarrow> \<exists>n. bigint_plus_or_zero (lastReservedNonce st) k = Inr n"
  by (auto simp: near_state_ok_def computeLastReservedNonce_def bigint_plus_or_zero_def bigint_of_def
      split: option.split)

lemma fetch_fresh:
  assumes ok: "near_state_ok st" and fresh: "fresh_context st subject c t0"
  shows "\<exists>ctx st'. fetchNearFreshDataForState False t0 t1 5000 20000 aa ba st = (Inr ctx, st') \<and>
           readNearInflightFetch st' = Some (Settled (Inr ctx))"
proof -
  obtain lr where lr: "bigint_plus_or_zero (lastReservedNonce st) 1 = Inr lr"
    using lastReserved_parses [OF ok] by blast
  have "\<exists>n. bigint_plus_or_zero (Some s) 0 = Inr n" if "js_BigInt s \<noteq> None" for s
    using that by (auto simp: bigint_plus_or_zero_def bigint_of_def)
  then obtain n where n: "bigint_plus_or_zero (Some (ctx_nextNonce (ready_transactionContext c))) 0 = Inr n"
    using fresh by (auto simp: fresh_context_def)
  from fresh lr n show ?thesis
    by (simp add: fresh_context_def fetchNearFreshDataForState_def readNearInflightFetch_def
        requireNearAccessKeySubject_def readNearAccessKeySubject_def readNearReadyContext_def Let_def
        nearFetchBody_def jfinally_def jm_eval nextNonceOf_def setNearAccessKeyReady_def
        settleNearLookup_def setNearAccessKeyLookupPending_def)
qed

lemma fetch_settled:
  "readNearInflightFetch st = Some (Settled r) \<Longrightarrow>
   fetchNearFreshDataForState False t0 t1 nt bt aa ba st = (r, st)"
  by (simp add: fetchNearFreshDataForState_def)

end
