(* ===== verification/LaneProperties.thy ===== *)
theory LaneProperties
  imports NearReadiness EvmNonceLanes
begin

text \<open>
  What the lane functions guarantee: lane keys and lease ids identify what they name, the EVM
  lane picks the first free nonce and reports a stuck transaction, chain targets survive storage, and
  the NEAR readiness of an account is classified as documented.
\<close>

section \<open>Identity of lanes and leases\<close>

text \<open>
  Two lanes have the same key exactly when they are the same lane: same chain, subject, sender and
  nonce key for EVM, same network, wallet, account and public key for NEAR. No choice of strings
  makes two different lanes share locks or leases.
\<close>

theorem lane_key_identifies_lane: "nonceLaneKey l = nonceLaneKey m \<longleftrightarrow> same_lane l m"
  by (rule nonceLaneKey_eq_iff)

section \<open>EVM lanes\<close>

text \<open>
  The nonce an EVM lane hands out is the first free one: it is at or past the chain's next nonce,
  neither an active lease nor a transaction in flight holds it, and every nonce between the chain's
  and it is held, so no gap is left that would stall the account's later transactions.
\<close>

theorem evm_candidate_is_first_free:
  assumes "chainNonce st = Some c"
  shows "c \<le> chooseEvmCandidate st active \<and>
         chooseEvmCandidate st active \<notin> set active \<and> chooseEvmCandidate st active \<notin> fst ` set (inFlight st) \<and>
         (\<forall>n. c \<le> n \<and> n < chooseEvmCandidate st active \<longrightarrow> n \<in> set active \<or> n \<in> fst ` set (inFlight st))"
  using assms chooseEvmCandidate_fresh chooseEvmCandidate_ge_chain chooseEvmCandidate_no_gap by blast

definition example_evm_state :: EvmNonceLaneState where
  "example_evm_state = createEvmNonceLaneState\<lparr>chainNonce := Some 5, nextCandidate := Some 5,
     inFlight := [(6, \<lparr>flight_nonce = 6, flight_txHash = Some ''0x01'', flight_status = FlightAccepted,
       flight_acceptedAtMs = 1000, flight_updatedAtMs = 1000\<rparr>)]\<rparr>"

theorem evm_candidate_is_first_free_witness:
  "chooseEvmCandidate example_evm_state [5] = 7 \<and> 5 \<le> chooseEvmCandidate example_evm_state [5]"
  using evm_candidate_is_first_free [of example_evm_state 5 "[5]"]
  by (simp add: example_evm_state_def chooseEvmCandidate_def next_free.simps createEvmNonceLaneState_def)

text \<open>
  A refresh from the chain forgets exactly the in-flight transactions the chain has passed, records
  the chain's nonce, and leaves the next candidate past the chain nonce, past every active lease and
  past every transaction still in flight.
\<close>

theorem refresh_forgets_only_confirmed:
  "(\<forall>r. r \<in> set (inFlight (refreshEvmLaneFromChain st t c active)) \<longleftrightarrow>
         r \<in> set (inFlight st) \<and> c \<le> flight_nonce (snd r)) \<and>
   chainNonce (refreshEvmLaneFromChain st t c active) = Some c \<and>
   (\<exists>m. nextCandidate (refreshEvmLaneFromChain st t c active) = Some m \<and> c \<le> m \<and>
        (\<forall>n \<in> set active. 0 < n \<longrightarrow> n < m) \<and>
        (\<forall>r \<in> set (inFlight (refreshEvmLaneFromChain st t c active)).
           0 < flight_nonce (snd r) \<longrightarrow> flight_nonce (snd r) < m))"
  using refresh_drops_only_confirmed refresh_next_covers by blast

theorem refresh_forgets_only_confirmed_witness:
  "inFlight (refreshEvmLaneFromChain example_evm_state 2000 7 []) = [] \<and>
   chainNonce (refreshEvmLaneFromChain example_evm_state 2000 7 []) = Some 7"
  using refresh_forgets_only_confirmed [of example_evm_state 2000 7 "[]"]
  by (simp add: example_evm_state_def refreshEvmLaneFromChain_def Let_def createEvmNonceLaneState_def)

lemma stuck_lane_blocked:
  assumes "chainNonce st = Some c" and "inFlight st \<noteq> []"
    and "\<forall>r \<in> snd ` set (inFlight st). c \<le> flight_nonce r \<and> flight_updatedAtMs r \<le> nowMs - limit" and "0 \<le> limit"
  shows "readBlockedEvmInFlight st nowMs limit \<noteq> None"
proof -
  obtain n u where old: "oldestInFlight (map snd (inFlight st)) None = Some (n, u)"
    using assms(2) oldestInFlight_None [of "map snd (inFlight st)" None] by (cases "oldestInFlight (map snd (inFlight st)) None") auto
  from oldestInFlight_spec [OF old] obtain r where "r \<in> snd ` set (inFlight st)" "flight_nonce r = n" "flight_updatedAtMs r = u"
    by auto
  with assms(3) have "c \<le> n" "u \<le> nowMs - limit" by auto
  with assms(1,2,4) old show ?thesis by (simp add: readBlockedEvmInFlight_def Let_def)
qed

text \<open>
  A lane is reported blocked only by its oldest in-flight transaction, when the chain has not passed
  that transaction's nonce and nothing has been heard of it for at least the stale threshold. And a stuck
  lane is always noticed: once every in-flight transaction is at or past the chain nonce and as old as
  the threshold, the lane is reported.
\<close>

theorem blocked_lane_is_stuck:
  "(\<forall>n age. readBlockedEvmInFlight st nowMs limit = Some (n, age) \<longrightarrow>
      limit \<le> age \<and> (\<exists>c. chainNonce st = Some c \<and> c \<le> n) \<and>
      (\<exists>r \<in> snd ` set (inFlight st). flight_nonce r = n \<and> age = max 0 (nowMs - flight_updatedAtMs r)) \<and>
      (\<forall>r \<in> snd ` set (inFlight st). n \<le> flight_nonce r)) \<and>
   (\<forall>c. chainNonce st = Some c \<and> inFlight st \<noteq> [] \<and> 0 \<le> limit \<and>
      (\<forall>r \<in> snd ` set (inFlight st). c \<le> flight_nonce r \<and> flight_updatedAtMs r \<le> nowMs - limit) \<longrightarrow>
      readBlockedEvmInFlight st nowMs limit \<noteq> None)"
proof (intro conjI allI impI)
  fix n age assume b: "readBlockedEvmInFlight st nowMs limit = Some (n, age)"
  note facts = readBlockedEvmInFlight_Some [OF b]
  show "limit \<le> age" "\<exists>c. chainNonce st = Some c \<and> c \<le> n"
    "\<exists>r \<in> snd ` set (inFlight st). flight_nonce r = n \<and> age = max 0 (nowMs - flight_updatedAtMs r)"
    "\<forall>r \<in> snd ` set (inFlight st). n \<le> flight_nonce r"
    using facts by blast+
qed (use stuck_lane_blocked in blast)

theorem blocked_lane_is_stuck_witness:
  "(\<exists>c. chainNonce example_evm_state = Some c \<and> c \<le> 6) \<and> readBlockedEvmInFlight example_evm_state 700000 600000 \<noteq> None"
proof -
  have "readBlockedEvmInFlight example_evm_state 700000 600000 = Some (6, 699000)"
    by (simp add: example_evm_state_def readBlockedEvmInFlight_def Let_def createEvmNonceLaneState_def)
  with blocked_lane_is_stuck [of example_evm_state 700000 600000] show ?thesis by blast
qed

section \<open>Chain targets\<close>

text \<open>
  A well-formed chain target written to storage is read back unchanged.
\<close>

theorem chain_target_survives_storage:
  assumes "chain_target_ok t"
  shows "thresholdEcdsaChainTargetFromRequest (chain_target_object t) = Inr t"
  using assms by (rule chain_target_roundtrip)

theorem chain_target_survives_storage_witness:
  "thresholdEcdsaChainTargetFromRequest (chain_target_object (EvmTarget 1 ''ethereum-mainnet'')) =
     Inr (EvmTarget 1 ''ethereum-mainnet'')"
  by (rule chain_target_survives_storage)
     (simp add: chain_target_ok_def safe_integer_def js_trim_def js_whitespace_def)

text \<open>
  The list of chain targets configured for a wallet holds only well-formed targets, each under a key
  of its own.
\<close>

theorem configured_targets_distinct:
  assumes "configuredThresholdEcdsaChainTargets cfgs = Inr ts"
  shows "list_all chain_target_ok ts \<and> distinct (map thresholdEcdsaChainTargetKey ts)"
proof -
  from assms have "configuredTargetsLoop cfgs [] [] = Inr ts" by (simp add: configuredThresholdEcdsaChainTargets_def)
  from configuredTargetsLoop_ok [OF this] show ?thesis by (auto simp: targets_ok_def)
qed

definition example_chains :: "SeamsChainConfig list" where
  "example_chains = [\<lparr>cfg_network = ''near-testnet'', cfg_chainId = JUndefined, cfg_rpcUrl = ''''\<rparr>,
     \<lparr>cfg_network = ''tempo-testnet'', cfg_chainId = JNum 42431, cfg_rpcUrl = ''''\<rparr>,
     \<lparr>cfg_network = ''tempo-testnet'', cfg_chainId = JNum 42431, cfg_rpcUrl = ''''\<rparr>]"

theorem configured_targets_distinct_witness:
  "list_all chain_target_ok [TempoTarget 42431 ''tempo-testnet''] \<and>
   distinct (map thresholdEcdsaChainTargetKey [TempoTarget 42431 ''tempo-testnet''])"
  by (rule configured_targets_distinct [of example_chains])
     (simp add: example_chains_def configuredThresholdEcdsaChainTargets_def chainFamilyFromNetwork_def boundary_family_def
       isNearChainNetwork_def isTempoChainNetwork_def isSeamsChainNetwork_def SEAMS_CHAIN_NETWORKS_def
       thresholdEcdsaChainTargetFromConfig_def thresholdEcdsaChainTargetFromChainFamily_def normalizePositiveSafeInteger_def
       js_Number_def safe_int_def safe_integer_def nonEmptyString_def js_nullish_def js_trim_def js_whitespace_def Let_def)

section \<open>NEAR contexts\<close>

text \<open>
  C32: A fetch on an access key whose context is still fresh has nothing to ask the chain, settles at
  once and then stays registered as the lookup in flight, so every later fetch that is not forced
  returns that first answer, however stale it has become and whatever the chain would answer.
\<close>

theorem fresh_fetch_pins_context:
  assumes "near_state_ok st" and "fresh_context st subject c t0"
  shows "\<exists>ctx st'. fetchNearFreshDataForState False t0 t1 5000 20000 aa ba st = (Inr ctx, st') \<and>
           (\<forall>t2 t3 aa' ba'. fetchNearFreshDataForState False t2 t3 5000 20000 aa' ba' st' = (Inr ctx, st'))"
  using fetch_fresh [OF assms] fetch_settled by metis

definition example_subject :: NearAccessKeySubject where
  "example_subject = \<lparr>subj_walletId = ''alice'', subj_nearAccountId = ''alice.testnet'', subj_publicKey = ''ed25519:AAA''\<rparr>"

definition example_ready :: NearNonceReadyContext where
  "example_ready = \<lparr>ready_transactionContext = \<lparr>ctx_nearPublicKeyStr = ''ed25519:AAA'',
       ctx_accessKeyInfo = makePlaceholderAccessKey\<lparr>ak_nonce := 40\<rparr>, ctx_nextNonce = ''41'',
       ctx_txBlockHeight = ''9'', ctx_txBlockHash = ''h''\<rparr>,
     ready_lastNonceUpdateMs = 900, ready_lastBlockHeightUpdateMs = 900\<rparr>"

definition example_near_state :: NearNonceLaneState where
  "example_near_state = createNearNonceLaneState\<lparr>lifecycle := AccessKeyBound example_subject (Some example_ready)\<rparr>"

theorem fresh_fetch_pins_context_witness:
  "\<exists>ctx st'. fetchNearFreshDataForState False 1000 1001 5000 20000 (Inl ''offline'') (Inl ''offline'') example_near_state = (Inr ctx, st') \<and>
     fetchNearFreshDataForState False 99000000 99000001 5000 20000 (Inl ''offline'') (Inl ''offline'') st' = (Inr ctx, st')"
proof -
  have "near_state_ok example_near_state"
    by (simp add: near_state_ok_def example_near_state_def createNearNonceLaneState_def computeLastReservedNonce_def
        readNearInflightFetch_def)
  moreover have "fresh_context example_near_state example_subject example_ready 1000"
    by (simp add: fresh_context_def example_near_state_def example_ready_def js_BigInt_digits all_digits_def is_digit_def)
  ultimately show ?thesis using fresh_fetch_pins_context by blast
qed

end
