(* ===== verification/NonceRecords.thy ===== *)
theory NonceRecords
  imports ChainTargets NearNonceLanes
begin

text \<open>
  Durable coordination records: building one from a lease (\<open>buildEvmCoordinationRecord\<close> and
  \<open>buildNearCoordinationRecord\<close> of \<open>NonceCoordinator.ts\<close>), writing it
  (\<open>indexedDB/nonceLaneCoordinationStore.ts\<close>), the row it is stored in and the row parser
  (\<open>indexedDB/seamsWalletDB/nonceLeaseRows.ts\<close>), and the boundary parser
  (\<open>nonce/nonceCoordinationRecordBoundary.ts\<close>). Stored objects are \<^typ>\<open>jsval\<close>s; a field that a
  spread leaves out is absent.
\<close>

section \<open>Objects with optional fields\<close>

definition ofield :: "string \<Rightarrow> jsval option \<Rightarrow> (string \<times> jsval) list" where
  "ofield k v = (case v of None \<Rightarrow> [] | Some x \<Rightarrow> [(k, x)])"

definition nonempty :: "string option \<Rightarrow> string option" where
  "nonempty s = (case s of None \<Rightarrow> None | Some x \<Rightarrow> if x = [] then None else Some x)"

section \<open>Building a record from a lease\<close>

definition requireRecoveredEvmTxHash :: "string \<Rightarrow> nonce_error + string" where
  "requireRecoveredEvmTxHash value =
     (let normalized = js_lower (js_trim value)
      in if is_0x_hex 64 normalized then Inr normalized else Inl InvalidRecoveredTxHash)"

definition buildLeaseRecordMetadata :: "NonceLease \<Rightarrow> string option \<times> int option" where
  "buildLeaseRecordMetadata lease =
     (nonempty (batchId lease),
      case txIndex lease of Some i \<Rightarrow> safe_int i | None \<Rightarrow> None)"

definition commonCoordinationRecord ::
  "NonceLease \<Rightarrow> int \<Rightarrow> int \<Rightarrow> int \<Rightarrow> string \<Rightarrow> NonceDurableLeaseLifecycle \<Rightarrow> record_lane \<Rightarrow>
   NonceLaneCoordinationRecord" where
  "commonCoordinationRecord lease n exp upd runtime lc rl =
     \<lparr>rec_laneKey = nonceLaneKey (lease_lane lease), rec_leaseId = leaseId lease,
      rec_networkKey = nonceLaneNetworkKey (lease_lane lease), rec_nonce = n,
      rec_operationId = operationId lease, rec_operationFingerprint = operationFingerprint lease,
      rec_reservedAtMs = reservedAtMs lease, rec_expiresAtMs = exp, rec_updatedAtMs = upd,
      rec_runtimeId = Some runtime, rec_fencingToken = None,
      rec_batchId = fst (buildLeaseRecordMetadata lease),
      rec_txIndex = snd (buildLeaseRecordMetadata lease), rec_lifecycle = lc, rec_lane = rl\<rparr>"

definition buildEvmCoordinationRecord ::
  "NonceLease \<Rightarrow> EvmNonceLane \<Rightarrow> int \<Rightarrow> NonceDurableLeaseLifecycle \<Rightarrow> int \<Rightarrow> int \<Rightarrow> string \<Rightarrow>
   nonce_error + NonceLaneCoordinationRecord" where
  "buildEvmCoordinationRecord lease lane n lc exp upd runtime =
     (let build = (\<lambda>c. commonCoordinationRecord lease n exp upd runtime c
            (EvmRecordLane (chainTarget lane) (subjectId lane) (sender lane) (nonceKey lane)))
      in case lc of
           DurableBroadcastAccepted h \<Rightarrow>
             (case requireRecoveredEvmTxHash h of Inl e \<Rightarrow> Inl e
              | Inr txHash \<Rightarrow> Inr (build (DurableBroadcastAccepted txHash)))
         | c \<Rightarrow> Inr (build c))"

definition buildNearCoordinationRecord ::
  "NonceLease \<Rightarrow> NearNonceLane \<Rightarrow> string \<Rightarrow> NonceDurableLeaseLifecycle \<Rightarrow> int \<Rightarrow> int \<Rightarrow> string \<Rightarrow>
   nonce_error + NonceLaneCoordinationRecord" where
  "buildNearCoordinationRecord lease lane s lc exp upd runtime =
     (case bigint_of s of Inl e \<Rightarrow> Inl e
      | Inr n \<Rightarrow> Inr (commonCoordinationRecord lease n exp upd runtime lc
          (NearRecordLane (walletId lane) (nearAccountId lane) (publicKey lane))))"

section \<open>Writing a record\<close>

definition serializedRecordMetadata :: "NonceLaneCoordinationRecord \<Rightarrow> (string \<times> jsval) list" where
  "serializedRecordMetadata r =
     ofield ''runtimeId'' (map_option JStr (nonempty (rec_runtimeId r))) @
     ofield ''fencingToken'' (map_option JStr (nonempty (rec_fencingToken r))) @
     ofield ''batchId'' (map_option JStr (nonempty (rec_batchId r))) @
     ofield ''txIndex'' (map_option JNum (Option.bind (rec_txIndex r) safe_int))"

definition serializedBase :: "NonceLaneCoordinationRecord \<Rightarrow> (string \<times> jsval) list" where
  "serializedBase r =
     [(''v'', JNum 1), (''laneKey'', JStr (rec_laneKey r)), (''leaseId'', JStr (rec_leaseId r)),
      (''networkKey'', JStr (rec_networkKey r)), (''nonce'', JStr (int_str (rec_nonce r))),
      (''operationId'', JStr (rec_operationId r)),
      (''operationFingerprint'', JStr (rec_operationFingerprint r)),
      (''reservedAtMs'', JNum (rec_reservedAtMs r)), (''expiresAtMs'', JNum (rec_expiresAtMs r)),
      (''updatedAtMs'', JNum (rec_updatedAtMs r))]"

definition serializedLifecycle :: "NonceDurableLeaseLifecycle \<Rightarrow> (string \<times> jsval) list" where
  "serializedLifecycle lc =
     (''state'', JStr (durable_state_str lc)) #
     ofield ''txHash'' (case lc of DurableBroadcastAccepted h \<Rightarrow> Some (JStr h) | _ \<Rightarrow> None)"

definition serializeEvmCoordinationRecord ::
  "NonceLaneCoordinationRecord \<Rightarrow> chain_target \<Rightarrow> string \<Rightarrow> string \<Rightarrow> int option \<Rightarrow> (string \<times> jsval) list" where
  "serializeEvmCoordinationRecord r target account addr nkey =
     serializedBase r @
     [(''family'', JStr ''evm''), (''chainTarget'', JObj (chain_target_object target)),
      (''accountId'', JStr account), (''sender'', JStr addr)] @
     ofield ''nonceKey'' (map_option (\<lambda>k. JStr (int_str k)) nkey) @
     serializedRecordMetadata r @ serializedLifecycle (rec_lifecycle r)"

definition serializeNearCoordinationRecord ::
  "NonceLaneCoordinationRecord \<Rightarrow> string \<Rightarrow> string \<Rightarrow> string \<Rightarrow> (string \<times> jsval) list" where
  "serializeNearCoordinationRecord r w a k =
     serializedBase r @
     [(''family'', JStr ''near''), (''walletId'', JStr w), (''nearAccountId'', JStr a),
      (''publicKey'', JStr k)] @
     serializedRecordMetadata r @ serializedLifecycle (rec_lifecycle r)"

definition serializeCoordinationRecord :: "NonceLaneCoordinationRecord \<Rightarrow> (string \<times> jsval) list" where
  "serializeCoordinationRecord r =
     (case rec_lane r of
        EvmRecordLane t a s k \<Rightarrow> serializeEvmCoordinationRecord r t a s k
      | NearRecordLane w a k \<Rightarrow> serializeNearCoordinationRecord r w a k)"

section \<open>Rows\<close>

definition js_str_field :: "(string \<times> jsval) list \<Rightarrow> string \<Rightarrow> string" where
  "js_str_field fs k = js_trim (js_String_or_empty (jfield fs k))"

definition nonceLeaseWalletId :: "(string \<times> jsval) list \<Rightarrow> jsval" where
  "nonceLeaseWalletId fs =
     (if jfield fs ''family'' = JStr ''near'' then jfield fs ''walletId'' else jfield fs ''accountId'')"

definition nonceLeaseNearAccountId :: "(string \<times> jsval) list \<Rightarrow> jsval" where
  "nonceLeaseNearAccountId fs =
     (if jfield fs ''family'' = JStr ''near'' then jfield fs ''nearAccountId'' else JStr [])"

definition nonceLeaseRow :: "(string \<times> jsval) list \<Rightarrow> nonce_error + (string \<times> (string \<times> jsval) list)" where
  "nonceLeaseRow fs =
     (let lid = js_str_field fs ''leaseId''; lkey = js_str_field fs ''laneKey'';
          wid = js_trim (js_String_or_empty (nonceLeaseWalletId fs));
          nacc = js_trim (js_String_or_empty (nonceLeaseNearAccountId fs))
      in if lid = [] \<or> lkey = [] \<or> wid = [] then Inl StoreRejected
         else Inr (lid,
           [(''lease_id'', JStr lid), (''lane_key'', JStr lkey), (''wallet_id'', JStr wid)] @
           ofield ''near_account_id'' (if nacc = [] then None else Some (JStr nacc)) @
           [(''state'', jfield fs ''state''),
            (''expires_at_ms'', case js_Number (jfield fs ''expiresAtMs'') of
               Some n \<Rightarrow> JNum n | None \<Rightarrow> JOther ''NaN''),
            (''record'', JObj fs)]))"

definition parseStoredNonEmptyString :: "jsval \<Rightarrow> string option" where
  "parseStoredNonEmptyString v =
     (case v of JStr s \<Rightarrow> if s \<noteq> [] \<and> js_trim s = s then Some s else None | _ \<Rightarrow> None)"

definition is_safe_integer_value :: "jsval \<Rightarrow> bool" where
  "is_safe_integer_value v = (case v of JNum n \<Rightarrow> safe_integer n | _ \<Rightarrow> False)"

definition undefined_or :: "(jsval \<Rightarrow> bool) \<Rightarrow> jsval \<Rightarrow> bool" where
  "undefined_or P v \<longleftrightarrow> v = JUndefined \<or> P v"

definition unless_undefined :: "string \<Rightarrow> jsval \<Rightarrow> (string \<times> jsval) list" where
  "unless_undefined k v = ofield k (if v = JUndefined then None else Some v)"

definition parseStoredThresholdEcdsaChainTarget :: "jsval \<Rightarrow> chain_target option" where
  "parseStoredThresholdEcdsaChainTarget v =
     (case v of
        JObj fs \<Rightarrow>
          (case thresholdEcdsaChainTargetFromRequest
             [(''kind'', jfield fs ''kind''), (''namespace'', jfield fs ''namespace''),
              (''chainId'', jfield fs ''chainId''), (''networkSlug'', jfield fs ''networkSlug'')] of
             Inl _ \<Rightarrow> None | Inr t \<Rightarrow> Some t)
      | _ \<Rightarrow> None)"

definition stored_base_ok :: "(string \<times> jsval) list \<Rightarrow> bool" where
  "stored_base_ok fs \<longleftrightarrow>
     jfield fs ''v'' = JNum 1 \<and>
     parseStoredNonEmptyString (jfield fs ''leaseId'') \<noteq> None \<and>
     parseStoredNonEmptyString (jfield fs ''laneKey'') \<noteq> None \<and>
     parseStoredNonEmptyString (jfield fs ''networkKey'') \<noteq> None \<and>
     parseStoredNonEmptyString (jfield fs ''nonce'') \<noteq> None \<and>
     parseStoredNonEmptyString (jfield fs ''operationId'') \<noteq> None \<and>
     parseStoredNonEmptyString (jfield fs ''operationFingerprint'') \<noteq> None \<and>
     is_safe_integer_value (jfield fs ''reservedAtMs'') \<and>
     is_safe_integer_value (jfield fs ''expiresAtMs'') \<and>
     is_safe_integer_value (jfield fs ''updatedAtMs'') \<and>
     jfield fs ''state'' \<in> set [JStr ''reserved'', JStr ''signed'', JStr ''broadcast_accepted'']"

definition stored_tx_ok :: "(string \<times> jsval) list \<Rightarrow> bool" where
  "stored_tx_ok fs \<longleftrightarrow>
     (if jfield fs ''state'' = JStr ''broadcast_accepted''
      then parseStoredNonEmptyString (jfield fs ''txHash'') \<noteq> None
      else jfield fs ''txHash'' = JUndefined)"

definition stored_metadata_ok :: "(string \<times> jsval) list \<Rightarrow> bool" where
  "stored_metadata_ok fs \<longleftrightarrow>
     undefined_or (\<lambda>v. parseStoredNonEmptyString v \<noteq> None) (jfield fs ''runtimeId'') \<and>
     undefined_or (\<lambda>v. parseStoredNonEmptyString v \<noteq> None) (jfield fs ''fencingToken'') \<and>
     undefined_or (\<lambda>v. parseStoredNonEmptyString v \<noteq> None) (jfield fs ''batchId'') \<and>
     undefined_or is_safe_integer_value (jfield fs ''txIndex'')"

definition copied_base :: "(string \<times> jsval) list \<Rightarrow> (string \<times> jsval) list" where
  "copied_base fs =
     (''v'', JNum 1) #
     map (\<lambda>k. (k, jfield fs k))
       [''leaseId'', ''laneKey'', ''networkKey'', ''nonce'', ''operationId'', ''operationFingerprint'',
        ''reservedAtMs'', ''expiresAtMs'', ''updatedAtMs'']"

definition copied_metadata :: "(string \<times> jsval) list \<Rightarrow> (string \<times> jsval) list" where
  "copied_metadata fs =
     (''state'', jfield fs ''state'') #
     unless_undefined ''runtimeId'' (jfield fs ''runtimeId'') @
     unless_undefined ''fencingToken'' (jfield fs ''fencingToken'') @
     unless_undefined ''batchId'' (jfield fs ''batchId'') @
     unless_undefined ''txIndex'' (jfield fs ''txIndex'')"

definition copied_tx :: "(string \<times> jsval) list \<Rightarrow> (string \<times> jsval) list" where
  "copied_tx fs =
     (if jfield fs ''state'' = JStr ''broadcast_accepted'' then [(''txHash'', jfield fs ''txHash'')] else [])"

definition parseNonceLeaseRecord :: "jsval \<Rightarrow> (string \<times> jsval) list option" where
  "parseNonceLeaseRecord value =
     (case value of
        JObj fs \<Rightarrow>
          if \<not> stored_base_ok fs then None
          else if \<not> stored_tx_ok fs then None
          else if \<not> stored_metadata_ok fs then None
          else if jfield fs ''family'' = JStr ''near'' then
            (if parseStoredNonEmptyString (jfield fs ''walletId'') = None \<or>
                parseStoredNonEmptyString (jfield fs ''nearAccountId'') = None \<or>
                parseStoredNonEmptyString (jfield fs ''publicKey'') = None then None
             else Some (copied_base fs @
               [(''family'', JStr ''near''), (''walletId'', jfield fs ''walletId''),
                (''nearAccountId'', jfield fs ''nearAccountId''), (''publicKey'', jfield fs ''publicKey'')] @
               copied_metadata fs @ copied_tx fs))
          else if jfield fs ''family'' \<noteq> JStr ''evm'' then None
          else
            (case parseStoredThresholdEcdsaChainTarget (jfield fs ''chainTarget'') of
               None \<Rightarrow> None
             | Some target \<Rightarrow>
                 if parseStoredNonEmptyString (jfield fs ''sender'') = None \<or>
                    parseStoredNonEmptyString (jfield fs ''accountId'') = None then None
                 else if \<not> undefined_or (\<lambda>v. parseStoredNonEmptyString v \<noteq> None) (jfield fs ''nonceKey'')
                 then None
                 else Some (copied_base fs @
                   [(''family'', JStr ''evm''), (''chainTarget'', JObj (chain_target_object target)),
                    (''sender'', jfield fs ''sender''), (''accountId'', jfield fs ''accountId'')] @
                   copied_metadata fs @ unless_undefined ''nonceKey'' (jfield fs ''nonceKey'') @
                   copied_tx fs))
      | _ \<Rightarrow> None)"

definition parseNonceLeaseRow :: "jsval \<Rightarrow> (string \<times> jsval) list option" where
  "parseNonceLeaseRow value =
     (case value of
        JObj row \<Rightarrow>
          (case parseNonceLeaseRecord (jfield row ''record'') of
             None \<Rightarrow> None
           | Some fs \<Rightarrow>
               if jfield row ''lease_id'' \<noteq> jfield fs ''leaseId'' then None
               else if jfield row ''lane_key'' \<noteq> jfield fs ''laneKey'' then None
               else if jfield row ''wallet_id'' \<noteq> nonceLeaseWalletId fs then None
               else if (let v = jfield row ''near_account_id'' in
                        if v \<in> {JUndefined, JNull, JBool False, JNum 0, JBigInt 0, JOther ''NaN''}
                        then JStr [] else v) \<noteq> nonceLeaseNearAccountId fs then None
               else if jfield row ''state'' \<noteq> jfield fs ''state'' then None
               else if jfield row ''expires_at_ms'' \<noteq> jfield fs ''expiresAtMs'' then None
               else Some fs)
      | _ \<Rightarrow> None)"

section \<open>The boundary parser\<close>

definition rawString :: "jsval \<Rightarrow> string" where
  "rawString v = (case v of JStr s \<Rightarrow> js_trim s | _ \<Rightarrow> [])"

definition parseDecimalBigint :: "jsval \<Rightarrow> int option" where
  "parseDecimalBigint v =
     (case v of JStr s \<Rightarrow> if all_digits s then Some (int (digits_val s)) else None | _ \<Rightarrow> None)"

definition parseSafeInteger :: "jsval \<Rightarrow> int option" where
  "parseSafeInteger v =
     (case v of
        JNum n \<Rightarrow> safe_int n
      | JStr s \<Rightarrow> if all_digits s then safe_int (int (digits_val s)) else None
      | _ \<Rightarrow> None)"

definition parseEvmAddress :: "jsval \<Rightarrow> string option" where
  "parseEvmAddress v = (let s = js_lower (rawString v) in if is_0x_hex 40 s then Some s else None)"

definition parseTxHash :: "string \<Rightarrow> string option" where
  "parseTxHash v = (let s = js_lower (rawString (JStr v)) in if is_0x_hex 64 s then Some s else None)"

definition parseDurableLeaseLifecycle :: "(string \<times> jsval) list \<Rightarrow> NonceDurableLeaseLifecycle option" where
  "parseDurableLeaseLifecycle obj =
     (if jfield obj ''state'' = JStr ''reserved''
      then (if jfield obj ''txHash'' = JUndefined then Some DurableReserved else None)
      else if jfield obj ''state'' = JStr ''signed''
      then (if jfield obj ''txHash'' = JUndefined then Some DurableSigned else None)
      else if jfield obj ''state'' = JStr ''broadcast_accepted''
      then (let txHash = rawString (jfield obj ''txHash'') in
            if txHash \<noteq> [] then Some (DurableBroadcastAccepted txHash) else Some DurableSigned)
      else None)"

definition normalizeEvmDurableLifecycle :: "NonceDurableLeaseLifecycle \<Rightarrow> NonceDurableLeaseLifecycle" where
  "normalizeEvmDurableLifecycle lc =
     (case lc of
        DurableBroadcastAccepted h \<Rightarrow>
          (case parseTxHash h of Some t \<Rightarrow> DurableBroadcastAccepted t | None \<Rightarrow> DurableSigned)
      | _ \<Rightarrow> lc)"

definition parseChainTarget :: "jsval \<Rightarrow> chain_target option" where
  "parseChainTarget v =
     (case thresholdEcdsaChainTargetFromRequest (case v of JObj fs \<Rightarrow> fs | _ \<Rightarrow> []) of
        Inl _ \<Rightarrow> None | Inr t \<Rightarrow> Some t)"

definition malformedRecordResult ::
  "(string \<times> jsval) list \<Rightarrow> string \<Rightarrow> string \<Rightarrow> string \<Rightarrow> NonceLaneCoordinationReadResult" where
  "malformedRecordResult obj lkey lid family =
     (let nk = rawString (jfield obj ''networkKey'');
          acc = (if rawString (jfield obj ''walletId'') \<noteq> [] then rawString (jfield obj ''walletId'')
                 else rawString (jfield obj ''accountId''))
      in ReadFailure
        \<lparr>deg_reason = MalformedDurableRecord,
         deg_laneFamily = (if family = ''evm'' \<or> family = ''near'' then Some family else None),
         deg_networkKey = (if nk = [] then None else Some nk),
         deg_accountId = (if acc = [] then None else Some acc),
         deg_fallback = NoFallback\<rparr> lkey lid)"

record ParsedBaseInput =
  pb_leaseId :: string
  pb_laneKey :: string
  pb_networkKey :: string
  pb_accountId :: string
  pb_nearAccountId :: string
  pb_nonce :: int
  pb_lifecycle :: NonceDurableLeaseLifecycle
  pb_operationId :: string
  pb_operationFingerprint :: string
  pb_reservedAtMs :: int
  pb_expiresAtMs :: int
  pb_updatedAtMs :: int

definition raw_optional :: "(string \<times> jsval) list \<Rightarrow> string \<Rightarrow> string option" where
  "raw_optional obj k = nonempty (Some (rawString (jfield obj k)))"

definition buildBaseRecord ::
  "(string \<times> jsval) list \<Rightarrow> ParsedBaseInput \<Rightarrow> NonceDurableLeaseLifecycle \<Rightarrow> record_lane \<Rightarrow>
   NonceLaneCoordinationRecord" where
  "buildBaseRecord obj b lc rl =
     \<lparr>rec_laneKey = pb_laneKey b, rec_leaseId = pb_leaseId b, rec_networkKey = pb_networkKey b,
      rec_nonce = pb_nonce b, rec_operationId = pb_operationId b,
      rec_operationFingerprint = pb_operationFingerprint b, rec_reservedAtMs = pb_reservedAtMs b,
      rec_expiresAtMs = pb_expiresAtMs b, rec_updatedAtMs = pb_updatedAtMs b,
      rec_runtimeId = raw_optional obj ''runtimeId'', rec_fencingToken = raw_optional obj ''fencingToken'',
      rec_batchId = raw_optional obj ''batchId'',
      rec_txIndex = (if jfield obj ''txIndex'' = JUndefined \<or> jfield obj ''txIndex'' = JNull then None
                     else parseSafeInteger (jfield obj ''txIndex'')),
      rec_lifecycle = lc, rec_lane = rl\<rparr>"

text \<open>
  The parsers return the read result, or the error that \<open>toWalletId\<close> throws: that call is outside
  any \<open>try\<close>.
\<close>

definition parseEvmRecord ::
  "(string \<times> jsval) list \<Rightarrow> ParsedBaseInput \<Rightarrow> nonce_error + NonceLaneCoordinationReadResult" where
  "parseEvmRecord obj b =
     (let malformed = Inr (malformedRecordResult obj (pb_laneKey b) (pb_leaseId b) ''evm'');
          lc = normalizeEvmDurableLifecycle (pb_lifecycle b);
          nkV = jfield obj ''nonceKey'';
          nkAbsent = (nkV = JUndefined \<or> nkV = JNull)
      in case parseChainTarget (jfield obj ''chainTarget'') of
           None \<Rightarrow> malformed
         | Some target \<Rightarrow>
             (case parseEvmAddress (jfield obj ''sender'') of
                None \<Rightarrow> malformed
              | Some addr \<Rightarrow>
                  if pb_accountId b = [] \<or> (\<not> nkAbsent \<and> parseDecimalBigint nkV = None) then malformed
                  else case toWalletId (JStr (pb_accountId b)) of
                    Inl e \<Rightarrow> Inl e
                  | Inr account \<Rightarrow>
                      (let nkey = (if nkAbsent then None else parseDecimalBigint nkV);
                           lane = EvmLane \<lparr>chainTarget = target, subjectId = account, sender = addr,
                                           nonceKey = nkey\<rparr>
                       in Inr (ReadOk
                         \<lparr>parsed_record = buildBaseRecord obj b lc (EvmRecordLane target account addr nkey),
                          parsed_lane = lane, canonicalLaneKey = nonceLaneKey lane,
                          parsed_nonce = pb_nonce b\<rparr>))))"

definition parseNearRecord ::
  "(string \<times> jsval) list \<Rightarrow> ParsedBaseInput \<Rightarrow> nonce_error + NonceLaneCoordinationReadResult" where
  "parseNearRecord obj b =
     (let pk = rawString (jfield obj ''publicKey''); w = rawString (jfield obj ''walletId'') in
      if pb_nearAccountId b = [] \<or> w = [] \<or> pk = []
      then Inr (malformedRecordResult obj (pb_laneKey b) (pb_leaseId b) ''near'')
      else
        let lane = NearLane \<lparr>networkKey = pb_networkKey b, walletId = w,
                             nearAccountId = pb_nearAccountId b, publicKey = pk\<rparr>
        in Inr (ReadOk
          \<lparr>parsed_record = buildBaseRecord obj b (pb_lifecycle b) (NearRecordLane w (pb_nearAccountId b) pk),
           parsed_lane = lane, canonicalLaneKey = nonceLaneKey lane, parsed_nonce = pb_nonce b\<rparr>))"

definition parseNonceLaneCoordinationRecord ::
  "jsval \<Rightarrow> nonce_error + NonceLaneCoordinationReadResult" where
  "parseNonceLaneCoordinationRecord value =
     (case value of
        JObj obj \<Rightarrow>
          (let lid = rawString (jfield obj ''leaseId''); lkey = rawString (jfield obj ''laneKey'');
               family = rawString (jfield obj ''family''); nk = rawString (jfield obj ''networkKey'');
               opId = rawString (jfield obj ''operationId'');
               opFp = rawString (jfield obj ''operationFingerprint'');
               malformed = Inr (malformedRecordResult obj lkey lid family)
           in if jfield obj ''v'' \<noteq> JNum 1 then malformed
              else if lid = [] \<or> lkey = [] \<or> (family \<noteq> ''evm'' \<and> family \<noteq> ''near'') \<or> nk = [] \<or>
                      opId = [] \<or> opFp = [] then malformed
              else case (parseDecimalBigint (jfield obj ''nonce''), parseDurableLeaseLifecycle obj,
                         parseSafeInteger (jfield obj ''reservedAtMs''),
                         parseSafeInteger (jfield obj ''expiresAtMs''),
                         parseSafeInteger (jfield obj ''updatedAtMs'')) of
                (Some n, Some lc, Some res, Some exp, Some upd) \<Rightarrow>
                  (let b = \<lparr>pb_leaseId = lid, pb_laneKey = lkey, pb_networkKey = nk,
                            pb_accountId = rawString (jfield obj ''accountId''),
                            pb_nearAccountId = rawString (jfield obj ''nearAccountId''),
                            pb_nonce = n, pb_lifecycle = lc, pb_operationId = opId,
                            pb_operationFingerprint = opFp, pb_reservedAtMs = res,
                            pb_expiresAtMs = exp, pb_updatedAtMs = upd\<rparr>
                   in if family = ''evm'' then parseEvmRecord obj b else parseNearRecord obj b)
              | _ \<Rightarrow> malformed)
      | _ \<Rightarrow> Inr (malformedRecordResult [] [] [] []))"

section \<open>Writing and reading back\<close>

definition stored_string :: "string \<Rightarrow> bool" where
  "stored_string s \<longleftrightarrow> s \<noteq> [] \<and> js_trim s = s"

definition stored_opt :: "string option \<Rightarrow> bool" where
  "stored_opt v = (case v of None \<Rightarrow> True | Some s \<Rightarrow> stored_string s)"

text \<open>The records the coordinator writes: trimmed identifiers, canonical address and hash.\<close>

definition record_lane_ok :: "NonceDurableLeaseLifecycle \<Rightarrow> record_lane \<Rightarrow> bool" where
  "record_lane_ok lc rl =
     (case rl of
        EvmRecordLane t a s k \<Rightarrow>
          chain_target_ok t \<and> stored_string a \<and> \<not> hasWhitespaceOrControlCharacters a \<and>
          is_0x_hex 40 s \<and> (case k of None \<Rightarrow> True | Some n \<Rightarrow> 0 \<le> n) \<and>
          (case lc of DurableBroadcastAccepted h \<Rightarrow> is_0x_hex 64 h | _ \<Rightarrow> True)
      | NearRecordLane w a k \<Rightarrow>
          stored_string w \<and> stored_string a \<and> stored_string k \<and>
          (case lc of DurableBroadcastAccepted h \<Rightarrow> stored_string h | _ \<Rightarrow> True))"

definition record_ok :: "NonceLaneCoordinationRecord \<Rightarrow> bool" where
  "record_ok r \<longleftrightarrow>
     stored_string (rec_laneKey r) \<and> stored_string (rec_leaseId r) \<and> stored_string (rec_networkKey r) \<and>
     0 \<le> rec_nonce r \<and> stored_string (rec_operationId r) \<and> stored_string (rec_operationFingerprint r) \<and>
     safe_integer (rec_reservedAtMs r) \<and> safe_integer (rec_expiresAtMs r) \<and>
     safe_integer (rec_updatedAtMs r) \<and> stored_opt (rec_runtimeId r) \<and> stored_opt (rec_fencingToken r) \<and>
     stored_opt (rec_batchId r) \<and> (case rec_txIndex r of None \<Rightarrow> True | Some i \<Rightarrow> safe_integer i) \<and>
     record_lane_ok (rec_lifecycle r) (rec_lane r)"

definition record_to_lane :: "NonceLaneCoordinationRecord \<Rightarrow> NonceLane" where
  "record_to_lane r =
     (case rec_lane r of
        EvmRecordLane t a s k \<Rightarrow> EvmLane \<lparr>chainTarget = t, subjectId = a, sender = s, nonceKey = k\<rparr>
      | NearRecordLane w a k \<Rightarrow>
          NearLane \<lparr>networkKey = rec_networkKey r, walletId = w, nearAccountId = a, publicKey = k\<rparr>)"

definition parsed_of :: "NonceLaneCoordinationRecord \<Rightarrow> ParsedNonceLaneCoordinationRecord" where
  "parsed_of r =
     \<lparr>parsed_record = r, parsed_lane = record_to_lane r,
      canonicalLaneKey = nonceLaneKey (record_to_lane r), parsed_nonce = rec_nonce r\<rparr>"

definition opt_js :: "('a \<Rightarrow> jsval) \<Rightarrow> 'a option \<Rightarrow> jsval" where
  "opt_js f v = (case v of None \<Rightarrow> JUndefined | Some x \<Rightarrow> f x)"

text \<open>The fields of a stored object agree with a record.\<close>

definition base_fields :: "NonceLaneCoordinationRecord \<Rightarrow> (string \<Rightarrow> jsval) \<Rightarrow> bool" where
  "base_fields r g \<longleftrightarrow>
     g ''v'' = JNum 1 \<and> g ''laneKey'' = JStr (rec_laneKey r) \<and> g ''leaseId'' = JStr (rec_leaseId r) \<and>
     g ''networkKey'' = JStr (rec_networkKey r) \<and> g ''nonce'' = JStr (int_str (rec_nonce r)) \<and>
     g ''operationId'' = JStr (rec_operationId r) \<and>
     g ''operationFingerprint'' = JStr (rec_operationFingerprint r) \<and>
     g ''reservedAtMs'' = JNum (rec_reservedAtMs r) \<and> g ''expiresAtMs'' = JNum (rec_expiresAtMs r) \<and>
     g ''updatedAtMs'' = JNum (rec_updatedAtMs r) \<and> g ''state'' = JStr (durable_state_str (rec_lifecycle r)) \<and>
     g ''txHash'' = (case rec_lifecycle r of DurableBroadcastAccepted h \<Rightarrow> JStr h | _ \<Rightarrow> JUndefined) \<and>
     g ''runtimeId'' = opt_js JStr (rec_runtimeId r) \<and> g ''fencingToken'' = opt_js JStr (rec_fencingToken r) \<and>
     g ''batchId'' = opt_js JStr (rec_batchId r) \<and> g ''txIndex'' = opt_js JNum (rec_txIndex r)"

definition lane_fields :: "NonceLaneCoordinationRecord \<Rightarrow> (string \<Rightarrow> jsval) \<Rightarrow> bool" where
  "lane_fields r g =
     (case rec_lane r of
        EvmRecordLane t a s k \<Rightarrow>
          g ''family'' = JStr ''evm'' \<and> g ''chainTarget'' = JObj (chain_target_object t) \<and>
          g ''accountId'' = JStr a \<and> g ''sender'' = JStr s \<and>
          g ''nonceKey'' = opt_js (\<lambda>k. JStr (int_str k)) k
      | NearRecordLane w a k \<Rightarrow>
          g ''family'' = JStr ''near'' \<and> g ''walletId'' = JStr w \<and> g ''nearAccountId'' = JStr a \<and>
          g ''publicKey'' = JStr k)"

lemma map_of_ofield [simp]: "map_of (ofield k v) j = (if j = k then v else None)"
  by (simp add: ofield_def split: option.split)

lemma nonempty_stored: "stored_opt v \<Longrightarrow> nonempty v = v"
  by (auto simp: stored_opt_def nonempty_def stored_string_def split: option.split)

lemma safe_bind: "(case i of None \<Rightarrow> True | Some n \<Rightarrow> safe_integer n) \<Longrightarrow> Option.bind i safe_int = i"
  by (cases i) (auto simp: safe_int_def)

lemma serialize_fields:
  assumes "record_ok r"
  shows "base_fields r (jfield (serializeCoordinationRecord r))"
    and "lane_fields r (jfield (serializeCoordinationRecord r))"
  using assms
  by (cases "rec_lane r"; cases "rec_lifecycle r";
      simp add: base_fields_def lane_fields_def serializeCoordinationRecord_def serializedBase_def
        serializeEvmCoordinationRecord_def serializeNearCoordinationRecord_def
        serializedRecordMetadata_def serializedLifecycle_def record_ok_def nonempty_stored safe_bind
        opt_js_def map_add_def split: option.split)+

declare jfield.simps [simp del]

lemma parseStored_string [simp]: "stored_string s \<Longrightarrow> parseStoredNonEmptyString (JStr s) = Some s"
  by (simp add: parseStoredNonEmptyString_def stored_string_def)

lemma rawString_stored [simp]: "stored_string s \<Longrightarrow> rawString (JStr s) = s"
  by (simp add: rawString_def stored_string_def)

lemma stored_nonempty: "stored_string s \<Longrightarrow> s \<noteq> []"
  by (simp add: stored_string_def)

lemma int_str_stored [simp]: "stored_string (int_str n)"
  by (simp add: stored_string_def)

lemma parseDecimalBigint_int_str [simp]: "0 \<le> n \<Longrightarrow> parseDecimalBigint (JStr (int_str n)) = Some n"
  by (simp add: parseDecimalBigint_def all_digits_int_str int_str_def)

lemma undefined_or_opt_string:
  "stored_opt v \<Longrightarrow> undefined_or (\<lambda>v. parseStoredNonEmptyString v \<noteq> None) (opt_js JStr v)"
  by (auto simp: undefined_or_def opt_js_def stored_opt_def split: option.splits)

lemma undefined_or_opt_num:
  "(case i of None \<Rightarrow> True | Some n \<Rightarrow> safe_integer n) \<Longrightarrow>
   undefined_or is_safe_integer_value (opt_js JNum i)"
  by (auto simp: undefined_or_def opt_js_def is_safe_integer_value_def split: option.splits)

lemma hex_char_facts:
  "is_lower_hex c \<Longrightarrow> js_lower_char c = c" "is_lower_hex c \<Longrightarrow> \<not> js_whitespace c"
  by (auto simp: is_lower_hex_def is_digit_def js_lower_char_def js_whitespace_def Let_def)

lemma is_0x_hex_canonical:
  assumes "is_0x_hex n s"
  shows "js_lower s = s" "stored_string s"
proof -
  from assms obtain r where s: "s = CHR ''0'' # CHR ''x'' # r" and r: "list_all is_lower_hex r"
    by (cases s; cases "tl s") (auto simp: is_0x_hex_def)
  have ends: "js_lower_char CHR ''0'' = CHR ''0''" "js_lower_char CHR ''x'' = CHR ''x''"
    "\<not> js_whitespace CHR ''0''" "\<not> js_whitespace CHR ''x''"
    by (simp_all add: js_lower_char_def js_whitespace_def Let_def)
  show "js_lower s = s"
    using r by (simp add: s js_lower_def ends list_all_iff map_idI hex_char_facts)
  have "list_all (\<lambda>c. \<not> js_whitespace c) s"
    using r by (auto simp: s ends list_all_iff hex_char_facts)
  then show "stored_string s" by (simp add: stored_string_def js_trim_no_whitespace s)
qed

lemma stored_checks:
  assumes "record_ok r" and "base_fields r (jfield fs)"
  shows "stored_base_ok fs" "stored_tx_ok fs" "stored_metadata_ok fs"
proof -
  show "stored_base_ok fs"
    using assms by (cases "rec_lifecycle r")
      (simp_all add: record_ok_def base_fields_def stored_base_ok_def is_safe_integer_value_def)
  have "stored_string h" if "rec_lifecycle r = DurableBroadcastAccepted h" for h
    using that assms(1) by (auto simp: record_ok_def record_lane_ok_def is_0x_hex_canonical
        split: record_lane.splits)
  then show "stored_tx_ok fs"
    using assms by (cases "rec_lifecycle r") (simp_all add: base_fields_def stored_tx_ok_def)
  show "stored_metadata_ok fs"
    using assms by (simp add: record_ok_def base_fields_def stored_metadata_ok_def
        undefined_or_opt_string undefined_or_opt_num del: not_None_eq)
qed

lemma stored_target:
  assumes "chain_target_ok t"
  shows "parseStoredThresholdEcdsaChainTarget (JObj (chain_target_object t)) = Some t"
    and "parseChainTarget (JObj (chain_target_object t)) = Some t"
proof -
  have "thresholdEcdsaChainTargetFromRequest
     [(''kind'', jfield (chain_target_object t) ''kind''), (''namespace'', jfield (chain_target_object t) ''namespace''),
      (''chainId'', jfield (chain_target_object t) ''chainId''), (''networkSlug'', jfield (chain_target_object t) ''networkSlug'')]
     = thresholdEcdsaChainTargetFromRequest (chain_target_object t)"
    by (cases t) (simp_all add: thresholdEcdsaChainTargetFromRequest_def chain_target_object_def jfield.simps Let_def js_nullish_def)
  with chain_target_roundtrip [OF assms]
  show "parseStoredThresholdEcdsaChainTarget (JObj (chain_target_object t)) = Some t"
    and "parseChainTarget (JObj (chain_target_object t)) = Some t"
    by (simp_all add: parseStoredThresholdEcdsaChainTarget_def parseChainTarget_def)
qed

lemma map_of_unless_undefined [simp]:
  "map_of (unless_undefined k v) j = (if j = k \<and> v \<noteq> JUndefined then Some v else None)"
  by (simp add: unless_undefined_def)

lemma nonce_key_checks:
  "undefined_or (\<lambda>v. parseStoredNonEmptyString v \<noteq> None) (opt_js (\<lambda>k. JStr (int_str k)) k)"
  by (auto simp: undefined_or_def opt_js_def split: option.split)

definition lane_field_names :: "string list" where
  "lane_field_names = [''family'', ''walletId'', ''nearAccountId'', ''publicKey'', ''chainTarget'', ''sender'',
     ''accountId'', ''nonceKey'']"

lemma copied_fields:
  assumes "base_fields r (jfield fs)" and names: "fst ` set (mid @ rest) \<subseteq> set lane_field_names"
  shows "base_fields r (jfield (copied_base fs @ mid @ copied_metadata fs @ rest @ copied_tx fs))"
proof -
  have none: "map_of mid k = None" "map_of rest k = None" if "k \<notin> set lane_field_names" for k
    using that names by (auto simp: map_of_eq_None_iff)
  show ?thesis
    using assms(1)
    by (cases "rec_lifecycle r")
       (simp_all add: base_fields_def copied_base_def copied_metadata_def copied_tx_def
         jfield.simps [of "_ @ _"] jfield.simps [of "_ # _"] map_add_def none lane_field_names_def opt_js_def
         split: option.split)
qed

end
