(* ===== verification/NonceRecordRoundtrip.thy ===== *)
theory NonceRecordRoundtrip
  imports NonceRecords
begin

text \<open>
  What is written is what is read: the row parser and the boundary parser accept every record the
  coordinator writes and give it back, and what the two parsers do with records it does not write.
\<close>

lemma stored_record_read:
  assumes ok: "record_ok r" and base: "base_fields r (jfield fs)" and lane: "lane_fields r (jfield fs)"
  shows "\<exists>fs'. parseNonceLeaseRecord (JObj fs) = Some fs' \<and> base_fields r (jfield fs') \<and>
               lane_fields r (jfield fs')"
proof (cases "rec_lane r")
  case (NearRecordLane w a k)
  let ?mid = "[(''family'', JStr ''near''), (''walletId'', JStr w), (''nearAccountId'', JStr a), (''publicKey'', JStr k)]"
  let ?fs' = "copied_base fs @ ?mid @ copied_metadata fs @ [] @ copied_tx fs"
  have "parseNonceLeaseRecord (JObj fs) = Some ?fs'"
    using stored_checks [OF ok base] ok lane NearRecordLane
    by (simp add: parseNonceLeaseRecord_def record_ok_def record_lane_ok_def lane_fields_def)
  moreover have "base_fields r (jfield ?fs')"
    by (rule copied_fields [OF base]) (simp add: lane_field_names_def)
  moreover have "lane_fields r (jfield ?fs')"
    by (simp add: lane_fields_def NearRecordLane jfield.simps map_add_def copied_base_def
        copied_metadata_def copied_tx_def split: option.split)
  ultimately show ?thesis by blast
next
  case (EvmRecordLane t a s k)
  let ?mid = "[(''family'', JStr ''evm''), (''chainTarget'', JObj (chain_target_object t)), (''sender'', JStr s), (''accountId'', JStr a)]"
  let ?rest = "unless_undefined ''nonceKey'' (opt_js (\<lambda>k. JStr (int_str k)) k)"
  let ?fs' = "copied_base fs @ ?mid @ copied_metadata fs @ ?rest @ copied_tx fs"
  have lane_ok: "chain_target_ok t" "stored_string a" "is_0x_hex 40 s"
    using ok EvmRecordLane by (auto simp: record_ok_def record_lane_ok_def)
  have "parseNonceLeaseRecord (JObj fs) = Some ?fs'"
    using stored_checks [OF ok base] lane lane_ok EvmRecordLane is_0x_hex_canonical [OF lane_ok(3)]
    by (simp add: parseNonceLeaseRecord_def lane_fields_def stored_target nonce_key_checks del: not_None_eq)
  moreover have "base_fields r (jfield ?fs')"
    by (rule copied_fields [OF base]) (auto simp: lane_field_names_def unless_undefined_def ofield_def)
  moreover have "lane_fields r (jfield ?fs')"
    by (simp add: lane_fields_def EvmRecordLane jfield.simps map_add_def copied_base_def
        copied_metadata_def copied_tx_def opt_js_def split: option.split)
  ultimately show ?thesis by blast
qed

lemma raw_optional_opt: "jfield fs k = opt_js JStr v \<Longrightarrow> stored_opt v \<Longrightarrow> raw_optional fs k = v"
  by (cases v) (auto simp: raw_optional_def nonempty_def opt_js_def stored_opt_def rawString_def
      stored_string_def)

lemma parse_lifecycle:
  assumes "base_fields r (jfield fs)" and "record_ok r"
  shows "parseDurableLeaseLifecycle fs = Some (rec_lifecycle r)"
proof -
  have "stored_string h" if "rec_lifecycle r = DurableBroadcastAccepted h" for h
    using that assms(2) by (auto simp: record_ok_def record_lane_ok_def is_0x_hex_canonical
        split: record_lane.splits)
  with assms(1) show ?thesis
    by (cases "rec_lifecycle r")
       (auto simp: base_fields_def parseDurableLeaseLifecycle_def Let_def dest: stored_nonempty)
qed

lemma buildBaseRecord_id:
  assumes "record_ok r" and "base_fields r (jfield fs)"
    and "pb_leaseId b = rec_leaseId r" "pb_laneKey b = rec_laneKey r" "pb_networkKey b = rec_networkKey r"
    "pb_nonce b = rec_nonce r" "pb_operationId b = rec_operationId r"
    "pb_operationFingerprint b = rec_operationFingerprint r" "pb_reservedAtMs b = rec_reservedAtMs r"
    "pb_expiresAtMs b = rec_expiresAtMs r" "pb_updatedAtMs b = rec_updatedAtMs r"
  shows "buildBaseRecord fs b (rec_lifecycle r) (rec_lane r) = r"
  using assms
  by (cases "rec_txIndex r")
     (simp_all add: buildBaseRecord_def base_fields_def record_ok_def raw_optional_opt
       opt_js_def [of JNum] parseSafeInteger_def safe_int_def)

lemma boundary_read:
  assumes ok: "record_ok r" and base: "base_fields r (jfield fs)" and lane: "lane_fields r (jfield fs)"
  shows "parseNonceLaneCoordinationRecord (JObj fs) = Inr (ReadOk (parsed_of r))"
proof -
  define b where "b = \<lparr>pb_leaseId = rec_leaseId r, pb_laneKey = rec_laneKey r,
      pb_networkKey = rec_networkKey r, pb_accountId = rawString (jfield fs ''accountId''),
      pb_nearAccountId = rawString (jfield fs ''nearAccountId''), pb_nonce = rec_nonce r,
      pb_lifecycle = rec_lifecycle r, pb_operationId = rec_operationId r,
      pb_operationFingerprint = rec_operationFingerprint r, pb_reservedAtMs = rec_reservedAtMs r,
      pb_expiresAtMs = rec_expiresAtMs r, pb_updatedAtMs = rec_updatedAtMs r\<rparr>"
  have id: "buildBaseRecord fs b (rec_lifecycle r) (rec_lane r) = r"
    by (rule buildBaseRecord_id [OF ok base]) (simp_all add: b_def)
  have times: "parseSafeInteger (JNum (rec_reservedAtMs r)) = Some (rec_reservedAtMs r)"
    "parseSafeInteger (JNum (rec_expiresAtMs r)) = Some (rec_expiresAtMs r)"
    "parseSafeInteger (JNum (rec_updatedAtMs r)) = Some (rec_updatedAtMs r)"
    using ok by (simp_all add: record_ok_def parseSafeInteger_def safe_int_def)
  have strs: "stored_string (rec_laneKey r)" "stored_string (rec_leaseId r)" "stored_string (rec_networkKey r)"
    "stored_string (rec_operationId r)" "stored_string (rec_operationFingerprint r)" "0 \<le> rec_nonce r"
    using ok by (simp_all add: record_ok_def)
  note flds = base [unfolded base_fields_def]
  show ?thesis
  proof (cases "rec_lane r")
    case (NearRecordLane w a k)
    have l: "stored_string w" "stored_string a" "stored_string k"
      using ok NearRecordLane by (auto simp: record_ok_def record_lane_ok_def)
    have "rawString (JStr ''near'') = ''near''" by (simp add: rawString_def js_trim_def js_whitespace_def)
    then have "parseNonceLaneCoordinationRecord (JObj fs) = parseNearRecord fs b"
      using flds lane NearRecordLane strs times parse_lifecycle [OF base ok]
      by (simp add: parseNonceLaneCoordinationRecord_def lane_fields_def stored_nonempty b_def)
    also have "\<dots> = Inr (ReadOk (parsed_of r))"
      using id l lane NearRecordLane
      by (simp add: parseNearRecord_def Let_def lane_fields_def b_def stored_nonempty parsed_of_def record_to_lane_def)
    finally show ?thesis .
  next
    case (EvmRecordLane t a s k)
    have l: "chain_target_ok t" "stored_string a" "is_0x_hex 40 s" "\<not> hasWhitespaceOrControlCharacters a"
      using ok EvmRecordLane by (auto simp: record_ok_def record_lane_ok_def)
    have lc: "normalizeEvmDurableLifecycle (rec_lifecycle r) = rec_lifecycle r"
      using ok EvmRecordLane is_0x_hex_canonical
      by (auto simp: record_ok_def record_lane_ok_def normalizeEvmDurableLifecycle_def parseTxHash_def Let_def
          split: NonceDurableLeaseLifecycle.splits)
    have s: "parseEvmAddress (JStr s) = Some s"
      using is_0x_hex_canonical [OF l(3)] l(3) by (simp add: parseEvmAddress_def)
    have w: "toWalletId (JStr a) = Inr a"
      using l(2,4) by (simp add: toWalletId_def parseWalletId_def parseDomainId_def Let_def stored_string_def)
    have "rawString (JStr ''evm'') = ''evm''" by (simp add: rawString_def js_trim_def js_whitespace_def)
    then have "parseNonceLaneCoordinationRecord (JObj fs) = parseEvmRecord fs b"
      using flds lane EvmRecordLane strs times parse_lifecycle [OF base ok]
      by (simp add: parseNonceLaneCoordinationRecord_def lane_fields_def stored_nonempty b_def)
    also have "\<dots> = Inr (ReadOk (parsed_of r))"
      using id l lane EvmRecordLane lc s w ok
      by (cases k) (simp_all add: parseEvmRecord_def Let_def lane_fields_def b_def stored_nonempty stored_target
          opt_js_def parsed_of_def record_to_lane_def record_ok_def record_lane_ok_def)
    finally show ?thesis .
  qed
qed

end
