(* ===== verification/NonceStore.thy ===== *)
theory NonceStore
  imports NonceRecordRoundtrip "HOL-Library.List_Lexorder" "HOL-Library.Char_ord"
begin

text \<open>
  The durable lease store: the object store \<open>nonceLaneLeases\<close> with its operations
  (\<open>indexedDB/seamsWalletDB/repositories.ts\<close>) and the coordination store built on it
  (\<open>indexedDB/nonceLaneCoordinationStore.ts\<close>). The object store is the list of its rows with their
  primary keys (\<open>lease_id\<close>) in key order, the order in which IndexedDB returns them. Transactions
  are atomic; a failing transaction is modelled by the coordinator.
\<close>

type_synonym lease_rows = "(string \<times> jsval) list"

text \<open>\<open>store.put(row)\<close>: replaces the row with that key or inserts it in key order.\<close>

definition put_row :: "string \<Rightarrow> jsval \<Rightarrow> lease_rows \<Rightarrow> lease_rows" where
  "put_row k row rows = insort_key fst (k, row) (filter (\<lambda>(j, _). j \<noteq> k) rows)"

definition delete_row :: "string \<Rightarrow> lease_rows \<Rightarrow> lease_rows" where
  "delete_row k rows = filter (\<lambda>(j, _). j \<noteq> k) rows"

definition row_field :: "jsval \<Rightarrow> string \<Rightarrow> jsval" where
  "row_field row k = (case row of JObj fs \<Rightarrow> jfield fs k | _ \<Rightarrow> JUndefined)"

definition readNonceLaneLeaseRecords :: "lease_rows \<Rightarrow> string \<Rightarrow> (string \<times> jsval) list list" where
  "readNonceLaneLeaseRecords rows lkey =
     (let normalized = js_trim lkey in
      if normalized = [] then []
      else List.map_filter (\<lambda>(_, row). parseNonceLeaseRow row)
             (filter (\<lambda>(_, row). row_field row ''lane_key'' = JStr normalized) rows))"

definition listNonceLaneLeaseRecords :: "lease_rows \<Rightarrow> string option \<Rightarrow> (string \<times> jsval) list list" where
  "listNonceLaneLeaseRecords rows wid =
     (let w = (case wid of None \<Rightarrow> [] | Some s \<Rightarrow> js_trim s) in
      List.map_filter (\<lambda>(_, row). parseNonceLeaseRow row)
        (if w = [] then rows else filter (\<lambda>(_, row). row_field row ''wallet_id'' = JStr w) rows))"

definition upsertNonceLaneLeaseRecord ::
  "(string \<times> jsval) list \<Rightarrow> lease_rows \<Rightarrow> nonce_error + lease_rows" where
  "upsertNonceLaneLeaseRecord fs rows =
     (case nonceLeaseRow fs of Inl e \<Rightarrow> Inl e | Inr (k, row) \<Rightarrow> Inr (put_row k (JObj row) rows))"

definition removeNonceLaneLeaseRecord :: "string \<Rightarrow> lease_rows \<Rightarrow> lease_rows" where
  "removeNonceLaneLeaseRecord lid rows =
     (let k = js_trim lid in if k = [] then rows else delete_row k rows)"

text \<open>The loop that deletes the rows of a scan whose record parses and is not broadcast.\<close>

definition unprotected :: "jsval \<Rightarrow> string option" where
  "unprotected row =
     (case parseNonceLeaseRow row of
        None \<Rightarrow> None
      | Some fs \<Rightarrow> if jfield fs ''state'' = JStr ''broadcast_accepted'' then None
                  else (case jfield fs ''leaseId'' of JStr s \<Rightarrow> Some s | _ \<Rightarrow> None))"

definition delete_scanned :: "lease_rows \<Rightarrow> lease_rows \<Rightarrow> lease_rows" where
  "delete_scanned scan rows = fold (\<lambda>(_, row) rs. case unprotected row of None \<Rightarrow> rs | Some k \<Rightarrow> delete_row k rs) scan rows"

definition clearNonceLaneLeaseRecordsForWallet :: "string \<Rightarrow> lease_rows \<Rightarrow> lease_rows" where
  "clearNonceLaneLeaseRecordsForWallet wid rows =
     (let w = js_trim wid in
      if w = [] then rows
      else delete_scanned (filter (\<lambda>(_, row). row_field row ''wallet_id'' = JStr w) rows) rows)"

definition clearAllNonceLaneLeaseRecords :: "lease_rows \<Rightarrow> lease_rows" where
  "clearAllNonceLaneLeaseRecords rows = []"

definition pruneExpiredNonceLaneLeaseRecords :: "int \<Rightarrow> lease_rows \<Rightarrow> lease_rows" where
  "pruneExpiredNonceLaneLeaseRecords nowMs rows =
     (if \<not> safe_integer nowMs then rows
      else delete_scanned
        (filter (\<lambda>(_, row). case row_field row ''expires_at_ms'' of JNum e \<Rightarrow> e \<le> nowMs | _ \<Rightarrow> False) rows)
        rows)"

section \<open>The coordination store\<close>

fun traverse :: "('a \<Rightarrow> 'e + 'b) \<Rightarrow> 'a list \<Rightarrow> 'e + 'b list" where
  "traverse f [] = Inr []"
| "traverse f (x # xs) =
     (case f x of Inl e \<Rightarrow> Inl e
      | Inr y \<Rightarrow> (case traverse f xs of Inl e \<Rightarrow> Inl e | Inr ys \<Rightarrow> Inr (y # ys)))"

definition ok_records :: "NonceLaneCoordinationReadResult list \<Rightarrow> ParsedNonceLaneCoordinationRecord list" where
  "ok_records rs = List.map_filter (\<lambda>r. case r of ReadOk p \<Rightarrow> Some p | ReadFailure _ _ _ \<Rightarrow> None) rs"

definition store_readLane :: "lease_rows \<Rightarrow> string \<Rightarrow> nonce_error + ParsedNonceLaneCoordinationRecord list" where
  "store_readLane rows lkey =
     map_sum id ok_records
       (traverse (\<lambda>fs. parseNonceLaneCoordinationRecord (JObj fs)) (readNonceLaneLeaseRecords rows lkey))"

definition store_readAll ::
  "lease_rows \<Rightarrow> string option \<Rightarrow> nonce_error + ParsedNonceLaneCoordinationRecord list" where
  "store_readAll rows wid =
     map_sum id ok_records
       (traverse (\<lambda>fs. parseNonceLaneCoordinationRecord (JObj fs)) (listNonceLaneLeaseRecords rows wid))"

definition store_readAllForRecovery ::
  "lease_rows \<Rightarrow> string option \<Rightarrow> nonce_error + NonceLaneCoordinationReadResult list" where
  "store_readAllForRecovery rows wid =
     traverse (\<lambda>fs. parseNonceLaneCoordinationRecord (JObj fs)) (listNonceLaneLeaseRecords rows wid)"

definition store_upsert :: "NonceLaneCoordinationRecord \<Rightarrow> lease_rows \<Rightarrow> nonce_error + lease_rows" where
  "store_upsert r rows = upsertNonceLaneLeaseRecord (serializeCoordinationRecord r) rows"

definition store_remove :: "string \<Rightarrow> string \<Rightarrow> lease_rows \<Rightarrow> lease_rows" where
  "store_remove lkey lid rows = removeNonceLaneLeaseRecord lid rows"

section \<open>Store invariant and what is stored\<close>

text \<open>Every row sits under the key that is its \<open>lease_id\<close>, once, in key order.\<close>

definition rows_ok :: "lease_rows \<Rightarrow> bool" where
  "rows_ok rows \<longleftrightarrow>
     sorted (map fst rows) \<and> distinct (map fst rows) \<and>
     (\<forall>(k, row) \<in> set rows. row_field row ''lease_id'' = JStr k)"

text \<open>\<open>holds rows lane p\<close>: a read of the lane finds the parsed record \<open>p\<close>.\<close>

definition row_record :: "jsval \<Rightarrow> ParsedNonceLaneCoordinationRecord option" where
  "row_record row =
     (case parseNonceLeaseRow row of
        None \<Rightarrow> None
      | Some fs \<Rightarrow> (case parseNonceLaneCoordinationRecord (JObj fs) of
          Inr (ReadOk p) \<Rightarrow> Some p | _ \<Rightarrow> None))"

definition holds :: "lease_rows \<Rightarrow> string \<Rightarrow> ParsedNonceLaneCoordinationRecord \<Rightarrow> bool" where
  "holds rows lkey p \<longleftrightarrow>
     (\<exists>(k, row) \<in> set rows. row_field row ''lane_key'' = JStr lkey \<and> row_record row = Some p)"

lemma set_put_row: "set (put_row k row rows) = insert (k, row) {(j, r) \<in> set rows. j \<noteq> k}"
  by (auto simp: put_row_def set_insort_key)

lemma set_delete_row: "set (delete_row k rows) = {(j, r) \<in> set rows. j \<noteq> k}"
  by (auto simp: delete_row_def)

lemma rows_ok_filter: "rows_ok rows \<Longrightarrow> rows_ok (filter P rows)"
  by (auto simp: rows_ok_def sorted_filter distinct_map_filter)

lemma rows_ok_delete: "rows_ok rows \<Longrightarrow> rows_ok (delete_row k rows)"
  unfolding delete_row_def by (rule rows_ok_filter)

lemma rows_ok_put:
  assumes "rows_ok rows" and "row_field row ''lease_id'' = JStr k"
  shows "rows_ok (put_row k row rows)"
proof -
  let ?f = "filter (\<lambda>(j, _). j \<noteq> k) rows"
  have f: "rows_ok ?f" using assms(1) by (rule rows_ok_filter)
  then have "sorted (map fst (put_row k row rows))"
    by (simp add: rows_ok_def put_row_def sorted_insort_key)
  moreover have "distinct (map fst (put_row k row rows))"
    using f by (simp add: rows_ok_def put_row_def distinct_insort_key) (force simp: distinct_insort_key set_insort_key)
  moreover have "\<forall>(j, r) \<in> set (put_row k row rows). row_field r ''lease_id'' = JStr j"
    using assms by (auto simp: set_put_row rows_ok_def)
  ultimately show ?thesis by (simp add: rows_ok_def)
qed

section \<open>Rows of written records\<close>

definition record_wallet :: "NonceLaneCoordinationRecord \<Rightarrow> string" where
  "record_wallet r = (case rec_lane r of EvmRecordLane _ a _ _ \<Rightarrow> a | NearRecordLane w _ _ \<Rightarrow> w)"

lemma js_String_or_empty_JStr [simp]: "js_String_or_empty (JStr s) = s"
  by (simp add: js_String_or_empty_def)

lemma stored_trim: "stored_string s \<Longrightarrow> js_trim s = s"
  by (simp add: stored_string_def)

lemma lane_wallet:
  assumes "lane_fields r (jfield fs)"
  shows "nonceLeaseWalletId fs = JStr (record_wallet r)"
    and "nonceLeaseNearAccountId fs = JStr (case rec_lane r of EvmRecordLane _ _ _ _ \<Rightarrow> [] | NearRecordLane _ a _ \<Rightarrow> a)"
  using assms
  by (auto simp: lane_fields_def nonceLeaseWalletId_def nonceLeaseNearAccountId_def record_wallet_def
      split: record_lane.splits)

lemma record_ok_strings:
  assumes "record_ok r"
  shows "stored_string (rec_leaseId r)" "stored_string (rec_laneKey r)" "stored_string (record_wallet r)"
    "safe_integer (rec_expiresAtMs r)"
  using assms by (auto simp: record_ok_def record_lane_ok_def record_wallet_def split: record_lane.splits)

lemma written_row:
  assumes ok: "record_ok r"
  obtains row fs' where
    "nonceLeaseRow (serializeCoordinationRecord r) = Inr (rec_leaseId r, row)"
    "jfield row ''lease_id'' = JStr (rec_leaseId r)" "jfield row ''lane_key'' = JStr (rec_laneKey r)"
    "jfield row ''wallet_id'' = JStr (record_wallet r)" "jfield row ''expires_at_ms'' = JNum (rec_expiresAtMs r)"
    "parseNonceLeaseRow (JObj row) = Some fs'" "base_fields r (jfield fs')" "lane_fields r (jfield fs')"
proof -
  let ?fs = "serializeCoordinationRecord r"
  note f = serialize_fields [OF ok]
  obtain fs' where fs': "parseNonceLeaseRecord (JObj ?fs) = Some fs'" "base_fields r (jfield fs')"
    "lane_fields r (jfield fs')"
    using stored_record_read [OF ok f] by blast
  define nacc where "nacc = (case rec_lane r of EvmRecordLane _ _ _ _ \<Rightarrow> [] | NearRecordLane _ a _ \<Rightarrow> a)"
  have nacc: "js_trim nacc = nacc"
    using ok js_trim_def [of "[]"]
    by (auto simp: nacc_def record_ok_def record_lane_ok_def stored_trim split: record_lane.splits)
  define row where "row =
    [(''lease_id'', JStr (rec_leaseId r)), (''lane_key'', JStr (rec_laneKey r)),
     (''wallet_id'', JStr (record_wallet r))] @
     ofield ''near_account_id'' (if nacc = [] then None else Some (JStr nacc)) @
     [(''state'', JStr (durable_state_str (rec_lifecycle r))),
      (''expires_at_ms'', JNum (rec_expiresAtMs r)), (''record'', JObj ?fs)]"
  note s = record_ok_strings [OF ok]
  have row1: "nonceLeaseRow ?fs = Inr (rec_leaseId r, row)"
    using f(1) s lane_wallet [OF f(2)] nacc
    by (simp add: nonceLeaseRow_def js_str_field_def base_fields_def stored_trim stored_nonempty row_def
        nacc_def js_Number_def safe_int_def Let_def)
  have flds: "jfield row ''lease_id'' = JStr (rec_leaseId r)" "jfield row ''lane_key'' = JStr (rec_laneKey r)"
    "jfield row ''wallet_id'' = JStr (record_wallet r)" "jfield row ''expires_at_ms'' = JNum (rec_expiresAtMs r)"
    "jfield row ''state'' = JStr (durable_state_str (rec_lifecycle r))" "jfield row ''record'' = JObj ?fs"
    "jfield row ''near_account_id'' = (if nacc = [] then JUndefined else JStr nacc)"
    by (simp_all add: row_def jfield.simps map_add_def)
  have "parseNonceLeaseRow (JObj row) = Some fs'"
    using fs' lane_wallet [OF fs'(3)] flds
    by (simp add: parseNonceLeaseRow_def base_fields_def nacc_def [symmetric])
  with row1 flds fs' that show ?thesis by blast
qed

lemma written_row_record:
  assumes "record_ok r" "parseNonceLeaseRow row = Some fs" "base_fields r (jfield fs)" "lane_fields r (jfield fs)"
  shows "row_record row = Some (parsed_of r)"
  using assms boundary_read by (simp add: row_record_def)

section \<open>The contract of a coordination store\<close>

text \<open>
  What the coordinator relies on: a write is visible and replaces only the record with its id, a
  removal takes away only its id, and a sweep (pruning by time, clearing a wallet) only takes
  records away and never a protected one.
\<close>

datatype ('r, 'i, 't) store_op = Put 'r | Del 'i | Sweep 't

locale coordination_store =
  fixes inv :: "'s \<Rightarrow> bool"
    and has :: "'s \<Rightarrow> 'r \<Rightarrow> bool"
    and put :: "'r \<Rightarrow> 's \<Rightarrow> 's"
    and del :: "'i \<Rightarrow> 's \<Rightarrow> 's"
    and sweep :: "'t \<Rightarrow> 's \<Rightarrow> 's"
    and rid :: "'r \<Rightarrow> 'i"
    and good :: "'r \<Rightarrow> bool"
    and good_id :: "'i \<Rightarrow> bool"
    and protect :: "'r \<Rightarrow> bool"
  assumes inv_put: "inv s \<Longrightarrow> good r \<Longrightarrow> inv (put r s)"
    and inv_del: "inv s \<Longrightarrow> inv (del i s)"
    and inv_sweep: "inv s \<Longrightarrow> inv (sweep t s)"
    and has_put: "inv s \<Longrightarrow> good r \<Longrightarrow> has (put r s) q \<longleftrightarrow> q = r \<or> (has s q \<and> rid q \<noteq> rid r)"
    and has_del: "inv s \<Longrightarrow> good_id i \<Longrightarrow> has (del i s) q \<longleftrightarrow> has s q \<and> rid q \<noteq> i"
    and sweep_subset: "inv s \<Longrightarrow> has (sweep t s) q \<Longrightarrow> has s q"
    and sweep_protected: "inv s \<Longrightarrow> has s q \<Longrightarrow> protect q \<Longrightarrow> has (sweep t s) q"
begin

primrec exec :: "('r, 'i, 't) store_op \<Rightarrow> 's \<Rightarrow> 's" where
  "exec (Put r) s = put r s"
| "exec (Del i) s = del i s"
| "exec (Sweep t) s = sweep t s"

primrec run :: "('r, 'i, 't) store_op list \<Rightarrow> 's \<Rightarrow> 's" where
  "run [] s = s"
| "run (x # xs) s = run xs (exec x s)"

definition op_good :: "('r, 'i, 't) store_op \<Rightarrow> bool" where
  "op_good x = (case x of Put r \<Rightarrow> good r | Del i \<Rightarrow> good_id i | Sweep _ \<Rightarrow> True)"

definition touches :: "'i \<Rightarrow> ('r, 'i, 't) store_op \<Rightarrow> bool" where
  "touches i x = (case x of Put r \<Rightarrow> rid r = i | Del j \<Rightarrow> i = j | Sweep _ \<Rightarrow> False)"

lemma inv_exec: "inv s \<Longrightarrow> op_good x \<Longrightarrow> inv (exec x s)"
  by (cases x) (auto simp: op_good_def inv_put inv_del inv_sweep)

lemma inv_run: "inv s \<Longrightarrow> list_all op_good xs \<Longrightarrow> inv (run xs s)"
  by (induction xs arbitrary: s) (auto simp: inv_exec)

text \<open>A protected record stays readable until an operation names its id.\<close>

lemma protected_survives:
  "inv s \<Longrightarrow> list_all op_good xs \<Longrightarrow> has s q \<Longrightarrow> protect q \<Longrightarrow> list_all (\<lambda>x. \<not> touches (rid q) x) xs \<Longrightarrow>
   has (run xs s) q"
proof (induction xs arbitrary: s)
  case (Cons x xs)
  have "has (exec x s) q"
    using Cons.prems
    by (cases x) (auto simp: op_good_def touches_def has_put has_del sweep_protected)
  with Cons show ?case by (auto simp: inv_exec)
qed simp

text \<open>Nothing is read that was not written.\<close>

lemma no_invention:
  "inv s \<Longrightarrow> list_all op_good xs \<Longrightarrow> has (run xs s) q \<Longrightarrow> has s q \<or> Put q \<in> set xs"
proof (induction xs arbitrary: s)
  case (Cons x xs)
  then have "has (exec x s) q \<or> Put q \<in> set xs" by (auto simp: inv_exec)
  with Cons.prems show ?case
    by (cases x) (auto simp: op_good_def has_put has_del dest: sweep_subset)
qed simp

text \<open>A record is readable after its last write unless it was removed or swept since.\<close>

lemma write_then_others:
  "inv s \<Longrightarrow> good q \<Longrightarrow> list_all op_good xs \<Longrightarrow> list_all (\<lambda>x. \<not> touches (rid q) x) xs \<Longrightarrow> protect q \<Longrightarrow>
   has (run (Put q # xs) s) q"
  by (simp add: protected_survives inv_put has_put)

end

section \<open>The IndexedDB store satisfies the contract\<close>

datatype sweep_kind = SweepExpired int | SweepWallet string

definition store_has :: "lease_rows \<Rightarrow> ParsedNonceLaneCoordinationRecord \<Rightarrow> bool" where
  "store_has rows p \<longleftrightarrow> (\<exists>row \<in> snd ` set rows. row_record row = Some p)"

definition store_put :: "ParsedNonceLaneCoordinationRecord \<Rightarrow> lease_rows \<Rightarrow> lease_rows" where
  "store_put p rows = (case store_upsert (parsed_record p) rows of Inl _ \<Rightarrow> rows | Inr s \<Rightarrow> s)"

definition store_sweep :: "sweep_kind \<Rightarrow> lease_rows \<Rightarrow> lease_rows" where
  "store_sweep k rows =
     (case k of SweepExpired t \<Rightarrow> pruneExpiredNonceLaneLeaseRecords t rows
      | SweepWallet w \<Rightarrow> clearNonceLaneLeaseRecordsForWallet w rows)"

definition parsed_id :: "ParsedNonceLaneCoordinationRecord \<Rightarrow> string" where
  "parsed_id p = rec_leaseId (parsed_record p)"

definition parsed_good :: "ParsedNonceLaneCoordinationRecord \<Rightarrow> bool" where
  "parsed_good p \<longleftrightarrow> record_ok (parsed_record p) \<and> p = parsed_of (parsed_record p)"

definition broadcast_record :: "NonceLaneCoordinationRecord \<Rightarrow> bool" where
  "broadcast_record r = (case rec_lifecycle r of DurableBroadcastAccepted _ \<Rightarrow> True | _ \<Rightarrow> False)"

lemma parseNonceLeaseRecord_shape:
  assumes "parseNonceLeaseRecord v = Some fs"
  obtains f mid rest where "v = JObj f" "stored_base_ok f"
    "fs = copied_base f @ mid @ copied_metadata f @ rest" "set (map fst mid) \<subseteq> set lane_field_names"
proof (cases v)
  case (JObj f)
  show thesis
  proof (cases "jfield f ''family'' = JStr ''near''")
    case True
    with assms JObj have "stored_base_ok f" and
      fs: "fs = copied_base f @ [(''family'', JStr ''near''), (''walletId'', jfield f ''walletId''),
        (''nearAccountId'', jfield f ''nearAccountId''), (''publicKey'', jfield f ''publicKey'')] @
        copied_metadata f @ copied_tx f"
      by (auto simp: parseNonceLeaseRecord_def split: if_splits)
    show thesis by (rule that [OF JObj \<open>stored_base_ok f\<close> fs]) (simp add: lane_field_names_def)
  next
    case False
    with assms JObj obtain t where "stored_base_ok f" and
      fs: "fs = copied_base f @ [(''family'', JStr ''evm''), (''chainTarget'', JObj (chain_target_object t)),
        (''sender'', jfield f ''sender''), (''accountId'', jfield f ''accountId'')] @
        copied_metadata f @ unless_undefined ''nonceKey'' (jfield f ''nonceKey'') @ copied_tx f"
      by (auto simp: parseNonceLeaseRecord_def split: if_splits option.splits)
    show thesis by (rule that [OF JObj \<open>stored_base_ok f\<close> fs]) (simp add: lane_field_names_def)
  qed
qed (use assms in \<open>auto simp: parseNonceLeaseRecord_def\<close>)

lemma copied_lookup:
  assumes "set (map fst mid) \<subseteq> set lane_field_names"
  shows "jfield (copied_base f @ rest') ''leaseId'' = jfield f ''leaseId''"
    and "jfield (copied_base f @ rest') ''laneKey'' = jfield f ''laneKey''"
    and "jfield (copied_base f @ mid @ copied_metadata f @ rest) ''state'' = jfield f ''state''"
proof -
  have "''state'' \<notin> set lane_field_names" by (simp add: lane_field_names_def)
  with assms have "map_of mid ''state'' = None" by (auto simp: map_of_eq_None_iff)
  then show "jfield (copied_base f @ mid @ copied_metadata f @ rest) ''state'' = jfield f ''state''"
    by (simp add: jfield.simps [of "_ # _"] copied_base_def copied_metadata_def map_add_def)
qed (simp_all add: jfield.simps [of "_ # _"] copied_base_def)

lemma stored_lease_string:
  assumes "parseNonceLeaseRow row = Some fs"
  shows "\<exists>lid lkey. jfield fs ''leaseId'' = JStr lid \<and> stored_string lid \<and> row_field row ''lease_id'' = JStr lid \<and>
           jfield fs ''laneKey'' = JStr lkey \<and> stored_string lkey \<and> row_field row ''lane_key'' = JStr lkey"
proof -
  from assms obtain r where row: "row = JObj r" and
    rec: "parseNonceLeaseRecord (jfield r ''record'') = Some fs" and
    ids: "jfield r ''lease_id'' = jfield fs ''leaseId''" "jfield r ''lane_key'' = jfield fs ''laneKey''"
    by (cases row) (simp_all add: parseNonceLeaseRow_def split: option.splits if_splits)
  obtain f mid rest where base: "stored_base_ok f" and
    fs: "fs = copied_base f @ mid @ copied_metadata f @ rest" and mid: "set (map fst mid) \<subseteq> set lane_field_names"
    by (rule parseNonceLeaseRecord_shape [OF rec])
  have stored: "\<exists>s. v = JStr s \<and> stored_string s" if "parseStoredNonEmptyString v \<noteq> None" for v
    using that by (cases v) (auto simp: parseStoredNonEmptyString_def stored_string_def split: if_splits)
  from base stored obtain lid lkey where "jfield f ''leaseId'' = JStr lid" "stored_string lid"
    "jfield f ''laneKey'' = JStr lkey" "stored_string lkey"
    unfolding stored_base_ok_def by blast
  with copied_lookup [OF mid] ids row fs show ?thesis by (simp add: row_field_def)
qed

lemma parseEvmRecord_ok:
  assumes "parseEvmRecord obj b = Inr (ReadOk p)"
  shows "\<exists>rl. parsed_record p = buildBaseRecord obj b (normalizeEvmDurableLifecycle (pb_lifecycle b)) rl"
  using assms unfolding parseEvmRecord_def Let_def malformedRecordResult_def
  by (auto split: option.splits if_splits sum.splits)

lemma parseNearRecord_ok:
  assumes "parseNearRecord obj b = Inr (ReadOk p)"
  shows "\<exists>rl. parsed_record p = buildBaseRecord obj b (pb_lifecycle b) rl"
  using assms unfolding parseNearRecord_def Let_def malformedRecordResult_def
  by (auto split: if_splits)

lemma boundary_cases:
  assumes "parseNonceLaneCoordinationRecord (JObj obj) = Inr (ReadOk p)"
  obtains b where "parseEvmRecord obj b = Inr (ReadOk p) \<or> parseNearRecord obj b = Inr (ReadOk p)"
    "pb_leaseId b = rawString (jfield obj ''leaseId'')" "pb_laneKey b = rawString (jfield obj ''laneKey'')"
    "parseDurableLeaseLifecycle obj = Some (pb_lifecycle b)"
proof -
  define b where "b = \<lparr>pb_leaseId = rawString (jfield obj ''leaseId''),
      pb_laneKey = rawString (jfield obj ''laneKey''), pb_networkKey = rawString (jfield obj ''networkKey''),
      pb_accountId = rawString (jfield obj ''accountId''),
      pb_nearAccountId = rawString (jfield obj ''nearAccountId''),
      pb_nonce = the (parseDecimalBigint (jfield obj ''nonce'')),
      pb_lifecycle = the (parseDurableLeaseLifecycle obj),
      pb_operationId = rawString (jfield obj ''operationId''),
      pb_operationFingerprint = rawString (jfield obj ''operationFingerprint''),
      pb_reservedAtMs = the (parseSafeInteger (jfield obj ''reservedAtMs'')),
      pb_expiresAtMs = the (parseSafeInteger (jfield obj ''expiresAtMs'')),
      pb_updatedAtMs = the (parseSafeInteger (jfield obj ''updatedAtMs''))\<rparr>"
  have "(parseEvmRecord obj b = Inr (ReadOk p) \<or> parseNearRecord obj b = Inr (ReadOk p)) \<and>
    parseDurableLeaseLifecycle obj = Some (pb_lifecycle b)"
    using assms unfolding parseNonceLaneCoordinationRecord_def Let_def malformedRecordResult_def
    by (simp add: b_def split: option.splits if_splits)
  moreover have "pb_leaseId b = rawString (jfield obj ''leaseId'')" "pb_laneKey b = rawString (jfield obj ''laneKey'')"
    by (simp_all add: b_def)
  ultimately show thesis using that by blast
qed

lemma boundary_ok_shape:
  assumes "parseNonceLaneCoordinationRecord (JObj obj) = Inr (ReadOk p)"
  obtains b lc rl where "parsed_record p = buildBaseRecord obj b lc rl"
    "pb_leaseId b = rawString (jfield obj ''leaseId'')" "pb_laneKey b = rawString (jfield obj ''laneKey'')"
    "parseDurableLeaseLifecycle obj = Some (pb_lifecycle b)"
    "lc = pb_lifecycle b \<or> lc = normalizeEvmDurableLifecycle (pb_lifecycle b)"
proof (rule boundary_cases [OF assms])
  fix b
  assume "parseEvmRecord obj b = Inr (ReadOk p) \<or> parseNearRecord obj b = Inr (ReadOk p)"
    "pb_leaseId b = rawString (jfield obj ''leaseId'')" "pb_laneKey b = rawString (jfield obj ''laneKey'')"
    "parseDurableLeaseLifecycle obj = Some (pb_lifecycle b)"
  then show thesis
    using that parseEvmRecord_ok [of obj b p] parseNearRecord_ok [of obj b p] by blast
qed

text \<open>The nonce and the lane of a parsed record are those of its record.\<close>

lemma boundary_consistent:
  assumes "parseNonceLaneCoordinationRecord (JObj fs) = Inr (ReadOk p)"
  shows "parsed_nonce p = rec_nonce (parsed_record p)"
    and "parsed_lane p = record_to_lane (parsed_record p)"
    and "canonicalLaneKey p = nonceLaneKey (parsed_lane p)"
proof -
  have evm: "parsed_nonce p = rec_nonce (parsed_record p) \<and> parsed_lane p = record_to_lane (parsed_record p) \<and>
      canonicalLaneKey p = nonceLaneKey (parsed_lane p)" if "parseEvmRecord fs b = Inr (ReadOk p)" for b
    using that unfolding parseEvmRecord_def Let_def malformedRecordResult_def buildBaseRecord_def record_to_lane_def
    by (auto split: option.splits if_splits sum.splits)
  have near: "parsed_nonce p = rec_nonce (parsed_record p) \<and> parsed_lane p = record_to_lane (parsed_record p) \<and>
      canonicalLaneKey p = nonceLaneKey (parsed_lane p)" if "parseNearRecord fs b = Inr (ReadOk p)" for b
    using that unfolding parseNearRecord_def Let_def malformedRecordResult_def buildBaseRecord_def record_to_lane_def
    by (auto split: if_splits)
  from boundary_cases [OF assms] evm near
  show "parsed_nonce p = rec_nonce (parsed_record p)"
    and "parsed_lane p = record_to_lane (parsed_record p)"
    and "canonicalLaneKey p = nonceLaneKey (parsed_lane p)" by blast+
qed

lemma normalize_broadcast:
  "normalizeEvmDurableLifecycle lc = DurableBroadcastAccepted h \<Longrightarrow> \<exists>h'. lc = DurableBroadcastAccepted h'"
  by (cases lc) (auto simp: normalizeEvmDurableLifecycle_def)

lemma lifecycle_broadcast_state:
  "parseDurableLeaseLifecycle obj = Some (DurableBroadcastAccepted h) \<Longrightarrow>
   jfield obj ''state'' = JStr ''broadcast_accepted''"
  by (auto simp: parseDurableLeaseLifecycle_def Let_def split: if_splits)

lemma row_record_facts:
  assumes "row_record row = Some p"
  shows "row_field row ''lease_id'' = JStr (parsed_id p)"
    and "row_field row ''lane_key'' = JStr (rec_laneKey (parsed_record p))"
    and "broadcast_record (parsed_record p) \<Longrightarrow> unprotected row = None"
proof -
  from assms obtain fs where fs: "parseNonceLeaseRow row = Some fs"
    and read: "parseNonceLaneCoordinationRecord (JObj fs) = Inr (ReadOk p)"
    by (auto simp: row_record_def split: option.splits sum.splits NonceLaneCoordinationReadResult.splits)
  obtain b lc rl where p: "parsed_record p = buildBaseRecord fs b lc rl"
    and ids: "pb_leaseId b = rawString (jfield fs ''leaseId'')" "pb_laneKey b = rawString (jfield fs ''laneKey'')"
    and lc: "parseDurableLeaseLifecycle fs = Some (pb_lifecycle b)"
      "lc = pb_lifecycle b \<or> lc = normalizeEvmDurableLifecycle (pb_lifecycle b)"
    by (rule boundary_ok_shape [OF read])
  from stored_lease_string [OF fs] ids p
  show "row_field row ''lease_id'' = JStr (parsed_id p)"
    and "row_field row ''lane_key'' = JStr (rec_laneKey (parsed_record p))"
    by (auto simp: parsed_id_def buildBaseRecord_def)
  assume "broadcast_record (parsed_record p)"
  then obtain h where "lc = DurableBroadcastAccepted h"
    by (auto simp: broadcast_record_def p buildBaseRecord_def split: NonceDurableLeaseLifecycle.splits)
  with lc normalize_broadcast obtain h' where "pb_lifecycle b = DurableBroadcastAccepted h'" by metis
  with lc have "jfield fs ''state'' = JStr ''broadcast_accepted''" by (auto dest: lifecycle_broadcast_state)
  with fs show "unprotected row = None" by (simp add: unprotected_def)
qed

lemma unprotected_key:
  assumes "rows_ok rows" and "(k, row) \<in> set rows" and "unprotected row = Some j"
  shows "j = k"
proof -
  from assms(3) obtain fs where "parseNonceLeaseRow row = Some fs" "jfield fs ''leaseId'' = JStr j"
    by (auto simp: unprotected_def split: option.splits if_splits jsval.splits)
  with stored_lease_string [of row fs] assms(1,2) show ?thesis by (auto simp: rows_ok_def)
qed

lemma set_delete_scanned:
  assumes "rows_ok all" and "set scan \<subseteq> set all" and "rows_ok rows" and "set rows \<subseteq> set all"
  shows "set (delete_scanned scan rows) = {x \<in> set rows. \<not> (x \<in> set scan \<and> unprotected (snd x) \<noteq> None)}
         \<and> rows_ok (delete_scanned scan rows)"
  using assms(2-)
proof (induction scan arbitrary: rows)
  case Nil
  then show ?case by (simp add: delete_scanned_def)
next
  case (Cons x scan)
  obtain k row where x: "x = (k, row)" by (cases x)
  define rows' where "rows' = (case unprotected row of None \<Rightarrow> rows | Some j \<Rightarrow> delete_row j rows)"
  have ok': "rows_ok rows'" "set rows' \<subseteq> set all"
    using Cons.prems by (auto simp: rows'_def rows_ok_delete set_delete_row split: option.splits)
  have step: "delete_scanned (x # scan) rows = delete_scanned scan rows'"
    by (simp add: delete_scanned_def x rows'_def)
  have eq: "set rows' = {y \<in> set rows. \<not> (y = x \<and> unprotected (snd y) \<noteq> None)}"
  proof (cases "unprotected row")
    case (Some j)
    have "j = k" using unprotected_key [OF assms(1), of k row j] Cons.prems(1) x Some by simp
    moreover have "row' = row" if "(k, row') \<in> set rows" for row'
      using that Cons.prems x assms(1) by (auto simp: rows_ok_def dest: eq_key_imp_eq_value)
    ultimately show ?thesis using Some by (auto simp: rows'_def set_delete_row x)
  qed (simp add: rows'_def x)
  show ?case using Cons.IH [OF _ ok'] Cons.prems(1) unfolding step by (auto simp: eq)
qed

lemma set_sweep:
  assumes "rows_ok rows"
  shows "rows_ok (store_sweep k rows)"
    and "set (store_sweep k rows) \<subseteq> set rows"
    and "x \<in> set rows \<Longrightarrow> unprotected (snd x) = None \<Longrightarrow> x \<in> set (store_sweep k rows)"
  using assms set_delete_scanned [OF assms _ assms subset_refl]
  by (cases k; auto simp: store_sweep_def pruneExpiredNonceLaneLeaseRecords_def
      clearNonceLaneLeaseRecordsForWallet_def Let_def)+

lemma store_put_row:
  assumes "record_ok r"
  obtains row where "store_upsert r rows = Inr (put_row (rec_leaseId r) (JObj row) rows)"
    "row_record (JObj row) = Some (parsed_of r)" "row_field (JObj row) ''lease_id'' = JStr (rec_leaseId r)"
    "row_field (JObj row) ''lane_key'' = JStr (rec_laneKey r)"
proof (rule written_row [OF assms])
  fix row fs'
  assume row: "nonceLeaseRow (serializeCoordinationRecord r) = Inr (rec_leaseId r, row)"
    "jfield row ''lease_id'' = JStr (rec_leaseId r)" "jfield row ''lane_key'' = JStr (rec_laneKey r)"
    "parseNonceLeaseRow (JObj row) = Some fs'" "base_fields r (jfield fs')" "lane_fields r (jfield fs')"
  show thesis
    by (rule that [of row])
       (use row written_row_record [OF assms row(4-6)] in
         \<open>simp_all add: store_upsert_def upsertNonceLaneLeaseRecord_def row_field_def\<close>)
qed

lemma store_has_iff:
  assumes "rows_ok rows"
  shows "store_has rows q \<longleftrightarrow> (\<exists>row. (parsed_id q, row) \<in> set rows \<and> row_record row = Some q)"
proof -
  have "parsed_id q = k" if "(k, x) \<in> set rows" "row_record x = Some q" for k x
    using that assms row_record_facts(1) [OF that(2)] by (auto simp: rows_ok_def)
  then show ?thesis by (force simp: store_has_def)
qed

lemma store_has_put:
  assumes ok: "rows_ok rows" and good: "parsed_good p"
  shows "rows_ok (store_put p rows)"
    and "store_has (store_put p rows) q \<longleftrightarrow> q = p \<or> (store_has rows q \<and> parsed_id q \<noteq> parsed_id p)"
proof -
  let ?r = "parsed_record p"
  from good have r: "record_ok ?r" and p: "p = parsed_of ?r" by (simp_all add: parsed_good_def)
  obtain row where up: "store_upsert ?r rows = Inr (put_row (rec_leaseId ?r) (JObj row) rows)"
    and row: "row_record (JObj row) = Some (parsed_of ?r)" "row_field (JObj row) ''lease_id'' = JStr (rec_leaseId ?r)"
    by (rule store_put_row [OF r])
  then have put: "store_put p rows = put_row (parsed_id p) (JObj row) rows"
    by (simp add: store_put_def parsed_id_def)
  with row rows_ok_put [OF ok] show ok': "rows_ok (store_put p rows)" by (simp add: parsed_id_def)
  show "store_has (store_put p rows) q \<longleftrightarrow> q = p \<or> (store_has rows q \<and> parsed_id q \<noteq> parsed_id p)"
    unfolding store_has_iff [OF ok] store_has_iff [OF ok']
    using row(1) p by (auto simp: put set_put_row)
qed

lemma rows_ok_remove: "rows_ok rows \<Longrightarrow> rows_ok (store_remove l i rows)"
  by (simp add: store_remove_def removeNonceLaneLeaseRecord_def rows_ok_delete Let_def)

lemma store_has_remove:
  assumes ok: "rows_ok rows" and i: "stored_string i"
  shows "store_has (store_remove l i rows) q \<longleftrightarrow> store_has rows q \<and> parsed_id q \<noteq> i"
proof -
  have "store_remove l i rows = delete_row i rows"
    using i by (simp add: store_remove_def removeNonceLaneLeaseRecord_def stored_trim stored_nonempty)
  then show ?thesis
    unfolding store_has_iff [OF ok] store_has_iff [OF rows_ok_remove [OF ok]]
    by (auto simp: set_delete_row)
qed

interpretation lease_store: coordination_store rows_ok store_has store_put "store_remove []" store_sweep
  parsed_id parsed_good stored_string "\<lambda>p. broadcast_record (parsed_record p)"
proof unfold_locales
  fix rows t q
  assume "rows_ok rows" "store_has rows q" "broadcast_record (parsed_record q)"
  then show "store_has (store_sweep t rows) q"
    using store_has_iff [of rows q] store_has_iff [OF set_sweep(1), of rows t q]
      set_sweep(3) [of rows _ t] row_record_facts(3)
    by fastforce
next
  fix rows t q
  assume "rows_ok rows" "store_has (store_sweep t rows) q"
  then show "store_has rows q" using set_sweep(2) [of rows t] by (auto simp: store_has_def)
qed (simp_all add: store_has_put store_has_remove rows_ok_remove set_sweep(1))

section \<open>Reading a lane\<close>

lemma traverse_map: "traverse f xs = Inr ys \<Longrightarrow> map f xs = map Inr ys"
  by (induction xs arbitrary: ys) (auto split: sum.splits)

lemma traverse_ok: "(\<And>x. x \<in> set xs \<Longrightarrow> \<exists>y. f x = Inr y) \<Longrightarrow> \<exists>ys. traverse f xs = Inr ys"
proof (induction xs)
  case (Cons x xs)
  from Cons.prems obtain y where "f x = Inr y" by auto
  moreover from Cons obtain ys where "traverse f xs = Inr ys" by auto
  ultimately show ?case by simp
qed simp

lemma traverse_error: "x \<in> set xs \<Longrightarrow> f x = Inl e \<Longrightarrow> \<exists>e'. traverse f xs = Inl e'"
  by (induction xs) (auto split: sum.splits)

text \<open>No stored record makes the boundary parser throw.\<close>

definition rows_readable :: "lease_rows \<Rightarrow> bool" where
  "rows_readable rows \<longleftrightarrow>
     (\<forall>row \<in> snd ` set rows. \<forall>fs. parseNonceLeaseRow row = Some fs \<longrightarrow>
        (\<exists>x. parseNonceLaneCoordinationRecord (JObj fs) = Inr x))"

lemma set_map_filter: "set (List.map_filter f xs) = {y. \<exists>x \<in> set xs. f x = Some y}"
  by (force simp: map_filter_def)

lemma store_readLane_ok:
  assumes "rows_readable rows" and lkey: "stored_string lkey"
  shows "\<exists>ps. store_readLane rows lkey = Inr ps \<and> set ps = {p. holds rows lkey p}"
proof -
  let ?f = "\<lambda>fs. parseNonceLaneCoordinationRecord (JObj fs)"
  let ?raw = "readNonceLaneLeaseRecords rows lkey"
  have raw: "set ?raw = {fs. \<exists>(k, row) \<in> set rows. row_field row ''lane_key'' = JStr lkey \<and>
      parseNonceLeaseRow row = Some fs}"
    using lkey by (auto simp: readNonceLaneLeaseRecords_def Let_def stored_trim stored_nonempty set_map_filter)
  then have "\<exists>x. ?f fs = Inr x" if "fs \<in> set ?raw" for fs
    using that assms(1) unfolding rows_readable_def by force
  then have "\<exists>rs. traverse ?f ?raw = Inr rs" by (rule traverse_ok)
  then obtain rs where rs: "traverse ?f ?raw = Inr rs" ..
  then have map: "map ?f ?raw = map Inr rs" by (rule traverse_map)
  have "p \<in> set (ok_records rs) \<longleftrightarrow> ReadOk p \<in> set rs" for p
  proof -
    have "(case r of ReadOk q \<Rightarrow> Some q | ReadFailure _ _ _ \<Rightarrow> None) = Some p \<longleftrightarrow> r = ReadOk p" for r
      by (cases r) auto
    then show ?thesis by (simp add: ok_records_def set_map_filter)
  qed
  moreover have "ReadOk p \<in> set rs \<longleftrightarrow> (\<exists>fs \<in> set ?raw. ?f fs = Inr (ReadOk p))" for p
  proof -
    have "ReadOk p \<in> set rs \<longleftrightarrow> Inr (ReadOk p) \<in> set (map (Inr :: _ \<Rightarrow> nonce_error + _) rs)" by auto
    then show ?thesis unfolding map [symmetric] by (auto simp: image_iff eq_commute)
  qed
  moreover have "(\<exists>fs \<in> set ?raw. ?f fs = Inr (ReadOk p)) \<longleftrightarrow> holds rows lkey p" for p
  proof -
    have "row_record row = Some p \<longleftrightarrow> (\<exists>fs. parseNonceLeaseRow row = Some fs \<and> ?f fs = Inr (ReadOk p))" for row
      by (simp add: row_record_def split: option.split sum.split NonceLaneCoordinationReadResult.split)
    then show ?thesis unfolding raw holds_def by blast
  qed
  ultimately show ?thesis using rs by (auto simp: store_readLane_def)
qed

lemma readable_put:
  assumes "rows_readable rows" and "row_record row = Some p"
  shows "rows_readable (put_row k row rows)"
proof -
  have "\<exists>x. parseNonceLaneCoordinationRecord (JObj fs) = Inr x" if "parseNonceLeaseRow row = Some fs" for fs
    using assms(2) that by (auto simp: row_record_def split: sum.splits)
  with assms(1) show ?thesis by (auto simp: rows_readable_def set_put_row)
qed

section \<open>Records the parsers do not agree on\<close>

text \<open>
  A broadcast record without a transaction hash: the boundary parser would keep it as a signed
  lease, the row parser in front of it drops the row.
\<close>

lemma hashless_broadcast_row:
  assumes "jfield fs ''state'' = JStr ''broadcast_accepted''" and "jfield fs ''txHash'' = JUndefined"
    and "jfield row ''record'' = JObj fs"
  shows "parseDurableLeaseLifecycle fs = Some DurableSigned" and "parseNonceLeaseRow (JObj row) = None"
  using assms
  by (simp_all add: parseDurableLeaseLifecycle_def rawString_def parseNonceLeaseRow_def parseNonceLeaseRecord_def
      stored_tx_ok_def parseStoredNonEmptyString_def)

text \<open>An EVM record whose account id has an inner blank passes the row parser's test but makes the boundary parser throw.\<close>

lemma spaced_account_throws:
  assumes ok: "record_ok (r\<lparr>rec_lane := EvmRecordLane t b s k\<rparr>)" and base: "base_fields r (jfield fs)"
    and lane: "lane_fields (r\<lparr>rec_lane := EvmRecordLane t a s k\<rparr>) (jfield fs)"
    and a: "stored_string a" "hasWhitespaceOrControlCharacters a"
  shows "parseNonceLaneCoordinationRecord (JObj fs) = Inl (InvalidField ''walletId'')"
proof -
  have strs: "stored_string (rec_laneKey r)" "stored_string (rec_leaseId r)" "stored_string (rec_networkKey r)"
    "stored_string (rec_operationId r)" "stored_string (rec_operationFingerprint r)" "0 \<le> rec_nonce r"
    and lane_ok: "chain_target_ok t" "is_0x_hex 40 s" "case k of None \<Rightarrow> True | Some n \<Rightarrow> 0 \<le> n"
    using ok by (simp_all add: record_ok_def record_lane_ok_def)
  have times: "parseSafeInteger (JNum (rec_reservedAtMs r)) = Some (rec_reservedAtMs r)"
    "parseSafeInteger (JNum (rec_expiresAtMs r)) = Some (rec_expiresAtMs r)"
    "parseSafeInteger (JNum (rec_updatedAtMs r)) = Some (rec_updatedAtMs r)"
    using ok by (simp_all add: record_ok_def parseSafeInteger_def safe_int_def)
  have base': "base_fields (r\<lparr>rec_lane := EvmRecordLane t b s k\<rparr>) (jfield fs)"
    using base by (simp add: base_fields_def)
  have lc: "parseDurableLeaseLifecycle fs = Some (rec_lifecycle r)"
    using parse_lifecycle [OF base' ok] by simp
  have s: "parseEvmAddress (JStr s) = Some s"
    using is_0x_hex_canonical [OF lane_ok(2)] lane_ok(2) by (simp add: parseEvmAddress_def)
  have w: "toWalletId (JStr a) = Inl (InvalidField ''walletId'')"
    using a by (simp add: toWalletId_def parseWalletId_def parseDomainId_def Let_def stored_string_def)
  have "rawString (JStr ''evm'') = ''evm''" by (simp add: rawString_def js_trim_def js_whitespace_def)
  with base lane strs times lc s w a(1) lane_ok show ?thesis
    by (cases k) (simp_all add: parseNonceLaneCoordinationRecord_def parseEvmRecord_def Let_def lane_fields_def
        base_fields_def stored_nonempty stored_target opt_js_def)
qed

end
