(* ===== verification/StoreProperties.thy ===== *)
theory StoreProperties
  imports NonceStore
begin

text \<open>
  What the durable lease store guarantees: a written record is read back as it was, a record of a
  broadcast transaction survives every sweep, reads never invent records, and two ways in which stored
  data is treated differently by the two parsers in front of it.
\<close>

text \<open>
  Operations on the store that concern a lease, a time or a wallet: a write, a removal by id, pruning by
  time, clearing a wallet. (\<^const>\<open>clearAllNonceLaneLeaseRecords\<close>, which empties the store, is not among them.)
\<close>

type_synonym lease_store_op = "(ParsedNonceLaneCoordinationRecord, string, sweep_kind) store_op"

fun store_exec :: "lease_store_op \<Rightarrow> lease_rows \<Rightarrow> lease_rows" where
  "store_exec (Put p) rows = (case store_upsert (parsed_record p) rows of Inl _ \<Rightarrow> rows | Inr rows' \<Rightarrow> rows')"
| "store_exec (Del i) rows = store_remove [] i rows"
| "store_exec (Sweep (SweepExpired t)) rows = pruneExpiredNonceLaneLeaseRecords t rows"
| "store_exec (Sweep (SweepWallet w)) rows = clearNonceLaneLeaseRecordsForWallet w rows"

fun store_run :: "lease_store_op list \<Rightarrow> lease_rows \<Rightarrow> lease_rows" where
  "store_run [] rows = rows"
| "store_run (x # xs) rows = store_run xs (store_exec x rows)"

definition store_op_ok :: "lease_store_op \<Rightarrow> bool" where
  "store_op_ok x = (case x of Put p \<Rightarrow> parsed_good p | Del i \<Rightarrow> stored_string i | Sweep _ \<Rightarrow> True)"

definition names_lease :: "string \<Rightarrow> lease_store_op \<Rightarrow> bool" where
  "names_lease i x = (case x of Put p \<Rightarrow> parsed_id p = i | Del j \<Rightarrow> j = i | Sweep _ \<Rightarrow> False)"

lemma store_exec_contract: "store_exec x = lease_store.exec x"
proof
  show "store_exec x rows = lease_store.exec x rows" for rows
    by (cases "(x, rows)" rule: store_exec.cases) (simp_all add: store_put_def store_sweep_def)
qed

lemma store_run_contract: "store_run xs rows = lease_store.run xs rows"
  by (induction xs arbitrary: rows) (simp_all add: store_exec_contract)

lemma store_op_ok_contract: "store_op_ok = lease_store.op_good"
  by (rule ext) (simp add: store_op_ok_def lease_store.op_good_def)

lemma names_lease_contract: "names_lease i = lease_store.touches i"
  by (rule ext) (auto simp: names_lease_def lease_store.touches_def split: store_op.split)

section \<open>A concrete record\<close>

definition example_record :: NonceLaneCoordinationRecord where
  "example_record =
     \<lparr>rec_laneKey = ''lane'', rec_leaseId = ''L1'', rec_networkKey = ''n'', rec_nonce = 7,
      rec_operationId = ''op'', rec_operationFingerprint = ''fp'', rec_reservedAtMs = 1000,
      rec_expiresAtMs = 2000, rec_updatedAtMs = 1000, rec_runtimeId = None, rec_fencingToken = None,
      rec_batchId = None, rec_txIndex = None,
      rec_lifecycle = DurableBroadcastAccepted (''0x'' @ replicate 64 CHR ''a''),
      rec_lane = EvmRecordLane (EvmTarget 1 ''eth'') ''w'' (''0x'' @ replicate 40 CHR ''b'') None\<rparr>"

lemma example_record_ok: "record_ok example_record"
  by (simp add: example_record_def record_ok_def record_lane_ok_def stored_string_def stored_opt_def safe_integer_def
      js_trim_def js_whitespace_def chain_target_ok_def is_0x_hex_def is_lower_hex_def is_digit_def
      hasWhitespaceOrControlCharacters_def hasControlCharacter_def list_all_iff)

definition example_rows :: lease_rows where
  "example_rows = store_exec (Put (parsed_of example_record)) []"

lemma example_good: "parsed_good (parsed_of example_record)"
  by (simp add: parsed_good_def parsed_of_def example_record_ok)

lemma example_rows_ok: "rows_ok example_rows" "store_has example_rows (parsed_of example_record)"
proof -
  have rows: "example_rows = store_put (parsed_of example_record) []"
    by (simp add: example_rows_def store_put_def)
  have "rows_ok []" by (simp add: rows_ok_def)
  from store_has_put [OF this example_good] show "rows_ok example_rows" "store_has example_rows (parsed_of example_record)"
    by (simp_all add: rows)
qed

section \<open>Guarantees\<close>

text \<open>
  C16: The nonce of a broadcast transaction stays recorded. Once a broadcast lease is readable in the store
  it stays readable, unchanged, through any sequence of writes, removals, prunings by time and wallet
  clearings (also of its own wallet), as long as no write or removal in it names its own lease id. Only
  \<open>clearAllNonceLaneLeaseRecords\<close>, which empties the store, is not among these operations.
\<close>

theorem broadcast_record_survives:
  assumes "rows_ok rows" and "store_has rows p" and "broadcast_record (parsed_record p)"
    and "list_all store_op_ok xs" and "list_all (\<lambda>x. \<not> names_lease (parsed_id p) x) xs"
  shows "store_has (store_run xs rows) p"
  using assms lease_store.protected_survives [of rows xs p]
  by (simp add: store_run_contract store_op_ok_contract names_lease_contract)

theorem broadcast_record_survives_witness:
  "store_has (store_run [Sweep (SweepExpired 999999999), Sweep (SweepWallet ''w'')] example_rows) (parsed_of example_record)"
  by (rule broadcast_record_survives [OF example_rows_ok])
     (simp_all add: broadcast_record_def parsed_of_def example_record_def store_op_ok_def names_lease_def)

text \<open>
  The store never invents a record: whatever is readable after a sequence of operations was readable
  before or is a record one of them wrote.
\<close>

theorem store_never_invents:
  assumes "rows_ok rows" and "list_all store_op_ok xs" and "store_has (store_run xs rows) p"
  shows "store_has rows p \<or> Put p \<in> set xs"
  using assms lease_store.no_invention [of rows xs p] by (simp add: store_run_contract store_op_ok_contract)

theorem store_never_invents_witness:
  "store_has [] (parsed_of example_record) \<or>
     (Put (parsed_of example_record) :: lease_store_op) \<in> set [Put (parsed_of example_record)]"
  by (rule store_never_invents)
     (use example_rows_ok in \<open>simp_all add: rows_ok_def store_op_ok_def example_good example_rows_def\<close>)

text \<open>
  C17: A well-formed record survives serialization, the row it is stored in, and both parsers that read it
  back. When no row of the store makes the boundary parser throw, writing the record succeeds, and a read
  of its lane succeeds after the write and returns the record that was written together with exactly
  those records of the lane that were stored under other lease ids.
\<close>

theorem record_roundtrip:
  assumes "record_ok r" and "rows_readable rows"
  shows "\<exists>rows' ps. store_upsert r rows = Inr rows' \<and> store_readLane rows' (rec_laneKey r) = Inr ps \<and>
    set ps = insert (parsed_of r) {p. holds (delete_row (rec_leaseId r) rows) (rec_laneKey r) p}"
proof -
  from assms(1) obtain row where up: "store_upsert r rows = Inr (put_row (rec_leaseId r) (JObj row) rows)"
    and row: "row_record (JObj row) = Some (parsed_of r)" "row_field (JObj row) ''lane_key'' = JStr (rec_laneKey r)"
    by (rule store_put_row)
  have "stored_string (rec_laneKey r)" using assms(1) by (simp add: record_ok_def)
  from store_readLane_ok [OF readable_put [OF assms(2) row(1)] this] obtain ps where
    ps: "store_readLane (put_row (rec_leaseId r) (JObj row) rows) (rec_laneKey r) = Inr ps"
      "set ps = {p. holds (put_row (rec_leaseId r) (JObj row) rows) (rec_laneKey r) p}" by blast
  have "holds (put_row (rec_leaseId r) (JObj row) rows) (rec_laneKey r) p \<longleftrightarrow>
      p = parsed_of r \<or> holds (delete_row (rec_leaseId r) rows) (rec_laneKey r) p" for p
    using row by (auto simp: holds_def set_put_row set_delete_row)
  with up ps show ?thesis by auto
qed

theorem record_roundtrip_witness:
  "\<exists>rows' ps. store_upsert example_record [] = Inr rows' \<and> store_readLane rows' ''lane'' = Inr ps \<and>
    set ps = {parsed_of example_record}"
  using record_roundtrip [OF example_record_ok, of "[]"]
  by (simp add: example_record_def rows_readable_def holds_def delete_row_def)

text \<open>
  A lane read returns exactly the stored records of the lane: none is missed, none of another lane is
  returned.
\<close>

theorem lane_read_exact:
  assumes "rows_readable rows" and "stored_string lkey"
  shows "\<exists>ps. store_readLane rows lkey = Inr ps \<and> set ps = {p. holds rows lkey p}"
  using assms by (rule store_readLane_ok)

theorem lane_read_exact_witness: "\<exists>ps. store_readLane [] ''lane'' = Inr ps \<and> set ps = {p. holds [] ''lane'' p}"
  by (rule lane_read_exact) (simp_all add: rows_readable_def stored_string_def js_trim_def js_whitespace_def)

section \<open>Records the parsers do not agree on\<close>

text \<open>
  A stored broadcast record without a transaction hash is kept as a signed lease by the boundary
  parser, as its comment says, but the row parser in front of it drops every row that holds one, so the
  lease stops blocking its nonce at once instead of at its expiry.
\<close>

theorem hashless_broadcast_dropped:
  assumes "jfield fs ''state'' = JStr ''broadcast_accepted''" and "jfield fs ''txHash'' = JUndefined"
    and "jfield row ''record'' = JObj fs"
  shows "parseDurableLeaseLifecycle fs = Some DurableSigned \<and> parseNonceLeaseRow (JObj row) = None"
  using hashless_broadcast_row [OF assms] by blast

definition hashless_fields :: "(string \<times> jsval) list" where
  "hashless_fields = filter (\<lambda>(k, _). k \<noteq> ''txHash'') (serializeCoordinationRecord example_record)"

theorem hashless_broadcast_dropped_witness:
  "parseDurableLeaseLifecycle hashless_fields = Some DurableSigned \<and>
   parseNonceLeaseRow (JObj [(''lease_id'', JStr ''L1''), (''record'', JObj hashless_fields)]) = None"
proof (rule hashless_broadcast_dropped)
  show "jfield hashless_fields ''state'' = JStr ''broadcast_accepted''" by code_simp
  show "jfield hashless_fields ''txHash'' = JUndefined" by code_simp
  show "jfield [(''lease_id'', JStr ''L1''), (''record'', JObj hashless_fields)] ''record'' = JObj hashless_fields"
    by (simp add: jfield.simps)
qed

text \<open>
  C33: One stored record on which the boundary parser throws makes every read of its lane and every
  recovery pass over the store fail, whatever else is stored; an EVM record whose account id has a blank
  inside passes the row parser and is such a record.
\<close>

theorem throwing_record_breaks_reads:
  assumes "(k, row) \<in> set rows" and "row_field row ''lane_key'' = JStr lkey" and "stored_string lkey"
    and "parseNonceLeaseRow row = Some fs" and "parseNonceLaneCoordinationRecord (JObj fs) = Inl e"
  shows "(\<exists>e'. store_readLane rows lkey = Inl e') \<and> (\<exists>e'. store_readAllForRecovery rows None = Inl e')"
proof -
  have "fs \<in> set (readNonceLaneLeaseRecords rows lkey)"
    using assms(1-4) by (force simp: readNonceLaneLeaseRecords_def Let_def stored_trim stored_nonempty set_map_filter)
  moreover have "fs \<in> set (listNonceLaneLeaseRecords rows None)"
    using assms(1,4) by (force simp: listNonceLaneLeaseRecords_def Let_def set_map_filter)
  ultimately show ?thesis
    using traverse_error [where f = "\<lambda>fs. parseNonceLaneCoordinationRecord (JObj fs)" and e = e] assms(5)
    by (fastforce simp: store_readLane_def store_readAllForRecovery_def split: sum.splits)
qed

definition spaced_record :: NonceLaneCoordinationRecord where
  "spaced_record = example_record\<lparr>rec_lane := EvmRecordLane (EvmTarget 1 ''eth'') ''a b'' (''0x'' @ replicate 40 CHR ''b'') None\<rparr>"

definition spaced_row :: jsval where
  "spaced_row = (case nonceLeaseRow (serializeCoordinationRecord spaced_record) of Inr (_, row) \<Rightarrow> JObj row | _ \<Rightarrow> JNull)"

definition spaced_fields :: "(string \<times> jsval) list" where
  "spaced_fields = (case parseNonceLeaseRow spaced_row of Some fs \<Rightarrow> fs | None \<Rightarrow> [])"

theorem throwing_record_breaks_reads_witness:
  "(\<exists>e. store_readLane [(''L1'', spaced_row)] ''lane'' = Inl e) \<and>
   (\<exists>e. store_readAllForRecovery [(''L1'', spaced_row)] None = Inl e)"
proof (rule throwing_record_breaks_reads)
  show "(''L1'', spaced_row) \<in> set [(''L1'', spaced_row)]" by simp
  show "row_field spaced_row ''lane_key'' = JStr ''lane''" by code_simp
  show "stored_string ''lane''" by (simp add: stored_string_def js_trim_def js_whitespace_def)
  show "parseNonceLeaseRow spaced_row = Some spaced_fields" by code_simp
  show "parseNonceLaneCoordinationRecord (JObj spaced_fields) = Inl (InvalidField ''walletId'')" by code_simp
qed

end
