(* ===== verification/LaneLocks.thy ===== *)
theory LaneLocks
  imports Prelude
begin

text \<open>
  The lane lock inside one runtime, \<open>withLocalLaneLock\<close> of \<open>nonce/NonceCoordinator.ts\<close>: a chain of
  promises per lane. A call takes the promise registered for its lane as \<open>previous\<close>, registers
  \<open>next = previous.catch(...).then(() => current)\<close> in its place, runs its task once \<open>previous\<close> has
  settled, and afterwards resolves \<open>current\<close> and drops the registration if it is still its own.

  A call is the index of its entry in \<open>lock_tasks\<close>, and its promise \<open>next\<close> is named by that
  index. The steps of different calls interleave freely; a promise settles in a step of its own, some
  time after what it waits for. Neither \<open>current\<close> nor \<open>next\<close> can be rejected.
\<close>

section \<open>State and steps\<close>

datatype task_phase = TaskWaiting | TaskRunning | TaskFinished

record lock_task =
  task_lane :: string
  task_previous :: "nat option"
  task_phase :: task_phase
  next_settled :: bool

record lane_lock_state =
  laneLocks :: "(string, nat) jsmap"
  lock_tasks :: "lock_task list"

definition no_lane_locks :: lane_lock_state where
  "no_lane_locks = \<lparr>laneLocks = [], lock_tasks = []\<rparr>"

text \<open>The synchronous part of a call.\<close>

definition lock_call :: "string \<Rightarrow> lane_lock_state \<Rightarrow> lane_lock_state" where
  "lock_call laneKey s =
     s\<lparr>laneLocks := AList.update laneKey (length (lock_tasks s)) (laneLocks s),
       lock_tasks := lock_tasks s @ [\<lparr>task_lane = laneKey, task_previous = map_of (laneLocks s) laneKey,
                                      task_phase = TaskWaiting, next_settled = False\<rparr>]\<rparr>"

definition previous_settled :: "lane_lock_state \<Rightarrow> nat \<Rightarrow> bool" where
  "previous_settled s t =
     (case task_previous (lock_tasks s ! t) of None \<Rightarrow> True | Some p \<Rightarrow> next_settled (lock_tasks s ! p))"

definition set_phase :: "task_phase \<Rightarrow> nat \<Rightarrow> lane_lock_state \<Rightarrow> lane_lock_state" where
  "set_phase ph t s = s\<lparr>lock_tasks := (lock_tasks s)[t := (lock_tasks s ! t)\<lparr>task_phase := ph\<rparr>]\<rparr>"

text \<open>\<open>await previous\<close> returns and \<open>fn()\<close> starts.\<close>

definition lock_start :: "nat \<Rightarrow> lane_lock_state \<Rightarrow> lane_lock_state" where
  "lock_start t s = set_phase TaskRunning t s"

text \<open>The \<open>finally\<close> block, whether \<open>fn()\<close> returned or threw.\<close>

definition lock_finish :: "nat \<Rightarrow> lane_lock_state \<Rightarrow> lane_lock_state" where
  "lock_finish t s =
     (let s' = set_phase TaskFinished t s; k = task_lane (lock_tasks s ! t) in
      if map_of (laneLocks s') k = Some t then s'\<lparr>laneLocks := AList.delete k (laneLocks s')\<rparr> else s')"

definition lock_settle :: "nat \<Rightarrow> lane_lock_state \<Rightarrow> lane_lock_state" where
  "lock_settle t s = s\<lparr>lock_tasks := (lock_tasks s)[t := (lock_tasks s ! t)\<lparr>next_settled := True\<rparr>]\<rparr>"

text \<open>\<open>laneLocks.clear()\<close>, the part of \<open>clearAll\<close> that touches the locks.\<close>

definition lock_clear :: "lane_lock_state \<Rightarrow> lane_lock_state" where
  "lock_clear s = s\<lparr>laneLocks := []\<rparr>"

text \<open>
  The steps that the calls already made take by themselves, and all steps of the runtime; the flag says
  whether \<open>clearAll\<close> may be among them.
\<close>

inductive lock_work :: "lane_lock_state \<Rightarrow> lane_lock_state \<Rightarrow> bool" where
  work_start: "t < length (lock_tasks s) \<Longrightarrow> task_phase (lock_tasks s ! t) = TaskWaiting \<Longrightarrow> previous_settled s t \<Longrightarrow>
    lock_work s (lock_start t s)"
| work_finish: "t < length (lock_tasks s) \<Longrightarrow> task_phase (lock_tasks s ! t) = TaskRunning \<Longrightarrow>
    lock_work s (lock_finish t s)"
| work_settle: "t < length (lock_tasks s) \<Longrightarrow> task_phase (lock_tasks s ! t) = TaskFinished \<Longrightarrow>
    \<not> next_settled (lock_tasks s ! t) \<Longrightarrow> previous_settled s t \<Longrightarrow> lock_work s (lock_settle t s)"

inductive lock_step :: "bool \<Rightarrow> lane_lock_state \<Rightarrow> lane_lock_state \<Rightarrow> bool" for clearing where
  step_call: "lock_step clearing s (lock_call k s)"
| step_work: "lock_work s s' \<Longrightarrow> lock_step clearing s s'"
| step_clear: "clearing \<Longrightarrow> lock_step clearing s (lock_clear s)"

inductive_cases lock_workE: "lock_work s s'"
inductive_cases lock_stepE: "lock_step clearing s s'"

inductive lock_reach :: "bool \<Rightarrow> lane_lock_state \<Rightarrow> bool" for clearing where
  lock_reach_init: "lock_reach clearing no_lane_locks"
| lock_reach_step: "lock_reach clearing s \<Longrightarrow> lock_step clearing s s' \<Longrightarrow> lock_reach clearing s'"

section \<open>The invariant\<close>

text \<open>
  Every call of the lane before \<open>t\<close> has finished once \<open>t\<close> is past waiting; the registered promise is
  that of the last call; and a call's \<open>previous\<close> is the call of its lane just before it.
\<close>

abbreviation phase_of :: "lane_lock_state \<Rightarrow> nat \<Rightarrow> task_phase" where
  "phase_of s t \<equiv> task_phase (lock_tasks s ! t)"

abbreviation lane_of :: "lane_lock_state \<Rightarrow> nat \<Rightarrow> string" where
  "lane_of s t \<equiv> task_lane (lock_tasks s ! t)"

definition all_before_finished :: "lane_lock_state \<Rightarrow> nat \<Rightarrow> bool" where
  "all_before_finished s t \<longleftrightarrow> (\<forall>u < t. lane_of s u = lane_of s t \<longrightarrow> phase_of s u = TaskFinished)"

definition task_ok :: "lane_lock_state \<Rightarrow> nat \<Rightarrow> bool" where
  "task_ok s t \<longleftrightarrow>
     (phase_of s t \<noteq> TaskWaiting \<longrightarrow> all_before_finished s t) \<and>
     (next_settled (lock_tasks s ! t) \<longrightarrow> phase_of s t = TaskFinished) \<and>
     (case task_previous (lock_tasks s ! t) of
        None \<Rightarrow> all_before_finished s t
      | Some p \<Rightarrow> p < t \<and> lane_of s p = lane_of s t \<and> (\<forall>u. p < u \<and> u < t \<longrightarrow> lane_of s u \<noteq> lane_of s t))"

definition registered_ok :: "lane_lock_state \<Rightarrow> string \<Rightarrow> bool" where
  "registered_ok s k \<longleftrightarrow>
     (case map_of (laneLocks s) k of
        None \<Rightarrow> (\<forall>u < length (lock_tasks s). lane_of s u = k \<longrightarrow> phase_of s u = TaskFinished)
      | Some t \<Rightarrow> t < length (lock_tasks s) \<and> lane_of s t = k \<and>
                  (\<forall>u < length (lock_tasks s). lane_of s u = k \<longrightarrow> u \<le> t))"

definition lock_ok :: "lane_lock_state \<Rightarrow> bool" where
  "lock_ok s \<longleftrightarrow> (\<forall>t < length (lock_tasks s). task_ok s t) \<and> (\<forall>k. registered_ok s k)"

lemma lock_okD:
  assumes "lock_ok s" and "t < length (lock_tasks s)"
  shows "phase_of s t \<noteq> TaskWaiting \<Longrightarrow> all_before_finished s t"
    and "next_settled (lock_tasks s ! t) \<Longrightarrow> phase_of s t = TaskFinished"
    and "task_previous (lock_tasks s ! t) = None \<Longrightarrow> all_before_finished s t"
    and "task_previous (lock_tasks s ! t) = Some p \<Longrightarrow>
          p < t \<and> lane_of s p = lane_of s t \<and> (\<forall>u. p < u \<and> u < t \<longrightarrow> lane_of s u \<noteq> lane_of s t)"
proof -
  from assms have "task_ok s t" by (simp add: lock_ok_def)
  then show "phase_of s t \<noteq> TaskWaiting \<Longrightarrow> all_before_finished s t"
    and "next_settled (lock_tasks s ! t) \<Longrightarrow> phase_of s t = TaskFinished"
    and "task_previous (lock_tasks s ! t) = None \<Longrightarrow> all_before_finished s t"
    and "task_previous (lock_tasks s ! t) = Some p \<Longrightarrow>
          p < t \<and> lane_of s p = lane_of s t \<and> (\<forall>u. p < u \<and> u < t \<longrightarrow> lane_of s u \<noteq> lane_of s t)"
    by (simp_all add: task_ok_def)
qed

lemma previous_settled_before:
  assumes "lock_ok s" and "t < length (lock_tasks s)" and "previous_settled s t"
  shows "all_before_finished s t"
proof (cases "task_previous (lock_tasks s ! t)")
  case (Some p)
  with lock_okD(4) [OF assms(1,2) Some] have p: "p < length (lock_tasks s)" "p < t" "lane_of s p = lane_of s t"
    and between: "\<forall>u. p < u \<and> u < t \<longrightarrow> lane_of s u \<noteq> lane_of s t" using assms(2) by auto
  from Some assms(3) have "next_settled (lock_tasks s ! p)" by (simp add: previous_settled_def)
  with lock_okD(1,2) [OF assms(1) p(1)] have "phase_of s p = TaskFinished" "all_before_finished s p" by auto
  then show ?thesis unfolding all_before_finished_def using p(2,3) between by (metis linorder_neqE_nat)
qed (use lock_okD(3) [OF assms(1,2)] in simp)

lemma lock_ok_init: "lock_ok no_lane_locks"
  by (simp add: lock_ok_def registered_ok_def no_lane_locks_def)

text \<open>
  A step that keeps the calls' lanes and predecessors, finishes no fewer of them, and moves a call past
  waiting only when the calls before it have finished.
\<close>

definition same_calls :: "lane_lock_state \<Rightarrow> lane_lock_state \<Rightarrow> bool" where
  "same_calls s s' \<longleftrightarrow>
     laneLocks s' = laneLocks s \<and> length (lock_tasks s') = length (lock_tasks s) \<and>
     (\<forall>u < length (lock_tasks s). lane_of s' u = lane_of s u \<and>
        task_previous (lock_tasks s' ! u) = task_previous (lock_tasks s ! u) \<and>
        (phase_of s u = TaskFinished \<longrightarrow> phase_of s' u = TaskFinished) \<and>
        (phase_of s' u \<noteq> TaskWaiting \<longrightarrow> phase_of s u \<noteq> TaskWaiting \<or> all_before_finished s u) \<and>
        (next_settled (lock_tasks s' ! u) \<longrightarrow> next_settled (lock_tasks s ! u) \<or> phase_of s' u = TaskFinished))"

lemma same_calls_before:
  assumes "same_calls s s'" and "all_before_finished s u" and "u < length (lock_tasks s)"
  shows "all_before_finished s' u"
  using assms unfolding same_calls_def all_before_finished_def by (metis less_trans)

lemma same_calls_task:
  assumes ok: "lock_ok s" and same: "same_calls s s'" and u: "u < length (lock_tasks s)"
  shows "task_ok s' u"
proof -
  note d = lock_okD [OF ok u]
  from same u have f: "lane_of s' u = lane_of s u" "task_previous (lock_tasks s' ! u) = task_previous (lock_tasks s ! u)"
    "phase_of s u = TaskFinished \<Longrightarrow> phase_of s' u = TaskFinished"
    "phase_of s' u \<noteq> TaskWaiting \<Longrightarrow> phase_of s u \<noteq> TaskWaiting \<or> all_before_finished s u"
    "next_settled (lock_tasks s' ! u) \<Longrightarrow> next_settled (lock_tasks s ! u) \<or> phase_of s' u = TaskFinished"
    and lanes: "\<And>v. v < u \<Longrightarrow> lane_of s' v = lane_of s v"
    by (auto simp: same_calls_def)
  note mono = same_calls_before [OF same _ u]
  have "phase_of s' u \<noteq> TaskWaiting \<longrightarrow> all_before_finished s' u" using d(1) f(4) mono by blast
  moreover have "next_settled (lock_tasks s' ! u) \<longrightarrow> phase_of s' u = TaskFinished" using d(2) f(3,5) by blast
  moreover have "case task_previous (lock_tasks s' ! u) of None \<Rightarrow> all_before_finished s' u
      | Some p \<Rightarrow> p < u \<and> lane_of s' p = lane_of s' u \<and> (\<forall>v. p < v \<and> v < u \<longrightarrow> lane_of s' v \<noteq> lane_of s' u)"
  proof (cases "task_previous (lock_tasks s ! u)")
    case None
    with d(3) mono f(2) show ?thesis by simp
  next
    case (Some p)
    with d(4) [OF Some] f(1,2) lanes show ?thesis by simp
  qed
  ultimately show ?thesis by (simp add: task_ok_def)
qed

lemma same_calls_registered:
  assumes "lock_ok s" and "same_calls s s'"
  shows "registered_ok s' k"
  using assms by (fastforce simp: lock_ok_def registered_ok_def same_calls_def split: option.splits)

lemma same_calls_ok: "lock_ok s \<Longrightarrow> same_calls s s' \<Longrightarrow> lock_ok s'"
  unfolding lock_ok_def [of s'] by (auto simp: same_calls_def intro: same_calls_task same_calls_registered)

lemma nth_set_phase:
  "lock_tasks (set_phase ph t s) ! u =
     (if u = t \<and> t < length (lock_tasks s) then (lock_tasks s ! u)\<lparr>task_phase := ph\<rparr> else lock_tasks s ! u)"
  by (cases "t < length (lock_tasks s)") (auto simp: set_phase_def nth_list_update list_update_beyond not_less)

lemma nth_lock_settle:
  "lock_tasks (lock_settle t s) ! u =
     (if u = t \<and> t < length (lock_tasks s) then (lock_tasks s ! u)\<lparr>next_settled := True\<rparr> else lock_tasks s ! u)"
  by (cases "t < length (lock_tasks s)") (auto simp: lock_settle_def nth_list_update list_update_beyond not_less)

lemma lock_ok_start:
  assumes ok: "lock_ok s" and t: "t < length (lock_tasks s)" "phase_of s t = TaskWaiting" "previous_settled s t"
  shows "lock_ok (lock_start t s)"
proof (rule same_calls_ok [OF ok])
  show "same_calls s (lock_start t s)"
    using t(2) previous_settled_before [OF ok t(1,3)]
    by (auto simp: same_calls_def lock_start_def nth_set_phase) (simp_all add: set_phase_def)
qed

lemma lock_ok_settle:
  assumes ok: "lock_ok s" and t: "t < length (lock_tasks s)" "phase_of s t = TaskFinished"
  shows "lock_ok (lock_settle t s)"
proof (rule same_calls_ok [OF ok])
  show "same_calls s (lock_settle t s)"
    using t by (auto simp: same_calls_def nth_lock_settle) (simp_all add: lock_settle_def)
qed

lemma lock_ok_phase_finished:
  assumes ok: "lock_ok s" and t: "t < length (lock_tasks s)" "phase_of s t = TaskRunning"
  shows "lock_ok (set_phase TaskFinished t s)"
proof (rule same_calls_ok [OF ok])
  show "same_calls s (set_phase TaskFinished t s)"
    using t by (auto simp: same_calls_def nth_set_phase) (simp_all add: set_phase_def)
qed

lemma lock_ok_delete:
  assumes ok: "lock_ok s" and t: "map_of (laneLocks s) k = Some t" "phase_of s t = TaskFinished"
  shows "lock_ok (s\<lparr>laneLocks := AList.delete k (laneLocks s)\<rparr>)"
proof -
  from ok have "registered_ok s k" by (simp add: lock_ok_def)
  with t have tk: "t < length (lock_tasks s)" "lane_of s t = k" "\<forall>u < length (lock_tasks s). lane_of s u = k \<longrightarrow> u \<le> t"
    by (auto simp: registered_ok_def)
  with lock_okD(1) [OF ok tk(1)] t(2) have all: "all_before_finished s t" by simp
  have "phase_of s u = TaskFinished" if "u < length (lock_tasks s)" "lane_of s u = k" for u
    using that all tk t(2) by (cases "u = t") (auto simp: all_before_finished_def)
  note fin = this
  let ?s = "s\<lparr>laneLocks := AList.delete k (laneLocks s)\<rparr>"
  have "task_ok ?s u = task_ok s u" for u by (simp add: task_ok_def all_before_finished_def split: option.split)
  moreover have "registered_ok ?s j" if "registered_ok s j" for j
    using that fin by (cases "j = k") (simp_all add: registered_ok_def delete_conv' split: option.splits)
  ultimately show ?thesis using ok by (simp add: lock_ok_def)
qed

lemma lock_ok_finish:
  assumes "lock_ok s" and "t < length (lock_tasks s)" "phase_of s t = TaskRunning"
  shows "lock_ok (lock_finish t s)"
  using lock_ok_phase_finished [OF assms] assms(2)
  by (auto simp: lock_finish_def Let_def nth_set_phase intro!: lock_ok_delete)

lemma lock_ok_call:
  assumes ok: "lock_ok s"
  shows "lock_ok (lock_call k s)"
proof -
  let ?n = "length (lock_tasks s)"
  let ?s = "lock_call k s"
  have old [simp]: "lock_tasks ?s ! u = lock_tasks s ! u" if "u < ?n" for u
    using that by (simp add: lock_call_def nth_append)
  have new: "lock_tasks ?s ! ?n = \<lparr>task_lane = k, task_previous = map_of (laneLocks s) k,
      task_phase = TaskWaiting, next_settled = False\<rparr>" "length (lock_tasks ?s) = Suc ?n"
    by (simp_all add: lock_call_def)
  have before: "all_before_finished ?s u = all_before_finished s u" if "u < ?n" for u
    using that by (simp add: all_before_finished_def)
  have reg: "registered_ok s k" using ok by (simp add: lock_ok_def)
  show ?thesis
    unfolding lock_ok_def
  proof (intro conjI allI impI)
    fix u assume "u < length (lock_tasks ?s)"
    then consider "u < ?n" | "u = ?n" using new(2) by linarith
    then show "task_ok ?s u"
    proof cases
      case 1
      then have "task_ok s u" using ok by (simp add: lock_ok_def)
      with 1 before show ?thesis by (auto simp: task_ok_def split: option.splits)
    next
      case 2
      with reg new show ?thesis
        by (fastforce simp: task_ok_def registered_ok_def all_before_finished_def split: option.splits)
    qed
  next
    fix j
    have "registered_ok s j" using ok by (simp add: lock_ok_def)
    then show "registered_ok ?s j"
      using new by (cases "j = k")
        (auto simp: registered_ok_def lock_call_def map_of_update_alist nth_append less_Suc_eq split: option.splits)
  qed
qed

lemma lock_ok_work: "lock_work s s' \<Longrightarrow> lock_ok s \<Longrightarrow> lock_ok s'"
  by (erule lock_workE) (auto intro: lock_ok_start lock_ok_finish lock_ok_settle)

lemma lock_ok_step: "lock_step False s s' \<Longrightarrow> lock_ok s \<Longrightarrow> lock_ok s'"
  by (erule lock_stepE) (auto intro: lock_ok_call lock_ok_work)

lemma lock_ok_reach: "lock_reach False s \<Longrightarrow> lock_ok s"
  by (induction rule: lock_reach.induct) (auto intro: lock_ok_init lock_ok_step)

section \<open>Guarantees\<close>

text \<open>
  C34: At any moment at most one call per lane runs its task, in every interleaving of calls, task
  completions and promise reactions, as long as the locks are not cleared.
\<close>

theorem lane_lock_exclusive:
  assumes "lock_reach False s" and "t < length (lock_tasks s)" and "u < length (lock_tasks s)"
    and "task_phase (lock_tasks s ! t) = TaskRunning" and "task_phase (lock_tasks s ! u) = TaskRunning"
    and "task_lane (lock_tasks s ! t) = task_lane (lock_tasks s ! u)"
  shows "t = u"
proof (rule ccontr)
  have ok: "lock_ok s" by (rule lock_ok_reach [OF assms(1)])
  have "phase_of s v \<noteq> TaskRunning \<or> \<not> v < w" if "w < length (lock_tasks s)" "phase_of s w = TaskRunning" "lane_of s v = lane_of s w" for v w
    using lock_okD(1) [OF ok that(1)] that by (auto simp: all_before_finished_def)
  moreover assume "t \<noteq> u"
  ultimately show False using assms by (metis linorder_neqE_nat)
qed

definition two_calls :: lane_lock_state where
  "two_calls = lock_start 0 (lock_call ''k'' (lock_call ''k'' no_lane_locks))"

lemma two_calls_reach: "lock_reach clearing two_calls"
  unfolding two_calls_def
  by (rule lock_reach_step [OF lock_reach_step [OF lock_reach_step [OF lock_reach_init step_call] step_call] step_work [OF work_start]])
     (simp_all add: lock_call_def no_lane_locks_def previous_settled_def)

theorem lane_lock_exclusive_witness: "task_phase (lock_tasks two_calls ! 0) = TaskRunning \<and> (0::nat) = 0"
proof -
  have "task_phase (lock_tasks two_calls ! 0) = TaskRunning" "0 < length (lock_tasks two_calls)"
    by (simp_all add: two_calls_def lock_start_def set_phase_def lock_call_def no_lane_locks_def)
  with lane_lock_exclusive [OF two_calls_reach, of 0 0] show ?thesis by simp
qed

section \<open>Refinement of a queue per lane\<close>

text \<open>
  The specification: a queue of calls per lane and the set of those that run. A call joins at the end,
  the head may begin, and the head leaves when it is done.
\<close>

type_synonym lane_fifo = "(string \<Rightarrow> nat list) \<times> nat set"

inductive fifo_step :: "lane_fifo \<Rightarrow> lane_fifo \<Rightarrow> bool" where
  fifo_join: "(\<And>j. t \<notin> set (q j)) \<Longrightarrow> t \<notin> r \<Longrightarrow> fifo_step (q, r) (q(k := q k @ [t]), r)"
| fifo_begin: "q k = t # rest \<Longrightarrow> t \<notin> r \<Longrightarrow> fifo_step (q, r) (q, insert t r)"
| fifo_leave: "q k = t # rest \<Longrightarrow> t \<in> r \<Longrightarrow> fifo_step (q, r) (q(k := rest), r - {t})"
| fifo_idle: "fifo_step a a"

definition in_queue :: "lane_lock_state \<Rightarrow> string \<Rightarrow> nat \<Rightarrow> bool" where
  "in_queue s k t \<longleftrightarrow> lane_of s t = k \<and> phase_of s t \<noteq> TaskFinished"

definition waiting_queue :: "lane_lock_state \<Rightarrow> string \<Rightarrow> nat list" where
  "waiting_queue s k = filter (in_queue s k) [0..<length (lock_tasks s)]"

definition running_tasks :: "lane_lock_state \<Rightarrow> nat set" where
  "running_tasks s = {t. t < length (lock_tasks s) \<and> phase_of s t = TaskRunning}"

definition lock_abs :: "lane_lock_state \<Rightarrow> lane_fifo" where
  "lock_abs s = (waiting_queue s, running_tasks s)"

lemma length_lock_steps [simp]:
  "length (lock_tasks (set_phase ph t s)) = length (lock_tasks s)"
  "length (lock_tasks (lock_settle t s)) = length (lock_tasks s)"
  "length (lock_tasks (lock_call k s)) = Suc (length (lock_tasks s))"
  by (simp_all add: set_phase_def lock_settle_def lock_call_def)

lemma tasks_lock_finish: "lock_tasks (lock_finish t s) = lock_tasks (set_phase TaskFinished t s)"
  by (simp add: lock_finish_def Let_def)

lemma nth_lock_call:
  "lock_tasks (lock_call k s) ! u =
     (if u = length (lock_tasks s) then \<lparr>task_lane = k, task_previous = map_of (laneLocks s) k,
        task_phase = TaskWaiting, next_settled = False\<rparr>
      else if u < length (lock_tasks s) then lock_tasks s ! u else lock_tasks (lock_call k s) ! u)"
  by (auto simp: lock_call_def nth_append)

lemma queue_head:
  assumes "t < length (lock_tasks s)" and "phase_of s t \<noteq> TaskFinished" and "all_before_finished s t"
  shows "waiting_queue s (lane_of s t) = t # filter (in_queue s (lane_of s t)) [Suc t..<length (lock_tasks s)]"
proof -
  have "[0..<length (lock_tasks s)] = [0..<t] @ t # [Suc t..<length (lock_tasks s)]"
    using assms(1) upt_add_eq_append [of 0 t "length (lock_tasks s) - t"] by (simp add: upt_conv_Cons)
  moreover have "filter (in_queue s (lane_of s t)) [0..<t] = []"
    using assms(3) by (auto simp: filter_empty_conv all_before_finished_def in_queue_def)
  ultimately show ?thesis using assms(2) by (simp add: waiting_queue_def in_queue_def)
qed

lemma abs_call:
  "lock_abs (lock_call k s) = ((waiting_queue s)(k := waiting_queue s k @ [length (lock_tasks s)]), running_tasks s)"
proof -
  let ?n = "length (lock_tasks s)"
  have eq: "in_queue (lock_call k s) j u \<longleftrightarrow> in_queue s j u" if "u < ?n" for j u
    using that by (simp add: in_queue_def lock_call_def nth_append)
  have "filter (in_queue (lock_call k s) j) [0..<?n] = waiting_queue s j" for j
    unfolding waiting_queue_def by (rule filter_cong) (simp_all add: eq)
  moreover have "in_queue (lock_call k s) j ?n \<longleftrightarrow> j = k" for j
    by (auto simp: in_queue_def lock_call_def)
  ultimately have "waiting_queue (lock_call k s) = (waiting_queue s)(k := waiting_queue s k @ [?n])"
    by (auto simp: fun_eq_iff waiting_queue_def)
  moreover have "running_tasks (lock_call k s) = running_tasks s"
    by (auto simp: running_tasks_def lock_call_def nth_append less_Suc_eq)
  ultimately show ?thesis by (simp add: lock_abs_def)
qed

lemma abs_start:
  assumes "t < length (lock_tasks s)" and "phase_of s t = TaskWaiting"
  shows "lock_abs (lock_start t s) = (waiting_queue s, insert t (running_tasks s))"
  using assms
  by (auto simp: lock_abs_def fun_eq_iff waiting_queue_def in_queue_def running_tasks_def lock_start_def nth_set_phase
      intro!: filter_cong)

lemma abs_settle: "lock_abs (lock_settle t s) = lock_abs s"
  by (auto simp: lock_abs_def fun_eq_iff waiting_queue_def in_queue_def running_tasks_def nth_lock_settle
      intro!: filter_cong)

lemma abs_finish:
  assumes t: "t < length (lock_tasks s)" "phase_of s t = TaskRunning" and before: "all_before_finished s t"
  shows "lock_abs (lock_finish t s) =
    ((waiting_queue s)(lane_of s t := filter (in_queue s (lane_of s t)) [Suc t..<length (lock_tasks s)]), running_tasks s - {t})"
proof -
  let ?n = "length (lock_tasks s)"
  have inq: "in_queue (lock_finish t s) j u \<longleftrightarrow> in_queue s j u \<and> u \<noteq> t" for j u
    using t(1) by (auto simp: in_queue_def tasks_lock_finish nth_set_phase)
  have "waiting_queue (lock_finish t s) j = filter (\<lambda>u. u \<noteq> t) (waiting_queue s j)" for j
    by (auto simp: waiting_queue_def tasks_lock_finish inq intro!: filter_cong)
  moreover have "filter (\<lambda>u. u \<noteq> t) (waiting_queue s (lane_of s t)) = filter (in_queue s (lane_of s t)) [Suc t..<?n]"
    using queue_head [OF t(1) _ before] t(2) by (auto intro!: filter_cong)
  moreover have "filter (\<lambda>u. u \<noteq> t) (waiting_queue s j) = waiting_queue s j" if "j \<noteq> lane_of s t" for j
    using that by (auto simp: waiting_queue_def in_queue_def intro!: filter_cong)
  ultimately have "waiting_queue (lock_finish t s) =
      (waiting_queue s)(lane_of s t := filter (in_queue s (lane_of s t)) [Suc t..<?n])" by (auto simp: fun_eq_iff)
  moreover have "running_tasks (lock_finish t s) = running_tasks s - {t}"
    using t(1) by (auto simp: running_tasks_def tasks_lock_finish nth_set_phase)
  ultimately show ?thesis by (simp add: lock_abs_def)
qed

lemma work_refines:
  assumes work: "lock_work s s'" and ok: "lock_ok s"
  shows "fifo_step (lock_abs s) (lock_abs s')"
  using work
proof (rule lock_workE)
  fix t assume t: "s' = lock_start t s" "t < length (lock_tasks s)" "phase_of s t = TaskWaiting" "previous_settled s t"
  have "all_before_finished s t" using previous_settled_before [OF ok t(2,4)] .
  from queue_head [OF t(2) _ this] t(3) show ?thesis
    unfolding t(1) abs_start [OF t(2,3)] unfolding lock_abs_def
    by (intro fifo_begin) (auto simp: running_tasks_def)
next
  fix t assume t: "s' = lock_finish t s" "t < length (lock_tasks s)" "phase_of s t = TaskRunning"
  have before: "all_before_finished s t" using lock_okD(1) [OF ok t(2)] t(3) by simp
  from queue_head [OF t(2) _ before] t(3) show ?thesis
    unfolding t(1) abs_finish [OF t(2,3) before] unfolding lock_abs_def
    by (intro fifo_leave) (use t(2,3) in \<open>auto simp: running_tasks_def\<close>)
next
  fix t assume "s' = lock_settle t s"
  then show ?thesis by (simp add: abs_settle fifo_idle)
qed

text \<open>
  C35: The lane lock refines a queue per lane: every step of the promise chain is a step of the
  specification, in which calls join at the end of their lane's queue, only the head of a queue begins,
  and only a head that runs leaves.
\<close>

theorem lane_lock_refines_queue:
  assumes "lock_reach False s" and "lock_step False s s'"
  shows "fifo_step (lock_abs s) (lock_abs s')"
  using assms(2)
proof (rule lock_stepE)
  fix k assume "s' = lock_call k s"
  moreover have "fifo_step (lock_abs s) (lock_abs (lock_call k s))"
    unfolding abs_call unfolding lock_abs_def
    by (intro fifo_join) (auto simp: waiting_queue_def running_tasks_def)
  ultimately show ?thesis by simp
qed (use work_refines lock_ok_reach [OF assms(1)] in blast)+

theorem lane_lock_refines_queue_witness:
  "fifo_step (lock_abs two_calls) (lock_abs (lock_finish 0 two_calls))"
proof (rule lane_lock_refines_queue [OF two_calls_reach step_work [OF work_finish]])
  show "0 < length (lock_tasks two_calls)" "phase_of two_calls 0 = TaskRunning"
    by (simp_all add: two_calls_def lock_start_def set_phase_def lock_call_def no_lane_locks_def)
qed

section \<open>Progress\<close>

fun task_work :: "lock_task \<Rightarrow> nat" where
  "task_work x = (if next_settled x then 0 else case task_phase x of TaskWaiting \<Rightarrow> 3 | TaskRunning \<Rightarrow> 2 | TaskFinished \<Rightarrow> 1)"

definition work_left :: "lane_lock_state \<Rightarrow> nat" where
  "work_left s = sum_list (map task_work (lock_tasks s))"

lemma sum_list_update_less:
  fixes f :: "'a \<Rightarrow> nat"
  shows "t < length xs \<Longrightarrow> f y < f (xs ! t) \<Longrightarrow> sum_list (map f (xs[t := y])) < sum_list (map f xs)"
proof (induction xs arbitrary: t)
  case (Cons x xs)
  then show ?case by (cases t) auto
qed simp

lemma sum_list_map_le:
  fixes f :: "'a \<Rightarrow> nat"
  shows "(\<And>x. f x \<le> b) \<Longrightarrow> sum_list (map f xs) \<le> b * length xs"
  by (induction xs) (auto intro: add_mono)

lemma work_decreases:
  assumes "lock_work s s'" and "lock_ok s"
  shows "work_left s' < work_left s"
proof -
  have open_task: "\<not> next_settled (lock_tasks s ! t)" if "t < length (lock_tasks s)" "phase_of s t \<noteq> TaskFinished" for t
    using lock_okD(2) [OF assms(2) that(1)] that(2) by blast
  show ?thesis
    using assms(1)
    by (rule lock_workE)
       (auto simp: work_left_def lock_start_def tasks_lock_finish set_phase_def lock_settle_def open_task
          intro!: sum_list_update_less)
qed

lemma work_exists:
  assumes ok: "lock_ok s" and t: "t < length (lock_tasks s)" "phase_of s t \<noteq> TaskFinished"
  shows "\<exists>s'. lock_work s s'"
proof -
  define pending where "pending u \<longleftrightarrow> u < length (lock_tasks s) \<and> \<not> next_settled (lock_tasks s ! u)" for u
  have "pending t" using lock_okD(2) [OF ok t(1)] t by (auto simp: pending_def)
  then obtain u where u: "pending u" and least: "\<And>v. v < u \<Longrightarrow> \<not> pending v" by (metis LeastI not_less_Least)
  have lt: "u < length (lock_tasks s)" "\<not> next_settled (lock_tasks s ! u)" using u by (auto simp: pending_def)
  have "previous_settled s u"
    using lock_okD(4) [OF ok lt(1)] least lt(1) by (fastforce simp: previous_settled_def pending_def split: option.split)
  then show ?thesis
    using lt by (cases "phase_of s u") (auto intro: work_start work_finish work_settle)
qed

text \<open>
  No call waits forever: while some call has not finished, one of the calls already made can take a
  step, and each such step uses up a finite amount of work, at most three units per call. So when the
  tasks end and no new calls come, every call gets its turn.
\<close>

theorem lane_lock_progress:
  assumes "lock_reach False s"
  shows "((\<forall>t < length (lock_tasks s). task_phase (lock_tasks s ! t) = TaskFinished) \<or> (\<exists>s'. lock_work s s')) \<and>
    (\<forall>s'. lock_work s s' \<longrightarrow> work_left s' < work_left s) \<and> work_left s \<le> 3 * length (lock_tasks s)"
proof -
  note ok = lock_ok_reach [OF assms]
  have "task_work x \<le> 3" for x by (simp split: task_phase.split)
  then have "work_left s \<le> 3 * length (lock_tasks s)" unfolding work_left_def by (rule sum_list_map_le)
  with work_exists [OF ok] work_decreases ok show ?thesis by blast
qed

theorem lane_lock_progress_witness: "\<exists>s'. lock_work two_calls s'"
  using lane_lock_progress [OF two_calls_reach]
  by (auto simp: two_calls_def lock_start_def set_phase_def lock_call_def no_lane_locks_def)

section \<open>Clearing the locks\<close>

text \<open>
  \<open>clearAll\<close> forgets the registered promises while tasks still run, so a call made afterwards
  does not wait for them: two tasks of one lane run at the same time.
\<close>

theorem clear_breaks_exclusion:
  "\<exists>s. lock_reach True s \<and> length (lock_tasks s) = 2 \<and>
     map task_lane (lock_tasks s) = [''k'', ''k''] \<and> map task_phase (lock_tasks s) = [TaskRunning, TaskRunning]"
proof (intro exI conjI)
  let ?a = "lock_start 0 (lock_call ''k'' no_lane_locks)"
  let ?s = "lock_start 1 (lock_call ''k'' (lock_clear ?a))"
  have "lock_reach True ?a"
    by (rule lock_reach_step [OF lock_reach_step [OF lock_reach_init step_call] step_work [OF work_start]])
       (simp_all add: lock_call_def no_lane_locks_def previous_settled_def)
  then have "lock_reach True (lock_clear ?a)" by (rule lock_reach_step) (rule step_clear [OF TrueI])
  then have "lock_reach True (lock_call ''k'' (lock_clear ?a))" by (rule lock_reach_step) (rule step_call)
  then show "lock_reach True ?s"
    by (rule lock_reach_step) (rule step_work [OF work_start],
      simp_all add: lock_call_def lock_clear_def lock_start_def set_phase_def no_lane_locks_def previous_settled_def)
qed (simp_all add: lock_call_def lock_clear_def lock_start_def set_phase_def no_lane_locks_def)

end
