(* ===== verification/DurableLock.thy ===== *)
theory DurableLock
  imports NonceRecords
begin

text \<open>
  The lane lock shared by the runtimes of one origin, \<open>withNonceLaneCoordinationLock\<close> of
  \<open>indexedDB/seamsWalletDB/repositories.ts\<close>: a row per lock key in the object store
  \<open>nonce_lane_locks\<close>, with an expiry time and the fencing token of its owner
  (\<open>indexedDB/seamsWalletDB/nonceLeaseRows.ts\<close>). A caller polls until it can write the row, runs its
  task and deletes the row if it is still its own.

  The runtimes share one clock that never runs backwards, their transactions are atomic, and a sleep
  lasts at least as long as asked. The object store is read and written by primary key only, so it is
  the map from keys to rows. A transaction may fail: an acquisition then throws, a release does not.
\<close>

section \<open>Rows and requests\<close>

record NonceLaneLockRow =
  lock_key :: string
  owner_id :: string
  fencing_token :: string
  acquired_at_ms :: int
  expires_at_ms :: int
  updated_at_ms :: int

text \<open>\<open>Number.isSafeInteger(v) && v >= 0\<close>.\<close>

definition stored_time :: "jsval \<Rightarrow> int option" where
  "stored_time v = (case v of JNum n \<Rightarrow> if safe_integer n \<and> 0 \<le> n then Some n else None | _ \<Rightarrow> None)"

definition parseNonceLaneLockRow :: "jsval \<Rightarrow> NonceLaneLockRow option" where
  "parseNonceLaneLockRow value =
     (case value of
        JObj fs \<Rightarrow>
          (case (parseStoredNonEmptyString (jfield fs ''lock_key''), parseStoredNonEmptyString (jfield fs ''owner_id''),
                 parseStoredNonEmptyString (jfield fs ''fencing_token'')) of
             (Some key, Some owner, Some token) \<Rightarrow>
               (case (stored_time (jfield fs ''acquired_at_ms''), stored_time (jfield fs ''expires_at_ms''),
                      stored_time (jfield fs ''updated_at_ms'')) of
                  (Some acquired, Some expires, Some updated) \<Rightarrow>
                    Some \<lparr>lock_key = key, owner_id = owner, fencing_token = token,
                          acquired_at_ms = acquired, expires_at_ms = expires, updated_at_ms = updated\<rparr>
                | _ \<Rightarrow> None)
           | _ \<Rightarrow> None)
      | _ \<Rightarrow> None)"

text \<open>A number as it is stored; only whether it is a safe integer is ever asked of one that is not.\<close>

definition js_number :: "int \<Rightarrow> jsval" where
  "js_number n = (if safe_integer n then JNum n else JOther (int_str n))"

definition lock_row_value :: "NonceLaneLockRow \<Rightarrow> jsval" where
  "lock_row_value r =
     JObj [(''lock_key'', JStr (lock_key r)), (''owner_id'', JStr (owner_id r)), (''fencing_token'', JStr (fencing_token r)),
           (''acquired_at_ms'', js_number (acquired_at_ms r)), (''expires_at_ms'', js_number (expires_at_ms r)),
           (''updated_at_ms'', js_number (updated_at_ms r))]"

text \<open>\<open>createRandomToken\<close>, with the random bytes as an argument.\<close>

definition hex_digit :: "nat \<Rightarrow> char" where
  "hex_digit d = ''0123456789abcdef'' ! (d mod 16)"

definition hex_byte :: "nat \<Rightarrow> string" where
  "hex_byte b = [hex_digit (b div 16), hex_digit (b mod 16)]"

definition createRandomToken :: "string \<Rightarrow> nat list \<Rightarrow> string" where
  "createRandomToken prefix bytes = prefix @ ''-'' @ concat (map hex_byte bytes)"

definition random_bytes :: "nat list \<Rightarrow> bool" where
  "random_bytes bytes \<longleftrightarrow> length bytes = 16 \<and> (\<forall>b \<in> set bytes. b < 256)"

definition DEFAULT_NONCE_LANE_LOCK_TTL_MS :: int where "DEFAULT_NONCE_LANE_LOCK_TTL_MS = 5000"
definition DEFAULT_NONCE_LANE_LOCK_WAIT_TIMEOUT_MS :: int where "DEFAULT_NONCE_LANE_LOCK_WAIT_TIMEOUT_MS = 3000"
definition DEFAULT_NONCE_LANE_LOCK_POLL_MS :: int where "DEFAULT_NONCE_LANE_LOCK_POLL_MS = 25"

text \<open>\<open>Math.max(1, Math.floor(Number(x) || fallback))\<close> for an integer or absent \<open>x\<close>.\<close>

definition positive_or :: "int \<Rightarrow> int option \<Rightarrow> int" where
  "positive_or fallback x = max 1 (case x of None \<Rightarrow> fallback | Some n \<Rightarrow> if n = 0 then fallback else n)"

datatype caller_phase =
    Trying
  | Refused
  | Sleeping int
  | Holding int
  | Released
  | TimedOut
  | Thrown

text \<open>
  A call: its constants, where it stands (\<open>Holding\<close> with the time of its transaction), and, for the
  analysis, when it was made and how many transactions it has tried.
\<close>

record lock_caller =
  lc_lockKey :: string
  lc_ownerId :: string
  lc_fencingToken :: string
  lc_ttlMs :: int
  lc_deadlineMs :: int
  lc_phase :: caller_phase
  lc_enteredMs :: int
  lc_attempts :: nat

definition enterLock ::
  "string \<Rightarrow> string \<Rightarrow> int option \<Rightarrow> int option \<Rightarrow> nat list \<Rightarrow> int \<Rightarrow> nonce_error + lock_caller" where
  "enterLock key owner ttl wait bytes now =
     (let lockKey = js_trim key; ownerId = js_trim owner in
      if lockKey = [] \<or> ownerId = [] then Inl (FieldRequired ''nonce lane lock lockKey and ownerId'')
      else Inr \<lparr>lc_lockKey = lockKey, lc_ownerId = ownerId,
                lc_fencingToken = createRandomToken ''nonce-lane-lock'' bytes,
                lc_ttlMs = positive_or DEFAULT_NONCE_LANE_LOCK_TTL_MS ttl,
                lc_deadlineMs = now + positive_or DEFAULT_NONCE_LANE_LOCK_WAIT_TIMEOUT_MS wait,
                lc_phase = Trying, lc_enteredMs = now, lc_attempts = 0\<rparr>)"

section \<open>Transactions\<close>

type_synonym lock_rows = "(string, jsval) jsmap"

definition read_lock_row :: "lock_rows \<Rightarrow> string \<Rightarrow> NonceLaneLockRow option" where
  "read_lock_row rows k = parseNonceLaneLockRow (case map_of rows k of None \<Rightarrow> JUndefined | Some v \<Rightarrow> v)"

definition next_lock_row :: "lock_caller \<Rightarrow> int \<Rightarrow> NonceLaneLockRow" where
  "next_lock_row c nowMs =
     \<lparr>lock_key = lc_lockKey c, owner_id = lc_ownerId c, fencing_token = lc_fencingToken c,
      acquired_at_ms = nowMs, expires_at_ms = nowMs + lc_ttlMs c, updated_at_ms = nowMs\<rparr>"

definition tryAcquire :: "lock_caller \<Rightarrow> int \<Rightarrow> lock_rows \<Rightarrow> bool \<times> lock_rows" where
  "tryAcquire c nowMs rows =
     (case read_lock_row rows (lc_lockKey c) of
        Some existing \<Rightarrow>
          if expires_at_ms existing > nowMs then (False, rows)
          else (True, AList.update (lc_lockKey c) (lock_row_value (next_lock_row c nowMs)) rows)
      | None \<Rightarrow> (True, AList.update (lc_lockKey c) (lock_row_value (next_lock_row c nowMs)) rows))"

text \<open>After a refused attempt: give up at the deadline or sleep.\<close>

definition afterRefusal :: "lock_caller \<Rightarrow> int \<Rightarrow> caller_phase" where
  "afterRefusal c nowMs =
     (if nowMs \<ge> lc_deadlineMs c then TimedOut else Sleeping (nowMs + DEFAULT_NONCE_LANE_LOCK_POLL_MS))"

definition releaseLock :: "lock_caller \<Rightarrow> lock_rows \<Rightarrow> lock_rows" where
  "releaseLock c rows =
     (case read_lock_row rows (lc_lockKey c) of
        Some existing \<Rightarrow> if fencing_token existing = lc_fencingToken c then AList.delete (lc_lockKey c) rows else rows
      | None \<Rightarrow> rows)"

section \<open>Interleaved callers\<close>

record lock_world =
  lw_now :: int
  lw_rows :: lock_rows
  lw_callers :: "lock_caller list"

abbreviation caller_at :: "lock_world \<Rightarrow> nat \<Rightarrow> lock_caller" where
  "caller_at w i \<equiv> lw_callers w ! i"

definition set_caller :: "nat \<Rightarrow> (lock_caller \<Rightarrow> lock_caller) \<Rightarrow> lock_world \<Rightarrow> lock_world" where
  "set_caller i f w = w\<lparr>lw_callers := (lw_callers w)[i := f (lw_callers w ! i)]\<rparr>"

definition attempt :: "nat \<Rightarrow> lock_world \<Rightarrow> lock_world" where
  "attempt i w =
     (case tryAcquire (caller_at w i) (lw_now w) (lw_rows w) of
        (acquired, rows) \<Rightarrow>
          set_caller i (\<lambda>c. c\<lparr>lc_phase := if acquired then Holding (lw_now w) else Refused, lc_attempts := Suc (lc_attempts c)\<rparr>)
            (w\<lparr>lw_rows := rows\<rparr>))"

definition set_caller_phase :: "nat \<Rightarrow> caller_phase \<Rightarrow> lock_world \<Rightarrow> lock_world" where
  "set_caller_phase i ph w = set_caller i (\<lambda>c. c\<lparr>lc_phase := ph\<rparr>) w"

text \<open>
  The fencing tokens of different calls differ: \<open>crypto.getRandomValues\<close> does not give the same sixteen
  bytes twice.
\<close>

inductive durable_step :: "lock_world \<Rightarrow> lock_world \<Rightarrow> bool" where
  durable_tick: "0 \<le> d \<Longrightarrow> durable_step w (w\<lparr>lw_now := lw_now w + d\<rparr>)"
| durable_enter: "random_bytes bytes \<Longrightarrow> enterLock key owner ttl wait bytes (lw_now w) = Inr c \<Longrightarrow>
    lc_fencingToken c \<notin> lc_fencingToken ` set (lw_callers w) \<Longrightarrow>
    durable_step w (w\<lparr>lw_callers := lw_callers w @ [c]\<rparr>)"
| durable_attempt: "i < length (lw_callers w) \<Longrightarrow> lc_phase (caller_at w i) = Trying \<Longrightarrow> durable_step w (attempt i w)"
| durable_attempt_throws: "i < length (lw_callers w) \<Longrightarrow> lc_phase (caller_at w i) = Trying \<Longrightarrow>
    durable_step w (set_caller_phase i Thrown w)"
| durable_check: "i < length (lw_callers w) \<Longrightarrow> lc_phase (caller_at w i) = Refused \<Longrightarrow>
    durable_step w (set_caller_phase i (afterRefusal (caller_at w i) (lw_now w)) w)"
| durable_wake: "i < length (lw_callers w) \<Longrightarrow> lc_phase (caller_at w i) = Sleeping wakeMs \<Longrightarrow> wakeMs \<le> lw_now w \<Longrightarrow>
    durable_step w (set_caller_phase i Trying w)"
| durable_release: "i < length (lw_callers w) \<Longrightarrow> lc_phase (caller_at w i) = Holding at \<Longrightarrow>
    durable_step w (set_caller_phase i Released (w\<lparr>lw_rows := releaseLock (caller_at w i) (lw_rows w)\<rparr>))"
| durable_release_fails: "i < length (lw_callers w) \<Longrightarrow> lc_phase (caller_at w i) = Holding at \<Longrightarrow>
    durable_step w (set_caller_phase i Released w)"

inductive durable_reach :: "lock_world \<Rightarrow> bool" where
  durable_init: "0 \<le> now \<Longrightarrow> durable_reach \<lparr>lw_now = now, lw_rows = rows, lw_callers = []\<rparr>"
| durable_more: "durable_reach w \<Longrightarrow> durable_step w w' \<Longrightarrow> durable_reach w'"

section \<open>What is written can be read\<close>

lemma hex_digit_plain: "\<not> js_whitespace (hex_digit d)"
proof -
  have "hex_digit d \<in> set ''0123456789abcdef''" unfolding hex_digit_def by (rule nth_mem) simp
  then show ?thesis by (auto simp: js_whitespace_def)
qed

lemma token_stored: "parseStoredNonEmptyString (JStr (createRandomToken ''nonce-lane-lock'' bytes)) =
    Some (createRandomToken ''nonce-lane-lock'' bytes)"
proof -
  have "list_all (\<lambda>c. \<not> js_whitespace c) (concat (map hex_byte bytes))"
    by (induction bytes) (simp_all add: hex_byte_def hex_digit_plain)
  moreover have "list_all (\<lambda>c. \<not> js_whitespace c) ''nonce-lane-lock-''" by (simp add: js_whitespace_def)
  ultimately have "js_trim (createRandomToken ''nonce-lane-lock'' bytes) = createRandomToken ''nonce-lane-lock'' bytes"
    unfolding createRandomToken_def by (intro js_trim_no_whitespace) simp
  then show ?thesis by (simp add: parseStoredNonEmptyString_def createRandomToken_def)
qed

definition caller_constants_ok :: "lock_caller \<Rightarrow> bool" where
  "caller_constants_ok c \<longleftrightarrow>
     parseStoredNonEmptyString (JStr (lc_lockKey c)) = Some (lc_lockKey c) \<and>
     parseStoredNonEmptyString (JStr (lc_ownerId c)) = Some (lc_ownerId c) \<and>
     parseStoredNonEmptyString (JStr (lc_fencingToken c)) = Some (lc_fencingToken c) \<and> 1 \<le> lc_ttlMs c"

lemma enter_constants: "enterLock key owner ttl wait bytes now = Inr c \<Longrightarrow> caller_constants_ok c"
  by (auto simp: enterLock_def Let_def caller_constants_ok_def token_stored positive_or_def split: if_splits)
     (simp_all add: parseStoredNonEmptyString_def)

lemma written_row_read:
  assumes "caller_constants_ok c" and "0 \<le> nowMs" and "safe_integer (nowMs + lc_ttlMs c)"
  shows "parseNonceLaneLockRow (lock_row_value (next_lock_row c nowMs)) = Some (next_lock_row c nowMs)"
proof -
  have "safe_integer nowMs" using assms by (auto simp: safe_integer_def caller_constants_ok_def)
  then have "stored_time (js_number nowMs) = Some nowMs" "stored_time (js_number (nowMs + lc_ttlMs c)) = Some (nowMs + lc_ttlMs c)"
    using assms by (simp_all add: stored_time_def js_number_def caller_constants_ok_def)
  with assms(1) show ?thesis
    by (simp add: parseNonceLaneLockRow_def lock_row_value_def next_lock_row_def caller_constants_ok_def jfield.simps)
qed

section \<open>Invariant\<close>

text \<open>
  While a holder is inside its time to live, the row of its key is the one it wrote. A caller's attempts
  lie at least a polling interval apart and start before its deadline.
\<close>

definition holding_ok :: "int \<Rightarrow> lock_rows \<Rightarrow> lock_caller \<Rightarrow> bool" where
  "holding_ok now rows c \<longleftrightarrow>
     (\<forall>a. lc_phase c = Holding a \<longrightarrow> 0 \<le> a \<and> a \<le> now \<and>
        (now < a + lc_ttlMs c \<and> safe_integer (a + lc_ttlMs c) \<longrightarrow>
           map_of rows (lc_lockKey c) = Some (lock_row_value (next_lock_row c a))))"

definition schedule_ok :: "int \<Rightarrow> lock_caller \<Rightarrow> bool" where
  "schedule_ok now c \<longleftrightarrow>
     (let n = int (lc_attempts c); wait = lc_deadlineMs c - lc_enteredMs c in
      1 \<le> wait \<and>
      (case lc_phase c of
         Trying \<Rightarrow> lc_enteredMs c + 25 * n \<le> now \<and> 25 * (n - 1) < wait
       | Refused \<Rightarrow> lc_enteredMs c + 25 * (n - 1) \<le> now \<and> 25 * (n - 2) < wait
       | Sleeping wakeMs \<Rightarrow> lc_enteredMs c + 25 * n \<le> wakeMs \<and> 25 * (n - 1) < wait
       | TimedOut \<Rightarrow> lc_deadlineMs c \<le> now \<and> 25 * (n - 2) < wait
       | _ \<Rightarrow> 25 * (n - 2) < wait))"

definition caller_ok :: "lock_world \<Rightarrow> lock_caller \<Rightarrow> bool" where
  "caller_ok w c \<longleftrightarrow> caller_constants_ok c \<and> holding_ok (lw_now w) (lw_rows w) c \<and> schedule_ok (lw_now w) c"

definition durable_ok :: "lock_world \<Rightarrow> bool" where
  "durable_ok w \<longleftrightarrow>
     0 \<le> lw_now w \<and> distinct (map lc_fencingToken (lw_callers w)) \<and> (\<forall>i < length (lw_callers w). caller_ok w (caller_at w i))"

lemma durable_okD:
  assumes "durable_ok w" and "i < length (lw_callers w)"
  shows "caller_constants_ok (caller_at w i)" and "holding_ok (lw_now w) (lw_rows w) (caller_at w i)"
    and "schedule_ok (lw_now w) (caller_at w i)"
  using assms by (simp_all add: durable_ok_def caller_ok_def)

lemma tokens_differ:
  assumes "durable_ok w" and "i < length (lw_callers w)" and "j < length (lw_callers w)" and "i \<noteq> j"
  shows "lc_fencingToken (caller_at w i) \<noteq> lc_fencingToken (caller_at w j)"
  using assms by (simp add: durable_ok_def distinct_conv_nth)

text \<open>One caller changes its phase while the rows stay good for the others.\<close>

lemma durable_ok_set_caller:
  assumes ok: "durable_ok w" and i: "i < length (lw_callers w)"
    and token: "lc_fencingToken (f (caller_at w i)) = lc_fencingToken (caller_at w i)"
    and self: "caller_ok (w\<lparr>lw_rows := rows\<rparr>) (f (caller_at w i))"
    and others: "\<And>j. j < length (lw_callers w) \<Longrightarrow> j \<noteq> i \<Longrightarrow> holding_ok (lw_now w) rows (caller_at w j)"
  shows "durable_ok (set_caller i f (w\<lparr>lw_rows := rows\<rparr>))"
proof -
  have "map lc_fencingToken ((lw_callers w)[i := f (caller_at w i)]) = map lc_fencingToken (lw_callers w)"
    using i token by (simp add: map_update list_update_same_conv)
  moreover have "caller_ok (set_caller i f (w\<lparr>lw_rows := rows\<rparr>)) ((lw_callers w)[i := f (caller_at w i)] ! j)"
    if "j < length (lw_callers w)" for j
    using that self others [OF that] durable_okD [OF ok that] i
    by (cases "j = i") (simp_all add: caller_ok_def set_caller_def)
  ultimately show ?thesis using ok by (simp add: durable_ok_def set_caller_def)
qed

lemma durable_ok_phase:
  assumes ok: "durable_ok w" and i: "i < length (lw_callers w)"
    and self: "caller_ok w ((caller_at w i)\<lparr>lc_phase := ph\<rparr>)"
  shows "durable_ok (set_caller_phase i ph w)"
  unfolding set_caller_phase_def
  using durable_ok_set_caller [OF ok i, of "\<lambda>c. c\<lparr>lc_phase := ph\<rparr>" "lw_rows w"] self durable_okD(2) [OF ok] by simp

lemma live_row_read:
  assumes "caller_constants_ok c" and "holding_ok now rows c" and "lc_phase c = Holding a"
    and "now < a + lc_ttlMs c" and "safe_integer (a + lc_ttlMs c)"
  shows "read_lock_row rows (lc_lockKey c) = Some (next_lock_row c a)"
  using assms written_row_read [OF assms(1), of a] by (auto simp: holding_ok_def read_lock_row_def)

lemma other_acquires_keeps:
  assumes c: "caller_constants_ok c" "holding_ok now rows c" and got: "tryAcquire d now rows = (True, rows')"
  shows "holding_ok now rows' c"
proof -
  have "lc_lockKey d \<noteq> lc_lockKey c" if "lc_phase c = Holding a" "now < a + lc_ttlMs c" "safe_integer (a + lc_ttlMs c)" for a
    using live_row_read [OF c that] got that(2) by (auto simp: tryAcquire_def next_lock_row_def)
  moreover have "rows' = AList.update (lc_lockKey d) (lock_row_value (next_lock_row d now)) rows"
    using got by (auto simp: tryAcquire_def split: option.splits if_splits)
  ultimately show ?thesis using c(2) by (auto simp: holding_ok_def update_conv')
qed

lemma other_releases_keeps:
  assumes c: "caller_constants_ok c" "holding_ok now rows c" and other: "lc_fencingToken d \<noteq> lc_fencingToken c"
  shows "holding_ok now (releaseLock d rows) c"
proof -
  have "lc_lockKey d \<noteq> lc_lockKey c \<or> releaseLock d rows = rows"
    if "lc_phase c = Holding a" "now < a + lc_ttlMs c" "safe_integer (a + lc_ttlMs c)" for a
    using live_row_read [OF c that] other by (auto simp: releaseLock_def next_lock_row_def)
  moreover have "map_of (releaseLock d rows) k = map_of rows k" if "lc_lockKey d \<noteq> k" for k
    using that by (simp add: releaseLock_def delete_conv' split: option.split)
  ultimately show ?thesis using c(2) unfolding holding_ok_def by metis
qed

lemma durable_ok_attempt:
  assumes ok: "durable_ok w" and i: "i < length (lw_callers w)" "lc_phase (caller_at w i) = Trying"
  shows "durable_ok (attempt i w)"
proof -
  obtain acquired rows where t: "tryAcquire (caller_at w i) (lw_now w) (lw_rows w) = (acquired, rows)" by fastforce
  have rows: "rows = (if acquired then AList.update (lc_lockKey (caller_at w i))
      (lock_row_value (next_lock_row (caller_at w i) (lw_now w))) (lw_rows w) else lw_rows w)"
    using t by (auto simp: tryAcquire_def split: option.splits if_splits)
  note d = durable_okD [OF ok i(1)]
  have "durable_ok (set_caller i (\<lambda>c. c\<lparr>lc_phase := if acquired then Holding (lw_now w) else Refused,
      lc_attempts := Suc (lc_attempts c)\<rparr>) (w\<lparr>lw_rows := rows\<rparr>))"
  proof (rule durable_ok_set_caller [OF ok i(1)])
    show "caller_ok (w\<lparr>lw_rows := rows\<rparr>) ((caller_at w i)\<lparr>lc_phase := if acquired then Holding (lw_now w) else Refused,
        lc_attempts := Suc (lc_attempts (caller_at w i))\<rparr>)"
      using d i(2) ok
      by (auto simp: caller_ok_def caller_constants_ok_def holding_ok_def schedule_ok_def Let_def durable_ok_def
          rows update_conv' next_lock_row_def)
  next
    fix j assume j: "j < length (lw_callers w)" "j \<noteq> i"
    show "holding_ok (lw_now w) rows (caller_at w j)"
      using durable_okD [OF ok j(1)] other_acquires_keeps t rows by (cases acquired) auto
  qed simp
  with t show ?thesis by (simp add: attempt_def)
qed

lemma durable_ok_release:
  assumes ok: "durable_ok w" and i: "i < length (lw_callers w)" "lc_phase (caller_at w i) = Holding a"
  shows "durable_ok (set_caller_phase i Released (w\<lparr>lw_rows := releaseLock (caller_at w i) (lw_rows w)\<rparr>))"
  unfolding set_caller_phase_def
proof (rule durable_ok_set_caller [OF ok i(1)])
  show "caller_ok (w\<lparr>lw_rows := releaseLock (caller_at w i) (lw_rows w)\<rparr>) ((caller_at w i)\<lparr>lc_phase := Released\<rparr>)"
    using durable_okD [OF ok i(1)] i(2) by (simp add: caller_ok_def caller_constants_ok_def holding_ok_def schedule_ok_def)
next
  fix j assume j: "j < length (lw_callers w)" "j \<noteq> i"
  show "holding_ok (lw_now w) (releaseLock (caller_at w i) (lw_rows w)) (caller_at w j)"
    using other_releases_keeps durable_okD [OF ok j(1)] tokens_differ [OF ok i(1) j(1)] j(2) by blast
qed simp

lemma caller_ok_phase:
  assumes "durable_ok w" and "i < length (lw_callers w)"
    and "schedule_ok (lw_now w) ((caller_at w i)\<lparr>lc_phase := ph\<rparr>)" and "\<And>a. ph \<noteq> Holding a"
  shows "durable_ok (set_caller_phase i ph w)"
  using durable_okD [OF assms(1,2)] assms(3,4)
  by (intro durable_ok_phase [OF assms(1,2)]) (simp add: caller_ok_def caller_constants_ok_def holding_ok_def)

lemma caller_ok_later:
  assumes "caller_ok w c" and "0 \<le> d"
  shows "caller_ok (w\<lparr>lw_now := lw_now w + d\<rparr>) c"
  using assms by (auto simp: caller_ok_def holding_ok_def schedule_ok_def Let_def split: caller_phase.splits)

lemma durable_ok_enter:
  assumes ok: "durable_ok w" and c: "enterLock key owner ttl wait bytes (lw_now w) = Inr c"
    and fresh: "lc_fencingToken c \<notin> lc_fencingToken ` set (lw_callers w)"
  shows "durable_ok (w\<lparr>lw_callers := lw_callers w @ [c]\<rparr>)"
proof -
  have "lc_phase c = Trying" "schedule_ok (lw_now w) c"
    using c by (auto simp: enterLock_def Let_def schedule_ok_def positive_or_def split: if_splits)
  then have "caller_ok (w\<lparr>lw_callers := lw_callers w @ [c]\<rparr>) c"
    using enter_constants [OF c] by (simp add: caller_ok_def holding_ok_def)
  moreover have "caller_ok (w\<lparr>lw_callers := lw_callers w @ [c]\<rparr>) (caller_at w j)" if "j < length (lw_callers w)" for j
    using durable_okD [OF ok that] by (simp add: caller_ok_def)
  ultimately show ?thesis using ok fresh by (auto simp: durable_ok_def nth_append less_Suc_eq)
qed

lemma schedule_moves:
  assumes "schedule_ok now c"
  shows "lc_phase c = Trying \<Longrightarrow> schedule_ok now (c\<lparr>lc_phase := Thrown\<rparr>)"
    and "lc_phase c = Refused \<Longrightarrow> schedule_ok now (c\<lparr>lc_phase := afterRefusal c now\<rparr>)"
    and "lc_phase c = Sleeping wakeMs \<Longrightarrow> wakeMs \<le> now \<Longrightarrow> schedule_ok now (c\<lparr>lc_phase := Trying\<rparr>)"
    and "lc_phase c = Holding a \<Longrightarrow> schedule_ok now (c\<lparr>lc_phase := Released\<rparr>)"
  using assms by (simp_all add: schedule_ok_def Let_def afterRefusal_def DEFAULT_NONCE_LANE_LOCK_POLL_MS_def)

lemma durable_ok_step: "durable_step w w' \<Longrightarrow> durable_ok w \<Longrightarrow> durable_ok w'"
proof (induction rule: durable_step.induct)
  case (durable_tick d w)
  then show ?case using caller_ok_later by (simp add: durable_ok_def)
next
  case durable_enter
  then show ?case using durable_ok_enter by blast
next
  case durable_attempt
  then show ?case using durable_ok_attempt by blast
next
  case durable_attempt_throws
  then show ?case using caller_ok_phase schedule_moves(1) durable_okD(3) by blast
next
  case (durable_check i w)
  moreover have "afterRefusal c n \<noteq> Holding a" for c n a by (simp add: afterRefusal_def)
  ultimately show ?case using caller_ok_phase schedule_moves(2) durable_okD(3) by blast
next
  case durable_wake
  then show ?case using caller_ok_phase schedule_moves(3) durable_okD(3) by blast
next
  case durable_release
  then show ?case using durable_ok_release by blast
next
  case durable_release_fails
  then show ?case using caller_ok_phase schedule_moves(4) durable_okD(3) by blast
qed

lemma durable_ok_reach: "durable_reach w \<Longrightarrow> durable_ok w"
  by (induction rule: durable_reach.induct) (auto simp: durable_ok_def dest: durable_ok_step)

section \<open>Guarantees\<close>

lemma lw_now_attempt [simp]: "lw_now (attempt i w) = lw_now w"
  by (simp add: attempt_def set_caller_def split: prod.split)

lemma durable_reach_later:
  assumes "durable_reach w" and "lw_now w \<le> t"
  shows "durable_reach (w\<lparr>lw_now := t\<rparr>)"
  using durable_more [OF assms(1) durable_tick [of "t - lw_now w"]] assms(2) by simp

text \<open>An example: two runtimes ask for one lock, 2.5 seconds apart, and the first one gets it.\<close>

definition example_bytes :: "nat \<Rightarrow> nat list" where
  "example_bytes n = replicate 16 n"

definition lock_contest :: lock_world where
  "lock_contest =
     (let w0 = \<lparr>lw_now = 0, lw_rows = [], lw_callers = []\<rparr>;
          w1 = w0\<lparr>lw_callers := [projr (enterLock ''nonce-coordinator:lane'' ''r0'' (Some 5000) (Some 3000) (example_bytes 0) 0)]\<rparr>;
          w2 = (attempt 0 w1)\<lparr>lw_now := 2500\<rparr>
      in w2\<lparr>lw_callers := lw_callers w2 @
           [projr (enterLock ''nonce-coordinator:lane'' ''r1'' (Some 5000) (Some 3000) (example_bytes 1) 2500)]\<rparr>)"

lemma lock_contest_reach: "durable_reach lock_contest"
proof -
  let ?w0 = "\<lparr>lw_now = 0, lw_rows = [], lw_callers = []\<rparr> :: lock_world"
  let ?enter = "\<lambda>owner n now. enterLock ''nonce-coordinator:lane'' owner (Some 5000) (Some 3000) (example_bytes n) now"
  let ?w1 = "?w0\<lparr>lw_callers := lw_callers ?w0 @ [projr (?enter ''r0'' 0 0)]\<rparr>"
  have bytes: "random_bytes (example_bytes 0)" "random_bytes (example_bytes 1)"
    by (simp_all add: random_bytes_def example_bytes_def)
  have enters: "?enter ''r0'' 0 0 = Inr (projr (?enter ''r0'' 0 0))" "?enter ''r1'' 1 2500 = Inr (projr (?enter ''r1'' 1 2500))"
    by code_simp+
  have "durable_reach ?w1" by (rule durable_more [OF durable_init durable_enter [OF bytes(1) _ _]]) (use enters in simp_all)
  then have "durable_reach (attempt 0 ?w1)" by (rule durable_more) (rule durable_attempt, simp, code_simp)
  then have "durable_reach ((attempt 0 ?w1)\<lparr>lw_now := 2500\<rparr>)" by (rule durable_reach_later) simp
  then have "durable_reach (((attempt 0 ?w1)\<lparr>lw_now := 2500\<rparr>)\<lparr>lw_callers := lw_callers ((attempt 0 ?w1)\<lparr>lw_now := 2500\<rparr>) @
      [projr (?enter ''r1'' 1 2500)]\<rparr>)"
    by (rule durable_more) (rule durable_enter [OF bytes(2)], use enters in simp, code_simp)
  then show ?thesis by (simp add: lock_contest_def Let_def)
qed

text \<open>
  C36: Two callers never hold the durable lock of one lane at the same time while both are within their
  time to live: in every interleaving of the runtimes, with failing transactions, failing releases and
  rows of any content left by earlier runtimes.
\<close>

theorem durable_lock_exclusive:
  assumes "durable_reach w" and "i < length (lw_callers w)" and "j < length (lw_callers w)"
    and "lc_lockKey (lw_callers w ! i) = lc_lockKey (lw_callers w ! j)"
    and "lc_phase (lw_callers w ! i) = Holding a" and "lw_now w < a + lc_ttlMs (lw_callers w ! i)"
    and "lc_phase (lw_callers w ! j) = Holding b" and "lw_now w < b + lc_ttlMs (lw_callers w ! j)"
    and "safe_integer (a + lc_ttlMs (lw_callers w ! i))" and "safe_integer (b + lc_ttlMs (lw_callers w ! j))"
  shows "i = j"
proof (rule ccontr)
  assume "i \<noteq> j"
  note ok = durable_ok_reach [OF assms(1)]
  from live_row_read [OF durable_okD(1,2) [OF ok assms(2)] assms(5,6,9)] live_row_read [OF durable_okD(1,2) [OF ok assms(3)] assms(7,8,10)]
  have "next_lock_row (caller_at w i) a = next_lock_row (caller_at w j) b" using assms(4) by simp
  then have "lc_fencingToken (caller_at w i) = lc_fencingToken (caller_at w j)" by (simp add: next_lock_row_def)
  with tokens_differ [OF ok assms(2,3) \<open>i \<noteq> j\<close>] show False by simp
qed

lemma lock_contest_facts:
  "length (lw_callers lock_contest) = 2" "lw_now lock_contest = 2500"
  "lc_phase (lw_callers lock_contest ! 0) = Holding 0" "lc_ttlMs (lw_callers lock_contest ! 0) = 5000"
  "lc_attempts (lw_callers lock_contest ! 0) = 1" "lc_attempts (lw_callers lock_contest ! 1) = 0"
  "lc_deadlineMs (lw_callers lock_contest ! 1) = 5500" "lc_enteredMs (lw_callers lock_contest ! 1) = 2500"
  by code_simp+

theorem durable_lock_exclusive_witness: "lc_phase (lw_callers lock_contest ! 0) = Holding 0 \<and> (0::nat) = 0"
  using durable_lock_exclusive [OF lock_contest_reach, of 0 0 0 0] by (simp add: lock_contest_facts safe_integer_def)

text \<open>
  The number of acquisition attempts of a caller is bounded by its waiting time: one per polling
  interval of 25 ms, the last one begun before the deadline, plus the first; 121 for the three seconds
  the coordinator asks for. A caller that gives up does so at or after its deadline.
\<close>

theorem durable_lock_attempts_bounded:
  assumes "durable_reach w" and "c \<in> set (lw_callers w)"
  shows "int (lc_attempts c) \<le> (lc_deadlineMs c - lc_enteredMs c - 1) div 25 + 2 \<and>
    (lc_phase c = TimedOut \<longrightarrow> lc_deadlineMs c \<le> lw_now w)"
proof -
  from assms(2) obtain i where i: "i < length (lw_callers w)" "c = caller_at w i" by (auto simp: in_set_conv_nth)
  have sched: "schedule_ok (lw_now w) c" using durable_okD(3) [OF durable_ok_reach [OF assms(1)] i(1)] i(2) by simp
  then have "25 * (int (lc_attempts c) - 2) < lc_deadlineMs c - lc_enteredMs c"
    by (auto simp: schedule_ok_def Let_def split: caller_phase.splits)
  moreover have "lc_phase c = TimedOut \<longrightarrow> lc_deadlineMs c \<le> lw_now w" using sched by (auto simp: schedule_ok_def Let_def)
  ultimately show ?thesis by presburger
qed

theorem durable_lock_attempts_bounded_witness:
  "int (lc_attempts (lw_callers lock_contest ! 1)) \<le> 121"
proof -
  have "lw_callers lock_contest ! 1 \<in> set (lw_callers lock_contest)" by (rule nth_mem) (simp add: lock_contest_facts)
  from durable_lock_attempts_bounded [OF lock_contest_reach this]
  show ?thesis by (simp add: lock_contest_facts del: One_nat_def)
qed

text \<open>
  The row is never renewed. A task that runs longer than the time to live loses the lock without
  notice, and a second runtime holds it at the same time.
\<close>

theorem durable_lock_outlived:
  "\<exists>w. durable_reach w \<and> map lc_lockKey (lw_callers w) = [''nonce-coordinator:lane'', ''nonce-coordinator:lane''] \<and>
     map lc_phase (lw_callers w) = [Holding 0, Holding 5000]"
proof (intro exI conjI)
  let ?w = "attempt 1 (lock_contest\<lparr>lw_now := 5000\<rparr>)"
  have "durable_reach (lock_contest\<lparr>lw_now := 5000\<rparr>)"
    by (rule durable_reach_later [OF lock_contest_reach]) (simp add: lock_contest_facts)
  then show "durable_reach ?w" by (rule durable_more) (rule durable_attempt, code_simp, code_simp)
  show "map lc_lockKey (lw_callers ?w) = [''nonce-coordinator:lane'', ''nonce-coordinator:lane'']" by code_simp
  show "map lc_phase (lw_callers ?w) = [Holding 0, Holding 5000]" by code_simp
qed

end
