(* ===== verification/NonceDiagnostics.thy ===== *)
theory NonceDiagnostics
  imports NearNonceLanes
begin

text \<open>
  Trace events, degradations, alerts and metrics of \<open>nonce/nonceDiagnostics.ts\<close> (with
  \<open>normalizeMetricReason\<close> of \<open>nonceUtils.ts\<close>).
\<close>

section \<open>Degradations\<close>

record degradation_input =
  di_lane :: "NonceLane option"
  di_fallback :: "NonceCoordinatorFallback option"
  di_accountId :: "string option"
  di_networkKey :: "string option"
  di_laneFamily :: "string option"

definition no_degradation_input :: degradation_input where
  "no_degradation_input =
     \<lparr>di_lane = None, di_fallback = None, di_accountId = None, di_networkKey = None, di_laneFamily = None\<rparr>"

definition lane_degradation :: "NonceLane \<Rightarrow> degradation_input" where
  "lane_degradation lane = no_degradation_input\<lparr>di_lane := Some lane\<rparr>"

definition trim_opt :: "string option \<Rightarrow> string" where
  "trim_opt s = (case s of None \<Rightarrow> [] | Some x \<Rightarrow> js_trim x)"

definition opt_of_string :: "string \<Rightarrow> string option" where
  "opt_of_string s = (if s = [] then None else Some s)"

definition degradation_key ::
  "NonceCoordinatorDegradationReason \<Rightarrow> string option \<Rightarrow> string \<Rightarrow> string \<Rightarrow> NonceCoordinatorFallback \<Rightarrow> string" where
  "degradation_key reason family nk acc fallback =
     join_with ''|'' [degradation_reason_str reason, case family of None \<Rightarrow> [] | Some f \<Rightarrow> f, nk, acc,
       fallback_str fallback]"

definition recordCoordinationDegradationOnce ::
  "(string, NonceCoordinatorDegradation) jsmap \<Rightarrow> NonceCoordinatorDegradationReason \<Rightarrow> degradation_input \<Rightarrow>
   (NonceCoordinatorDegradation \<times> (string, NonceCoordinatorDegradation) jsmap) option" where
  "recordCoordinationDegradationOnce observed reason input =
     (let fallback = (case di_fallback input of Some f \<Rightarrow> f | None \<Rightarrow> InRuntimeLock);
          nk = (case di_lane input of Some l \<Rightarrow> nonceLaneNetworkKey l | None \<Rightarrow> trim_opt (di_networkKey input));
          acc = (case di_lane input of Some l \<Rightarrow> nonceLaneSubjectId l | None \<Rightarrow> trim_opt (di_accountId input));
          family = (case di_lane input of Some l \<Rightarrow> Some (lane_family l) | None \<Rightarrow> di_laneFamily input);
          key = degradation_key reason family nk acc fallback
      in if map_of observed key \<noteq> None then None
         else let degradation =
                \<lparr>deg_reason = reason, deg_laneFamily = family, deg_networkKey = opt_of_string nk,
                 deg_accountId = opt_of_string acc, deg_fallback = fallback\<rparr>
              in Some (degradation, AList.update key degradation observed))"

section \<open>Dropped and replaced alerts\<close>

record DroppedReplacedAlertWindow =
  win_count :: int
  win_firstSeenAtMs :: int
  win_lastSeenAtMs :: int

definition alert_key :: "EvmNonceLane \<Rightarrow> EvmNonceOutcomeReason \<Rightarrow> string" where
  "alert_key lane reason = join_with ''|'' [nonceLaneKey (EvmLane lane), outcome_reason_str reason]"

definition next_alert_window ::
  "DroppedReplacedAlertWindow option \<Rightarrow> int \<Rightarrow> int \<Rightarrow> DroppedReplacedAlertWindow" where
  "next_alert_window existing nowMs windowMs =
     (case existing of
        Some w \<Rightarrow>
          if nowMs - win_firstSeenAtMs w \<le> windowMs
          then \<lparr>win_count = win_count w + 1, win_firstSeenAtMs = win_firstSeenAtMs w, win_lastSeenAtMs = nowMs\<rparr>
          else \<lparr>win_count = 1, win_firstSeenAtMs = nowMs, win_lastSeenAtMs = nowMs\<rparr>
      | None \<Rightarrow> \<lparr>win_count = 1, win_firstSeenAtMs = nowMs, win_lastSeenAtMs = nowMs\<rparr>)"

definition recordDroppedReplacedAlertWindow ::
  "(string, DroppedReplacedAlertWindow) jsmap \<Rightarrow> EvmNonceLane \<Rightarrow> EvmNonceOutcomeReason \<Rightarrow> int \<Rightarrow> int \<Rightarrow> int \<Rightarrow>
   NonceCoordinatorAlert option \<times> (string, DroppedReplacedAlertWindow) jsmap" where
  "recordDroppedReplacedAlertWindow alerts lane reason nowMs threshold windowMs =
     (let key = alert_key lane reason;
          w = next_alert_window (map_of alerts key) nowMs windowMs;
          alerts' = AList.update key w alerts
      in if win_count w < threshold then (None, alerts')
         else (Some \<lparr>alert_lane = lane, alert_reason = reason, alert_count = win_count w,
                     alert_windowMs = windowMs, alert_firstSeenAtMs = win_firstSeenAtMs w,
                     alert_lastSeenAtMs = win_lastSeenAtMs w\<rparr>, alerts'))"

section \<open>Outcome metrics\<close>

datatype NonceOutcomeMetricKind =
    MetricDropped | MetricReplaced | MetricReconciled | MetricReleased | MetricExpired
  | MetricBroadcastRejected

record NonceOutcomeMetricEvent =
  me_accountId :: "string option"
  me_kind :: NonceOutcomeMetricKind
  me_reason :: string

definition is_metric_char :: "char \<Rightarrow> bool" where
  "is_metric_char c \<longleftrightarrow>
     is_digit c \<or> (97 \<le> (of_char c :: nat) \<and> (of_char c :: nat) \<le> 122) \<or> [c] = ''_''"

text \<open>\<open>.replace(/[^a-z0-9_]+/g, '_')\<close>: the flag says that the last character was replaced.\<close>

fun replace_runs :: "bool \<Rightarrow> string \<Rightarrow> string" where
  "replace_runs inRun [] = []"
| "replace_runs inRun (c # cs) =
     (if is_metric_char c then c # replace_runs False cs
      else if inRun then replace_runs True cs else CHR ''_'' # replace_runs True cs)"

text \<open>\<open>.replace(/^_+|_+$/g, '')\<close>.\<close>

definition strip_underscores :: "string \<Rightarrow> string" where
  "strip_underscores s = rev (dropWhile (\<lambda>c. [c] = ''_'') (rev (dropWhile (\<lambda>c. [c] = ''_'') s)))"

definition normalizeMetricReason :: "string option \<Rightarrow> string \<Rightarrow> string" where
  "normalizeMetricReason value fallback =
     (let normalized = strip_underscores (replace_runs False (js_lower (trim_opt value)))
      in if normalized = [] then fallback else normalized)"

record NonceCoordinatorOutcomeMetrics =
  droppedCount :: nat
  replacedCount :: nat
  reconciledCount :: nat
  releasedCount :: nat
  expiredCount :: nat
  broadcastRejectedCount :: nat
  releaseReasons :: "(string, nat) jsmap"
  reconcileReasons :: "(string, nat) jsmap"
  expiryReasons :: "(string, nat) jsmap"

definition bump :: "string \<Rightarrow> (string, nat) jsmap \<Rightarrow> (string, nat) jsmap" where
  "bump k m = AList.update k ((case map_of m k of None \<Rightarrow> 0 | Some n \<Rightarrow> n) + 1) m"

definition empty_outcome_metrics :: NonceCoordinatorOutcomeMetrics where
  "empty_outcome_metrics =
     \<lparr>droppedCount = 0, replacedCount = 0, reconciledCount = 0, releasedCount = 0, expiredCount = 0,
      broadcastRejectedCount = 0, releaseReasons = [], reconcileReasons = [], expiryReasons = []\<rparr>"

definition count_outcome ::
  "NonceOutcomeMetricEvent \<Rightarrow> NonceCoordinatorOutcomeMetrics \<Rightarrow> NonceCoordinatorOutcomeMetrics" where
  "count_outcome event m =
     (case me_kind event of
        MetricDropped \<Rightarrow> m\<lparr>droppedCount := droppedCount m + 1\<rparr>
      | MetricReplaced \<Rightarrow> m\<lparr>replacedCount := replacedCount m + 1\<rparr>
      | MetricBroadcastRejected \<Rightarrow> m\<lparr>broadcastRejectedCount := broadcastRejectedCount m + 1\<rparr>
      | MetricReconciled \<Rightarrow> m\<lparr>reconciledCount := reconciledCount m + 1,
                             reconcileReasons := bump (me_reason event) (reconcileReasons m)\<rparr>
      | MetricReleased \<Rightarrow> m\<lparr>releasedCount := releasedCount m + 1,
                           releaseReasons := bump (me_reason event) (releaseReasons m)\<rparr>
      | MetricExpired \<Rightarrow> m\<lparr>expiredCount := expiredCount m + 1,
                          expiryReasons := bump (me_reason event) (expiryReasons m)\<rparr>)"

definition readOutcomeMetrics ::
  "NonceOutcomeMetricEvent list \<Rightarrow> string \<Rightarrow> NonceCoordinatorOutcomeMetrics" where
  "readOutcomeMetrics events accountId =
     fold (\<lambda>event m. if accountId \<noteq> [] \<and> me_accountId event \<noteq> Some accountId then m
                     else count_outcome event m) events empty_outcome_metrics"

section \<open>Diagnostics\<close>

record lane_entry =
  le_lane :: NonceLane
  le_leaseCount :: nat
  le_states :: "(NonceLeaseState, nat) jsmap"

definition bump_state :: "NonceLeaseState \<Rightarrow> (NonceLeaseState, nat) jsmap \<Rightarrow> (NonceLeaseState, nat) jsmap" where
  "bump_state k m = AList.update k ((case map_of m k of None \<Rightarrow> 0 | Some n \<Rightarrow> n) + 1) m"

record diagnostics_acc =
  da_leaseCount :: nat
  da_leasesByState :: "NonceLeaseState \<Rightarrow> nat"
  da_lanes :: "(string, lane_entry) jsmap"
  da_staleLaneKeys :: "string list"
  da_oldestLeaseAgeMs :: int
  da_oldestInFlightLeaseAgeMs :: int
  da_staleInFlightLeaseCount :: nat

definition createEmptyLeaseStateCounts :: "NonceLeaseState \<Rightarrow> nat" where
  "createEmptyLeaseStateCounts = (\<lambda>_. 0)"

definition empty_diagnostics_acc :: diagnostics_acc where
  "empty_diagnostics_acc =
     \<lparr>da_leaseCount = 0, da_leasesByState = createEmptyLeaseStateCounts, da_lanes = [], da_staleLaneKeys = [],
      da_oldestLeaseAgeMs = 0, da_oldestInFlightLeaseAgeMs = 0, da_staleInFlightLeaseCount = 0\<rparr>"

definition diagnose_lease :: "int \<Rightarrow> NonceLease \<Rightarrow> diagnostics_acc \<Rightarrow> diagnostics_acc" where
  "diagnose_lease nowMs lease acc =
     (let lkey = nonceLaneKey (lease_lane lease);
          st = lease_state lease;
          ageMs = max 0 (nowMs - reservedAtMs lease);
          inFlight = isInFlightNonceLeaseState st;
          stale = (inFlight \<and> expiresAtMs lease \<le> nowMs);
          existing = (case map_of (da_lanes acc) lkey of
             Some e \<Rightarrow> e | None \<Rightarrow> \<lparr>le_lane = lease_lane lease, le_leaseCount = 0, le_states = []\<rparr>)
      in \<lparr>da_leaseCount = da_leaseCount acc + 1,
          da_leasesByState = (da_leasesByState acc)(st := da_leasesByState acc st + 1),
          da_lanes = AList.update lkey
            (existing\<lparr>le_leaseCount := le_leaseCount existing + 1,
                      le_states := bump_state st (le_states existing)\<rparr>) (da_lanes acc),
          da_staleLaneKeys = (if stale then set_add lkey (da_staleLaneKeys acc) else da_staleLaneKeys acc),
          da_oldestLeaseAgeMs = max (da_oldestLeaseAgeMs acc) ageMs,
          da_oldestInFlightLeaseAgeMs =
            (if inFlight then max (da_oldestInFlightLeaseAgeMs acc) ageMs else da_oldestInFlightLeaseAgeMs acc),
          da_staleInFlightLeaseCount =
            (if stale then da_staleInFlightLeaseCount acc + 1 else da_staleInFlightLeaseCount acc)\<rparr>)"

definition diagnose_leases :: "NonceLease list \<Rightarrow> string \<Rightarrow> int \<Rightarrow> diagnostics_acc" where
  "diagnose_leases leases accountId nowMs =
     fold (\<lambda>lease acc. if accountId \<noteq> [] \<and> nonceLaneSubjectId (lease_lane lease) \<noteq> accountId then acc
                       else diagnose_lease nowMs lease acc) leases empty_diagnostics_acc"

record NonceCoordinatorAggregateMetrics =
  am_atMs :: int
  am_accountId :: "string option"
  am_leaseCount :: nat
  am_laneCount :: nat
  am_oldestLeaseAgeMs :: int
  am_oldestInFlightLeaseAgeMs :: int
  am_staleInFlightLeaseCount :: nat
  am_staleInFlightLaneCount :: nat
  am_reservedLeaseCount :: nat
  am_signedLeaseCount :: nat
  am_broadcastAcceptedLeaseCount :: nat
  am_droppedLeaseCount :: nat
  am_replacedLeaseCount :: nat
  am_reconciledLeaseCount :: nat
  am_releasedLeaseCount :: nat
  am_outcomes :: NonceCoordinatorOutcomeMetrics

record lane_diagnostics =
  ld_family :: string
  ld_accountId :: string
  ld_networkKey :: string
  ld_chain :: "(string \<times> int) option"
  ld_leaseCount :: nat
  ld_states :: "(NonceLeaseState, nat) jsmap"

record near_diagnostics =
  nd_activeAccountId :: "string option"
  nd_activePublicKey :: "string option"
  nd_hasContext :: bool
  nd_reservedNonceCount :: nat
  nd_lastReservedNonce :: "string option"

record NonceCoordinatorDiagnostics =
  dg_leaseCount :: nat
  dg_leasesByState :: "(NonceLeaseState \<times> nat) list"
  dg_laneCount :: nat
  dg_metrics :: NonceCoordinatorAggregateMetrics
  dg_coordinationWarnings :: "NonceCoordinatorDegradation list"
  dg_lanes :: "lane_diagnostics list"
  dg_near :: near_diagnostics

definition lane_entry_view :: "lane_entry \<Rightarrow> lane_diagnostics" where
  "lane_entry_view e =
     \<lparr>ld_family = lane_family (le_lane e), ld_accountId = nonceLaneSubjectId (le_lane e),
      ld_networkKey = nonceLaneNetworkKey (le_lane e),
      ld_chain = (case le_lane e of EvmLane l \<Rightarrow> Some (chain_target_kind (chainTarget l), chainId (chainTarget l))
                  | NearLane _ \<Rightarrow> None),
      ld_leaseCount = le_leaseCount e, ld_states = le_states e\<rparr>"

definition createNonceCoordinatorDiagnostics ::
  "string option \<Rightarrow> NonceLease list \<Rightarrow> NearNonceLaneState \<Rightarrow> NonceCoordinatorDegradation list \<Rightarrow>
   NonceOutcomeMetricEvent list \<Rightarrow> int \<Rightarrow> NonceCoordinatorDiagnostics" where
  "createNonceCoordinatorDiagnostics accountOpt leases near degradations events nowMs =
     (let accountId = trim_opt accountOpt;
          acc = diagnose_leases leases accountId nowMs;
          byState = da_leasesByState acc
      in \<lparr>dg_leaseCount = da_leaseCount acc,
          dg_leasesByState = map (\<lambda>s. (s, byState s)) NONCE_LEASE_STATES,
          dg_laneCount = length (da_lanes acc),
          dg_metrics =
            \<lparr>am_atMs = nowMs, am_accountId = opt_of_string accountId, am_leaseCount = da_leaseCount acc,
             am_laneCount = length (da_lanes acc), am_oldestLeaseAgeMs = da_oldestLeaseAgeMs acc,
             am_oldestInFlightLeaseAgeMs = da_oldestInFlightLeaseAgeMs acc,
             am_staleInFlightLeaseCount = da_staleInFlightLeaseCount acc,
             am_staleInFlightLaneCount = length (da_staleLaneKeys acc),
             am_reservedLeaseCount = byState Reserved, am_signedLeaseCount = byState Signed,
             am_broadcastAcceptedLeaseCount = byState BroadcastAccepted,
             am_droppedLeaseCount = byState Dropped, am_replacedLeaseCount = byState Replaced,
             am_reconciledLeaseCount = byState Reconciled, am_releasedLeaseCount = byState Released,
             am_outcomes = readOutcomeMetrics events accountId\<rparr>,
          dg_coordinationWarnings =
            filter (\<lambda>d. accountId = [] \<or> deg_accountId d = None \<or> deg_accountId d = Some accountId) degradations,
          dg_lanes = map (\<lambda>(k, e). lane_entry_view e) (da_lanes acc),
          dg_near =
            \<lparr>nd_activeAccountId = Option.bind (readNearActiveAccountId near) opt_of_string,
             nd_activePublicKey = Option.bind (readNearActivePublicKey near) opt_of_string,
             nd_hasContext = hasNearTransactionContext near,
             nd_reservedNonceCount = length (reservedNonces near),
             nd_lastReservedNonce = Option.bind (lastReservedNonce near) opt_of_string\<rparr>\<rparr>)"

section \<open>Trace events\<close>

record NonceCoordinatorTraceEvent =
  te_event :: NonceCoordinatorTraceEventName
  te_lease :: "NonceLease option"
  te_lane :: "NonceLane option"
  te_accountId :: "string option"
  te_previousState :: "NonceLeaseState option"
  te_nextState :: "NonceLeaseState option"
  te_reason :: "string option"
  te_txHash :: "string option"
  te_alert :: "NonceCoordinatorAlert option"
  te_metrics :: "NonceCoordinatorAggregateMetrics option"
  te_degradation :: "NonceCoordinatorDegradation option"

definition trace_event :: "NonceCoordinatorTraceEventName \<Rightarrow> NonceCoordinatorTraceEvent" where
  "trace_event name =
     \<lparr>te_event = name, te_lease = None, te_lane = None, te_accountId = None, te_previousState = None,
      te_nextState = None, te_reason = None, te_txHash = None, te_alert = None, te_metrics = None,
      te_degradation = None\<rparr>"

definition event_account :: "NonceCoordinatorTraceEvent \<Rightarrow> string option" where
  "event_account event =
     (let fromLease = (case te_lease event of Some l \<Rightarrow> nonceLaneSubjectId (lease_lane l) | None \<Rightarrow> []);
          fromLane = (case te_lane event of Some l \<Rightarrow> nonceLaneSubjectId l | None \<Rightarrow> [])
      in if fromLease \<noteq> [] then Some fromLease
         else if fromLane \<noteq> [] then Some fromLane
         else Option.bind (te_accountId event) opt_of_string)"

definition appendOutcomeMetricEvent ::
  "NonceOutcomeMetricEvent list \<Rightarrow> NonceCoordinatorTraceEvent \<Rightarrow> NonceOutcomeMetricEvent list" where
  "appendOutcomeMetricEvent sink event =
     (let push = (\<lambda>kind reason. sink @
            [\<lparr>me_accountId = event_account event, me_kind = kind, me_reason = reason\<rparr>])
      in case te_event event of
           LeaseDropped \<Rightarrow> push MetricDropped ''dropped''
         | LeaseReplaced \<Rightarrow> push MetricReplaced ''replaced''
         | LaneReconciled \<Rightarrow> push MetricReconciled (normalizeMetricReason (te_reason event) ''manual'')
         | LeaseReleased \<Rightarrow> push MetricReleased (normalizeMetricReason (te_reason event) ''unspecified'')
         | LeaseExpired \<Rightarrow> push MetricExpired (normalizeMetricReason (te_reason event) ''lease_ttl_elapsed'')
         | LeaseBroadcastRejected \<Rightarrow> push MetricBroadcastRejected ''broadcast_rejected''
         | _ \<Rightarrow> sink)"

section \<open>Lemmas\<close>

lemma fold_skip: "fold (\<lambda>x a. if P x then a else f x a) xs a = fold f (filter (\<lambda>x. \<not> P x) xs) a"
  by (induction xs arbitrary: a) auto

definition reason_total :: "(string, nat) jsmap \<Rightarrow> nat" where
  "reason_total m = sum_list (map snd m)"

lemma sum_update_bump:
  "jsmap_wf m \<Longrightarrow>
   sum_list (map snd (AList.update k ((case map_of m k of None \<Rightarrow> 0 | Some n \<Rightarrow> n) + 1) m)) =
   sum_list (map snd m) + (1 :: nat)"
proof (induction m)
  case (Cons p m)
  then show ?case
    by (cases p) (auto simp: map_of_eq_None_iff [THEN iffD2])
qed simp

lemma reason_total_bump: "jsmap_wf m \<Longrightarrow> reason_total (bump k m) = reason_total m + 1"
  unfolding reason_total_def bump_def by (rule sum_update_bump)

lemma jsmap_wf_bump: "jsmap_wf m \<Longrightarrow> jsmap_wf (bump k m)"
  by (simp add: bump_def)

definition kind_count :: "NonceOutcomeMetricKind \<Rightarrow> NonceOutcomeMetricEvent list \<Rightarrow> nat" where
  "kind_count k es = length (filter (\<lambda>e. me_kind e = k) es)"

definition metrics_wf :: "NonceCoordinatorOutcomeMetrics \<Rightarrow> bool" where
  "metrics_wf m \<longleftrightarrow> jsmap_wf (releaseReasons m) \<and> jsmap_wf (reconcileReasons m) \<and> jsmap_wf (expiryReasons m)"

lemma count_outcome_step:
  assumes "metrics_wf m"
  shows "metrics_wf (count_outcome e m)"
    "droppedCount (count_outcome e m) = droppedCount m + (if me_kind e = MetricDropped then 1 else 0)"
    "replacedCount (count_outcome e m) = replacedCount m + (if me_kind e = MetricReplaced then 1 else 0)"
    "broadcastRejectedCount (count_outcome e m) =
       broadcastRejectedCount m + (if me_kind e = MetricBroadcastRejected then 1 else 0)"
    "reconciledCount (count_outcome e m) = reconciledCount m + (if me_kind e = MetricReconciled then 1 else 0)"
    "releasedCount (count_outcome e m) = releasedCount m + (if me_kind e = MetricReleased then 1 else 0)"
    "expiredCount (count_outcome e m) = expiredCount m + (if me_kind e = MetricExpired then 1 else 0)"
    "reason_total (reconcileReasons (count_outcome e m)) =
       reason_total (reconcileReasons m) + (if me_kind e = MetricReconciled then 1 else 0)"
    "reason_total (releaseReasons (count_outcome e m)) =
       reason_total (releaseReasons m) + (if me_kind e = MetricReleased then 1 else 0)"
    "reason_total (expiryReasons (count_outcome e m)) =
       reason_total (expiryReasons m) + (if me_kind e = MetricExpired then 1 else 0)"
  using assms
  by (cases "me_kind e"; simp add: count_outcome_def metrics_wf_def jsmap_wf_bump reason_total_bump)+

lemma fold_count_outcome:
  assumes "metrics_wf m"
  shows "metrics_wf (fold count_outcome es m) \<and>
    droppedCount (fold count_outcome es m) = droppedCount m + kind_count MetricDropped es \<and>
    replacedCount (fold count_outcome es m) = replacedCount m + kind_count MetricReplaced es \<and>
    broadcastRejectedCount (fold count_outcome es m) =
      broadcastRejectedCount m + kind_count MetricBroadcastRejected es \<and>
    reconciledCount (fold count_outcome es m) = reconciledCount m + kind_count MetricReconciled es \<and>
    releasedCount (fold count_outcome es m) = releasedCount m + kind_count MetricReleased es \<and>
    expiredCount (fold count_outcome es m) = expiredCount m + kind_count MetricExpired es \<and>
    reason_total (reconcileReasons (fold count_outcome es m)) =
      reason_total (reconcileReasons m) + kind_count MetricReconciled es \<and>
    reason_total (releaseReasons (fold count_outcome es m)) =
      reason_total (releaseReasons m) + kind_count MetricReleased es \<and>
    reason_total (expiryReasons (fold count_outcome es m)) =
      reason_total (expiryReasons m) + kind_count MetricExpired es"
  using assms
proof (induction es arbitrary: m)
  case (Cons e es)
  note step = count_outcome_step [OF Cons.prems, of e]
  show ?case
    using Cons.IH [OF step(1)] by (simp add: step kind_count_def)
qed (simp add: kind_count_def)

text \<open>The fold over the leases, one accumulator field at a time.\<close>

lemma diagnose_lease_simps:
  "da_leaseCount (diagnose_lease t l a) = da_leaseCount a + 1"
  "da_leasesByState (diagnose_lease t l a) s = da_leasesByState a s + (if lease_state l = s then 1 else 0)"
  "da_staleInFlightLeaseCount (diagnose_lease t l a) = da_staleInFlightLeaseCount a +
     (if isInFlightNonceLeaseState (lease_state l) \<and> expiresAtMs l \<le> t then 1 else 0)"
  by (auto simp: diagnose_lease_def Let_def)

lemma fold_diagnose_counts:
  "da_leaseCount (fold (diagnose_lease t) ls a) = da_leaseCount a + length ls"
  "da_leasesByState (fold (diagnose_lease t) ls a) s =
     da_leasesByState a s + length (filter (\<lambda>l. lease_state l = s) ls)"
  "da_staleInFlightLeaseCount (fold (diagnose_lease t) ls a) = da_staleInFlightLeaseCount a +
     length (filter (\<lambda>l. isInFlightNonceLeaseState (lease_state l) \<and> expiresAtMs l \<le> t) ls)"
  by (induction ls arbitrary: a) (auto simp: diagnose_lease_simps)

definition lanes_total :: "(string, lane_entry) jsmap \<Rightarrow> nat" where
  "lanes_total m = sum_list (map (\<lambda>(k, e). le_leaseCount e) m)"

lemma lanes_total_update:
  "jsmap_wf m \<Longrightarrow>
   lanes_total (AList.update k e m) + (case map_of m k of None \<Rightarrow> 0 | Some d \<Rightarrow> le_leaseCount d) =
   lanes_total m + le_leaseCount e"
proof (induction m)
  case (Cons p m)
  then show ?case by (cases p) (auto simp: lanes_total_def map_of_eq_None_iff [THEN iffD2])
qed (simp add: lanes_total_def)

lemma diagnose_lease_lanes:
  assumes "jsmap_wf (da_lanes a)"
  shows "jsmap_wf (da_lanes (diagnose_lease t l a))"
    and "fst ` set (da_lanes (diagnose_lease t l a)) = insert (nonceLaneKey (lease_lane l)) (fst ` set (da_lanes a))"
    and "lanes_total (da_lanes (diagnose_lease t l a)) = lanes_total (da_lanes a) + 1"
proof -
  let ?k = "nonceLaneKey (lease_lane l)"
  obtain e where e: "da_lanes (diagnose_lease t l a) = AList.update ?k e (da_lanes a)"
    "le_leaseCount e = (case map_of (da_lanes a) ?k of None \<Rightarrow> 0 | Some d \<Rightarrow> le_leaseCount d) + 1"
    by (auto simp: diagnose_lease_def Let_def split: option.splits)
  show "jsmap_wf (da_lanes (diagnose_lease t l a))" using assms by (simp add: e)
  show "fst ` set (da_lanes (diagnose_lease t l a)) = insert ?k (fst ` set (da_lanes a))"
    using assms by (simp add: e dom_update)
  show "lanes_total (da_lanes (diagnose_lease t l a)) = lanes_total (da_lanes a) + 1"
    using lanes_total_update [OF assms, of ?k e] e by simp
qed

lemma fold_diagnose_lanes:
  assumes "jsmap_wf (da_lanes a)"
  shows "jsmap_wf (da_lanes (fold (diagnose_lease t) ls a)) \<and>
    fst ` set (da_lanes (fold (diagnose_lease t) ls a)) =
      fst ` set (da_lanes a) \<union> (\<lambda>l. nonceLaneKey (lease_lane l)) ` set ls \<and>
    lanes_total (da_lanes (fold (diagnose_lease t) ls a)) = lanes_total (da_lanes a) + length ls"
  using assms
proof (induction ls arbitrary: a)
  case (Cons l ls)
  note step = diagnose_lease_lanes [OF Cons.prems, of t l]
  show ?case using Cons.IH [OF step(1)] step(2,3) by auto
qed simp

section \<open>Properties\<close>

definition account_leases :: "string \<Rightarrow> NonceLease list \<Rightarrow> NonceLease list" where
  "account_leases acc leases = filter (\<lambda>l. acc = [] \<or> nonceLaneSubjectId (lease_lane l) = acc) leases"

lemma diagnose_leases_fold:
  "diagnose_leases leases acc t = fold (diagnose_lease t) (account_leases acc leases) empty_diagnostics_acc"
proof -
  have "(\<lambda>l. \<not> (acc \<noteq> [] \<and> nonceLaneSubjectId (lease_lane l) \<noteq> acc)) =
        (\<lambda>l. acc = [] \<or> nonceLaneSubjectId (lease_lane l) = acc)" by auto
  then show ?thesis by (simp only: diagnose_leases_def fold_skip account_leases_def)
qed

lemma sum_states: "sum_list (map (\<lambda>s. length (filter (\<lambda>l. lease_state l = s) ls)) NONCE_LEASE_STATES) = length ls"
proof (induction ls)
  case (Cons l ls)
  then show ?case by (cases "lease_state l") (simp_all add: NONCE_LEASE_STATES_def)
qed (simp add: NONCE_LEASE_STATES_def)

text \<open>
  The diagnostics account for every lease of the selected account exactly once: the lease count,
  the counts per state and the counts per lane all add up to the number of those leases, every count
  per state is exact, and there is one lane entry per distinct lane key.
\<close>

theorem diagnostics_count_every_lease:
  "let sel = account_leases (trim_opt acc) leases;
       d = createNonceCoordinatorDiagnostics acc leases near degs events t
   in dg_leaseCount d = length sel \<and>
      dg_leasesByState d = map (\<lambda>s. (s, length (filter (\<lambda>l. lease_state l = s) sel))) NONCE_LEASE_STATES \<and>
      sum_list (map snd (dg_leasesByState d)) = length sel \<and>
      sum_list (map ld_leaseCount (dg_lanes d)) = length sel \<and>
      dg_laneCount d = card ((\<lambda>l. nonceLaneKey (lease_lane l)) ` set sel)"
proof -
  define sel where "sel = account_leases (trim_opt acc) leases"
  let ?acc = "fold (diagnose_lease t) sel empty_diagnostics_acc"
  have empty: "da_lanes empty_diagnostics_acc = []" "da_leaseCount empty_diagnostics_acc = 0"
    "da_leasesByState empty_diagnostics_acc = (\<lambda>_. 0)"
    by (simp_all add: empty_diagnostics_acc_def createEmptyLeaseStateCounts_def)
  note lanes = fold_diagnose_lanes [of empty_diagnostics_acc t sel, unfolded empty, simplified]
  have laneCount: "length (da_lanes ?acc) = card ((\<lambda>l. nonceLaneKey (lease_lane l)) ` set sel)"
    using lanes by (metis distinct_card length_map list.set_map)
  have "sum_list (map ld_leaseCount (map (\<lambda>(k, e). lane_entry_view e) (da_lanes ?acc))) = lanes_total (da_lanes ?acc)"
    by (simp add: lanes_total_def lane_entry_view_def comp_def case_prod_unfold)
  with lanes have laneSum: "sum_list (map ld_leaseCount (map (\<lambda>(k, e). lane_entry_view e) (da_lanes ?acc))) = length sel"
    by (simp add: lanes_total_def)
  show ?thesis
    using laneCount laneSum sum_states [of sel]
    by (simp add: createNonceCoordinatorDiagnostics_def Let_def diagnose_leases_fold fold_diagnose_counts
        empty comp_def sel_def [symmetric])
qed

text \<open>
  Every outcome count of the metrics is the number of recorded events of that kind for the
  selected account, and the per-reason tallies of releases, reconciliations and expiries add up to
  those counts.
\<close>

theorem outcome_metrics_exact:
  "let sel = filter (\<lambda>e. acc = [] \<or> me_accountId e = Some acc) events; m = readOutcomeMetrics events acc
   in droppedCount m = kind_count MetricDropped sel \<and> replacedCount m = kind_count MetricReplaced sel \<and>
      broadcastRejectedCount m = kind_count MetricBroadcastRejected sel \<and>
      reconciledCount m = kind_count MetricReconciled sel \<and>
      releasedCount m = kind_count MetricReleased sel \<and> expiredCount m = kind_count MetricExpired sel \<and>
      reason_total (reconcileReasons m) = reconciledCount m \<and>
      reason_total (releaseReasons m) = releasedCount m \<and> reason_total (expiryReasons m) = expiredCount m"
proof -
  define sel where "sel = filter (\<lambda>e. acc = [] \<or> me_accountId e = Some acc) events"
  have "(\<lambda>e :: NonceOutcomeMetricEvent. \<not> (acc \<noteq> [] \<and> me_accountId e \<noteq> Some acc)) = (\<lambda>e. acc = [] \<or> me_accountId e = Some acc)" by auto
  then have "readOutcomeMetrics events acc = fold count_outcome sel empty_outcome_metrics"
    by (simp only: readOutcomeMetrics_def fold_skip sel_def)
  moreover have "metrics_wf empty_outcome_metrics" by (simp add: metrics_wf_def empty_outcome_metrics_def)
  ultimately show ?thesis
    using fold_count_outcome [of empty_outcome_metrics sel]
    by (simp add: Let_def empty_outcome_metrics_def reason_total_def sel_def [symmetric])
qed

text \<open>The alert map after reports at the given times, and the alert of the last one.\<close>

fun report_times ::
  "EvmNonceLane \<Rightarrow> EvmNonceOutcomeReason \<Rightarrow> int \<Rightarrow> int \<Rightarrow> (string, DroppedReplacedAlertWindow) jsmap \<Rightarrow> int list \<Rightarrow>
   NonceCoordinatorAlert option \<times> (string, DroppedReplacedAlertWindow) jsmap" where
  "report_times lane reason threshold windowMs alerts [] = (None, alerts)"
| "report_times lane reason threshold windowMs alerts (t # ts) =
     (case recordDroppedReplacedAlertWindow alerts lane reason t threshold windowMs of
        (a, alerts') \<Rightarrow> if ts = [] then (a, alerts')
                        else report_times lane reason threshold windowMs alerts' ts)"

lemma report_times_window:
  assumes "map_of alerts (alert_key lane reason) = Some w" and "\<forall>t \<in> set ts. t - win_firstSeenAtMs w \<le> windowMs"
    and "ts \<noteq> []"
  shows "fst (report_times lane reason threshold windowMs alerts ts) =
    (if win_count w + int (length ts) < threshold then None
     else Some \<lparr>alert_lane = lane, alert_reason = reason, alert_count = win_count w + int (length ts),
                alert_windowMs = windowMs, alert_firstSeenAtMs = win_firstSeenAtMs w, alert_lastSeenAtMs = last ts\<rparr>)"
  using assms
proof (induction ts arbitrary: alerts w)
  case (Cons t ts)
  define w' where "w' = \<lparr>win_count = win_count w + 1, win_firstSeenAtMs = win_firstSeenAtMs w, win_lastSeenAtMs = t\<rparr>"
  define alerts' where "alerts' = AList.update (alert_key lane reason) w' alerts"
  have step: "next_alert_window (map_of alerts (alert_key lane reason)) t windowMs = w'"
    using Cons.prems by (simp add: next_alert_window_def w'_def)
  have map': "map_of alerts' (alert_key lane reason) = Some w'"
    by (simp add: alerts'_def map_of_update_alist)
  show ?case
  proof (cases "ts = []")
    case True
    then show ?thesis
      by (simp add: recordDroppedReplacedAlertWindow_def step Let_def) (simp add: w'_def)
  next
    case False
    have IH: "fst (report_times lane reason threshold windowMs alerts' ts) =
      (if win_count w' + int (length ts) < threshold then None
       else Some \<lparr>alert_lane = lane, alert_reason = reason, alert_count = win_count w' + int (length ts),
                  alert_windowMs = windowMs, alert_firstSeenAtMs = win_firstSeenAtMs w', alert_lastSeenAtMs = last ts\<rparr>)"
      using Cons.prems False by (intro Cons.IH map') (simp_all add: w'_def)
    have "snd (recordDroppedReplacedAlertWindow alerts lane reason t threshold windowMs) = alerts'"
      by (simp add: recordDroppedReplacedAlertWindow_def step Let_def alerts'_def)
    with False IH show ?thesis by (simp add: split_beta) (simp add: w'_def algebra_simps)
  qed
qed simp

text \<open>
  When a lane had no dropped or replaced report of a kind yet, the last of a series of reports that
  all fall within the window of the first one raises an alert exactly when the series is at least as
  long as the threshold; the alert carries the length of the series and its first and last times.
\<close>

theorem alert_after_threshold:
  assumes "map_of alerts (alert_key lane reason) = None"
    and "\<forall>t \<in> set ts. t - t0 \<le> windowMs"
    and "2 \<le> threshold"
  shows "fst (report_times lane reason threshold windowMs alerts (t0 # ts)) =
    (if int (Suc (length ts)) < threshold then None
     else Some \<lparr>alert_lane = lane, alert_reason = reason, alert_count = int (Suc (length ts)),
                alert_windowMs = windowMs, alert_firstSeenAtMs = t0, alert_lastSeenAtMs = last (t0 # ts)\<rparr>)"
proof -
  define w where "w = \<lparr>win_count = 1, win_firstSeenAtMs = t0, win_lastSeenAtMs = t0\<rparr>"
  define alerts' where "alerts' = AList.update (alert_key lane reason) w alerts"
  have first: "recordDroppedReplacedAlertWindow alerts lane reason t0 threshold windowMs = (None, alerts')"
    using assms by (simp add: recordDroppedReplacedAlertWindow_def next_alert_window_def w_def alerts'_def Let_def)
  show ?thesis
  proof (cases "ts = []")
    case True
    with first assms(3) show ?thesis by simp
  next
    case False
    have "map_of alerts' (alert_key lane reason) = Some w" by (simp add: alerts'_def map_of_update_alist)
    from report_times_window [OF this, of ts windowMs threshold] False assms(2) show ?thesis
      by (simp add: first w_def)
  qed
qed

definition example_evm_lane :: EvmNonceLane where
  "example_evm_lane =
     \<lparr>chainTarget = EvmTarget 1 ''ethereum-mainnet'', subjectId = ''w'', sender = ''0xab'', nonceKey = None\<rparr>"

theorem alert_after_threshold_witness:
  "fst (report_times example_evm_lane OutcomeDropped 3 300000 [] [1000, 2000, 5000]) =
     Some \<lparr>alert_lane = example_evm_lane, alert_reason = OutcomeDropped, alert_count = 3,
           alert_windowMs = 300000, alert_firstSeenAtMs = 1000, alert_lastSeenAtMs = 5000\<rparr>"
  using alert_after_threshold [of "[]" example_evm_lane OutcomeDropped "[2000, 5000]" 1000 300000 3] by simp

end
