(* ===== verification/CoordinatorState.thy ===== *)
theory CoordinatorState
  imports NonceStore NonceDiagnostics
begin

text \<open>
  State, environment and internal operations of \<open>createNonceCoordinator\<close>
  (\<open>nonce/NonceCoordinator.ts\<close>, lines 171 to 760). The closure variables are the record \<open>coord\<close>; the
  dependencies are the record \<open>coord_env\<close>. Everything that comes from outside the program (the
  clock, random identifiers, RPC answers, the outcome of a store transaction or of a lock request) is
  a function of the number of outside interactions so far, which the state counts in \<open>tick\<close>; a
  theorem for every environment is therefore a theorem for every behaviour of the outside world. A
  lease object that the code mutates in place is the entry of its id in the lease map.

  An operation runs to its end before the next one starts. The lane locks give this to the operations
  of one lane; the lock itself is the subject of the theory \<open>LaneLocks\<close>.
\<close>

datatype EvmBroadcastTransactionStatus = TxStatusFinalized | TxStatusPending | TxStatusMissing

record near_client =
  nc_viewAccessKey :: "nat \<Rightarrow> string \<Rightarrow> string \<Rightarrow> string + jsval"
  nc_viewBlock :: "nat \<Rightarrow> string + jsval"
  nc_txStatus :: "nat \<Rightarrow> string \<Rightarrow> string \<Rightarrow> string + unit"

text \<open>\<open>deps.nonceLaneCoordinationStore\<close>: not given, \<open>null\<close>, or a store (with or without \<open>withLock\<close>).\<close>

datatype store_config = StoreUndefined | StoreNull | StorePresent (has_withLock: bool)

record coord_env =
  env_clock :: "nat \<Rightarrow> int"
  env_random :: "nat \<Rightarrow> string"
  env_storeFails :: "nat \<Rightarrow> bool"
  env_lock :: "nat \<Rightarrow> nonce_error option"
  env_fetchChainNonce :: "nat \<Rightarrow> ReserveNonceInput \<Rightarrow> string + int"
  env_fetchBroadcastTransactionStatus ::
    "nat \<Rightarrow> ReserveNonceInput \<Rightarrow> string \<Rightarrow> string + EvmBroadcastTransactionStatus"
  env_nearClient :: "near_client option"
  env_runtimeId :: string
  env_leaseTtlMs :: int
  env_signedLeaseTtlMs :: int
  env_evmRefreshTtlMs :: int
  env_evmStaleInFlightThresholdMs :: int
  env_alertThreshold :: int
  env_alertWindowMs :: int
  env_sameOriginLock :: bool
  env_store :: store_config

record coord =
  leases :: "(string, NonceLease) jsmap"
  evmStates :: "(string, EvmNonceLaneState) jsmap"
  evmAccountLaneKeys :: "(string, string list) jsmap"
  droppedReplacedAlerts :: "(string, DroppedReplacedAlertWindow) jsmap"
  outcomeMetricEvents :: "NonceOutcomeMetricEvent list"
  observedDegradations :: "(string, NonceCoordinatorDegradation) jsmap"
  nearState :: NearNonceLaneState
  storeRows :: lease_rows
  trace :: "NonceCoordinatorTraceEvent list"
  tick :: nat

type_synonym 'a cm = "(coord, nonce_error, 'a) jsm"

definition initial_coord :: "lease_rows \<Rightarrow> coord" where
  "initial_coord rows =
     \<lparr>leases = [], evmStates = [], evmAccountLaneKeys = [], droppedReplacedAlerts = [],
      outcomeMetricEvents = [], observedDegradations = [], nearState = createNearNonceLaneState,
      storeRows = rows, trace = [], tick = 0\<rparr>"

section \<open>Outside interactions\<close>

definition ask :: "(nat \<Rightarrow> 'a) \<Rightarrow> 'a cm" where
  "ask f = (\<lambda>s. (Inr (f (tick s)), s\<lparr>tick := Suc (tick s)\<rparr>))"

definition now :: "coord_env \<Rightarrow> int cm" where
  "now env = ask (env_clock env)"

definition ask_rpc :: "(nat \<Rightarrow> string + 'a) \<Rightarrow> 'a cm" where
  "ask_rpc f = jbind (ask f) (\<lambda>r. jlift (case r of Inl m \<Rightarrow> Inl (ExternalError m) | Inr x \<Rightarrow> Inr x))"

text \<open>A transaction on the durable store: it rejects, leaving the rows, or applies \<open>f\<close>.\<close>

definition store_tx :: "coord_env \<Rightarrow> (lease_rows \<Rightarrow> nonce_error + lease_rows) \<Rightarrow> unit cm" where
  "store_tx env f =
     jbind (ask (env_storeFails env)) (\<lambda>fails.
       if fails then jthrow StoreRejected
       else jbind (jget storeRows) (\<lambda>rows. jbind (jlift (f rows)) (\<lambda>rows'.
         jmod (\<lambda>s. s\<lparr>storeRows := rows'\<rparr>))))"

definition store_query :: "coord_env \<Rightarrow> (lease_rows \<Rightarrow> nonce_error + 'a) \<Rightarrow> 'a cm" where
  "store_query env f =
     jbind (ask (env_storeFails env)) (\<lambda>fails.
       if fails then jthrow StoreRejected else jbind (jget storeRows) (\<lambda>rows. jlift (f rows)))"

definition liftNear :: "'a near_m \<Rightarrow> 'a cm" where
  "liftNear m = (\<lambda>s. case m (nearState s) of (r, n) \<Rightarrow> (r, s\<lparr>nearState := n\<rparr>))"

section \<open>Tracing\<close>

definition emit :: "NonceCoordinatorTraceEvent \<Rightarrow> unit cm" where
  "emit event = jmod (\<lambda>s. s\<lparr>outcomeMetricEvents := appendOutcomeMetricEvent (outcomeMetricEvents s) event,
                            trace := trace s @ [event]\<rparr>)"

definition emitCoordinationDegradedOnce ::
  "NonceCoordinatorDegradationReason \<Rightarrow> degradation_input \<Rightarrow> unit cm" where
  "emitCoordinationDegradedOnce reason input =
     jbind (jget observedDegradations) (\<lambda>observed.
       case recordCoordinationDegradationOnce observed reason input of
         None \<Rightarrow> jret ()
       | Some (degradation, observed') \<Rightarrow>
           jseq (jmod (\<lambda>s. s\<lparr>observedDegradations := observed'\<rparr>))
             (emit ((trace_event CoordinationDegraded)\<lparr>te_lane := di_lane input,
                                                       te_degradation := Some degradation\<rparr>)))"

definition degradedStoreMissing :: "coord_env \<Rightarrow> degradation_input \<Rightarrow> unit cm" where
  "degradedStoreMissing env input =
     jwhen (env_store env \<noteq> StoreUndefined) (emitCoordinationDegradedOnce IndexedDBUnavailable input)"

section \<open>Leases\<close>

definition normalizeLeaseOperationInput ::
  "string \<Rightarrow> string \<Rightarrow> string \<Rightarrow> nonce_error + (string \<times> string \<times> string)" where
  "normalizeLeaseOperationInput lid opId opFp =
     (case normalizeSessionStatusRequiredString lid ''leaseId'' of Inl e \<Rightarrow> Inl e | Inr l \<Rightarrow>
      case normalizeSessionStatusRequiredString opId ''signingOperationId'' of Inl e \<Rightarrow> Inl e | Inr i \<Rightarrow>
      case normalizeSessionStatusRequiredString opFp ''signingOperationFingerprint'' of Inl e \<Rightarrow> Inl e | Inr f \<Rightarrow>
        Inr (l, i, f))"

definition lookupLease :: "string \<Rightarrow> NonceLease cm" where
  "lookupLease lid =
     jbind (jget (\<lambda>s. map_of (leases s) lid)) (\<lambda>l.
       case l of None \<Rightarrow> jthrow LeaseNotFound | Some lease \<Rightarrow> jret lease)"

definition readLease :: "string \<times> string \<times> string \<Rightarrow> NonceLease cm" where
  "readLease input =
     (case input of (lid, opId, opFp) \<Rightarrow>
        jbind (jlift (normalizeSessionStatusRequiredString lid ''leaseId'')) (\<lambda>l.
        jbind (lookupLease l) (\<lambda>lease.
        jseq (jlift (assertOperationMatches lease opId opFp)) (jret lease))))"

text \<open>
  \<open>args.reason ? ... : {}\<close> leaves an empty reason out of the event.
\<close>

definition transitionLease ::
  "string \<Rightarrow> NonceLeaseTransition \<Rightarrow> NonceCoordinatorTraceEventName \<Rightarrow> string option \<Rightarrow> string option \<Rightarrow>
   int option \<Rightarrow> unit cm" where
  "transitionLease lid transition event reason txHash newExpiry =
     jbind (lookupLease lid) (\<lambda>lease.
     jbind (jlift (reduceNonceLeaseState (lease_state lease) transition)) (\<lambda>nextState.
       let lease' = lease\<lparr>lease_state := nextState,
                          expiresAtMs := (case Option.bind newExpiry safe_int of
                             Some e \<Rightarrow> e | None \<Rightarrow> expiresAtMs lease)\<rparr>
       in jseq (jmod (\<lambda>s. s\<lparr>leases := AList.map_entry lid (\<lambda>_. lease') (leases s)\<rparr>))
            (emit ((trace_event event)\<lparr>te_lease := Some lease', te_previousState := Some (lease_state lease),
                     te_nextState := Some nextState, te_reason := Option.bind reason opt_of_string,
                     te_txHash := Option.bind txHash opt_of_string\<rparr>))))"

definition preflightLeaseTransition :: "NonceLease \<Rightarrow> NonceLeaseTransition \<Rightarrow> unit cm" where
  "preflightLeaseTransition lease transition =
     jseq (jlift (reduceNonceLeaseState (lease_state lease) transition)) (jret ())"

section \<open>Lane state access\<close>

definition getOrCreateEvmState :: "string \<Rightarrow> EvmNonceLaneState cm" where
  "getOrCreateEvmState lkey =
     (\<lambda>s. case getOrCreateEvmNonceLaneState (evmStates s) lkey of
        (st, states) \<Rightarrow> (Inr st, s\<lparr>evmStates := states\<rparr>))"

definition updateEvmState :: "string \<Rightarrow> (EvmNonceLaneState \<Rightarrow> EvmNonceLaneState) \<Rightarrow> unit cm" where
  "updateEvmState lkey f = jmod (\<lambda>s. s\<lparr>evmStates := AList.map_entry lkey f (evmStates s)\<rparr>)"

definition indexEvmLaneByAccount :: "EvmNonceLane \<Rightarrow> string \<Rightarrow> unit cm" where
  "indexEvmLaneByAccount lane lkey =
     jmod (\<lambda>s. s\<lparr>evmAccountLaneKeys := indexEvmNonceLaneBySubject (evmAccountLaneKeys s) lane lkey\<rparr>)"

section \<open>Durable records\<close>

definition readCoordinationLaneRecords ::
  "coord_env \<Rightarrow> string \<Rightarrow> NonceLane \<Rightarrow> ParsedNonceLaneCoordinationRecord list cm" where
  "readCoordinationLaneRecords env lkey lane =
     (case env_store env of
        StorePresent _ \<Rightarrow>
          jseq (jcatch (jbind (now env) (\<lambda>t. store_tx env (\<lambda>rows. Inr (pruneExpiredNonceLaneLeaseRecords t rows))))
                  (\<lambda>_. emitCoordinationDegradedOnce DurableStoreError (lane_degradation lane)))
            (jcatch (store_query env (\<lambda>rows. store_readLane rows lkey))
              (\<lambda>_. jseq (emitCoordinationDegradedOnce DurableStoreError (lane_degradation lane)) (jret [])))
      | _ \<Rightarrow> jseq (degradedStoreMissing env (lane_degradation lane)) (jret []))"

text \<open>The loop over the durable records; the clock is read once per candidate record.\<close>

fun addActiveRecords ::
  "coord_env \<Rightarrow> string \<Rightarrow> int option \<Rightarrow> string option \<Rightarrow> ParsedNonceLaneCoordinationRecord list \<Rightarrow> int list \<Rightarrow>
   int list cm" where
  "addActiveRecords env family chainNext excludeId [] active = jret active"
| "addActiveRecords env family chainNext excludeId (p # ps) active =
     (if record_family (parsed_record p) \<noteq> family then addActiveRecords env family chainNext excludeId ps active
      else if Option.bind excludeId opt_of_string = Some (rec_leaseId (parsed_record p))
      then addActiveRecords env family chainNext excludeId ps active
      else jbind (now env) (\<lambda>t.
        if \<not> isActiveCoordinationLeaseRecord (parsed_record p) t
        then addActiveRecords env family chainNext excludeId ps active
        else if (case chainNext of None \<Rightarrow> False | Some c \<Rightarrow> parsed_nonce p < c)
        then addActiveRecords env family chainNext excludeId ps active
        else addActiveRecords env family chainNext excludeId ps (set_add (parsed_nonce p) active)))"

fun localActiveEvm :: "string \<Rightarrow> int option \<Rightarrow> string option \<Rightarrow> NonceLease list \<Rightarrow> int list \<Rightarrow> int list" where
  "localActiveEvm lkey chainNext excludeId [] active = active"
| "localActiveEvm lkey chainNext excludeId (l # ls) active =
     localActiveEvm lkey chainNext excludeId ls
       (if Option.bind excludeId opt_of_string = Some (leaseId l) then active
        else case slot l of
          NearSlot _ _ \<Rightarrow> active
        | EvmSlot lane n \<Rightarrow>
            if nonceLaneKey (EvmLane lane) \<noteq> lkey then active
            else if \<not> isActiveEvmLeaseState (lease_state l) then active
            else if (case chainNext of None \<Rightarrow> False | Some c \<Rightarrow> n < c) then active
            else set_add n active)"

fun localActiveNear ::
  "string \<Rightarrow> int option \<Rightarrow> string option \<Rightarrow> NonceLease list \<Rightarrow> int list \<Rightarrow> nonce_error + int list" where
  "localActiveNear lkey chainNext excludeId [] active = Inr active"
| "localActiveNear lkey chainNext excludeId (l # ls) active =
     (if Option.bind excludeId opt_of_string = Some (leaseId l)
      then localActiveNear lkey chainNext excludeId ls active
      else case slot l of
        EvmSlot _ _ \<Rightarrow> localActiveNear lkey chainNext excludeId ls active
      | NearSlot lane s \<Rightarrow>
          if nonceLaneKey (NearLane lane) \<noteq> lkey then localActiveNear lkey chainNext excludeId ls active
          else if \<not> isActiveNearLeaseState (lease_state l) then localActiveNear lkey chainNext excludeId ls active
          else case bigint_of s of
            Inl e \<Rightarrow> Inl e
          | Inr n \<Rightarrow>
              if (case chainNext of None \<Rightarrow> False | Some c \<Rightarrow> n < c)
              then localActiveNear lkey chainNext excludeId ls active
              else localActiveNear lkey chainNext excludeId ls (set_add n active))"

definition readActiveEvmLeaseNonces ::
  "coord_env \<Rightarrow> string \<Rightarrow> int option \<Rightarrow> string option \<Rightarrow> EvmNonceLane \<Rightarrow> int list cm" where
  "readActiveEvmLeaseNonces env lkey chainNext excludeId lane =
     jbind (jget (\<lambda>s. localActiveEvm lkey chainNext excludeId (map snd (leases s)) [])) (\<lambda>active.
     jbind (readCoordinationLaneRecords env lkey (EvmLane lane)) (\<lambda>records.
       addActiveRecords env ''evm'' chainNext excludeId records active))"

definition readActiveNearLeaseNonces ::
  "coord_env \<Rightarrow> string \<Rightarrow> int option \<Rightarrow> string option \<Rightarrow> NearNonceLane \<Rightarrow> int list cm" where
  "readActiveNearLeaseNonces env lkey chainNext excludeId lane =
     jbind (jget (\<lambda>s. localActiveNear lkey chainNext excludeId (map snd (leases s)) [])) (\<lambda>r.
     jbind (jlift r) (\<lambda>active.
     jbind (readCoordinationLaneRecords env lkey (NearLane lane)) (\<lambda>records.
       addActiveRecords env ''near'' chainNext excludeId records active)))"

definition persistCoordinationRecord ::
  "coord_env \<Rightarrow> NonceLaneCoordinationRecord \<Rightarrow> NonceLane \<Rightarrow> unit cm" where
  "persistCoordinationRecord env r lane =
     jcatch (store_tx env (store_upsert r))
       (\<lambda>_. emitCoordinationDegradedOnce DurableStoreError (lane_degradation lane))"

definition buildCoordinationRecord ::
  "NonceLease \<Rightarrow> NonceDurableLeaseLifecycle \<Rightarrow> int \<Rightarrow> int \<Rightarrow> string \<Rightarrow> nonce_error + NonceLaneCoordinationRecord" where
  "buildCoordinationRecord lease lc exp upd runtime =
     (case slot lease of
        EvmSlot lane n \<Rightarrow> buildEvmCoordinationRecord lease lane n lc exp upd runtime
      | NearSlot lane s \<Rightarrow> buildNearCoordinationRecord lease lane s lc exp upd runtime)"

definition persistCoordinationLease ::
  "coord_env \<Rightarrow> NonceLease \<Rightarrow> NonceDurableLeaseLifecycle \<Rightarrow> int \<Rightarrow> unit cm" where
  "persistCoordinationLease env lease lc exp =
     (case env_store env of
        StorePresent _ \<Rightarrow>
          jbind (now env) (\<lambda>t.
          jbind (jlift (buildCoordinationRecord lease lc exp t (env_runtimeId env))) (\<lambda>r.
            persistCoordinationRecord env r (lease_lane lease)))
      | _ \<Rightarrow> degradedStoreMissing env (lane_degradation (lease_lane lease)))"

definition removeCoordinationLease :: "coord_env \<Rightarrow> NonceLease \<Rightarrow> unit cm" where
  "removeCoordinationLease env lease =
     (case env_store env of
        StorePresent _ \<Rightarrow>
          jcatch (store_tx env (\<lambda>rows. Inr (store_remove (nonceLaneKey (lease_lane lease)) (leaseId lease) rows)))
            (\<lambda>_. emitCoordinationDegradedOnce DurableStoreError (lane_degradation (lease_lane lease)))
      | _ \<Rightarrow> jret ())"

section \<open>EVM lanes under the lane lock\<close>

definition refreshEvmLaneFromChainLocked :: "coord_env \<Rightarrow> EvmNonceLane \<Rightarrow> int cm" where
  "refreshEvmLaneFromChainLocked env lane =
     (let lkey = nonceLaneKey (EvmLane lane) in
      jbind (now env) (\<lambda>nowMs.
      jbind (ask_rpc (\<lambda>k. env_fetchChainNonce env k (evmLaneToReserveNonceInput lane))) (\<lambda>raw.
        let chainNext = (if raw \<ge> 0 then raw else 0) in
        jbind (readActiveEvmLeaseNonces env lkey (Some chainNext) None lane) (\<lambda>active.
        jseq (updateEvmState lkey (\<lambda>st. refreshEvmLaneFromChain st nowMs chainNext active))
          (jret chainNext)))))"

definition shouldRefreshEvmLaneLocked :: "coord_env \<Rightarrow> string \<Rightarrow> EvmNonceLaneState \<Rightarrow> EvmNonceLane \<Rightarrow> bool cm" where
  "shouldRefreshEvmLaneLocked env lkey st lane =
     jbind (now env) (\<lambda>nowMs.
       case shouldRefreshEvmLane st nowMs (env_evmRefreshTtlMs env) of
         Inl b \<Rightarrow> jret b
       | Inr decide \<Rightarrow>
           jbind (readActiveEvmLeaseNonces env lkey None None lane) (\<lambda>active. jret (decide (length active))))"

definition releaseEvmNonceReservation :: "coord_env \<Rightarrow> NonceLease \<Rightarrow> EvmNonceLane \<Rightarrow> int \<Rightarrow> unit cm" where
  "releaseEvmNonceReservation env lease lane nonce =
     (let lkey = nonceLaneKey (EvmLane lane) in
      jbind (jget (\<lambda>s. map_of (evmStates s) lkey)) (\<lambda>state.
      jseq (removeCoordinationLease env lease)
        (case state of
           None \<Rightarrow> jret ()
         | Some _ \<Rightarrow>
             jbind (readActiveEvmLeaseNonces env lkey None (Some (leaseId lease)) lane) (\<lambda>others.
               updateEvmState lkey (\<lambda>st. releaseEvmNonceReservationState st nonce others)))))"

definition markEvmBroadcastAccepted :: "coord_env \<Rightarrow> NonceLease \<Rightarrow> EvmNonceLane \<Rightarrow> int \<Rightarrow> string \<Rightarrow> unit cm" where
  "markEvmBroadcastAccepted env lease lane nonce txHash =
     (let lkey = nonceLaneKey (EvmLane lane) in
      jbind (getOrCreateEvmState lkey) (\<lambda>st.
      jbind (now env) (\<lambda>nowMs.
      jbind (jlift (markEvmBroadcastAcceptedState st nonce txHash nowMs)) (\<lambda>(hash, _).
      jseq (updateEvmState lkey (\<lambda>st.
             case markEvmBroadcastAcceptedState st nonce txHash nowMs of Inl _ \<Rightarrow> st | Inr (_, st') \<Rightarrow> st'))
        (persistCoordinationLease env lease (DurableBroadcastAccepted hash)
           (nowMs + env_evmStaleInFlightThresholdMs env))))))"

definition markEvmFinalized :: "coord_env \<Rightarrow> NonceLease \<Rightarrow> EvmNonceLane \<Rightarrow> int \<Rightarrow> unit cm" where
  "markEvmFinalized env lease lane nonce =
     (let lkey = nonceLaneKey (EvmLane lane) in
      jseq (getOrCreateEvmState lkey)
      (jbind (now env) (\<lambda>nowMs.
       jseq (updateEvmState lkey (\<lambda>st. markEvmFinalizedState st nonce nowMs))
         (removeCoordinationLease env lease))))"

definition markEvmDroppedOrReplaced ::
  "coord_env \<Rightarrow> NonceLease \<Rightarrow> EvmNonceLane \<Rightarrow> int \<Rightarrow> EvmNonceOutcomeReason \<Rightarrow> string option \<Rightarrow> unit cm" where
  "markEvmDroppedOrReplaced env lease lane nonce reason txHash =
     (let lkey = nonceLaneKey (EvmLane lane) in
      jseq (getOrCreateEvmState lkey)
      (jbind (now env) (\<lambda>nowMs.
       jseq (updateEvmState lkey (\<lambda>st. markEvmDroppedOrReplacedState st nonce reason txHash nowMs))
         (removeCoordinationLease env lease))))"

definition reconcileEvmLaneLocked :: "coord_env \<Rightarrow> EvmNonceLane \<Rightarrow> NonceLaneStatus cm" where
  "reconcileEvmLaneLocked env lane =
     (let lkey = nonceLaneKey (EvmLane lane) in
      jseq (getOrCreateEvmState lkey)
      (jseq (indexEvmLaneByAccount lane lkey)
      (jbind (now env) (\<lambda>nowMs.
       jbind (refreshEvmLaneFromChainLocked env lane) (\<lambda>chainNext.
       jbind (getOrCreateEvmState lkey) (\<lambda>st.
         jret (reconcileEvmLaneState st chainNext nowMs (env_evmStaleInFlightThresholdMs env))))))))"

definition recordDroppedReplacedAlert :: "coord_env \<Rightarrow> EvmNonceLane \<Rightarrow> EvmNonceOutcomeReason \<Rightarrow> unit cm" where
  "recordDroppedReplacedAlert env lane reason =
     jbind (now env) (\<lambda>nowMs.
     jbind (jget droppedReplacedAlerts) (\<lambda>alerts.
       case recordDroppedReplacedAlertWindow alerts lane reason nowMs (env_alertThreshold env)
              (env_alertWindowMs env) of
         (alert, alerts') \<Rightarrow>
           jseq (jmod (\<lambda>s. s\<lparr>droppedReplacedAlerts := alerts'\<rparr>))
             (case alert of None \<Rightarrow> jret ()
              | Some a \<Rightarrow> emit ((trace_event LaneAlert)\<lparr>te_lane := Some (EvmLane lane), te_alert := Some a\<rparr>))))"

section \<open>The NEAR lane\<close>

definition requireNearClient :: "coord_env \<Rightarrow> near_client option \<Rightarrow> near_client cm" where
  "requireNearClient env given =
     (case given of Some c \<Rightarrow> jret c
      | None \<Rightarrow> (case env_nearClient env of Some c \<Rightarrow> jret c | None \<Rightarrow> jthrow NearClientMissing))"

definition initializeNearAccessKey :: "string \<Rightarrow> string \<Rightarrow> string \<Rightarrow> unit cm" where
  "initializeNearAccessKey w a k = liftNear (initializeNearAccessKeyState w a k)"

definition reserveNearNonces :: "coord_env \<Rightarrow> NearNonceLane \<Rightarrow> int \<Rightarrow> string list cm" where
  "reserveNearNonces env lane count =
     jbind (jget (\<lambda>s. requireNearTransactionContext (nearState s))) (\<lambda>r.
     jbind (jlift r) (\<lambda>ctx.
       if max 0 count \<le> 0 then jret []
       else jbind (readActiveNearLeaseNonces env (nonceLaneKey (NearLane lane)) None None lane) (\<lambda>active.
         liftNear (reserveNearNoncesFromState ctx count active))))"

definition releaseNearNonce :: "string \<Rightarrow> unit cm" where
  "releaseNearNonce nonce = jmod (\<lambda>s. s\<lparr>nearState := releaseNearNonceFromState nonce (nearState s)\<rparr>)"

text \<open>The access-key answer for the active subject, as the NEAR lane functions request it.\<close>

definition viewActiveAccessKey :: "near_client \<Rightarrow> (string + jsval) cm" where
  "viewActiveAccessKey client =
     jbind (jget (\<lambda>s. readNearAccessKeySubject (nearState s))) (\<lambda>subject.
       ask (\<lambda>k. case subject of
         None \<Rightarrow> Inl []
       | Some sub \<Rightarrow> nc_viewAccessKey client k (subj_nearAccountId sub) (subj_publicKey sub)))"

definition fetchNearFreshData :: "coord_env \<Rightarrow> near_client \<Rightarrow> bool \<Rightarrow> TransactionContext cm" where
  "fetchNearFreshData env client force =
     jbind (now env) (\<lambda>startMs.
     jbind (viewActiveAccessKey client) (\<lambda>accessAnswer.
     jbind (ask (nc_viewBlock client)) (\<lambda>blockAnswer.
     jbind (now env) (\<lambda>doneMs.
       liftNear (fetchNearFreshDataForState force startMs doneMs 5000 20000 accessAnswer blockAnswer)))))"

definition fetchNearContextForLane ::
  "coord_env \<Rightarrow> NearNonceLane \<Rightarrow> near_client option \<Rightarrow> bool \<Rightarrow> TransactionContext cm" where
  "fetchNearContextForLane env lane given force =
     jseq (initializeNearAccessKey (walletId lane) (nearAccountId lane) (publicKey lane))
       (jbind (requireNearClient env given) (\<lambda>client. fetchNearFreshData env client force))"

definition updateNearNonceFromBlockchain :: "coord_env \<Rightarrow> near_client \<Rightarrow> string \<Rightarrow> unit cm" where
  "updateNearNonceFromBlockchain env client actualNonce =
     jbind (viewActiveAccessKey client) (\<lambda>answer.
     jbind (now env) (\<lambda>nowMs.
       liftNear (updateNearNonceFromBlockchainState answer actualNonce nowMs)))"

definition refreshNearNonceAfterBroadcastRejected :: "coord_env \<Rightarrow> near_client \<Rightarrow> unit cm" where
  "refreshNearNonceAfterBroadcastRejected env client =
     jbind (viewActiveAccessKey client) (\<lambda>answer.
     jbind (now env) (\<lambda>nowMs. liftNear (refreshNearNonceAfterBroadcastRejectedState answer nowMs)))"

text \<open>One round of the loop of \<open>reconcileNearLaneState\<close>: a lease whose nonce stays unresolved is returned.\<close>

definition settleNearLease ::
  "coord_env \<Rightarrow> NearNonceLane \<Rightarrow> near_client \<Rightarrow> int \<Rightarrow> NonceLease \<Rightarrow> int option cm" where
  "settleNearLease env lane client chainN lease =
     (let nonceStr = (case slot lease of NearSlot _ s \<Rightarrow> s | EvmSlot _ n \<Rightarrow> int_str n) in
      jbind (jlift (bigint_of nonceStr)) (\<lambda>leaseNonce.
      jbind (jget (\<lambda>s. map_of (nearInFlight (nearState s)) (int_str leaseNonce))) (\<lambda>inFlight.
        if leaseNonce > chainN then jret (if inFlight \<noteq> None then Some leaseNonce else None)
        else case Option.bind inFlight (\<lambda>r. opt_of_string (nflight_txHash r)) of
          None \<Rightarrow> jret None
        | Some txHash \<Rightarrow>
            jbind (ask (\<lambda>k. nc_txStatus client k txHash (nearAccountId lane))) (\<lambda>answer.
              let finish = (\<lambda>transition event reason.
                jseq (transitionLease (leaseId lease) transition event (Some reason) (Some txHash) None)
                (jseq (removeCoordinationLease env lease)
                (jseq (jmod (\<lambda>s. s\<lparr>nearState := releaseNearNonceFromState (int_str leaseNonce)
                   ((nearState s)\<lparr>nearInFlight := AList.delete (int_str leaseNonce) (nearInFlight (nearState s))\<rparr>)\<rparr>))
                  (jret None))))
              in case readNearTxOutcome answer of
                   TxFinalized \<Rightarrow> finish TFinalize LeaseFinalized ''near_tx_status_finalized''
                 | TxMissing \<Rightarrow> finish TDrop LeaseDropped ''near_nonce_advanced_hash_missing''
                 | TxUnknown \<Rightarrow> jret (Some leaseNonce)))))"

definition reconcileNearLaneLocked :: "coord_env \<Rightarrow> NearNonceLane \<Rightarrow> NonceLaneStatus cm" where
  "reconcileNearLaneLocked env lane =
     (let lkey = nonceLaneKey (NearLane lane) in
      jbind (requireNearClient env None) (\<lambda>client.
      jbind (jget (\<lambda>s. filter (\<lambda>l. (case slot l of NearSlot _ _ \<Rightarrow> True | EvmSlot _ _ \<Rightarrow> False) \<and>
                nonceLaneKey (lease_lane l) = lkey \<and> lease_state l = BroadcastAccepted)
              (map snd (leases s)))) (\<lambda>activeLeases.
      jseq (initializeNearAccessKey (walletId lane) (nearAccountId lane) (publicKey lane))
      (jbind (ask (\<lambda>k. nc_viewAccessKey client k (nearAccountId lane) (publicKey lane))) (\<lambda>answer.
       jbind (jlift (accessKeyFromAnswer (nearAccountId lane) answer)) (\<lambda>accessKey.
       jbind (jmapm (settleNearLease env lane client (ak_nonce accessKey)) activeLeases) (\<lambda>unresolved.
       jbind (now env) (\<lambda>nowMs.
       jseq (liftNear (finishNearReconcile lane accessKey nowMs))
         (jret \<lparr>chainNextNonce = ak_nonce accessKey + 1,
                unresolvedInFlightNonces = sort (List.map_filter id unresolved),
                blocked = False, blockedNonce = None\<rparr>)))))))))"

definition releaseBackendReservation :: "coord_env \<Rightarrow> NonceLease \<Rightarrow> unit cm" where
  "releaseBackendReservation env lease =
     (case slot lease of
        EvmSlot lane n \<Rightarrow> releaseEvmNonceReservation env lease lane n
      | NearSlot lane s \<Rightarrow> jseq (releaseNearNonce s) (removeCoordinationLease env lease))"

definition reconcileAfterSignedLeaseExpiry :: "coord_env \<Rightarrow> NonceLease \<Rightarrow> unit cm" where
  "reconcileAfterSignedLeaseExpiry env lease =
     jseq (releaseBackendReservation env lease)
       (case slot lease of
          NearSlot _ _ \<Rightarrow> jret ()
        | EvmSlot lane _ \<Rightarrow>
            jseq (reconcileEvmLaneLocked env lane)
              (emit ((trace_event LaneReconciled)\<lparr>te_lane := Some (EvmLane lane)\<rparr>)))"

end
