(* ===== verification/EvmNonceBackend.thy ===== *)
theory EvmNonceBackend
  imports CoordinatorState
begin

text \<open>
  The EVM nonce backend (\<open>rpcClients/evm/nonceBackend.ts\<close>): snapshots of reservations, the choice of the RPC
  endpoint for a lane, and the two queries the coordinator asks. \<open>client.request\<close> of
  \<open>rpcClients/evm/EvmClient.ts\<close>, which talks to the network, is the argument \<open>request\<close>: URL, method and
  parameters to an error message or a result.
\<close>

section \<open>Errors and coercions\<close>

datatype backend_error =
    InvalidSnapshot string
  | InvalidAddress string
  | InvalidTxHash
  | InvalidBigintValue string
  | InvalidQuantity string
  | NetworkKeyRequired
  | NoSupportedChain
  | RouteIncompatible
  | ConfigChainIdMissing
  | ChainIdMismatch int int
  | AmbiguousNetworkKey
  | AmbiguousChainId
  | ChainIdIncompatible
  | RpcUrlUnresolved
  | RpcUrlMissing string
  | IdentityError nonce_error
  | RpcError string

definition normalizeAddress :: "string \<Rightarrow> string \<Rightarrow> backend_error + string" where
  "normalizeAddress value label =
     (let normalized = js_lower (js_trim value)
      in if is_0x_hex 40 normalized then Inr normalized else Inl (InvalidAddress label))"

definition normalizeSender :: "string \<Rightarrow> backend_error + string" where
  "normalizeSender value = normalizeAddress value ''sender''"

definition normalizeTxHash :: "string \<Rightarrow> backend_error + string" where
  "normalizeTxHash value =
     (let normalized = js_lower (js_trim value)
      in if is_0x_hex 64 normalized then Inr normalized else Inl InvalidTxHash)"

text \<open>
  \<open>normalizeBigint\<close> on the types it is called with: an optional \<open>bigint\<close> and a string. The two messages
  the code writes for a negative and for an unreadable value end as one, because the throw is inside the
  \<open>try\<close>.
\<close>

definition normalizeBigintValue :: "int option \<Rightarrow> string \<Rightarrow> backend_error + int" where
  "normalizeBigintValue value label =
     (case value of Some n \<Rightarrow> if n < 0 then Inl (InvalidBigintValue label) else Inr n
      | None \<Rightarrow> Inl (InvalidBigintValue label))"

definition normalizeBigintString :: "string \<Rightarrow> string \<Rightarrow> backend_error + int" where
  "normalizeBigintString value label = normalizeBigintValue (js_BigInt value) label"

definition snapshotRequiredString :: "string option \<Rightarrow> string \<Rightarrow> backend_error + string" where
  "snapshotRequiredString value label =
     (let normalized = js_trim (case value of None \<Rightarrow> [] | Some s \<Rightarrow> s)
      in if normalized = [] then Inl (InvalidSnapshot label) else Inr normalized)"

definition normalizeOptionalSafeInteger :: "int option \<Rightarrow> int option" where
  "normalizeOptionalSafeInteger value = Option.bind value safe_int"

text \<open>\<open>/^0x[0-9a-fA-F]+$/\<close>.\<close>

definition is_hex_quantity :: "string \<Rightarrow> bool" where
  "is_hex_quantity s \<longleftrightarrow> take 2 s = ''0x'' \<and> drop 2 s \<noteq> [] \<and> list_all (\<lambda>c. radix_digit 16 c \<noteq> None) (drop 2 s)"

definition parseRpcHexQuantity :: "jsval \<Rightarrow> string \<Rightarrow> backend_error + int" where
  "parseRpcHexQuantity value meth =
     (let raw = js_trim (js_String_or_empty value)
      in if \<not> is_hex_quantity raw then Inl (InvalidQuantity meth)
         else case js_BigInt raw of Some n \<Rightarrow> Inr n | None \<Rightarrow> Inl (InvalidQuantity meth))"

abbreviation ebind :: "'e + 'a \<Rightarrow> ('a \<Rightarrow> 'e + 'b) \<Rightarrow> 'e + 'b" where
  "ebind r f \<equiv> (case r of Inl e \<Rightarrow> Inl e | Inr x \<Rightarrow> f x)"

definition identity :: "nonce_error + 'a \<Rightarrow> backend_error + 'a" where
  "identity r = map_sum IdentityError id r"

section \<open>Snapshots\<close>

record ManagedNonceReservationSnapshot =
  sn_chainTarget :: chain_target
  sn_subjectId :: string
  sn_sender :: string
  sn_nonceKey :: "string option"
  sn_nonce :: string
  sn_leaseId :: string
  sn_operationId :: string
  sn_operationFingerprint :: string
  sn_reservedAtMs :: "int option"
  sn_expiresAtMs :: "int option"

definition toManagedNonceReservationSnapshot ::
  "ManagedNonceReservation \<Rightarrow> backend_error + ManagedNonceReservationSnapshot" where
  "toManagedNonceReservationSnapshot input =
     ebind (identity (toWalletId (JStr (in_subjectId input)))) (\<lambda>subject.
     ebind (snapshotRequiredString (Some (mr_leaseId input)) ''leaseId'') (\<lambda>lease.
     ebind (snapshotRequiredString (Some (mr_operationId input)) ''operationId'') (\<lambda>opId.
     ebind (snapshotRequiredString (Some (mr_operationFingerprint input)) ''operationFingerprint'') (\<lambda>opFp.
     ebind (normalizeSender (in_sender input)) (\<lambda>from.
     ebind (normalizeBigintValue (Some (mr_nonce input)) ''nonce'') (\<lambda>n.
     ebind (case in_nonceKey input of None \<Rightarrow> Inr None
            | Some k \<Rightarrow> map_sum id (\<lambda>v. Some (int_str v)) (normalizeBigintValue (Some k) ''nonceKey'')) (\<lambda>key.
       Inr \<lparr>sn_chainTarget = in_chainTarget input, sn_subjectId = subject, sn_sender = from, sn_nonceKey = key,
            sn_nonce = int_str n, sn_leaseId = lease, sn_operationId = opId, sn_operationFingerprint = opFp,
            sn_reservedAtMs = Option.bind (mr_reservedAtMs input) safe_int,
            sn_expiresAtMs = Option.bind (mr_expiresAtMs input) safe_int\<rparr>)))))))"

text \<open>
  What \<open>fromManagedNonceReservationSnapshot\<close> accepts: a snapshot, or an older one that names the chain by
  family, network key and chain id and the subject by wallet id.
\<close>

record SnapshotInput =
  si_chainTarget :: "chain_target option"
  si_subjectId :: "string option"
  si_sender :: string
  si_nonceKey :: "string option"
  si_nonce :: string
  si_leaseId :: "string option"
  si_operationId :: "string option"
  si_operationFingerprint :: "string option"
  si_reservedAtMs :: "int option"
  si_expiresAtMs :: "int option"
  si_chain :: "BoundaryEcdsaChainFamily option"
  si_networkKey :: "string option"
  si_chainId :: "int option"
  si_walletId :: "string option"

definition snapshot_input :: "ManagedNonceReservationSnapshot \<Rightarrow> SnapshotInput" where
  "snapshot_input sn =
     \<lparr>si_chainTarget = Some (sn_chainTarget sn), si_subjectId = Some (sn_subjectId sn), si_sender = sn_sender sn,
      si_nonceKey = sn_nonceKey sn, si_nonce = sn_nonce sn, si_leaseId = Some (sn_leaseId sn),
      si_operationId = Some (sn_operationId sn), si_operationFingerprint = Some (sn_operationFingerprint sn),
      si_reservedAtMs = sn_reservedAtMs sn, si_expiresAtMs = sn_expiresAtMs sn,
      si_chain = None, si_networkKey = None, si_chainId = None, si_walletId = None\<rparr>"

definition parseManagedNonceSnapshotChainTarget :: "SnapshotInput \<Rightarrow> backend_error + chain_target" where
  "parseManagedNonceSnapshotChainTarget sn =
     (case si_chainTarget sn of
        Some t \<Rightarrow> identity (thresholdEcdsaChainTargetFromRequest (chain_target_object t))
      | None \<Rightarrow>
          (case si_chain sn of
             None \<Rightarrow> Inl (InvalidSnapshot ''chain'')
           | Some chain \<Rightarrow>
               ebind (snapshotRequiredString (si_networkKey sn) ''networkKey'') (\<lambda>netKey.
               (case si_chainId sn of
                  None \<Rightarrow> Inl (InvalidSnapshot ''chainId'')
                | Some c \<Rightarrow>
                    if \<not> safe_integer c \<or> c \<le> 0 then Inl (InvalidSnapshot ''chainId'')
                    else identity (thresholdEcdsaChainTargetFromChainFamily chain (JNum c) (JStr netKey))))))"

definition fromManagedNonceReservationSnapshot :: "SnapshotInput \<Rightarrow> backend_error + ManagedNonceReservation" where
  "fromManagedNonceReservationSnapshot sn =
     ebind (parseManagedNonceSnapshotChainTarget sn) (\<lambda>target.
     ebind (identity (toWalletId (js_nullish (opt_js JStr (si_subjectId sn)) (opt_js JStr (si_walletId sn))))) (\<lambda>subject.
     ebind (normalizeSender (si_sender sn)) (\<lambda>from.
     ebind (normalizeBigintString (si_nonce sn) ''nonce'') (\<lambda>n.
     ebind (case si_nonceKey sn of None \<Rightarrow> Inr None | Some k \<Rightarrow> map_sum id Some (normalizeBigintString k ''nonceKey'')) (\<lambda>key.
     ebind (snapshotRequiredString (si_leaseId sn) ''leaseId'') (\<lambda>lease.
     ebind (snapshotRequiredString (si_operationId sn) ''operationId'') (\<lambda>opId.
     ebind (snapshotRequiredString (si_operationFingerprint sn) ''operationFingerprint'') (\<lambda>opFp.
       Inr \<lparr>in_chainTarget = target, in_subjectId = subject, in_sender = from, in_nonceKey = key,
            mr_nonce = n, mr_leaseId = lease, mr_operationId = opId, mr_operationFingerprint = opFp,
            mr_reservedAtMs = normalizeOptionalSafeInteger (si_reservedAtMs sn),
            mr_expiresAtMs = normalizeOptionalSafeInteger (si_expiresAtMs sn)\<rparr>))))))))"

definition reserveNonceInputFromBoundary ::
  "BoundaryEcdsaChainFamily \<Rightarrow> string \<Rightarrow> int \<Rightarrow> string \<Rightarrow> int option \<Rightarrow> string \<Rightarrow> backend_error + ReserveNonceInput" where
  "reserveNonceInputFromBoundary chain netKey cid from key wid =
     ebind (identity (thresholdEcdsaChainTargetFromChainFamily chain (JNum cid) (JStr netKey))) (\<lambda>target.
     ebind (identity (toWalletId (JStr wid))) (\<lambda>subject.
     ebind (normalizeSender from) (\<lambda>sndr.
     ebind (case key of None \<Rightarrow> Inr None | Some k \<Rightarrow> map_sum id Some (normalizeBigintValue (Some k) ''nonceKey'')) (\<lambda>k.
       Inr \<lparr>in_chainTarget = target, in_subjectId = subject, in_sender = sndr, in_nonceKey = k\<rparr>))))"

section \<open>Routing\<close>

record EvmNonceBackendFetchInput =
  fi_chain :: BoundaryEcdsaChainFamily
  fi_networkKey :: string
  fi_chainId :: int
  fi_sender :: string
  fi_nonceKey :: int
  fi_walletId :: string

definition normalizeInput :: "'z ReserveNonceInput_scheme \<Rightarrow> backend_error + EvmNonceBackendFetchInput" where
  "normalizeInput input =
     (let target = in_chainTarget input;
          chain = (case target of EvmTarget _ _ \<Rightarrow> BoundaryEvm | TempoTarget _ _ \<Rightarrow> BoundaryTempo);
          netKey = js_lower (js_trim (networkSlug target))
      in if netKey = [] then Inl NetworkKeyRequired
         else ebind (normalizeAddress (in_sender input) ''sender'') (\<lambda>from.
              ebind (if chain = BoundaryTempo then normalizeBigintValue (in_nonceKey input) ''nonceKey'' else Inr 0) (\<lambda>key.
              ebind (identity (toWalletId (JStr (in_subjectId input)))) (\<lambda>wid.
                Inr \<lparr>fi_chain = chain, fi_networkKey = netKey, fi_chainId = chainId target, fi_sender = from,
                     fi_nonceKey = key, fi_walletId = wid\<rparr>))))"

definition isSupportedNonceRoutingChain :: "SeamsChainConfig \<Rightarrow> bool" where
  "isSupportedNonceRoutingChain chain =
     (chainFamilyFromNetwork (cfg_network chain) \<in> set [EvmFamily, TempoFamily])"

definition isChainCompatibleWithRequestChain :: "SeamsChainConfig \<Rightarrow> BoundaryEcdsaChainFamily \<Rightarrow> bool" where
  "isChainCompatibleWithRequestChain chain requested =
     (let family = chainFamilyFromNetwork (cfg_network chain)
      in if requested = BoundaryTempo then family = TempoFamily else family = EvmFamily \<or> family = TempoFamily)"

definition isChainWithChainId :: "SeamsChainConfig \<Rightarrow> bool" where
  "isChainWithChainId chain = (chainFamilyFromNetwork (cfg_network chain) \<noteq> NearFamily)"

text \<open>The configured chain id when it is a number.\<close>

definition getOptionalConfigChainId :: "SeamsChainConfig \<Rightarrow> int option" where
  "getOptionalConfigChainId chain =
     (if isChainWithChainId chain then (case cfg_chainId chain of JNum n \<Rightarrow> Some n | _ \<Rightarrow> None) else None)"

definition assertConfiguredChainIdMatchesInput :: "SeamsChainConfig \<Rightarrow> int \<Rightarrow> backend_error + unit" where
  "assertConfiguredChainIdMatchesInput chain cid =
     (case getOptionalConfigChainId chain of
        None \<Rightarrow> Inl ConfigChainIdMissing
      | Some n \<Rightarrow> if n \<noteq> cid then Inl (ChainIdMismatch n cid) else Inr ())"

definition assertChainSupportsRequestedRoute :: "SeamsChainConfig \<Rightarrow> BoundaryEcdsaChainFamily \<Rightarrow> backend_error + unit" where
  "assertChainSupportsRequestedRoute chain requested =
     (if isChainCompatibleWithRequestChain chain requested then Inr () else Inl RouteIncompatible)"

definition mustTrimmedRpcUrl :: "string \<Rightarrow> string \<Rightarrow> backend_error + string" where
  "mustTrimmedRpcUrl url network =
     (let trimmed = js_trim url in if trimmed = [] then Inl (RpcUrlMissing network) else Inr trimmed)"

definition chain_url :: "SeamsChainConfig \<Rightarrow> backend_error + string" where
  "chain_url chain = mustTrimmedRpcUrl (cfg_rpcUrl chain) (cfg_network chain)"

definition byChainId :: "int \<Rightarrow> SeamsChainConfig list \<Rightarrow> SeamsChainConfig list" where
  "byChainId cid source = filter (\<lambda>chain. getOptionalConfigChainId chain = Some cid) source"

definition byNetworkKey :: "string \<Rightarrow> SeamsChainConfig list \<Rightarrow> SeamsChainConfig list" where
  "byNetworkKey key source = filter (\<lambda>chain. js_lower (js_trim (cfg_network chain)) = key) source"

definition resolveRpcUrlForInput :: "SeamsChainConfig list \<Rightarrow> EvmNonceBackendFetchInput \<Rightarrow> backend_error + string" where
  "resolveRpcUrlForInput cfgs input =
     (let requested = fi_chain input; cid = fi_chainId input;
          key = js_lower (js_trim (fi_networkKey input));
          supported = filter isSupportedNonceRoutingChain cfgs;
          compatible = filter (\<lambda>chain. isChainCompatibleWithRequestChain chain requested)
      in if supported = [] then Inl NoSupportedChain
         else case byNetworkKey key supported of
           [only] \<Rightarrow>
             ebind (assertChainSupportsRequestedRoute only requested) (\<lambda>_.
             ebind (assertConfiguredChainIdMatchesInput only cid) (\<lambda>_. chain_url only))
         | a # b # others \<Rightarrow>
             (case compatible (byChainId cid (a # b # others)) of
                [only] \<Rightarrow> chain_url only
              | _ \<Rightarrow> Inl AmbiguousNetworkKey)
         | [] \<Rightarrow>
             (case compatible (byChainId cid supported) of
                [only] \<Rightarrow> chain_url only
              | a # b # others \<Rightarrow> Inl AmbiguousChainId
              | [] \<Rightarrow> if byChainId cid supported \<noteq> [] then Inl ChainIdIncompatible else Inl RpcUrlUnresolved))"

section \<open>Queries\<close>

type_synonym rpc_request = "string \<Rightarrow> string \<Rightarrow> jsval list \<Rightarrow> string + jsval"

definition fetchEvmRpcResult :: "rpc_request \<Rightarrow> string \<Rightarrow> string \<Rightarrow> jsval list \<Rightarrow> backend_error + jsval" where
  "fetchEvmRpcResult request url meth params = map_sum RpcError id (request url meth params)"

definition fetchChainNonceFromRpc ::
  "rpc_request \<Rightarrow> SeamsChainConfig list \<Rightarrow> EvmNonceBackendFetchInput \<Rightarrow> backend_error + int" where
  "fetchChainNonceFromRpc request cfgs input =
     ebind (resolveRpcUrlForInput cfgs input) (\<lambda>url.
     ebind (fetchEvmRpcResult request url ''eth_getTransactionCount'' [JStr (fi_sender input), JStr ''pending'']) (\<lambda>result.
       parseRpcHexQuantity result ''eth_getTransactionCount''))"

definition is_object :: "jsval \<Rightarrow> bool" where
  "is_object v = (case v of JObj _ \<Rightarrow> True | JArr _ \<Rightarrow> True | _ \<Rightarrow> False)"

definition fetchBroadcastTransactionStatusFromRpc ::
  "rpc_request \<Rightarrow> SeamsChainConfig list \<Rightarrow> EvmNonceBackendFetchInput \<Rightarrow> string \<Rightarrow> backend_error + EvmBroadcastTransactionStatus" where
  "fetchBroadcastTransactionStatusFromRpc request cfgs input hash =
     ebind (resolveRpcUrlForInput cfgs input) (\<lambda>url.
     ebind (fetchEvmRpcResult request url ''eth_getTransactionReceipt'' [JStr hash]) (\<lambda>receipt.
       if is_object receipt then Inr TxStatusFinalized
       else ebind (fetchEvmRpcResult request url ''eth_getTransactionByHash'' [JStr hash]) (\<lambda>tx.
         Inr (if is_object tx then TxStatusPending else TxStatusMissing))))"

text \<open>The two methods of the object \<open>createEvmNonceBackend\<close> returns.\<close>

definition backend_fetchChainNonce ::
  "rpc_request \<Rightarrow> SeamsChainConfig list \<Rightarrow> 'z ReserveNonceInput_scheme \<Rightarrow> backend_error + int" where
  "backend_fetchChainNonce request cfgs input =
     ebind (normalizeInput input) (\<lambda>normalized. fetchChainNonceFromRpc request cfgs normalized)"

definition backend_fetchBroadcastTransactionStatus ::
  "rpc_request \<Rightarrow> SeamsChainConfig list \<Rightarrow> 'z ReserveNonceInput_scheme \<Rightarrow> string \<Rightarrow> backend_error + EvmBroadcastTransactionStatus" where
  "backend_fetchBroadcastTransactionStatus request cfgs input hash =
     ebind (normalizeInput input) (\<lambda>normalized.
     ebind (normalizeTxHash hash) (\<lambda>txHash. fetchBroadcastTransactionStatusFromRpc request cfgs normalized txHash))"

section \<open>Normal forms\<close>

lemma is_hex_quantity_value: "is_hex_quantity s \<Longrightarrow> \<exists>n. js_BigInt s = Some (int n)"
proof -
  assume q: "is_hex_quantity s"
  have some: "\<exists>n. radix_val 16 acc cs = Some n" if "list_all (\<lambda>c. radix_digit 16 c \<noteq> None) cs" for acc cs
    using that by (induction cs arbitrary: acc) (auto split: option.split)
  from q obtain cs where s: "s = CHR ''0'' # CHR ''x'' # cs" and cs: "cs \<noteq> []" "list_all (\<lambda>c. radix_digit 16 c \<noteq> None) cs"
    unfolding is_hex_quantity_def by (metis append_Cons append_Nil append_take_drop_id)
  have plain: "\<not> js_whitespace c" if "radix_digit 16 c \<noteq> None" for c
    using that by (auto simp: radix_digit_def js_whitespace_def Let_def split: if_splits)
  have "list_all (\<lambda>c. \<not> js_whitespace c) s"
    using cs(2) plain by (auto simp: s list_all_iff js_whitespace_def)
  then have trim: "js_trim s = s" by (rule js_trim_no_whitespace)
  obtain n where "radix_val 16 0 cs = Some n" using some [OF cs(2)] by blast
  moreover have "\<not> all_digits s" by (simp add: s all_digits_def is_digit_def)
  ultimately show ?thesis using cs(1) trim by (simp add: js_BigInt_def s)
qed

lemma quantity_nonneg: "parseRpcHexQuantity v m = Inr n \<Longrightarrow> 0 \<le> n"
  using is_hex_quantity_value by (fastforce simp: parseRpcHexQuantity_def Let_def split: if_splits option.splits)

lemma address_canonical: "is_0x_hex 40 s \<Longrightarrow> normalizeAddress s label = Inr s"
  using is_0x_hex_canonical [of 40 s] by (simp add: normalizeAddress_def stored_string_def)

section \<open>Snapshots read back\<close>

text \<open>A reservation as the coordinator makes it.\<close>

definition reservation_ok :: "ManagedNonceReservation \<Rightarrow> bool" where
  "reservation_ok r \<longleftrightarrow>
     chain_target_ok (in_chainTarget r) \<and> stored_string (in_subjectId r) \<and>
     \<not> hasWhitespaceOrControlCharacters (in_subjectId r) \<and> is_0x_hex 40 (in_sender r) \<and>
     (\<forall>k. in_nonceKey r = Some k \<longrightarrow> 0 \<le> k) \<and> 0 \<le> mr_nonce r \<and>
     stored_string (mr_leaseId r) \<and> stored_string (mr_operationId r) \<and> stored_string (mr_operationFingerprint r) \<and>
     (\<forall>t. mr_reservedAtMs r = Some t \<longrightarrow> safe_integer t) \<and> (\<forall>t. mr_expiresAtMs r = Some t \<longrightarrow> safe_integer t)"

lemma wallet_canonical:
  "stored_string w \<Longrightarrow> \<not> hasWhitespaceOrControlCharacters w \<Longrightarrow> toWalletId (JStr w) = Inr w"
  by (simp add: toWalletId_def parseWalletId_def parseDomainId_def Let_def stored_string_def)

lemma required_canonical: "stored_string s \<Longrightarrow> snapshotRequiredString (Some s) label = Inr s"
  by (simp add: snapshotRequiredString_def Let_def stored_string_def)

lemma safe_opt: "(\<forall>t. v = Some t \<longrightarrow> safe_integer t) \<Longrightarrow> Option.bind v safe_int = v"
  by (cases v) (simp_all add: safe_int_def)

lemma bigint_string: "0 \<le> n \<Longrightarrow> normalizeBigintString (int_str n) label = Inr n"
  by (simp add: normalizeBigintString_def normalizeBigintValue_def)

lemma snapshot_of:
  assumes "reservation_ok r"
  shows "toManagedNonceReservationSnapshot r = Inr
    \<lparr>sn_chainTarget = in_chainTarget r, sn_subjectId = in_subjectId r, sn_sender = in_sender r,
     sn_nonceKey = map_option int_str (in_nonceKey r), sn_nonce = int_str (mr_nonce r), sn_leaseId = mr_leaseId r,
     sn_operationId = mr_operationId r, sn_operationFingerprint = mr_operationFingerprint r,
     sn_reservedAtMs = mr_reservedAtMs r, sn_expiresAtMs = mr_expiresAtMs r\<rparr>"
  using assms
  by (cases "in_nonceKey r")
     (simp_all add: reservation_ok_def toManagedNonceReservationSnapshot_def wallet_canonical required_canonical identity_def
       normalizeSender_def address_canonical normalizeBigintValue_def safe_opt)

lemma snapshot_read:
  assumes "reservation_ok r" and "toManagedNonceReservationSnapshot r = Inr sn"
  shows "fromManagedNonceReservationSnapshot (snapshot_input sn) = Inr r"
  using assms
  by (cases "in_nonceKey r")
     (auto simp: snapshot_of snapshot_input_def fromManagedNonceReservationSnapshot_def reservation_ok_def
       parseManagedNonceSnapshotChainTarget_def chain_target_roundtrip identity_def opt_js_def js_nullish_def
       wallet_canonical required_canonical normalizeSender_def address_canonical bigint_string
       normalizeOptionalSafeInteger_def safe_opt)

text \<open>
  A reservation written to a snapshot and read back is the same reservation, with every optional part
  present or absent as before.
\<close>

theorem reservation_snapshot_roundtrip:
  assumes "reservation_ok r"
  shows "\<exists>sn. toManagedNonceReservationSnapshot r = Inr sn \<and>
           fromManagedNonceReservationSnapshot (snapshot_input sn) = Inr r"
  using assms snapshot_of snapshot_read by metis

definition example_reservation :: ManagedNonceReservation where
  "example_reservation =
     \<lparr>in_chainTarget = TempoTarget 42431 ''tempo-testnet'', in_subjectId = ''alice'', in_sender = ''0x'' @ replicate 40 CHR ''a'',
      in_nonceKey = Some 3, mr_nonce = 12, mr_leaseId = ''lease-1'', mr_operationId = ''op-1'',
      mr_operationFingerprint = ''fp-1'', mr_reservedAtMs = Some 1000, mr_expiresAtMs = None\<rparr>"

lemma example_reservation_ok: "reservation_ok example_reservation"
proof -
  have "chain_target_ok (in_chainTarget example_reservation)" "is_0x_hex 40 (in_sender example_reservation)"
    "stored_string (in_subjectId example_reservation)" "\<not> hasWhitespaceOrControlCharacters (in_subjectId example_reservation)"
    "stored_string (mr_leaseId example_reservation)" "stored_string (mr_operationId example_reservation)"
    "stored_string (mr_operationFingerprint example_reservation)"
    by code_simp+
  then show ?thesis unfolding reservation_ok_def by (simp add: example_reservation_def safe_integer_def)
qed

theorem reservation_snapshot_roundtrip_witness:
  "\<exists>sn. toManagedNonceReservationSnapshot example_reservation = Inr sn \<and>
     fromManagedNonceReservationSnapshot (snapshot_input sn) = Inr example_reservation"
  by (rule reservation_snapshot_roundtrip [OF example_reservation_ok])

section \<open>Where a query goes\<close>

lemma chain_url_Inr: "chain_url c = Inr url \<longleftrightarrow> url = js_trim (cfg_rpcUrl c) \<and> url \<noteq> []"
  by (auto simp: chain_url_def mustTrimmedRpcUrl_def Let_def)

definition route_ok :: "SeamsChainConfig list \<Rightarrow> BoundaryEcdsaChainFamily \<Rightarrow> int \<Rightarrow> SeamsChainConfig \<Rightarrow> bool" where
  "route_ok cfgs requested cid c \<longleftrightarrow>
     c \<in> set cfgs \<and> isChainCompatibleWithRequestChain c requested \<and> getOptionalConfigChainId c = Some cid"

lemma compatible_singleton:
  assumes "filter (\<lambda>c. isChainCompatibleWithRequestChain c requested) (byChainId cid xs) = [only]" and "set xs \<subseteq> set cfgs"
  shows "route_ok cfgs requested cid only"
proof -
  have "only \<in> set (filter (\<lambda>c. isChainCompatibleWithRequestChain c requested) (byChainId cid xs))" using assms(1) by simp
  with assms(2) show ?thesis by (auto simp: route_ok_def byChainId_def)
qed

lemma resolve_route:
  assumes "resolveRpcUrlForInput cfgs input = Inr url"
  shows "\<exists>c. route_ok cfgs (fi_chain input) (fi_chainId input) c \<and> chain_url c = Inr url"
proof -
  let ?sup = "filter isSupportedNonceRoutingChain cfgs"
  let ?net = "byNetworkKey (js_lower (js_trim (fi_networkKey input))) ?sup"
  let ?comp = "\<lambda>xs. filter (\<lambda>c. isChainCompatibleWithRequestChain c (fi_chain input)) (byChainId (fi_chainId input) xs)"
  have sup: "set ?sup \<subseteq> set cfgs" and net: "set ?net \<subseteq> set cfgs" by (auto simp: byNetworkKey_def)
  consider only where "?net = [only]" | a b others where "?net = a # b # others" | "?net = []"
    by (cases ?net; cases "tl ?net") auto
  then show ?thesis
  proof cases
    case (1 only)
    with net have "only \<in> set cfgs" by auto
    with 1 assms show ?thesis
      by (auto simp: resolveRpcUrlForInput_def Let_def route_ok_def assertChainSupportsRequestedRoute_def
          assertConfiguredChainIdMatchesInput_def split: if_splits option.splits sum.splits)
  next
    case (2 a b others)
    with assms obtain only where "?comp ?net = [only]" "chain_url only = Inr url"
      by (auto simp: resolveRpcUrlForInput_def Let_def split: if_splits list.splits)
    with compatible_singleton [OF _ net] show ?thesis by blast
  next
    case 3
    with assms obtain only where "?comp ?sup = [only]" "chain_url only = Inr url"
      by (auto simp: resolveRpcUrlForInput_def Let_def split: if_splits list.splits)
    with compatible_singleton [OF _ sup] show ?thesis by blast
  qed
qed

lemma normalized_target:
  "normalizeInput input = Inr norm \<Longrightarrow> fi_chainId norm = chainId (in_chainTarget input) \<and>
     fi_chain norm = (case in_chainTarget input of EvmTarget _ _ \<Rightarrow> BoundaryEvm | TempoTarget _ _ \<Rightarrow> BoundaryTempo)"
  by (auto simp: normalizeInput_def Let_def split: if_splits sum.splits)

text \<open>
  A chain nonce comes from the right chain: when the query returns, it was answered by the RPC
  endpoint of a configured chain that has the lane's chain id and whose family fits the lane, and the
  answer is a natural number. Nothing else the client could answer, on any other URL, matters.
\<close>

theorem chain_nonce_from_right_chain:
  assumes "backend_fetchChainNonce request cfgs input = Inr n"
  shows "0 \<le> n \<and> (\<exists>c \<in> set cfgs. getOptionalConfigChainId c = Some (chainId (in_chainTarget input)) \<and>
     isChainCompatibleWithRequestChain c (case in_chainTarget input of EvmTarget _ _ \<Rightarrow> BoundaryEvm | TempoTarget _ _ \<Rightarrow> BoundaryTempo) \<and>
     (\<forall>request'. (\<forall>meth params. request' (js_trim (cfg_rpcUrl c)) meth params = request (js_trim (cfg_rpcUrl c)) meth params) \<longrightarrow>
        backend_fetchChainNonce request' cfgs input = Inr n))"
proof -
  from assms obtain norm url result where norm: "normalizeInput input = Inr norm"
    and url: "resolveRpcUrlForInput cfgs norm = Inr url"
    and result: "parseRpcHexQuantity result ''eth_getTransactionCount'' = Inr n"
    and asked: "fetchEvmRpcResult request url ''eth_getTransactionCount'' [JStr (fi_sender norm), JStr ''pending''] = Inr result"
    by (auto simp: backend_fetchChainNonce_def fetchChainNonceFromRpc_def split: sum.splits)
  from resolve_route [OF url] obtain c where c: "route_ok cfgs (fi_chain norm) (fi_chainId norm) c" "url = js_trim (cfg_rpcUrl c)"
    by (auto simp: chain_url_Inr)
  have "backend_fetchChainNonce request' cfgs input = Inr n"
    if "\<forall>meth params. request' (js_trim (cfg_rpcUrl c)) meth params = request (js_trim (cfg_rpcUrl c)) meth params" for request'
    using that norm url result asked c(2)
    by (simp add: backend_fetchChainNonce_def fetchChainNonceFromRpc_def fetchEvmRpcResult_def)
  with c(1) normalized_target [OF norm] quantity_nonneg [OF result] show ?thesis
    by (auto simp: route_ok_def)
qed

definition example_cfgs :: "SeamsChainConfig list" where
  "example_cfgs =
     [\<lparr>cfg_network = ''near-testnet'', cfg_chainId = JUndefined, cfg_rpcUrl = ''https://near''\<rparr>,
      \<lparr>cfg_network = ''ethereum-sepolia'', cfg_chainId = JNum 11155111, cfg_rpcUrl = '' https://eth ''\<rparr>,
      \<lparr>cfg_network = ''tempo-testnet'', cfg_chainId = JNum 42431, cfg_rpcUrl = ''https://tempo''\<rparr>]"

definition example_request :: rpc_request where
  "example_request url meth params = (if url = ''https://tempo'' then Inr (JStr ''0x0c'') else Inl ''offline'')"

theorem chain_nonce_from_right_chain_witness:
  "\<exists>c \<in> set example_cfgs. getOptionalConfigChainId c = Some 42431"
proof -
  have "backend_fetchChainNonce example_request example_cfgs example_reservation = Inr 12" by code_simp
  from chain_nonce_from_right_chain [OF this] show ?thesis by (auto simp: example_reservation_def)
qed

end
