(* ===== verification/EvmRpcClient.thy ===== *)
theory EvmRpcClient
  imports EvmNonceBackend
begin

text \<open>
  The EVM RPC client (\<open>createEvmClient\<close> of \<open>rpcClients/evm/EvmClient.ts\<close>) with the decoders it uses
  (\<open>jsonRpc.ts\<close> and \<open>evmRpcResults.ts\<close> of \<open>shared-ts\<close>): one JSON-RPC request over the configured endpoints
  and the four typed queries. The network is the function \<open>rpc_fetch\<close>, \<open>Date.now()\<close> a clock that the
  outside moves forward, and every request is logged with its answer.
\<close>

section \<open>Errors\<close>

text \<open>A thrown JavaScript value, as far as the client looks at it.\<close>

datatype thrown = Thrown (th_isError: bool) (th_name: string) (th_message: string)

datatype EvmTransactionWaitErrorBranch =
    DroppedNonceAdvanced
  | DroppedHashDisappeared
  | DroppedNonceGap
  | UnderpricedFee
  | WaitTimeout

datatype evm_error =
    RpcThrown thrown
  | RpcMessage string
  | RpcFailure (fail_method: string) (fail_message: string) (fail_code: "string option") (fail_data: "jsval option")
  | Aborted "string option" string
  | DroppedOrReplaced (wait_reason: EvmNonceOutcomeReason) (wait_txNonce: int) (wait_latestNonce: int)
      (wait_txFrom: string) (wait_branch: EvmTransactionWaitErrorBranch)
  | Underpriced (under_maxFee: int) (under_baseFee: int)
  | ReceiptTimeout (timeout_ms: int) (timeout_details: "evm_error option")

section \<open>JSON-RPC envelopes\<close>

text \<open>\<open>typeof v === 'number' && Number.isFinite(v)\<close>.\<close>

definition finite_number :: "jsval \<Rightarrow> bool" where
  "finite_number v =
     (case v of JNum _ \<Rightarrow> True | JOther s \<Rightarrow> s \<notin> {''NaN'', ''Infinity'', ''-Infinity''} | _ \<Rightarrow> False)"

definition is_string :: "jsval \<Rightarrow> bool" where
  "is_string v = (case v of JStr _ \<Rightarrow> True | _ \<Rightarrow> False)"

definition isJsonRpcId :: "jsval \<Rightarrow> bool" where
  "isJsonRpcId v \<longleftrightarrow> v = JNull \<or> is_string v \<or> finite_number v"

record JsonRpcErrorDetails =
  je_message :: string
  je_code :: "jsval option"
  je_name :: "string option"
  je_data :: "jsval option"
  je_cause :: "jsval option"

definition decodeJsonRpcError :: "jsval \<Rightarrow> JsonRpcErrorDetails option" where
  "decodeJsonRpcError value =
     (case value of
        JObj fs \<Rightarrow>
          (let message = (case jfield fs ''message'' of JStr s \<Rightarrow> js_trim s | _ \<Rightarrow> []);
               code = jfield fs ''code'';
               name = jfield fs ''name''
           in if message = [] then None
              else if code \<noteq> JUndefined \<and> \<not> finite_number code \<and> \<not> is_string code then None
              else if name \<noteq> JUndefined \<and> \<not> is_string name then None
              else Some \<lparr>je_message = message,
                         je_code = (if code = JUndefined then None else Some code),
                         je_name = (case name of JStr s \<Rightarrow> Some s | _ \<Rightarrow> None),
                         je_data = map_of fs ''data'', je_cause = map_of fs ''cause''\<rparr>)
      | _ \<Rightarrow> None)"

datatype JsonRpcEnvelope =
    RpcSuccess (env_id: jsval) (env_result: jsval)
  | RpcFailed (env_id: jsval) (env_error: JsonRpcErrorDetails)

definition decodeJsonRpcEnvelope :: "jsval \<Rightarrow> string + JsonRpcEnvelope" where
  "decodeJsonRpcEnvelope value =
     (case value of
        JObj fs \<Rightarrow>
          if jfield fs ''jsonrpc'' \<noteq> JStr ''2.0'' then Inl ''jsonrpc must equal 2.0''
          else if \<not> isJsonRpcId (jfield fs ''id'') then Inl ''id must be a string, number, or null''
          else (case (map_of fs ''result'', map_of fs ''error'') of
              (Some result, None) \<Rightarrow> Inr (RpcSuccess (jfield fs ''id'') result)
            | (None, Some err) \<Rightarrow>
                (case decodeJsonRpcError err of
                   None \<Rightarrow> Inl ''error must contain a non-empty message''
                 | Some details \<Rightarrow> Inr (RpcFailed (jfield fs ''id'') details))
            | _ \<Rightarrow> Inl ''response must contain exactly one of result or error'')
      | _ \<Rightarrow> Inl ''expected an object'')"

section \<open>Decoders of results\<close>

definition parseRpcQuantity :: "jsval \<Rightarrow> string \<Rightarrow> evm_error + int" where
  "parseRpcQuantity value label =
     (let normalized = (case value of JStr s \<Rightarrow> js_trim s | _ \<Rightarrow> [])
      in if \<not> is_hex_quantity normalized then Inl (RpcMessage (''Invalid '' @ label @ '' quantity''))
         else case js_BigInt normalized of
           Some n \<Rightarrow> Inr n | None \<Rightarrow> Inl (RpcMessage (''Invalid '' @ label @ '' quantity'')))"

definition is_mixed_hex :: "nat \<Rightarrow> string \<Rightarrow> bool" where
  "is_mixed_hex n s \<longleftrightarrow> take 2 s = ''0x'' \<and> length s = n + 2 \<and> list_all (\<lambda>c. radix_digit 16 c \<noteq> None) (drop 2 s)"

definition is_hex_data :: "string \<Rightarrow> bool" where
  "is_hex_data s \<longleftrightarrow> even (length s) \<and> is_mixed_hex (length s - 2) s"

definition invalid_result :: "string \<Rightarrow> string \<Rightarrow> evm_error" where
  "invalid_result operation key = RpcMessage (''Invalid '' @ operation @ '' result: '' @ key)"

definition as_string :: "jsval \<Rightarrow> string option" where
  "as_string v = (case v of JStr s \<Rightarrow> Some s | _ \<Rightarrow> None)"

lemma as_string_iff [simp]: "as_string v = Some s \<longleftrightarrow> v = JStr s"
  by (cases v) (auto simp: as_string_def)

text \<open>A field of type \<open>string | null | undefined\<close> is \<open>JStr\<close>, \<open>JNull\<close> or \<open>JUndefined\<close>.\<close>

definition optionalRpcString :: "(string \<times> jsval) list \<Rightarrow> string \<Rightarrow> string \<Rightarrow> evm_error + jsval" where
  "optionalRpcString fs key operation =
     (case jfield fs key of
        JUndefined \<Rightarrow> Inr JUndefined
      | JNull \<Rightarrow> Inr JNull
      | JStr s \<Rightarrow> Inr (JStr s)
      | _ \<Rightarrow> Inl (invalid_result operation key))"

definition checkedRpcString ::
  "(string \<Rightarrow> bool) \<Rightarrow> (string \<times> jsval) list \<Rightarrow> string \<Rightarrow> string \<Rightarrow> evm_error + jsval" where
  "checkedRpcString ok fs key operation =
     ebind (optionalRpcString fs key operation) (\<lambda>v.
       case v of JStr s \<Rightarrow> if ok s then Inr v else Inl (invalid_result operation key) | _ \<Rightarrow> Inr v)"

definition optionalRpcHexQuantity :: "(string \<times> jsval) list \<Rightarrow> string \<Rightarrow> string \<Rightarrow> evm_error + jsval" where
  "optionalRpcHexQuantity = checkedRpcString is_hex_quantity"

definition optionalRpcAddress :: "(string \<times> jsval) list \<Rightarrow> string \<Rightarrow> string \<Rightarrow> evm_error + jsval" where
  "optionalRpcAddress = checkedRpcString (is_mixed_hex 40)"

definition optionalRpcHexData :: "(string \<times> jsval) list \<Rightarrow> string \<Rightarrow> string \<Rightarrow> evm_error + jsval" where
  "optionalRpcHexData = checkedRpcString is_hex_data"

record EvmTransactionReceipt =
  rc_transactionHash :: string
  rc_from :: jsval
  rc_blockNumber :: string
  rc_status :: string
  rc_gasUsed :: jsval
  rc_effectiveGasPrice :: jsval
  rc_gasPrice :: jsval

definition decodeEvmTransactionReceipt :: "jsval \<Rightarrow> evm_error + EvmTransactionReceipt option" where
  "decodeEvmTransactionReceipt value =
     (let operation = ''eth_getTransactionReceipt'' in
      case value of
        JNull \<Rightarrow> Inr None
      | JObj fs \<Rightarrow>
          ebind (optionalRpcHexData fs ''transactionHash'' operation) (\<lambda>hash.
            case as_string hash of
              Some transactionHash \<Rightarrow>
                if \<not> is_mixed_hex 64 transactionHash then Inl (invalid_result operation ''transactionHash'')
                else
                ebind (optionalRpcAddress fs ''from'' operation) (\<lambda>from.
                ebind (optionalRpcHexQuantity fs ''blockNumber'' operation) (\<lambda>blockNumber.
                ebind (optionalRpcHexQuantity fs ''status'' operation) (\<lambda>status.
                  case (as_string blockNumber, as_string status) of
                    (Some blk, Some st) \<Rightarrow>
                      ebind (optionalRpcHexQuantity fs ''gasUsed'' operation) (\<lambda>gasUsed.
                      ebind (optionalRpcHexQuantity fs ''effectiveGasPrice'' operation) (\<lambda>effective.
                      ebind (optionalRpcHexQuantity fs ''gasPrice'' operation) (\<lambda>gasPrice.
                        Inr (Some \<lparr>rc_transactionHash = transactionHash, rc_from = from, rc_blockNumber = blk,
                          rc_status = st, rc_gasUsed = gasUsed, rc_effectiveGasPrice = effective,
                          rc_gasPrice = gasPrice\<rparr>))))
                  | _ \<Rightarrow> Inl (invalid_result operation ''missing blockNumber or status''))))
            | None \<Rightarrow> Inl (invalid_result operation ''transactionHash''))
      | _ \<Rightarrow> Inl (RpcMessage (''Invalid '' @ operation @ '' result'')))"

record EvmBlockHeader =
  bh_number :: jsval
  bh_baseFeePerGas :: jsval

definition decodeEvmBlockHeader :: "jsval \<Rightarrow> evm_error + EvmBlockHeader option" where
  "decodeEvmBlockHeader value =
     (let operation = ''eth_getBlockByNumber'' in
      case value of
        JNull \<Rightarrow> Inr None
      | JObj fs \<Rightarrow>
          ebind (optionalRpcHexQuantity fs ''number'' operation) (\<lambda>number.
          ebind (optionalRpcHexQuantity fs ''baseFeePerGas'' operation) (\<lambda>fee.
            Inr (Some \<lparr>bh_number = number, bh_baseFeePerGas = fee\<rparr>)))
      | _ \<Rightarrow> Inl (RpcMessage (''Invalid '' @ operation @ '' result'')))"

record EvmTransactionCall =
  ec_to :: jsval
  ec_input :: jsval
  ec_data :: jsval
  ec_value :: jsval

definition decodeEvmTransactionCall :: "jsval \<Rightarrow> evm_error + EvmTransactionCall" where
  "decodeEvmTransactionCall value =
     (let operation = ''eth_getTransactionByHash'' in
      case value of
        JObj fs \<Rightarrow>
          ebind (optionalRpcAddress fs ''to'' operation) (\<lambda>to.
          ebind (optionalRpcHexData fs ''input'' operation) (\<lambda>input.
          ebind (optionalRpcHexData fs ''data'' operation) (\<lambda>data.
          ebind (optionalRpcHexQuantity fs ''value'' operation) (\<lambda>amount.
            Inr \<lparr>ec_to = to, ec_input = input, ec_data = data, ec_value = amount\<rparr>))))
      | _ \<Rightarrow> Inl (invalid_result operation ''calls''))"

text \<open>\<open>calls\<close> is absent, \<open>null\<close> or a list.\<close>

record EvmTransactionByHash =
  tx_blockNumber :: jsval
  tx_from :: jsval
  tx_nonce :: jsval
  tx_to :: jsval
  tx_input :: jsval
  tx_value :: jsval
  tx_calls :: "EvmTransactionCall list option option"

definition decodeEvmTransactionCalls :: "jsval \<Rightarrow> evm_error + EvmTransactionCall list option option" where
  "decodeEvmTransactionCalls value =
     (case value of
        JUndefined \<Rightarrow> Inr None
      | JNull \<Rightarrow> Inr (Some None)
      | JArr vs \<Rightarrow> ebind (traverse decodeEvmTransactionCall vs) (\<lambda>calls. Inr (Some (Some calls)))
      | _ \<Rightarrow> Inl (invalid_result ''eth_getTransactionByHash'' ''calls''))"

definition decodeEvmTransactionByHash :: "jsval \<Rightarrow> evm_error + EvmTransactionByHash option" where
  "decodeEvmTransactionByHash value =
     (let operation = ''eth_getTransactionByHash'' in
      case value of
        JNull \<Rightarrow> Inr None
      | JObj fs \<Rightarrow>
          ebind (optionalRpcHexQuantity fs ''blockNumber'' operation) (\<lambda>blockNumber.
          ebind (optionalRpcAddress fs ''from'' operation) (\<lambda>from.
          ebind (optionalRpcHexQuantity fs ''nonce'' operation) (\<lambda>nonce.
          ebind (optionalRpcAddress fs ''to'' operation) (\<lambda>to.
          ebind (optionalRpcHexData fs ''input'' operation) (\<lambda>input.
          ebind (optionalRpcHexQuantity fs ''value'' operation) (\<lambda>amount.
          ebind (decodeEvmTransactionCalls (jfield fs ''calls'')) (\<lambda>calls.
            Inr (Some \<lparr>tx_blockNumber = blockNumber, tx_from = from, tx_nonce = nonce, tx_to = to,
                       tx_input = input, tx_value = amount, tx_calls = calls\<rparr>))))))))
      | _ \<Rightarrow> Inl (RpcMessage (''Invalid '' @ operation @ '' result'')))"

section \<open>The outside world\<close>

text \<open>
  What an endpoint does with a request: its \<open>fetch\<close> is rejected, times out, or is answered with a
  status and a body that is read, times out or fails.
\<close>

datatype body_answer = BodyValue jsval | BodyTimedOut | BodyRejected thrown

datatype fetch_answer = Responded (resp_status: int) (resp_body: body_answer) | FetchTimedOut | FetchRejected thrown

text \<open>\<open>signal.reason\<close> of an aborted signal.\<close>

datatype abort_reason = ReasonError thrown | ReasonOther jsval

text \<open>
  The outside world, as functions of the number of interactions so far: the milliseconds that pass,
  the answer of an endpoint to a method with its parameters within a time window, and whether the
  signal is aborted.
\<close>

record rpc_env =
  rpc_elapse :: "nat \<Rightarrow> nat"
  rpc_fetch :: "nat \<Rightarrow> string \<Rightarrow> string \<Rightarrow> jsval list \<Rightarrow> int \<Rightarrow> fetch_answer"
  rpc_aborted :: "nat \<Rightarrow> abort_reason option"

record rpc_call =
  call_method :: string
  call_params :: "jsval list"
  call_timeoutMs :: int
  call_answer :: "evm_error + jsval"

record rpc_world =
  w_clock :: int
  w_tick :: nat
  w_calls :: "rpc_call list"

type_synonym ('z, 'a) rpc_m = "('z rpc_world_scheme, evm_error, 'a) jsm"

definition outside :: "(nat \<Rightarrow> 'a) \<Rightarrow> ('z, 'a) rpc_m" where
  "outside f = (\<lambda>s. (Inr (f (w_tick s)), s\<lparr>w_tick := Suc (w_tick s)\<rparr>))"

definition pass_time :: "rpc_env \<Rightarrow> int \<Rightarrow> ('z, unit) rpc_m" where
  "pass_time env ms =
     jmod (\<lambda>s. s\<lparr>w_clock := w_clock s + max 0 ms + int (rpc_elapse env (w_tick s)), w_tick := Suc (w_tick s)\<rparr>)"

text \<open>\<open>Date.now()\<close>.\<close>

definition date_now :: "rpc_env \<Rightarrow> ('z, int) rpc_m" where
  "date_now env = jseq (pass_time env 0) (jget w_clock)"

section \<open>Requests\<close>

definition DEFAULT_REQUEST_TIMEOUT_MS :: int where "DEFAULT_REQUEST_TIMEOUT_MS = 15000"

text \<open>\<open>Math.max(1, Math.floor(Number(x ?? fallback) || 0))\<close> for an integer or absent \<open>x\<close>.\<close>

definition at_least_one :: "int \<Rightarrow> int option \<Rightarrow> int" where
  "at_least_one fallback x = max 1 (case x of None \<Rightarrow> fallback | Some n \<Rightarrow> n)"

text \<open>\<open>input.split(/[\s,]+/)\<close> without the empty parts.\<close>

fun split_urls :: "string \<Rightarrow> string \<Rightarrow> string list" where
  "split_urls part [] = (if part = [] then [] else [rev part])"
| "split_urls part (c # cs) =
     (if js_whitespace c \<or> c = CHR '','' then (if part = [] then split_urls [] cs else rev part # split_urls [] cs)
      else split_urls (c # part) cs)"

text \<open>\<open>new URL(value).toString()\<close> is the argument \<open>to_url\<close>: the normal form, or \<open>None\<close> when it throws.\<close>

definition normalizeEvmRpcUrls :: "(string \<Rightarrow> string option) \<Rightarrow> string \<Rightarrow> evm_error + string list" where
  "normalizeEvmRpcUrls to_url input =
     (case traverse (\<lambda>v. case to_url v of None \<Rightarrow> Inl (RpcThrown (Thrown True ''TypeError'' ''Invalid URL'')) | Some u \<Rightarrow> Inr u)
             (split_urls [] input) of
        Inl e \<Rightarrow> Inl e
      | Inr urls \<Rightarrow>
          if urls = [] then Inl (RpcMessage ''RPC URL is not configured'')
          else Inr (fold set_add urls []))"

record evm_client =
  cl_rpcUrls :: "string list"
  cl_requestTimeoutMs :: int

definition createEvmClient :: "(string \<Rightarrow> string option) \<Rightarrow> string \<Rightarrow> int option \<Rightarrow> evm_error + evm_client" where
  "createEvmClient to_url rpcUrl requestTimeoutMs =
     ebind (normalizeEvmRpcUrls to_url (js_trim rpcUrl)) (\<lambda>urls.
       Inr \<lparr>cl_rpcUrls = urls, cl_requestTimeoutMs = at_least_one DEFAULT_REQUEST_TIMEOUT_MS requestTimeoutMs\<rparr>)"

definition timed_out_message :: "string \<Rightarrow> string \<Rightarrow> int \<Rightarrow> string" where
  "timed_out_message meth what timeoutMs = meth @ '' '' @ what @ '' timed out after '' @ int_str timeoutMs @ ''ms''"

definition timed_out :: "string \<Rightarrow> string \<Rightarrow> int \<Rightarrow> thrown" where
  "timed_out meth what timeoutMs = Thrown True ''Error'' (timed_out_message meth what timeoutMs)"

definition remainingTimeoutMs :: "rpc_env \<Rightarrow> int \<Rightarrow> int \<Rightarrow> ('z, int) rpc_m" where
  "remainingTimeoutMs env timeoutMs startedAt =
     jbind (date_now env) (\<lambda>t. jret (max 1 (timeoutMs - max 0 (t - startedAt))))"

text \<open>The loop over the endpoints: the response, or none with the last error.\<close>

fun fetchFromUrls ::
  "rpc_env \<Rightarrow> string \<Rightarrow> jsval list \<Rightarrow> int \<Rightarrow> int \<Rightarrow> string list \<Rightarrow> thrown option \<Rightarrow>
   ('z, thrown option + (int \<times> body_answer)) rpc_m" where
  "fetchFromUrls env meth params timeoutMs startedAt [] lastError = jret (Inl lastError)"
| "fetchFromUrls env meth params timeoutMs startedAt (rpcUrl # urls) lastError =
     jbind (remainingTimeoutMs env timeoutMs startedAt) (\<lambda>window.
     jbind (outside (\<lambda>k. rpc_fetch env k rpcUrl meth params window)) (\<lambda>candidate.
       case candidate of
         Responded status body \<Rightarrow>
           if (status = 429 \<or> status \<ge> 500) \<and> urls \<noteq> []
           then fetchFromUrls env meth params timeoutMs startedAt urls lastError
           else jret (Inr (status, body))
       | FetchTimedOut \<Rightarrow>
           fetchFromUrls env meth params timeoutMs startedAt urls (Some (timed_out meth ''request'' timeoutMs))
       | FetchRejected err \<Rightarrow> fetchFromUrls env meth params timeoutMs startedAt urls (Some err)))"

definition no_response_error :: "string \<Rightarrow> int \<Rightarrow> thrown option \<Rightarrow> evm_error" where
  "no_response_error meth timeoutMs lastError =
     (case lastError of
        None \<Rightarrow> RpcMessage ''RPC request failed''
      | Some err \<Rightarrow>
          if th_name err = ''AbortError'' then RpcMessage (timed_out_message meth ''request'' timeoutMs)
          else if th_isError err then RpcThrown err else RpcMessage ''RPC request failed'')"

definition body_payload :: "string \<Rightarrow> int \<Rightarrow> body_answer \<Rightarrow> evm_error + jsval" where
  "body_payload meth timeoutMs body =
     (case body of
        BodyValue v \<Rightarrow> Inr v
      | BodyTimedOut \<Rightarrow> Inl (RpcThrown (timed_out meth ''response'' timeoutMs))
      | BodyRejected err \<Rightarrow>
          Inl (if th_name err = ''AbortError'' then RpcMessage (timed_out_message meth ''response'' timeoutMs)
               else RpcThrown err))"

definition payload_result :: "string \<Rightarrow> jsval \<Rightarrow> evm_error + jsval" where
  "payload_result meth rawPayload =
     (case decodeJsonRpcEnvelope rawPayload of
        Inl reason \<Rightarrow> Inl (RpcMessage (''Invalid '' @ meth @ '' response: '' @ reason))
      | Inr (RpcFailed _ details) \<Rightarrow>
          (let code = (case je_code details of None \<Rightarrow> [] | Some c \<Rightarrow> if c = JNull then [] else js_trim (js_String c))
           in Inl (RpcFailure meth (js_trim (je_message details)) (if code = [] then None else Some code)
                (case je_data details of Some JUndefined \<Rightarrow> None | d \<Rightarrow> d)))
      | Inr (RpcSuccess _ result) \<Rightarrow> Inr result)"

text \<open>Adds the request and its outcome to the log.\<close>

definition logged :: "string \<Rightarrow> jsval list \<Rightarrow> int \<Rightarrow> ('z, jsval) rpc_m \<Rightarrow> ('z, jsval) rpc_m" where
  "logged meth params timeoutMs m =
     (\<lambda>s. case m s of (r, t) \<Rightarrow>
        (r, t\<lparr>w_calls := w_calls t @
              [\<lparr>call_method = meth, call_params = params, call_timeoutMs = timeoutMs, call_answer = r\<rparr>]\<rparr>))"

text \<open>What becomes of the response: its status is checked, its body read and decoded.\<close>

definition read_response ::
  "rpc_env \<Rightarrow> string \<Rightarrow> int \<Rightarrow> int \<Rightarrow> thrown option + (int \<times> body_answer) \<Rightarrow> ('z, jsval) rpc_m" where
  "read_response env meth timeoutMs startedAt response =
     (case response of
        Inl lastError \<Rightarrow> jthrow (no_response_error meth timeoutMs lastError)
      | Inr (status, body) \<Rightarrow>
          if status = 429 then jthrow (RpcMessage ''RPC throttled; retry shortly'')
          else if \<not> (200 \<le> status \<and> status \<le> 299) then jthrow (RpcMessage (''RPC HTTP '' @ int_str status))
          else jseq (remainingTimeoutMs env timeoutMs startedAt)
            (jlift (ebind (body_payload meth timeoutMs body) (payload_result meth))))"

definition unlogged_request ::
  "rpc_env \<Rightarrow> evm_client \<Rightarrow> string \<Rightarrow> jsval list \<Rightarrow> int \<Rightarrow> ('z, jsval) rpc_m" where
  "unlogged_request env client meth params timeoutMs =
     jbind (date_now env) (\<lambda>startedAt.
     jseq (date_now env)
     (jbind (fetchFromUrls env meth params timeoutMs startedAt (cl_rpcUrls client) None)
       (read_response env meth timeoutMs startedAt)))"

definition request ::
  "rpc_env \<Rightarrow> evm_client \<Rightarrow> string \<Rightarrow> jsval list \<Rightarrow> int option \<Rightarrow> ('z, jsval) rpc_m" where
  "request env client meth params timeout =
     (let timeoutMs = at_least_one (cl_requestTimeoutMs client) timeout
      in logged meth params timeoutMs (unlogged_request env client meth params timeoutMs))"

section \<open>Typed queries\<close>

definition getTransactionReceipt ::
  "rpc_env \<Rightarrow> evm_client \<Rightarrow> string \<Rightarrow> int option \<Rightarrow> ('z, EvmTransactionReceipt option) rpc_m" where
  "getTransactionReceipt env client txHash timeout =
     jbind (request env client ''eth_getTransactionReceipt'' [JStr txHash] timeout) (\<lambda>v.
     jbind (jlift (decodeEvmTransactionReceipt v)) (\<lambda>receipt.
       case receipt of
         None \<Rightarrow> jret None
       | Some r \<Rightarrow>
           if js_lower (rc_transactionHash r) \<noteq> js_lower txHash
           then jthrow (RpcMessage ''Receipt transactionHash does not match the requested transaction'')
           else jret (Some r)))"

definition getBlockByNumber ::
  "rpc_env \<Rightarrow> evm_client \<Rightarrow> string \<Rightarrow> int option \<Rightarrow> ('z, EvmBlockHeader option) rpc_m" where
  "getBlockByNumber env client blockTag timeout =
     jbind (request env client ''eth_getBlockByNumber'' [JStr blockTag, JBool False] timeout) (\<lambda>v.
       jlift (decodeEvmBlockHeader v))"

definition getTransactionByHash ::
  "rpc_env \<Rightarrow> evm_client \<Rightarrow> string \<Rightarrow> int option \<Rightarrow> ('z, EvmTransactionByHash option) rpc_m" where
  "getTransactionByHash env client txHash timeout =
     jbind (request env client ''eth_getTransactionByHash'' [JStr txHash] timeout) (\<lambda>v.
       jlift (decodeEvmTransactionByHash v))"

definition getTransactionCount ::
  "rpc_env \<Rightarrow> evm_client \<Rightarrow> string \<Rightarrow> string \<Rightarrow> int option \<Rightarrow> ('z, int) rpc_m" where
  "getTransactionCount env client address blockTag timeout =
     jbind (request env client ''eth_getTransactionCount'' [JStr address, JStr blockTag] timeout) (\<lambda>v.
       jlift (parseRpcQuantity v ''eth_getTransactionCount''))"

section \<open>What requests keep\<close>

text \<open>
  A relation between states that the outside world keeps: interactions are counted and time passes. The
  loop over the endpoints keeps it.
\<close>

locale outside_relation =
  fixes R :: "'z rpc_world_scheme \<Rightarrow> 'z rpc_world_scheme \<Rightarrow> bool"
  assumes rel_refl: "reflp R"
    and rel_trans: "transp R"
    and rel_tick: "R s (s\<lparr>w_tick := k\<rparr>)"
    and rel_clock: "w_clock s \<le> c \<Longrightarrow> R s (s\<lparr>w_clock := c\<rparr>)"
begin

lemmas monadic_rules = jinv_intros rel_refl rel_trans

lemma outside_kept: "jinv R (outside f)"
  by (simp add: jinv_def outside_def rel_tick)

lemma pass_time_kept: "jinv R (pass_time env ms)"
proof -
  have "R s (s\<lparr>w_clock := w_clock s + max 0 ms + int n, w_tick := Suc (w_tick s)\<rparr>)" for s :: "'z rpc_world_scheme" and n
  proof -
    have "R s (s\<lparr>w_clock := w_clock s + max 0 ms + int n\<rparr>)" by (rule rel_clock) simp
    moreover have "R \<dots> (s\<lparr>w_clock := w_clock s + max 0 ms + int n, w_tick := Suc (w_tick s)\<rparr>)" by (rule rel_tick)
    ultimately show ?thesis by (rule transpD [OF rel_trans])
  qed
  then show ?thesis unfolding pass_time_def by (intro jinv_jmod)
qed

lemma date_now_kept: "jinv R (date_now env)"
  unfolding date_now_def by (intro monadic_rules pass_time_kept)

lemma remainingTimeoutMs_kept: "jinv R (remainingTimeoutMs env timeoutMs startedAt)"
  unfolding remainingTimeoutMs_def by (intro monadic_rules date_now_kept)

lemma fetchFromUrls_kept: "jinv R (fetchFromUrls env meth params timeoutMs startedAt urls lastError)"
proof (induction urls arbitrary: lastError)
  case Nil
  then show ?case by (simp add: jinv_jret rel_refl)
next
  case (Cons url urls)
  have "jinv R (case candidate of
          Responded status body \<Rightarrow>
            if (status = 429 \<or> status \<ge> 500) \<and> urls \<noteq> []
            then fetchFromUrls env meth params timeoutMs startedAt urls lastError
            else jret (Inr (status, body))
        | FetchTimedOut \<Rightarrow>
            fetchFromUrls env meth params timeoutMs startedAt urls (Some (timed_out meth ''request'' timeoutMs))
        | FetchRejected err \<Rightarrow> fetchFromUrls env meth params timeoutMs startedAt urls (Some err))" for candidate
    by (cases candidate) (auto intro: Cons.IH jinv_jret rel_refl)
  then show ?case
    unfolding fetchFromUrls.simps by (intro jinv_jbind rel_trans remainingTimeoutMs_kept outside_kept)
qed

lemma unlogged_request_kept: "jinv R (unlogged_request env client meth params timeoutMs)"
  unfolding unlogged_request_def read_response_def
  by (intro monadic_rules date_now_kept fetchFromUrls_kept remainingTimeoutMs_kept)

end

text \<open>When the log entry of a request keeps it too, so do all requests and queries.\<close>

locale rpc_relation = outside_relation R
  for R :: "'z rpc_world_scheme \<Rightarrow> 'z rpc_world_scheme \<Rightarrow> bool" +
  assumes rel_log: "R s (s\<lparr>w_calls := w_calls s @ [call]\<rparr>)"
begin

lemma request_kept: "jinv R (request env client meth params timeout)"
proof (rule jinvI)
  fix s t :: "'z rpc_world_scheme" and r
  assume "request env client meth params timeout s = (r, t)"
  then obtain u call where u: "unlogged_request env client meth params
      (at_least_one (cl_requestTimeoutMs client) timeout) s = (r, u)" and t: "t = u\<lparr>w_calls := w_calls u @ [call]\<rparr>"
    by (auto simp: request_def logged_def Let_def split: prod.splits)
  from unlogged_request_kept u have "R s u" by (rule jinvD)
  moreover have "R u t" unfolding t by (rule rel_log)
  ultimately show "R s t" by (rule transpD [OF rel_trans])
qed

lemma queries_kept:
  "jinv R (getTransactionReceipt env client txHash timeout)"
  "jinv R (getBlockByNumber env client blockTag timeout)"
  "jinv R (getTransactionByHash env client txHash timeout)"
  "jinv R (getTransactionCount env client address blockTag timeout)"
  unfolding getTransactionReceipt_def getBlockByNumber_def getTransactionByHash_def getTransactionCount_def
  by (intro monadic_rules request_kept)+

end

text \<open>The clock never goes back and the log only grows.\<close>

definition moves_on :: "'z rpc_world_scheme \<Rightarrow> 'z rpc_world_scheme \<Rightarrow> bool" where
  "moves_on s t \<longleftrightarrow> w_clock s \<le> w_clock t \<and> (\<exists>new. w_calls t = w_calls s @ new)"

interpretation moving: rpc_relation moves_on
  by unfold_locales (auto simp: moves_on_def reflp_def transp_def)

text \<open>Until it is logged, a request leaves the log alone; so it adds exactly one entry, its outcome.\<close>

interpretation unlogged: outside_relation "\<lambda>s t. w_calls t = w_calls s"
  by unfold_locales (auto simp: reflp_def transp_def)

lemma request_log:
  assumes "request env client meth params timeout s = (r, t)"
  shows "w_calls t = w_calls s @ [\<lparr>call_method = meth, call_params = params,
           call_timeoutMs = at_least_one (cl_requestTimeoutMs client) timeout, call_answer = r\<rparr>]"
  using assms jinvD [OF unlogged.unlogged_request_kept]
  by (fastforce simp: request_def logged_def Let_def split: prod.splits)

section \<open>Which endpoint answers\<close>

text \<open>An answer that ends the loop over the endpoints even when there are more of them.\<close>

fun usable :: "fetch_answer \<Rightarrow> bool" where
  "usable (Responded status body) \<longleftrightarrow> status \<noteq> 429 \<and> status < 500"
| "usable FetchTimedOut \<longleftrightarrow> False"
| "usable (FetchRejected err) \<longleftrightarrow> False"

text \<open>\<open>answered env meth params timeoutMs url a\<close>: \<open>a\<close> is an answer of the endpoint to this request within its time.\<close>

definition answered :: "rpc_env \<Rightarrow> string \<Rightarrow> jsval list \<Rightarrow> int \<Rightarrow> string \<Rightarrow> fetch_answer \<Rightarrow> bool" where
  "answered env meth params timeoutMs url a \<longleftrightarrow>
     (\<exists>k window. 1 \<le> window \<and> window \<le> max 1 timeoutMs \<and> rpc_fetch env k url meth params window = a)"

lemma remainingTimeoutMs_result:
  "remainingTimeoutMs env timeoutMs startedAt s = (r, t) \<Longrightarrow> \<exists>w. r = Inr w \<and> 1 \<le> w \<and> w \<le> max 1 timeoutMs"
  by (auto simp: remainingTimeoutMs_def date_now_def pass_time_def jm_eval)

lemma outside_result: "outside f s = (r, t) \<Longrightarrow> r = Inr (f (w_tick s))"
  by (auto simp: outside_def)

lemma fetchFromUrls_response:
  assumes "fetchFromUrls env meth params timeoutMs startedAt urls lastError s = (Inr (Inr (status, body)), t)"
  shows "\<exists>i < length urls. answered env meth params timeoutMs (urls ! i) (Responded status body) \<and>
           (\<forall>j < i. \<exists>a. answered env meth params timeoutMs (urls ! j) a \<and> \<not> usable a)"
  using assms
proof (induction urls arbitrary: lastError s)
  case Nil
  then show ?case by (simp add: jm_eval)
next
  case (Cons url urls)
  from Cons.prems obtain window u where window: "remainingTimeoutMs env timeoutMs startedAt s = (Inr window, u)"
    and rest: "jbind (outside (\<lambda>k. rpc_fetch env k url meth params window)) (\<lambda>candidate.
       case candidate of
         Responded status body \<Rightarrow>
           if (status = 429 \<or> status \<ge> 500) \<and> urls \<noteq> []
           then fetchFromUrls env meth params timeoutMs startedAt urls lastError
           else jret (Inr (status, body))
       | FetchTimedOut \<Rightarrow>
           fetchFromUrls env meth params timeoutMs startedAt urls (Some (timed_out meth ''request'' timeoutMs))
       | FetchRejected err \<Rightarrow> fetchFromUrls env meth params timeoutMs startedAt urls (Some err)) u
         = (Inr (Inr (status, body)), t)"
    unfolding fetchFromUrls.simps jbind_ret_iff by blast
  define a where "a = rpc_fetch env (w_tick u) url meth params window"
  have a: "answered env meth params timeoutMs url a"
    using remainingTimeoutMs_result [OF window] by (auto simp: answered_def a_def)
  have shift: ?case if "fetchFromUrls env meth params timeoutMs startedAt urls err v = (Inr (Inr (status, body)), t)"
      and "\<not> usable a" for err v
  proof -
    from Cons.IH [OF that(1)] obtain i where i: "i < length urls"
        "answered env meth params timeoutMs (urls ! i) (Responded status body)"
        "\<forall>j < i. \<exists>a. answered env meth params timeoutMs (urls ! j) a \<and> \<not> usable a" by blast
    have "\<exists>b. answered env meth params timeoutMs ((url # urls) ! j) b \<and> \<not> usable b" if "j < Suc i" for j
      using that i(3) a \<open>\<not> usable a\<close> by (cases j) auto
    with i show ?thesis by (intro exI [of _ "Suc i"]) auto
  qed
  from rest show ?case
  proof (cases a)
    case (Responded st b)
    show ?thesis
    proof (cases "(st = 429 \<or> st \<ge> 500) \<and> urls \<noteq> []")
      case True
      with rest Responded show ?thesis
        by (intro shift [of lastError]) (auto simp: jm_eval outside_def a_def)
    next
      case False
      with rest Responded have "st = status" "b = body" by (auto simp: jm_eval outside_def a_def split: if_splits)
      with a Responded show ?thesis by (intro exI [of _ 0]) simp
    qed
  next
    case FetchTimedOut
    with rest show ?thesis by (intro shift) (auto simp: jm_eval outside_def a_def)
  next
    case (FetchRejected err)
    with rest show ?thesis by (intro shift) (auto simp: jm_eval outside_def a_def)
  qed
qed

text \<open>
  A request returns a result only when some configured endpoint answered it, within its time, with a
  success status and a valid JSON-RPC success envelope that holds this result, and every endpoint before
  that one in the list failed, timed out, was throttled or had a server error.
\<close>

theorem request_from_first_usable:
  assumes "request env client meth params timeout s = (Inr v, t)"
  shows "\<exists>i < length (cl_rpcUrls client). \<exists>status payload.
           answered env meth params (at_least_one (cl_requestTimeoutMs client) timeout) (cl_rpcUrls client ! i)
             (Responded status (BodyValue payload)) \<and>
           200 \<le> status \<and> status \<le> 299 \<and> (\<exists>reply_id. decodeJsonRpcEnvelope payload = Inr (RpcSuccess reply_id v)) \<and>
           (\<forall>j < i. \<exists>a. answered env meth params (at_least_one (cl_requestTimeoutMs client) timeout)
               (cl_rpcUrls client ! j) a \<and> \<not> usable a)"
proof -
  let ?ms = "at_least_one (cl_requestTimeoutMs client) timeout"
  from assms obtain u where "unlogged_request env client meth params ?ms s = (Inr v, u)"
    by (auto simp: request_def logged_def Let_def split: prod.splits)
  then obtain startedAt s1 response s2
    where fetch: "fetchFromUrls env meth params ?ms startedAt (cl_rpcUrls client) None s1 = (Inr response, s2)"
      and read: "read_response env meth ?ms startedAt response s2 = (Inr v, u)"
    by (auto simp: unlogged_request_def jbind_ret_iff jseq_ret_iff)
  from read obtain status payload where response: "response = Inr (status, BodyValue payload)"
      and ok: "200 \<le> status" "status \<le> 299" and result: "payload_result meth payload = Inr v"
    by (auto simp: read_response_def body_payload_def jm_eval split: sum.splits prod.splits if_splits body_answer.splits)
  from result have "\<exists>reply_id. decodeJsonRpcEnvelope payload = Inr (RpcSuccess reply_id v)"
    by (auto simp: payload_result_def Let_def split: sum.splits JsonRpcEnvelope.splits)
  with ok fetchFromUrls_response [OF fetch [unfolded response]] show ?thesis by blast
qed

lemmas rpc_eval = request_def unlogged_request_def read_response_def logged_def date_now_def pass_time_def
  remainingTimeoutMs_def outside_def body_payload_def payload_result_def decodeJsonRpcEnvelope_def isJsonRpcId_def
  is_string_def finite_number_def at_least_one_def jfield.simps jm_eval

definition example_reply :: "jsval \<Rightarrow> fetch_answer" where
  "example_reply result = Responded 200 (BodyValue (JObj [(''jsonrpc'', JStr ''2.0''), (''id'', JNum 1), (''result'', result)]))"

definition failover_env :: rpc_env where
  "failover_env = \<lparr>rpc_elapse = (\<lambda>_. 3),
     rpc_fetch = (\<lambda>k url meth params window. if url = ''https://a/'' then Responded 503 BodyTimedOut else example_reply (JStr ''0x5'')),
     rpc_aborted = (\<lambda>_. None)\<rparr>"

definition failover_client :: evm_client where
  "failover_client = \<lparr>cl_rpcUrls = [''https://a/'', ''https://b/''], cl_requestTimeoutMs = 15000\<rparr>"

definition quiet_world :: rpc_world where
  "quiet_world = \<lparr>w_clock = 0, w_tick = 0, w_calls = []\<rparr>"

theorem request_from_first_usable_witness:
  "fst (request failover_env failover_client ''eth_chainId'' [] None quiet_world) = Inr (JStr ''0x5'') \<and>
   (\<exists>i < 2. \<exists>status payload.
      answered failover_env ''eth_chainId'' [] 15000 (cl_rpcUrls failover_client ! i) (Responded status (BodyValue payload)) \<and>
      200 \<le> status \<and> status \<le> 299)"
proof -
  have run: "fst (request failover_env failover_client ''eth_chainId'' [] None quiet_world) = Inr (JStr ''0x5'')"
    by (simp add: rpc_eval failover_env_def failover_client_def quiet_world_def example_reply_def)
  then have "request failover_env failover_client ''eth_chainId'' [] None quiet_world
      = (Inr (JStr ''0x5''), snd (request failover_env failover_client ''eth_chainId'' [] None quiet_world))"
    by (simp add: prod_eq_iff)
  from request_from_first_usable [OF this]
  have "\<exists>i < length (cl_rpcUrls failover_client). \<exists>status payload.
      answered failover_env ''eth_chainId'' [] (at_least_one (cl_requestTimeoutMs failover_client) None)
        (cl_rpcUrls failover_client ! i) (Responded status (BodyValue payload)) \<and> 200 \<le> status \<and> status \<le> 299"
    by blast
  moreover have "length (cl_rpcUrls failover_client) = 2"
      and "at_least_one (cl_requestTimeoutMs failover_client) None = 15000"
    by (simp_all add: failover_client_def at_least_one_def)
  ultimately show ?thesis using run by simp
qed

end
