(* ===== verification/EvmReceiptWait.thy ===== *)
theory EvmReceiptWait
  imports EvmRpcClient
begin

text \<open>
  Waiting for the receipt of a broadcast transaction (\<open>waitForTransactionReceipt\<close> of
  \<open>rpcClients/evm/EvmClient.ts\<close>). The local variables of the function are the fields of \<open>wait_state\<close>, one
  round of its loop is \<open>pollOnce\<close>, and the branches of a round are definitions of their own. The loop
  terminates because every round that goes on sleeps at least one millisecond. The timeout and the poll
  interval are whole numbers of milliseconds; a wait with an infinite timeout is not modelled.
\<close>

section \<open>Arguments and local variables\<close>

definition DEFAULT_WAIT_TIMEOUT_MS :: int where "DEFAULT_WAIT_TIMEOUT_MS = 90000"
definition DEFAULT_POLL_INTERVAL_MS :: int where "DEFAULT_POLL_INTERVAL_MS = 1250"
definition DEFAULT_CONFIRMATIONS :: int where "DEFAULT_CONFIRMATIONS = 1"

record WaitForEvmTransactionReceiptArgs =
  wa_txHash :: string
  wa_timeoutMs :: "int option"
  wa_pollIntervalMs :: "int option"
  wa_maxFeePerGasHint :: "int option"
  wa_confirmations :: "int option"
  wa_transactionSenderAddress :: "string option"
  wa_nonceHint :: "int option"

definition wait_timeoutMs :: "WaitForEvmTransactionReceiptArgs \<Rightarrow> int" where
  "wait_timeoutMs args = at_least_one DEFAULT_WAIT_TIMEOUT_MS (wa_timeoutMs args)"

definition wait_pollIntervalMs :: "WaitForEvmTransactionReceiptArgs \<Rightarrow> int" where
  "wait_pollIntervalMs args = at_least_one DEFAULT_POLL_INTERVAL_MS (wa_pollIntervalMs args)"

definition wait_confirmations :: "WaitForEvmTransactionReceiptArgs \<Rightarrow> int" where
  "wait_confirmations args = at_least_one DEFAULT_CONFIRMATIONS (wa_confirmations args)"

definition missingNeverSeenMinDurationMs :: "WaitForEvmTransactionReceiptArgs \<Rightarrow> int" where
  "missingNeverSeenMinDurationMs args = min 30000 (max (wait_pollIntervalMs args * 3) (wait_timeoutMs args div 3))"

definition missingLikelyReplacedMinDurationMs :: "WaitForEvmTransactionReceiptArgs \<Rightarrow> int" where
  "missingLikelyReplacedMinDurationMs args = min 15000 (max (wait_pollIntervalMs args * 3) (wait_timeoutMs args div 6))"

definition missingNonceGapMinDurationMs :: "WaitForEvmTransactionReceiptArgs \<Rightarrow> int" where
  "missingNonceGapMinDurationMs args = min 10000 (max (wait_pollIntervalMs args * 3) (wait_timeoutMs args div 5))"

record wait_state = rpc_world +
  lastRpcError :: "evm_error option"
  underpricedSinceMs :: "int option"
  observedTxFrom :: "string option"
  observedTxNonce :: "int option"
  nonceAdvancedStreak :: nat
  txSeenByHash :: bool
  txMissingWithoutEverSeenStreak :: nat
  txMissingLikelyReplacedStreak :: nat
  txMissingNonceGapStreak :: nat
  txByHashSnapshot :: "EvmTransactionByHash option option"

type_synonym 'a wait_m = "(wait_state, evm_error, 'a) jsm"

text \<open>The times fixed when the wait starts.\<close>

record wait_times =
  wt_deadline :: int
  wt_startedAtMs :: int

section \<open>Aborting and sleeping\<close>

definition toAbortError :: "abort_reason \<Rightarrow> evm_error" where
  "toAbortError reason =
     (case reason of
        ReasonError err \<Rightarrow> RpcThrown err
      | ReasonOther v \<Rightarrow>
          (let message = js_trim (js_String_or_empty v)
           in Aborted (Some ''aborted'') (if message = [] then ''Operation aborted'' else message)))"

definition throwIfAborted :: "rpc_env \<Rightarrow> unit wait_m" where
  "throwIfAborted env =
     jbind (outside (rpc_aborted env)) (\<lambda>reason.
       case reason of None \<Rightarrow> jret () | Some r \<Rightarrow> jthrow (toAbortError r))"

text \<open>The sleep ends by an abort or, after the delay, by its timer.\<close>

definition sleepWithAbort :: "rpc_env \<Rightarrow> int \<Rightarrow> unit wait_m" where
  "sleepWithAbort env ms =
     jseq (throwIfAborted env)
     (jbind (outside (rpc_aborted env)) (\<lambda>reason.
       case reason of
         Some r \<Rightarrow> jseq (pass_time env 0) (jthrow (toAbortError r))
       | None \<Rightarrow> pass_time env ms))"

section \<open>Queries of a round\<close>

definition toAddressOrNull :: "jsval \<Rightarrow> string option" where
  "toAddressOrNull value =
     (let normalized = js_trim (js_String_or_empty value)
      in if is_mixed_hex 40 normalized then Some normalized else None)"

definition toHexQuantityOrNull :: "jsval \<Rightarrow> string option" where
  "toHexQuantityOrNull value =
     (let normalized = js_trim (js_String_or_empty value)
      in if is_hex_quantity normalized then Some normalized else None)"

text \<open>\<open>Math.min(requestTimeoutMs, Math.max(1, deadline - Date.now()))\<close>.\<close>

definition time_left :: "rpc_env \<Rightarrow> evm_client \<Rightarrow> wait_times \<Rightarrow> int wait_m" where
  "time_left env client span =
     jbind (date_now env) (\<lambda>t. jret (min (cl_requestTimeoutMs client) (max 1 (wt_deadline span - t))))"

text \<open>\<open>.catch(() => null)\<close>.\<close>

definition or_null :: "'a option wait_m \<Rightarrow> 'a option wait_m" where
  "or_null m = jcatch m (\<lambda>_. jret None)"

definition query_transaction ::
  "rpc_env \<Rightarrow> evm_client \<Rightarrow> WaitForEvmTransactionReceiptArgs \<Rightarrow> int \<Rightarrow> EvmTransactionByHash option wait_m" where
  "query_transaction env client args timeout =
     or_null (getTransactionByHash env client (wa_txHash args) (Some timeout))"

definition query_nonce ::
  "rpc_env \<Rightarrow> evm_client \<Rightarrow> wait_times \<Rightarrow> string \<Rightarrow> string \<Rightarrow> int option wait_m" where
  "query_nonce env client span from blockTag =
     jbind (time_left env client span) (\<lambda>timeout.
       or_null (jbind (getTransactionCount env client from blockTag (Some timeout)) (\<lambda>n. jret (Some n))))"

definition query_latest_block :: "rpc_env \<Rightarrow> evm_client \<Rightarrow> wait_times \<Rightarrow> EvmBlockHeader option wait_m" where
  "query_latest_block env client span =
     jbind (time_left env client span) (\<lambda>timeout. or_null (getBlockByNumber env client ''latest'' (Some timeout)))"

text \<open>The lookup by hash that uses the snapshot of the round when there is one.\<close>

definition lookup_transaction ::
  "rpc_env \<Rightarrow> evm_client \<Rightarrow> WaitForEvmTransactionReceiptArgs \<Rightarrow> wait_times \<Rightarrow> EvmTransactionByHash option wait_m" where
  "lookup_transaction env client args span =
     jbind (time_left env client span) (\<lambda>timeout.
     jbind (jget txByHashSnapshot) (\<lambda>snapshot.
     jbind (case snapshot of None \<Rightarrow> query_transaction env client args timeout | Some tx \<Rightarrow> jret tx) (\<lambda>tx.
       jseq (jmod (\<lambda>s. s\<lparr>txByHashSnapshot := Some tx\<rparr>)) (jret tx))))"

definition tx_field :: "(EvmTransactionByHash \<Rightarrow> jsval) \<Rightarrow> EvmTransactionByHash option \<Rightarrow> jsval" where
  "tx_field f tx = (case tx of None \<Rightarrow> JUndefined | Some x \<Rightarrow> f x)"

definition txMatchesObservedNonce :: "string \<Rightarrow> int \<Rightarrow> EvmTransactionByHash option \<Rightarrow> bool" where
  "txMatchesObservedNonce observedFrom observedNonce tx =
     (case (toAddressOrNull (tx_field tx_from tx), toHexQuantityOrNull (tx_field tx_nonce tx)) of
        (Some txFrom, Some txNonceHex) \<Rightarrow>
          js_lower txFrom = js_lower observedFrom \<and> parseRpcQuantity (JStr txNonceHex) ''tx.nonce'' = Inr observedNonce
      | _ \<Rightarrow> False)"

text \<open>Whether the latest block is deep enough past the block of a receipt.\<close>

definition depth_reached ::
  "rpc_env \<Rightarrow> evm_client \<Rightarrow> WaitForEvmTransactionReceiptArgs \<Rightarrow> wait_times \<Rightarrow> int \<Rightarrow> bool wait_m" where
  "depth_reached env client args span receiptBlock =
     jbind (query_latest_block env client span) (\<lambda>latestBlock.
       case toHexQuantityOrNull (case latestBlock of None \<Rightarrow> JUndefined | Some b \<Rightarrow> bh_number b) of
         None \<Rightarrow> jret False
       | Some latestBlockHex \<Rightarrow>
           jbind (jlift (parseRpcQuantity (JStr latestBlockHex) ''latest.number'')) (\<lambda>latestBlockNumber.
             jret (latestBlockNumber \<ge> receiptBlock \<and>
                   latestBlockNumber - receiptBlock + 1 \<ge> wait_confirmations args)))"

section \<open>The branches of a round\<close>

text \<open>The receipt query at the start of a round; a failure is remembered.\<close>

definition read_receipt ::
  "rpc_env \<Rightarrow> evm_client \<Rightarrow> WaitForEvmTransactionReceiptArgs \<Rightarrow> wait_times \<Rightarrow> EvmTransactionReceipt option wait_m" where
  "read_receipt env client args span =
     jcatch
       (jbind (time_left env client span) (\<lambda>timeout.
        jbind (getTransactionReceipt env client (wa_txHash args) (Some timeout)) (\<lambda>receipt.
          jseq (jmod (\<lambda>s. s\<lparr>lastRpcError := None\<rparr>)) (jret receipt))))
       (\<lambda>e. jseq (jmod (\<lambda>s. s\<lparr>lastRpcError := Some e\<rparr>)) (jret None))"

text \<open>Learns sender and nonce from the transaction found by its hash.\<close>

definition observe_transaction ::
  "rpc_env \<Rightarrow> evm_client \<Rightarrow> WaitForEvmTransactionReceiptArgs \<Rightarrow> wait_times \<Rightarrow> unit wait_m" where
  "observe_transaction env client args span =
     jbind (jget (\<lambda>s. observedTxFrom s = None \<or> observedTxNonce s = None \<or> \<not> txSeenByHash s)) (\<lambda>needed.
       jwhen needed
         (jbind (time_left env client span) (\<lambda>timeout.
          jbind (query_transaction env client args timeout) (\<lambda>tx.
          jseq (jmod (\<lambda>s. s\<lparr>txByHashSnapshot := Some tx\<rparr>))
            (case (toAddressOrNull (tx_field tx_from tx), toHexQuantityOrNull (tx_field tx_nonce tx)) of
               (Some txFrom, Some txNonceHex) \<Rightarrow>
                 jbind (jlift (parseRpcQuantity (JStr txNonceHex) ''tx.nonce'')) (\<lambda>txNonce.
                 jseq (jmod (\<lambda>s. s\<lparr>observedTxFrom := Some (case observedTxFrom s of None \<Rightarrow> txFrom | Some f \<Rightarrow> f),
                                   observedTxNonce := Some (case observedTxNonce s of None \<Rightarrow> txNonce | Some n \<Rightarrow> n)\<rparr>))
                   (jmod (\<lambda>s. if map_option js_lower (observedTxFrom s) = Some (js_lower txFrom) \<and>
                                 observedTxNonce s = Some txNonce
                              then s\<lparr>txSeenByHash := True, txMissingWithoutEverSeenStreak := 0,
                                     txMissingLikelyReplacedStreak := 0\<rparr>
                              else s)))
             | _ \<Rightarrow> jret ())))))"

text \<open>The receipt query before a transaction is reported dropped.\<close>

definition final_receipt_check ::
  "rpc_env \<Rightarrow> evm_client \<Rightarrow> WaitForEvmTransactionReceiptArgs \<Rightarrow> wait_times \<Rightarrow> string \<Rightarrow> int \<Rightarrow> int \<Rightarrow>
   EvmTransactionReceipt option wait_m" where
  "final_receipt_check env client args span from nonce latestNonce =
     jbind (time_left env client span) (\<lambda>timeout.
     jbind (or_null (getTransactionReceipt env client (wa_txHash args) (Some timeout))) (\<lambda>finalReceipt.
       case (case finalReceipt of None \<Rightarrow> None
             | Some r \<Rightarrow> map_option (Pair r) (toHexQuantityOrNull (JStr (rc_blockNumber r)))) of
         None \<Rightarrow> jthrow (DroppedOrReplaced OutcomeDropped nonce latestNonce from DroppedNonceAdvanced)
       | Some (r, blockHex) \<Rightarrow>
           jbind (jlift (parseRpcQuantity (JStr blockHex) ''receipt.blockNumber'')) (\<lambda>finalReceiptBlock.
             if wait_confirmations args \<le> 1 then jret (Some r)
             else jbind (depth_reached env client args span finalReceiptBlock) (\<lambda>deep.
               if deep then jret (Some r)
               else jseq (jmod (\<lambda>s. s\<lparr>nonceAdvancedStreak := 0\<rparr>)) (jret None)))))"

text \<open>The account nonce has passed the nonce of the transaction.\<close>

definition nonce_advanced ::
  "rpc_env \<Rightarrow> evm_client \<Rightarrow> WaitForEvmTransactionReceiptArgs \<Rightarrow> wait_times \<Rightarrow> string \<Rightarrow> int \<Rightarrow> int \<Rightarrow>
   EvmTransactionReceipt option wait_m" where
  "nonce_advanced env client args span from nonce latestNonce =
     jbind (lookup_transaction env client args span) (\<lambda>tx.
     jseq (jwhen (txMatchesObservedNonce from nonce tx) (jmod (\<lambda>s. s\<lparr>txSeenByHash := True\<rparr>)))
     (jseq
       (if toHexQuantityOrNull (tx_field tx_blockNumber tx) \<noteq> None \<or> txMatchesObservedNonce from nonce tx
        then jmod (\<lambda>s. s\<lparr>nonceAdvancedStreak := 0, txMissingWithoutEverSeenStreak := 0, txMissingLikelyReplacedStreak := 0\<rparr>)
        else jbind (query_nonce env client span from ''pending'') (\<lambda>pendingNonce.
          if (case pendingNonce of None \<Rightarrow> False | Some p \<Rightarrow> p \<le> nonce)
          then jmod (\<lambda>s. s\<lparr>nonceAdvancedStreak := 0, txMissingLikelyReplacedStreak := 0\<rparr>)
          else jmod (\<lambda>s. s\<lparr>nonceAdvancedStreak := nonceAdvancedStreak s + 1, txMissingLikelyReplacedStreak := 0\<rparr>)))
     (jbind (jget nonceAdvancedStreak) (\<lambda>streak.
       if streak \<ge> 2 then final_receipt_check env client args span from nonce latestNonce else jret None))))"

text \<open>\<open>Date.now() - waitStartedAtMs\<close>.\<close>

definition waited_ms :: "rpc_env \<Rightarrow> wait_times \<Rightarrow> int wait_m" where
  "waited_ms env span = jbind (date_now env) (\<lambda>t. jret (t - wt_startedAtMs span))"

text \<open>Throws \<open>e\<close> when \<open>streak\<close> has reached \<open>n\<close> and the wait has lasted at least \<open>ms\<close>.\<close>

definition throw_after :: "(wait_state \<Rightarrow> nat) \<Rightarrow> nat \<Rightarrow> int \<Rightarrow> int \<Rightarrow> evm_error \<Rightarrow> unit wait_m" where
  "throw_after streak n waitedMs ms e =
     jbind (jget streak) (\<lambda>k. jwhen (k \<ge> n \<and> waitedMs \<ge> ms) (jthrow e))"

text \<open>The account nonce is behind and the hash has never been visible.\<close>

definition nonce_gap ::
  "rpc_env \<Rightarrow> evm_client \<Rightarrow> WaitForEvmTransactionReceiptArgs \<Rightarrow> wait_times \<Rightarrow> string \<Rightarrow> int \<Rightarrow> int \<Rightarrow> unit wait_m" where
  "nonce_gap env client args span from nonce latestNonce =
     jbind (lookup_transaction env client args span) (\<lambda>tx.
     jseq
       (if txMatchesObservedNonce from nonce tx
        then jmod (\<lambda>s. s\<lparr>txSeenByHash := True, txMissingNonceGapStreak := 0, txMissingWithoutEverSeenStreak := 0,
                        txMissingLikelyReplacedStreak := 0\<rparr>)
        else jbind (query_nonce env client span from ''pending'') (\<lambda>pendingNonce.
          case pendingNonce of
            None \<Rightarrow> jmod (\<lambda>s. s\<lparr>txMissingNonceGapStreak := 0, txMissingWithoutEverSeenStreak := 0,
                              txMissingLikelyReplacedStreak := 0\<rparr>)
          | Some p \<Rightarrow>
              if p \<le> nonce
              then jmod (\<lambda>s. s\<lparr>txMissingNonceGapStreak := txMissingNonceGapStreak s + 1,
                              txMissingWithoutEverSeenStreak := 0, txMissingLikelyReplacedStreak := 0\<rparr>)
              else jmod (\<lambda>s. s\<lparr>txMissingNonceGapStreak := 0, txMissingWithoutEverSeenStreak := 0,
                              txMissingLikelyReplacedStreak := txMissingLikelyReplacedStreak s + 1\<rparr>)))
     (jbind (waited_ms env span) (\<lambda>waitedMs.
     jseq (throw_after txMissingNonceGapStreak 2 waitedMs (missingNonceGapMinDurationMs args)
             (DroppedOrReplaced OutcomeDropped nonce latestNonce from DroppedNonceGap))
       (throw_after txMissingLikelyReplacedStreak 2 waitedMs (missingLikelyReplacedMinDurationMs args)
             (DroppedOrReplaced OutcomeReplaced nonce latestNonce from DroppedHashDisappeared)))))"

text \<open>The hash has been visible before.\<close>

definition seen_before ::
  "rpc_env \<Rightarrow> evm_client \<Rightarrow> WaitForEvmTransactionReceiptArgs \<Rightarrow> wait_times \<Rightarrow> string \<Rightarrow> int \<Rightarrow> int \<Rightarrow> unit wait_m" where
  "seen_before env client args span from nonce latestNonce =
     jbind (lookup_transaction env client args span) (\<lambda>tx.
     jseq
       (if txMatchesObservedNonce from nonce tx
        then jmod (\<lambda>s. s\<lparr>txMissingWithoutEverSeenStreak := 0, txMissingLikelyReplacedStreak := 0\<rparr>)
        else jbind (query_nonce env client span from ''pending'') (\<lambda>pendingNonce.
          if (case pendingNonce of None \<Rightarrow> False | Some p \<Rightarrow> p > nonce)
          then jmod (\<lambda>s. s\<lparr>txMissingLikelyReplacedStreak := txMissingLikelyReplacedStreak s + 1\<rparr>)
          else jmod (\<lambda>s. s\<lparr>txMissingLikelyReplacedStreak := 0\<rparr>)))
     (jbind (waited_ms env span) (\<lambda>waitedMs.
       throw_after txMissingLikelyReplacedStreak 2 waitedMs (missingLikelyReplacedMinDurationMs args)
         (DroppedOrReplaced OutcomeReplaced nonce latestNonce from DroppedHashDisappeared))))"

text \<open>The hash has never been visible.\<close>

definition never_seen ::
  "rpc_env \<Rightarrow> evm_client \<Rightarrow> WaitForEvmTransactionReceiptArgs \<Rightarrow> wait_times \<Rightarrow> string \<Rightarrow> int \<Rightarrow> int \<Rightarrow> unit wait_m" where
  "never_seen env client args span from nonce latestNonce =
     jbind (lookup_transaction env client args span) (\<lambda>tx.
     jseq
       (if txMatchesObservedNonce from nonce tx
        then jmod (\<lambda>s. s\<lparr>txSeenByHash := True, txMissingWithoutEverSeenStreak := 0, txMissingLikelyReplacedStreak := 0\<rparr>)
        else jbind (query_nonce env client span from ''pending'') (\<lambda>pendingNonce.
          if pendingNonce = Some nonce \<and> latestNonce = nonce
          then jmod (\<lambda>s. s\<lparr>txMissingWithoutEverSeenStreak := txMissingWithoutEverSeenStreak s + 1,
                          txMissingLikelyReplacedStreak := 0\<rparr>)
          else if (case pendingNonce of None \<Rightarrow> False | Some p \<Rightarrow> p > nonce)
          then jmod (\<lambda>s. s\<lparr>txMissingWithoutEverSeenStreak := 0,
                          txMissingLikelyReplacedStreak := txMissingLikelyReplacedStreak s + 1\<rparr>)
          else jmod (\<lambda>s. s\<lparr>txMissingWithoutEverSeenStreak := 0, txMissingLikelyReplacedStreak := 0\<rparr>)))
     (jbind (waited_ms env span) (\<lambda>waitedMs.
     jseq (throw_after txMissingWithoutEverSeenStreak 3 waitedMs (missingNeverSeenMinDurationMs args)
             (DroppedOrReplaced OutcomeDropped nonce latestNonce from DroppedHashDisappeared))
       (throw_after txMissingLikelyReplacedStreak 2 waitedMs (missingLikelyReplacedMinDurationMs args)
             (DroppedOrReplaced OutcomeReplaced nonce latestNonce from DroppedHashDisappeared)))))"

text \<open>The account nonce has not passed the nonce of the transaction.\<close>

definition nonce_not_advanced ::
  "rpc_env \<Rightarrow> evm_client \<Rightarrow> WaitForEvmTransactionReceiptArgs \<Rightarrow> wait_times \<Rightarrow> string \<Rightarrow> int \<Rightarrow> int \<Rightarrow> unit wait_m" where
  "nonce_not_advanced env client args span from nonce latestNonce =
     jseq (jmod (\<lambda>s. s\<lparr>nonceAdvancedStreak := 0\<rparr>))
     (jseq (jbind (jget txSeenByHash) (\<lambda>seen.
        jwhen (latestNonce < nonce \<and> \<not> seen) (nonce_gap env client args span from nonce latestNonce)))
     (jseq (jbind (jget txSeenByHash) (\<lambda>seen. jwhen seen (seen_before env client args span from nonce latestNonce)))
       (jbind (jget txSeenByHash) (\<lambda>seen. jwhen (\<not> seen) (never_seen env client args span from nonce latestNonce)))))"

definition check_nonces ::
  "rpc_env \<Rightarrow> evm_client \<Rightarrow> WaitForEvmTransactionReceiptArgs \<Rightarrow> wait_times \<Rightarrow> EvmTransactionReceipt option wait_m" where
  "check_nonces env client args span =
     jbind (jget (\<lambda>s. (observedTxFrom s, observedTxNonce s))) (\<lambda>observed.
       case observed of
         (Some from, Some nonce) \<Rightarrow>
           if from = [] then jret None
           else jbind (query_nonce env client span from ''latest'') (\<lambda>latest.
             case latest of
               None \<Rightarrow> jret None
             | Some latestNonce \<Rightarrow>
                 if latestNonce > nonce then nonce_advanced env client args span from nonce latestNonce
                 else jseq (nonce_not_advanced env client args span from nonce latestNonce) (jret None))
       | _ \<Rightarrow> jret None)"

text \<open>A base fee above the fee cap for long enough ends the wait.\<close>

definition check_fees ::
  "rpc_env \<Rightarrow> evm_client \<Rightarrow> WaitForEvmTransactionReceiptArgs \<Rightarrow> wait_times \<Rightarrow> unit wait_m" where
  "check_fees env client args span =
     (case wa_maxFeePerGasHint args of
        None \<Rightarrow> jret ()
      | Some hint \<Rightarrow>
          jbind (query_latest_block env client span) (\<lambda>latestBlock.
            case toHexQuantityOrNull (case latestBlock of None \<Rightarrow> JUndefined | Some b \<Rightarrow> bh_baseFeePerGas b) of
              None \<Rightarrow> jret ()
            | Some baseFeeHex \<Rightarrow>
                (case parseRpcQuantity (JStr baseFeeHex) ''baseFeePerGas'' of
                   Inr baseFee \<Rightarrow>
                     if baseFee > hint
                     then
                       jbind (jget underpricedSinceMs) (\<lambda>since.
                       jseq (jwhen (since = None)
                               (jbind (date_now env) (\<lambda>t. jmod (\<lambda>s. s\<lparr>underpricedSinceMs := Some t\<rparr>))))
                       (jbind (date_now env) (\<lambda>t.
                        jbind (jget underpricedSinceMs) (\<lambda>since'.
                          jwhen (case since' of None \<Rightarrow> False
                                 | Some u \<Rightarrow> t - u \<ge> min 30000 (wait_timeoutMs args div 3))
                            (jthrow (Underpriced hint baseFee))))))
                     else jmod (\<lambda>s. s\<lparr>underpricedSinceMs := None\<rparr>)
                 | Inl _ \<Rightarrow> jmod (\<lambda>s. s\<lparr>underpricedSinceMs := None\<rparr>))))"

section \<open>The loop\<close>

text \<open>One round: a receipt to return, or \<open>None\<close> after the sleep before the next round.\<close>

definition pollOnce ::
  "rpc_env \<Rightarrow> evm_client \<Rightarrow> WaitForEvmTransactionReceiptArgs \<Rightarrow> wait_times \<Rightarrow> EvmTransactionReceipt option wait_m" where
  "pollOnce env client args span =
     jseq (throwIfAborted env)
     (jbind (read_receipt env client args span) (\<lambda>receipt.
       case receipt of
         Some r \<Rightarrow>
           jbind (jlift (parseRpcQuantity (JStr (rc_blockNumber r)) ''receipt.blockNumber'')) (\<lambda>receiptBlockNumber.
             if wait_confirmations args \<le> 1 then jret (Some r)
             else jbind (depth_reached env client args span receiptBlockNumber) (\<lambda>deep.
               if deep then jret (Some r)
               else jseq (sleepWithAbort env (wait_pollIntervalMs args)) (jret None)))
       | None \<Rightarrow>
           jseq (jmod (\<lambda>s. s\<lparr>txByHashSnapshot := None\<rparr>))
           (jseq (observe_transaction env client args span)
           (jbind (check_nonces env client args span) (\<lambda>finalReceipt.
             case finalReceipt of
               Some r \<Rightarrow> jret (Some r)
             | None \<Rightarrow>
                 jseq (check_fees env client args span)
                 (jseq (sleepWithAbort env (wait_pollIntervalMs args)) (jret None)))))))"

definition receipt_timed_out :: "rpc_env \<Rightarrow> WaitForEvmTransactionReceiptArgs \<Rightarrow> EvmTransactionReceipt wait_m" where
  "receipt_timed_out env args =
     jseq (throwIfAborted env)
     (jbind (jget lastRpcError) (\<lambda>details. jthrow (ReceiptTimeout (wait_timeoutMs args) details)))"

section \<open>What a round keeps\<close>

text \<open>Sender and nonce, once known, stay.\<close>

definition observed_kept :: "wait_state \<Rightarrow> wait_state \<Rightarrow> bool" where
  "observed_kept s t \<longleftrightarrow>
     (observedTxFrom s \<noteq> None \<longrightarrow> observedTxFrom t = observedTxFrom s) \<and>
     (observedTxNonce s \<noteq> None \<longrightarrow> observedTxNonce t = observedTxNonce s)"

lemma date_now_result:
  "date_now env s = (r, t) \<Longrightarrow> r = Inr (w_clock t) \<and> w_clock s \<le> w_clock t \<and> w_calls t = w_calls s"
  by (auto simp: date_now_def pass_time_def jm_eval)

text \<open>The time since when fees are too low is forgotten, stays, or is set to the present.\<close>

definition since_kept :: "wait_state \<Rightarrow> wait_state \<Rightarrow> bool" where
  "since_kept s t \<longleftrightarrow> underpricedSinceMs t \<in> {None, underpricedSinceMs s, Some (w_clock s)}"

text \<open>
  A relation kept by the outside world and by every change of the local variables that neither
  forgets what was observed nor raises the streak of advanced nonces nor dates the low fees back. All
  branches but \<open>nonce_advanced\<close> keep it.
\<close>

locale wait_relation = rpc_relation R for R :: "wait_state \<Rightarrow> wait_state \<Rightarrow> bool" +
  assumes rel_local: "w_clock t = w_clock s \<Longrightarrow> w_calls t = w_calls s \<Longrightarrow> since_kept s t \<Longrightarrow> observed_kept s t \<Longrightarrow>
    nonceAdvancedStreak t \<le> nonceAdvancedStreak s \<Longrightarrow> R s t"
begin

lemma local_kept:
  "(\<And>s. w_clock (f s) = w_clock s \<and> w_calls (f s) = w_calls s \<and> since_kept s (f s) \<and> observed_kept s (f s) \<and>
        nonceAdvancedStreak (f s) \<le> nonceAdvancedStreak s) \<Longrightarrow> jinv R (jmod f)"
  by (rule jinv_jmod, rule rel_local) simp_all

lemma throwIfAborted_kept: "jinv R (throwIfAborted env)"
  unfolding throwIfAborted_def by (intro monadic_rules outside_kept)

lemma sleepWithAbort_kept: "jinv R (sleepWithAbort env ms)"
  unfolding sleepWithAbort_def by (intro monadic_rules outside_kept throwIfAborted_kept pass_time_kept)

lemma time_left_kept: "jinv R (time_left env client span)"
  unfolding time_left_def by (intro monadic_rules date_now_kept)

lemma or_null_kept: "jinv R m \<Longrightarrow> jinv R (or_null m)"
  unfolding or_null_def by (intro monadic_rules)

lemmas query_rules = monadic_rules time_left_kept or_null_kept queries_kept date_now_kept

lemma query_transaction_kept: "jinv R (query_transaction env client args timeout)"
  unfolding query_transaction_def by (intro query_rules)

lemma query_nonce_kept: "jinv R (query_nonce env client span from tag)"
  unfolding query_nonce_def by (intro query_rules)

lemma query_latest_block_kept: "jinv R (query_latest_block env client span)"
  unfolding query_latest_block_def by (intro query_rules)

lemma lookup_transaction_kept: "jinv R (lookup_transaction env client args span)"
  unfolding lookup_transaction_def
  by (intro query_rules query_transaction_kept local_kept) (auto simp: observed_kept_def since_kept_def)

lemma depth_reached_kept: "jinv R (depth_reached env client args span blk)"
  unfolding depth_reached_def by (intro query_rules query_latest_block_kept)

lemma read_receipt_kept: "jinv R (read_receipt env client args span)"
  unfolding read_receipt_def by (intro query_rules local_kept) (auto simp: observed_kept_def since_kept_def)

lemma observe_transaction_kept: "jinv R (observe_transaction env client args span)"
  unfolding observe_transaction_def
  by (intro query_rules query_transaction_kept local_kept) (auto simp: observed_kept_def since_kept_def)

lemma final_receipt_check_kept: "jinv R (final_receipt_check env client args span from nonce latestNonce)"
  unfolding final_receipt_check_def
  by (intro query_rules depth_reached_kept local_kept) (auto simp: observed_kept_def since_kept_def)

lemma waited_ms_kept: "jinv R (waited_ms env span)"
  unfolding waited_ms_def by (intro query_rules)

lemma throw_after_kept: "jinv R (throw_after streak n waitedMs ms e)"
  unfolding throw_after_def by (intro query_rules)

lemmas branch_rules = query_rules lookup_transaction_kept query_nonce_kept waited_ms_kept throw_after_kept

lemma nonce_gap_kept: "jinv R (nonce_gap env client args span from nonce latestNonce)"
  unfolding nonce_gap_def by (intro branch_rules local_kept) (auto simp: observed_kept_def since_kept_def)

lemma seen_before_kept: "jinv R (seen_before env client args span from nonce latestNonce)"
  unfolding seen_before_def by (intro branch_rules local_kept) (auto simp: observed_kept_def since_kept_def)

lemma never_seen_kept: "jinv R (never_seen env client args span from nonce latestNonce)"
  unfolding never_seen_def by (intro branch_rules local_kept) (auto simp: observed_kept_def since_kept_def)

lemma nonce_not_advanced_kept: "jinv R (nonce_not_advanced env client args span from nonce latestNonce)"
  unfolding nonce_not_advanced_def
  by (intro branch_rules nonce_gap_kept seen_before_kept never_seen_kept local_kept) (auto simp: observed_kept_def since_kept_def)

lemma underpriced_now_kept: "jinv R (jbind (date_now env) (\<lambda>t. jmod (\<lambda>s. s\<lparr>underpricedSinceMs := Some t\<rparr>)))"
proof (rule jinvI)
  fix s t :: wait_state and r
  assume "jbind (date_now env) (\<lambda>t. jmod (\<lambda>s. s\<lparr>underpricedSinceMs := Some t\<rparr>)) s = (r, t)"
  moreover obtain u where u: "date_now env s = (Inr (w_clock u), u)" using date_now_result [of env s] by (metis surj_pair)
  ultimately have t: "t = u\<lparr>underpricedSinceMs := Some (w_clock u)\<rparr>" by (simp add: jm_eval)
  from date_now_kept u have "R s u" by (rule jinvD)
  moreover have "R u t" unfolding t by (rule rel_local) (simp_all add: since_kept_def observed_kept_def)
  ultimately show "R s t" by (rule transpD [OF rel_trans])
qed

lemma check_fees_kept: "jinv R (check_fees env client args span)"
  unfolding check_fees_def
  by (intro underpriced_now_kept query_rules query_latest_block_kept local_kept) (auto simp: observed_kept_def since_kept_def)

end

text \<open>A relation that ignores the other local variables is kept by the whole round.\<close>

locale wait_world_relation = wait_relation R for R :: "wait_state \<Rightarrow> wait_state \<Rightarrow> bool" +
  assumes rel_world: "w_clock t = w_clock s \<Longrightarrow> w_calls t = w_calls s \<Longrightarrow> since_kept s t \<Longrightarrow> R s t"
begin

lemma nonce_advanced_kept: "jinv R (nonce_advanced env client args span from nonce latestNonce)"
  unfolding nonce_advanced_def
  by (intro branch_rules final_receipt_check_kept jinv_jmod rel_world) (simp_all add: since_kept_def)

lemma check_nonces_kept: "jinv R (check_nonces env client args span)"
  unfolding check_nonces_def
  by (intro branch_rules nonce_advanced_kept nonce_not_advanced_kept)

lemma pollOnce_kept: "jinv R (pollOnce env client args span)"
  unfolding pollOnce_def
  by (intro branch_rules throwIfAborted_kept read_receipt_kept depth_reached_kept sleepWithAbort_kept
      observe_transaction_kept check_nonces_kept check_fees_kept jinv_jmod rel_world) (simp_all add: since_kept_def)

end

interpretation moving: wait_world_relation moves_on
  by unfold_locales (auto simp: moves_on_def reflp_def transp_def)

section \<open>The loop ends\<close>

lemma sleepWithAbort_time:
  assumes "sleepWithAbort env ms s = (Inr x, t)" and "0 \<le> ms"
  shows "w_clock s + ms \<le> w_clock t"
  using assms
  by (auto simp: sleepWithAbort_def throwIfAborted_def outside_def pass_time_def jm_eval split: option.splits)

lemma pollOnce_time:
  assumes "pollOnce env client args span s = (Inr None, t)"
  shows "w_clock s + wait_pollIntervalMs args \<le> w_clock t"
proof -
  have poll: "0 \<le> wait_pollIntervalMs args" by (simp add: wait_pollIntervalMs_def at_least_one_def)
  from assms obtain s1 receipt s2
    where start: "throwIfAborted env s = (Inr (), s1)" "read_receipt env client args span s1 = (Inr receipt, s2)"
      and rest: "(case receipt of
         Some r \<Rightarrow>
           jbind (jlift (parseRpcQuantity (JStr (rc_blockNumber r)) ''receipt.blockNumber'')) (\<lambda>receiptBlockNumber.
             if wait_confirmations args \<le> 1 then jret (Some r)
             else jbind (depth_reached env client args span receiptBlockNumber) (\<lambda>deep.
               if deep then jret (Some r)
               else jseq (sleepWithAbort env (wait_pollIntervalMs args)) (jret None)))
       | None \<Rightarrow>
           jseq (jmod (\<lambda>s. s\<lparr>txByHashSnapshot := None\<rparr>))
           (jseq (observe_transaction env client args span)
           (jbind (check_nonces env client args span) (\<lambda>finalReceipt.
             case finalReceipt of
               Some r \<Rightarrow> jret (Some r)
             | None \<Rightarrow>
                 jseq (check_fees env client args span)
                 (jseq (sleepWithAbort env (wait_pollIntervalMs args)) (jret None)))))) s2 = (Inr None, t)"
    unfolding pollOnce_def jseq_ret_iff jbind_ret_iff by auto
  have later: "w_clock s \<le> w_clock s2"
    using jinvD [OF moving.throwIfAborted_kept start(1)] jinvD [OF moving.read_receipt_kept start(2)]
    by (simp add: moves_on_def)
  have "\<exists>u x. w_clock s2 \<le> w_clock u \<and> sleepWithAbort env (wait_pollIntervalMs args) u = (Inr x, t)"
  proof (cases receipt)
    case None
    with rest obtain x u1 u2 y u3 where "observe_transaction env client args span (s2\<lparr>txByHashSnapshot := None\<rparr>) = (Inr x, u1)"
        "check_nonces env client args span u1 = (Inr None, u2)" "check_fees env client args span u2 = (Inr y, u3)"
        and sleep: "\<exists>z. sleepWithAbort env (wait_pollIntervalMs args) u3 = (Inr z, t)"
      by (auto simp: jseq_ret_iff jbind_ret_iff jm_apply split: option.splits)
    then have "w_clock s2 \<le> w_clock u3"
      using jinvD [OF moving.observe_transaction_kept] jinvD [OF moving.check_nonces_kept]
        jinvD [OF moving.check_fees_kept] by (fastforce simp: moves_on_def)
    with sleep show ?thesis by blast
  next
    case (Some r)
    with rest obtain blk deep u where "depth_reached env client args span blk s2 = (Inr deep, u)"
        and sleep: "\<exists>z. sleepWithAbort env (wait_pollIntervalMs args) u = (Inr z, t)"
      by (auto simp: jseq_ret_iff jbind_ret_iff jm_apply split: if_splits)
    with jinvD [OF moving.depth_reached_kept] have "w_clock s2 \<le> w_clock u" by (fastforce simp: moves_on_def)
    with sleep show ?thesis by blast
  qed
  with later poll show ?thesis using sleepWithAbort_time by fastforce
qed

function waitLoop ::
  "rpc_env \<Rightarrow> evm_client \<Rightarrow> WaitForEvmTransactionReceiptArgs \<Rightarrow> wait_times \<Rightarrow> EvmTransactionReceipt wait_m" where
  "waitLoop env client args span s =
     (case date_now env s of
        (Inl e, s1) \<Rightarrow> (Inl e, s1)
      | (Inr t, s1) \<Rightarrow>
          if t < wt_deadline span
          then (case pollOnce env client args span s1 of
                  (Inl e, s2) \<Rightarrow> (Inl e, s2)
                | (Inr (Some r), s2) \<Rightarrow> (Inr r, s2)
                | (Inr None, s2) \<Rightarrow> waitLoop env client args span s2)
          else receipt_timed_out env args s1)"
  by pat_completeness auto
termination
proof (relation "measure (\<lambda>(env, client, args, span, s). nat (wt_deadline span - w_clock s))", goal_cases)
  case (2 env client args span s r s1 now q s2 o)
  then have now: "date_now env s = (Inr now, s1)" and poll: "pollOnce env client args span s1 = (Inr None, s2)"
    and early: "now < wt_deadline span" by simp_all
  have "w_clock s1 + 1 \<le> w_clock s2"
    using pollOnce_time [OF poll] by (simp add: wait_pollIntervalMs_def at_least_one_def)
  with date_now_result [OF now] early show ?case by simp
qed simp

declare waitLoop.simps [simp del]

text \<open>The local variables at the start.\<close>

definition wait_locals :: "WaitForEvmTransactionReceiptArgs \<Rightarrow> wait_state \<Rightarrow> wait_state" where
  "wait_locals args s =
     s\<lparr>w_calls := [], lastRpcError := None, underpricedSinceMs := None,
       observedTxFrom :=
         (case wa_transactionSenderAddress args of
            None \<Rightarrow> None
          | Some a \<Rightarrow> if toAddressOrNull (JStr a) = None then None else Some a),
       observedTxNonce := (case wa_nonceHint args of None \<Rightarrow> None | Some n \<Rightarrow> if n \<ge> 0 then Some n else None),
       nonceAdvancedStreak := 0, txSeenByHash := False, txMissingWithoutEverSeenStreak := 0,
       txMissingLikelyReplacedStreak := 0, txMissingNonceGapStreak := 0, txByHashSnapshot := None\<rparr>"

definition waitForTransactionReceipt ::
  "rpc_env \<Rightarrow> evm_client \<Rightarrow> WaitForEvmTransactionReceiptArgs \<Rightarrow> EvmTransactionReceipt wait_m" where
  "waitForTransactionReceipt env client args =
     jseq (jmod (wait_locals args))
     (jbind (date_now env) (\<lambda>t.
      jbind (date_now env) (\<lambda>waitStartedAtMs.
        waitLoop env client args
          \<lparr>wt_deadline = t + wait_timeoutMs args, wt_startedAtMs = waitStartedAtMs\<rparr>)))"

text \<open>A round keeps the invariant or returns what is wanted; then so does the loop.\<close>

lemma waitLoop_rule:
  assumes round: "jvalid I (pollOnce env client args span) (\<lambda>r t. case r of None \<Rightarrow> I t | Some x \<Rightarrow> Q x t) E"
    and time: "\<And>s r t. I s \<Longrightarrow> date_now env s = (r, t) \<Longrightarrow> I t"
    and over: "jvalid (\<lambda>s. I s \<and> wt_deadline span \<le> w_clock s) (receipt_timed_out env args) Q E"
  shows "jvalid I (waitLoop env client args span) Q E"
proof -
  have "case waitLoop env client args span s of (Inl e, t) \<Rightarrow> E e t | (Inr x, t) \<Rightarrow> Q x t" if "I s" for s
    using assms that
  proof (induction env client args span s rule: waitLoop.induct)
    case (1 env client args span s)
    obtain s1 where now: "date_now env s = (Inr (w_clock s1), s1)"
      using date_now_result [of env s] by (metis surj_pair)
    with "1.prems" have I: "I s1" by blast
    show ?case
    proof (cases "w_clock s1 < wt_deadline span")
      case False
      with I "1.prems"(3) now show ?thesis by (simp add: waitLoop.simps [of env client args span s] jvalid_def)
    next
      case early: True
      obtain r s2 where poll: "pollOnce env client args span s1 = (r, s2)" by (cases "pollOnce env client args span s1")
      show ?thesis
      proof (cases "r = Inr None")
        case True
        with I poll "1.prems"(1) have "I s2" by (fastforce dest: jvalidD_ret)
        with "1.IH" [OF now [symmetric] refl early poll [symmetric] True refl] "1.prems" now early poll True
        show ?thesis by (simp add: waitLoop.simps [of env client args span s])
      next
        case False
        with I poll "1.prems"(1) now early show ?thesis
          by (auto simp: waitLoop.simps [of env client args span s] jvalid_def split: sum.splits option.splits
              dest!: spec [of _ s1])
      qed
    qed
  qed
  then show ?thesis by (simp add: jvalid_def)
qed

section \<open>The receipt that is returned\<close>

text \<open>The receipt a logged request brought, when it is one of the transaction.\<close>

definition receipt_of :: "string \<Rightarrow> rpc_call \<Rightarrow> EvmTransactionReceipt option" where
  "receipt_of txHash call =
     (if call_method call = ''eth_getTransactionReceipt'' \<and> call_params call = [JStr txHash]
      then (case call_answer call of
              Inl _ \<Rightarrow> None
            | Inr v \<Rightarrow>
                (case decodeEvmTransactionReceipt v of
                   Inr (Some r) \<Rightarrow> if js_lower (rc_transactionHash r) = js_lower txHash then Some r else None
                 | _ \<Rightarrow> None))
      else None)"

text \<open>The block height a logged request brought.\<close>

definition height_of :: "rpc_call \<Rightarrow> int option" where
  "height_of call =
     (if call_method call = ''eth_getBlockByNumber'' \<and> call_params call = [JStr ''latest'', JBool False]
      then (case call_answer call of
              Inl _ \<Rightarrow> None
            | Inr v \<Rightarrow>
                (case decodeEvmBlockHeader v of
                   Inr (Some b) \<Rightarrow> Option.bind (toHexQuantityOrNull (bh_number b)) js_BigInt
                 | _ \<Rightarrow> None))
      else None)"

definition confirmed :: "WaitForEvmTransactionReceiptArgs \<Rightarrow> rpc_call list \<Rightarrow> EvmTransactionReceipt \<Rightarrow> bool" where
  "confirmed args calls r \<longleftrightarrow>
     Some r \<in> receipt_of (wa_txHash args) ` set calls \<and>
     (\<exists>blk. js_BigInt (rc_blockNumber r) = Some blk \<and>
        (wait_confirmations args \<le> 1 \<or>
         (\<exists>height. Some height \<in> height_of ` set calls \<and> height - blk + 1 \<ge> wait_confirmations args)))"

lemma jcatch_ret_iff:
  "jcatch m h s = (Inr y, t) \<longleftrightarrow> m s = (Inr y, t) \<or> (\<exists>e u. m s = (Inl e, u) \<and> h e u = (Inr y, t))"
  by (auto simp: jcatch_apply split: prod.splits sum.splits)

lemma or_null_Some: "or_null m s = (Inr (Some x), t) \<longleftrightarrow> m s = (Inr (Some x), t)"
  by (auto simp: or_null_def jcatch_ret_iff jm_apply)

lemma getTransactionReceipt_log:
  assumes "getTransactionReceipt env client txHash timeout s = (r, t)"
  shows "\<exists>call. w_calls t = w_calls s @ [call] \<and> receipt_of txHash call = (case r of Inr x \<Rightarrow> x | Inl _ \<Rightarrow> None)"
proof -
  obtain a u where req: "request env client ''eth_getTransactionReceipt'' [JStr txHash] timeout s = (a, u)"
    by (cases "request env client ''eth_getTransactionReceipt'' [JStr txHash] timeout s")
  with assms have "t = u"
    by (auto simp: getTransactionReceipt_def jm_eval split: sum.splits option.splits if_splits)
  with request_log [OF req] req assms show ?thesis
    by (auto simp: getTransactionReceipt_def receipt_of_def jm_eval split: sum.splits option.splits if_splits)
qed

lemma is_hex_quantity_trim: "is_hex_quantity s \<Longrightarrow> js_trim s = s"
proof -
  assume q: "is_hex_quantity s"
  have plain: "\<not> js_whitespace c" if "radix_digit 16 c \<noteq> None" for c
    using that by (auto simp: radix_digit_def js_whitespace_def Let_def split: if_splits)
  from q have "list_all (\<lambda>c. \<not> js_whitespace c) (take 2 s @ drop 2 s)"
    unfolding is_hex_quantity_def list_all_append using plain by (auto simp: list_all_iff js_whitespace_def)
  then show ?thesis by (intro js_trim_no_whitespace) simp
qed

lemma ebind_Inr: "ebind r f = Inr y \<longleftrightarrow> (\<exists>x. r = Inr x \<and> f x = Inr y)"
  by (cases r) auto

lemma some_Inr: "(case x of None \<Rightarrow> Inl e | Some v \<Rightarrow> f v) = Inr y \<longleftrightarrow> (\<exists>v. x = Some v \<and> f v = Inr y)"
  by (cases x) auto

lemma guard_Inr: "(if b then Inl e else r) = Inr y \<longleftrightarrow> \<not> b \<and> r = Inr y"
  by simp

lemma checkedRpcString_ok: "checkedRpcString ok fs key operation = Inr (JStr s) \<Longrightarrow> ok s"
  by (cases "optionalRpcString fs key operation") (auto simp: checkedRpcString_def split: jsval.splits if_splits)

lemma decoded_block_number:
  assumes "decodeEvmTransactionReceipt v = Inr (Some r)"
  shows "is_hex_quantity (rc_blockNumber r)"
proof -
  from assms obtain fs where "v = JObj fs" by (auto simp: decodeEvmTransactionReceipt_def Let_def split: jsval.splits)
  with assms obtain blk where "optionalRpcHexQuantity fs ''blockNumber'' ''eth_getTransactionReceipt'' = Inr (JStr blk)"
      and "rc_blockNumber r = blk"
    by (auto simp: decodeEvmTransactionReceipt_def ebind_Inr some_Inr guard_Inr Let_def)
  then show ?thesis by (auto simp: optionalRpcHexQuantity_def dest: checkedRpcString_ok)
qed

lemma toHexQuantityOrNull_string: "is_hex_quantity s \<Longrightarrow> toHexQuantityOrNull (JStr s) = Some s"
  by (auto simp: toHexQuantityOrNull_def js_String_or_empty_def is_hex_quantity_trim Let_def)

lemma toHexQuantityOrNull_undefined [simp]: "toHexQuantityOrNull JUndefined = None"
  by (simp add: toHexQuantityOrNull_def js_String_or_empty_def js_trim_def is_hex_quantity_def)

lemma parseRpcQuantity_string: "parseRpcQuantity (JStr s) label = Inr n \<Longrightarrow> is_hex_quantity s \<Longrightarrow> js_BigInt s = Some n"
  by (auto simp: parseRpcQuantity_def is_hex_quantity_trim Let_def split: option.splits)

lemma receipt_of_block: "receipt_of txHash call = Some r \<Longrightarrow> is_hex_quantity (rc_blockNumber r)"
  by (auto simp: receipt_of_def split: if_splits sum.splits option.splits dest: decoded_block_number)

lemma read_receipt_log:
  assumes "read_receipt env client args span s = (Inr (Some r), t)"
  shows "Some r \<in> receipt_of (wa_txHash args) ` set (w_calls t)"
proof -
  from assms obtain timeout s1 s2 where "getTransactionReceipt env client (wa_txHash args) (Some timeout) s1 = (Inr (Some r), s2)"
      and "t = s2\<lparr>lastRpcError := None\<rparr>"
    unfolding read_receipt_def jcatch_ret_iff jbind_ret_iff jseq_ret_iff jm_apply by blast
  with getTransactionReceipt_log show ?thesis by (fastforce intro: rev_image_eqI)
qed

lemma getBlockByNumber_log:
  assumes "getBlockByNumber env client ''latest'' timeout s = (Inr (Some b), t)"
  shows "\<exists>call. w_calls t = w_calls s @ [call] \<and>
    height_of call = Option.bind (toHexQuantityOrNull (bh_number b)) js_BigInt"
proof -
  obtain a u where req: "request env client ''eth_getBlockByNumber'' [JStr ''latest'', JBool False] timeout s = (a, u)"
    by (cases "request env client ''eth_getBlockByNumber'' [JStr ''latest'', JBool False] timeout s")
  with assms have "t = u" by (auto simp: getBlockByNumber_def jm_eval split: sum.splits)
  with request_log [OF req] req assms show ?thesis
    by (auto simp: getBlockByNumber_def height_of_def jm_eval split: sum.splits)
qed

lemma depth_reached_log:
  assumes "depth_reached env client args span blk s = (Inr True, t)"
  shows "\<exists>height. Some height \<in> height_of ` set (w_calls t) \<and> height - blk + 1 \<ge> wait_confirmations args"
proof -
  from assms obtain latest s1 where query: "query_latest_block env client span s = (Inr latest, s1)"
    and rest: "(case toHexQuantityOrNull (case latest of None \<Rightarrow> JUndefined | Some b \<Rightarrow> bh_number b) of
         None \<Rightarrow> jret False
       | Some latestBlockHex \<Rightarrow>
           jbind (jlift (parseRpcQuantity (JStr latestBlockHex) ''latest.number'')) (\<lambda>latestBlockNumber.
             jret (latestBlockNumber \<ge> blk \<and> latestBlockNumber - blk + 1 \<ge> wait_confirmations args))) s1 = (Inr True, t)"
    unfolding depth_reached_def jbind_ret_iff by blast
  from rest obtain b hex height where b: "latest = Some b" and hex: "toHexQuantityOrNull (bh_number b) = Some hex"
      and height: "parseRpcQuantity (JStr hex) ''latest.number'' = Inr height" "height - blk + 1 \<ge> wait_confirmations args"
      and t: "t = s1"
    by (cases latest) (auto simp: jbind_ret_iff jm_apply split: option.splits)
  from hex have "is_hex_quantity hex" by (auto simp: toHexQuantityOrNull_def Let_def split: if_splits)
  with height(1) have "js_BigInt hex = Some height" by (rule parseRpcQuantity_string)
  moreover from query b obtain timeout u where "getBlockByNumber env client ''latest'' (Some timeout) u = (Inr (Some b), s1)"
    by (auto simp: query_latest_block_def or_null_Some jbind_ret_iff)
  ultimately have "\<exists>call \<in> set (w_calls t). height_of call = Some height"
    using getBlockByNumber_log hex t by fastforce
  with height(2) show ?thesis by (metis image_eqI)
qed

lemma confirmed_mono: "confirmed args calls r \<Longrightarrow> set calls \<subseteq> set calls' \<Longrightarrow> confirmed args calls' r"
  unfolding confirmed_def by blast

lemma moves_on_calls: "moves_on s t \<Longrightarrow> set (w_calls s) \<subseteq> set (w_calls t)"
  by (auto simp: moves_on_def)

lemma confirmedI:
  assumes "Some r \<in> receipt_of (wa_txHash args) ` set calls" and "parseRpcQuantity (JStr (rc_blockNumber r)) label = Inr blk"
    and "wait_confirmations args \<le> 1 \<or>
      (\<exists>height. Some height \<in> height_of ` set calls \<and> height - blk + 1 \<ge> wait_confirmations args)"
  shows "confirmed args calls r"
proof -
  from assms(1) have "is_hex_quantity (rc_blockNumber r)" by (auto dest: receipt_of_block [OF sym])
  with assms(2) have "js_BigInt (rc_blockNumber r) = Some blk" by (rule parseRpcQuantity_string)
  with assms show ?thesis by (auto simp: confirmed_def)
qed

lemma final_receipt_check_confirmed:
  assumes "final_receipt_check env client args span from nonce latestNonce s = (Inr (Some r), t)"
  shows "confirmed args (w_calls t) r"
proof -
  from assms obtain timeout s1 fr s2
    where query: "or_null (getTransactionReceipt env client (wa_txHash args) (Some timeout)) s1 = (Inr fr, s2)"
      and rest: "(case (case fr of None \<Rightarrow> None
             | Some r \<Rightarrow> map_option (Pair r) (toHexQuantityOrNull (JStr (rc_blockNumber r)))) of
         None \<Rightarrow> jthrow (DroppedOrReplaced OutcomeDropped nonce latestNonce from DroppedNonceAdvanced)
       | Some (r, blockHex) \<Rightarrow>
           jbind (jlift (parseRpcQuantity (JStr blockHex) ''receipt.blockNumber'')) (\<lambda>finalReceiptBlock.
             if wait_confirmations args \<le> 1 then jret (Some r)
             else jbind (depth_reached env client args span finalReceiptBlock) (\<lambda>deep.
               if deep then jret (Some r)
               else jseq (jmod (\<lambda>s. s\<lparr>nonceAdvancedStreak := 0\<rparr>)) (jret None)))) s2 = (Inr (Some r), t)"
    unfolding final_receipt_check_def jbind_ret_iff by blast
  from rest have fr: "fr = Some r"
    by (auto simp: jbind_ret_iff jseq_ret_iff jm_apply split: option.splits if_splits)
  with query have "getTransactionReceipt env client (wa_txHash args) (Some timeout) s1 = (Inr (Some r), s2)"
    by (simp add: or_null_Some)
  from getTransactionReceipt_log [OF this] have in2: "Some r \<in> receipt_of (wa_txHash args) ` set (w_calls s2)"
    by (fastforce intro: rev_image_eqI)
  then have hex: "is_hex_quantity (rc_blockNumber r)" by (auto dest: receipt_of_block [OF sym])
  from rest fr obtain blk where blk: "parseRpcQuantity (JStr (rc_blockNumber r)) ''receipt.blockNumber'' = Inr blk"
    and rest': "(if wait_confirmations args \<le> 1 then jret (Some r)
             else jbind (depth_reached env client args span blk) (\<lambda>deep.
               if deep then jret (Some r)
               else jseq (jmod (\<lambda>s. s\<lparr>nonceAdvancedStreak := 0\<rparr>)) (jret None))) s2 = (Inr (Some r), t)"
    by (auto simp: toHexQuantityOrNull_string [OF hex] jbind_ret_iff jm_apply)
  show ?thesis
  proof (cases "wait_confirmations args \<le> 1")
    case True
    with rest' in2 blk show ?thesis by (auto simp: jm_apply intro: confirmedI)
  next
    case False
    with rest' have depth: "depth_reached env client args span blk s2 = (Inr True, t)"
      by (auto simp: jbind_ret_iff jseq_ret_iff jm_apply split: if_splits)
    with in2 moves_on_calls [OF jinvD [OF moving.depth_reached_kept depth]]
    have "Some r \<in> receipt_of (wa_txHash args) ` set (w_calls t)" by blast
    with blk depth_reached_log [OF depth] show ?thesis by (blast intro: confirmedI)
  qed
qed

lemma check_nonces_confirmed:
  assumes "check_nonces env client args span s = (Inr (Some r), t)"
  shows "confirmed args (w_calls t) r"
proof -
  from assms obtain addr nonce latestNonce u
    where "nonce_advanced env client args span addr nonce latestNonce u = (Inr (Some r), t)"
    by (auto simp: check_nonces_def jbind_ret_iff jseq_ret_iff jm_apply split: option.splits if_splits)
  then obtain v where "final_receipt_check env client args span addr nonce latestNonce v = (Inr (Some r), t)"
    unfolding nonce_advanced_def jbind_ret_iff jseq_ret_iff by (auto simp: jm_apply split: if_splits)
  then show ?thesis by (rule final_receipt_check_confirmed)
qed

lemma pollOnce_confirmed:
  assumes "pollOnce env client args span s = (Inr (Some r), t)"
  shows "confirmed args (w_calls t) r"
proof -
  from assms obtain s1 receipt s2
    where read: "read_receipt env client args span s1 = (Inr receipt, s2)"
      and rest: "(case receipt of
         Some r \<Rightarrow>
           jbind (jlift (parseRpcQuantity (JStr (rc_blockNumber r)) ''receipt.blockNumber'')) (\<lambda>receiptBlockNumber.
             if wait_confirmations args \<le> 1 then jret (Some r)
             else jbind (depth_reached env client args span receiptBlockNumber) (\<lambda>deep.
               if deep then jret (Some r)
               else jseq (sleepWithAbort env (wait_pollIntervalMs args)) (jret None)))
       | None \<Rightarrow>
           jseq (jmod (\<lambda>s. s\<lparr>txByHashSnapshot := None\<rparr>))
           (jseq (observe_transaction env client args span)
           (jbind (check_nonces env client args span) (\<lambda>finalReceipt.
             case finalReceipt of
               Some r \<Rightarrow> jret (Some r)
             | None \<Rightarrow>
                 jseq (check_fees env client args span)
                 (jseq (sleepWithAbort env (wait_pollIntervalMs args)) (jret None)))))) s2 = (Inr (Some r), t)"
    unfolding pollOnce_def jseq_ret_iff jbind_ret_iff by auto
  show ?thesis
  proof (cases receipt)
    case None
    with rest obtain u where "check_nonces env client args span u = (Inr (Some r), t)"
      by (auto simp: jseq_ret_iff jbind_ret_iff jm_apply split: option.splits)
    then show ?thesis by (rule check_nonces_confirmed)
  next
    case (Some r')
    with rest have "r' = r" by (auto simp: jseq_ret_iff jbind_ret_iff jm_apply split: if_splits)
    with Some read have in2: "Some r \<in> receipt_of (wa_txHash args) ` set (w_calls s2)" by (simp add: read_receipt_log)
    from Some \<open>r' = r\<close> rest obtain blk where blk: "parseRpcQuantity (JStr (rc_blockNumber r)) ''receipt.blockNumber'' = Inr blk"
      and t: "(wait_confirmations args \<le> 1 \<and> t = s2) \<or> depth_reached env client args span blk s2 = (Inr True, t)"
      by (auto simp: jseq_ret_iff jbind_ret_iff jm_apply split: if_splits)
    from t show ?thesis
    proof
      assume "wait_confirmations args \<le> 1 \<and> t = s2"
      with in2 blk show ?thesis by (auto intro: confirmedI)
    next
      assume depth: "depth_reached env client args span blk s2 = (Inr True, t)"
      with in2 moves_on_calls [OF jinvD [OF moving.depth_reached_kept depth]]
      have "Some r \<in> receipt_of (wa_txHash args) ` set (w_calls t)" by blast
      with blk depth_reached_log [OF depth] show ?thesis by (blast intro: confirmedI)
    qed
  qed
qed

lemma receipt_timed_out_throws: "receipt_timed_out env args s = (r, t) \<Longrightarrow> \<exists>e. r = Inl e"
  by (auto simp: receipt_timed_out_def jm_eval throwIfAborted_def outside_def split: option.splits)

text \<open>
  C29: A receipt that the wait returns came from an answer to a query for the hash of this transaction and
  names this hash; its block number is valid, and when more than one confirmation is asked for, an answer
  of the chain during the wait showed the latest block at least that deep.
\<close>

theorem returned_receipt_confirmed:
  assumes "waitForTransactionReceipt env client args s = (Inr r, t)"
  shows "confirmed args (w_calls t) r"
proof -
  have "jvalid (\<lambda>_. True) (waitLoop env client args span) (\<lambda>r t. confirmed args (w_calls t) r) (\<lambda>_ _. True)" for span
  proof (rule waitLoop_rule)
    show "jvalid (\<lambda>_. True) (pollOnce env client args span)
        (\<lambda>r t. case r of None \<Rightarrow> True | Some x \<Rightarrow> confirmed args (w_calls t) x) (\<lambda>_ _. True)"
      by (rule jvalidI) (auto split: option.split intro: pollOnce_confirmed)
    show "jvalid (\<lambda>s. True \<and> wt_deadline span \<le> w_clock s) (receipt_timed_out env args)
        (\<lambda>r t. confirmed args (w_calls t) r) (\<lambda>_ _. True)"
      by (rule jvalidI) (auto dest: receipt_timed_out_throws)
  qed simp
  with assms show ?thesis
    unfolding waitForTransactionReceipt_def jseq_ret_iff jbind_ret_iff by (auto dest: jvalidD_ret)
qed

section \<open>How many requests a wait makes\<close>

text \<open>\<open>costs n m\<close>: every run of \<open>m\<close> makes at most \<open>n\<close> requests.\<close>

definition costs :: "nat \<Rightarrow> 'a wait_m \<Rightarrow> bool" where
  "costs n m \<longleftrightarrow> (\<forall>s. length (w_calls (snd (m s))) \<le> length (w_calls s) + n)"

lemma costsD: "costs n m \<Longrightarrow> m s = (r, t) \<Longrightarrow> length (w_calls t) \<le> length (w_calls s) + n"
  by (metis costs_def snd_conv)

lemma costs_mono: "costs k m \<Longrightarrow> k \<le> n \<Longrightarrow> costs n m"
  unfolding costs_def by (meson add_le_cancel_left order_trans)

lemma costsI: "(\<And>s r t. m s = (r, t) \<Longrightarrow> length (w_calls t) \<le> length (w_calls s) + n) \<Longrightarrow> costs n m"
  unfolding costs_def by (metis prod.collapse)

lemma costs_jbind:
  assumes "costs k m" and "\<And>x. costs l (f x)"
  shows "costs (k + l) (jbind m f)"
proof (rule costsI)
  fix s r t
  assume "jbind m f s = (r, t)"
  then show "length (w_calls t) \<le> length (w_calls s) + (k + l)"
    by (cases rule: jbind_cases) (use costsD [OF assms(1)] costsD [OF assms(2)] in fastforce)+
qed

lemma costs_jseq: "costs k m \<Longrightarrow> costs l m' \<Longrightarrow> costs (k + l) (jseq m m')"
  unfolding jseq_def by (rule costs_jbind)

lemma costs_jcatch:
  assumes "costs k m" and "\<And>e. costs l (h e)"
  shows "costs (k + l) (jcatch m h)"
proof (rule costsI)
  fix s r t
  assume run: "jcatch m h s = (r, t)"
  obtain q u where m: "m s = (q, u)" by (cases "m s")
  show "length (w_calls t) \<le> length (w_calls s) + (k + l)"
    using run m costsD [OF assms(1) m] costsD [OF assms(2), of _ u r t]
    by (cases q) (fastforce simp: jcatch_apply)+
qed

lemma costs_if: "costs k m \<Longrightarrow> costs l m' \<Longrightarrow> costs (max k l) (if b then m else m')"
  by (auto intro: costs_mono)

lemma costs_option:
  "costs k m \<Longrightarrow> (\<And>x. costs l (f x)) \<Longrightarrow> costs (max k l) (case v of None \<Rightarrow> m | Some x \<Rightarrow> f x)"
  by (cases v; simp; rule costs_mono; (assumption | rule max.cobounded1 max.cobounded2))

lemma costs_sum:
  "(\<And>e. costs k (g e)) \<Longrightarrow> (\<And>x. costs l (f x)) \<Longrightarrow> costs (max k l) (case q of Inl e \<Rightarrow> g e | Inr x \<Rightarrow> f x)"
  by (cases q; simp; rule costs_mono; (assumption | rule max.cobounded1 max.cobounded2))

lemma costs_prod: "(\<And>x y. costs k (h x y)) \<Longrightarrow> costs k (case p of (x, y) \<Rightarrow> h x y)"
  by (cases p) simp

lemma costs_jwhen: "costs k m \<Longrightarrow> costs k (jwhen b m)"
  by (cases b) (simp_all add: costs_def jm_eval)

lemmas costs_branch = costs_if costs_option costs_sum costs_prod costs_jwhen

lemma costs_basic:
  "costs 0 (jret x)" "costs 0 (jthrow e)" "costs 0 (jget f)" "costs 0 (jlift r)"
  "costs 0 (outside g)" "costs 0 (pass_time env ms)" "costs 0 (date_now env)" "costs 0 (time_left env client span)"
  "(\<And>s. w_calls (f' s) = w_calls s) \<Longrightarrow> costs 0 (jmod f')"
  by (auto simp: costs_def jm_eval outside_def pass_time_def date_now_def time_left_def)

lemma costs_request: "costs 1 (request env client meth params timeout)"
  by (rule costsI) (simp add: request_log)

lemmas costs_rules = costs_basic costs_request costs_branch costs_jbind costs_jseq costs_jcatch

lemma costs_getTransactionReceipt: "costs 1 (getTransactionReceipt env client txHash timeout)"
  unfolding getTransactionReceipt_def by (rule costs_mono, (rule costs_rules | simp)+)

lemma costs_getBlockByNumber: "costs 1 (getBlockByNumber env client blockTag timeout)"
  unfolding getBlockByNumber_def by (rule costs_mono, (rule costs_rules | simp)+)

lemma costs_getTransactionByHash: "costs 1 (getTransactionByHash env client txHash timeout)"
  unfolding getTransactionByHash_def by (rule costs_mono, (rule costs_rules | simp)+)

lemma costs_getTransactionCount: "costs 1 (getTransactionCount env client address blockTag timeout)"
  unfolding getTransactionCount_def by (rule costs_mono, (rule costs_rules | simp)+)

lemmas costs_queries = costs_getTransactionReceipt costs_getBlockByNumber costs_getTransactionByHash
  costs_getTransactionCount

lemma costs_query_transaction: "costs 1 (query_transaction env client args timeout)"
  unfolding query_transaction_def or_null_def by (rule costs_mono, (rule costs_rules costs_queries | simp)+)

lemma costs_query_nonce: "costs 1 (query_nonce env client span addr tag)"
  unfolding query_nonce_def or_null_def by (rule costs_mono, (rule costs_rules costs_queries | simp)+)

lemma costs_query_latest_block: "costs 1 (query_latest_block env client span)"
  unfolding query_latest_block_def or_null_def by (rule costs_mono, (rule costs_rules costs_queries | simp)+)

lemma costs_read_receipt: "costs 1 (read_receipt env client args span)"
  unfolding read_receipt_def by (rule costs_mono, (rule costs_rules costs_queries | simp)+)

lemmas costs_round = costs_rules costs_query_transaction costs_query_nonce costs_query_latest_block costs_queries

lemma costs_lookup_transaction: "costs 1 (lookup_transaction env client args span)"
  unfolding lookup_transaction_def by (rule costs_mono, (rule costs_round | simp)+)

lemma costs_depth_reached: "costs 1 (depth_reached env client args span blk)"
  unfolding depth_reached_def by (rule costs_mono, (rule costs_round | simp)+)

lemma costs_observe_transaction: "costs 1 (observe_transaction env client args span)"
  unfolding observe_transaction_def by (rule costs_mono, (rule costs_round | simp)+)

lemma costs_check_fees: "costs 1 (check_fees env client args span)"
  unfolding check_fees_def by (rule costs_mono, (rule costs_round | simp)+)

lemma costs_final_receipt_check: "costs 2 (final_receipt_check env client args span addr nonce latestNonce)"
  unfolding final_receipt_check_def or_null_def by (rule costs_mono, (rule costs_round costs_depth_reached | simp)+)

lemma costs_nonce_advanced: "costs 4 (nonce_advanced env client args span addr nonce latestNonce)"
  unfolding nonce_advanced_def by (rule costs_mono, (rule costs_round costs_lookup_transaction costs_final_receipt_check | simp)+)

lemma costs_nonce_gap: "costs 2 (nonce_gap env client args span addr nonce latestNonce)"
  unfolding nonce_gap_def waited_ms_def throw_after_def by (rule costs_mono, (rule costs_round costs_lookup_transaction | simp)+)

lemma costs_seen_before: "costs 2 (seen_before env client args span addr nonce latestNonce)"
  unfolding seen_before_def waited_ms_def throw_after_def by (rule costs_mono, (rule costs_round costs_lookup_transaction | simp)+)

lemma costs_never_seen: "costs 2 (never_seen env client args span addr nonce latestNonce)"
  unfolding never_seen_def waited_ms_def throw_after_def by (rule costs_mono, (rule costs_round costs_lookup_transaction | simp)+)

lemma costs_nonce_not_advanced: "costs 6 (nonce_not_advanced env client args span addr nonce latestNonce)"
  unfolding nonce_not_advanced_def by (rule costs_mono, (rule costs_round costs_nonce_gap costs_seen_before costs_never_seen | simp)+)

lemma costs_check_nonces: "costs 7 (check_nonces env client args span)"
  unfolding check_nonces_def by (rule costs_mono, (rule costs_round costs_nonce_advanced costs_nonce_not_advanced | simp)+)

lemma costs_pollOnce: "costs 10 (pollOnce env client args span)"
  unfolding pollOnce_def throwIfAborted_def sleepWithAbort_def by (rule costs_mono, (rule costs_round costs_read_receipt costs_depth_reached costs_observe_transaction costs_check_nonces costs_check_fees | simp)+)

text \<open>The rounds of length \<open>p\<close> that start within \<open>d\<close> milliseconds.\<close>

definition rounds :: "int \<Rightarrow> int \<Rightarrow> int" where
  "rounds p d = (max 0 d + p - 1) div p"

lemma rounds_mono: "1 \<le> p \<Longrightarrow> d \<le> e \<Longrightarrow> rounds p d \<le> rounds p e"
  unfolding rounds_def by (intro zdiv_mono1) simp_all

lemma rounds_nonneg: "1 \<le> p \<Longrightarrow> 0 \<le> rounds p d"
  unfolding rounds_def by (simp add: pos_imp_zdiv_nonneg_iff)

lemma rounds_next:
  assumes "1 \<le> p" and "0 < d" and "e \<le> d - p"
  shows "rounds p e + 1 \<le> rounds p d"
proof (cases "e \<le> 0")
  case True
  have "1 \<le> (d + p - 1) div p" using assms by (simp add: zdiv_mono1 [of p "d + p - 1" p, simplified])
  with True assms show ?thesis by (simp add: rounds_def)
next
  case False
  have "(e + p - 1) div p + 1 = (e + p - 1 + 1 * p) div p" using assms(1) by (subst div_mult_self1) simp_all
  also have "\<dots> \<le> (d + p - 1) div p" using assms by (intro zdiv_mono1) simp_all
  finally show ?thesis using False assms(2) by (simp add: rounds_def)
qed

lemma receipt_timed_out_quiet: "receipt_timed_out env args s = (r, t) \<Longrightarrow> w_calls t = w_calls s"
  by (auto simp: receipt_timed_out_def jm_eval throwIfAborted_def outside_def split: option.splits)

lemma waitLoop_requests:
  "int (length (w_calls (snd (waitLoop env client args span s)))) \<le>
     int (length (w_calls s)) + 10 * rounds (wait_pollIntervalMs args) (wt_deadline span - w_clock s)"
proof (induction env client args span s rule: waitLoop.induct)
  case (1 env client args span s)
  have p: "1 \<le> wait_pollIntervalMs args" by (simp add: wait_pollIntervalMs_def at_least_one_def)
  obtain s1 where now: "date_now env s = (Inr (w_clock s1), s1)"
    using date_now_result [of env s] by (metis surj_pair)
  then have s1: "w_clock s \<le> w_clock s1" "w_calls s1 = w_calls s" by (auto dest: date_now_result)
  show ?case
  proof (cases "w_clock s1 < wt_deadline span")
    case False
    obtain r t where "receipt_timed_out env args s1 = (r, t)" by (cases "receipt_timed_out env args s1")
    with False now s1 receipt_timed_out_quiet rounds_nonneg [OF p] show ?thesis
      by (fastforce simp: waitLoop.simps [of env client args span s])
  next
    case early: True
    obtain r s2 where poll: "pollOnce env client args span s1 = (r, s2)" by (cases "pollOnce env client args span s1")
    have calls: "int (length (w_calls s2)) \<le> int (length (w_calls s)) + 10"
      using costsD [OF costs_pollOnce poll] s1(2) by simp
    let ?left = "wt_deadline span - w_clock s"
    show ?thesis
    proof (cases "r = Inr None")
      case True
      have "rounds (wait_pollIntervalMs args) (wt_deadline span - w_clock s2) + 1 \<le> rounds (wait_pollIntervalMs args) ?left"
        using pollOnce_time [of env client args span s1 s2] poll True early s1(1) p by (intro rounds_next) auto
      with "1.IH" [OF now [symmetric] refl early poll [symmetric] True refl] calls now early poll True
      show ?thesis by (simp add: waitLoop.simps [of env client args span s])
    next
      case False
      have "1 \<le> rounds (wait_pollIntervalMs args) ?left"
        using rounds_next [OF p, of ?left "?left - wait_pollIntervalMs args"] early s1(1) rounds_nonneg [OF p] by smt
      moreover have "w_calls (snd (waitLoop env client args span s)) = w_calls s2"
        using now early poll False
        by (auto simp: waitLoop.simps [of env client args span s] split: sum.splits option.splits)
      ultimately show ?thesis using calls by simp
    qed
  qed
qed

text \<open>
  C31: A wait ends, and makes at most ten requests for every poll interval that starts within its
  timeout, whatever the endpoints answer.
\<close>

theorem wait_requests_bounded:
  "int (length (w_calls (snd (waitForTransactionReceipt env client args s)))) \<le>
     10 * ((wait_timeoutMs args + wait_pollIntervalMs args - 1) div wait_pollIntervalMs args)"
proof -
  have p: "1 \<le> wait_pollIntervalMs args" by (simp add: wait_pollIntervalMs_def at_least_one_def)
  obtain s1 where 1: "date_now env (wait_locals args s) = (Inr (w_clock s1), s1)"
    using date_now_result [of env "wait_locals args s"] by (metis surj_pair)
  obtain s2 where 2: "date_now env s1 = (Inr (w_clock s2), s2)"
    using date_now_result [of env s1] by (metis surj_pair)
  define span where "span = \<lparr>wt_deadline = w_clock s1 + wait_timeoutMs args, wt_startedAtMs = w_clock s2\<rparr>"
  have start: "w_calls s2 = []" "wt_deadline span - w_clock s2 \<le> wait_timeoutMs args"
    using date_now_result [OF 1] date_now_result [OF 2] by (auto simp: wait_locals_def span_def)
  have "snd (waitForTransactionReceipt env client args s) = snd (waitLoop env client args span s2)"
    by (simp add: waitForTransactionReceipt_def jm_eval 1 2 span_def)
  then have "int (length (w_calls (snd (waitForTransactionReceipt env client args s)))) \<le>
      10 * rounds (wait_pollIntervalMs args) (wt_deadline span - w_clock s2)"
    using waitLoop_requests [of env client args span s2] start(1) by simp
  also have "\<dots> \<le> 10 * rounds (wait_pollIntervalMs args) (wait_timeoutMs args)"
    using rounds_mono [OF p start(2)] by simp
  also have "rounds (wait_pollIntervalMs args) (wait_timeoutMs args)
      = (wait_timeoutMs args + wait_pollIntervalMs args - 1) div wait_pollIntervalMs args"
    by (simp add: rounds_def wait_timeoutMs_def at_least_one_def)
  finally show ?thesis .
qed

end
