(* ===== verification/EvmReceiptVerdicts.thy ===== *)
theory EvmReceiptVerdicts
  imports EvmReceiptWait
begin

text \<open>
  When the wait for a receipt gives a transaction up: the errors \<open>waitForTransactionReceipt\<close> throws, what
  the chain answered before them and how long the wait had lasted.
\<close>

section \<open>Errors that a computation throws\<close>

definition jthrows :: "('e \<Rightarrow> 's \<Rightarrow> bool) \<Rightarrow> ('s, 'e, 'a) jsm \<Rightarrow> bool" where
  "jthrows E m \<longleftrightarrow> (\<forall>s e t. m s = (Inl e, t) \<longrightarrow> E e t)"

lemma jthrowsD: "jthrows E m \<Longrightarrow> m s = (Inl e, t) \<Longrightarrow> E e t"
  by (simp add: jthrows_def)

lemma jthrows_jbind: "jthrows E m \<Longrightarrow> (\<And>x. jthrows E (f x)) \<Longrightarrow> jthrows E (jbind m f)"
  unfolding jthrows_def by (fastforce elim: jbind_cases)

lemma jthrows_jseq: "jthrows E m \<Longrightarrow> jthrows E n \<Longrightarrow> jthrows E (jseq m n)"
  unfolding jseq_def by (rule jthrows_jbind)

lemma jthrows_jcatch: "(\<And>e. jthrows E (h e)) \<Longrightarrow> jthrows E (jcatch m h)"
  by (auto simp: jthrows_def jcatch_apply split: prod.splits sum.splits)

lemma jthrows_total: "jthrows E (jret x)" "jthrows E (jget f)" "jthrows E (jmod g)"
  by (auto simp: jthrows_def jm_eval)

lemma jthrows_outside: "jthrows E (outside q)" "jthrows E (pass_time env ms)" "jthrows E (date_now env)"
  by (auto simp: jthrows_def jm_eval outside_def pass_time_def date_now_def)

lemma jthrows_jwhen: "(b \<Longrightarrow> jthrows E m) \<Longrightarrow> jthrows E (jwhen b m)"
  by (cases b) (simp_all add: jthrows_total)

lemma jthrows_if: "(b \<Longrightarrow> jthrows E m) \<Longrightarrow> (\<not> b \<Longrightarrow> jthrows E n) \<Longrightarrow> jthrows E (if b then m else n)"
  by simp

lemma jthrows_option:
  "(v = None \<Longrightarrow> jthrows E n) \<Longrightarrow> (\<And>x. v = Some x \<Longrightarrow> jthrows E (f x)) \<Longrightarrow> jthrows E (case v of None \<Rightarrow> n | Some x \<Rightarrow> f x)"
  by (cases v) auto

lemma jthrows_sum:
  "(\<And>e. r = Inl e \<Longrightarrow> jthrows E (f e)) \<Longrightarrow> (\<And>x. r = Inr x \<Longrightarrow> jthrows E (g x)) \<Longrightarrow>
   jthrows E (case r of Inl e \<Rightarrow> f e | Inr x \<Rightarrow> g x)"
  by (cases r) auto

lemma jthrows_prod: "(\<And>x y. p = (x, y) \<Longrightarrow> jthrows E (f x y)) \<Longrightarrow> jthrows E (case p of (x, y) \<Rightarrow> f x y)"
  by (cases p) auto

lemma jthrows_jlift: "(\<And>e t. r = Inl e \<Longrightarrow> E e t) \<Longrightarrow> jthrows E (jlift r)"
  by (auto simp: jthrows_def jm_eval)

lemma jthrows_jthrow: "(\<And>t. E e t) \<Longrightarrow> jthrows E (jthrow e)"
  by (auto simp: jthrows_def jm_eval)

lemmas jthrows_rules = jthrows_total jthrows_outside jthrows_jbind jthrows_jseq jthrows_jcatch jthrows_jwhen jthrows_if
  jthrows_option jthrows_sum jthrows_prod

section \<open>Which errors end a wait\<close>

text \<open>Errors of the client and of the abort signal, as opposed to verdicts on the transaction.\<close>

fun plain :: "evm_error \<Rightarrow> bool" where
  "plain (RpcThrown err) \<longleftrightarrow> True"
| "plain (RpcMessage m) \<longleftrightarrow> True"
| "plain (RpcFailure meth m c d) \<longleftrightarrow> True"
| "plain (Aborted c m) \<longleftrightarrow> True"
| "plain _ \<longleftrightarrow> False"

lemma parseRpcQuantity_plain: "parseRpcQuantity v label = Inl e \<Longrightarrow> plain e"
  by (auto simp: parseRpcQuantity_def Let_def split: if_splits option.splits)

lemma toAbortError_plain: "plain (toAbortError reason)"
  by (simp add: toAbortError_def Let_def split: abort_reason.split)

text \<open>
  A condition on errors that client errors meet and that the verdicts of a nonce that has not advanced
  meet at the times they are given. All branches but \<open>final_receipt_check\<close> throw only such errors.
\<close>

locale wait_verdicts =
  fixes args :: WaitForEvmTransactionReceiptArgs and span :: wait_times
    and E :: "evm_error \<Rightarrow> wait_state \<Rightarrow> bool"
  assumes verdict_plain: "plain e \<Longrightarrow> E e t"
    and verdict_gap: "l < n \<Longrightarrow> wt_startedAtMs span + missingNonceGapMinDurationMs args \<le> w_clock t \<Longrightarrow>
      E (DroppedOrReplaced OutcomeDropped n l f DroppedNonceGap) t"
    and verdict_never_seen: "l \<le> n \<Longrightarrow> wt_startedAtMs span + missingNeverSeenMinDurationMs args \<le> w_clock t \<Longrightarrow>
      E (DroppedOrReplaced OutcomeDropped n l f DroppedHashDisappeared) t"
    and verdict_replaced: "l \<le> n \<Longrightarrow> wt_startedAtMs span + missingLikelyReplacedMinDurationMs args \<le> w_clock t \<Longrightarrow>
      E (DroppedOrReplaced OutcomeReplaced n l f DroppedHashDisappeared) t"
    and verdict_underpriced: "wa_maxFeePerGasHint args = Some hint \<Longrightarrow> hint < baseFee \<Longrightarrow>
      underpricedSinceMs t = Some u \<Longrightarrow> u + min 30000 (wait_timeoutMs args div 3) \<le> w_clock t \<Longrightarrow> E (Underpriced hint baseFee) t"
begin

lemma quantity_throws: "jthrows E (jlift (parseRpcQuantity v label))"
  by (rule jthrows_jlift) (auto intro: verdict_plain dest: parseRpcQuantity_plain)

lemma throwIfAborted_throws: "jthrows E (throwIfAborted env)"
  unfolding throwIfAborted_def by (intro jthrows_rules jthrows_jthrow verdict_plain toAbortError_plain)

lemma sleepWithAbort_throws: "jthrows E (sleepWithAbort env ms)"
  unfolding sleepWithAbort_def
  by (intro jthrows_rules throwIfAborted_throws jthrows_jthrow verdict_plain toAbortError_plain)

lemma time_left_throws: "jthrows E (time_left env client sp)"
  unfolding time_left_def by (intro jthrows_rules)

lemma or_null_throws: "jthrows E (or_null m)"
  unfolding or_null_def by (intro jthrows_rules)

lemma query_throws:
  "jthrows E (query_transaction env client args' timeout)"
  "jthrows E (query_nonce env client sp addr tag)"
  "jthrows E (query_latest_block env client sp)"
  "jthrows E (read_receipt env client args' sp)"
  unfolding query_transaction_def query_nonce_def query_latest_block_def read_receipt_def
  by (intro jthrows_rules time_left_throws or_null_throws)+

lemma lookup_throws:
  "jthrows E (lookup_transaction env client args' sp)"
  "jthrows E (depth_reached env client args' sp blk)"
  "jthrows E (observe_transaction env client args' sp)"
  unfolding lookup_transaction_def depth_reached_def observe_transaction_def
  by (intro jthrows_rules query_throws time_left_throws quantity_throws)+

text \<open>A verdict that waits for a streak and a duration.\<close>

lemma throw_after_throws:
  "(\<And>t. wt_startedAtMs span + ms \<le> w_clock t \<Longrightarrow> E e t) \<Longrightarrow>
   jthrows E (jbind (waited_ms env span) (\<lambda>waitedMs. throw_after streak n waitedMs ms e))"
  by (auto simp: jthrows_def waited_ms_def throw_after_def date_now_def pass_time_def jwhen_def jm_eval split: if_splits)

lemma two_throw_after_throws:
  "(\<And>t. wt_startedAtMs span + ms \<le> w_clock t \<Longrightarrow> E e t) \<Longrightarrow> (\<And>t. wt_startedAtMs span + ms' \<le> w_clock t \<Longrightarrow> E e' t) \<Longrightarrow>
   jthrows E (jbind (waited_ms env span) (\<lambda>waitedMs.
     jseq (throw_after streak n waitedMs ms e) (throw_after streak' n' waitedMs ms' e')))"
  by (auto simp: jthrows_def waited_ms_def throw_after_def date_now_def pass_time_def jwhen_def jm_eval split: if_splits)

lemma nonce_gap_throws: "l < n \<Longrightarrow> jthrows E (nonce_gap env client args span addr n l)"
  unfolding nonce_gap_def
  by (intro two_throw_after_throws jthrows_rules lookup_throws query_throws verdict_gap verdict_replaced) simp_all

lemma seen_before_throws: "l \<le> n \<Longrightarrow> jthrows E (seen_before env client args span addr n l)"
  unfolding seen_before_def
  by (intro throw_after_throws jthrows_rules lookup_throws query_throws verdict_replaced) simp_all

lemma never_seen_throws: "l \<le> n \<Longrightarrow> jthrows E (never_seen env client args span addr n l)"
  unfolding never_seen_def
  by (intro two_throw_after_throws jthrows_rules lookup_throws query_throws verdict_never_seen verdict_replaced) simp_all

lemma nonce_not_advanced_throws: "l \<le> n \<Longrightarrow> jthrows E (nonce_not_advanced env client args span addr n l)"
  unfolding nonce_not_advanced_def
  by (intro jthrows_rules nonce_gap_throws seen_before_throws never_seen_throws) simp_all

lemma underpriced_throws:
  "wa_maxFeePerGasHint args = Some hint \<Longrightarrow> hint < baseFee \<Longrightarrow>
   jthrows E (jbind (date_now env) (\<lambda>t. jbind (jget underpricedSinceMs) (\<lambda>since.
     jwhen (case since of None \<Rightarrow> False | Some u \<Rightarrow> t - u \<ge> min 30000 (wait_timeoutMs args div 3))
       (jthrow (Underpriced hint baseFee)))))"
  by (auto simp: jthrows_def date_now_def pass_time_def jwhen_def jm_eval split: if_splits option.splits
      intro!: verdict_underpriced)

lemma check_fees_throws: "jthrows E (check_fees env client args span)"
  unfolding check_fees_def by (intro underpriced_throws jthrows_rules query_throws) simp_all

end

text \<open>With the verdict of an advanced nonce, this covers the whole round.\<close>

locale wait_all_verdicts = wait_verdicts +
  assumes verdict_advanced: "n < l \<Longrightarrow> E (DroppedOrReplaced OutcomeDropped n l f DroppedNonceAdvanced) t"
begin

lemma final_receipt_check_throws: "n < l \<Longrightarrow> jthrows E (final_receipt_check env client args span addr n l)"
  unfolding final_receipt_check_def
  by (intro jthrows_rules time_left_throws or_null_throws quantity_throws lookup_throws jthrows_jthrow verdict_advanced)

lemma nonce_advanced_throws: "n < l \<Longrightarrow> jthrows E (nonce_advanced env client args span addr n l)"
  unfolding nonce_advanced_def
  by (intro jthrows_rules lookup_throws query_throws final_receipt_check_throws)

lemma check_nonces_throws: "jthrows E (check_nonces env client args span)"
  unfolding check_nonces_def
  by (intro jthrows_rules query_throws nonce_advanced_throws nonce_not_advanced_throws) simp_all

lemma pollOnce_throws: "jthrows E (pollOnce env client args span)"
  unfolding pollOnce_def
  by (intro jthrows_rules throwIfAborted_throws query_throws quantity_throws lookup_throws sleepWithAbort_throws
      check_nonces_throws check_fees_throws)

end

section \<open>Verdicts and time\<close>

definition verdict_ok :: "WaitForEvmTransactionReceiptArgs \<Rightarrow> int \<Rightarrow> evm_error \<Rightarrow> wait_state \<Rightarrow> bool" where
  "verdict_ok args start e t =
     (case e of
        DroppedOrReplaced reason n l f branch \<Rightarrow>
          (case branch of
             DroppedNonceAdvanced \<Rightarrow> reason = OutcomeDropped \<and> n < l
           | DroppedNonceGap \<Rightarrow> reason = OutcomeDropped \<and> l < n \<and> start + missingNonceGapMinDurationMs args \<le> w_clock t
           | DroppedHashDisappeared \<Rightarrow>
               l \<le> n \<and>
               start + (case reason of OutcomeDropped \<Rightarrow> missingNeverSeenMinDurationMs args
                        | OutcomeReplaced \<Rightarrow> missingLikelyReplacedMinDurationMs args) \<le> w_clock t
           | _ \<Rightarrow> False)
      | Underpriced hint baseFee \<Rightarrow>
          wa_maxFeePerGasHint args = Some hint \<and> hint < baseFee \<and>
          (case underpricedSinceMs t of
             None \<Rightarrow> False
           | Some u \<Rightarrow> start \<le> u \<and> u + min 30000 (wait_timeoutMs args div 3) \<le> w_clock t)
      | ReceiptTimeout ms details \<Rightarrow> ms = wait_timeoutMs args \<and> start + ms \<le> w_clock t
      | _ \<Rightarrow> True)"

text \<open>Fees are never found too low before the wait started.\<close>

definition since_ok :: "int \<Rightarrow> wait_state \<Rightarrow> bool" where
  "since_ok start s \<longleftrightarrow> start \<le> w_clock s \<and> (\<forall>u. underpricedSinceMs s = Some u \<longrightarrow> start \<le> u)"

interpretation since: wait_world_relation "keeps (since_ok start)" for start
  by (unfold_locales, rule keeps_refl, rule keeps_trans) (auto simp: keeps_def since_ok_def since_kept_def)

interpretation lawful: wait_all_verdicts args span
  "\<lambda>e t. since_ok (wt_startedAtMs span) t \<longrightarrow> verdict_ok args (wt_startedAtMs span) e t" for args span
proof unfold_locales
  show "plain e \<Longrightarrow> since_ok (wt_startedAtMs span) t \<longrightarrow> verdict_ok args (wt_startedAtMs span) e t" for e t
    by (cases e) (simp_all add: verdict_ok_def)
qed (simp_all add: verdict_ok_def since_ok_def)

lemma pollOnce_lawful:
  "jvalid (since_ok (wt_startedAtMs span)) (pollOnce env client args span) (\<lambda>_. since_ok (wt_startedAtMs span))
     (verdict_ok args (wt_startedAtMs span))"
proof (rule jvalidI)
  fix s r t
  assume "since_ok (wt_startedAtMs span) s" and "pollOnce env client args span s = (Inr r, t)"
  with jinvD [OF since.pollOnce_kept] show "since_ok (wt_startedAtMs span) t" unfolding keeps_def by blast
next
  fix s e t
  assume "since_ok (wt_startedAtMs span) s" and run: "pollOnce env client args span s = (Inl e, t)"
  with jinvD [OF since.pollOnce_kept] have "since_ok (wt_startedAtMs span) t" unfolding keeps_def by blast
  with jthrowsD [OF lawful.pollOnce_throws run] show "verdict_ok args (wt_startedAtMs span) e t" by blast
qed

lemma verdict_ok_earlier: "verdict_ok args start e t \<Longrightarrow> start' \<le> start \<Longrightarrow> verdict_ok args start' e t"
  by (auto simp: verdict_ok_def
      split: evm_error.splits EvmTransactionWaitErrorBranch.splits EvmNonceOutcomeReason.splits option.splits)

text \<open>
  C30: The wait gives a transaction up only for a reason. It is called dropped because its nonce was used
  only when the account nonce was past it, dropped in a nonce gap only when the account nonce was below
  it, dropped or replaced after it disappeared only when the account nonce was not past it, and the
  latter three no earlier after the start of the wait than the minimal time for that verdict. Fees are
  called too low only when the base fee was above the cap, and only when a third of the timeout, or 30
  seconds when that is less, has passed since the time from which the wait records low fees, which is never before
  its start. The timeout is reported only when the time is over.
\<close>

theorem wait_verdicts_lawful:
  assumes "waitForTransactionReceipt env client args s = (Inl e, t)"
  shows "verdict_ok args (w_clock s) e t"
proof -
  obtain s1 where 1: "date_now env (wait_locals args s) = (Inr (w_clock s1), s1)"
    using date_now_result [of env "wait_locals args s"] by (metis surj_pair)
  obtain s2 where 2: "date_now env s1 = (Inr (w_clock s2), s2)"
    using date_now_result [of env s1] by (metis surj_pair)
  define span where "span = \<lparr>wt_deadline = w_clock s1 + wait_timeoutMs args, wt_startedAtMs = w_clock s2\<rparr>"
  let ?I = "since_ok (wt_startedAtMs span)"
  have later: "w_clock s \<le> w_clock s1" "w_clock s1 \<le> w_clock s2"
    using date_now_result [OF 1] date_now_result [OF 2] by (auto simp: wait_locals_def)
  have "jvalid ?I (waitLoop env client args span) (\<lambda>_ _. True) (verdict_ok args (w_clock s))"
  proof (rule waitLoop_rule)
    show "jvalid ?I (pollOnce env client args span) (\<lambda>r t. case r of None \<Rightarrow> ?I t | Some x \<Rightarrow> True)
        (verdict_ok args (w_clock s))"
      using pollOnce_lawful [of span env client args] verdict_ok_earlier [of args "w_clock s2"] later
      by (intro jvalidI) (auto simp: span_def split: option.split dest: jvalidD_ret jvalidD_throw)
    show "?I s' \<Longrightarrow> date_now env s' = (r, t') \<Longrightarrow> ?I t'" for s' r t'
      using jinvD [OF since.date_now_kept] unfolding keeps_def by blast
    show "jvalid (\<lambda>s'. ?I s' \<and> wt_deadline span \<le> w_clock s') (receipt_timed_out env args) (\<lambda>_ _. True)
        (verdict_ok args (w_clock s))"
      using later
      by (intro jvalidI) (auto simp: receipt_timed_out_def throwIfAborted_def outside_def jm_eval span_def verdict_ok_def
          toAbortError_def Let_def split: option.splits abort_reason.splits)
  qed
  moreover have "waitLoop env client args span s2 = (Inl e, t)"
    using assms by (simp add: waitForTransactionReceipt_def jm_eval 1 2 span_def)
  moreover have "?I s2"
  proof -
    have "underpricedSinceMs s2 = None"
      using 1 2 by (auto simp: date_now_def pass_time_def wait_locals_def jm_eval)
    then show ?thesis by (simp add: since_ok_def span_def)
  qed
  ultimately show ?thesis by (blast dest: jvalidD_throw)
qed

section \<open>A nonce that advanced\<close>

text \<open>The account nonce a logged request for the latest block brought.\<close>

definition latest_nonce_of :: "string \<Rightarrow> rpc_call \<Rightarrow> int option" where
  "latest_nonce_of addr call =
     (if call_method call = ''eth_getTransactionCount'' \<and> call_params call = [JStr addr, JStr ''latest'']
      then (case call_answer call of
              Inl _ \<Rightarrow> None
            | Inr v \<Rightarrow> (case parseRpcQuantity v ''eth_getTransactionCount'' of Inl _ \<Rightarrow> None | Inr n \<Rightarrow> Some n))
      else None)"

text \<open>How often the chain answered that the account nonce is past \<open>n\<close>.\<close>

definition advances :: "string \<Rightarrow> int \<Rightarrow> rpc_call list \<Rightarrow> nat" where
  "advances addr n calls =
     length (filter (\<lambda>c. case latest_nonce_of addr c of None \<Rightarrow> False | Some l \<Rightarrow> n < l) calls)"

lemma advances_append: "advances addr n (xs @ ys) = advances addr n xs + advances addr n ys"
  by (simp add: advances_def)

definition streak_kept :: "wait_state \<Rightarrow> wait_state \<Rightarrow> bool" where
  "streak_kept s t \<longleftrightarrow>
     nonceAdvancedStreak t \<le> nonceAdvancedStreak s \<and> observed_kept s t \<and> (\<exists>new. w_calls t = w_calls s @ new)"

interpretation streaks: wait_relation streak_kept
proof unfold_locales
  show "transp streak_kept"
    by (rule transpI) (auto simp: streak_kept_def observed_kept_def)
qed (auto simp: streak_kept_def observed_kept_def reflp_def)

text \<open>The streak counts answers; with one answer more than it counts, it may be raised.\<close>

definition counted :: "nat \<Rightarrow> string \<Rightarrow> int \<Rightarrow> wait_state \<Rightarrow> bool" where
  "counted k addr n s \<longleftrightarrow>
     observedTxFrom s = Some addr \<and> observedTxNonce s = Some n \<and> nonceAdvancedStreak s + k \<le> advances addr n (w_calls s)"

definition streak_ok :: "wait_state \<Rightarrow> bool" where
  "streak_ok s \<longleftrightarrow> nonceAdvancedStreak s = 0 \<or> (\<exists>addr n. counted 0 addr n s)"

lemma counted_kept: "counted k addr n s \<Longrightarrow> streak_kept s t \<Longrightarrow> counted k addr n t"
  by (fastforce simp: counted_def streak_kept_def observed_kept_def advances_append)

lemma streak_ok_kept: "streak_ok s \<Longrightarrow> streak_kept s t \<Longrightarrow> streak_ok t"
  unfolding streak_ok_def by (metis counted_kept le_zero_eq streak_kept_def)

text \<open>What a verdict of an advanced nonce rests on.\<close>

definition advance_verdict :: "WaitForEvmTransactionReceiptArgs \<Rightarrow> evm_error \<Rightarrow> wait_state \<Rightarrow> bool" where
  "advance_verdict args e t =
     (case e of
        DroppedOrReplaced reason n l f DroppedNonceAdvanced \<Rightarrow>
          2 \<le> advances f n (w_calls t) \<and>
          (\<exists>before call. w_calls t = before @ [call] \<and> call_method call = ''eth_getTransactionReceipt'' \<and>
             call_params call = [JStr (wa_txHash args)] \<and> receipt_of (wa_txHash args) call = None)
      | _ \<Rightarrow> True)"

interpretation advanced: wait_verdicts args span "advance_verdict args" for args span
proof unfold_locales
  show "plain e \<Longrightarrow> advance_verdict args e t" for e t
    by (cases e) (simp_all add: advance_verdict_def)
qed (simp_all add: advance_verdict_def)

lemma getTransactionReceipt_call:
  assumes "getTransactionReceipt env client txHash timeout s = (r, t)"
  shows "\<exists>call. w_calls t = w_calls s @ [call] \<and> call_method call = ''eth_getTransactionReceipt'' \<and>
    call_params call = [JStr txHash] \<and> receipt_of txHash call = (case r of Inr x \<Rightarrow> x | Inl _ \<Rightarrow> None)"
proof -
  obtain a u where req: "request env client ''eth_getTransactionReceipt'' [JStr txHash] timeout s = (a, u)"
    by (cases "request env client ''eth_getTransactionReceipt'' [JStr txHash] timeout s")
  with assms have "t = u"
    by (auto simp: getTransactionReceipt_def jm_eval split: sum.splits option.splits if_splits)
  with request_log [OF req] getTransactionReceipt_log [OF assms] show ?thesis by auto
qed

lemma query_nonce_counts:
  assumes "query_nonce env client span addr ''latest'' s = (Inr (Some l), t)" and "n < l"
  shows "advances addr n (w_calls t) = advances addr n (w_calls s) + 1"
proof -
  from assms(1) obtain timeout u where time: "time_left env client span s = (Inr timeout, u)"
    and count: "getTransactionCount env client addr ''latest'' (Some timeout) u = (Inr l, t)"
    by (auto simp: query_nonce_def or_null_Some jbind_ret_iff jm_apply)
  from count obtain v where "request env client ''eth_getTransactionCount'' [JStr addr, JStr ''latest''] (Some timeout) u = (Inr v, t)"
      and "parseRpcQuantity v ''eth_getTransactionCount'' = Inr l"
    by (auto simp: getTransactionCount_def jbind_ret_iff jm_apply)
  moreover have "w_calls u = w_calls s"
    using time by (auto simp: time_left_def date_now_def pass_time_def jm_eval)
  ultimately show ?thesis using request_log assms(2) by (fastforce simp: advances_def latest_nonce_of_def)
qed

lemma query_nonce_total: "query_nonce env client span addr tag s = (r, t) \<Longrightarrow> \<exists>x. r = Inr x"
  by (auto simp: query_nonce_def time_left_def date_now_def pass_time_def or_null_def jm_eval split: prod.splits sum.splits)

text \<open>Hoare triples for the streak.\<close>

lemma kept_valid:
  assumes "jinv streak_kept m" and "jthrows E m" and "\<And>s t. P s \<Longrightarrow> streak_kept s t \<Longrightarrow> P t"
  shows "jvalid P m (\<lambda>_. P) E"
  using assms by (intro jvalidI) (auto dest: jinvD jthrowsD)

lemma jvalid_jseq: "jvalid P m (\<lambda>_. Q) E \<Longrightarrow> jvalid Q n R E \<Longrightarrow> jvalid P (jseq m n) R E"
  unfolding jseq_def by (rule jvalid_jbind)

lemma final_receipt_check_valid:
  assumes "P = (\<lambda>s. counted 0 addr n s \<and> 2 \<le> nonceAdvancedStreak s)"
  shows "jvalid P (final_receipt_check env client args span addr n l) (\<lambda>_. streak_ok) (advance_verdict args)"
proof (rule jvalidI)
  fix s x t
  assume "P s" and run: "final_receipt_check env client args span addr n l s = (Inr x, t)"
  then have "streak_ok s" by (auto simp: assms streak_ok_def)
  then show "streak_ok t" using jinvD [OF streaks.final_receipt_check_kept run] by (rule streak_ok_kept)
next
  fix s e t
  assume P: "P s" and run: "final_receipt_check env client args span addr n l s = (Inl e, t)"
  obtain timeout s1 where time: "time_left env client span s = (Inr timeout, s1)"
    by (auto simp: time_left_def date_now_def pass_time_def jm_eval)
  obtain q s2 where query: "getTransactionReceipt env client (wa_txHash args) (Some timeout) s1 = (q, s2)"
    by (cases "getTransactionReceipt env client (wa_txHash args) (Some timeout) s1")
  define fr where "fr = (case q of Inr x \<Rightarrow> x | Inl _ \<Rightarrow> None)"
  have "or_null (getTransactionReceipt env client (wa_txHash args) (Some timeout)) s1 = (Inr fr, s2)"
    using query by (auto simp: or_null_def jcatch_apply jm_apply fr_def split: sum.split)
  with run time have rest: "(case (case fr of None \<Rightarrow> None
             | Some r \<Rightarrow> map_option (Pair r) (toHexQuantityOrNull (JStr (rc_blockNumber r)))) of
         None \<Rightarrow> jthrow (DroppedOrReplaced OutcomeDropped n l addr DroppedNonceAdvanced)
       | Some (r, blockHex) \<Rightarrow>
           jbind (jlift (parseRpcQuantity (JStr blockHex) ''receipt.blockNumber'')) (\<lambda>finalReceiptBlock.
             if wait_confirmations args \<le> 1 then jret (Some r)
             else jbind (depth_reached env client args span finalReceiptBlock) (\<lambda>deep.
               if deep then jret (Some r)
               else jseq (jmod (\<lambda>s. s\<lparr>nonceAdvancedStreak := 0\<rparr>)) (jret None)))) s2 = (Inl e, t)"
    by (simp add: final_receipt_check_def jbind_apply)
  obtain call where call: "w_calls s2 = w_calls s1 @ [call]" "call_method call = ''eth_getTransactionReceipt''"
      "call_params call = [JStr (wa_txHash args)]" "receipt_of (wa_txHash args) call = fr"
    using getTransactionReceipt_call [OF query] by (auto simp: fr_def)
  show "advance_verdict args e t"
  proof (cases fr)
    case None
    with rest have e: "e = DroppedOrReplaced OutcomeDropped n l addr DroppedNonceAdvanced" "t = s2"
      by (simp_all add: jm_apply)
    have "streak_kept s t" using run by (rule jinvD [OF streaks.final_receipt_check_kept])
    with P have "2 \<le> advances addr n (w_calls t)"
      by (auto simp: assms counted_def streak_kept_def advances_append)
    with e call None show ?thesis by (auto simp: advance_verdict_def)
  next
    case (Some r)
    with call have "toHexQuantityOrNull (JStr (rc_blockNumber r)) = Some (rc_blockNumber r)"
      by (auto intro: toHexQuantityOrNull_string receipt_of_block)
    with rest Some have "jbind (jlift (parseRpcQuantity (JStr (rc_blockNumber r)) ''receipt.blockNumber'')) (\<lambda>finalReceiptBlock.
             if wait_confirmations args \<le> 1 then jret (Some r)
             else jbind (depth_reached env client args span finalReceiptBlock) (\<lambda>deep.
               if deep then jret (Some r)
               else jseq (jmod (\<lambda>s. s\<lparr>nonceAdvancedStreak := 0\<rparr>)) (jret None))) s2 = (Inl e, t)"
      by simp
    then show ?thesis
      by (rule jthrowsD [rotated]) (intro jthrows_rules advanced.quantity_throws advanced.lookup_throws)
  qed
qed

lemma nonce_advanced_valid:
  "jvalid (counted 1 addr n) (nonce_advanced env client args span addr n l) (\<lambda>_. streak_ok) (advance_verdict args)"
proof -
  have kept: "jvalid (counted k addr n) m (\<lambda>_. counted k addr n) (advance_verdict args)"
    if "jinv streak_kept m" "jthrows (advance_verdict args) m" for k and m :: "'a wait_m"
    using that counted_kept by (rule kept_valid)
  have weaker: "counted 1 addr n s \<Longrightarrow> counted 0 addr n s" for s by (simp add: counted_def)
  have raise: "jvalid (counted 1 addr n)
      (jmod (\<lambda>s. s\<lparr>nonceAdvancedStreak := nonceAdvancedStreak s + 1, txMissingLikelyReplacedStreak := 0\<rparr>))
      (\<lambda>_. counted 0 addr n) (advance_verdict args)"
    by (rule jvalidI) (auto simp: jm_apply counted_def)
  have reset: "jvalid (counted 1 addr n) (jmod f) (\<lambda>_. counted 0 addr n) (advance_verdict args)"
    if "\<And>s. w_clock (f s) = w_clock s \<and> w_calls (f s) = w_calls s \<and> since_kept s (f s) \<and> observed_kept s (f s) \<and>
        nonceAdvancedStreak (f s) \<le> nonceAdvancedStreak s" for f
    using jinvD [OF streaks.local_kept [of f]] that weaker counted_kept
    by (intro jvalidI) (fastforce simp: jm_apply)+
  have count: "jvalid (counted 1 addr n)
      (if toHexQuantityOrNull (tx_field tx_blockNumber tx) \<noteq> None \<or> txMatchesObservedNonce addr n tx
        then jmod (\<lambda>s. s\<lparr>nonceAdvancedStreak := 0, txMissingWithoutEverSeenStreak := 0, txMissingLikelyReplacedStreak := 0\<rparr>)
        else jbind (query_nonce env client span addr ''pending'') (\<lambda>pendingNonce.
          if (case pendingNonce of None \<Rightarrow> False | Some p \<Rightarrow> p \<le> n)
          then jmod (\<lambda>s. s\<lparr>nonceAdvancedStreak := 0, txMissingLikelyReplacedStreak := 0\<rparr>)
          else jmod (\<lambda>s. s\<lparr>nonceAdvancedStreak := nonceAdvancedStreak s + 1, txMissingLikelyReplacedStreak := 0\<rparr>)))
      (\<lambda>_. counted 0 addr n) (advance_verdict args)" for tx
    using reset [of "\<lambda>s. s\<lparr>nonceAdvancedStreak := 0, txMissingWithoutEverSeenStreak := 0, txMissingLikelyReplacedStreak := 0\<rparr>"]
      reset [of "\<lambda>s. s\<lparr>nonceAdvancedStreak := 0, txMissingLikelyReplacedStreak := 0\<rparr>"] raise
    by (auto simp: observed_kept_def since_kept_def intro: jvalid_jbind [OF kept [OF streaks.query_nonce_kept advanced.query_throws(2)]])
  have judge: "jvalid (counted 0 addr n) (jbind (jget nonceAdvancedStreak) (\<lambda>streak.
       if streak \<ge> 2 then final_receipt_check env client args span addr n l else jret None))
      (\<lambda>_. streak_ok) (advance_verdict args)"
    using final_receipt_check_valid [OF refl, of addr n env client args span l]
    by (auto simp: jvalid_def jbind_apply jm_apply streak_ok_def)
  show ?thesis
    unfolding nonce_advanced_def
  proof (rule jvalid_jbind [OF kept [OF streaks.lookup_transaction_kept advanced.lookup_throws(1)]], rule jvalid_jseq)
    fix tx
    show "jvalid (counted 1 addr n) (jwhen (txMatchesObservedNonce addr n tx) (jmod (\<lambda>s. s\<lparr>txSeenByHash := True\<rparr>)))
        (\<lambda>_. counted 1 addr n) (advance_verdict args)"
      by (rule jvalidI) (auto simp: jwhen_def jm_apply counted_def split: if_splits)
  qed (rule jvalid_jseq [OF count judge])
qed

lemma check_nonces_valid: "jvalid streak_ok (check_nonces env client args span) (\<lambda>_. streak_ok) (advance_verdict args)"
proof -
  have keep: "jvalid streak_ok m (\<lambda>_. streak_ok) (advance_verdict args)"
    if "jinv streak_kept m" "jthrows (advance_verdict args) m" for m :: "'a wait_m"
    using that streak_ok_kept by (rule kept_valid)
  have "case check_nonces env client args span s of (Inl e, t) \<Rightarrow> advance_verdict args e t | (Inr x, t) \<Rightarrow> streak_ok t"
    if ok: "streak_ok s" for s
  proof (cases "\<exists>addr n. observedTxFrom s = Some addr \<and> observedTxNonce s = Some n \<and> addr \<noteq> []")
    case False
    with ok show ?thesis by (auto simp: check_nonces_def jm_eval split: option.split)
  next
    case True
    then obtain addr n where obs: "observedTxFrom s = Some addr" "observedTxNonce s = Some n" "addr \<noteq> []" by blast
    obtain r s1 where query: "query_nonce env client span addr ''latest'' s = (r, s1)"
      by (cases "query_nonce env client span addr ''latest'' s")
    then obtain latest where r: "r = Inr latest" using query_nonce_total by blast
    have kept: "streak_kept s s1" using query by (rule jinvD [OF streaks.query_nonce_kept])
    show ?thesis
    proof (cases latest)
      case None
      with obs query r ok kept streak_ok_kept show ?thesis by (simp add: check_nonces_def jm_eval)
    next
      case (Some l)
      show ?thesis
      proof (cases "n < l")
        case True
        have "counted 1 addr n s1"
          using ok obs kept query_nonce_counts [OF query [unfolded r Some] True]
          by (auto simp: streak_ok_def counted_def streak_kept_def observed_kept_def)
        with obs query r Some True nonce_advanced_valid [of addr n env client args span l]
        show ?thesis by (simp add: check_nonces_def jm_eval jvalid_def)
      next
        case False
        then have "l \<le> n" by simp
        from keep [OF streaks.nonce_not_advanced_kept advanced.nonce_not_advanced_throws [OF this]]
        have "jvalid streak_ok (nonce_not_advanced env client args span addr n l) (\<lambda>_. streak_ok) (advance_verdict args)" .
        moreover have "streak_ok s1" using ok kept by (rule streak_ok_kept)
        ultimately show ?thesis using obs query r Some False
          by (auto simp: check_nonces_def jm_eval jvalid_def split: prod.split sum.split dest!: spec [of _ s1])
      qed
    qed
  qed
  then show ?thesis by (simp add: jvalid_def)
qed

lemma jvalid_jret: "jvalid P (jret x) (\<lambda>_. P) E"
  by (simp add: jvalid_def jm_apply)

lemma jvalid_if: "jvalid P m Q E \<Longrightarrow> jvalid P n Q E \<Longrightarrow> jvalid P (if b then m else n) Q E"
  by simp

lemma jvalid_option:
  "jvalid P n Q E \<Longrightarrow> (\<And>x. jvalid P (f x) Q E) \<Longrightarrow> jvalid P (case v of None \<Rightarrow> n | Some x \<Rightarrow> f x) Q E"
  by (cases v) auto

text \<open>Sequencing for one predicate throughout.\<close>

lemma jvalid_inv_jbind:
  "jvalid P m (\<lambda>_. P) E \<Longrightarrow> (\<And>x. jvalid P (f x) (\<lambda>_. P) E) \<Longrightarrow> jvalid P (jbind m f) (\<lambda>_. P) E"
  by (rule jvalid_jbind)

lemma jvalid_inv_jseq:
  "jvalid P m (\<lambda>_. P) E \<Longrightarrow> jvalid P n (\<lambda>_. P) E \<Longrightarrow> jvalid P (jseq m n) (\<lambda>_. P) E"
  by (rule jvalid_jseq)

lemma pollOnce_valid: "jvalid streak_ok (pollOnce env client args span) (\<lambda>_. streak_ok) (advance_verdict args)"
proof -
  note quiet = jinv_jlift [OF streaks.rel_refl]
  have snapshot: "jinv streak_kept (jmod (\<lambda>s. s\<lparr>txByHashSnapshot := None\<rparr>))"
    by (rule streaks.local_kept) (simp add: observed_kept_def since_kept_def)
  show ?thesis
    unfolding pollOnce_def
    by (intro jvalid_inv_jseq jvalid_inv_jbind jvalid_jret jvalid_if jvalid_option check_nonces_valid
        kept_valid [OF streaks.throwIfAborted_kept advanced.throwIfAborted_throws streak_ok_kept]
        kept_valid [OF streaks.read_receipt_kept advanced.query_throws(4) streak_ok_kept]
        kept_valid [OF quiet advanced.quantity_throws streak_ok_kept]
        kept_valid [OF streaks.depth_reached_kept advanced.lookup_throws(2) streak_ok_kept]
        kept_valid [OF streaks.sleepWithAbort_kept advanced.sleepWithAbort_throws streak_ok_kept]
        kept_valid [OF snapshot jthrows_total(3) streak_ok_kept]
        kept_valid [OF streaks.observe_transaction_kept advanced.lookup_throws(3) streak_ok_kept]
        kept_valid [OF streaks.check_fees_kept advanced.check_fees_throws streak_ok_kept])
qed

text \<open>
  The wait calls a transaction dropped because its nonce was used only after the chain answered at
  least twice that the account nonce is past it, and after a last query for its receipt that brought none.
\<close>

theorem dropped_after_two_advances:
  assumes "waitForTransactionReceipt env client args s = (Inl (DroppedOrReplaced reason n l f DroppedNonceAdvanced), t)"
  shows "2 \<le> advances f n (w_calls t) \<and>
    (\<exists>before call. w_calls t = before @ [call] \<and> call_method call = ''eth_getTransactionReceipt'' \<and>
       call_params call = [JStr (wa_txHash args)] \<and> receipt_of (wa_txHash args) call = None)"
proof -
  let ?e = "DroppedOrReplaced reason n l f DroppedNonceAdvanced"
  have loop: "jvalid streak_ok (waitLoop env client args span) (\<lambda>_ _. True) (advance_verdict args)" for span
  proof (rule waitLoop_rule)
    show "jvalid streak_ok (pollOnce env client args span) (\<lambda>r t. case r of None \<Rightarrow> streak_ok t | Some x \<Rightarrow> True)
        (advance_verdict args)"
      using pollOnce_valid [of env client args span]
      by (intro jvalidI) (auto split: option.split dest: jvalidD_ret jvalidD_throw)
    show "streak_ok s \<Longrightarrow> date_now env s = (r, t) \<Longrightarrow> streak_ok t" for s r t
      using streak_ok_kept jinvD [OF streaks.date_now_kept] by blast
    show "jvalid (\<lambda>s. streak_ok s \<and> wt_deadline span \<le> w_clock s) (receipt_timed_out env args) (\<lambda>_ _. True)
        (advance_verdict args)"
      by (intro jvalidI) (auto simp: receipt_timed_out_def throwIfAborted_def outside_def jm_eval advance_verdict_def
          toAbortError_def Let_def split: option.splits abort_reason.splits)
  qed
  obtain s1 where 1: "date_now env (wait_locals args s) = (Inr (w_clock s1), s1)"
    using date_now_result [of env "wait_locals args s"] by (metis surj_pair)
  obtain s2 where 2: "date_now env s1 = (Inr (w_clock s2), s2)"
    using date_now_result [of env s1] by (metis surj_pair)
  have "streak_ok (wait_locals args s)" by (simp add: wait_locals_def streak_ok_def)
  then have "streak_ok s2"
    using streak_ok_kept jinvD [OF streaks.date_now_kept 1] jinvD [OF streaks.date_now_kept 2] by blast
  moreover have "waitLoop env client args \<lparr>wt_deadline = w_clock s1 + wait_timeoutMs args, wt_startedAtMs = w_clock s2\<rparr> s2
      = (Inl ?e, t)"
    using assms by (simp add: waitForTransactionReceipt_def jm_eval 1 2)
  ultimately have "advance_verdict args ?e t" using jvalidD_throw [OF loop] by blast
  then show ?thesis by (simp add: advance_verdict_def)
qed

section \<open>Runs\<close>

text \<open>One endpoint that always answers \<open>reply\<close>; every look at the clock takes \<open>ms\<close> milliseconds.\<close>

definition replying :: "nat \<Rightarrow> (string \<Rightarrow> jsval list \<Rightarrow> jsval) \<Rightarrow> rpc_env" where
  "replying ms reply = \<lparr>rpc_elapse = (\<lambda>_. ms),
     rpc_fetch = (\<lambda>k url meth params window. example_reply (reply meth params)), rpc_aborted = (\<lambda>_. None)\<rparr>"

definition wait_client :: evm_client where
  "wait_client = \<lparr>cl_rpcUrls = [''https://a/''], cl_requestTimeoutMs = 15000\<rparr>"

definition wait_sender :: string where
  "wait_sender = ''0x1111111111111111111111111111111111111111''"

definition wait_hash :: string where
  "wait_hash = ''0x2222222222222222222222222222222222222222222222222222222222222222''"

definition wait_args :: WaitForEvmTransactionReceiptArgs where
  "wait_args = \<lparr>wa_txHash = wait_hash, wa_timeoutMs = Some 1000, wa_pollIntervalMs = Some 1,
     wa_maxFeePerGasHint = None, wa_confirmations = Some 2, wa_transactionSenderAddress = Some wait_sender,
     wa_nonceHint = Some 5\<rparr>"

definition wait_start :: wait_state where
  "wait_start = \<lparr>w_clock = 0, w_tick = 0, w_calls = [], lastRpcError = None, underpricedSinceMs = None,
     observedTxFrom = None, observedTxNonce = None, nonceAdvancedStreak = 0, txSeenByHash = False,
     txMissingWithoutEverSeenStreak = 0, txMissingLikelyReplacedStreak = 0, txMissingNonceGapStreak = 0,
     txByHashSnapshot = None\<rparr>"

text \<open>A chain that knows nothing of the transaction; the account nonce is \<open>latest\<close>, with pending ones \<open>pending\<close>.\<close>

definition unknown_reply :: "string \<Rightarrow> string \<Rightarrow> string \<Rightarrow> jsval list \<Rightarrow> jsval" where
  "unknown_reply latest pending meth params =
     (if meth = ''eth_getTransactionCount'' then (if params ! 1 = JStr ''latest'' then JStr latest else JStr pending)
      else JNull)"

lemmas wait_data = wait_locals_def txMatchesObservedNonce_def tx_field_def wait_timeoutMs_def wait_pollIntervalMs_def
  wait_confirmations_def missingNonceGapMinDurationMs_def missingLikelyReplacedMinDurationMs_def
  missingNeverSeenMinDurationMs_def at_least_one_def

lemma replying_simps [simp]:
  "rpc_elapse (replying ms reply) k = ms" "rpc_aborted (replying ms reply) k = None"
  "rpc_fetch (replying ms reply) k url meth params window = example_reply (reply meth params)"
  by (simp_all add: replying_def)

lemma wait_client_simps [simp]: "cl_requestTimeoutMs wait_client = 15000" "cl_rpcUrls wait_client = [''https://a/'']"
  by (simp_all add: wait_client_def)

lemma replying_request:
  "request (replying ms reply) wait_client meth params timeout s =
     (Inr (reply meth params),
      s\<lparr>w_clock := w_clock s + 4 * int ms, w_tick := w_tick s + 5,
        w_calls := w_calls s @ [\<lparr>call_method = meth, call_params = params,
          call_timeoutMs = at_least_one 15000 timeout, call_answer = Inr (reply meth params)\<rparr>]\<rparr>)"
  by (simp add: rpc_eval example_reply_def eval_nat_numeral)

lemma reply_quantities:
  "parseRpcQuantity (JStr ''0x6'') label = Inr 6" "parseRpcQuantity (JStr ''0x4'') label = Inr 4"
  by (simp_all add: parseRpcQuantity_def is_hex_quantity_def js_BigInt_def radix_digit_def js_trim_def js_whitespace_def
      all_digits_def is_digit_def)

lemma reply_decoders:
  "decodeEvmTransactionReceipt JNull = Inr None" "decodeEvmTransactionByHash JNull = Inr None"
  "toAddressOrNull JUndefined = None" "toAddressOrNull (JStr wait_sender) = Some wait_sender" "wait_sender \<noteq> []"
  by (simp_all add: decodeEvmTransactionReceipt_def decodeEvmTransactionByHash_def toAddressOrNull_def js_String_or_empty_def
      js_trim_def is_mixed_hex_def wait_sender_def js_whitespace_def radix_digit_def)

definition later :: "nat \<Rightarrow> int \<Rightarrow> rpc_call list \<Rightarrow> wait_state \<Rightarrow> wait_state" where
  "later k ms calls s = s\<lparr>w_clock := w_clock s + ms, w_tick := w_tick s + k, w_calls := w_calls s @ calls\<rparr>"

lemma later_later [simp]: "later k ms calls (later k' ms' calls' s) = later (k' + k) (ms' + ms) (calls' @ calls) s"
  by (simp add: later_def add.assoc)

lemma later_fields [simp]:
  "w_clock (later k ms calls s) = w_clock s + ms" "w_calls (later k ms calls s) = w_calls s @ calls"
  "observedTxFrom (later k ms calls s) = observedTxFrom s" "observedTxNonce (later k ms calls s) = observedTxNonce s"
  "nonceAdvancedStreak (later k ms calls s) = nonceAdvancedStreak s" "txSeenByHash (later k ms calls s) = txSeenByHash s"
  "txMissingWithoutEverSeenStreak (later k ms calls s) = txMissingWithoutEverSeenStreak s"
  "txMissingLikelyReplacedStreak (later k ms calls s) = txMissingLikelyReplacedStreak s"
  "txMissingNonceGapStreak (later k ms calls s) = txMissingNonceGapStreak s"
  "txByHashSnapshot (later k ms calls s) = txByHashSnapshot s" "lastRpcError (later k ms calls s) = lastRpcError s"
  by (simp_all add: later_def)

lemma later_updates [simp]:
  "(later k ms calls s)\<lparr>lastRpcError := a\<rparr> = later k ms calls (s\<lparr>lastRpcError := a\<rparr>)"
  "(later k ms calls s)\<lparr>nonceAdvancedStreak := b\<rparr> = later k ms calls (s\<lparr>nonceAdvancedStreak := b\<rparr>)"
  "(later k ms calls s)\<lparr>txSeenByHash := c\<rparr> = later k ms calls (s\<lparr>txSeenByHash := c\<rparr>)"
  "(later k ms calls s)\<lparr>txMissingWithoutEverSeenStreak := d\<rparr> = later k ms calls (s\<lparr>txMissingWithoutEverSeenStreak := d\<rparr>)"
  "(later k ms calls s)\<lparr>txMissingLikelyReplacedStreak := d\<rparr> = later k ms calls (s\<lparr>txMissingLikelyReplacedStreak := d\<rparr>)"
  "(later k ms calls s)\<lparr>txMissingNonceGapStreak := d\<rparr> = later k ms calls (s\<lparr>txMissingNonceGapStreak := d\<rparr>)"
  "(later k ms calls s)\<lparr>txByHashSnapshot := e\<rparr> = later k ms calls (s\<lparr>txByHashSnapshot := e\<rparr>)"
  by (simp_all add: later_def)

lemma replying_run:
  "date_now (replying ms reply) s = (Inr (w_clock s + int ms), later 1 (int ms) [] s)"
  "throwIfAborted (replying ms reply) s = (Inr (), later 1 0 [] s)"
  "sleepWithAbort (replying ms reply) d s = (Inr (), later 3 (max 0 d + int ms) [] s)"
  by (simp_all add: date_now_def pass_time_def throwIfAborted_def sleepWithAbort_def outside_def jm_eval later_def eval_nat_numeral)

lemma replying_request_later:
  "request (replying ms reply) wait_client meth params timeout s =
     (Inr (reply meth params), later 5 (4 * int ms) [\<lparr>call_method = meth, call_params = params,
          call_timeoutMs = at_least_one 15000 timeout, call_answer = Inr (reply meth params)\<rparr>] s)"
  by (simp add: replying_request later_def)

lemmas poll_eval = pollOnce_def [THEN fun_cong] read_receipt_def [THEN fun_cong]
  observe_transaction_def [THEN fun_cong] check_nonces_def [THEN fun_cong] nonce_advanced_def [THEN fun_cong]
  final_receipt_check_def [THEN fun_cong] nonce_not_advanced_def [THEN fun_cong] nonce_gap_def [THEN fun_cong]
  seen_before_def [THEN fun_cong] never_seen_def [THEN fun_cong] check_fees_def [THEN fun_cong]
  depth_reached_def [THEN fun_cong] waited_ms_def [THEN fun_cong] throw_after_def [THEN fun_cong]
  time_left_def [THEN fun_cong] or_null_def [THEN fun_cong] query_transaction_def [THEN fun_cong]
  query_nonce_def [THEN fun_cong] query_latest_block_def [THEN fun_cong] lookup_transaction_def [THEN fun_cong]
  getTransactionReceipt_def [THEN fun_cong] getBlockByNumber_def [THEN fun_cong] getTransactionByHash_def [THEN fun_cong]
  getTransactionCount_def [THEN fun_cong] jm_eval replying_run replying_request_later

lemmas wait_eval = poll_eval waitForTransactionReceipt_def [THEN fun_cong] waitLoop.simps
  receipt_timed_out_def [THEN fun_cong] wait_data wait_args_def unknown_reply_def reply_quantities reply_decoders

lemma dropped_run:
  "fst (waitForTransactionReceipt (replying 2 (unknown_reply ''0x6'' ''0x6'')) wait_client wait_args wait_start)
     = Inl (DroppedOrReplaced OutcomeDropped 5 6 wait_sender DroppedNonceAdvanced)"
  by (simp add: wait_eval wait_start_def)

theorem wait_verdicts_lawful_witness:
  "fst (waitForTransactionReceipt (replying 2 (unknown_reply ''0x6'' ''0x6'')) wait_client wait_args wait_start)
     = Inl (DroppedOrReplaced OutcomeDropped 5 6 wait_sender DroppedNonceAdvanced) \<and>
   verdict_ok wait_args 0 (DroppedOrReplaced OutcomeDropped 5 6 wait_sender DroppedNonceAdvanced)
     (snd (waitForTransactionReceipt (replying 2 (unknown_reply ''0x6'' ''0x6'')) wait_client wait_args wait_start))"
proof -
  let ?run = "waitForTransactionReceipt (replying 2 (unknown_reply ''0x6'' ''0x6'')) wait_client wait_args wait_start"
  have "?run = (Inl (DroppedOrReplaced OutcomeDropped 5 6 wait_sender DroppedNonceAdvanced), snd ?run)"
    by (simp add: prod_eq_iff dropped_run)
  moreover have "w_clock wait_start = 0" by (simp add: wait_start_def)
  ultimately show ?thesis using wait_verdicts_lawful dropped_run by metis
qed

theorem dropped_after_two_advances_witness:
  "fst (waitForTransactionReceipt (replying 2 (unknown_reply ''0x6'' ''0x6'')) wait_client wait_args wait_start)
     = Inl (DroppedOrReplaced OutcomeDropped 5 6 wait_sender DroppedNonceAdvanced) \<and>
   2 \<le> advances wait_sender 5
     (w_calls (snd (waitForTransactionReceipt (replying 2 (unknown_reply ''0x6'' ''0x6'')) wait_client wait_args wait_start)))"
proof -
  let ?run = "waitForTransactionReceipt (replying 2 (unknown_reply ''0x6'' ''0x6'')) wait_client wait_args wait_start"
  have "?run = (Inl (DroppedOrReplaced OutcomeDropped 5 6 wait_sender DroppedNonceAdvanced), snd ?run)"
    by (simp add: prod_eq_iff dropped_run)
  from dropped_after_two_advances [OF this] show ?thesis by (simp add: dropped_run)
qed

section \<open>A verdict after one round\<close>

text \<open>The chain gives one and the same answer to a request, whenever it is sent.\<close>

definition answers :: "rpc_env \<Rightarrow> evm_client \<Rightarrow> string \<Rightarrow> jsval list \<Rightarrow> jsval \<Rightarrow> bool" where
  "answers env client meth params v \<longleftrightarrow> (\<forall>timeout s :: wait_state. fst (request env client meth params timeout s) = Inr v)"

text \<open>Only the clock, the log and the count of interactions differ.\<close>

definition locals_kept :: "wait_state \<Rightarrow> wait_state \<Rightarrow> bool" where
  "locals_kept s t \<longleftrightarrow>
     w_clock s \<le> w_clock t \<and> observedTxFrom t = observedTxFrom s \<and> observedTxNonce t = observedTxNonce s \<and>
     txSeenByHash t = txSeenByHash s \<and> txMissingLikelyReplacedStreak t = txMissingLikelyReplacedStreak s \<and>
     txMissingNonceGapStreak t = txMissingNonceGapStreak s \<and>
     txMissingWithoutEverSeenStreak t = txMissingWithoutEverSeenStreak s \<and> txByHashSnapshot t = txByHashSnapshot s"

interpretation still: rpc_relation locals_kept
  by unfold_locales (auto simp: locals_kept_def reflp_def transp_def)

lemma time_left_still: "\<exists>timeout t. time_left env client span s = (Inr timeout, t) \<and> locals_kept s t"
  using date_now_result [of env s] jinvD [OF still.date_now_kept, of env s]
  by (cases "date_now env s") (auto simp: time_left_def jm_eval)

lemma answered:
  assumes "answers env client meth params v"
  shows "\<exists>t. request env client meth params timeout s = (Inr v, t) \<and> locals_kept s t"
proof -
  obtain r t where run: "request env client meth params timeout s = (r, t)"
    by (cases "request env client meth params timeout s")
  moreover from assms have "fst (request env client meth params timeout s) = Inr v" by (simp add: answers_def)
  ultimately show ?thesis using jinvD [OF still.request_kept run] by simp
qed

lemma query_nonce_answered:
  assumes "answers env client ''eth_getTransactionCount'' [JStr addr, JStr tag] v"
    and "parseRpcQuantity v ''eth_getTransactionCount'' = Inr n"
  shows "\<exists>t. query_nonce env client span addr tag s = (Inr (Some n), t) \<and> locals_kept s t"
proof -
  obtain timeout u where u: "time_left env client span s = (Inr timeout, u)" "locals_kept s u"
    using time_left_still by blast
  obtain t where t: "request env client ''eth_getTransactionCount'' [JStr addr, JStr tag] (Some timeout) u = (Inr v, t)" "locals_kept u t"
    using answered [OF assms(1)] by blast
  with u have "locals_kept s t" using transpD [OF still.rel_trans] by blast
  with u(1) t(1) assms(2) show ?thesis
    by (simp add: query_nonce_def or_null_def getTransactionCount_def jm_eval)
qed

lemma query_transaction_unknown:
  assumes "answers env client ''eth_getTransactionByHash'' [JStr (wa_txHash args)] JNull"
  shows "\<exists>t. query_transaction env client args timeout s = (Inr None, t) \<and> locals_kept s t"
  using answered [OF assms, of "Some timeout" s]
  by (auto simp: query_transaction_def or_null_def getTransactionByHash_def decodeEvmTransactionByHash_def jm_eval)

text \<open>
  A round, past time \<open>ms\<close>, in which the transaction of sender \<open>addr\<close> and nonce \<open>n\<close> has never been visible and
  looked replaced \<open>k\<close> times.
\<close>

definition unseen :: "string \<Rightarrow> int \<Rightarrow> int \<Rightarrow> nat \<Rightarrow> wait_state \<Rightarrow> bool" where
  "unseen addr n ms k s \<longleftrightarrow>
     observedTxFrom s = Some addr \<and> observedTxNonce s = Some n \<and> \<not> txSeenByHash s \<and>
     txMissingLikelyReplacedStreak s = k \<and> txByHashSnapshot s \<in> {None, Some None} \<and> ms \<le> w_clock s"

lemma unseen_kept: "unseen addr n ms k s \<Longrightarrow> locals_kept s t \<Longrightarrow> unseen addr n ms k t"
  by (auto simp: unseen_def locals_kept_def)

lemma unknown_transaction:
  "toAddressOrNull (tx_field f None) = None" "\<not> txMatchesObservedNonce addr n None"
  by (simp_all add: txMatchesObservedNonce_def tx_field_def toAddressOrNull_def js_String_or_empty_def js_trim_def is_mixed_hex_def)

text \<open>
  The chain does not know the transaction, the account nonce \<open>l\<close> is below its nonce \<open>n\<close> and the account nonce with
  pending transactions is above it.
\<close>

definition looks_replaced :: "rpc_env \<Rightarrow> evm_client \<Rightarrow> WaitForEvmTransactionReceiptArgs \<Rightarrow> string \<Rightarrow> int \<Rightarrow> int \<Rightarrow> bool" where
  "looks_replaced env client args addr n l \<longleftrightarrow>
     answers env client ''eth_getTransactionByHash'' [JStr (wa_txHash args)] JNull \<and> l < n \<and>
     (\<exists>latest. answers env client ''eth_getTransactionCount'' [JStr addr, JStr ''latest''] latest \<and>
        parseRpcQuantity latest ''eth_getTransactionCount'' = Inr l) \<and>
     (\<exists>pending p. answers env client ''eth_getTransactionCount'' [JStr addr, JStr ''pending''] pending \<and>
        parseRpcQuantity pending ''eth_getTransactionCount'' = Inr p \<and> n < p)"

lemma lookup_unseen:
  assumes chain: "looks_replaced env client args addr n l" and "unseen addr n ms k s"
  shows "\<exists>t. lookup_transaction env client args span s = (Inr None, t) \<and> unseen addr n ms k t"
proof -
  obtain timeout u where u: "time_left env client span s = (Inr timeout, u)" "locals_kept s u"
    using time_left_still by blast
  then have now: "unseen addr n ms k u" using assms(2) unseen_kept by blast
  obtain v where v: "query_transaction env client args timeout u = (Inr None, v)" "locals_kept u v"
    using query_transaction_unknown chain unfolding looks_replaced_def by blast
  from now have "txByHashSnapshot u = None \<or> txByHashSnapshot u = Some None" by (auto simp: unseen_def)
  then show ?thesis
    using u(1) v(1) now unseen_kept [OF now v(2)]
    by (auto simp: lookup_transaction_def jm_eval unseen_def)
qed

lemma pending_unseen:
  assumes chain: "looks_replaced env client args addr n l" and "unseen addr n ms k s"
  shows "\<exists>p t. query_nonce env client span addr ''pending'' s = (Inr (Some p), t) \<and> n < p \<and> unseen addr n ms k t"
  using chain query_nonce_answered unseen_kept [OF assms(2)] unfolding looks_replaced_def by blast

lemma waited_unseen:
  assumes "unseen addr n ms k s"
  shows "\<exists>waited t. waited_ms env span s = (Inr waited, t) \<and> ms - wt_startedAtMs span \<le> waited \<and> unseen addr n ms k t \<and> locals_kept s t"
proof -
  obtain t where t: "date_now env s = (Inr (w_clock t), t)" using date_now_result [of env s] by (metis surj_pair)
  from jinvD [OF still.date_now_kept t] have kept: "locals_kept s t" .
  have "unseen addr n ms k t" using assms kept by (rule unseen_kept)
  with t kept show ?thesis by (auto simp: waited_ms_def jm_eval unseen_def)
qed

lemma nonce_gap_unseen:
  assumes chain: "looks_replaced env client args addr n l" and "unseen addr n ms 0 s"
  shows "\<exists>t. nonce_gap env client args span addr n l s = (Inr (), t) \<and> unseen addr n ms 1 t"
proof -
  obtain t1 where 1: "lookup_transaction env client args span s = (Inr None, t1)" "unseen addr n ms 0 t1"
    using lookup_unseen [OF assms] by blast
  obtain p t2 where 2: "query_nonce env client span addr ''pending'' t1 = (Inr (Some p), t2)" "unseen addr n ms 0 t2" "n < p"
    using pending_unseen [OF chain 1(2)] by blast
  define t3 where "t3 = t2\<lparr>txMissingNonceGapStreak := 0, txMissingWithoutEverSeenStreak := 0,
    txMissingLikelyReplacedStreak := txMissingLikelyReplacedStreak t2 + 1\<rparr>"
  have 3: "unseen addr n ms 1 t3" using 2(2) by (simp add: unseen_def t3_def)
  obtain waited t4 where 4: "waited_ms env span t3 = (Inr waited, t4)" "unseen addr n ms 1 t4" "locals_kept t3 t4"
    using waited_unseen [OF 3] by blast
  have "txMissingNonceGapStreak t4 = 0" "txMissingLikelyReplacedStreak t4 = 1"
    using 4(2,3) by (simp_all add: locals_kept_def unseen_def t3_def)
  with 1(1) 2(1,3) 4(1,2) show ?thesis
    by (simp add: nonce_gap_def throw_after_def unknown_transaction jm_eval t3_def)
qed

lemma never_seen_unseen:
  assumes chain: "looks_replaced env client args addr n l" and "unseen addr n ms 1 s" and "wt_startedAtMs span + missingLikelyReplacedMinDurationMs args \<le> ms"
  shows "\<exists>t. never_seen env client args span addr n l s =
    (Inl (DroppedOrReplaced OutcomeReplaced n l addr DroppedHashDisappeared), t)"
proof -
  obtain t1 where 1: "lookup_transaction env client args span s = (Inr None, t1)" "unseen addr n ms 1 t1"
    using lookup_unseen [OF assms(1,2)] by blast
  obtain p t2 where 2: "query_nonce env client span addr ''pending'' t1 = (Inr (Some p), t2)" "unseen addr n ms 1 t2" "n < p"
    using pending_unseen [OF chain 1(2)] by blast
  have below: "l < n" using chain by (simp add: looks_replaced_def)
  define t3 where "t3 = t2\<lparr>txMissingWithoutEverSeenStreak := 0,
    txMissingLikelyReplacedStreak := txMissingLikelyReplacedStreak t2 + 1\<rparr>"
  have 3: "unseen addr n ms 2 t3" using 2(2) by (simp add: unseen_def t3_def)
  obtain waited t4 where 4: "waited_ms env span t3 = (Inr waited, t4)" "ms - wt_startedAtMs span \<le> waited"
      "unseen addr n ms 2 t4" "locals_kept t3 t4"
    using waited_unseen [OF 3] by blast
  have "txMissingWithoutEverSeenStreak t4 = 0" "txMissingLikelyReplacedStreak t4 = 2"
    using 4(3,4) by (simp_all add: locals_kept_def unseen_def t3_def)
  with 1(1) 2(1,3) 4(1,2) assms(3) below show ?thesis
    by (simp add: never_seen_def throw_after_def unknown_transaction jm_eval t3_def)
qed

lemma check_nonces_unseen:
  assumes chain: "looks_replaced env client args addr n l" and "unseen addr n ms 0 s" and "wt_startedAtMs span + missingLikelyReplacedMinDurationMs args \<le> ms" and "addr \<noteq> []"
  shows "\<exists>t. check_nonces env client args span s =
    (Inl (DroppedOrReplaced OutcomeReplaced n l addr DroppedHashDisappeared), t)"
proof -
  obtain t1 where 1: "query_nonce env client span addr ''latest'' s = (Inr (Some l), t1)" "locals_kept s t1"
    using chain query_nonce_answered unfolding looks_replaced_def by blast
  have "unseen addr n ms 0 (t1\<lparr>nonceAdvancedStreak := 0\<rparr>)"
    using unseen_kept [OF assms(2) 1(2)] by (simp add: unseen_def)
  then obtain t2 where 2: "nonce_gap env client args span addr n l (t1\<lparr>nonceAdvancedStreak := 0\<rparr>) = (Inr (), t2)"
      "unseen addr n ms 1 t2"
    using nonce_gap_unseen [OF chain] by blast
  from never_seen_unseen [OF chain 2(2) assms(3)] obtain t3 where
    "never_seen env client args span addr n l t2 = (Inl (DroppedOrReplaced OutcomeReplaced n l addr DroppedHashDisappeared), t3)"
    by blast
  moreover have "l < n" using chain by (simp add: looks_replaced_def)
  ultimately show ?thesis
    using 1 2 assms(2,4) unseen_kept [OF assms(2) 1(2)]
    by (simp add: check_nonces_def nonce_not_advanced_def jm_eval unseen_def)
qed

text \<open>
  C38: One poll is enough for a verdict that is meant to need two. The streak of polls on which a
  transaction looks replaced is counted twice in one poll when the account nonce is below the nonce of the
  transaction. So in every poll after the minimal time for the verdict, on a chain that knows neither receipt nor
  transaction, with the account nonce below the nonce of the transaction and the nonce with pending
  transactions above it, and with a transaction that was never seen, the poll throws that the transaction
  was replaced although the streak was zero before it.
\<close>

theorem replaced_after_one_poll:
  assumes "\<forall>k. rpc_aborted env k = None"
    and "answers env client ''eth_getTransactionReceipt'' [JStr (wa_txHash args)] JNull"
    and "looks_replaced env client args addr n l"
    and "observedTxFrom s = Some addr" "addr \<noteq> []" "observedTxNonce s = Some n"
    and "\<not> txSeenByHash s" "txMissingLikelyReplacedStreak s = 0"
    and "wt_startedAtMs span + missingLikelyReplacedMinDurationMs args \<le> w_clock s"
  shows "\<exists>t. pollOnce env client args span s =
    (Inl (DroppedOrReplaced OutcomeReplaced n l addr DroppedHashDisappeared), t)"
proof -
  obtain t1 where 1: "throwIfAborted env s = (Inr (), t1)" "locals_kept s t1"
    using assms(1) by (auto simp: throwIfAborted_def outside_def jm_eval locals_kept_def)
  obtain timeout t2 where 2: "time_left env client span t1 = (Inr timeout, t2)" "locals_kept t1 t2"
    using time_left_still by blast
  obtain t3 where 3: "request env client ''eth_getTransactionReceipt'' [JStr (wa_txHash args)] (Some timeout) t2 = (Inr JNull, t3)"
      "locals_kept t2 t3"
    using answered [OF assms(2)] by blast
  define t4 where "t4 = t3\<lparr>lastRpcError := None, txByHashSnapshot := None\<rparr>"
  have 4: "unseen addr n (w_clock s) 0 t4"
    using assms(4,6-8) 1(2) 2(2) 3(2) by (simp add: unseen_def locals_kept_def t4_def)
  obtain timeout' t5 where 5: "time_left env client span t4 = (Inr timeout', t5)" "locals_kept t4 t5"
    using time_left_still by blast
  obtain t6 where 6: "query_transaction env client args timeout' t5 = (Inr None, t6)" "locals_kept t5 t6"
    using query_transaction_unknown assms(3) unfolding looks_replaced_def by blast
  have 7: "unseen addr n (w_clock s) 0 (t6\<lparr>txByHashSnapshot := Some None\<rparr>)"
    using unseen_kept [OF unseen_kept [OF 4 5(2)] 6(2)] by (simp add: unseen_def)
  from check_nonces_unseen [OF assms(3) 7 assms(9,5)] obtain t where
    "check_nonces env client args span (t6\<lparr>txByHashSnapshot := Some None\<rparr>) =
      (Inl (DroppedOrReplaced OutcomeReplaced n l addr DroppedHashDisappeared), t)" by blast
  with 1(1) 2(1) 3(1) 5(1) 6(1) 4 show ?thesis
    by (simp add: pollOnce_def read_receipt_def observe_transaction_def getTransactionReceipt_def jm_eval
        reply_decoders unknown_transaction t4_def unseen_def)
qed

text \<open>A poll whose clock shows a second since the start of the wait.\<close>

definition late_poll :: wait_state where
  "late_poll = (wait_locals wait_args wait_start)\<lparr>w_clock := 1000\<rparr>"

definition late_span :: wait_times where
  "late_span = \<lparr>wt_deadline = 2000, wt_startedAtMs = 0\<rparr>"

theorem replaced_after_one_poll_witness:
  "\<exists>t. pollOnce (replying 30 (unknown_reply ''0x4'' ''0x6'')) wait_client wait_args late_span late_poll =
    (Inl (DroppedOrReplaced OutcomeReplaced 5 4 wait_sender DroppedHashDisappeared), t)"
proof (rule replaced_after_one_poll)
  let ?env = "replying 30 (unknown_reply ''0x4'' ''0x6'')"
  show "answers ?env wait_client ''eth_getTransactionReceipt'' [JStr (wa_txHash wait_args)] JNull"
    by (simp add: answers_def replying_request unknown_reply_def)
  show "looks_replaced ?env wait_client wait_args wait_sender 5 4"
    unfolding looks_replaced_def answers_def replying_request by (auto simp: unknown_reply_def reply_quantities)
qed (simp_all add: late_poll_def late_span_def wait_data wait_args_def wait_start_def reply_decoders)


text \<open>A chain that mined the transaction in block 16 and is at block 17.\<close>

definition mined_reply :: "string \<Rightarrow> jsval list \<Rightarrow> jsval" where
  "mined_reply meth params =
     (if meth = ''eth_getTransactionReceipt''
      then JObj [(''transactionHash'', JStr wait_hash), (''blockNumber'', JStr ''0x10''), (''status'', JStr ''0x1'')]
      else if meth = ''eth_getBlockByNumber'' then JObj [(''number'', JStr ''0x11'')]
      else JNull)"

definition mined_receipt :: EvmTransactionReceipt where
  "mined_receipt = \<lparr>rc_transactionHash = wait_hash, rc_from = JUndefined, rc_blockNumber = ''0x10'', rc_status = ''0x1'',
     rc_gasUsed = JUndefined, rc_effectiveGasPrice = JUndefined, rc_gasPrice = JUndefined\<rparr>"

lemma mined_receipt_simps [simp]: "rc_blockNumber mined_receipt = ''0x10''" "rc_transactionHash mined_receipt = wait_hash"
  by (simp_all add: mined_receipt_def)

lemma mined_decoders:
  "decodeEvmTransactionReceipt (JObj [(''transactionHash'', JStr wait_hash), (''blockNumber'', JStr ''0x10''), (''status'', JStr ''0x1'')])
     = Inr (Some mined_receipt)"
  "decodeEvmBlockHeader (JObj [(''number'', JStr ''0x11'')]) = Inr (Some \<lparr>bh_number = JStr ''0x11'', bh_baseFeePerGas = JUndefined\<rparr>)"
  by (simp_all add: decodeEvmTransactionReceipt_def decodeEvmBlockHeader_def optionalRpcHexData_def optionalRpcAddress_def
      optionalRpcHexQuantity_def checkedRpcString_def optionalRpcString_def as_string_def mined_receipt_def wait_hash_def
      is_hex_data_def is_mixed_hex_def is_hex_quantity_def radix_digit_def jfield.simps Let_def)

lemma mined_quantities:
  "parseRpcQuantity (JStr ''0x10'') label = Inr 16" "parseRpcQuantity (JStr ''0x11'') label = Inr 17"
  "toHexQuantityOrNull (JStr ''0x11'') = Some ''0x11''"
  by (simp_all add: parseRpcQuantity_def toHexQuantityOrNull_def js_String_or_empty_def is_hex_quantity_def js_BigInt_def
      radix_digit_def js_trim_def js_whitespace_def all_digits_def is_digit_def)

theorem returned_receipt_confirmed_witness:
  "fst (waitForTransactionReceipt (replying 2 mined_reply) wait_client wait_args wait_start) = Inr mined_receipt \<and>
   confirmed wait_args (w_calls (snd (waitForTransactionReceipt (replying 2 mined_reply) wait_client wait_args wait_start)))
     mined_receipt"
proof -
  let ?run = "waitForTransactionReceipt (replying 2 mined_reply) wait_client wait_args wait_start"
  have run: "fst ?run = Inr mined_receipt"
    by (simp add: wait_eval wait_start_def mined_reply_def mined_decoders mined_quantities)
  then have "?run = (Inr mined_receipt, snd ?run)" by (simp add: prod_eq_iff)
  with returned_receipt_confirmed run show ?thesis by metis
qed

end
