(* ===== verification/EvmSigningErrors.thy ===== *)
theory EvmSigningErrors
  imports EvmNonceBackend
begin

text \<open>
  Errors of EVM-family signing (\<open>flows/signEvmFamily/errors.ts\<close>): thrown values of any kind are read
  for a code and a message, and those that speak of a nonce conflict or of a blocked nonce lane are
  replaced by errors the caller can retry on.
\<close>

declare jfield.simps [simp del]

section \<open>Thrown values\<close>

text \<open>
  A thrown value: an instance of \<open>Error\<close> with its message, the properties set on it and its \<open>cause\<close>,
  or anything else.
\<close>

datatype js_error =
    PlainValue jsval
  | ErrorInstance (err_message: string) (err_fields: "(string \<times> jsval) list") (err_cause: "js_error option")

definition new_Error :: "string \<Rightarrow> js_error" where
  "new_Error message = ErrorInstance message [] None"

text \<open>\<open>error && typeof error === 'object'\<close>.\<close>

definition is_error_object :: "js_error \<Rightarrow> bool" where
  "is_error_object e = (case e of PlainValue v \<Rightarrow> is_object v | ErrorInstance _ _ _ \<Rightarrow> True)"

text \<open>The property \<open>key\<close> when \<open>key in error\<close>.\<close>

definition error_field :: "js_error \<Rightarrow> string \<Rightarrow> jsval option" where
  "error_field e key =
     (case e of
        PlainValue (JObj fs) \<Rightarrow> map_of fs key
      | PlainValue _ \<Rightarrow> None
      | ErrorInstance _ fs _ \<Rightarrow> map_of fs key)"

text \<open>\<open>replace(/[\s-]+/g, '_')\<close>; the flag says that the preceding character belonged to a run.\<close>

fun underscore_runs :: "bool \<Rightarrow> string \<Rightarrow> string" where
  "underscore_runs inRun [] = []"
| "underscore_runs inRun (c # cs) =
     (if js_whitespace c \<or> c = CHR ''-''
      then (if inRun then underscore_runs True cs else CHR ''_'' # underscore_runs True cs)
      else c # underscore_runs False cs)"

definition normalizeToken :: "jsval \<Rightarrow> string" where
  "normalizeToken value = underscore_runs False (js_lower (js_trim (js_String_or_empty value)))"

definition extractErrorCode :: "js_error \<Rightarrow> string" where
  "extractErrorCode e = (case error_field e ''code'' of None \<Rightarrow> [] | Some code \<Rightarrow> normalizeToken code)"

definition extractErrorMessage :: "js_error \<Rightarrow> string" where
  "extractErrorMessage e =
     (case e of
        ErrorInstance message _ _ \<Rightarrow> js_trim message
      | PlainValue v \<Rightarrow>
          (case error_field e ''message'' of
             Some m \<Rightarrow> js_trim (js_String_or_empty m)
           | None \<Rightarrow> js_trim (js_String_or_empty v)))"

section \<open>Nonce conflicts\<close>

datatype NonceConflictReason = NonceTooLow | NonceTooHigh | AlreadyKnown | ReplacementUnderpriced | NonceConflict

fun conflict_reason_str :: "NonceConflictReason \<Rightarrow> string" where
  "conflict_reason_str NonceTooLow = ''nonce_too_low''"
| "conflict_reason_str NonceTooHigh = ''nonce_too_high''"
| "conflict_reason_str AlreadyKnown = ''already_known''"
| "conflict_reason_str ReplacementUnderpriced = ''replacement_underpriced''"
| "conflict_reason_str NonceConflict = ''nonce_conflict''"

definition inferNonceConflictReason :: "string \<Rightarrow> string \<Rightarrow> NonceConflictReason option" where
  "inferNonceConflictReason code message =
     (let haystack = js_lower (code @ '' '' @ message); has = js_includes haystack in
      if js_trim haystack = [] then None
      else if has ''nonce_too_low'' \<or> has ''nonce too low'' then Some NonceTooLow
      else if has ''nonce_too_high'' \<or> has ''nonce too high'' then Some NonceTooHigh
      else if has ''already_known'' \<or> has ''already known'' then Some AlreadyKnown
      else if has ''replacement_transaction_underpriced'' \<or> has ''replacement transaction underpriced''
        then Some ReplacementUnderpriced
      else if has ''nonce_conflict'' \<or> (has ''nonce'' \<and> has ''conflict'') \<or> has ''invalid nonce'' \<or>
              has ''nonce has already been used'' then Some NonceConflict
      else None)"

fun family_str :: "BoundaryEcdsaChainFamily \<Rightarrow> string" where
  "family_str BoundaryEvm = ''evm''"
| "family_str BoundaryTempo = ''tempo''"

fun family_label :: "BoundaryEcdsaChainFamily \<Rightarrow> string" where
  "family_label BoundaryEvm = ''EVM''"
| "family_label BoundaryTempo = ''Tempo''"

definition createEvmFamilySigningNonceConflictError ::
  "BoundaryEcdsaChainFamily \<Rightarrow> string \<Rightarrow> int \<Rightarrow> NonceConflictReason \<Rightarrow> js_error option \<Rightarrow> js_error" where
  "createEvmFamilySigningNonceConflictError chain netKey cid reason cause =
     ErrorInstance
       (''[SigningEngine] '' @ family_label chain @ '' nonce conflict ('' @ conflict_reason_str reason @ '') on '' @
        netKey @ ''. Refresh nonce context and retry.'')
       [(''code'', JStr ''nonce_conflict_retryable''), (''retryable'', JBool True),
        (''details'', JObj [(''chain'', JStr (family_str chain)), (''reason'', JStr (conflict_reason_str reason)),
                            (''networkKey'', JStr netKey), (''chainId'', JNum cid)])]
       cause"

definition createEvmFamilySigningNonceLaneBlockedError ::
  "BoundaryEcdsaChainFamily \<Rightarrow> string \<Rightarrow> int \<Rightarrow> string \<Rightarrow> jsval option \<Rightarrow> js_error option \<Rightarrow> js_error" where
  "createEvmFamilySigningNonceLaneBlockedError chain netKey cid nonceText ageMs cause =
     ErrorInstance
       (''[SigningEngine] '' @ family_label chain @ '' nonce lane blocked on '' @ netKey @ '' (nonce='' @
        nonceText @ ''). Reconcile lane and retry.'')
       [(''code'', JStr ''nonce_lane_blocked''), (''retryable'', JBool True),
        (''details'', JObj ([(''chain'', JStr (family_str chain)), (''networkKey'', JStr netKey), (''chainId'', JNum cid),
                             (''blockedNonce'', JStr nonceText)] @
                            (case ageMs of None \<Rightarrow> [] | Some age \<Rightarrow> [(''ageMs'', age)])))]
       cause"

definition mapToRetryableNonceConflictError ::
  "js_error \<Rightarrow> BoundaryEcdsaChainFamily \<Rightarrow> string \<Rightarrow> int \<Rightarrow> js_error" where
  "mapToRetryableNonceConflictError e chain netKey cid =
     (if \<not> is_error_object e then e
      else let existingCode = extractErrorCode e in
        if existingCode = ''nonce_conflict_retryable'' then e
        else case inferNonceConflictReason existingCode (extractErrorMessage e) of
            None \<Rightarrow> e
          | Some reason \<Rightarrow> createEvmFamilySigningNonceConflictError chain netKey cid reason (Some e))"

section \<open>Blocked lanes\<close>

text \<open>\<open>typeof error.details === 'object' ? error.details || {} : {}\<close>, as far as its properties are read.\<close>

definition error_details :: "js_error \<Rightarrow> (string \<times> jsval) list" where
  "error_details e = (case error_field e ''details'' of Some (JObj fs) \<Rightarrow> fs | _ \<Rightarrow> [])"

text \<open>
  \<open>Number(v)\<close> when it is finite. (A string or array that spells a number outside the safe integers
  counts as absent here.)
\<close>

definition finite_age :: "jsval \<Rightarrow> jsval option" where
  "finite_age v =
     (case v of
        JOther s \<Rightarrow> if s \<in> {''NaN'', ''Infinity'', ''-Infinity''} then None else Some (JOther s)
      | _ \<Rightarrow> map_option JNum (js_Number v))"

definition mapToRetryableNonceLaneBlockedError ::
  "js_error \<Rightarrow> BoundaryEcdsaChainFamily \<Rightarrow> string \<Rightarrow> int \<Rightarrow> js_error" where
  "mapToRetryableNonceLaneBlockedError e chain netKey cid =
     (if \<not> is_error_object e then e
      else if extractErrorCode e = ''nonce_lane_blocked''
      then let details = error_details e;
               blockedNonceRaw = js_trim (js_String_or_empty (jfield details ''blockedNonce''))
           in createEvmFamilySigningNonceLaneBlockedError chain netKey cid
                (if blockedNonceRaw = [] then ''unknown'' else blockedNonceRaw)
                (finite_age (jfield details ''ageMs'')) (Some e)
      else let message = js_lower (extractErrorMessage e) in
        if js_includes message ''nonce lane blocked'' \<or> (js_includes message ''nonce'' \<and> js_includes message ''blocked'')
        then createEvmFamilySigningNonceLaneBlockedError chain netKey cid ''unknown'' None (Some e)
        else e)"

definition mapToRetryableNonceStateError ::
  "js_error \<Rightarrow> BoundaryEcdsaChainFamily \<Rightarrow> string \<Rightarrow> int \<Rightarrow> js_error" where
  "mapToRetryableNonceStateError e chain netKey cid =
     (let mappedConflict = mapToRetryableNonceConflictError e chain netKey cid
      in mapToRetryableNonceLaneBlockedError mappedConflict chain netKey cid)"

definition isNonceConflictRetryableError :: "js_error \<Rightarrow> bool" where
  "isNonceConflictRetryableError e \<longleftrightarrow> is_error_object e \<and> extractErrorCode e = ''nonce_conflict_retryable''"

definition isNonceLaneBlockedRetryableError :: "js_error \<Rightarrow> bool" where
  "isNonceLaneBlockedRetryableError e \<longleftrightarrow> is_error_object e \<and> extractErrorCode e = ''nonce_lane_blocked''"

text \<open>The error \<open>createEvmNonceLaneBlockedError\<close> of \<open>nonce/evmNonceLane.ts\<close> makes for the lane, as an object.\<close>

definition lane_blocked_object :: "EvmNonceLane \<Rightarrow> int \<Rightarrow> int \<Rightarrow> js_error" where
  "lane_blocked_object lane nonce ageMs =
     ErrorInstance
       (''[NonceCoordinator] nonce lane blocked on '' @ nonceLaneNetworkKey (EvmLane lane) @ '' (nonce='' @ int_str nonce @
        '') for '' @ int_str ageMs @ ''ms; reconcile or replace/dropped report required'')
       [(''code'', JStr ''nonce_lane_blocked''), (''retryable'', JBool True),
        (''details'', JObj [(''chain'', JStr (chain_target_kind (chainTarget lane))),
                            (''networkKey'', JStr (nonceLaneNetworkKey (EvmLane lane))),
                            (''chainId'', JNum (chainId (chainTarget lane))),
                            (''blockedNonce'', JStr (int_str nonce)), (''ageMs'', JNum ageMs)])]
       None"

definition createEvmFamilySigningCancelledError :: js_error where
  "createEvmFamilySigningCancelledError = ErrorInstance ''Request cancelled'' [(''code'', JStr ''cancelled'')] None"

section \<open>Substrings around numbers\<close>

lemma includes_Nil [simp]: "js_includes s []"
  by (cases s) simp_all

text \<open>For evaluation: compare from the front and stop at the first difference.\<close>

fun starts_with :: "string \<Rightarrow> string \<Rightarrow> bool" where
  "starts_with [] s = True"
| "starts_with (p # ps) [] = False"
| "starts_with (p # ps) (c # cs) = (p = c \<and> starts_with ps cs)"

lemma starts_with_take: "starts_with p s \<longleftrightarrow> take (length p) s = p"
  by (induction p s rule: starts_with.induct) auto

lemma includes_code [code]:
  "js_includes [] p = (p = [])"
  "js_includes (c # cs) p = (starts_with p (c # cs) \<or> js_includes cs p)"
  by (simp_all only: js_includes.simps starts_with_take)

text \<open>A pattern cannot reach over a character it does not contain.\<close>

lemma includes_across:
  assumes "d \<notin> set p" and "p \<noteq> []"
  shows "js_includes (A @ d # B) p \<longleftrightarrow> js_includes A p \<or> js_includes B p"
proof (induction A)
  case Nil
  have "take (length p) (d # B) \<noteq> p"
    using assms by (cases p) auto
  with assms(2) show ?case by simp
next
  case (Cons a A)
  have "take (length p) (a # A @ d # B) = p \<longleftrightarrow> take (length p) (a # A) = p"
  proof (cases "length p \<le> length (a # A)")
    case True
    then have "take (length p) ((a # A) @ d # B) = take (length p) (a # A)" by (simp only: take_append) simp
    then show ?thesis by simp
  next
    case False
    then have "d \<in> set (take (length p) ((a # A) @ d # B))"
      by (simp only: take_append) (cases "length p - length (a # A)", auto)
    with assms(1) have "take (length p) ((a # A) @ d # B) \<noteq> p" by metis
    moreover from False have "take (length p) (a # A) \<noteq> p" by (metis length_take min.absorb_iff1 nat_le_linear)
    ultimately show ?thesis by simp
  qed
  with Cons show ?case by simp
qed

lemma includes_gap:
  assumes "set D \<inter> set p = {}" and "D \<noteq> []" and "p \<noteq> []"
  shows "js_includes (A @ D @ B) p \<longleftrightarrow> js_includes A p \<or> js_includes B p"
  using assms(1,2)
proof (induction D arbitrary: A)
  case (Cons d D)
  show ?case
  proof (cases "D = []")
    case True
    with Cons.prems assms(3) show ?thesis by (simp add: includes_across)
  next
    case False
    from Cons.prems(1) assms(3) have "js_includes (A @ d # D @ B) p \<longleftrightarrow> js_includes A p \<or> js_includes ([] @ D @ B) p"
      by (simp add: includes_across)
    also have "js_includes ([] @ D @ B) p \<longleftrightarrow> js_includes B p"
      using Cons.IH [of "[]"] Cons.prems(1) False assms(3) by auto
    finally show ?thesis by simp
  qed
qed simp

definition number_char :: "char \<Rightarrow> bool" where
  "number_char c \<longleftrightarrow> is_digit c \<or> c = CHR ''-''"

lemma int_str_chars: "list_all number_char (int_str i)"
proof -
  have "list_all number_char (nat_str n)" for n
    using nat_str_digits [of n] by (auto simp: number_char_def list_all_iff)
  then show ?thesis by (simp add: int_str_def number_char_def)
qed

lemma js_lower_append [simp]: "js_lower (a @ b) = js_lower a @ js_lower b"
  by (simp add: js_lower_def)

lemma js_lower_number: "list_all number_char s \<Longrightarrow> js_lower s = s"
  by (induction s) (auto simp: js_lower_def js_lower_char_def number_char_def is_digit_def)

lemma js_lower_int_str [simp]: "js_lower (int_str i) = int_str i"
  by (rule js_lower_number [OF int_str_chars])

section \<open>Which errors are retryable\<close>

text \<open>What \<^const>\<open>inferNonceConflictReason\<close> looks for; \<open>''conflict''\<close> counts only beside \<open>''nonce''\<close>.\<close>

definition conflict_patterns :: "string list" where
  "conflict_patterns =
     [''nonce_too_low'', ''nonce too low'', ''nonce_too_high'', ''nonce too high'', ''already_known'', ''already known'',
      ''replacement_transaction_underpriced'', ''replacement transaction underpriced'', ''nonce_conflict'', ''conflict'',
      ''invalid nonce'', ''nonce has already been used'']"

definition conflict_free :: "string \<Rightarrow> bool" where
  "conflict_free s \<longleftrightarrow> list_all (\<lambda>p. \<not> js_includes s p) conflict_patterns"

lemma infer_none: "conflict_free (js_lower (code @ '' '' @ message)) \<Longrightarrow> inferNonceConflictReason code message = None"
  by (simp add: inferNonceConflictReason_def conflict_free_def conflict_patterns_def Let_def)

lemma patterns_letters: "p \<in> set conflict_patterns \<Longrightarrow> number_char c \<Longrightarrow> c \<notin> set p"
proof -
  have "list_all (list_all (\<lambda>c. \<not> number_char c)) conflict_patterns" by code_simp
  then show "p \<in> set conflict_patterns \<Longrightarrow> number_char c \<Longrightarrow> c \<notin> set p" by (auto simp: list_all_iff)
qed

lemma patterns_nonempty: "p \<in> set conflict_patterns \<Longrightarrow> p \<noteq> []"
  by (auto simp: conflict_patterns_def)

lemma conflict_free_gap:
  assumes "list_all number_char D" and "D \<noteq> []"
  shows "conflict_free (A @ D @ B) \<longleftrightarrow> conflict_free A \<and> conflict_free B"
proof -
  have "js_includes (A @ D @ B) p \<longleftrightarrow> js_includes A p \<or> js_includes B p" if "p \<in> set conflict_patterns" for p
    by (rule includes_gap [OF _ assms(2) patterns_nonempty [OF that]])
       (use that assms(1) in \<open>auto simp: list_all_iff dest: patterns_letters\<close>)
  then show ?thesis by (auto simp: conflict_free_def list_all_iff)
qed

text \<open>The texts the code puts around the numbers of its messages.\<close>

lemma coordinator_texts:
  "conflict_free (js_lower ''nonce_lane_blocked [NonceCoordinator] nonce lane blocked on evm:eip155:'')"
  "conflict_free (js_lower ''nonce_lane_blocked [NonceCoordinator] nonce lane blocked on tempo:'')"
  "conflict_free (js_lower '' (nonce='')" "conflict_free (js_lower '') for '')"
  "conflict_free (js_lower ''ms; reconcile or replace/dropped report required'')"
  by code_simp+

definition blocked_prefix :: "BoundaryEcdsaChainFamily \<Rightarrow> string \<Rightarrow> string" where
  "blocked_prefix chain netKey =
     ''nonce_lane_blocked [SigningEngine] '' @ family_label chain @ '' nonce lane blocked on '' @ netKey @ '' (nonce=''"

text \<open>Punctuation occurs in no pattern, so a text is searched piece by piece.\<close>

lemma conflict_free_at:
  assumes "c \<in> set ''[]()=.-''"
  shows "conflict_free (A @ c # B) \<longleftrightarrow> conflict_free A \<and> conflict_free B"
proof -
  have "list_all (\<lambda>p. list_all (\<lambda>d. d \<notin> set ''[]()=.-'') p) conflict_patterns" by code_simp
  then have "js_includes (A @ c # B) p \<longleftrightarrow> js_includes A p \<or> js_includes B p" if "p \<in> set conflict_patterns" for p
    using that assms patterns_nonempty [OF that] by (intro includes_across) (auto simp only: list_all_iff)
  then show ?thesis by (auto simp: conflict_free_def list_all_iff)
qed

lemma network_parts:
  assumes "isSeamsChainNetwork netKey"
  obtains f g where "netKey = f @ CHR ''-'' # g" "f \<in> set [''near'', ''tempo'', ''arc'', ''ethereum'']"
    "g \<in> set [''mainnet'', ''testnet'', ''sepolia'']"
proof -
  have "list_all (\<lambda>n. list_ex (\<lambda>f. list_ex (\<lambda>g. n = f @ CHR ''-'' # g) [''mainnet'', ''testnet'', ''sepolia''])
     [''near'', ''tempo'', ''arc'', ''ethereum'']) SEAMS_CHAIN_NETWORKS" by code_simp
  with assms show thesis using that unfolding isSeamsChainNetwork_def list_all_iff list_ex_iff by blast
qed

lemma signing_pieces:
  "conflict_free ''nonce_lane_blocked ''" "conflict_free ''signingengine''" "conflict_free ''nonce''"
  "conflict_free ''unknown''" "conflict_free '' reconcile lane and retry''" "conflict_free []"
  "list_all (\<lambda>f. conflict_free ('' evm nonce lane blocked on '' @ f) \<and> conflict_free ('' tempo nonce lane blocked on '' @ f))
     [''near'', ''tempo'', ''arc'', ''ethereum'']"
  "list_all (\<lambda>g. conflict_free (g @ '' '')) [''mainnet'', ''testnet'', ''sepolia'']"
  by code_simp+

text \<open>A message that starts and ends with visible characters is not trimmed.\<close>

lemma js_trim_framed: "\<not> js_whitespace c \<Longrightarrow> \<not> js_whitespace d \<Longrightarrow> js_trim (c # s @ [d]) = c # s @ [d]"
  by (simp add: js_trim_def)

lemma signing_lower:
  "js_lower ''nonce_lane_blocked [SigningEngine] '' = ''nonce_lane_blocked '' @ CHR ''['' # ''signingengine'' @ CHR '']'' # '' ''"
  "js_lower '' nonce lane blocked on '' = '' nonce lane blocked on ''"
  "js_lower '' (nonce='' = '' '' @ CHR ''('' # ''nonce'' @ CHR ''='' # []"
  "js_lower ''). Reconcile lane and retry.'' = CHR '')'' # CHR ''.'' # '' reconcile lane and retry'' @ CHR ''.'' # []"
  "list_all (\<lambda>s. js_lower s = s) [''near'', ''tempo'', ''arc'', ''ethereum'']"
  "list_all (\<lambda>s. js_lower s = s) [''mainnet'', ''testnet'', ''sepolia'']"
  by code_simp+

lemma label_lower: "js_lower (family_label chain) = family_str chain"
proof -
  have "js_lower ''EVM'' = ''evm''" "js_lower ''Tempo'' = ''tempo''" by code_simp+
  then show ?thesis by (cases chain) simp_all
qed

lemma blocked_text:
  assumes "isSeamsChainNetwork netKey"
  shows "conflict_free (js_lower (blocked_prefix chain netKey @ D @ ''). Reconcile lane and retry.'')) \<longleftrightarrow> conflict_free (js_lower D)"
proof -
  obtain f g where net: "netKey = f @ CHR ''-'' # g" and f: "f \<in> set [''near'', ''tempo'', ''arc'', ''ethereum'']"
    and g: "g \<in> set [''mainnet'', ''testnet'', ''sepolia'']"
    using assms by (rule network_parts)
  have fg: "js_lower f = f" "js_lower g = g"
    using signing_lower(5,6) [unfolded list_all_iff, rule_format] f g by simp_all
  have dash: "js_lower (CHR ''-'' # s) = CHR ''-'' # js_lower s" for s by (simp add: js_lower_def js_lower_char_def)
  have "js_lower (blocked_prefix chain netKey @ D @ ''). Reconcile lane and retry.'') =
    ''nonce_lane_blocked '' @ CHR ''['' # (''signingengine'' @ CHR '']'' # (('' '' @ family_str chain @ '' nonce lane blocked on '' @ f) @
      CHR ''-'' # ((g @ '' '') @ CHR ''('' # (''nonce'' @ CHR ''='' # (js_lower D @ CHR '')'' # ([] @ CHR ''.'' #
      ('' reconcile lane and retry'' @ CHR ''.'' # [])))))))"
    by (simp only: blocked_prefix_def net js_lower_append dash fg signing_lower(1-4) label_lower) simp
  moreover have "conflict_free ('' '' @ family_str chain @ '' nonce lane blocked on '' @ f)"
    using signing_pieces(7) [unfolded list_all_iff, rule_format, OF f] by (cases chain) simp_all
  moreover have "conflict_free (g @ '' '')" by (rule signing_pieces(8) [unfolded list_all_iff, rule_format, OF g])
  ultimately show ?thesis
    by (simp only: conflict_free_at list.set insert_iff signing_pieces simp_thms)
qed

section \<open>The errors the code makes, read back\<close>

lemma token_codes:
  "normalizeToken (JStr ''nonce_lane_blocked'') = ''nonce_lane_blocked''"
  "normalizeToken (JStr ''nonce_conflict_retryable'') = ''nonce_conflict_retryable''"
  by code_simp+

lemma created_code [simp]:
  "extractErrorCode (createEvmFamilySigningNonceLaneBlockedError chain netKey cid D age cause) = ''nonce_lane_blocked''"
  "extractErrorCode (createEvmFamilySigningNonceConflictError chain netKey cid reason cause) = ''nonce_conflict_retryable''"
  "extractErrorCode (lane_blocked_object lane n ms) = ''nonce_lane_blocked''"
  by (simp_all add: extractErrorCode_def error_field_def createEvmFamilySigningNonceLaneBlockedError_def
      createEvmFamilySigningNonceConflictError_def lane_blocked_object_def token_codes)

lemma created_object [simp]:
  "is_error_object (createEvmFamilySigningNonceLaneBlockedError chain netKey cid D age cause)"
  "is_error_object (createEvmFamilySigningNonceConflictError chain netKey cid reason cause)"
  "is_error_object (lane_blocked_object lane n ms)"
  by (simp_all add: is_error_object_def createEvmFamilySigningNonceLaneBlockedError_def
      createEvmFamilySigningNonceConflictError_def lane_blocked_object_def)

lemma blocked_infers_none:
  assumes "isSeamsChainNetwork netKey" and "conflict_free (js_lower D)"
  shows "inferNonceConflictReason ''nonce_lane_blocked''
           (extractErrorMessage (createEvmFamilySigningNonceLaneBlockedError chain netKey cid D age cause)) = None"
proof -
  let ?msg = "''[SigningEngine] '' @ family_label chain @ '' nonce lane blocked on '' @ netKey @ '' (nonce='' @ D @
      ''). Reconcile lane and retry.''"
  let ?framed = "CHR ''['' # (''SigningEngine] '' @ family_label chain @ '' nonce lane blocked on '' @ netKey @ '' (nonce='' @
      D @ ''). Reconcile lane and retry'') @ [CHR ''.'']"
  have "js_trim ?framed = ?framed" by (rule js_trim_framed) (simp_all add: js_whitespace_def)
  moreover have "?msg = ?framed" by simp
  ultimately have "js_trim ?msg = ?msg" by metis
  moreover have "''nonce_lane_blocked'' @ '' '' @ ?msg = blocked_prefix chain netKey @ D @ ''). Reconcile lane and retry.''"
    by (simp add: blocked_prefix_def)
  ultimately show ?thesis
    using blocked_text [OF assms(1), of chain D] assms(2)
    by (intro infer_none) (simp only: extractErrorMessage_def createEvmFamilySigningNonceLaneBlockedError_def js_error.case)
qed

lemma coordinator_infers_none:
  "inferNonceConflictReason ''nonce_lane_blocked'' (extractErrorMessage (lane_blocked_object lane n ms)) = None"
proof -
  let ?tail = "'' (nonce='' @ int_str n @ '') for '' @ int_str ms @ ''ms; reconcile or replace/dropped report required''"
  let ?msg = "''[NonceCoordinator] nonce lane blocked on '' @ nonceLaneNetworkKey (EvmLane lane) @ ?tail"
  let ?framed = "CHR ''['' # (''NonceCoordinator] nonce lane blocked on '' @ nonceLaneNetworkKey (EvmLane lane) @ '' (nonce='' @
      int_str n @ '') for '' @ int_str ms @ ''ms; reconcile or replace/dropped report require'') @ [CHR ''d'']"
  have "js_trim ?framed = ?framed" by (rule js_trim_framed) (simp_all add: js_whitespace_def)
  moreover have "?msg = ?framed" by simp
  ultimately have trim: "js_trim ?msg = ?msg" by metis
  have free: "conflict_free (js_lower (p @ int_str c @ ?tail))" if "conflict_free (js_lower p)" for p c
    using that coordinator_texts(3-5)
    by (simp only: js_lower_append js_lower_int_str append_assoc conflict_free_gap [OF int_str_chars int_str_nonempty])
  have "conflict_free (js_lower (''nonce_lane_blocked'' @ '' '' @ ?msg))"
    using free [OF coordinator_texts(1)] free [OF coordinator_texts(2)]
    by (cases "chainTarget lane") (simp_all add: nonceLaneNetworkKey_def thresholdEcdsaChainTargetKey_def)
  then show ?thesis
    using trim by (intro infer_none) (simp only: extractErrorMessage_def lane_blocked_object_def js_error.case)
qed

text \<open>A lane-blocked error keeps its nonce and its age when it is mapped, whatever it is mapped for.\<close>

lemma blocked_mapped:
  assumes "extractErrorCode e = ''nonce_lane_blocked''" and "is_error_object e"
    and "inferNonceConflictReason ''nonce_lane_blocked'' (extractErrorMessage e) = None"
    and "jfield (error_details e) ''blockedNonce'' = JStr D" and "js_trim D = D" and "D \<noteq> []"
    and "finite_age (jfield (error_details e) ''ageMs'') = age"
  shows "mapToRetryableNonceStateError e chain netKey cid =
           createEvmFamilySigningNonceLaneBlockedError chain netKey cid D age (Some e)"
  using assms
  by (simp add: mapToRetryableNonceStateError_def mapToRetryableNonceConflictError_def mapToRetryableNonceLaneBlockedError_def
      js_String_or_empty_def Let_def)

lemma coordinator_blocked_mapped:
  assumes "safe_integer ms"
  shows "mapToRetryableNonceStateError (lane_blocked_object lane n ms) chain netKey cid =
           createEvmFamilySigningNonceLaneBlockedError chain netKey cid (int_str n) (Some (JNum ms)) (Some (lane_blocked_object lane n ms))"
proof -
  have "error_details (lane_blocked_object lane n ms) =
      [(''chain'', JStr (chain_target_kind (chainTarget lane))), (''networkKey'', JStr (nonceLaneNetworkKey (EvmLane lane))),
       (''chainId'', JNum (chainId (chainTarget lane))), (''blockedNonce'', JStr (int_str n)), (''ageMs'', JNum ms)]"
    by (simp add: error_details_def error_field_def lane_blocked_object_def)
  with assms show ?thesis
    by (intro blocked_mapped coordinator_infers_none) (simp_all add: jfield.simps finite_age_def js_Number_def safe_int_def)
qed

lemma signing_blocked_mapped:
  assumes "isSeamsChainNetwork netKey" and "conflict_free (js_lower D)" and "js_trim D = D" and "D \<noteq> []"
    and "\<forall>a. age = Some a \<longrightarrow> finite_age a = Some a"
  shows "mapToRetryableNonceStateError (createEvmFamilySigningNonceLaneBlockedError chain netKey cid D age cause) chain' netKey' cid' =
           createEvmFamilySigningNonceLaneBlockedError chain' netKey' cid' D age
             (Some (createEvmFamilySigningNonceLaneBlockedError chain netKey cid D age cause))"
proof -
  have "error_details (createEvmFamilySigningNonceLaneBlockedError chain netKey cid D age cause) =
      [(''chain'', JStr (family_str chain)), (''networkKey'', JStr netKey), (''chainId'', JNum cid), (''blockedNonce'', JStr D)] @
      (case age of None \<Rightarrow> [] | Some a \<Rightarrow> [(''ageMs'', a)])"
    by (simp add: error_details_def error_field_def createEvmFamilySigningNonceLaneBlockedError_def)
  with assms show ?thesis
    by (intro blocked_mapped blocked_infers_none)
       (auto simp: jfield.simps finite_age_def js_Number_def split: option.split)
qed

lemma finite_age_idem: "finite_age v = Some a \<Longrightarrow> finite_age a = Some a"
  by (auto simp: finite_age_def js_Number_safe js_Number_def safe_int_def safe_integer_def split: jsval.splits if_splits bind_splits)

lemma includes_chars: "js_includes s p \<Longrightarrow> set p \<subseteq> set s"
proof (induction s)
  case (Cons c s)
  then show ?case by (auto dest: in_set_takeD simp del: set_ConsD) (metis in_set_takeD set_ConsD)
qed simp

lemma trim_chars: "set (js_trim s) \<subseteq> set s"
  by (auto simp: js_trim_def dest!: set_dropWhileD)

lemma lower_b:
  assumes "CHR ''b'' \<in> set (js_lower s)"
  shows "CHR ''b'' \<in> set s \<or> CHR ''B'' \<in> set s"
proof -
  obtain c where c: "c \<in> set s" "js_lower_char c = CHR ''b''" using assms by (auto simp: js_lower_def)
  let ?n = "of_char c :: nat"
  have less: "?n < 256" by simp
  have "c = CHR ''B''" if "char_of (?n + 32) = CHR ''b''" "?n \<le> 222"
  proof -
    from that(1) have "(of_char (char_of (?n + 32) :: char) :: nat) = 98" by simp
    with that(2) have "?n = 66" by simp
    then have "?n = of_char (CHR ''B'')" by simp
    then show ?thesis by (simp only: of_char_eq_iff)
  qed
  with c show ?thesis by (auto simp: js_lower_char_def Let_def split: if_splits)
qed

lemma conflict_message_no_b:
  assumes "isSeamsChainNetwork netKey"
  shows "CHR ''b'' \<notin> set (js_lower (extractErrorMessage (createEvmFamilySigningNonceConflictError chain netKey cid reason cause)))"
proof -
  let ?e = "createEvmFamilySigningNonceConflictError chain netKey cid reason cause"
  have "list_all (\<lambda>n. CHR ''b'' \<notin> set n \<and> CHR ''B'' \<notin> set n) SEAMS_CHAIN_NETWORKS" by code_simp
  with assms have "CHR ''b'' \<notin> set netKey" "CHR ''B'' \<notin> set netKey"
    unfolding isSeamsChainNetwork_def list_all_iff by blast+
  then have "CHR ''b'' \<notin> set (err_message ?e)" "CHR ''B'' \<notin> set (err_message ?e)"
    by (cases chain; cases reason; simp add: createEvmFamilySigningNonceConflictError_def)+
  moreover have "extractErrorMessage ?e = js_trim (err_message ?e)"
    by (simp add: extractErrorMessage_def createEvmFamilySigningNonceConflictError_def)
  ultimately show ?thesis using lower_b [of "js_trim (err_message ?e)"] trim_chars [of "err_message ?e"] by (metis subsetD)
qed

lemma conflict_mapped:
  assumes "isSeamsChainNetwork netKey"
  shows "mapToRetryableNonceStateError (createEvmFamilySigningNonceConflictError chain netKey cid reason cause) chain' netKey' cid' =
           createEvmFamilySigningNonceConflictError chain netKey cid reason cause"
proof -
  let ?e = "createEvmFamilySigningNonceConflictError chain netKey cid reason cause"
  have "\<not> js_includes (js_lower (extractErrorMessage ?e)) p" if "CHR ''b'' \<in> set p" for p
    using conflict_message_no_b [OF assms] includes_chars that by blast
  then have "\<not> js_includes (js_lower (extractErrorMessage ?e)) ''nonce lane blocked''"
    "\<not> js_includes (js_lower (extractErrorMessage ?e)) ''blocked''" by simp_all
  then show ?thesis
    by (simp add: mapToRetryableNonceStateError_def mapToRetryableNonceConflictError_def mapToRetryableNonceLaneBlockedError_def Let_def)
qed

section \<open>Mapping an error twice\<close>

text \<open>The text of the blocked nonce an error carries, if any.\<close>

definition blocked_nonce_text :: "js_error \<Rightarrow> string" where
  "blocked_nonce_text e = js_trim (js_String_or_empty (jfield (error_details e) ''blockedNonce''))"

lemma blocked_step_cases:
  obtains (unchanged) "\<forall>c n i. mapToRetryableNonceLaneBlockedError e c n i = e"
    | (blocked) D age where "\<forall>c n i. mapToRetryableNonceLaneBlockedError e c n i =
          createEvmFamilySigningNonceLaneBlockedError c n i D age (Some e)"
        "D = ''unknown'' \<or> D = blocked_nonce_text e" "js_trim D = D" "D \<noteq> []" "\<forall>a. age = Some a \<longrightarrow> finite_age a = Some a"
proof -
  have unknown: "js_trim ''unknown'' = ''unknown''" by code_simp
  let ?msg = "js_lower (extractErrorMessage e)"
  let ?says = "js_includes ?msg ''nonce lane blocked'' \<or> (js_includes ?msg ''nonce'' \<and> js_includes ?msg ''blocked'')"
  consider (coded) "is_error_object e" "extractErrorCode e = ''nonce_lane_blocked''"
    | (said) "is_error_object e" "extractErrorCode e \<noteq> ''nonce_lane_blocked''" ?says
    | (neither) "\<not> is_error_object e \<or> (extractErrorCode e \<noteq> ''nonce_lane_blocked'' \<and> \<not> ?says)" by blast
  then show thesis
  proof cases
    case coded
    let ?D = "if blocked_nonce_text e = [] then ''unknown'' else blocked_nonce_text e"
    show thesis
    proof (rule blocked)
      show "\<forall>c n i. mapToRetryableNonceLaneBlockedError e c n i = createEvmFamilySigningNonceLaneBlockedError c n i ?D
          (finite_age (jfield (error_details e) ''ageMs'')) (Some e)"
        using coded by (simp add: mapToRetryableNonceLaneBlockedError_def Let_def blocked_nonce_text_def)
    qed (use unknown finite_age_idem in \<open>auto simp: blocked_nonce_text_def\<close>)
  next
    case said
    then show thesis
      by (intro blocked [of "''unknown''" None]) (simp_all add: mapToRetryableNonceLaneBlockedError_def Let_def unknown)
  next
    case neither
    then show thesis by (intro unchanged) (simp only: mapToRetryableNonceLaneBlockedError_def Let_def if_False simp_thms split: if_split, blast)
  qed
qed

lemma inferred_mapped:
  assumes "isSeamsChainNetwork netKey" and "is_error_object e" and "extractErrorCode e \<noteq> ''nonce_conflict_retryable''"
    and "inferNonceConflictReason (extractErrorCode e) (extractErrorMessage e) = Some reason"
  shows "mapToRetryableNonceStateError e chain netKey cid =
           createEvmFamilySigningNonceConflictError chain netKey cid reason (Some e)"
proof -
  let ?c = "createEvmFamilySigningNonceConflictError chain netKey cid reason (Some e)"
  have "mapToRetryableNonceStateError e chain netKey cid = mapToRetryableNonceLaneBlockedError ?c chain netKey cid"
    using assms(2-4) by (simp add: mapToRetryableNonceStateError_def mapToRetryableNonceConflictError_def Let_def)
  also have "\<dots> = mapToRetryableNonceStateError ?c chain netKey cid"
    by (simp add: mapToRetryableNonceStateError_def mapToRetryableNonceConflictError_def [of ?c])
  also have "\<dots> = ?c" by (rule conflict_mapped [OF assms(1)])
  finally show ?thesis .
qed

lemma mapped_cases:
  assumes "isSeamsChainNetwork netKey"
  obtains (unchanged) "\<forall>c n i. mapToRetryableNonceStateError e c n i = e"
    | (conflict) reason where "mapToRetryableNonceStateError e chain netKey cid =
        createEvmFamilySigningNonceConflictError chain netKey cid reason (Some e)"
    | (blocked) D age where "mapToRetryableNonceStateError e chain netKey cid =
        createEvmFamilySigningNonceLaneBlockedError chain netKey cid D age (Some e)"
        "D = ''unknown'' \<or> D = blocked_nonce_text e" "js_trim D = D" "D \<noteq> []" "\<forall>a. age = Some a \<longrightarrow> finite_age a = Some a"
proof (cases "\<forall>c n i. mapToRetryableNonceConflictError e c n i = e")
  case True
  then have m: "mapToRetryableNonceStateError e c n i = mapToRetryableNonceLaneBlockedError e c n i" for c n i
    by (simp add: mapToRetryableNonceStateError_def)
  show thesis by (rule blocked_step_cases [of e]) (simp_all add: m unchanged blocked)
next
  case False
  then obtain reason where r: "is_error_object e" "extractErrorCode e \<noteq> ''nonce_conflict_retryable''"
      "inferNonceConflictReason (extractErrorCode e) (extractErrorMessage e) = Some reason"
    by (auto simp: mapToRetryableNonceConflictError_def Let_def split: if_splits option.splits)
  from inferred_mapped [OF assms r] show thesis by (rule conflict)
qed

text \<open>
  Whether a signing error counts as a retryable nonce conflict or as a blocked nonce lane does not
  change when it is mapped again, as it is when a failed reservation leaves the transaction executor, for
  whatever chain and network the second mapping is made. (The nonce a lane-blocked error names must not
  itself read like a conflict.)
\<close>

theorem retry_classification_stable:
  assumes "isSeamsChainNetwork netKey" and "conflict_free (js_lower (blocked_nonce_text e))"
  shows "let once = mapToRetryableNonceStateError e chain netKey cid;
             twice = mapToRetryableNonceStateError once chain' netKey' cid'
         in (isNonceConflictRetryableError twice \<longleftrightarrow> isNonceConflictRetryableError once) \<and>
            (isNonceLaneBlockedRetryableError twice \<longleftrightarrow> isNonceLaneBlockedRetryableError once)"
  using assms(1)
proof (cases rule: mapped_cases [where e = e and chain = chain and cid = cid])
  case unchanged
  then show ?thesis by (simp add: Let_def)
next
  case (conflict reason)
  then show ?thesis by (simp add: Let_def conflict_mapped [OF assms(1)])
next
  case (blocked D age)
  have "conflict_free (js_lower ''unknown'')" by code_simp
  with blocked(2) assms(2) have "conflict_free (js_lower D)" by metis
  from signing_blocked_mapped [OF assms(1) this blocked(3-5)] show ?thesis
    by (simp add: Let_def blocked(1) isNonceConflictRetryableError_def isNonceLaneBlockedRetryableError_def)
qed

theorem retry_classification_stable_witness:
  "isNonceConflictRetryableError (mapToRetryableNonceStateError
     (mapToRetryableNonceStateError (new_Error ''nonce too low'') BoundaryEvm ''arc-testnet'' 5) BoundaryTempo ''tempo-testnet'' 6)"
proof -
  have "isSeamsChainNetwork ''arc-testnet''" "conflict_free (js_lower (blocked_nonce_text (new_Error ''nonce too low'')))"
    "isNonceConflictRetryableError (mapToRetryableNonceStateError (new_Error ''nonce too low'') BoundaryEvm ''arc-testnet'' 5)"
    by code_simp+
  with retry_classification_stable [unfolded Let_def] show ?thesis by blast
qed

section \<open>Which messages speak of the nonce\<close>

text \<open>
  The phrases of the nodes for a used, skipped or doubly used nonce, in either spelling, anywhere in the
  message and in any letter case, and messages that name the nonce and a conflict or a block.
\<close>

definition nonce_phrases :: "string list" where
  "nonce_phrases =
     [''nonce too low'', ''nonce_too_low'', ''nonce too high'', ''nonce_too_high'', ''already known'', ''already_known'',
      ''replacement transaction underpriced'', ''replacement_transaction_underpriced'', ''invalid nonce'',
      ''nonce has already been used'']"

definition speaks_of_nonce :: "string \<Rightarrow> bool" where
  "speaks_of_nonce message \<longleftrightarrow>
     list_ex (js_includes (js_lower message)) nonce_phrases \<or>
     (js_includes (js_lower message) ''nonce'' \<and>
      (js_includes (js_lower message) ''conflict'' \<or> js_includes (js_lower message) ''blocked''))"

lemma includes_iff: "js_includes s p \<longleftrightarrow> (\<exists>a b. s = a @ p @ b)"
proof (induction s)
  case (Cons c s)
  have "take (length p) (c # s) = p \<longleftrightarrow> (\<exists>b. c # s = p @ b)"
    by (metis append_eq_conv_conj append_take_drop_id)
  then show ?case
    unfolding js_includes.simps Cons by (auto simp: Cons_eq_append_conv)
qed simp

lemma includes_part: "js_includes s (a @ p @ b) \<Longrightarrow> js_includes s p"
  unfolding includes_iff by (metis append.assoc)

lemma includes_Cons: "p \<noteq> [] \<Longrightarrow> d \<noteq> hd p \<Longrightarrow> js_includes (d # s) p \<longleftrightarrow> js_includes s p"
  by (cases p) auto

lemma includes_snoc: "p \<noteq> [] \<Longrightarrow> d \<noteq> last p \<Longrightarrow> js_includes (s @ [d]) p \<longleftrightarrow> js_includes s p"
  unfolding includes_iff
proof
  assume p: "p \<noteq> []" "d \<noteq> last p" and "\<exists>a b. s @ [d] = a @ p @ b"
  then obtain a b where ab: "s @ [d] = a @ p @ b" by blast
  with p have "b \<noteq> []" by (metis append_Nil2 last_appendR last_snoc)
  then obtain b' e where "b = b' @ [e]" by (cases b rule: rev_cases) auto
  with ab show "\<exists>a b. s = a @ p @ b" by auto
next
  assume "\<exists>a b. s = a @ p @ b"
  then show "\<exists>a b. s @ [d] = a @ p @ b" by (metis append.assoc)
qed

lemma lower_whitespace: "js_whitespace c \<Longrightarrow> js_lower_char c = c"
  by (auto simp: js_whitespace_def js_lower_char_def)

lemma includes_trim:
  assumes "p \<noteq> []" and "\<not> js_whitespace (hd p)" and "\<not> js_whitespace (last p)"
  shows "js_includes (js_lower (js_trim m)) p \<longleftrightarrow> js_includes (js_lower m) p"
proof -
  have lead: "js_includes (js_lower (dropWhile js_whitespace s)) p \<longleftrightarrow> js_includes (js_lower s) p" for s
  proof (induction s)
    case (Cons c s)
    have "js_includes (js_lower (c # s)) p \<longleftrightarrow> js_includes (js_lower s) p" if "js_whitespace c"
      using includes_Cons [OF assms(1), of c] assms(2) that by (auto simp: js_lower_def lower_whitespace)
    with Cons show ?case by (cases "js_whitespace c") simp_all
  qed simp
  have trail: "js_includes (js_lower (rev (dropWhile js_whitespace (rev s)))) p \<longleftrightarrow> js_includes (js_lower s) p" for s
  proof (induction s rule: rev_induct)
    case (snoc c s)
    have "js_includes (js_lower (s @ [c])) p \<longleftrightarrow> js_includes (js_lower s) p" if "js_whitespace c"
      using includes_snoc [OF assms(1), of c] assms(3) that by (auto simp: js_lower_def lower_whitespace)
    with snoc show ?case by (cases "js_whitespace c") simp_all
  qed simp
  show ?thesis unfolding js_trim_def by (simp only: lead trail)
qed


text \<open>The code of a JSON-RPC error is a number; it adds nothing to what the message says.\<close>

definition numeric_code :: "(string \<times> jsval) list \<Rightarrow> bool" where
  "numeric_code fs \<longleftrightarrow> (case map_of fs ''code'' of None \<Rightarrow> True | Some (JNum n) \<Rightarrow> True | _ \<Rightarrow> False)"

lemma digit_no_separator: "is_digit c \<Longrightarrow> \<not> js_whitespace c \<and> c \<noteq> CHR ''-''"
  by (auto simp: is_digit_def js_whitespace_def)

lemma underscore_digits: "list_all is_digit s \<Longrightarrow> underscore_runs b s = s"
  by (induction s arbitrary: b) (auto dest: digit_no_separator)

lemma numeric_token:
  "\<exists>d. list_all is_digit d \<and> (normalizeToken (JNum n) = d \<or> d \<noteq> [] \<and> normalizeToken (JNum n) = CHR ''_'' # d)"
proof (cases "n = 0")
  case False
  have digits: "list_all is_digit (nat_str k)" for k by (rule nat_str_digits)
  have "js_trim (int_str n) = int_str n"
    using int_str_chars [of n]
    by (intro js_trim_no_whitespace) (auto simp: list_all_iff number_char_def js_whitespace_def is_digit_def)
  then have "normalizeToken (JNum n) = underscore_runs False (int_str n)"
    using False by (simp add: normalizeToken_def js_String_or_empty_def)
  then show ?thesis
    using digits [of "nat n"] digits [of "nat (- n)"] nat_str_nonempty [of "nat (- n)"]
    by (intro exI [of _ "nat_str (nat \<bar>n\<bar>)"]) (auto simp: int_str_def underscore_digits)
qed (auto simp: normalizeToken_def js_String_or_empty_def js_trim_def js_lower_def)

lemma numeric_code_text:
  assumes "numeric_code fs"
  shows "\<exists>d. list_all is_digit d \<and>
    (extractErrorCode (ErrorInstance m fs cause) = d \<or> d \<noteq> [] \<and> extractErrorCode (ErrorInstance m fs cause) = CHR ''_'' # d)"
proof (cases "map_of fs ''code''")
  case None
  then show ?thesis by (intro exI [of _ "[]"]) (simp add: extractErrorCode_def error_field_def)
next
  case (Some v)
  with assms obtain n where "v = JNum n" by (auto simp: numeric_code_def split: jsval.splits)
  with Some numeric_token [of n] show ?thesis by (simp add: extractErrorCode_def error_field_def)
qed

lemma includes_numeric:
  assumes "numeric_code fs" and "tl p \<noteq> []" and "\<not> js_whitespace (hd p)" and "list_all (\<lambda>c. \<not> is_digit c) p"
  shows "js_includes (js_lower (extractErrorCode (ErrorInstance m fs cause) @ '' '' @ t)) p \<longleftrightarrow> js_includes (js_lower t) p"
proof -
  let ?c = "extractErrorCode (ErrorInstance m fs cause)"
  have p: "p \<noteq> []" using assms(2) by auto
  obtain d where d: "list_all is_digit d" "?c = d \<or> d \<noteq> [] \<and> ?c = CHR ''_'' # d"
    using numeric_code_text [OF assms(1)] by blast
  have lower: "js_lower d = d" using d(1) by (intro js_lower_number) (auto simp: list_all_iff number_char_def)
  have space: "js_includes (CHR '' '' # js_lower t) p \<longleftrightarrow> js_includes (js_lower t) p"
  proof (rule includes_Cons [OF p])
    have "js_whitespace (CHR '' '')" by (simp add: js_whitespace_def)
    with assms(3) show "CHR '' '' \<noteq> hd p" by metis
  qed
  have apart: "set d \<inter> set p = {}" using d(1) assms(4) by (auto simp: list_all_iff)
  have short: "\<not> js_includes [] p" "\<not> js_includes [CHR ''_''] p" using assms(2) p by (cases p; auto)+
  have gap: "js_includes (A @ d @ CHR '' '' # js_lower t) p \<longleftrightarrow> js_includes A p \<or> js_includes (js_lower t) p" if "d \<noteq> []" for A
    using includes_gap [OF apart that p, of A "CHR '' '' # js_lower t"] space by simp
  have "js_lower (CHR ''_'' # d) = CHR ''_'' # d" using lower by (simp add: js_lower_def js_lower_char_def)
  with d(2) lower have "js_lower ?c = ?c" by metis
  moreover have "js_lower ('' '' @ t) = CHR '' '' # js_lower t" by (simp add: js_lower_def js_lower_char_def)
  ultimately have "js_lower (?c @ '' '' @ t) = ?c @ CHR '' '' # js_lower t" by (simp only: js_lower_append)
  with d(2) gap [of "[]"] gap [of "''_''"] short space show ?thesis
    by (cases "d = []") (auto simp only: append_Nil append_Cons simp_thms)
qed

text \<open>So an error of a node is mapped to a retryable one exactly when its message speaks of the nonce.\<close>

lemma numeric_code_other:
  "numeric_code fs \<Longrightarrow> extractErrorCode (ErrorInstance m fs cause) \<notin> {''nonce_conflict_retryable'', ''nonce_lane_blocked''}"
  using numeric_code_text [of fs m cause] by (auto simp: is_digit_def)

lemma blank_chars: "js_trim s = [] \<Longrightarrow> c \<in> set s \<Longrightarrow> js_whitespace c"
proof -
  assume blank: "js_trim s = []" and c: "c \<in> set s"
  from blank have "\<forall>d \<in> set (dropWhile js_whitespace s). js_whitespace d" by (simp add: js_trim_def dropWhile_eq_Nil_conv)
  then have "dropWhile js_whitespace s = []" using hd_dropWhile hd_in_set by metis
  with c show ?thesis by (simp add: dropWhile_eq_Nil_conv)
qed

lemma blank_includes: "js_trim s = [] \<Longrightarrow> p \<noteq> [] \<Longrightarrow> \<not> js_whitespace (hd p) \<Longrightarrow> \<not> js_includes s p"
  using includes_chars [of s p] blank_chars [of s] hd_in_set by blast

text \<open>All that is searched for.\<close>

definition searched_phrases :: "string list" where
  "searched_phrases = nonce_phrases @ [''nonce_conflict'', ''nonce lane blocked'', ''nonce'', ''conflict'', ''blocked'']"

lemma searched_plain:
  "p \<in> set searched_phrases \<Longrightarrow>
   p \<noteq> [] \<and> tl p \<noteq> [] \<and> \<not> js_whitespace (hd p) \<and> \<not> js_whitespace (last p) \<and> list_all (\<lambda>c. \<not> is_digit c) p"
proof -
  have "list_all (\<lambda>p. p \<noteq> [] \<and> tl p \<noteq> [] \<and> \<not> js_whitespace (hd p) \<and> \<not> js_whitespace (last p) \<and> list_all (\<lambda>c. \<not> is_digit c) p) searched_phrases"
    by code_simp
  then show "p \<in> set searched_phrases \<Longrightarrow> ?thesis" by (simp add: list_all_iff)
qed

lemma searched_texts:
  assumes "numeric_code fs" and "p \<in> set searched_phrases"
  shows "js_includes (js_lower (extractErrorMessage (ErrorInstance m fs cause))) p \<longleftrightarrow> js_includes (js_lower m) p"
    and "js_includes (js_lower (extractErrorCode (ErrorInstance m fs cause) @ '' '' @
           extractErrorMessage (ErrorInstance m fs cause))) p \<longleftrightarrow> js_includes (js_lower m) p"
proof -
  from searched_plain [OF assms(2)] have p: "tl p \<noteq> []" "p \<noteq> []" "\<not> js_whitespace (hd p)" "\<not> js_whitespace (last p)"
      "list_all (\<lambda>c. \<not> is_digit c) p" by auto
  show "js_includes (js_lower (extractErrorMessage (ErrorInstance m fs cause))) p \<longleftrightarrow> js_includes (js_lower m) p"
    using includes_trim [OF p(2-4)] by (simp add: extractErrorMessage_def)
  then show "js_includes (js_lower (extractErrorCode (ErrorInstance m fs cause) @ '' '' @
      extractErrorMessage (ErrorInstance m fs cause))) p \<longleftrightarrow> js_includes (js_lower m) p"
    by (simp only: includes_numeric [OF assms(1) p(1,3,5)])
qed

lemma infer_none_iff:
  assumes "numeric_code fs"
  shows "inferNonceConflictReason (extractErrorCode (ErrorInstance m fs cause)) (extractErrorMessage (ErrorInstance m fs cause)) = None \<longleftrightarrow>
    \<not> list_ex (js_includes (js_lower m)) nonce_phrases \<and> \<not> (js_includes (js_lower m) ''nonce'' \<and> js_includes (js_lower m) ''conflict'')"
proof -
  define hay where "hay = js_lower (extractErrorCode (ErrorInstance m fs cause) @ '' '' @ extractErrorMessage (ErrorInstance m fs cause))"
  let ?says = "js_includes (js_lower m)"
  have has: "js_includes hay p \<longleftrightarrow> ?says p" if "p \<in> set searched_phrases" for p
    unfolding hay_def by (rule searched_texts(2) [OF assms that])
  have part: "?says ''nonce_conflict'' \<Longrightarrow> ?says ''nonce'' \<and> ?says ''conflict''"
    using includes_part [of "js_lower m" "[]" "''nonce''" "''_conflict''"]
      includes_part [of "js_lower m" "''nonce_''" "''conflict''" "[]"] by simp
  have blank: "\<not> ?says p" if "js_trim hay = []" "p \<in> set searched_phrases" for p
    using blank_includes [OF that(1), of p] has [OF that(2)] searched_plain [OF that(2)] by auto
  show ?thesis
  proof (cases "js_trim hay = []")
    case True
    then have "\<not> ?says p" if "p \<in> set searched_phrases" for p using blank that by blast
    with True show ?thesis
      unfolding inferNonceConflictReason_def Let_def hay_def [symmetric]
      by (auto simp: searched_phrases_def list_ex_iff)
  next
    case False
    have "inferNonceConflictReason (extractErrorCode (ErrorInstance m fs cause)) (extractErrorMessage (ErrorInstance m fs cause)) = None \<longleftrightarrow>
      list_all (\<lambda>p. \<not> js_includes hay p) nonce_phrases \<and> \<not> js_includes hay ''nonce_conflict'' \<and>
      \<not> (js_includes hay ''nonce'' \<and> js_includes hay ''conflict'')"
      using False unfolding inferNonceConflictReason_def Let_def hay_def [symmetric] by (auto simp: nonce_phrases_def)
    also have "\<dots> \<longleftrightarrow> list_all (\<lambda>p. \<not> ?says p) nonce_phrases \<and> \<not> ?says ''nonce_conflict'' \<and> \<not> (?says ''nonce'' \<and> ?says ''conflict'')"
      using has by (simp add: searched_phrases_def list_all_iff)
    finally show ?thesis using part by (auto simp: list_all_iff list_ex_iff)
  qed
qed

lemma mapped_retryable:
  assumes "numeric_code fs"
  shows "extractErrorCode (mapToRetryableNonceStateError (ErrorInstance m fs cause) chain netKey cid)
           \<in> {''nonce_conflict_retryable'', ''nonce_lane_blocked''} \<longleftrightarrow> speaks_of_nonce m"
proof -
  let ?e = "ErrorInstance m fs cause"
  let ?says = "js_includes (js_lower m)"
  have blocked: "js_includes (js_lower (extractErrorMessage ?e)) ''nonce lane blocked'' \<longleftrightarrow> ?says ''nonce lane blocked''"
    "js_includes (js_lower (extractErrorMessage ?e)) ''nonce'' \<longleftrightarrow> ?says ''nonce''"
    "js_includes (js_lower (extractErrorMessage ?e)) ''blocked'' \<longleftrightarrow> ?says ''blocked''"
    by (rule searched_texts(1) [OF assms]; simp add: searched_phrases_def)+
  have part: "?says ''nonce lane blocked'' \<Longrightarrow> ?says ''nonce'' \<and> ?says ''blocked''"
    using includes_part [of "js_lower m" "[]" "''nonce''" "'' lane blocked''"]
      includes_part [of "js_lower m" "''nonce lane ''" "''blocked''" "[]"] by simp
  note other = numeric_code_other [OF assms, of m cause, simplified]
  show ?thesis
  proof (cases "inferNonceConflictReason (extractErrorCode ?e) (extractErrorMessage ?e)")
    case None
    then have "mapToRetryableNonceStateError ?e chain netKey cid = mapToRetryableNonceLaneBlockedError ?e chain netKey cid"
      using other by (simp add: mapToRetryableNonceStateError_def mapToRetryableNonceConflictError_def Let_def)
    then show ?thesis
      using None [unfolded infer_none_iff [OF assms]] other part
      by (auto simp: mapToRetryableNonceLaneBlockedError_def speaks_of_nonce_def blocked is_error_object_def Let_def)
  next
    case (Some reason)
    then have "speaks_of_nonce m"
      using infer_none_iff [OF assms, of m cause] by (auto simp: speaks_of_nonce_def)
    moreover have "mapToRetryableNonceConflictError ?e chain netKey cid =
        createEvmFamilySigningNonceConflictError chain netKey cid reason (Some ?e)"
      using Some other by (simp add: mapToRetryableNonceConflictError_def is_error_object_def)
    ultimately show ?thesis
      by (simp add: mapToRetryableNonceStateError_def mapToRetryableNonceLaneBlockedError_def Let_def)
  qed
qed

end
