(* ===== verification/EvmSigningRequests.thy ===== *)
theory EvmSigningRequests
  imports EvmSigningErrors
begin

text \<open>
  Signing requests of the EVM family (\<open>chains/evm/evmSigning.types.ts\<close>, \<open>chains/tempo/tempoSigning.types.ts\<close>),
  their chain target (\<open>flows/signEvmFamily/types.ts\<close>), and the network and the sender their nonce is reserved for
  (\<open>nonceResolution.ts\<close>, \<open>addresses.ts\<close>).
\<close>

section \<open>Requests\<close>

type_synonym EvmAccessListItem = "string \<times> string list"

record Eip1559UnsignedTx =
  eip_chainId :: int
  eip_nonce :: "int option"
  eip_maxPriorityFeePerGas :: int
  eip_maxFeePerGas :: int
  eip_gasLimit :: int
  eip_to :: "string option"
  eip_value :: int
  eip_data :: "string option"
  eip_accessList :: "EvmAccessListItem list option"

record TempoCall =
  call_to :: string
  call_value :: int
  call_input :: "string option"

datatype TempoRlpValue = RlpBytes "nat list" | RlpList "TempoRlpValue list"

datatype TempoFeePayerSignature = NoFeePayer | FeePayerPlaceholder | FeePayerSigned (fee_v: bool) (fee_r: string) (fee_s: string)

record TempoUnsignedTx =
  tempo_chainId :: int
  tempo_maxPriorityFeePerGas :: int
  tempo_maxFeePerGas :: int
  tempo_gasLimit :: int
  tempo_calls :: "TempoCall list"
  tempo_accessList :: "EvmAccessListItem list option"
  tempo_nonceKey :: int
  tempo_nonce :: "int option"
  tempo_validBefore :: "int option"
  tempo_validAfter :: "int option"
  tempo_feeToken :: "string option"
  tempo_feePayerSignature :: "TempoFeePayerSignature option"
  tempo_aaAuthorizationList :: "TempoRlpValue option"
  tempo_keyAuthorization :: "TempoRlpValue option"

datatype SenderSignatureAlgorithm = Secp256k1 | WebauthnP256

datatype MultichainSigningRequest =
    EvmSigningRequest Eip1559UnsignedTx
  | TempoSigningRequest TempoUnsignedTx SenderSignatureAlgorithm

fun request_family :: "MultichainSigningRequest \<Rightarrow> BoundaryEcdsaChainFamily" where
  "request_family (EvmSigningRequest _) = BoundaryEvm"
| "request_family (TempoSigningRequest _ _) = BoundaryTempo"

fun request_chainId :: "MultichainSigningRequest \<Rightarrow> int" where
  "request_chainId (EvmSigningRequest tx) = eip_chainId tx"
| "request_chainId (TempoSigningRequest tx _) = tempo_chainId tx"

fun request_nonce :: "MultichainSigningRequest \<Rightarrow> int option" where
  "request_nonce (EvmSigningRequest tx) = eip_nonce tx"
| "request_nonce (TempoSigningRequest tx _) = tempo_nonce tx"

text \<open>\<open>{ ...request, tx: { ...request.tx, nonce } }\<close>.\<close>

fun with_nonce :: "int \<Rightarrow> MultichainSigningRequest \<Rightarrow> MultichainSigningRequest" where
  "with_nonce n (EvmSigningRequest tx) = EvmSigningRequest (tx\<lparr>eip_nonce := Some n\<rparr>)"
| "with_nonce n (TempoSigningRequest tx alg) = TempoSigningRequest (tx\<lparr>tempo_nonce := Some n\<rparr>) alg"

section \<open>The chain target of a request\<close>

text \<open>
  \<open>evmFamilyRequestChainKind\<close>: a Tempo transaction names its chain, an EIP-1559 transaction fits every
  EVM-compatible chain. The third branch of the function reads requests of no declared kind.
\<close>

definition evmFamilyRequestChainKind :: "MultichainSigningRequest \<Rightarrow> BoundaryEcdsaChainFamily option" where
  "evmFamilyRequestChainKind request =
     (case request of TempoSigningRequest _ _ \<Rightarrow> Some BoundaryTempo | EvmSigningRequest _ \<Rightarrow> None)"

fun target_family :: "chain_target \<Rightarrow> BoundaryEcdsaChainFamily" where
  "target_family (EvmTarget _ _) = BoundaryEvm"
| "target_family (TempoTarget _ _) = BoundaryTempo"

definition evmFamilySigningTargetFromExplicitTarget ::
  "MultichainSigningRequest \<Rightarrow> chain_target \<Rightarrow> js_error + chain_target" where
  "evmFamilySigningTargetFromExplicitTarget request target =
     (let requestChainId = request_chainId request in
      if \<not> safe_integer requestChainId \<or> requestChainId \<le> 0
      then Inl (new_Error ''[SigningEngine][ecdsa] transaction request requires a concrete chainId'')
      else if requestChainId \<noteq> chainId target
      then Inl (new_Error ''[SigningEngine][ecdsa] transaction request chainId does not match chainTarget'')
      else case evmFamilyRequestChainKind request of
          Some kind \<Rightarrow>
            if kind \<noteq> target_family target
            then Inl (new_Error ''[SigningEngine][ecdsa] transaction request chain does not match chainTarget'')
            else Inr target
        | None \<Rightarrow> Inr target)"

section \<open>The network of a request\<close>

definition readOptionalChainId :: "SeamsChainConfig \<Rightarrow> int option" where
  "readOptionalChainId chain = (case cfg_chainId chain of JNum n \<Rightarrow> Some n | _ \<Rightarrow> None)"

definition isEvmFamilyNetwork :: "SeamsChainConfig \<Rightarrow> bool" where
  "isEvmFamilyNetwork chain \<longleftrightarrow> chainFamilyFromNetwork (cfg_network chain) = EvmFamily"

definition isTempoFamilyNetwork :: "SeamsChainConfig \<Rightarrow> bool" where
  "isTempoFamilyNetwork chain \<longleftrightarrow> chainFamilyFromNetwork (cfg_network chain) = TempoFamily"

definition ambiguous_network :: "string \<Rightarrow> int \<Rightarrow> SeamsChainConfig list \<Rightarrow> js_error" where
  "ambiguous_network route cid candidates =
     new_Error (''[SigningEngine] ambiguous nonce network for '' @ route @ '' chainId='' @ int_str cid @ '' across ['' @
       join_with '', '' (map cfg_network candidates) @ '']'')"

text \<open>One of the candidates must be left; \<open>None\<close> when there is none.\<close>

definition unique_network :: "string \<Rightarrow> int \<Rightarrow> SeamsChainConfig list \<Rightarrow> js_error + string option" where
  "unique_network route cid candidates =
     (case candidates of
        [] \<Rightarrow> Inr None
      | [only] \<Rightarrow> Inr (Some (cfg_network only))
      | _ \<Rightarrow> Inl (ambiguous_network route cid candidates))"

definition tryResolveNonceNetworkKey ::
  "SeamsChainConfig list \<Rightarrow> MultichainSigningRequest \<Rightarrow> js_error + string option" where
  "tryResolveNonceNetworkKey cfgs request =
     (let cid = request_chainId request;
          matchesByChainId = filter (\<lambda>chain. readOptionalChainId chain = Some cid) cfgs
      in if matchesByChainId = [] then Inr None
         else case request_family request of
           BoundaryTempo \<Rightarrow> unique_network ''tempo'' cid (filter isTempoFamilyNetwork matchesByChainId)
         | BoundaryEvm \<Rightarrow>
             (let evmMatches = filter isEvmFamilyNetwork matchesByChainId
              in if evmMatches \<noteq> [] then unique_network ''evm'' cid evmMatches
                 else unique_network ''evm->tempo'' cid (filter isTempoFamilyNetwork matchesByChainId)))"

definition resolveNonceNetworkKey ::
  "SeamsChainConfig list \<Rightarrow> MultichainSigningRequest \<Rightarrow> js_error + string" where
  "resolveNonceNetworkKey cfgs request =
     ebind (tryResolveNonceNetworkKey cfgs request) (\<lambda>resolved.
       case Option.bind resolved opt_of_string of
         Some key \<Rightarrow> Inr key
       | None \<Rightarrow> Inl (new_Error (''[SigningEngine] unable to resolve nonce network for '' @ family_str (request_family request) @
           '' chainId='' @ int_str (request_chainId request) @ '' from configured chains'')))"

definition resolveNonceNetworkKeyForError ::
  "SeamsChainConfig list \<Rightarrow> MultichainSigningRequest \<Rightarrow> js_error + string" where
  "resolveNonceNetworkKeyForError cfgs request =
     ebind (tryResolveNonceNetworkKey cfgs request) (\<lambda>resolved.
       Inr (case Option.bind resolved opt_of_string of
              Some key \<Rightarrow> key
            | None \<Rightarrow> family_str (request_family request) @ '':'' @ int_str (request_chainId request)))"

section \<open>The sender of a request\<close>

definition toOptionalEvmAddress :: "jsval \<Rightarrow> string option" where
  "toOptionalEvmAddress value =
     (let normalized = js_lower (js_trim (js_String_or_empty value))
      in if is_0x_hex 40 normalized then Some normalized else None)"

datatype EvmFamilyManagedNonceSenderIdentity =
    ThresholdOwner (thresholdOwnerAddress: string)
  | ChainAccount (chainAccountAddress: string)

fun senderAddressFromIdentity :: "EvmFamilyManagedNonceSenderIdentity \<Rightarrow> string" where
  "senderAddressFromIdentity (ThresholdOwner a) = a"
| "senderAddressFromIdentity (ChainAccount a) = a"

text \<open>
  \<open>resolveWalletChainNonceSenderIdentity\<close> once the wallet's signer for the chain is read: its metadata, if
  there is a signer.
\<close>

definition senderIdentityFromSigner ::
  "string \<Rightarrow> chain_target \<Rightarrow> (string \<times> jsval) list option \<Rightarrow> js_error + EvmFamilyManagedNonceSenderIdentity" where
  "senderIdentityFromSigner wid target signer =
     (let metadata = (case signer of None \<Rightarrow> [] | Some fs \<Rightarrow> fs) in
      case toOptionalEvmAddress (jfield metadata ''thresholdOwnerAddress'') of
        Some owner \<Rightarrow> Inr (ThresholdOwner owner)
      | None \<Rightarrow>
          (case toOptionalEvmAddress (jfield metadata ''accountAddress'') of
             Some account \<Rightarrow> Inr (ChainAccount account)
           | None \<Rightarrow> Inl (new_Error (''[SigningEngine] unable to resolve managed nonce wallet signer for '' @ wid @ '' ('' @
               thresholdEcdsaChainTargetKey target @ '')''))))"

section \<open>The reserved lane is read from the chain the request names\<close>

lemma network_canonical: "isSeamsChainNetwork n \<Longrightarrow> js_lower (js_trim n) = n \<and> js_trim n = n \<and> n \<noteq> []"
proof -
  have "list_all (\<lambda>n. js_lower (js_trim n) = n \<and> js_trim n = n \<and> n \<noteq> []) SEAMS_CHAIN_NETWORKS" by code_simp
  then show "isSeamsChainNetwork n \<Longrightarrow> ?thesis" unfolding isSeamsChainNetwork_def list_all_iff by blast
qed

text \<open>The chains a request may be signed for: those of its chain id in one family.\<close>

definition family_matches :: "SeamsChainFamily \<Rightarrow> int \<Rightarrow> SeamsChainConfig list \<Rightarrow> SeamsChainConfig list" where
  "family_matches fam cid cfgs =
     filter (\<lambda>c. chainFamilyFromNetwork (cfg_network c) = fam) (filter (\<lambda>c. readOptionalChainId c = Some cid) cfgs)"

lemma unique_network_Some: "unique_network route cid cs = Inr (Some key) \<longleftrightarrow> (\<exists>only. cs = [only] \<and> key = cfg_network only)"
  by (auto simp: unique_network_def split: list.splits)

lemma resolved_family:
  assumes "resolveNonceNetworkKey cfgs request = Inr key"
  obtains fam only where "family_matches fam (request_chainId request) cfgs = [only]" "key = cfg_network only"
    "fam = TempoFamily \<or> (fam = EvmFamily \<and> request_family request = BoundaryEvm)"
proof -
  have "tryResolveNonceNetworkKey cfgs request = Inr (Some key)"
    using assms by (auto simp: resolveNonceNetworkKey_def opt_of_string_def split: sum.splits option.splits bind_splits if_splits)
  then have "(\<exists>only. family_matches TempoFamily (request_chainId request) cfgs = [only] \<and> key = cfg_network only) \<or>
      (request_family request = BoundaryEvm \<and>
       (\<exists>only. family_matches EvmFamily (request_chainId request) cfgs = [only] \<and> key = cfg_network only))"
    by (auto simp: tryResolveNonceNetworkKey_def Let_def unique_network_Some family_matches_def isEvmFamilyNetwork_def [abs_def]
         isTempoFamilyNetwork_def [abs_def] split: if_splits BoundaryEcdsaChainFamily.splits)
  with that show thesis by blast
qed

text \<open>Of the chains with the network name of the resolved one, the backend keeps exactly that one.\<close>

lemma backend_keeps:
  assumes seams: "\<forall>c \<in> set cfgs. isSeamsChainNetwork (cfg_network c)" and only: "family_matches fam cid cfgs = [only]"
    and fam: "fam = TempoFamily \<or> (fam = EvmFamily \<and> requested = BoundaryEvm)"
  defines "named \<equiv> byNetworkKey (cfg_network only) (filter isSupportedNonceRoutingChain cfgs)"
  shows "only \<in> set named" "filter (\<lambda>c. isChainCompatibleWithRequestChain c requested) (byChainId cid named) = [only]"
    "isChainCompatibleWithRequestChain only requested" "getOptionalConfigChainId only = Some cid"
proof -
  have mem: "only \<in> set (family_matches fam cid cfgs)" using only by simp
  then have o: "only \<in> set cfgs" "readOptionalChainId only = Some cid" "chainFamilyFromNetwork (cfg_network only) = fam"
    by (auto simp: family_matches_def)
  then show id: "getOptionalConfigChainId only = Some cid"
    using fam by (auto simp: getOptionalConfigChainId_def readOptionalChainId_def isChainWithChainId_def)
  show "isChainCompatibleWithRequestChain only requested"
    using fam o(3) by (auto simp: isChainCompatibleWithRequestChain_def Let_def)
  have canon: "js_lower (js_trim (cfg_network c)) = cfg_network c" if "c \<in> set cfgs" for c
    using seams that network_canonical by blast
  show "only \<in> set named"
    using o fam canon by (auto simp: named_def byNetworkKey_def isSupportedNonceRoutingChain_def)
  have "filter (\<lambda>c. isChainCompatibleWithRequestChain c requested) (byChainId cid named) =
      filter (\<lambda>c. cfg_network c = cfg_network only) (family_matches fam cid cfgs)"
    unfolding named_def byChainId_def byNetworkKey_def family_matches_def filter_filter
    using canon o(3) fam
    by (intro filter_cong)
       (auto simp: isSupportedNonceRoutingChain_def isChainCompatibleWithRequestChain_def getOptionalConfigChainId_def
         readOptionalChainId_def isChainWithChainId_def Let_def)
  then show "filter (\<lambda>c. isChainCompatibleWithRequestChain c requested) (byChainId cid named) = [only]"
    using only by simp
qed

lemma boundary_input:
  assumes "reserveNonceInputFromBoundary fam key cid from nkey wid = Inr input" and "normalizeInput input = Inr norm"
    and "isSeamsChainNetwork key"
  shows "fi_chain norm = fam \<and> fi_chainId norm = cid \<and> fi_networkKey norm = key"
  using assms network_canonical [OF assms(3)]
  by (cases fam)
     (auto simp: reserveNonceInputFromBoundary_def normalizeInput_def identity_def thresholdEcdsaChainTargetFromChainFamily_def
       normalizePositiveSafeInteger_def js_Number_def safe_int_def nonEmptyString_def js_nullish_def Let_def
       split: sum.splits if_splits option.splits)

text \<open>
  C10: The nonce of a request is read from the chain the request is signed for. The network the signing flow
  resolves for a request belongs to exactly one configured chain, which has the chain id of the request
  and a family that fits it, and the nonce backend, which searches the configuration by its own rules,
  asks the RPC endpoint of that chain.
\<close>

theorem nonce_network_routes:
  assumes "\<forall>c \<in> set cfgs. isSeamsChainNetwork (cfg_network c)" and "resolveNonceNetworkKey cfgs request = Inr key"
    and "reserveNonceInputFromBoundary (request_family request) key (request_chainId request) from nkey wid = Inr input"
    and "normalizeInput input = Inr norm"
  shows "\<exists>c. route_ok cfgs (request_family request) (request_chainId request) c \<and> cfg_network c = key \<and>
           resolveRpcUrlForInput cfgs norm = chain_url c"
proof -
  obtain fam only where only: "family_matches fam (request_chainId request) cfgs = [only]" and key: "key = cfg_network only"
    and fam: "fam = TempoFamily \<or> (fam = EvmFamily \<and> request_family request = BoundaryEvm)"
    using assms(2) by (rule resolved_family)
  note keeps = backend_keeps [OF assms(1) only fam]
  let ?named = "byNetworkKey key (filter isSupportedNonceRoutingChain cfgs)"
  from keeps(1) have mem: "only \<in> set ?named" "only \<in> set cfgs" by (auto simp: key byNetworkKey_def)
  have seams: "isSeamsChainNetwork key" using mem(2) assms(1) key by blast
  note norm = boundary_input [OF assms(3,4) seams]
  have sup: "filter isSupportedNonceRoutingChain cfgs \<noteq> []" using mem by (auto simp: byNetworkKey_def filter_empty_conv)
  have "resolveRpcUrlForInput cfgs norm = (case ?named of
      [only] \<Rightarrow> ebind (assertChainSupportsRequestedRoute only (request_family request)) (\<lambda>_.
        ebind (assertConfiguredChainIdMatchesInput only (request_chainId request)) (\<lambda>_. chain_url only))
    | a # b # others \<Rightarrow> (case filter (\<lambda>c. isChainCompatibleWithRequestChain c (request_family request))
          (byChainId (request_chainId request) (a # b # others)) of [only] \<Rightarrow> chain_url only | _ \<Rightarrow> Inl AmbiguousNetworkKey)
    | [] \<Rightarrow> Inl RpcUrlUnresolved)"
    using sup norm network_canonical [OF seams] mem(1)
    by (auto simp: resolveRpcUrlForInput_def Let_def split: list.split)
  also have "\<dots> = chain_url only"
    using mem(1) keeps [folded key] unfolding key [symmetric]
    by (cases ?named; cases "tl ?named")
       (auto simp: assertChainSupportsRequestedRoute_def assertConfiguredChainIdMatchesInput_def)
  finally have "resolveRpcUrlForInput cfgs norm = chain_url only" .
  with mem(2) keeps(3,4) key show ?thesis by (auto simp: route_ok_def)
qed

definition example_tempo_request :: MultichainSigningRequest where
  "example_tempo_request = TempoSigningRequest
     \<lparr>tempo_chainId = 42431, tempo_maxPriorityFeePerGas = 2, tempo_maxFeePerGas = 9, tempo_gasLimit = 21000,
      tempo_calls = [], tempo_accessList = None, tempo_nonceKey = 3, tempo_nonce = None, tempo_validBefore = None,
      tempo_validAfter = None, tempo_feeToken = None, tempo_feePayerSignature = None, tempo_aaAuthorizationList = None,
      tempo_keyAuthorization = None\<rparr> Secp256k1"

definition example_tempo_input :: ReserveNonceInput where
  "example_tempo_input =
     \<lparr>in_chainTarget = TempoTarget 42431 ''tempo-testnet'', in_subjectId = ''alice'', in_sender = ''0x'' @ replicate 40 CHR ''a'',
      in_nonceKey = Some 3\<rparr>"

definition example_tempo_query :: EvmNonceBackendFetchInput where
  "example_tempo_query =
     \<lparr>fi_chain = BoundaryTempo, fi_networkKey = ''tempo-testnet'', fi_chainId = 42431,
      fi_sender = ''0x'' @ replicate 40 CHR ''a'', fi_nonceKey = 3, fi_walletId = ''alice''\<rparr>"

theorem nonce_network_routes_witness: "resolveRpcUrlForInput example_cfgs example_tempo_query = Inr ''https://tempo''"
proof -
  have request: "request_family example_tempo_request = BoundaryTempo" "request_chainId example_tempo_request = 42431"
    by (simp_all add: example_tempo_request_def)
  have seams: "list_all (\<lambda>c. isSeamsChainNetwork (cfg_network c)) example_cfgs" by code_simp
  have key: "resolveNonceNetworkKey example_cfgs example_tempo_request = Inr ''tempo-testnet''"
    by (simp add: resolveNonceNetworkKey_def tryResolveNonceNetworkKey_def request example_cfgs_def readOptionalChainId_def
        unique_network_def isTempoFamilyNetwork_def chainFamilyFromNetwork_def isNearChainNetwork_def isTempoChainNetwork_def
        isSeamsChainNetwork_def SEAMS_CHAIN_NETWORKS_def opt_of_string_def)
  have input: "reserveNonceInputFromBoundary BoundaryTempo ''tempo-testnet'' 42431 (''0x'' @ replicate 40 CHR ''a'') (Some 3) ''alice'' =
      Inr example_tempo_input" by code_simp
  have norm: "normalizeInput example_tempo_input = Inr example_tempo_query" by code_simp
  from nonce_network_routes [OF seams [unfolded list_all_iff] key, unfolded request, OF input norm]
  obtain c where "c \<in> set example_cfgs" "cfg_network c = ''tempo-testnet''"
      "resolveRpcUrlForInput example_cfgs example_tempo_query = chain_url c"
    by (auto simp: route_ok_def)
  moreover have "list_all (\<lambda>c. cfg_network c = ''tempo-testnet'' \<longrightarrow> chain_url c = Inr ''https://tempo'') example_cfgs" by code_simp
  ultimately show ?thesis by (auto simp only: list_all_iff)
qed

end
