(* ===== verification/NonceCoordinator.thy ===== *)
theory NonceCoordinator
  imports CoordinatorState
begin

text \<open>
  The operations of the nonce coordinator (\<open>nonce/NonceCoordinator.ts\<close>, lines 772 to 1470): lane locks,
  expiry, recovery of durable leases, and the methods of the returned object.
\<close>

section \<open>Lane locks\<close>

text \<open>
  \<open>withLaneLock\<close>: the outcome of asking for the lock is an outside answer. A lock request that fails
  never runs the task.
\<close>

definition withLaneLock :: "coord_env \<Rightarrow> NonceLane \<Rightarrow> 'a cm \<Rightarrow> 'a cm" where
  "withLaneLock env lane task =
     (if env_sameOriginLock env then
        jbind (ask (env_lock env)) (\<lambda>failure. case failure of None \<Rightarrow> task | Some e \<Rightarrow> jthrow e)
      else if (case env_store env of StorePresent b \<Rightarrow> b | _ \<Rightarrow> False) then
        jbind (ask (env_lock env)) (\<lambda>failure.
          case failure of
            None \<Rightarrow> task
          | Some e \<Rightarrow>
              jseq (emitCoordinationDegradedOnce
                     (if e = DurableLockTimedOut then DurableLockTimeout else DurableStoreError)
                     ((lane_degradation lane)\<lparr>di_fallback := Some NoFallback\<rparr>))
                (jthrow e))
      else
        jseq (jwhen (env_store env \<noteq> StoreUndefined)
               (emitCoordinationDegradedOnce WebLocksUnavailable (lane_degradation lane)))
          task)"

section \<open>Expiry\<close>

definition expireLeaseLocked :: "coord_env \<Rightarrow> int \<Rightarrow> string \<Rightarrow> NonceLease option cm" where
  "expireLeaseLocked env nowMs lid =
     jbind (lookupLease lid) (\<lambda>lease.
       if expiresAtMs lease > nowMs then jret None
       else if lease_state lease \<noteq> Reserved \<and> lease_state lease \<noteq> Signed then jret None
       else
         jseq (if lease_state lease = Signed then reconcileAfterSignedLeaseExpiry env lease
               else releaseBackendReservation env lease)
         (jseq (transitionLease lid TExpire LeaseExpired
                 (Some (if lease_state lease = Signed then ''signed_lease_ttl_elapsed'' else ''lease_ttl_elapsed''))
                 None None)
           (jbind (lookupLease lid) (\<lambda>l. jret (Some l)))))"

definition expireDueLeasesForLockedLane :: "coord_env \<Rightarrow> NonceLane \<Rightarrow> NonceLease list cm" where
  "expireDueLeasesForLockedLane env lane =
     jbind (now env) (\<lambda>nowMs.
     jbind (jget (\<lambda>s. map fst (filter (\<lambda>(k, l). nonceLaneKey (lease_lane l) = nonceLaneKey lane) (leases s)))) (\<lambda>ids.
     jbind (jmapm (expireLeaseLocked env nowMs) ids) (\<lambda>expired.
       jret (List.map_filter id expired))))"

definition lanes_of_leases :: "string \<Rightarrow> NonceLease list \<Rightarrow> (string, NonceLane) jsmap" where
  "lanes_of_leases wid ls =
     fold (\<lambda>l m. if wid \<noteq> [] \<and> nonceLaneSubjectId (lease_lane l) \<noteq> wid then m
                 else AList.update (nonceLaneKey (lease_lane l)) (lease_lane l) m) ls []"

definition expireDueLeasesForWallet :: "coord_env \<Rightarrow> string option \<Rightarrow> NonceLease list cm" where
  "expireDueLeasesForWallet env wid =
     jbind (jget (\<lambda>s. map snd (lanes_of_leases (trim_opt wid) (map snd (leases s))))) (\<lambda>lanes.
     jbind (jmapm (\<lambda>lane. withLaneLock env lane (expireDueLeasesForLockedLane env lane)) lanes) (\<lambda>expired.
       jret (concat expired)))"

section \<open>Recovery of durable leases\<close>

type_synonym near_nonces = "(string, int option) jsmap"

definition readNearRecoveryNonce :: "near_client \<Rightarrow> string \<Rightarrow> string \<Rightarrow> int option cm" where
  "readNearRecoveryNonce client acc pk =
     jbind (ask (\<lambda>k. nc_viewAccessKey client k acc pk)) (\<lambda>answer.
       jret (case answer of
         Inl _ \<Rightarrow> None
       | Inr raw \<Rightarrow> if isAccessKeyViewLike raw then map_option ak_nonce (normalizeAccessKeyView raw) else None))"

definition removeRecord :: "coord_env \<Rightarrow> string \<Rightarrow> string \<Rightarrow> unit cm" where
  "removeRecord env lkey lid = store_tx env (\<lambda>rows. Inr (store_remove lkey lid rows))"

definition reconciled_event :: "NonceLane \<Rightarrow> string \<Rightarrow> string option \<Rightarrow> NonceCoordinatorTraceEvent" where
  "reconciled_event lane reason txHash =
     (trace_event LaneReconciled)\<lparr>te_lane := Some lane, te_reason := Some reason, te_txHash := txHash\<rparr>"

definition tryReconcileEvm :: "coord_env \<Rightarrow> EvmNonceLane \<Rightarrow> NonceLaneStatus option cm" where
  "tryReconcileEvm env lane =
     jcatch (jbind (reconcileEvmLaneLocked env lane) (\<lambda>status. jret (Some status))) (\<lambda>_. jret None)"

definition setInFlight :: "string \<Rightarrow> int \<Rightarrow> EvmInFlightNonceRecord \<Rightarrow> unit cm" where
  "setInFlight lkey n r = updateEvmState lkey (\<lambda>st. st\<lparr>inFlight := AList.update n r (inFlight st)\<rparr>)"

definition deleteInFlight :: "string \<Rightarrow> int \<Rightarrow> unit cm" where
  "deleteInFlight lkey n = updateEvmState lkey (\<lambda>st. st\<lparr>inFlight := AList.delete n (inFlight st)\<rparr>)"

text \<open>The part after the broadcast status has been read.\<close>

definition finishEvmRecovery ::
  "coord_env \<Rightarrow> NonceLaneCoordinationRecord \<Rightarrow> EvmNonceLane \<Rightarrow> int \<Rightarrow> bool \<Rightarrow>
   EvmBroadcastTransactionStatus option \<Rightarrow> unit cm" where
  "finishEvmRecovery env r lane recordNonce isExpired status =
     jbind (tryReconcileEvm env lane) (\<lambda>laneStatus.
       let chainAdvanced = (case laneStatus of None \<Rightarrow> False | Some st \<Rightarrow> chainNextNonce st > recordNonce);
           staleMissing = (broadcast_record r \<and> status = Some TxStatusMissing \<and> isExpired)
       in jseq
         (jwhen (chainAdvanced \<or> staleMissing)
           (jseq (deleteInFlight (rec_laneKey r) (rec_nonce r)) (removeRecord env (rec_laneKey r) (rec_leaseId r))))
         (emit (reconciled_event (EvmLane lane)
            (if staleMissing then ''startup_recovery_dropped_transaction'' else ''startup_recovery'')
            (case rec_lifecycle r of
               DurableBroadcastAccepted h \<Rightarrow> if staleMissing then Some h else None | _ \<Rightarrow> None))))"

definition recoverEvmRecord ::
  "coord_env \<Rightarrow> NonceLaneCoordinationRecord \<Rightarrow> EvmNonceLane \<Rightarrow> int \<Rightarrow> bool \<Rightarrow> unit cm" where
  "recoverEvmRecord env r lane recordNonce isExpired =
     jseq (getOrCreateEvmState (rec_laneKey r))
       (case rec_lifecycle r of
          DurableBroadcastAccepted h \<Rightarrow>
            jbind (jlift (requireRecoveredEvmTxHash h)) (\<lambda>txHash.
            jseq (setInFlight (rec_laneKey r) (rec_nonce r)
                   \<lparr>flight_nonce = recordNonce, flight_txHash = Some txHash, flight_status = FlightAccepted,
                    flight_acceptedAtMs = rec_reservedAtMs r, flight_updatedAtMs = rec_updatedAtMs r\<rparr>)
            (jbind (ask (\<lambda>k. case env_fetchBroadcastTransactionStatus env k (evmLaneToReserveNonceInput lane) txHash of
                     Inl _ \<Rightarrow> None | Inr st \<Rightarrow> Some st)) (\<lambda>status.
               if status = Some TxStatusFinalized then
                 jseq (deleteInFlight (rec_laneKey r) (rec_nonce r))
                 (jseq (removeRecord env (rec_laneKey r) (rec_leaseId r))
                 (jseq (tryReconcileEvm env lane)
                   (emit (reconciled_event (EvmLane lane) ''startup_recovery_finalized_transaction'' (Some h)))))
               else finishEvmRecovery env r lane recordNonce isExpired status)))
        | _ \<Rightarrow> finishEvmRecovery env r lane recordNonce isExpired None)"

definition recoverNearRecord ::
  "coord_env \<Rightarrow> near_client \<Rightarrow> ParsedNonceLaneCoordinationRecord \<Rightarrow> string \<Rightarrow> string \<Rightarrow> near_nonces \<Rightarrow> near_nonces cm" where
  "recoverNearRecord env client p acc pk observed =
     (let key = canonicalLaneKey p; r = parsed_record p in
      jbind (case map_of observed key of
               Some v \<Rightarrow> jret (v, observed)
             | None \<Rightarrow> jbind (readNearRecoveryNonce client acc pk) (\<lambda>v. jret (v, AList.update key v observed)))
        (\<lambda>(v, observed').
          jseq (jwhen (case v of Some n \<Rightarrow> n \<ge> parsed_nonce p | None \<Rightarrow> False)
                 (jcatch (removeRecord env (rec_laneKey r) (rec_leaseId r)) (\<lambda>_. jret ())))
            (jret observed')))"

definition recoverParsedRecord ::
  "coord_env \<Rightarrow> ParsedNonceLaneCoordinationRecord \<Rightarrow> near_nonces \<Rightarrow> near_nonces cm" where
  "recoverParsedRecord env p observed =
     (let r = parsed_record p; lane = parsed_lane p in
      if rec_laneKey r \<noteq> canonicalLaneKey p then
        jseq (removeRecord env (rec_laneKey r) (rec_leaseId r))
        (jseq (emitCoordinationDegradedOnce MalformedDurableRecord
                \<lparr>di_lane = None, di_fallback = Some NoFallback, di_accountId = Some (nonceLaneSubjectId lane),
                 di_networkKey = Some (rec_networkKey r), di_laneFamily = Some (record_family r)\<rparr>)
          (jret observed))
      else
        jbind (now env) (\<lambda>t.
          let isExpired = (rec_expiresAtMs r \<le> t) in
          if isExpired \<and> \<not> broadcast_record r then
            jseq (removeRecord env (rec_laneKey r) (rec_leaseId r))
            (jseq (case lane of EvmLane l \<Rightarrow> jseq (tryReconcileEvm env l) (jret ()) | NearLane _ \<Rightarrow> jret ())
            (jseq (emit (reconciled_event lane ''startup_recovery_expired_lease'' None))
              (jret observed)))
          else case (lane, rec_lane r) of
            (EvmLane l, _) \<Rightarrow> jseq (recoverEvmRecord env r l (parsed_nonce p) isExpired) (jret observed)
          | (NearLane l, NearRecordLane w acc pk) \<Rightarrow>
              (case env_nearClient env of
                 None \<Rightarrow> jret observed
               | Some client \<Rightarrow> recoverNearRecord env client p acc pk observed)
          | _ \<Rightarrow> jret observed))"

fun recoverLoop ::
  "coord_env \<Rightarrow> NonceLaneCoordinationReadResult list \<Rightarrow> near_nonces \<Rightarrow> unit cm" where
  "recoverLoop env [] observed = jret ()"
| "recoverLoop env (ReadFailure d lkey lid # rest) observed =
     jseq (jwhen (lid \<noteq> []) (removeRecord env lkey lid))
     (jseq (emitCoordinationDegradedOnce (deg_reason d)
             \<lparr>di_lane = None, di_fallback = Some (deg_fallback d), di_accountId = deg_accountId d,
              di_networkKey = deg_networkKey d, di_laneFamily = deg_laneFamily d\<rparr>)
       (recoverLoop env rest observed))"
| "recoverLoop env (ReadOk p # rest) observed =
     jbind (withLaneLock env (parsed_lane p) (recoverParsedRecord env p observed)) (recoverLoop env rest)"

definition recoverDurableLeases :: "coord_env \<Rightarrow> string option \<Rightarrow> unit cm" where
  "recoverDurableLeases env wid =
     (case env_store env of
        StorePresent _ \<Rightarrow>
          jbind (jcatch (jbind (store_query env (\<lambda>rows. store_readAllForRecovery rows wid)) (\<lambda>rs. jret (Some rs)))
                  (\<lambda>_. jseq (emitCoordinationDegradedOnce DurableStoreError no_degradation_input) (jret None)))
            (\<lambda>results. case results of None \<Rightarrow> jret () | Some rs \<Rightarrow> recoverLoop env rs [])
      | _ \<Rightarrow> degradedStoreMissing env no_degradation_input)"

section \<open>Reserving\<close>

definition set_lease :: "NonceLease \<Rightarrow> unit cm" where
  "set_lease lease = jmod (\<lambda>s. s\<lparr>leases := AList.update (leaseId lease) lease (leases s)\<rparr>)"

definition lease_reserved_event :: "NonceLease \<Rightarrow> NonceCoordinatorTraceEvent" where
  "lease_reserved_event lease = (trace_event LeaseReserved)\<lparr>te_lease := Some lease\<rparr>"

definition storeReservedLease :: "coord_env \<Rightarrow> NonceLease \<Rightarrow> unit cm" where
  "storeReservedLease env lease =
     jseq (set_lease lease)
     (jseq (persistCoordinationLease env lease DurableReserved (expiresAtMs lease))
       (emit (lease_reserved_event lease)))"

definition refreshIfNeeded :: "coord_env \<Rightarrow> EvmNonceLane \<Rightarrow> unit cm" where
  "refreshIfNeeded env lane =
     (let lkey = nonceLaneKey (EvmLane lane) in
      jbind (getOrCreateEvmState lkey) (\<lambda>st.
      jbind (shouldRefreshEvmLaneLocked env lkey st lane) (\<lambda>refresh.
        jwhen refresh (jseq (refreshEvmLaneFromChainLocked env lane) (jret ())))))"

definition assertLaneNotBlocked :: "coord_env \<Rightarrow> EvmNonceLane \<Rightarrow> unit cm" where
  "assertLaneNotBlocked env lane =
     jbind (getOrCreateEvmState (nonceLaneKey (EvmLane lane))) (\<lambda>st.
     jbind (now env) (\<lambda>nowMs.
       case readBlockedEvmInFlight st nowMs (env_evmStaleInFlightThresholdMs env) of
         None \<Rightarrow> jret ()
       | Some (n, ageMs) \<Rightarrow> jthrow (createEvmNonceLaneBlockedError n ageMs)))"

definition takeEvmCandidate :: "coord_env \<Rightarrow> EvmNonceLane \<Rightarrow> PreparedNonceOperationContext \<Rightarrow> NonceLease cm" where
  "takeEvmCandidate env lane operation =
     (let lkey = nonceLaneKey (EvmLane lane) in
      jbind (readActiveEvmLeaseNonces env lkey None None lane) (\<lambda>active.
      jbind (getOrCreateEvmState lkey) (\<lambda>st.
        let candidate = chooseEvmCandidate st active in
        jseq (updateEvmState lkey (\<lambda>st. st\<lparr>nextCandidate := Some (candidate + 1)\<rparr>))
        (jbind (now env) (\<lambda>reservedAt.
         jbind (ask (env_random env)) (\<lambda>random.
           let lease = \<lparr>leaseId = createNonceLeaseId (chain_target_kind (chainTarget lane))
                          (op_operationId operation) (int_str candidate) random,
                        slot = EvmSlot lane candidate, operationId = op_operationId operation,
                        operationFingerprint = op_operationFingerprint operation, lease_state = Reserved,
                        reservedAtMs = reservedAt, expiresAtMs = reservedAt + env_leaseTtlMs env,
                        batchId = None, txIndex = None\<rparr>
           in jseq (storeReservedLease env lease) (jret lease)))))))"

definition reserveEvmNonceLeaseUnlocked ::
  "coord_env \<Rightarrow> EvmNonceLane \<Rightarrow> PreparedNonceOperationContext \<Rightarrow> NonceLease cm" where
  "reserveEvmNonceLeaseUnlocked env lane operation =
     jseq (expireDueLeasesForLockedLane env (EvmLane lane))
     (jseq (getOrCreateEvmState (nonceLaneKey (EvmLane lane)))
     (jseq (indexEvmLaneByAccount lane (nonceLaneKey (EvmLane lane)))
     (jseq (refreshIfNeeded env lane)
     (jseq (assertLaneNotBlocked env lane)
       (takeEvmCandidate env lane operation)))))"

definition near_lease ::
  "coord_env \<Rightarrow> NearNonceLane \<Rightarrow> PreparedNonceOperationContext \<Rightarrow> int \<Rightarrow> string \<Rightarrow> string \<Rightarrow> int \<Rightarrow> string \<Rightarrow> NonceLease" where
  "near_lease env lane operation reservedAt batch nonce index random =
     \<lparr>leaseId = createNonceLeaseId ''near'' (op_operationId operation) nonce random,
      slot = NearSlot lane nonce, operationId = op_operationId operation,
      operationFingerprint = op_operationFingerprint operation, lease_state = Reserved,
      reservedAtMs = reservedAt, expiresAtMs = reservedAt + env_leaseTtlMs env,
      batchId = Some batch, txIndex = Some index\<rparr>"

fun near_leases ::
  "coord_env \<Rightarrow> NearNonceLane \<Rightarrow> PreparedNonceOperationContext \<Rightarrow> int \<Rightarrow> string \<Rightarrow> int \<Rightarrow> string list \<Rightarrow> NonceLease list cm" where
  "near_leases env lane operation reservedAt batch index [] = jret []"
| "near_leases env lane operation reservedAt batch index (n # ns) =
     jbind (ask (env_random env)) (\<lambda>random.
     jbind (near_leases env lane operation reservedAt batch (index + 1) ns) (\<lambda>rest.
       jret (near_lease env lane operation reservedAt batch n index random # rest)))"

definition reserveNearNonceBatchUnlocked ::
  "coord_env \<Rightarrow> NearNonceLane \<Rightarrow> PreparedNonceOperationContext \<Rightarrow> int \<Rightarrow> NonceLease list cm" where
  "reserveNearNonceBatchUnlocked env lane operation countInput =
     jseq (expireDueLeasesForLockedLane env (NearLane lane))
       (let count = max 1 (if countInput = 0 then 1 else countInput) in
        jbind (reserveNearNonces env lane count) (\<lambda>nonces.
          if int (length nonces) \<noteq> count then jthrow IncompleteBatch
          else
            jbind (now env) (\<lambda>reservedAt.
            jbind (ask (env_random env)) (\<lambda>batchRandom.
              let batch = createNonceBatchId ''near'' (op_operationId operation) (hd nonces) count batchRandom in
              jbind (near_leases env lane operation reservedAt batch 0 nonces) (\<lambda>batchLeases.
              jseq (jfor batchLeases (storeReservedLease env)) (jret batchLeases))))))"

section \<open>The public operations\<close>

definition reserve :: "coord_env \<Rightarrow> NonceLane \<Rightarrow> PreparedNonceOperationContext \<Rightarrow> NonceLease cm" where
  "reserve env lane operation =
     (case lane of
        NearLane l \<Rightarrow> withLaneLock env lane
          (jbind (reserveNearNonceBatchUnlocked env l operation 1) (\<lambda>ls. jret (hd ls)))
      | EvmLane l \<Rightarrow> withLaneLock env lane (reserveEvmNonceLeaseUnlocked env l operation))"

definition reserveBatch ::
  "coord_env \<Rightarrow> NearNonceLane \<Rightarrow> PreparedNonceOperationContext \<Rightarrow> int \<Rightarrow> NonceLease list cm" where
  "reserveBatch env lane operation count =
     withLaneLock env (NearLane lane) (reserveNearNonceBatchUnlocked env lane operation count)"

definition commitNearContext :: "coord_env \<Rightarrow> NearNonceLane \<Rightarrow> TransactionContext \<Rightarrow> unit cm" where
  "commitNearContext env lane ctx =
     jbind (now env) (\<lambda>nowMs.
       liftNear (commitNearTransactionContextForState (walletId lane) (nearAccountId lane) (publicKey lane) ctx nowMs))"

text \<open>\<open>input.fetchContext\<close>, when given, is a callback: its answer is an argument.\<close>

definition reserveNearContext ::
  "coord_env \<Rightarrow> NearNonceLane \<Rightarrow> PreparedNonceOperationContext \<Rightarrow> int \<Rightarrow> (string + TransactionContext) option \<Rightarrow>
   near_client option \<Rightarrow> bool option \<Rightarrow> (TransactionContext \<times> NonceLease list) cm" where
  "reserveNearContext env lane operation count fetchContext client force =
     withLaneLock env (NearLane lane)
       (jseq (initializeNearAccessKey (walletId lane) (nearAccountId lane) (publicKey lane))
       (jbind (case fetchContext of
                 Some answer \<Rightarrow> ask_rpc (\<lambda>_. answer)
               | None \<Rightarrow> fetchNearContextForLane env lane client (force \<noteq> Some False)) (\<lambda>ctx.
        jseq (commitNearContext env lane ctx)
        (jbind (reserveNearNonceBatchUnlocked env lane operation count) (\<lambda>ls.
          jret ((case ls of [] \<Rightarrow> ctx
                 | l # _ \<Rightarrow> ctx\<lparr>ctx_nextNonce := (case slot l of NearSlot _ s \<Rightarrow> s | EvmSlot _ n \<Rightarrow> int_str n)\<rparr>), ls))))))"

definition reserveNearReplacementContext ::
  "coord_env \<Rightarrow> NearNonceLane \<Rightarrow> PreparedNonceOperationContext \<Rightarrow> string \<Rightarrow> near_client option \<Rightarrow>
   (TransactionContext \<times> NonceLease list) cm" where
  "reserveNearReplacementContext env lane operation nonce client =
     withLaneLock env (NearLane lane)
       (jseq (initializeNearAccessKey (walletId lane) (nearAccountId lane) (publicKey lane))
       (jbind (fetchNearContextForLane env lane client True) (\<lambda>ctx.
        jseq (commitNearContext env lane ctx)
        (jbind (jlift (bigint_of nonce)) (\<lambda>n.
          if ak_nonce (ctx_accessKeyInfo ctx) \<ge> n
          then jthrow (ReplacementNonceUsed nonce (int_str (ak_nonce (ctx_accessKeyInfo ctx))))
          else
            jbind (now env) (\<lambda>reservedAt.
            jbind (ask (env_random env)) (\<lambda>leaseRandom.
            jbind (ask (env_random env)) (\<lambda>batchRandom.
              let lease = near_lease env lane operation reservedAt
                    (createNonceBatchId ''near'' (op_operationId operation) nonce 1 batchRandom) nonce 0 leaseRandom
              in jseq (storeReservedLease env lease)
                   (jret (ctx\<lparr>ctx_nextNonce := nonce\<rparr>, [lease]))))))))))"

definition getActiveNearPublicKey :: "string option cm" where
  "getActiveNearPublicKey = jget (\<lambda>s. readNearActivePublicKey (nearState s))"

definition fetchNearContext ::
  "coord_env \<Rightarrow> NearNonceLane \<Rightarrow> near_client option \<Rightarrow> bool option \<Rightarrow> TransactionContext cm" where
  "fetchNearContext env lane client force =
     withLaneLock env (NearLane lane) (fetchNearContextForLane env lane client (force = Some True))"

text \<open>\<open>subject\<close> is given for the kind \<open>access_key_subject\<close>. The debounce timer's callback is \<open>prefetchTimerFires\<close>.\<close>

definition prefetchNearContext ::
  "coord_env \<Rightarrow> (string \<times> string \<times> string) option \<Rightarrow> near_client option \<Rightarrow> unit cm" where
  "prefetchNearContext env subject client =
     jseq (case subject of None \<Rightarrow> jret () | Some (w, a, k) \<Rightarrow> initializeNearAccessKey w a k)
     (jbind (jget (\<lambda>s. readNearAccessKeySubject (nearState s))) (\<lambda>active.
       if active = None then jret ()
       else
         jseq (jmod (\<lambda>s. s\<lparr>nearState := clearNearPrefetchTimer (nearState s)\<rparr>))
         (jseq (requireNearClient env client)
           (jmod (\<lambda>s. s\<lparr>nearState := (nearState s)\<lparr>prefetchTimer := True\<rparr>\<rparr>)))))"

definition prefetchTimerFires :: "coord_env \<Rightarrow> near_client \<Rightarrow> unit cm" where
  "prefetchTimerFires env client =
     jseq (jmod (\<lambda>s. s\<lparr>nearState := (nearState s)\<lparr>prefetchTimer := False\<rparr>\<rparr>))
     (jbind (jget (\<lambda>s. hasNearInflightFetch (nearState s))) (\<lambda>inflight.
       if inflight then jret ()
       else jbind (now env) (\<lambda>nowMs.
         jbind (jget (\<lambda>s. shouldPrefetchNearContext (nearState s) nowMs 20000)) (\<lambda>due.
           if \<not> due then jret ()
           else jcatch (jseq (fetchNearFreshData env client False) (jret ())) (\<lambda>_. jret ())))))"

definition is_near_lease :: "NonceLease \<Rightarrow> bool" where
  "is_near_lease l = (case slot l of NearSlot _ _ \<Rightarrow> True | EvmSlot _ _ \<Rightarrow> False)"

definition clearNearAccessKey :: "unit cm" where
  "clearNearAccessKey =
     jmod (\<lambda>s. s\<lparr>nearState := clearNearAccessKeyState (nearState s),
                 leases := filter (\<lambda>(k, l). \<not> is_near_lease l) (leases s)\<rparr>)"

text \<open>
  The methods on a lease first read it outside the lock (and throw without touching anything when it
  is missing or belongs to another operation), then read it again under the lock.
\<close>

definition withLockedLease ::
  "coord_env \<Rightarrow> string \<Rightarrow> string \<Rightarrow> string \<Rightarrow> (NonceLease \<Rightarrow> unit cm) \<Rightarrow> unit cm" where
  "withLockedLease env lid opId opFp body =
     jbind (jlift (normalizeLeaseOperationInput lid opId opFp)) (\<lambda>input.
     jbind (readLease input) (\<lambda>lease.
       withLaneLock env (lease_lane lease) (jbind (readLease input) body)))"

definition markSigned :: "coord_env \<Rightarrow> string \<Rightarrow> string \<Rightarrow> string \<Rightarrow> string option \<Rightarrow> unit cm" where
  "markSigned env lid opId opFp signedTxHash =
     withLockedLease env lid opId opFp (\<lambda>lease.
       jbind (now env) (\<lambda>t.
         let exp = t + env_signedLeaseTtlMs env in
         jseq (transitionLease (leaseId lease) TMarkSigned LeaseSigned None signedTxHash (Some exp))
         (jbind (lookupLease (leaseId lease)) (\<lambda>signed.
           persistCoordinationLease env signed DurableSigned exp))))"

definition markBroadcastAccepted :: "coord_env \<Rightarrow> string \<Rightarrow> string \<Rightarrow> string \<Rightarrow> string \<Rightarrow> unit cm" where
  "markBroadcastAccepted env lid opId opFp txHash =
     withLockedLease env lid opId opFp (\<lambda>lease.
       jseq (preflightLeaseTransition lease TBroadcastAccepted)
       (jseq (case slot lease of
                EvmSlot lane n \<Rightarrow> markEvmBroadcastAccepted env lease lane n txHash
              | NearSlot lane s \<Rightarrow>
                  jbind (now env) (\<lambda>nowMs.
                  jseq (liftNear (markNearBroadcastAcceptedState s txHash nowMs))
                    (persistCoordinationLease env lease (DurableBroadcastAccepted txHash) (expiresAtMs lease))))
         (transitionLease (leaseId lease) TBroadcastAccepted LeaseBroadcastAccepted None (Some txHash) None)))"

definition markBroadcastRejected :: "coord_env \<Rightarrow> string \<Rightarrow> string \<Rightarrow> string \<Rightarrow> string \<Rightarrow> unit cm" where
  "markBroadcastRejected env lid opId opFp errorText =
     withLockedLease env lid opId opFp (\<lambda>lease.
       jseq (preflightLeaseTransition lease TBroadcastRejected)
       (jseq (releaseBackendReservation env lease)
       (jseq (case (slot lease, env_nearClient env) of
                (NearSlot _ _, Some client) \<Rightarrow>
                  jcatch (refreshNearNonceAfterBroadcastRejected env client) (\<lambda>_. jret ())
              | _ \<Rightarrow> jret ())
         (transitionLease (leaseId lease) TBroadcastRejected LeaseBroadcastRejected (Some errorText) None None))))"

definition markFinalized :: "coord_env \<Rightarrow> string \<Rightarrow> string \<Rightarrow> string \<Rightarrow> string option \<Rightarrow> unit cm" where
  "markFinalized env lid opId opFp txHash =
     withLockedLease env lid opId opFp (\<lambda>lease.
       jseq (preflightLeaseTransition lease TFinalize)
       (jseq (case slot lease of
                EvmSlot lane n \<Rightarrow> markEvmFinalized env lease lane n
              | NearSlot lane s \<Rightarrow>
                  jseq (case env_nearClient env of
                          Some client \<Rightarrow> updateNearNonceFromBlockchain env client s
                        | None \<Rightarrow> releaseBackendReservation env lease)
                    (removeCoordinationLease env lease))
         (transitionLease (leaseId lease) TFinalize LeaseFinalized None txHash None)))"

definition markDroppedOrReplaced ::
  "coord_env \<Rightarrow> string \<Rightarrow> string \<Rightarrow> string \<Rightarrow> EvmNonceOutcomeReason \<Rightarrow> string option \<Rightarrow> unit cm" where
  "markDroppedOrReplaced env lid opId opFp reason txHash =
     (let transition = (if reason = OutcomeReplaced then TReplace else TDrop);
          event = (if reason = OutcomeReplaced then LeaseReplaced else LeaseDropped) in
      jbind (jlift (normalizeLeaseOperationInput lid opId opFp)) (\<lambda>input.
      jbind (readLease input) (\<lambda>lease.
      jseq (jlift (assertEvmLease lease))
        (withLaneLock env (lease_lane lease)
          (jbind (readLease input) (\<lambda>locked.
           jbind (jlift (assertEvmLease locked)) (\<lambda>(lane, n).
           jseq (preflightLeaseTransition locked transition)
           (jseq (markEvmDroppedOrReplaced env locked lane n reason (Option.bind txHash opt_of_string))
           (jseq (transitionLease (leaseId locked) transition event (Some (outcome_reason_str reason)) txHash None)
             (recordDroppedReplacedAlert env lane reason))))))))))"

definition release :: "coord_env \<Rightarrow> string \<Rightarrow> string \<Rightarrow> string \<Rightarrow> NonceLeaseReleaseReason \<Rightarrow> unit cm" where
  "release env lid opId opFp reason =
     withLockedLease env lid opId opFp (\<lambda>lease.
       jseq (preflightLeaseTransition lease TRelease)
       (jseq (releaseBackendReservation env lease)
         (transitionLease (leaseId lease) TRelease LeaseReleased (Some (release_reason_str reason)) None None)))"

definition expireLeases :: "coord_env \<Rightarrow> string option \<Rightarrow> NonceLease list cm" where
  "expireLeases env wid = expireDueLeasesForWallet env wid"

definition reconcile :: "coord_env \<Rightarrow> NonceLane \<Rightarrow> NonceLaneStatus cm" where
  "reconcile env lane =
     withLaneLock env lane
       (jbind (case lane of EvmLane l \<Rightarrow> reconcileEvmLaneLocked env l | NearLane l \<Rightarrow> reconcileNearLaneLocked env l) (\<lambda>status.
        jseq (emit ((trace_event LaneReconciled)\<lparr>te_lane := Some lane\<rparr>)) (jret status)))"

text \<open>The store is cleared by a promise that is not awaited; a rejection of it is recorded as degraded.\<close>

definition clearStore :: "coord_env \<Rightarrow> (lease_rows \<Rightarrow> lease_rows) \<Rightarrow> unit cm" where
  "clearStore env f =
     (case env_store env of
        StorePresent _ \<Rightarrow>
          jcatch (store_tx env (\<lambda>rows. Inr (f rows)))
            (\<lambda>_. emitCoordinationDegradedOnce DurableStoreError no_degradation_input)
      | _ \<Rightarrow> jret ())"

definition clear_wallet_state :: "string \<Rightarrow> coord \<Rightarrow> coord" where
  "clear_wallet_state w s =
     (let s1 = (case map_of (evmAccountLaneKeys s) w of
                  None \<Rightarrow> s
                | Some keys \<Rightarrow> s\<lparr>evmStates := filter (\<lambda>(k, _). k \<notin> set keys) (evmStates s),
                                 evmAccountLaneKeys := AList.delete w (evmAccountLaneKeys s)\<rparr>);
          s2 = (if map_option subj_walletId (readNearAccessKeySubject (nearState s1)) = Some w
                then s1\<lparr>nearState := clearNearAccessKeyState (nearState s1)\<rparr> else s1)
      in s2\<lparr>leases := filter (\<lambda>(k, l). nonceLaneSubjectId (lease_lane l) \<noteq> w) (leases s2)\<rparr>)"

definition clearForWallet :: "coord_env \<Rightarrow> string \<Rightarrow> unit cm" where
  "clearForWallet env wid =
     (let w = js_trim wid in
      if w = [] then jret ()
      else
        jseq (clearStore env (clearNonceLaneLeaseRecordsForWallet w))
        (jseq (jmod (clear_wallet_state w))
          (emit ((trace_event LanesCleared)\<lparr>te_accountId := Some w, te_reason := Some ''clear_for_account''\<rparr>))))"

definition clearAll :: "coord_env \<Rightarrow> unit cm" where
  "clearAll env =
     jseq (jmod (\<lambda>s. s\<lparr>evmStates := [], evmAccountLaneKeys := [], droppedReplacedAlerts := []\<rparr>))
     (jseq (clearStore env clearAllNonceLaneLeaseRecords)
     (jseq (jmod (\<lambda>s. s\<lparr>nearState := clearNearAccessKeyState (nearState s), leases := []\<rparr>))
       (emit ((trace_event LanesCleared)\<lparr>te_reason := Some ''clear_all''\<rparr>))))"

definition getDiagnostics :: "coord_env \<Rightarrow> string option \<Rightarrow> bool \<Rightarrow> NonceCoordinatorDiagnostics cm" where
  "getDiagnostics env account emitMetrics =
     jbind (now env) (\<lambda>nowMs.
     jbind (jget (\<lambda>s. createNonceCoordinatorDiagnostics account (map snd (leases s)) (nearState s)
             (map snd (observedDegradations s)) (outcomeMetricEvents s) nowMs)) (\<lambda>diagnostics.
     jseq (jwhen emitMetrics (emit ((trace_event Metrics)\<lparr>te_metrics := Some (dg_metrics diagnostics),
             te_accountId := opt_of_string (trim_opt account)\<rparr>)))
       (jret diagnostics)))"

end
