(* ===== verification/CoordinatorRelations.thy ===== *)
theory CoordinatorRelations
  imports NonceCoordinator
begin

text \<open>
  What every operation of the coordinator does to its state. A relation between the state before
  and after that is reflexive and transitive and holds of each primitive change holds of every
  operation: the locale \<open>coord_relation\<close> proves this once, and its interpretations at the end
  are the invariants of the coordinator.
\<close>

section \<open>Case rules\<close>

lemma jinv_store_config [jinv_intros]:
  "jinv R u \<Longrightarrow> jinv R n \<Longrightarrow> (\<And>b. jinv R (f b)) \<Longrightarrow>
   jinv R (case c of StoreUndefined \<Rightarrow> u | StoreNull \<Rightarrow> n | StorePresent b \<Rightarrow> f b)"
  by (cases c) auto

lemma jinv_slot [jinv_intros]:
  "(\<And>l n. jinv R (f l n)) \<Longrightarrow> (\<And>l n. jinv R (g l n)) \<Longrightarrow>
   jinv R (case sl of EvmSlot l n \<Rightarrow> f l n | NearSlot l n \<Rightarrow> g l n)"
  by (cases sl) auto

lemma jinv_lane [jinv_intros]:
  "(\<And>l. jinv R (f l)) \<Longrightarrow> (\<And>l. jinv R (g l)) \<Longrightarrow>
   jinv R (case lane of EvmLane l \<Rightarrow> f l | NearLane l \<Rightarrow> g l)"
  by (cases lane) auto

lemma jinv_lifecycle [jinv_intros]:
  "jinv R a \<Longrightarrow> jinv R b \<Longrightarrow> (\<And>h. jinv R (f h)) \<Longrightarrow>
   jinv R (case lc of DurableReserved \<Rightarrow> a | DurableSigned \<Rightarrow> b | DurableBroadcastAccepted h \<Rightarrow> f h)"
  by (cases lc) auto

lemma jinv_record_lane [jinv_intros]:
  "(\<And>t a s k. jinv R (f t a s k)) \<Longrightarrow> (\<And>w a k. jinv R (g w a k)) \<Longrightarrow>
   jinv R (case rl of EvmRecordLane t a s k \<Rightarrow> f t a s k | NearRecordLane w a k \<Rightarrow> g w a k)"
  by (cases rl) auto

lemma jinv_tx_outcome [jinv_intros]:
  "jinv R a \<Longrightarrow> jinv R b \<Longrightarrow> jinv R c \<Longrightarrow>
   jinv R (case x of TxFinalized \<Rightarrow> a | TxMissing \<Rightarrow> b | TxUnknown \<Rightarrow> c)"
  by (cases x) auto

section \<open>Runs of the coordinator\<close>

text \<open>
  A call of one of the coordinator's methods that may change its state, with its arguments. \<open>OpTimer\<close> is the
  debounced prefetch callback.
\<close>

datatype coord_op =
    OpReserve NonceLane PreparedNonceOperationContext
  | OpReserveBatch NearNonceLane PreparedNonceOperationContext int
  | OpReserveNearContext NearNonceLane PreparedNonceOperationContext int "(string + TransactionContext) option"
      "near_client option" "bool option"
  | OpReserveNearReplacement NearNonceLane PreparedNonceOperationContext string "near_client option"
  | OpInitializeNear string string string
  | OpFetchNear NearNonceLane "near_client option" "bool option"
  | OpPrefetch "(string \<times> string \<times> string) option" "near_client option"
  | OpTimer near_client
  | OpClearNear
  | OpMarkSigned string string string "string option"
  | OpAccepted string string string string
  | OpRejected string string string string
  | OpFinalized string string string "string option"
  | OpDroppedOrReplaced string string string EvmNonceOutcomeReason "string option"
  | OpRelease string string string NonceLeaseReleaseReason
  | OpExpire "string option"
  | OpReconcile NonceLane
  | OpRecover "string option"
  | OpClearForWallet string
  | OpClearAll
  | OpDiagnostics "string option" bool

fun coord_exec :: "coord_env \<Rightarrow> coord_op \<Rightarrow> coord \<Rightarrow> coord" where
  "coord_exec env (OpReserve lane operation) s = snd (reserve env lane operation s)"
| "coord_exec env (OpReserveBatch lane operation n) s = snd (reserveBatch env lane operation n s)"
| "coord_exec env (OpReserveNearContext lane operation n fetch c force) s =
     snd (reserveNearContext env lane operation n fetch c force s)"
| "coord_exec env (OpReserveNearReplacement lane operation n c) s =
     snd (reserveNearReplacementContext env lane operation n c s)"
| "coord_exec env (OpInitializeNear w a k) s = snd (initializeNearAccessKey w a k s)"
| "coord_exec env (OpFetchNear lane c force) s = snd (fetchNearContext env lane c force s)"
| "coord_exec env (OpPrefetch subject c) s = snd (prefetchNearContext env subject c s)"
| "coord_exec env (OpTimer c) s = snd (prefetchTimerFires env c s)"
| "coord_exec env OpClearNear s = snd (clearNearAccessKey s)"
| "coord_exec env (OpMarkSigned lid i f h) s = snd (markSigned env lid i f h s)"
| "coord_exec env (OpAccepted lid i f h) s = snd (markBroadcastAccepted env lid i f h s)"
| "coord_exec env (OpRejected lid i f e) s = snd (markBroadcastRejected env lid i f e s)"
| "coord_exec env (OpFinalized lid i f h) s = snd (markFinalized env lid i f h s)"
| "coord_exec env (OpDroppedOrReplaced lid i f reason h) s = snd (markDroppedOrReplaced env lid i f reason h s)"
| "coord_exec env (OpRelease lid i f reason) s = snd (release env lid i f reason s)"
| "coord_exec env (OpExpire w) s = snd (expireLeases env w s)"
| "coord_exec env (OpReconcile lane) s = snd (reconcile env lane s)"
| "coord_exec env (OpRecover w) s = snd (recoverDurableLeases env w s)"
| "coord_exec env (OpClearForWallet w) s = snd (clearForWallet env w s)"
| "coord_exec env OpClearAll s = snd (clearAll env s)"
| "coord_exec env (OpDiagnostics a b) s = snd (getDiagnostics env a b s)"

fun reserving :: "coord_op \<Rightarrow> bool" where
  "reserving (OpReserve _ _) = True"
| "reserving (OpReserveBatch _ _ _) = True"
| "reserving (OpReserveNearContext _ _ _ _ _ _) = True"
| "reserving (OpReserveNearReplacement _ _ _ _) = True"
| "reserving _ = False"

text \<open>
  The states a coordinator goes through. Its store is shared with other runtimes of the same origin,
  so the rows may change between two calls.
\<close>

inductive coord_reach :: "(coord_op \<Rightarrow> bool) \<Rightarrow> coord_env \<Rightarrow> coord \<Rightarrow> bool" for allowed env where
  reach_initial: "rows_ok rows \<Longrightarrow> coord_reach allowed env (initial_coord rows)"
| reach_call: "coord_reach allowed env s \<Longrightarrow> allowed op \<Longrightarrow> coord_reach allowed env (coord_exec env op s)"
| reach_store: "coord_reach allowed env s \<Longrightarrow> rows_ok rows \<Longrightarrow> coord_reach allowed env (s\<lparr>storeRows := rows\<rparr>)"

section \<open>The relation\<close>

text \<open>Operations that only talk to the outside: the clock, the trace and the store.\<close>

locale coord_outside =
  fixes R :: "coord \<Rightarrow> coord \<Rightarrow> bool"
  assumes R_refl: "reflp R" and R_trans: "transp R"
    and R_tick: "R s (s\<lparr>tick := n\<rparr>)"
    and R_degraded: "R s (s\<lparr>observedDegradations := d\<rparr>)"
    and R_emit: "R s (s\<lparr>outcomeMetricEvents := appendOutcomeMetricEvent (outcomeMetricEvents s) e,
                        trace := trace s @ [e]\<rparr>)"
    and R_rows: "(rows_ok (storeRows s) \<Longrightarrow> rows_ok rows) \<Longrightarrow> R s (s\<lparr>storeRows := rows\<rparr>)"
begin

lemmas base_intros = jinv_intros R_refl R_trans

lemma inv_ask: "jinv R (ask f)"
  by (rule jinvI) (auto simp: ask_def R_tick)

lemma inv_now: "jinv R (now env)"
  by (simp add: now_def inv_ask)

lemma inv_ask_rpc: "jinv R (ask_rpc f)"
  unfolding ask_rpc_def by (intro base_intros inv_ask)

lemma inv_emit: "jinv R (emit e)"
  unfolding emit_def by (rule jinv_jmod) (rule R_emit)

lemma inv_degraded: "jinv R (emitCoordinationDegradedOnce reason input)"
  unfolding emitCoordinationDegradedOnce_def by (intro base_intros inv_emit R_degraded)

lemma inv_degradedStoreMissing: "jinv R (degradedStoreMissing env input)"
  unfolding degradedStoreMissing_def by (intro base_intros inv_degraded)

lemma inv_store_query: "jinv R (store_query env f)"
  unfolding store_query_def by (intro base_intros inv_ask)

lemma inv_store_tx:
  assumes "\<And>rows rows'. f rows = Inr rows' \<Longrightarrow> rows_ok rows \<Longrightarrow> rows_ok rows'"
  shows "jinv R (store_tx env f)"
proof -
  have "jinv R (jbind (jget storeRows) (\<lambda>rows. jbind (jlift (f rows)) (\<lambda>rows'. jmod (\<lambda>s. s\<lparr>storeRows := rows'\<rparr>))))"
  proof (rule jinvI)
    fix s t :: coord and r
    assume run: "jbind (jget storeRows) (\<lambda>rows. jbind (jlift (f rows)) (\<lambda>rows'. jmod (\<lambda>s. s\<lparr>storeRows := rows'\<rparr>))) s = (r, t)"
    show "R s t"
    proof (cases "f (storeRows s)")
      case (Inl e)
      with run show ?thesis by (auto simp: jm_eval intro: reflpD [OF R_refl])
    next
      case (Inr rows')
      with run have "t = s\<lparr>storeRows := rows'\<rparr>" by (auto simp: jm_eval)
      with assms [OF Inr] show ?thesis by (auto intro: R_rows)
    qed
  qed
  then show ?thesis
    unfolding store_tx_def by (intro jinv_jbind [OF R_trans inv_ask]) (simp add: jinv_jthrow R_refl)
qed

lemma inv_lookupLease: "jinv R (lookupLease lid)"
  unfolding lookupLease_def by (intro base_intros)

lemma inv_readLease: "jinv R (readLease input)"
  unfolding readLease_def by (intro base_intros inv_lookupLease)

lemma inv_preflight: "jinv R (preflightLeaseTransition l tr)"
  unfolding preflightLeaseTransition_def by (intro base_intros)

lemmas outside_intros = base_intros inv_ask inv_now inv_ask_rpc inv_emit inv_degraded inv_degradedStoreMissing
  inv_store_query inv_lookupLease inv_readLease inv_preflight

lemma inv_readRecords: "jinv R (readCoordinationLaneRecords env k lane)"
proof -
  have "jinv R (store_tx env (\<lambda>rows. Inr (pruneExpiredNonceLaneLeaseRecords t rows)))" for t
    by (rule inv_store_tx) (use set_sweep(1) [of _ "SweepExpired t"] in \<open>auto simp: store_sweep_def\<close>)
  then show ?thesis
    unfolding readCoordinationLaneRecords_def by (intro outside_intros)
qed

lemma inv_addActiveRecords: "jinv R (addActiveRecords env fam c x ps a)"
  by (induction ps arbitrary: a) (auto intro!: outside_intros)

lemma inv_readActiveEvm: "jinv R (readActiveEvmLeaseNonces env k c x lane)"
  unfolding readActiveEvmLeaseNonces_def by (intro outside_intros inv_readRecords inv_addActiveRecords)

lemma inv_readActiveNear: "jinv R (readActiveNearLeaseNonces env k c x lane)"
  unfolding readActiveNearLeaseNonces_def by (intro outside_intros inv_readRecords inv_addActiveRecords)

lemma rows_ok_upsert: "store_upsert r rows = Inr rows' \<Longrightarrow> rows_ok rows \<Longrightarrow> rows_ok rows'"
  unfolding store_upsert_def upsertNonceLaneLeaseRecord_def nonceLeaseRow_def Let_def
  by (auto split: if_splits intro!: rows_ok_put simp: row_field_def jfield.simps)

lemma inv_persist: "jinv R (persistCoordinationLease env l lc x)"
proof -
  have "jinv R (store_tx env (store_upsert r))" for r
    by (rule inv_store_tx) (rule rows_ok_upsert)
  then show ?thesis
    unfolding persistCoordinationLease_def persistCoordinationRecord_def by (intro outside_intros)
qed

lemma inv_store_remove: "jinv R (store_tx env (\<lambda>rows. Inr (store_remove k i rows)))"
  by (rule inv_store_tx) (auto intro: rows_ok_remove)

lemma inv_removeCoordinationLease: "jinv R (removeCoordinationLease env l)"
  unfolding removeCoordinationLease_def by (intro outside_intros inv_store_remove)

lemmas store_intros = inv_readRecords inv_readActiveEvm inv_readActiveNear inv_persist
  inv_removeCoordinationLease inv_store_remove

lemma inv_shouldRefresh: "jinv R (shouldRefreshEvmLaneLocked env k st lane)"
  unfolding shouldRefreshEvmLaneLocked_def by (intro outside_intros store_intros)

lemma inv_withLaneLock: "jinv R m \<Longrightarrow> jinv R (withLaneLock env lane m)"
  unfolding withLaneLock_def by (intro outside_intros)

end

text \<open>Operations that do not change the leases.\<close>

locale coord_base = coord_outside +
  assumes R_alerts: "R s (s\<lparr>droppedReplacedAlerts := a\<rparr>)"
    and R_index: "R s (s\<lparr>evmAccountLaneKeys := ks\<rparr>)"
    and R_evm_create: "R s (s\<lparr>evmStates := snd (getOrCreateEvmNonceLaneState (evmStates s) k)\<rparr>)"
    and R_evm_update: "(\<And>st. evm_state_ok st \<Longrightarrow> evm_state_ok (f st)) \<Longrightarrow>
          R s (s\<lparr>evmStates := AList.map_entry k f (evmStates s)\<rparr>)"
    and R_near: "(near_state_ok (nearState s) \<Longrightarrow> near_state_ok ns) \<Longrightarrow> R s (s\<lparr>nearState := ns\<rparr>)"
begin

lemma inv_liftNear: "jinv (keeps near_state_ok) m \<Longrightarrow> jinv R (liftNear m)"
  by (rule jinvI) (auto simp: liftNear_def split: prod.splits intro!: R_near dest: jinv_keepsD)

lemma inv_near_mod: "(\<And>n. near_state_ok n \<Longrightarrow> near_state_ok (f n)) \<Longrightarrow> jinv R (jmod (\<lambda>s. s\<lparr>nearState := f (nearState s)\<rparr>))"
  by (rule jinv_jmod) (rule R_near)

lemma inv_getOrCreateEvmState: "jinv R (getOrCreateEvmState k)"
proof (rule jinvI)
  fix s r t
  assume "getOrCreateEvmState k s = (r, t)"
  then have "t = s\<lparr>evmStates := snd (getOrCreateEvmNonceLaneState (evmStates s) k)\<rparr>"
    by (auto simp: getOrCreateEvmState_def split: prod.splits)
  then show "R s t" by (simp add: R_evm_create)
qed

lemma inv_updateEvmState: "(\<And>st. evm_state_ok st \<Longrightarrow> evm_state_ok (f st)) \<Longrightarrow> jinv R (updateEvmState k f)"
  unfolding updateEvmState_def by (rule jinv_jmod) (rule R_evm_update)

lemma inv_index: "jinv R (indexEvmLaneByAccount lane k)"
  unfolding indexEvmLaneByAccount_def by (rule jinv_jmod) (rule R_index)

lemmas prim_intros = outside_intros inv_getOrCreateEvmState inv_index

lemma inv_refreshEvm: "jinv R (refreshEvmLaneFromChainLocked env lane)"
  unfolding refreshEvmLaneFromChainLocked_def Let_def
  by (intro prim_intros store_intros inv_updateEvmState evm_state_ok_refresh)

lemma inv_releaseEvm: "jinv R (releaseEvmNonceReservation env l lane n)"
  unfolding releaseEvmNonceReservation_def Let_def
  by (intro prim_intros store_intros inv_updateEvmState evm_state_ok_release)

lemma inv_markEvmAccepted: "jinv R (markEvmBroadcastAccepted env l lane n h)"
  unfolding markEvmBroadcastAccepted_def Let_def
  by (intro prim_intros store_intros inv_updateEvmState)
     (auto split: sum.splits prod.splits dest: evm_state_ok_accept)

lemma inv_markEvmFinalized: "jinv R (markEvmFinalized env l lane n)"
  unfolding markEvmFinalized_def Let_def
  by (intro prim_intros store_intros inv_updateEvmState evm_state_ok_finalize)

lemma inv_markEvmOutcome: "jinv R (markEvmDroppedOrReplaced env l lane n reason h)"
  unfolding markEvmDroppedOrReplaced_def Let_def
  by (intro prim_intros store_intros inv_updateEvmState evm_state_ok_outcome)

lemma inv_reconcileEvm: "jinv R (reconcileEvmLaneLocked env lane)"
  unfolding reconcileEvmLaneLocked_def Let_def by (intro prim_intros inv_refreshEvm)

lemma inv_alert: "jinv R (recordDroppedReplacedAlert env lane reason)"
  unfolding recordDroppedReplacedAlert_def by (intro prim_intros R_alerts)

lemma inv_requireNearClient: "jinv R (requireNearClient env c)"
  unfolding requireNearClient_def by (intro prim_intros)

lemma inv_initializeNear: "jinv R (initializeNearAccessKey w a k)"
  unfolding initializeNearAccessKey_def by (intro inv_liftNear near_state_ok_initialize)

lemma inv_reserveNearNonces: "jinv R (reserveNearNonces env lane n)"
proof -
  have "jinv (keeps near_state_ok) (reserveNearNoncesFromState ctx n active)" for ctx active
  proof (rule jinvI)
    fix s r t
    assume run: "reserveNearNoncesFromState ctx n active s = (r, t)"
    show "keeps near_state_ok s t"
    proof (cases r)
      case (Inl e)
      with run have "t = s"
        by (auto simp: reserveNearNoncesFromState_def jm_eval Let_def split: if_splits sum.splits)
      then show ?thesis by (simp add: keeps_def)
    next
      case (Inr ns)
      with run near_state_ok_reserve show ?thesis by (auto simp: keeps_def)
    qed
  qed
  then show ?thesis
    unfolding reserveNearNonces_def by (intro prim_intros store_intros inv_liftNear)
qed

lemma inv_releaseNearNonce: "jinv R (releaseNearNonce n)"
  unfolding releaseNearNonce_def by (rule inv_near_mod) (rule near_state_ok_release)

lemma inv_viewActive: "jinv R (viewActiveAccessKey c)"
  unfolding viewActiveAccessKey_def by (intro prim_intros)

lemma inv_fetchFresh: "jinv R (fetchNearFreshData env c b)"
  unfolding fetchNearFreshData_def
  by (intro prim_intros inv_viewActive inv_liftNear near_state_ok_fetch)

lemma inv_fetchForLane: "jinv R (fetchNearContextForLane env lane c b)"
  unfolding fetchNearContextForLane_def
  by (intro prim_intros inv_initializeNear inv_requireNearClient inv_fetchFresh)

lemma inv_updateNear: "jinv R (updateNearNonceFromBlockchain env c n)"
  unfolding updateNearNonceFromBlockchain_def
  by (intro prim_intros inv_viewActive inv_liftNear near_state_ok_updateNonce)

lemma inv_refreshNear: "jinv R (refreshNearNonceAfterBroadcastRejected env c)"
  unfolding refreshNearNonceAfterBroadcastRejected_def
  by (intro prim_intros inv_viewActive inv_liftNear near_state_ok_afterRejected)

lemma inv_releaseBackend: "jinv R (releaseBackendReservation env l)"
  unfolding releaseBackendReservation_def
  by (intro prim_intros store_intros inv_releaseEvm inv_releaseNearNonce)

lemma inv_signedExpiry: "jinv R (reconcileAfterSignedLeaseExpiry env l)"
  unfolding reconcileAfterSignedLeaseExpiry_def
  by (intro prim_intros inv_releaseBackend inv_reconcileEvm)

lemma inv_removeRecord: "jinv R (removeRecord env k i)"
  unfolding removeRecord_def by (rule inv_store_remove)

lemma inv_tryReconcile: "jinv R (tryReconcileEvm env lane)"
  unfolding tryReconcileEvm_def by (intro prim_intros inv_reconcileEvm)

lemma inv_finishRecovery: "jinv R (finishEvmRecovery env r lane n b st)"
  unfolding finishEvmRecovery_def deleteInFlight_def Let_def
  by (intro prim_intros inv_tryReconcile inv_removeRecord inv_updateEvmState evm_state_ok_delete_flight)

lemma inv_recoverEvm: "n = rec_nonce r \<Longrightarrow> jinv R (recoverEvmRecord env r lane n b)"
  unfolding recoverEvmRecord_def setInFlight_def deleteInFlight_def
  by (intro prim_intros inv_tryReconcile inv_removeRecord inv_updateEvmState inv_finishRecovery)
     (auto intro: evm_state_ok_delete_flight evm_state_ok_set_flight)

lemma inv_recoverNear: "jinv R (recoverNearRecord env c p a k obs)"
  unfolding recoverNearRecord_def readNearRecoveryNonce_def Let_def
  by (intro prim_intros inv_removeRecord)

lemma inv_recoverParsed: "parsed_nonce p = rec_nonce (parsed_record p) \<Longrightarrow> jinv R (recoverParsedRecord env p obs)"
  unfolding recoverParsedRecord_def Let_def case_prod_conv
  by (intro prim_intros inv_removeRecord inv_tryReconcile inv_recoverEvm inv_recoverNear)

lemma inv_recoverLoop:
  "\<forall>p. ReadOk p \<in> set rs \<longrightarrow> parsed_nonce p = rec_nonce (parsed_record p) \<Longrightarrow> jinv R (recoverLoop env rs obs)"
proof (induction env rs obs rule: recoverLoop.induct)
  case (3 env p rest obs)
  then show ?case by (auto intro!: prim_intros inv_withLaneLock inv_recoverParsed)
qed (auto intro!: prim_intros inv_removeRecord)

lemma recovery_results_consistent:
  assumes "store_query env (\<lambda>rows. store_readAllForRecovery rows w) s = (Inr rs, t)" and "ReadOk p \<in> set rs"
  shows "parsed_nonce p = rec_nonce (parsed_record p)"
proof -
  let ?f = "\<lambda>fs. parseNonceLaneCoordinationRecord (JObj fs)"
  from assms(1) obtain raws where "traverse ?f raws = Inr rs"
    by (auto simp: store_query_def ask_def jm_eval store_readAllForRecovery_def split: if_splits)
  then have "map ?f raws = map Inr rs" by (rule traverse_map)
  moreover from assms(2) have "Inr (ReadOk p) \<in> set (map Inr rs :: (nonce_error + _) list)" by simp
  ultimately have "Inr (ReadOk p) \<in> ?f ` set raws" by (metis list.set_map)
  then obtain fs where "?f fs = Inr (ReadOk p)" by (auto simp: image_iff eq_commute)
  then show ?thesis by (rule boundary_consistent)
qed

lemma inv_refreshIfNeeded: "jinv R (refreshIfNeeded env lane)"
  unfolding refreshIfNeeded_def Let_def by (intro prim_intros inv_shouldRefresh inv_refreshEvm)

lemma inv_notBlocked: "jinv R (assertLaneNotBlocked env lane)"
  unfolding assertLaneNotBlocked_def by (intro prim_intros)

lemma inv_recoverDurable: "jinv R (recoverDurableLeases env w)"
proof -
  let ?q = "jcatch (jbind (store_query env (\<lambda>rows. store_readAllForRecovery rows w)) (\<lambda>rs. jret (Some rs)))
      (\<lambda>_. jseq (emitCoordinationDegradedOnce DurableStoreError no_degradation_input) (jret None))"
  have "jinv R (jbind ?q (\<lambda>results. case results of None \<Rightarrow> jret () | Some rs \<Rightarrow> recoverLoop env rs []))"
  proof (rule jinv_jbind_post [where P = "\<lambda>x. \<forall>rs p. x = Some rs \<longrightarrow> ReadOk p \<in> set rs \<longrightarrow>
      parsed_nonce p = rec_nonce (parsed_record p)"])
    show "transp R" by (rule R_trans)
    show "jinv R ?q" by (intro prim_intros)
    show "jinv R (case x of None \<Rightarrow> jret () | Some rs \<Rightarrow> recoverLoop env rs [])"
      if "\<forall>rs p. x = Some rs \<longrightarrow> ReadOk p \<in> set rs \<longrightarrow> parsed_nonce p = rec_nonce (parsed_record p)" for x
      using that by (auto split: option.split intro!: inv_recoverLoop prim_intros)
  next
    fix s x t
    assume "?q s = (Inr x, t)"
    then show "\<forall>rs p. x = Some rs \<longrightarrow> ReadOk p \<in> set rs \<longrightarrow> parsed_nonce p = rec_nonce (parsed_record p)"
      by (auto simp: jm_eval split: sum.splits prod.splits dest: recovery_results_consistent)
  qed
  then show ?thesis unfolding recoverDurableLeases_def by (intro jinv_store_config inv_degradedStoreMissing)
qed

lemma inv_commitNear: "jinv R (commitNearContext env lane ctx)"
  unfolding commitNearContext_def by (intro prim_intros inv_liftNear near_state_ok_commit)

lemma inv_fetchNearContext: "jinv R (fetchNearContext env lane c b)"
  unfolding fetchNearContext_def by (intro inv_withLaneLock inv_fetchForLane)

lemma inv_prefetch: "jinv R (prefetchNearContext env sub c)"
  unfolding prefetchNearContext_def clearNearPrefetchTimer_def
  by (intro prim_intros inv_initializeNear inv_requireNearClient R_near near_state_ok_timer)

lemma inv_prefetchTimer: "jinv R (prefetchTimerFires env c)"
  unfolding prefetchTimerFires_def
  by (intro prim_intros inv_fetchFresh R_near near_state_ok_timer)

lemma inv_withLockedLease: "(\<And>l. jinv R (body l)) \<Longrightarrow> jinv R (withLockedLease env lid i f body)"
  unfolding withLockedLease_def by (intro prim_intros inv_withLaneLock)

lemma inv_clearStore: "(\<And>rows. rows_ok rows \<Longrightarrow> rows_ok (f rows)) \<Longrightarrow> jinv R (clearStore env f)"
  unfolding clearStore_def by (intro prim_intros inv_store_tx) auto

lemma inv_getDiagnostics: "jinv R (getDiagnostics env a b)"
  unfolding getDiagnostics_def by (intro prim_intros)

end

text \<open>Operations that move leases along their state machine or forget them.\<close>

locale coord_relation = coord_base +
  assumes R_transition: "map_of (leases s) k = Some l \<Longrightarrow> lease_step (lease_state l) tr = Some st \<Longrightarrow>
          R s (s\<lparr>leases := AList.map_entry k (\<lambda>_. l\<lparr>lease_state := st, expiresAtMs := x\<rparr>) (leases s)\<rparr>)"
    and R_lease_filter: "R s (s\<lparr>leases := filter P (leases s)\<rparr>)"
    and R_evm_filter: "R s (s\<lparr>evmStates := filter Q (evmStates s)\<rparr>)"
begin

lemma inv_transitionLease: "jinv R (transitionLease lid tr ev reason h x)"
proof (rule jinvI)
  fix s r t
  assume run: "transitionLease lid tr ev reason h x s = (r, t)"
  show "R s t"
  proof (cases "map_of (leases s) lid")
    case None
    with run have "t = s" by (auto simp: transitionLease_def lookupLease_def jm_eval)
    then show ?thesis by (simp add: reflpD [OF R_refl])
  next
    case (Some l)
    show ?thesis
    proof (cases "reduceNonceLeaseState (lease_state l) tr")
      case (Inl e)
      with run Some have "t = s" by (auto simp: transitionLease_def lookupLease_def jm_eval)
      then show ?thesis by (simp add: reflpD [OF R_refl])
    next
      case (Inr st)
      define u where "u = s\<lparr>leases := AList.map_entry lid (\<lambda>_. l\<lparr>lease_state := st,
        expiresAtMs := (case Option.bind x safe_int of Some e \<Rightarrow> e | None \<Rightarrow> expiresAtMs l)\<rparr>) (leases s)\<rparr>"
      have "R s u" unfolding u_def
        by (rule R_transition [OF Some]) (use Inr in \<open>simp add: reduceNonceLeaseState_Inr_iff\<close>)
      moreover have "\<exists>e. emit e u = (r, t)"
        using run Some Inr by (auto simp: transitionLease_def lookupLease_def jm_eval Let_def u_def)
      then have "R u t" using inv_emit jinvD by metis
      ultimately show ?thesis by (rule transpD [OF R_trans])
    qed
  qed
qed

lemmas rel_intros = prim_intros inv_transitionLease

lemma inv_settleNear: "jinv R (settleNearLease env lane c n l)"
  unfolding settleNearLease_def Let_def
  by (intro rel_intros store_intros R_near near_state_ok_release near_state_ok_flights)

lemma inv_reconcileNear: "jinv R (reconcileNearLaneLocked env lane)"
  unfolding reconcileNearLaneLocked_def Let_def
  by (intro rel_intros inv_requireNearClient inv_initializeNear inv_settleNear inv_liftNear
      near_state_ok_finishReconcile)

lemma inv_expireLease: "jinv R (expireLeaseLocked env t lid)"
  unfolding expireLeaseLocked_def by (intro rel_intros inv_signedExpiry inv_releaseBackend)

lemma inv_expireLane: "jinv R (expireDueLeasesForLockedLane env lane)"
  unfolding expireDueLeasesForLockedLane_def by (intro rel_intros inv_expireLease)

lemma inv_expireWallet: "jinv R (expireDueLeasesForWallet env w)"
  unfolding expireDueLeasesForWallet_def by (intro rel_intros inv_withLaneLock inv_expireLane)

lemma inv_clear_near: "R s (s\<lparr>nearState := clearNearAccessKeyState n, leases := filter P (leases s)\<rparr>)"
proof -
  have "R s (s\<lparr>nearState := clearNearAccessKeyState n\<rparr>)" by (rule R_near) simp
  from transpD [OF R_trans this R_lease_filter [of _ P]] show ?thesis by simp
qed

lemma inv_clearNear: "jinv R clearNearAccessKey"
  unfolding clearNearAccessKey_def by (rule jinv_jmod) (rule inv_clear_near)

lemma inv_markSigned: "jinv R (markSigned env lid i f h)"
  unfolding markSigned_def Let_def by (intro inv_withLockedLease rel_intros store_intros)

lemma inv_markBroadcastAccepted: "jinv R (markBroadcastAccepted env lid i f h)"
  unfolding markBroadcastAccepted_def
  by (intro inv_withLockedLease rel_intros store_intros inv_markEvmAccepted inv_liftNear near_state_ok_accepted)

lemma inv_markBroadcastRejected: "jinv R (markBroadcastRejected env lid i f e)"
  unfolding markBroadcastRejected_def
  by (intro inv_withLockedLease rel_intros inv_releaseBackend inv_refreshNear)

lemma inv_markFinalized: "jinv R (markFinalized env lid i f h)"
  unfolding markFinalized_def
  by (intro inv_withLockedLease rel_intros store_intros inv_markEvmFinalized inv_updateNear inv_releaseBackend)

lemma inv_markDroppedOrReplaced: "jinv R (markDroppedOrReplaced env lid i f reason h)"
  unfolding markDroppedOrReplaced_def Let_def
  by (intro rel_intros inv_withLaneLock inv_markEvmOutcome inv_alert)

lemma inv_release: "jinv R (release env lid i f reason)"
  unfolding release_def by (intro inv_withLockedLease rel_intros inv_releaseBackend)

lemma inv_reconcile: "jinv R (reconcile env lane)"
  unfolding reconcile_def by (intro inv_withLaneLock rel_intros inv_reconcileEvm inv_reconcileNear)

lemma inv_clear_wallet_state: "R s (clear_wallet_state w s)"
proof -
  define s1 where "s1 = (case map_of (evmAccountLaneKeys s) w of None \<Rightarrow> s
     | Some keys \<Rightarrow> s\<lparr>evmStates := filter (\<lambda>(k, _). k \<notin> set keys) (evmStates s),
                      evmAccountLaneKeys := AList.delete w (evmAccountLaneKeys s)\<rparr>)"
  define s2 where "s2 = (if map_option subj_walletId (readNearAccessKeySubject (nearState s1)) = Some w
     then s1\<lparr>nearState := clearNearAccessKeyState (nearState s1)\<rparr> else s1)"
  have "R s s1"
  proof (cases "map_of (evmAccountLaneKeys s) w")
    case (Some keys)
    from transpD [OF R_trans R_evm_filter [of s] R_index] Some show ?thesis by (simp add: s1_def)
  qed (simp add: s1_def reflpD [OF R_refl])
  moreover have "R s1 s2" by (simp add: s2_def reflpD [OF R_refl] R_near)
  moreover have "R s2 (s2\<lparr>leases := filter (\<lambda>(k, l). nonceLaneSubjectId (lease_lane l) \<noteq> w) (leases s2)\<rparr>)"
    by (rule R_lease_filter)
  ultimately show ?thesis
    using transpD [OF R_trans] unfolding clear_wallet_state_def s1_def [symmetric] Let_def s2_def [symmetric] by blast
qed

lemma inv_clearForWallet: "jinv R (clearForWallet env w)"
proof -
  have "rows_ok rows \<Longrightarrow> rows_ok (clearNonceLaneLeaseRecordsForWallet v rows)" for v rows
    using set_sweep(1) [of rows "SweepWallet v"] by (simp add: store_sweep_def)
  then show ?thesis
    unfolding clearForWallet_def Let_def
    by (intro rel_intros inv_clearStore inv_clear_wallet_state)
qed

lemma inv_clearAll: "jinv R (clearAll env)"
proof -
  have r1: "R s (s\<lparr>evmStates := [], evmAccountLaneKeys := [], droppedReplacedAlerts := []\<rparr>)" for s
    using transpD [OF R_trans transpD [OF R_trans R_evm_filter [of s "\<lambda>_. False"] R_index] R_alerts]
    by simp
  have r2: "R s (s\<lparr>nearState := clearNearAccessKeyState (nearState s), leases := []\<rparr>)" for s
    using inv_clear_near [where s = s and n = "nearState s" and P = "\<lambda>_. False"] by simp
  show ?thesis
    unfolding clearAll_def clearAllNonceLaneLeaseRecords_def
    by (intro rel_intros inv_clearStore r1 r2) (simp add: rows_ok_def)
qed

lemma inv_exec_not_reserving: "\<not> reserving op \<Longrightarrow> R s (coord_exec env op s)"
  by (cases op)
     (simp_all add: expireLeases_def inv_initializeNear [unfolded jinv_def]
       inv_fetchNearContext [unfolded jinv_def] inv_prefetch [unfolded jinv_def] inv_prefetchTimer [unfolded jinv_def]
       inv_clearNear [unfolded jinv_def] inv_markSigned [unfolded jinv_def] inv_markBroadcastAccepted [unfolded jinv_def]
       inv_markBroadcastRejected [unfolded jinv_def] inv_markFinalized [unfolded jinv_def]
       inv_markDroppedOrReplaced [unfolded jinv_def] inv_release [unfolded jinv_def] inv_expireWallet [unfolded jinv_def]
       inv_reconcile [unfolded jinv_def] inv_recoverDurable [unfolded jinv_def] inv_clearForWallet [unfolded jinv_def]
       inv_clearAll [unfolded jinv_def] inv_getDiagnostics [unfolded jinv_def])

end

text \<open>Operations that add leases to EVM lanes.\<close>

locale coord_relation_evm = coord_relation +
  assumes R_set_evm: "slot l = EvmSlot lane n \<Longrightarrow> R s (s\<lparr>leases := AList.update (leaseId l) l (leases s)\<rparr>)"
begin

lemma inv_storeReserved_evm: "slot l = EvmSlot lane n \<Longrightarrow> jinv R (storeReservedLease env l)"
  unfolding storeReservedLease_def set_lease_def by (intro rel_intros inv_persist R_set_evm)

lemma inv_takeEvmCandidate: "jinv R (takeEvmCandidate env lane operation)"
  unfolding takeEvmCandidate_def Let_def
  by (intro rel_intros inv_readActiveEvm inv_updateEvmState evm_state_ok_next inv_storeReserved_evm) simp_all

lemma inv_reserveEvm: "jinv R (reserveEvmNonceLeaseUnlocked env lane operation)"
  unfolding reserveEvmNonceLeaseUnlocked_def
  by (intro rel_intros inv_expireLane inv_refreshIfNeeded inv_notBlocked inv_takeEvmCandidate)

lemma inv_exec_evm: "R s (coord_exec env (OpReserve (EvmLane lane) operation) s)"
  using inv_withLaneLock [OF inv_reserveEvm, of env "EvmLane lane" env lane operation]
  by (simp add: reserve_def jinv_def)

end

text \<open>Operations that add leases to NEAR lanes.\<close>

fun reserves_evm :: "coord_op \<Rightarrow> bool" where
  "reserves_evm (OpReserve (EvmLane _) _) = True"
| "reserves_evm _ = False"

lemma near_leases_slots:
  "near_leases env lane operation t b i ns s = (Inr ls, u) \<Longrightarrow>
   map slot ls = map (NearSlot lane) ns \<and> (\<forall>l \<in> set ls. lease_state l = Reserved)"
  by (induction ns arbitrary: i s ls)
     (auto simp: jm_eval ask_def near_lease_def split: prod.splits sum.splits)

locale coord_relation_near = coord_relation +
  assumes R_set_near: "slot l = NearSlot lane n \<Longrightarrow> R s (s\<lparr>leases := AList.update (leaseId l) l (leases s)\<rparr>)"
begin

lemma inv_storeReserved_near: "slot l = NearSlot lane n \<Longrightarrow> jinv R (storeReservedLease env l)"
  unfolding storeReservedLease_def set_lease_def by (intro rel_intros inv_persist R_set_near)

lemma inv_near_leases: "jinv R (near_leases env lane operation t b i ns)"
  by (induction ns arbitrary: i) (auto intro!: rel_intros)

lemma inv_storeBatch: "map slot ls = map (NearSlot lane) ns \<Longrightarrow> jinv R (jfor ls (storeReservedLease env))"
proof (induction ls arbitrary: ns)
  case (Cons l ls)
  then obtain n ns' where "ns = n # ns'" by (cases ns) auto
  with Cons have "jinv R (storeReservedLease env l)" "jinv R (jfor ls (storeReservedLease env))"
    by (auto intro: inv_storeReserved_near)
  then show ?case by (simp add: jinv_jseq R_trans)
qed (simp add: jinv_jret R_refl)

lemma inv_takeNearBatch:
  "jinv R (jbind (near_leases env lane operation t b i ns) (\<lambda>ls. jseq (jfor ls (storeReservedLease env)) (jret ls)))"
  by (rule jinv_jbind_post [where P = "\<lambda>ls. map slot ls = map (NearSlot lane) ns"])
     (auto intro!: rel_intros inv_near_leases inv_storeBatch dest: near_leases_slots)

lemma inv_reserveNearBatch: "jinv R (reserveNearNonceBatchUnlocked env lane operation n)"
  unfolding reserveNearNonceBatchUnlocked_def Let_def
  by (intro rel_intros inv_expireLane inv_reserveNearNonces inv_takeNearBatch)

lemma inv_reserveBatch: "jinv R (reserveBatch env lane operation n)"
  unfolding reserveBatch_def by (intro inv_withLaneLock inv_reserveNearBatch)

lemma inv_reserveNearContext: "jinv R (reserveNearContext env lane operation n fetch c force)"
  unfolding reserveNearContext_def
  by (intro inv_withLaneLock rel_intros inv_initializeNear inv_fetchForLane inv_commitNear inv_reserveNearBatch)

lemma inv_reserveNearReplacement: "jinv R (reserveNearReplacementContext env lane operation n c)"
  unfolding reserveNearReplacementContext_def Let_def
  by (intro inv_withLaneLock rel_intros inv_initializeNear inv_fetchForLane inv_commitNear inv_storeReserved_near)
     (simp add: near_lease_def)

lemma inv_reserve_near: "jinv R (reserve env (NearLane lane) operation)"
  unfolding reserve_def by (simp add: inv_withLaneLock rel_intros inv_reserveNearBatch)

lemma inv_exec_near: "\<not> reserves_evm op \<Longrightarrow> R s (coord_exec env op s)"
proof (cases "reserving op")
  case True
  moreover assume "\<not> reserves_evm op"
  ultimately show ?thesis
    using inv_reserve_near [unfolded jinv_def] inv_reserveBatch [unfolded jinv_def]
         inv_reserveNearContext [unfolded jinv_def] inv_reserveNearReplacement [unfolded jinv_def]
    by (cases op rule: reserves_evm.cases) auto
qed (rule inv_exec_not_reserving)

end

text \<open>Relations that every operation keeps.\<close>

locale coord_relation_reserve = coord_relation_evm + coord_relation_near
begin

lemma inv_exec: "R s (coord_exec env op s)"
proof (cases "reserves_evm op")
  case True
  then obtain lane operation where "op = OpReserve (EvmLane lane) operation"
    by (cases op rule: reserves_evm.cases) auto
  then show ?thesis by (simp only: inv_exec_evm)
qed (rule inv_exec_near)

end

end
