(* ===== verification/CoordinatorInvariants.thy ===== *)
theory CoordinatorInvariants
  imports CoordinatorRelations
begin

text \<open>
  The invariants of the nonce coordinator, over every sequence of its operations: its maps are well
  formed, the lease store is keyed by lease id, the metrics replay the trace, a lease that
  lost its nonce never gets it back, and no two active leases of an EVM lane hold the same nonce.
\<close>

section \<open>Stepping through code\<close>

named_theorems jstep \<open>first step of a computation, when it cannot throw\<close>

lemma jstep_simps [jstep]:
  "jseq (jmod f) m s = m (f s)"
  "jbind (jget g) h s = h (g s) s"
  "jbind (jret x) h s = h x s"
  "jseq (jret x) m s = m s"
  "jbind (ask a) ka c = ka (a (tick c)) (c\<lparr>tick := Suc (tick c)\<rparr>)"
  "jbind (now env) k c = k (env_clock env (tick c)) (c\<lparr>tick := Suc (tick c)\<rparr>)"
  "jseq (updateEvmState key upd) m c = m (c\<lparr>evmStates := AList.map_entry key upd (evmStates c)\<rparr>)"
  "jbind (getOrCreateEvmState key) h' c =
     h' (fst (getOrCreateEvmNonceLaneState (evmStates c) key))
       (c\<lparr>evmStates := snd (getOrCreateEvmNonceLaneState (evmStates c) key)\<rparr>)"
  "jseq (set_lease l) m c = m (c\<lparr>leases := AList.update (leaseId l) l (leases c)\<rparr>)"
  by (simp_all add: jm_eval ask_def now_def updateEvmState_def getOrCreateEvmState_def set_lease_def split: prod.split)

section \<open>Well-formedness\<close>

definition leases_ok :: "coord \<Rightarrow> bool" where
  "leases_ok s \<longleftrightarrow> jsmap_wf (leases s) \<and> (\<forall>(k, l) \<in> set (leases s). leaseId l = k)"

definition parts_ok :: "coord \<Rightarrow> bool" where
  "parts_ok s \<longleftrightarrow>
     leases_ok s \<and> jsmap_wf (evmStates s) \<and> (\<forall>(k, st) \<in> set (evmStates s). evm_state_ok st) \<and>
     near_state_ok (nearState s) \<and> rows_ok (storeRows s)"

lemma set_map_entry:
  "jsmap_wf m \<Longrightarrow> set (AList.map_entry k f m) = {(j, v). j \<noteq> k \<and> (j, v) \<in> set m} \<union> {(j, f v) |j v. j = k \<and> (j, v) \<in> set m}"
  by (induction m) (auto simp: rev_image_eqI)

lemma set_map_entryD: "(j, v) \<in> set (AList.map_entry k f m) \<Longrightarrow> (j, v) \<in> set m \<or> (\<exists>w. (j, w) \<in> set m \<and> v = f w)"
  by (induction m) (auto split: if_splits)

lemma parts_ok_transition:
  assumes "parts_ok s" and "map_of (leases s) k = Some l"
  shows "parts_ok (s\<lparr>leases := AList.map_entry k (\<lambda>_. l\<lparr>lease_state := st, expiresAtMs := x\<rparr>) (leases s)\<rparr>)"
proof -
  have "leaseId l = k" using assms by (auto simp: parts_ok_def leases_ok_def dest!: map_of_SomeD)
  with assms show ?thesis
    by (auto simp: parts_ok_def leases_ok_def distinct_map_entry set_map_entry)
qed

lemma parts_ok_create:
  "parts_ok s \<Longrightarrow> parts_ok (s\<lparr>evmStates := snd (getOrCreateEvmNonceLaneState (evmStates s) k)\<rparr>)"
  by (auto simp: parts_ok_def leases_ok_def getOrCreateEvmNonceLaneState_def set_update_alist split: option.split)

lemma parts_ok_evm:
  assumes "\<And>st. evm_state_ok st \<Longrightarrow> evm_state_ok (f st)" and "parts_ok s"
  shows "parts_ok (s\<lparr>evmStates := AList.map_entry k f (evmStates s)\<rparr>)"
  using assms by (auto simp: parts_ok_def leases_ok_def distinct_map_entry dest!: set_map_entryD)

lemma parts_ok_set: "parts_ok s \<Longrightarrow> parts_ok (s\<lparr>leases := AList.update (leaseId l) l (leases s)\<rparr>)"
  by (auto simp: parts_ok_def leases_ok_def set_update_alist)

interpretation parts: coord_relation_reserve "keeps parts_ok"
proof unfold_locales
  fix s :: coord and k l st x
  assume "map_of (leases s) k = Some l"
  then show "keeps parts_ok s (s\<lparr>leases := AList.map_entry k (\<lambda>_. l\<lparr>lease_state := st, expiresAtMs := x\<rparr>) (leases s)\<rparr>)"
    by (simp add: keeps_def parts_ok_transition)
next
  fix f and s :: coord and k
  assume "\<And>st. evm_state_ok st \<Longrightarrow> evm_state_ok (f st)"
  then show "keeps parts_ok s (s\<lparr>evmStates := AList.map_entry k f (evmStates s)\<rparr>)"
    by (simp add: keeps_def parts_ok_evm)
qed (auto simp: keeps_def parts_ok_create parts_ok_set, auto simp: parts_ok_def leases_ok_def)

section \<open>Frames\<close>

interpretation same_leases: coord_base "\<lambda>s t. leases t = leases s"
  by unfold_locales (auto simp: reflp_def transp_def)

text \<open>The metrics are the outcome events of the trace, in order.\<close>

definition metrics_replay_trace :: "coord \<Rightarrow> bool" where
  "metrics_replay_trace s \<longleftrightarrow> outcomeMetricEvents s = foldl appendOutcomeMetricEvent [] (trace s)"

interpretation metrics: coord_relation_reserve "keeps metrics_replay_trace"
  by unfold_locales (auto simp: keeps_def metrics_replay_trace_def)

section \<open>Leases only lose their nonces\<close>

definition lease_evolves :: "NonceLease \<Rightarrow> NonceLease \<Rightarrow> bool" where
  "lease_evolves l l' \<longleftrightarrow>
     leaseId l' = leaseId l \<and> slot l' = slot l \<and> operationId l' = operationId l \<and>
     operationFingerprint l' = operationFingerprint l \<and> reservedAtMs l' = reservedAtMs l \<and>
     (\<exists>ts. lease_state l' = lease_history (lease_state l) ts)"

definition leases_evolve :: "coord \<Rightarrow> coord \<Rightarrow> bool" where
  "leases_evolve s t \<longleftrightarrow>
     (\<forall>k l'. map_of (leases t) k = Some l' \<longrightarrow> (\<exists>l. map_of (leases s) k = Some l \<and> lease_evolves l l'))"

lemma lease_history_append: "lease_history s (ts @ us) = lease_history (lease_history s ts) us"
  by (induction ts arbitrary: s) (auto split: sum.split)

lemma lease_evolves_refl: "lease_evolves l l"
  unfolding lease_evolves_def by (auto intro: exI [where x = "[]"])

lemma lease_evolves_trans: "lease_evolves l m \<Longrightarrow> lease_evolves m n \<Longrightarrow> lease_evolves l n"
  unfolding lease_evolves_def by (metis lease_history_append)

lemma lease_evolves_active:
  "lease_evolves l l' \<Longrightarrow> isActiveEvmLeaseState (lease_state l') \<Longrightarrow> isActiveEvmLeaseState (lease_state l)"
  unfolding lease_evolves_def lease_history_run by (metis nonce_lease.run_dead)

lemma map_of_filter_SomeD: "map_of (filter P m) k = Some v \<Longrightarrow> jsmap_wf m \<Longrightarrow> map_of m k = Some v"
  by (induction m) (auto split: if_splits dest: map_of_SomeD simp: rev_image_eqI)

definition evolve_rel :: "coord \<Rightarrow> coord \<Rightarrow> bool" where
  "evolve_rel s t \<longleftrightarrow> (leases_ok s \<longrightarrow> leases_ok t \<and> leases_evolve s t)"

lemma leases_evolve_refl: "leases t = leases s \<Longrightarrow> leases_evolve s t"
  by (simp add: leases_evolve_def lease_evolves_refl)

lemma leases_evolve_trans: "leases_evolve s t \<Longrightarrow> leases_evolve t u \<Longrightarrow> leases_evolve s u"
  unfolding leases_evolve_def by (meson lease_evolves_trans)

lemma leases_evolve_transition:
  assumes "map_of (leases s) k = Some l" and "lease_step (lease_state l) tr = Some st"
  shows "leases_evolve s (s\<lparr>leases := AList.map_entry k (\<lambda>_. l\<lparr>lease_state := st, expiresAtMs := x\<rparr>) (leases s)\<rparr>)"
proof -
  have "lease_history (lease_state l) [tr] = st"
    using assms(2) by (simp add: lease_history_run)
  then have "lease_evolves l (l\<lparr>lease_state := st, expiresAtMs := x\<rparr>)"
    by (auto simp: lease_evolves_def intro!: exI [where x = "[tr]"])
  with assms(1) show ?thesis
    by (auto simp: leases_evolve_def map_of_map_entry lease_evolves_refl split: if_splits)
qed

interpretation evolve: coord_relation evolve_rel
proof unfold_locales
  show "transp evolve_rel"
    by (auto simp: transp_def evolve_rel_def intro: leases_evolve_trans)
  show "evolve_rel s (s\<lparr>leases := AList.map_entry k (\<lambda>_. l\<lparr>lease_state := st, expiresAtMs := x\<rparr>) (leases s)\<rparr>)"
    if "map_of (leases s) k = Some l" and "lease_step (lease_state l) tr = Some st" for s :: coord and k l tr st x
  proof -
    have "leases_ok s \<Longrightarrow> leaseId l = k" using that(1) by (auto simp: leases_ok_def dest!: map_of_SomeD)
    then show ?thesis
      using leases_evolve_transition [OF that] by (auto simp: evolve_rel_def leases_ok_def distinct_map_entry set_map_entry)
  qed
  show "evolve_rel s (s\<lparr>leases := filter P (leases s)\<rparr>)" for s :: coord and P
    by (auto simp: evolve_rel_def leases_ok_def leases_evolve_def intro!: lease_evolves_refl dest: map_of_filter_SomeD)
qed (auto simp: evolve_rel_def reflp_def leases_evolve_refl, auto simp: leases_ok_def)

end
