(* ===== verification/NonceExclusion.thy ===== *)
theory NonceExclusion
  imports CoordinatorInvariants "HOL-Library.Sublist"
begin

text \<open>
  No nonce is handed out twice. The claims of a coordinator are the lane and nonce of every lease that
  still holds its nonce. Every operation that is not a reservation leaves a subsequence of the
  claims; a reservation adds claims that were not there. By rule induction over the reachable states
  the claims are always distinct.
\<close>

section \<open>Claims\<close>

definition slot_nonce :: "lease_slot \<Rightarrow> int option" where
  "slot_nonce sl = (case sl of EvmSlot _ n \<Rightarrow> Some n | NearSlot _ s \<Rightarrow> js_BigInt s)"

definition claim_of :: "string list \<Rightarrow> NonceLease \<Rightarrow> (string \<times> int option) option" where
  "claim_of fams l =
     (if lane_family (lease_lane l) \<in> set fams \<and> isActiveEvmLeaseState (lease_state l)
      then Some (nonceLaneKey (lease_lane l), slot_nonce (slot l)) else None)"

definition claims_in :: "string list \<Rightarrow> (string, NonceLease) jsmap \<Rightarrow> (string \<times> int option) list" where
  "claims_in fams m = List.map_filter (claim_of fams) (map snd m)"

abbreviation claims :: "string list \<Rightarrow> coord \<Rightarrow> (string \<times> int option) list" where
  "claims fams s \<equiv> claims_in fams (leases s)"

lemma claims_in_simps [simp]:
  "claims_in fams [] = []"
  "claims_in fams ((k, l) # m) = (case claim_of fams l of None \<Rightarrow> claims_in fams m | Some c \<Rightarrow> c # claims_in fams m)"
  by (simp_all add: claims_in_def map_filter_simps split: option.split)

lemma set_claims: "c \<in> set (claims_in fams m) \<longleftrightarrow> (\<exists>(k, l) \<in> set m. claim_of fams l = Some c)"
  by (induction m) (auto split: option.splits)

lemma claims_filter: "subseq (claims_in fams (filter P m)) (claims_in fams m)"
  by (induction m) (auto split: option.split)

lemma claims_map_entry:
  assumes "\<And>l c. map_of m k = Some l \<Longrightarrow> claim_of fams (f l) = Some c \<Longrightarrow> claim_of fams l = Some c"
  shows "subseq (claims_in fams (AList.map_entry k f m)) (claims_in fams m)"
  using assms
proof (induction m)
  case (Cons p m)
  obtain j v where p: "p = (j, v)" by (cases p)
  show ?case
  proof (cases "j = k")
    case True
    with Cons.prems p have "claim_of fams (f v) = Some c \<Longrightarrow> claim_of fams v = Some c" for c by simp
    with True p show ?thesis by (auto split: option.splits)
  next
    case False
    with Cons p show ?thesis by (auto split: option.splits)
  qed
qed simp

lemma claims_update_set: "set (claims_in fams (AList.update k l m)) \<subseteq> set (claims_in fams m) \<union> set_option (claim_of fams l)"
  by (induction m) (auto split: option.splits)

lemma claims_update:
  assumes "distinct (claims_in fams m)" and "\<And>c. claim_of fams l = Some c \<Longrightarrow> c \<notin> set (claims_in fams m)"
  shows "distinct (claims_in fams (AList.update k l m))"
  using assms
proof (induction m)
  case Nil
  then show ?case by (auto split: option.split)
next
  case (Cons p m)
  obtain j v where p: "p = (j, v)" by (cases p)
  with Cons.prems have m: "distinct (claims_in fams m)"
    and new: "\<And>c. claim_of fams l = Some c \<Longrightarrow> c \<notin> set (claims_in fams m)"
    by (auto split: option.splits)
  note rest = Cons.IH [OF m new]
  show ?case
  proof (cases "j = k")
    case True
    with p m new show ?thesis by (auto split: option.split)
  next
    case False
    have "c \<notin> set (claims_in fams (AList.update k l m))" if v: "claim_of fams v = Some c" for c
    proof -
      from Cons.prems(1) v p have "c \<notin> set (claims_in fams m)" by simp
      moreover from Cons.prems(2) [of c] v p have "claim_of fams l \<noteq> Some c" by auto
      ultimately
      show ?thesis using claims_update_set [of fams k l m] by auto
    qed
    with rest p False show ?thesis by (auto split: option.split)
  qed
qed

lemma claim_of_step:
  "lease_step (lease_state l) tr = Some st \<Longrightarrow> claim_of fams (l\<lparr>lease_state := st, expiresAtMs := x\<rparr>) = Some c \<Longrightarrow>
   claim_of fams l = Some c"
  by (auto simp: claim_of_def lease_lane_def split: if_splits dest: lease_step_active)

interpretation claims: coord_relation "\<lambda>s t. subseq (claims fams t) (claims fams s)" for fams
proof unfold_locales
  show "transp (\<lambda>s t :: coord. subseq (claims fams t) (claims fams s))"
    by (rule transpI) (rule subseq_order.trans)
  show "subseq (claims fams (s\<lparr>leases := AList.map_entry k (\<lambda>_. l\<lparr>lease_state := st, expiresAtMs := x\<rparr>) (leases s)\<rparr>))
          (claims fams s)"
    if "map_of (leases s) k = Some l" and "lease_step (lease_state l) tr = Some st" for s :: coord and k l tr st x
    using that by (auto intro!: claims_map_entry dest: claim_of_step)
qed (auto simp: reflp_def claims_filter)

section \<open>Reservations\<close>

text \<open>What the coordinator reads as active covers the claims of the lane.\<close>

lemma localActiveEvm_covers:
  assumes "slot l = EvmSlot lane n" and "l \<in> set ls" and "isActiveEvmLeaseState (lease_state l)"
  shows "n \<in> set (localActiveEvm (nonceLaneKey (EvmLane lane)) None None ls active)"
proof -
  have mono: "set active \<subseteq> set (localActiveEvm key None None ls active)" for key ls active
    by (induction ls arbitrary: active) (fastforce split: lease_slot.splits)+
  show ?thesis using assms(2)
  proof (induction ls arbitrary: active)
    case (Cons m ls)
    show ?case
    proof (cases "m = l")
      case True
      with assms(1,3) mono [of "set_add n active"] show ?thesis by auto
    next
      case False
      with Cons show ?thesis by simp
    qed
  qed simp
qed

lemma addActiveRecords_mono:
  "addActiveRecords env fam c x ps active s = (Inr ns, t) \<Longrightarrow> set active \<subseteq> set ns"
proof (induction ps arbitrary: active s)
  case (Cons p ps)
  have "set active \<subseteq> set (set_add (parsed_nonce p) active)" by auto
  with Cons.prems obtain a u where "set active \<subseteq> set a" and "addActiveRecords env fam c x ps a u = (Inr ns, t)"
    by (auto simp: jm_eval now_def ask_def simp del: set_set_add split: if_splits)
  with Cons.IH show ?case by blast
qed (simp add: jm_eval)

lemma readActiveEvm_covers:
  assumes "readActiveEvmLeaseNonces env (nonceLaneKey (EvmLane lane)) None None lane' s = (Inr ns, t)"
    and "(k, l) \<in> set (leases s)" and "slot l = EvmSlot lane n" and "isActiveEvmLeaseState (lease_state l)"
  shows "n \<in> set ns"
proof -
  let ?local = "localActiveEvm (nonceLaneKey (EvmLane lane)) None None (map snd (leases s)) []"
  from assms(1) have "set ?local \<subseteq> set ns"
    by (auto simp only: readActiveEvmLeaseNonces_def jbind_ret_iff jm_apply prod.inject sum.inject
        dest!: addActiveRecords_mono)
  moreover have "n \<in> set ?local"
    using assms(2) by (intro localActiveEvm_covers [OF assms(3) _ assms(4)]) force
  ultimately show ?thesis by blast
qed

lemma same_leasesD: "jinv (\<lambda>s t. leases t = leases s) m \<Longrightarrow> m s = (r, t) \<Longrightarrow> leases t = leases s"
  by (rule jinvD)

lemma storeReserved_leases:
  assumes "storeReservedLease env l s = (r, t)"
  shows "leases t = AList.update (leaseId l) l (leases s)"
proof -
  let ?m = "jseq (persistCoordinationLease env l DurableReserved (expiresAtMs l)) (emit (lease_reserved_event l))"
  have "jinv (\<lambda>s t. leases t = leases s) ?m"
    by (intro same_leases.prim_intros same_leases.inv_persist)
  moreover from assms have "?m (s\<lparr>leases := AList.update (leaseId l) l (leases s)\<rparr>) = (r, t)"
    by (simp add: storeReservedLease_def jstep)
  ultimately show ?thesis by (auto dest: same_leasesD)
qed

definition claim_free :: "coord \<Rightarrow> NonceLane \<Rightarrow> int \<Rightarrow> bool" where
  "claim_free s lane n \<longleftrightarrow> (nonceLaneKey lane, Some n) \<notin> set (claims [lane_family lane] s)"

lemma readActiveEvm_free:
  assumes "readActiveEvmLeaseNonces env (nonceLaneKey (EvmLane lane)) None None lane' s = (Inr ns, t)" and "n \<notin> set ns"
  shows "claim_free s (EvmLane lane) n"
proof (rule ccontr)
  assume "\<not> claim_free s (EvmLane lane) n"
  then obtain k l where kl: "(k, l) \<in> set (leases s)"
      "claim_of [''evm''] l = Some (nonceLaneKey (EvmLane lane), Some n)"
    by (auto simp: claim_free_def set_claims)
  from kl(2) obtain lane2 where "slot l = EvmSlot lane2 n" "isActiveEvmLeaseState (lease_state l)"
      "nonceLaneKey (EvmLane lane2) = nonceLaneKey (EvmLane lane)"
    by (cases "slot l") (auto simp: claim_of_def lease_lane_def slot_nonce_def split: if_splits)
  note l = kl(1) this
  from readActiveEvm_covers [OF _ l(1-3), of env lane' ns t] l(4) assms show False by simp
qed

text \<open>A lease taken from a lane has a nonce that no active lease of the lane has.\<close>

definition fresh_evm_lease ::
  "coord_env \<Rightarrow> EvmNonceLane \<Rightarrow> PreparedNonceOperationContext \<Rightarrow> int \<Rightarrow> int \<Rightarrow> string \<Rightarrow> NonceLease" where
  "fresh_evm_lease env lane operation n t random =
     \<lparr>leaseId = createNonceLeaseId (chain_target_kind (chainTarget lane)) (op_operationId operation) (int_str n) random,
      slot = EvmSlot lane n, operationId = op_operationId operation,
      operationFingerprint = op_operationFingerprint operation, lease_state = Reserved,
      reservedAtMs = t, expiresAtMs = t + env_leaseTtlMs env, batchId = None, txIndex = None\<rparr>"

lemma takeEvm_cases:
  assumes "takeEvmCandidate env lane operation s = (r, t)"
  obtains (none) e where "readActiveEvmLeaseNonces env (nonceLaneKey (EvmLane lane)) None None lane s = (Inl e, t)" "r = Inl e"
  | (some) active u n now1 random s' where
      "readActiveEvmLeaseNonces env (nonceLaneKey (EvmLane lane)) None None lane s = (Inr active, u)"
      "n = chooseEvmCandidate (fst (getOrCreateEvmNonceLaneState (evmStates u) (nonceLaneKey (EvmLane lane)))) active"
      "jseq (storeReservedLease env (fresh_evm_lease env lane operation n now1 random))
         (jret (fresh_evm_lease env lane operation n now1 random)) s' = (r, t)"
      "leases s' = leases s"
      "evmStates s' = AList.map_entry (nonceLaneKey (EvmLane lane)) (\<lambda>st. st\<lparr>nextCandidate := Some (n + 1)\<rparr>)
         (snd (getOrCreateEvmNonceLaneState (evmStates u) (nonceLaneKey (EvmLane lane))))"
  using assms unfolding takeEvmCandidate_def Let_def
proof (cases rule: jbind_cases)
  case (continues active u)
  note same = same_leasesD [OF same_leases.inv_readActiveEvm continues(1)]
  let ?st = "getOrCreateEvmNonceLaneState (evmStates u) (nonceLaneKey (EvmLane lane))"
  from continues(2) show thesis
    by (simp add: jstep flip: fresh_evm_lease_def) (erule some [OF continues(1) refl], simp_all add: same)
qed (rule none)

lemma takeEvm_leases:
  assumes "takeEvmCandidate env lane operation s = (r, t)"
  obtains (none) "leases t = leases s" "\<forall>l. r \<noteq> Inr l"
  | (some) n now1 random l where "l = fresh_evm_lease env lane operation n now1 random"
      "leases t = AList.update (leaseId l) l (leases s)" "claim_free s (EvmLane lane) n" "\<forall>l'. r = Inr l' \<longrightarrow> l' = l"
  using assms
proof (cases rule: takeEvm_cases)
  case (none e)
  then show thesis by (auto intro: that(1) dest: same_leasesD [OF same_leases.inv_readActiveEvm])
next
  case (some active u n now1 random s')
  from readActiveEvm_free [OF some(1)] some(2) have "claim_free s (EvmLane lane) n"
    by (simp add: chooseEvmCandidate_fresh)
  with some(3,4) show thesis
    by (intro that(2) [OF refl, of n now1 random]) 
       (auto elim!: jseq_cases dest: storeReserved_leases simp: jm_apply)
qed

section \<open>Exclusion on EVM lanes\<close>

lemma claims_update_none: "claim_of fams l = None \<Longrightarrow> subseq (claims_in fams (AList.update k l m)) (claims_in fams m)"
  by (induction m) (auto split: option.split)

interpretation evm_claims: coord_relation_near "\<lambda>s t. subseq (claims [''evm''] t) (claims [''evm''] s)"
  by unfold_locales (auto intro!: claims_update_none simp: claim_of_def lease_lane_def)

interpretation near_claims: coord_relation_evm "\<lambda>s t. subseq (claims [''near''] t) (claims [''near''] s)"
  by unfold_locales (auto intro!: claims_update_none simp: claim_of_def lease_lane_def)

lemma subseq_keeps_distinct: "subseq xs ys \<Longrightarrow> distinct ys \<Longrightarrow> distinct xs"
  by (auto simp: subseq_conv_nths distinct_nthsI)

lemma jinv_claims_distinct:
  "jinv (\<lambda>s t. subseq (claims fams t) (claims fams s)) m \<Longrightarrow> jinv (keeps (\<lambda>s. distinct (claims fams s))) m"
  by (erule jinv_mono) (auto simp: keeps_def dest: subseq_keeps_distinct)

lemma takeEvm_distinct: "jinv (keeps (\<lambda>s. distinct (claims [''evm''] s))) (takeEvmCandidate env lane operation)"
proof (rule jinvI)
  fix s r t
  assume "takeEvmCandidate env lane operation s = (r, t)"
  then show "keeps (\<lambda>s. distinct (claims [''evm''] s)) s t"
  proof (cases rule: takeEvm_leases)
    case (some n now1 random l)
    moreover have "claim_of [''evm''] l = Some (nonceLaneKey (EvmLane lane), Some n)"
      by (simp add: some(1) fresh_evm_lease_def claim_of_def lease_lane_def slot_nonce_def isActiveEvmLeaseState_def)
    ultimately show ?thesis by (auto simp: keeps_def claim_free_def intro!: claims_update)
  qed (simp add: keeps_def)
qed

lemma reserveEvm_distinct:
  "jinv (keeps (\<lambda>s. distinct (claims [''evm''] s))) (reserveEvmNonceLeaseUnlocked env lane operation)"
  unfolding reserveEvmNonceLeaseUnlocked_def
  by (intro jinv_jseq keeps_trans takeEvm_distinct jinv_claims_distinct claims.inv_expireLane
      claims.inv_getOrCreateEvmState claims.inv_index claims.inv_refreshIfNeeded claims.inv_notBlocked)

lemma jinv_withLaneLock:
  assumes "jinv R m" and "reflp R" and "transp R"
    and "\<And>reason input. jinv R (emitCoordinationDegradedOnce reason input)" and "\<And>f. jinv R (ask f :: nonce_error option cm)"
  shows "jinv R (withLaneLock env lane m)"
  unfolding withLaneLock_def by (intro jinv_intros assms)

lemma withLaneLock_distinct:
  "jinv (keeps (\<lambda>s. distinct (claims fams s))) m \<Longrightarrow> jinv (keeps (\<lambda>s. distinct (claims fams s))) (withLaneLock env lane m)"
  by (erule jinv_withLaneLock) (auto intro!: jinv_claims_distinct claims.inv_degraded claims.inv_ask)

lemma evm_distinct_step:
  "distinct (claims [''evm''] s) \<Longrightarrow> distinct (claims [''evm''] (coord_exec env op s))"
proof (cases "reserves_evm op")
  case True
  then obtain lane operation where op: "op = OpReserve (EvmLane lane) operation"
    by (cases op rule: reserves_evm.cases) auto
  assume "distinct (claims [''evm''] s)"
  then show ?thesis
    using withLaneLock_distinct [OF reserveEvm_distinct, of env "EvmLane lane" env lane operation]
    by (simp add: op reserve_def jinv_def keeps_def)
next
  case False
  assume "distinct (claims [''evm''] s)"
  with evm_claims.inv_exec_near [OF False] show ?thesis by (blast intro: subseq_keeps_distinct)
qed

lemma evm_distinct_reach: "coord_reach allowed env s \<Longrightarrow> distinct (claims [''evm''] s)"
  by (induction rule: coord_reach.induct) (auto simp: initial_coord_def evm_distinct_step)

section \<open>Exclusion on NEAR lanes\<close>

lemma localActiveNear_mono:
  "localActiveNear key c x ls active = Inr ns \<Longrightarrow> set active \<subseteq> set ns"
proof (induction ls arbitrary: active)
  case (Cons l ls)
  from Cons.prems obtain a where "set active \<subseteq> set a" and "localActiveNear key c x ls a = Inr ns"
    by (auto split: if_splits lease_slot.splits sum.splits) (metis set_set_add subset_insertI)
  with Cons.IH show ?case by blast
qed simp

lemma localActiveNear_covers:
  assumes "localActiveNear (nonceLaneKey (NearLane lane)) None None ls active = Inr ns"
    and "l \<in> set ls" "slot l = NearSlot lane str" "isActiveEvmLeaseState (lease_state l)" "js_BigInt str = Some n"
  shows "n \<in> set ns"
  using assms(1,2)
proof (induction ls arbitrary: active)
  case (Cons m ls)
  show ?case
  proof (cases "m = l")
    case True
    with Cons.prems assms(3-5) have "localActiveNear (nonceLaneKey (NearLane lane)) None None ls (set_add n active) = Inr ns"
      by (auto simp: bigint_of_def isActiveNearLeaseState_def isActiveEvmLeaseState_def)
    then show ?thesis by (auto dest: localActiveNear_mono)
  next
    case False
    with Cons show ?thesis by (auto split: if_splits lease_slot.splits sum.splits)
  qed
qed simp

lemma readActiveNear_free:
  assumes run: "readActiveNearLeaseNonces env (nonceLaneKey (NearLane lane)) None None lane' s = (Inr ns, t)" and "n \<notin> set ns"
  shows "claim_free s (NearLane lane) n"
proof (rule ccontr)
  assume "\<not> claim_free s (NearLane lane) n"
  then obtain k l where kl: "(k, l) \<in> set (leases s)"
      "claim_of [''near''] l = Some (nonceLaneKey (NearLane lane), Some n)"
    by (auto simp: claim_free_def set_claims)
  from kl(2) obtain lane2 str where l: "slot l = NearSlot lane2 str" "isActiveEvmLeaseState (lease_state l)"
      "js_BigInt str = Some n" "nonceLaneKey (NearLane lane2) = nonceLaneKey (NearLane lane)"
    by (cases "slot l") (auto simp: claim_of_def lease_lane_def slot_nonce_def split: if_splits)
  from run obtain ms where ms: "localActiveNear (nonceLaneKey (NearLane lane)) None None (map snd (leases s)) [] = Inr ms"
      "set ms \<subseteq> set ns"
    by (auto simp only: readActiveNearLeaseNonces_def jbind_ret_iff jm_apply prod.inject dest!: addActiveRecords_mono)
  have "l \<in> set (map snd (leases s))" using kl(1) by force
  from localActiveNear_covers [OF _ this l(1,2,3)] ms l(4) assms(2) show False by auto
qed

lemma reserveNearNonces_free:
  assumes "reserveNearNonces env lane count s = (Inr nonces, t)" and "parts_ok s" and "0 < count"
  obtains ns where "nonces = map int_str ns" "sorted_wrt (<) ns" "\<And>n. n \<in> set ns \<Longrightarrow> claim_free s (NearLane lane) n"
    "leases t = leases s" "lastReservedNonce (nearState t) = Some (last nonces)"
    "\<And>r. int_str r \<in> set (reservedNonces (nearState t)) \<Longrightarrow> r \<in> set ns \<or> (\<forall>n \<in> set ns. r < n)"
    "set nonces \<subseteq> set (reservedNonces (nearState t))"
proof -
  from assms(1,3) obtain ctx active u where
    act: "readActiveNearLeaseNonces env (nonceLaneKey (NearLane lane)) None None lane s = (Inr active, u)"
    and res: "liftNear (reserveNearNoncesFromState ctx count active) u = (Inr nonces, t)"
    by (auto simp: reserveNearNonces_def jbind_ret_iff jm_apply split: if_splits)
  have "parts_ok u" using jinv_keepsD [OF parts.inv_readActiveNear act assms(2)] .
  then have "near_state_ok (nearState u)" by (simp add: parts_ok_def)
  moreover obtain st' where "reserveNearNoncesFromState ctx count active (nearState u) = (Inr nonces, st')"
      and "leases t = leases u" and "nearState t = st'"
    using res by (auto simp: liftNear_def split: prod.splits)
  moreover have "leases u = leases s" by (rule same_leasesD [OF same_leases.inv_readActiveNear act])
  ultimately show thesis
    using assms(3) by (elim reserveNear_result) (auto intro!: that readActiveNear_free [OF act] simp: fold_set_add)
qed

lemma storeBatch_distinct:
  assumes "jfor ls (storeReservedLease env) s = (r, t)" and "map slot ls = map (\<lambda>n. NearSlot lane (int_str n)) ns"
    and "distinct ns" and "\<And>n. n \<in> set ns \<Longrightarrow> claim_free s (NearLane lane) n" and "distinct (claims [''near''] s)"
  shows "distinct (claims [''near''] t)"
  using assms
proof (induction ls arbitrary: ns s)
  case Nil
  then show ?case by (simp add: jm_apply)
next
  case (Cons l ls)
  then obtain n ms where ns: "ns = n # ms" by (cases ns) auto
  with Cons.prems(2) have slot: "slot l = NearSlot lane (int_str n)" by simp
  let ?m = "AList.update (leaseId l) l (leases s)"
  have l: "claim_of [''near''] l = Some c \<Longrightarrow> c = (nonceLaneKey (NearLane lane), Some n)" for c
    by (auto simp: claim_of_def lease_lane_def slot slot_nonce_def split: if_splits)
  then have d: "distinct (claims_in [''near''] ?m)"
    using Cons.prems(4) [of n] Cons.prems(5) ns by (intro claims_update) (auto simp: claim_free_def)
  from Cons.prems(1) have "jseq (storeReservedLease env l) (jfor ls (storeReservedLease env)) s = (r, t)" by simp
  then show ?case
  proof (cases rule: jseq_cases)
    case (throws e)
    with d show ?thesis by (simp add: storeReserved_leases)
  next
    case (continues x u)
    have u: "leases u = ?m" by (rule storeReserved_leases [OF continues(1)])
    have "claim_free u (NearLane lane) m" if "m \<in> set ms" for m
      using Cons.prems(3) Cons.prems(4) [of m] that ns l claims_update_set [of "[''near'']" "leaseId l" l "leases s"] 
      by (auto simp: claim_free_def u)
    with Cons.IH [OF continues(2), of ms] Cons.prems(2,3) d ns u show ?thesis by simp
  qed
qed

lemma near_leases_same: "jinv (\<lambda>s t. leases t = leases s) (near_leases env lane operation now1 batch i ns)"
  by (induction ns arbitrary: i) (auto intro!: same_leases.prim_intros)

abbreviation near_ok :: "coord \<Rightarrow> bool" where
  "near_ok s \<equiv> parts_ok s \<and> distinct (claims [''near''] s)"

lemma jinv_near_ok:
  "jinv (keeps parts_ok) m \<Longrightarrow> jinv (\<lambda>s t. subseq (claims [''near''] t) (claims [''near''] s)) m \<Longrightarrow> jinv (keeps near_ok) m"
  by (auto simp: jinv_def keeps_def dest: subseq_keeps_distinct)

lemma takeNear_near_ok:
  assumes "int (length nonces) = count" and "nonces = map int_str ns" "distinct ns"
    "\<And>n. n \<in> set ns \<Longrightarrow> claim_free s (NearLane lane) n" and "near_ok s"
    and run: "jbind (near_leases env lane operation now1 batch 0 nonces)
      (\<lambda>ls. jseq (jfor ls (storeReservedLease env)) (jret ls)) s = (r, t)"
  shows "near_ok t"
proof
  show "parts_ok t" using jinv_keepsD [OF parts.inv_takeNearBatch run] assms(5) by blast
  from run show "distinct (claims [''near''] t)"
  proof (cases rule: jbind_cases)
    case (throws e)
    have "leases t = leases s" by (rule same_leasesD [OF near_leases_same throws(1)])
    with assms(5) show ?thesis by simp
  next
    case (continues ls u)
    have "leases u = leases s" by (rule same_leasesD [OF near_leases_same continues(1)])
    moreover have "map slot ls = map (\<lambda>n. NearSlot lane (int_str n)) ns"
      using near_leases_slots [OF continues(1)] assms(2) by simp
    moreover obtain r' where "jfor ls (storeReservedLease env) u = (r', t)"
      using continues(2) by (auto elim!: jseq_cases simp: jm_apply)
    ultimately show ?thesis using assms(3-5) by (elim storeBatch_distinct) (auto simp: claim_free_def)
  qed
qed

lemma reserveNearBatch_near_ok: "jinv (keeps near_ok) (reserveNearNonceBatchUnlocked env lane operation countInput)"
proof -
  let ?count = "max 1 (if countInput = 0 then 1 else countInput)"
  let ?take = "\<lambda>nonces. if int (length nonces) \<noteq> ?count then jthrow IncompleteBatch
          else jbind (now env) (\<lambda>reservedAt. jbind (ask (env_random env)) (\<lambda>batchRandom.
              let batch = createNonceBatchId ''near'' (op_operationId operation) (hd nonces) ?count batchRandom in
              jbind (near_leases env lane operation reservedAt batch 0 nonces) (\<lambda>batchLeases.
              jseq (jfor batchLeases (storeReservedLease env)) (jret batchLeases))))"
  have "jinv (keeps near_ok) (jbind (reserveNearNonces env lane ?count) ?take)"
  proof (rule jinvI, unfold keeps_def, rule impI)
    fix s r t
    assume run: "jbind (reserveNearNonces env lane ?count) ?take s = (r, t)" and ok: "near_ok s"
    note near = jinv_near_ok [OF parts.inv_reserveNearNonces claims.inv_reserveNearNonces]
    from run show "near_ok t"
    proof (cases rule: jbind_cases)
      case (throws e)
      show ?thesis by (rule jinv_keepsD [OF near throws(1) ok])
    next
      case (continues nonces u)
      have u: "near_ok u" by (rule jinv_keepsD [OF near continues(1) ok])
      from ok obtain ns where ns: "nonces = map int_str ns" "sorted_wrt (<) ns"
          "\<And>n. n \<in> set ns \<Longrightarrow> claim_free s (NearLane lane) n" "leases u = leases s"
        by (auto elim: reserveNearNonces_free [OF continues(1)])
      show ?thesis
      proof (cases "int (length nonces) = ?count")
        case False
        with continues(2) u show ?thesis by (simp add: jm_apply)
      next
        case True
        have "distinct ns" using ns(2) strict_sorted_iff by blast
        with True continues(2) ns u show ?thesis
          by (simp only: if_not_P not_not jstep Let_def)
             (erule takeNear_near_ok [rotated 5], auto simp: claim_free_def parts_ok_def leases_ok_def)
      qed
    qed
  qed
  note batch = this
  show ?thesis
    unfolding reserveNearNonceBatchUnlocked_def Let_def
    by (rule jinv_jseq [OF keeps_trans _ batch [unfolded Let_def]])
       (rule jinv_near_ok [OF parts.inv_expireLane claims.inv_expireLane])
qed

lemma withLaneLock_near_ok: "jinv (keeps near_ok) m \<Longrightarrow> jinv (keeps near_ok) (withLaneLock env lane m)"
  by (erule jinv_withLaneLock)
     (auto intro!: jinv_near_ok parts.inv_degraded parts.inv_ask claims.inv_degraded claims.inv_ask)

lemma reserveNearContext_near_ok: "jinv (keeps near_ok) (reserveNearContext env lane operation n fetch c force)"
  unfolding reserveNearContext_def
  by (intro withLaneLock_near_ok jinv_intros keeps_refl keeps_trans reserveNearBatch_near_ok)
     (auto intro!: jinv_near_ok parts.inv_initializeNear claims.inv_initializeNear parts.inv_fetchForLane
       claims.inv_fetchForLane parts.inv_commitNear claims.inv_commitNear parts.inv_ask_rpc claims.inv_ask_rpc)

fun replaces :: "coord_op \<Rightarrow> bool" where
  "replaces (OpReserveNearReplacement _ _ _ _) = True"
| "replaces _ = False"

lemma near_ok_step:
  assumes "near_ok s" and "\<not> replaces op"
  shows "near_ok (coord_exec env op s)"
proof (cases "reserving op \<and> \<not> reserves_evm op")
  case True
  have "jinv (keeps near_ok) (reserve env (NearLane lane) operation)" for lane operation
    by (simp add: reserve_def withLaneLock_near_ok jinv_intros reserveNearBatch_near_ok)
  moreover have "jinv (keeps near_ok) (reserveBatch env lane operation n)" for lane operation n
    by (simp add: reserveBatch_def withLaneLock_near_ok reserveNearBatch_near_ok)
  ultimately show ?thesis
    using True assms reserveNearContext_near_ok
    by (cases op rule: reserves_evm.cases) (auto simp: jinv_def keeps_def)
next
  case False
  have "parts_ok (coord_exec env op s)"
    using parts.inv_exec [of s env op] assms(1) by (simp add: keeps_def)
  moreover have "subseq (claims [''near''] (coord_exec env op s)) (claims [''near''] s)"
  proof (cases "reserves_evm op")
    case True
    then obtain lane operation where "op = OpReserve (EvmLane lane) operation"
      by (cases op rule: reserves_evm.cases) auto
    then show ?thesis by (simp only: near_claims.inv_exec_evm)
  next
    case False
    with \<open>\<not> (reserving op \<and> \<not> reserves_evm op)\<close> show ?thesis by (blast intro: claims.inv_exec_not_reserving)
  qed
  ultimately show ?thesis using assms(1) by (blast intro: subseq_keeps_distinct)
qed

lemma parts_ok_initial: "rows_ok rows \<Longrightarrow> parts_ok (initial_coord rows)"
  by (simp add: parts_ok_def leases_ok_def initial_coord_def)

lemma parts_ok_reach: "coord_reach allowed env s \<Longrightarrow> parts_ok s"
proof (induction rule: coord_reach.induct)
  case (reach_call s op)
  then show ?case using parts.inv_exec [of s env op] by (simp add: keeps_def)
qed (auto simp: parts_ok_initial, auto simp: parts_ok_def leases_ok_def)

lemma near_distinct_reach: "coord_reach (\<lambda>op. \<not> replaces op) env s \<Longrightarrow> distinct (claims [''near''] s)"
proof (induction rule: coord_reach.induct)
  case (reach_call s op)
  then show ?case using near_ok_step [of s op env] parts_ok_reach by blast
qed (auto simp: initial_coord_def)

end
