(* ===== verification/CoordinatorExamples.thy ===== *)
theory CoordinatorExamples
  imports NonceExclusion
begin

text \<open>
  A concrete environment, lane and operation: a clock that never moves, distinct random identifiers, a
  chain whose next nonce is 7, a reliable store and locks that are always granted.
\<close>

definition example_client :: near_client where
  "example_client =
     \<lparr>nc_viewAccessKey = (\<lambda>_ _ _. Inl ''offline''), nc_viewBlock = (\<lambda>_. Inl ''offline''),
      nc_txStatus = (\<lambda>_ _ _. Inl ''offline'')\<rparr>"

definition example_env :: coord_env where
  "example_env =
     \<lparr>env_clock = (\<lambda>_. 1000), env_random = (\<lambda>k. replicate (Suc k) CHR ''r''), env_storeFails = (\<lambda>_. False),
      env_lock = (\<lambda>_. None), env_fetchChainNonce = (\<lambda>_ _. Inr 7),
      env_fetchBroadcastTransactionStatus = (\<lambda>_ _ _. Inr TxStatusPending), env_nearClient = Some example_client,
      env_runtimeId = ''runtime-a'', env_leaseTtlMs = 120000, env_signedLeaseTtlMs = 300000,
      env_evmRefreshTtlMs = 5000, env_evmStaleInFlightThresholdMs = 600000, env_alertThreshold = 3,
      env_alertWindowMs = 300000, env_sameOriginLock = True, env_store = StorePresent True\<rparr>"

definition example_operation :: PreparedNonceOperationContext where
  "example_operation = \<lparr>op_operationId = ''op-1'', op_operationFingerprint = ''fp-1'', op_accountId = ''alice''\<rparr>"

definition local_env :: coord_env where
  "local_env = example_env\<lparr>env_store := StoreUndefined\<rparr>"

definition two_reserved :: coord where
  "two_reserved = coord_exec example_env (OpReserve (EvmLane example_evm_lane) example_operation)
     (coord_exec example_env (OpReserve (EvmLane example_evm_lane) example_operation) (initial_coord []))"

definition example_lease :: NonceLease where
  "example_lease = fresh_evm_lease local_env example_evm_lane example_operation 7 1000 (replicate 8 CHR ''r'')"

definition after_reserve :: coord where
  "after_reserve = snd (reserve local_env (EvmLane example_evm_lane) example_operation (initial_coord []))"

lemma example_reserve:
  "reserve local_env (EvmLane example_evm_lane) example_operation (initial_coord []) = (Inr example_lease, after_reserve)"
proof -
  have "fst (reserve local_env (EvmLane example_evm_lane) example_operation (initial_coord [])) = Inr example_lease"
    by code_simp
  then show ?thesis by (metis after_reserve_def prod.collapse)
qed

definition example_near_lane :: NearNonceLane where
  "example_near_lane =
     \<lparr>networkKey = ''near:testnet'', walletId = ''alice'', nearAccountId = ''alice.testnet'', publicKey = ''ed25519:AAA''\<rparr>"

definition near_ready_state :: NearNonceLaneState where
  "near_ready_state = createNearNonceLaneState\<lparr>lifecycle := AccessKeyBound
     \<lparr>subj_walletId = ''alice'', subj_nearAccountId = ''alice.testnet'', subj_publicKey = ''ed25519:AAA''\<rparr>
     (Some \<lparr>ready_transactionContext = \<lparr>ctx_nearPublicKeyStr = ''ed25519:AAA'',
             ctx_accessKeyInfo = makePlaceholderAccessKey\<lparr>ak_nonce := 40\<rparr>, ctx_nextNonce = ''41'',
             ctx_txBlockHeight = ''9'', ctx_txBlockHash = ''h''\<rparr>,
           ready_lastNonceUpdateMs = 900, ready_lastBlockHeightUpdateMs = 900\<rparr>)\<rparr>"

definition near_ready_coord :: coord where
  "near_ready_coord = (initial_coord [])\<lparr>nearState := near_ready_state\<rparr>"

definition near_batch :: "NonceLease list" where
  "near_batch = (case fst (reserveBatch local_env example_near_lane example_operation 2 near_ready_coord) of
     Inr ls \<Rightarrow> ls | Inl _ \<Rightarrow> [])"

definition after_near_batch :: coord where
  "after_near_batch = snd (reserveBatch local_env example_near_lane example_operation 2 near_ready_coord)"

lemma example_near_batch:
  "reserveBatch local_env example_near_lane example_operation 2 near_ready_coord = (Inr near_batch, after_near_batch)"
proof -
  have "fst (reserveBatch local_env example_near_lane example_operation 2 near_ready_coord) = Inr near_batch"
    by code_simp
  then show ?thesis by (metis after_near_batch_def prod.collapse)
qed

lemma near_ready_coord_ok: "parts_ok near_ready_coord"
  by (simp add: parts_ok_def leases_ok_def near_ready_coord_def initial_coord_def rows_ok_def near_state_ok_def
      near_ready_state_def createNearNonceLaneState_def computeLastReservedNonce_def readNearInflightFetch_def)

text \<open>
  A NEAR client that is online, with the access key at nonce 40, and the coordinator after it reserved a
  context of two transactions and then one more nonce.
\<close>

definition online_client :: near_client where
  "online_client =
     \<lparr>nc_viewAccessKey = (\<lambda>_ _ _. Inr (JObj [(''nonce'', JNum 40)])),
      nc_viewBlock = (\<lambda>_. Inr (JObj [(''header'', JObj [(''hash'', JStr ''h''), (''height'', JNum 9)])])),
      nc_txStatus = (\<lambda>_ _ _. Inl ''offline'')\<rparr>"

definition near_reserved :: coord where
  "near_reserved = coord_exec local_env (OpReserve (NearLane example_near_lane) example_operation)
     (coord_exec local_env (OpReserveNearContext example_near_lane example_operation 2 None (Some online_client) None)
       (initial_coord []))"

lemma near_reserved_claims: "map snd (claims_in [''near''] (leases near_reserved)) = [Some 41, Some 42, Some 43]"
  by code_simp

end
