(* ===== verification/ReserveResults.thy ===== *)
theory ReserveResults
  imports CoordinatorExamples
begin

text \<open>What a reservation on an EVM lane returns and leaves behind.\<close>

interpretation frame: coord_outside
  "\<lambda>s t. leases t = leases s \<and> evmStates t = evmStates s \<and> nearState t = nearState s \<and>
          evmAccountLaneKeys t = evmAccountLaneKeys s"
  by unfold_locales (auto simp: reflp_def transp_def)

abbreviation evm_key :: "EvmNonceLane \<Rightarrow> string" where
  "evm_key lane \<equiv> nonceLaneKey (EvmLane lane)"

text \<open>The chain nonce of the lane is known.\<close>

definition chain_known :: "coord \<Rightarrow> EvmNonceLane \<Rightarrow> bool" where
  "chain_known s lane \<longleftrightarrow> (\<exists>st. map_of (evmStates s) (evm_key lane) = Some st \<and> chainNonce st \<noteq> None)"

lemma getOrCreate_map_of:
  "map_of (snd (getOrCreateEvmNonceLaneState m k)) k = Some (fst (getOrCreateEvmNonceLaneState m k))"
  by (simp add: getOrCreateEvmNonceLaneState_def map_of_update_alist split: option.split)

lemma getOrCreate_id: "map_of m k = Some st \<Longrightarrow> getOrCreateEvmNonceLaneState m k = (st, m)"
  by (simp add: getOrCreateEvmNonceLaneState_def)

lemma shouldRefresh_known:
  assumes "shouldRefreshEvmLaneLocked env k st lane s = (Inr False, t)" and "evm_state_ok st"
  shows "chainNonce st \<noteq> None"
proof -
  from assms(1) have "shouldRefreshEvmLane st (env_clock env (tick s)) (env_evmRefreshTtlMs env) \<noteq> Inl True"
    by (auto simp: shouldRefreshEvmLaneLocked_def jstep jm_apply)
  then have "lastRefreshMs st \<noteq> None"
    by (auto simp: shouldRefreshEvmLane_def split: option.splits)
  with assms(2) show ?thesis by (simp add: evm_state_ok_def)
qed

lemma refresh_known:
  assumes "refreshEvmLaneFromChainLocked env lane s = (Inr c, t)" and "map_of (evmStates s) (evm_key lane) = Some st"
  obtains st' where "map_of (evmStates t) (evm_key lane) = Some st'" "chainNonce st' = Some c" "0 \<le> c"
proof -
  from assms(1) obtain raw active u v where c: "c = (if raw \<ge> 0 then raw else 0)"
    and act: "readActiveEvmLeaseNonces env (evm_key lane) (Some c) None lane u = (Inr active, v)"
    and u: "evmStates u = evmStates s"
    and t: "t = v\<lparr>evmStates := AList.map_entry (evm_key lane)
       (\<lambda>st. refreshEvmLaneFromChain st (env_clock env (tick s)) c active) (evmStates v)\<rparr>"
    by (auto simp: refreshEvmLaneFromChainLocked_def Let_def jstep ask_rpc_def jbind_ret_iff jm_apply ask_def
        split: sum.splits)
  have "evmStates v = evmStates u" using jinvD [OF frame.inv_readActiveEvm act] by simp
  with assms(2) u t c show thesis
    by (intro that) (auto simp: map_of_map_entry refresh_next_covers(1))
qed

lemma refreshIfNeeded_known:
  assumes "refreshIfNeeded env lane s = (Inr (), t)" and "parts_ok s"
  shows "chain_known t lane"
proof -
  let ?st = "fst (getOrCreateEvmNonceLaneState (evmStates s) (evm_key lane))"
  let ?s = "s\<lparr>evmStates := snd (getOrCreateEvmNonceLaneState (evmStates s) (evm_key lane))\<rparr>"
  have ok: "evm_state_ok ?st"
    using assms(2) by (auto simp: parts_ok_def getOrCreateEvmNonceLaneState_def split: option.split dest!: map_of_SomeD)
  from assms(1) obtain b u where
    should: "shouldRefreshEvmLaneLocked env (evm_key lane) ?st lane ?s = (Inr b, u)"
    and run: "jwhen b (jseq (refreshEvmLaneFromChainLocked env lane) (jret ())) u = (Inr (), t)"
    by (auto simp: refreshIfNeeded_def Let_def jstep jbind_ret_iff)
  have u: "map_of (evmStates u) (evm_key lane) = Some ?st"
    using jinvD [OF frame.inv_shouldRefresh should] by (simp add: getOrCreate_map_of)
  show ?thesis
  proof (cases b)
    case True
    with run obtain c where "refreshEvmLaneFromChainLocked env lane u = (Inr c, t)"
      by (auto simp: jseq_ret_iff jm_apply)
    then show ?thesis by (rule refresh_known [OF _ u]) (auto simp: chain_known_def)
  next
    case False
    with should have "shouldRefreshEvmLaneLocked env (evm_key lane) ?st lane ?s = (Inr False, u)" by simp
    from False run u shouldRefresh_known [OF this ok] show ?thesis
      by (auto simp: chain_known_def jm_apply)
  qed
qed

lemma notBlocked_state:
  assumes "assertLaneNotBlocked env lane s = (Inr (), t)" and "map_of (evmStates s) (evm_key lane) = Some st"
  shows "evmStates t = evmStates s" and "leases t = leases s"
    and "\<exists>k. readBlockedEvmInFlight st (env_clock env k) (env_evmStaleInFlightThresholdMs env) = None"
  using assms by (auto simp: assertLaneNotBlocked_def jstep getOrCreate_id jm_apply split: option.splits)

lemma storeReserved_frame: "storeReservedLease env l s = (r, t) \<Longrightarrow> evmStates t = evmStates s"
proof -
  let ?m = "jseq (persistCoordinationLease env l DurableReserved (expiresAtMs l)) (emit (lease_reserved_event l))"
  assume "storeReservedLease env l s = (r, t)"
  then have "?m (s\<lparr>leases := AList.update (leaseId l) l (leases s)\<rparr>) = (r, t)"
    by (simp add: storeReservedLease_def jstep)
  from jinvD [OF jinv_jseq [OF frame.R_trans frame.inv_persist frame.inv_emit] this] show ?thesis by simp
qed

text \<open>
  The lease of a successful \<^const>\<open>takeEvmCandidate\<close>, and the lane state after it.
\<close>

lemma takeEvm_result:
  assumes run: "takeEvmCandidate env lane operation s = (Inr l, t)" and known: "chain_known s lane"
  obtains n now1 random st c where "l = fresh_evm_lease env lane operation n now1 random"
    "map_of (leases t) (leaseId l) = Some l" "map_of (evmStates t) (evm_key lane) = Some st"
    "chainNonce st = Some c" "c \<le> n" "nextCandidate st = Some (n + 1)" "n \<notin> fst ` set (inFlight st)"
proof -
  from run show thesis
  proof (cases rule: takeEvm_cases)
    case (some active u n now1 random s')
    let ?l = "fresh_evm_lease env lane operation n now1 random"
    from some(3) have l: "l = ?l" and store: "\<exists>x. storeReservedLease env ?l s' = (Inr x, t)"
      by (auto simp: jseq_ret_iff jm_apply)
    have leases: "map_of (leases t) (leaseId l) = Some l"
      using store storeReserved_leases l by (fastforce simp: map_of_update_alist)
    from known obtain st c where st: "map_of (evmStates s) (evm_key lane) = Some st" "chainNonce st = Some c"
      by (auto simp: chain_known_def)
    have "evmStates u = evmStates s" using jinvD [OF frame.inv_readActiveEvm some(1)] by simp
    with st(1) have cand: "n = chooseEvmCandidate st active"
      and s': "map_of (evmStates s') (evm_key lane) = Some (st\<lparr>nextCandidate := Some (n + 1)\<rparr>)"
      using some(2,5) by (simp_all add: getOrCreate_id map_of_map_entry)
    have "evmStates t = evmStates s'" using store storeReserved_frame by blast
    with s' have t: "map_of (evmStates t) (evm_key lane) = Some (st\<lparr>nextCandidate := Some (n + 1)\<rparr>)" by simp
    show thesis
      by (rule that [OF l leases t])
         (use st(2) cand chooseEvmCandidate_fresh(2) chooseEvmCandidate_ge_chain [OF st(2)] in simp_all)
  qed simp
qed

lemma reserveEvm_result:
  assumes run: "reserveEvmNonceLeaseUnlocked env lane operation s = (Inr l, t)" and ok: "parts_ok s"
  obtains n now1 random st c where "l = fresh_evm_lease env lane operation n now1 random"
    "map_of (leases t) (leaseId l) = Some l" "map_of (evmStates t) (evm_key lane) = Some st"
    "chainNonce st = Some c" "c \<le> n" "nextCandidate st = Some (n + 1)" "n \<notin> fst ` set (inFlight st)"
proof -
  let ?pre = "jseq (expireDueLeasesForLockedLane env (EvmLane lane)) (jseq (getOrCreateEvmState (evm_key lane))
     (indexEvmLaneByAccount lane (evm_key lane)))"
  from run obtain x1 s1 s2 s3 where pre: "?pre s = (Inr x1, s1)" and refresh: "refreshIfNeeded env lane s1 = (Inr (), s2)"
    and free: "assertLaneNotBlocked env lane s2 = (Inr (), s3)" and take: "takeEvmCandidate env lane operation s3 = (Inr l, t)"
    unfolding reserveEvmNonceLeaseUnlocked_def jseq_ret_iff by auto
  have "jinv (keeps parts_ok) ?pre" by (intro parts.rel_intros parts.inv_expireLane)
  from jinv_keepsD [OF this pre ok] have "parts_ok s1" .
  with refresh have "chain_known s2 lane" by (rule refreshIfNeeded_known)
  with free have "chain_known s3 lane" by (auto simp: chain_known_def notBlocked_state(1))
  from take this show thesis by (rule takeEvm_result) (rule that)
qed

text \<open>The lane lock itself touches only the tick, the trace and the recorded degradations.\<close>

definition quiet :: "coord \<Rightarrow> coord \<Rightarrow> bool" where
  "quiet s t \<longleftrightarrow> leases t = leases s \<and> evmStates t = evmStates s \<and> nearState t = nearState s \<and>
     storeRows t = storeRows s \<and> evmAccountLaneKeys t = evmAccountLaneKeys s \<and>
     droppedReplacedAlerts t = droppedReplacedAlerts s"

lemma quiet_refl [simp]: "quiet s s"
  by (simp add: quiet_def)

lemma quiet_tick [simp]: "quiet s (t\<lparr>tick := n\<rparr>) \<longleftrightarrow> quiet s t"
  by (simp add: quiet_def)

lemma quiet_tick_left [simp]: "quiet (s\<lparr>tick := n\<rparr>) t \<longleftrightarrow> quiet s t"
  by (simp add: quiet_def)

lemma quiet_degraded: "emitCoordinationDegradedOnce reason input s = (r, t) \<Longrightarrow> r = Inr () \<and> quiet s t"
  by (auto simp: emitCoordinationDegradedOnce_def emit_def jm_eval quiet_def split: option.splits)

lemma withLaneLock_cases:
  assumes "withLaneLock env lane m s = (r, t)"
  obtains (runs) u where "m u = (r, t)" "quiet s u" | (refused) e where "r = Inl e" "quiet s t"
proof -
  let ?fail = "\<lambda>e. jseq (emitCoordinationDegradedOnce
                     (if e = DurableLockTimedOut then DurableLockTimeout else DurableStoreError)
                     ((lane_degradation lane)\<lparr>di_fallback := Some NoFallback\<rparr>)) (jthrow e)"
  consider (lock) f where "m (s\<lparr>tick := f\<rparr>) = (r, t)" | (failed) e f where "jthrow e (s\<lparr>tick := f\<rparr>) = (r, t)"
    | (degraded) e f where "?fail e (s\<lparr>tick := f\<rparr>) = (r, t)" | (plain) "m s = (r, t)"
    | (local) "jseq (emitCoordinationDegradedOnce WebLocksUnavailable (lane_degradation lane)) m s = (r, t)"
    using assms by (auto simp: withLaneLock_def jstep jwhen_def split: if_splits option.splits)
  then show thesis
  proof cases
    case (degraded e f)
    then show ?thesis
    proof (cases rule: jseq_cases)
      case (continues x u)
      with quiet_degraded [OF continues(1)] show ?thesis by (intro refused [of e]) (auto simp: jm_apply)
    qed (auto dest: quiet_degraded)
  next
    case local
    then show ?thesis by (cases rule: jseq_cases) (auto dest: quiet_degraded intro: runs)
  qed (auto simp: jm_apply intro: runs refused)
qed

lemma quiet_parts: "quiet s t \<Longrightarrow> parts_ok s \<Longrightarrow> parts_ok t"
  by (simp add: quiet_def parts_ok_def leases_ok_def)

text \<open>
  C11: A reservation on an EVM lane that returns gives a reserved lease of that lane, filed under its id
  with the operation's identity and the lease lifetime. Its nonce is at or past the chain's next
  nonce, belongs to no transaction in flight, and the lane continues at the nonce after it.
\<close>

theorem reserve_evm_result:
  assumes "reserve env (EvmLane lane) operation s = (Inr l, t)" and "parts_ok s"
  shows "\<exists>n st c. slot l = EvmSlot lane n \<and> lease_state l = Reserved \<and>
           operationId l = op_operationId operation \<and> operationFingerprint l = op_operationFingerprint operation \<and>
           expiresAtMs l = reservedAtMs l + env_leaseTtlMs env \<and> map_of (leases t) (leaseId l) = Some l \<and>
           map_of (evmStates t) (nonceLaneKey (EvmLane lane)) = Some st \<and> chainNonce st = Some c \<and> c \<le> n \<and>
           nextCandidate st = Some (n + 1) \<and> n \<notin> fst ` set (inFlight st)"
proof -
  from assms obtain u where run: "reserveEvmNonceLeaseUnlocked env lane operation u = (Inr l, t)" and "quiet s u"
    by (auto simp: reserve_def elim: withLaneLock_cases)
  with assms(2) have "parts_ok u" by (blast intro: quiet_parts)
  from run this show ?thesis by (rule reserveEvm_result) (auto simp: fresh_evm_lease_def)
qed

theorem reserve_evm_result_witness:
  "\<exists>st c. map_of (evmStates after_reserve) (nonceLaneKey (EvmLane example_evm_lane)) = Some st \<and>
     chainNonce st = Some c \<and> c \<le> 7 \<and> nextCandidate st = Some 8"
  using reserve_evm_result [OF example_reserve parts_ok_initial] by (auto simp: rows_ok_def example_lease_def fresh_evm_lease_def)

section \<open>Batches of NEAR nonces\<close>

lemma storeReserved_near: "storeReservedLease env l s = (r, t) \<Longrightarrow> nearState t = nearState s"
proof -
  let ?m = "jseq (persistCoordinationLease env l DurableReserved (expiresAtMs l)) (emit (lease_reserved_event l))"
  assume "storeReservedLease env l s = (r, t)"
  then have "?m (s\<lparr>leases := AList.update (leaseId l) l (leases s)\<rparr>) = (r, t)"
    by (simp add: storeReservedLease_def jstep)
  from jinvD [OF jinv_jseq [OF frame.R_trans frame.inv_persist frame.inv_emit] this] show ?thesis by simp
qed

lemma storeBatch_leases:
  "jfor ls (storeReservedLease env) s = (Inr x, t) \<Longrightarrow>
   leases t = fold (\<lambda>l. AList.update (leaseId l) l) ls (leases s) \<and> nearState t = nearState s"
proof (induction ls arbitrary: s)
  case (Cons l ls)
  from Cons.prems obtain y u where first: "storeReservedLease env l s = (Inr y, u)"
    and rest: "jfor ls (storeReservedLease env) u = (Inr x, t)"
    by (auto simp: jseq_ret_iff)
  from Cons.IH [OF rest] storeReserved_leases [OF first] storeReserved_near [OF first] show ?case by simp
qed (simp add: jm_apply)

lemma fold_update_other:
  "k \<notin> leaseId ` set ls \<Longrightarrow> map_of (fold (\<lambda>l. AList.update (leaseId l) l) ls m) k = map_of m k"
  by (induction ls arbitrary: m) (auto simp: map_of_update_alist)

lemma fold_update_lookup:
  "distinct (map leaseId ls) \<Longrightarrow> l \<in> set ls \<Longrightarrow>
   map_of (fold (\<lambda>l. AList.update (leaseId l) l) ls m) (leaseId l) = Some l"
  by (induction ls arbitrary: m) (auto simp: map_of_update_alist fold_update_other)

lemma near_leases_run:
  "near_leases env lane operation now1 batch i nonces s = (Inr ls, t) \<Longrightarrow>
   nearState t = nearState s \<and> leases t = leases s \<and> (\<exists>rs. length rs = length nonces \<and>
     map leaseId ls = map2 (createNonceLeaseId ''near'' (op_operationId operation)) nonces rs)"
proof (induction nonces arbitrary: i s ls)
  case (Cons n nonces)
  from Cons.prems obtain rest where
    rest: "near_leases env lane operation now1 batch (i + 1) nonces (s\<lparr>tick := Suc (tick s)\<rparr>) = (Inr rest, t)"
    and ls: "ls = near_lease env lane operation now1 batch n i (env_random env (tick s)) # rest"
    by (auto simp: jstep jbind_ret_iff jm_apply)
  from Cons.IH [OF rest] obtain rs where rs: "length rs = length nonces"
    "map leaseId rest = map2 (createNonceLeaseId ''near'' (op_operationId operation)) nonces rs"
    and same: "nearState t = nearState s" "leases t = leases s"
    by auto
  then show ?case by (auto simp: ls near_lease_def intro!: exI [where x = "env_random env (tick s) # rs"])
qed (simp add: jm_apply)

lemma near_leases_ids:
  assumes "near_leases env lane operation now1 batch i nonces s = (Inr ls, t)" and "distinct nonces"
  shows "distinct (map leaseId ls)"
proof -
  from near_leases_run [OF assms(1)] obtain rs where
    rs: "map leaseId ls = map2 (createNonceLeaseId ''near'' (op_operationId operation)) nonces rs" by blast
  have "distinct (zip nonces rs)" using assms(2) by (rule distinct_zipI1)
  then show ?thesis
    unfolding rs by (auto simp: distinct_map inj_on_def createNonceLeaseId_inject)
qed

text \<open>
  C13: A batch reservation on a NEAR access key that returns gives exactly the requested number of leases
  (at least one), with strictly increasing nonces above every other nonce the access key has reserved;
  each lease is reserved, filed under its id, and its nonce is recorded as reserved.
\<close>

theorem reserve_near_batch_result:
  assumes "reserveBatch env lane operation count s = (Inr ls, t)" and "parts_ok s"
  shows "\<exists>ns. map slot ls = map (\<lambda>n. NearSlot lane (int_str n)) ns \<and> int (length ns) = max 1 count \<and>
           sorted_wrt (<) ns \<and>
           (\<forall>l \<in> set ls. lease_state l = Reserved \<and> map_of (leases t) (leaseId l) = Some l) \<and>
           int_str ` set ns \<subseteq> set (reservedNonces (nearState t)) \<and>
           (\<forall>r. int_str r \<in> set (reservedNonces (nearState t)) \<longrightarrow> r \<in> set ns \<or> (\<forall>n \<in> set ns. r < n))"
proof -
  let ?count = "max 1 (if count = 0 then 1 else count)"
  from assms(1) obtain u where run: "reserveNearNonceBatchUnlocked env lane operation count u = (Inr ls, t)" and "quiet s u"
    by (auto simp: reserveBatch_def elim: withLaneLock_cases)
  with assms(2) have u: "parts_ok u" by (blast intro: quiet_parts)
  from run obtain x v nonces w a b c w' x' w'' where
    exp: "expireDueLeasesForLockedLane env (NearLane lane) u = (Inr x, v)"
    and res: "reserveNearNonces env lane ?count v = (Inr nonces, w)" and len: "int (length nonces) = ?count"
    and mk: "near_leases env lane operation a b 0 nonces (w\<lparr>tick := c\<rparr>) = (Inr ls, w')"
    and st: "jfor ls (storeReservedLease env) w' = (Inr x', t)"
    by (auto simp: reserveNearNonceBatchUnlocked_def Let_def jseq_ret_iff jbind_ret_iff jstep jm_apply now_def ask_def
        split: if_splits)
  have "parts_ok v" by (rule jinv_keepsD [OF parts.inv_expireLane exp u])
  then obtain ns where ns: "nonces = map int_str ns" "sorted_wrt (<) ns"
      "\<And>r. int_str r \<in> set (reservedNonces (nearState w)) \<Longrightarrow> r \<in> set ns \<or> (\<forall>n \<in> set ns. r < n)"
      "set nonces \<subseteq> set (reservedNonces (nearState w))"
    by (auto elim!: reserveNearNonces_free [OF res])
  have near: "nearState t = nearState w"
    using near_leases_run [OF mk] storeBatch_leases [OF st] by simp
  have "distinct ns" using ns(2) strict_sorted_iff by blast
  then have ids: "distinct (map leaseId ls)"
    using ns(1) by (intro near_leases_ids [OF mk]) (simp add: distinct_map inj_on_def)
  have "map_of (leases t) (leaseId l) = Some l" if "l \<in> set ls" for l
    using storeBatch_leases [OF st] fold_update_lookup [OF ids that] by simp
  with near_leases_slots [OF mk] ns len near show ?thesis
    by (intro exI [where x = ns]) auto
qed

theorem reserve_near_batch_result_witness: "\<exists>ns. map slot near_batch = map (\<lambda>n. NearSlot example_near_lane (int_str n)) ns \<and>
    length ns = 2 \<and> sorted_wrt (<) ns"
  using reserve_near_batch_result [OF example_near_batch near_ready_coord_ok] by auto

end
