(* ===== verification/CoordinatorProperties.thy ===== *)
theory CoordinatorProperties
  imports ReserveResults
begin

text \<open>
  The guarantees of the nonce coordinator over every sequence of calls, and the behaviour of its
  operations, errors included.
\<close>

section \<open>Over every sequence of calls\<close>

text \<open>
  C1: Whatever methods are called in whatever order, whatever the chain, the clock, the random
  identifiers, the locks and the store answer, and whatever other runtimes write into the shared store: two
  leases of one EVM lane that both still hold their nonce (reserved, signed or broadcast) never hold
  the same nonce.
\<close>

theorem evm_nonces_exclusive:
  assumes "coord_reach (\<lambda>op. True) env s"
  shows "distinct (claims_in [''evm''] (leases s))"
  using assms by (rule evm_distinct_reach)

lemma rows_ok_Nil: "rows_ok []"
  by (simp add: rows_ok_def)

lemma two_reserved_reach: "allowed (OpReserve (EvmLane example_evm_lane) example_operation) \<Longrightarrow> coord_reach allowed example_env two_reserved"
  unfolding two_reserved_def by (intro reach_call reach_initial rows_ok_Nil)

theorem evm_nonces_exclusive_witness: "distinct (claims_in [''evm''] (leases two_reserved))"
  by (rule evm_nonces_exclusive) (rule two_reserved_reach, simp)

text \<open>
  C2: The same on NEAR access keys, as long as no replacement of a pending transaction is requested:
  \<open>reserveNearReplacementContext\<close> is the one operation whose purpose is to reuse a nonce.
\<close>

theorem near_nonces_exclusive:
  assumes "coord_reach (\<lambda>op. \<not> replaces op) env s"
  shows "distinct (claims_in [''near''] (leases s))"
  using assms by (rule near_distinct_reach)

theorem near_nonces_exclusive_witness:
  "distinct (claims_in [''near''] (leases near_reserved)) \<and>
   map snd (claims_in [''near''] (leases near_reserved)) = [Some 41, Some 42, Some 43]"
proof -
  have "coord_reach (\<lambda>op. \<not> replaces op) local_env near_reserved"
    unfolding near_reserved_def by (intro reach_call reach_initial rows_ok_Nil) simp_all
  from near_nonces_exclusive [OF this] near_reserved_claims show ?thesis by blast
qed

text \<open>
  C15: Every reachable coordinator is well formed: its lease map is keyed by lease id without
  duplicates, every in-flight entry of an EVM lane is filed under its own nonce, the reserved NEAR
  nonces are canonical and the last of them is their maximum, and the rows of the store carry their keys.
\<close>

theorem coordinator_well_formed:
  assumes "coord_reach allowed env s"
  shows "parts_ok s"
  using assms by (rule parts_ok_reach)

theorem coordinator_well_formed_witness: "parts_ok two_reserved"
  by (rule coordinator_well_formed [where allowed = "\<lambda>_. True"]) (rule two_reserved_reach, simp)

text \<open>
  The outcome metrics of a coordinator are exactly the outcome events of its trace, in order: no
  operation changes a lease's fate without the metrics seeing it, and none is counted twice.
\<close>

theorem metrics_match_trace:
  assumes "coord_reach allowed env s"
  shows "outcomeMetricEvents s = foldl appendOutcomeMetricEvent [] (trace s)"
proof -
  have "metrics_replay_trace s" using assms
  proof (induction rule: coord_reach.induct)
    case (reach_call s op)
    then show ?case using metrics.inv_exec [of s env op] by (simp add: keeps_def)
  qed (simp_all add: metrics_replay_trace_def initial_coord_def)
  then show ?thesis by (simp add: metrics_replay_trace_def)
qed

theorem metrics_match_trace_witness:
  "outcomeMetricEvents two_reserved = foldl appendOutcomeMetricEvent [] (trace two_reserved)"
  by (rule metrics_match_trace [where allowed = "\<lambda>_. True"]) (rule two_reserved_reach, simp)

section \<open>Calls on a lease\<close>

text \<open>The lease id, operation id and fingerprint that a call on a lease presents.\<close>

fun lease_call :: "coord_op \<Rightarrow> (string \<times> string \<times> string) option" where
  "lease_call (OpMarkSigned lid i f _) = Some (lid, i, f)"
| "lease_call (OpAccepted lid i f _) = Some (lid, i, f)"
| "lease_call (OpRejected lid i f _) = Some (lid, i, f)"
| "lease_call (OpFinalized lid i f _) = Some (lid, i, f)"
| "lease_call (OpDroppedOrReplaced lid i f _ _) = Some (lid, i, f)"
| "lease_call (OpRelease lid i f _) = Some (lid, i, f)"
| "lease_call _ = None"

definition owns_lease :: "coord \<Rightarrow> string \<times> string \<times> string \<Rightarrow> bool" where
  "owns_lease s call =
     (case call of (lid, i, f) \<Rightarrow>
        (case map_of (leases s) (js_trim lid) of
           None \<Rightarrow> False
         | Some l \<Rightarrow> operationId l = js_trim i \<and> operationFingerprint l = js_trim f))"

lemma foreign_read:
  assumes "normalizeLeaseOperationInput lid i f = Inr input" and "\<not> owns_lease s (lid, i, f)"
  shows "\<exists>e. readLease input s = (Inl e, s)"
  using assms
  by (auto simp: normalizeLeaseOperationInput_def normalizeSessionStatusRequiredString_def Let_def readLease_def
      lookupLease_def owns_lease_def assertOperationMatches_def jm_eval split: if_splits sum.splits option.splits)

lemma foreign_locked: "\<not> owns_lease s (lid, i, f) \<Longrightarrow> snd (withLockedLease env lid i f body s) = s"
  by (cases "normalizeLeaseOperationInput lid i f")
     (auto simp: withLockedLease_def jm_eval dest: foreign_read)

text \<open>
  C5: A call on a lease that does not present the operation id and the fingerprint the lease was
  reserved with, or that names no lease, changes nothing at all: no other operation can sign,
  broadcast, settle or release a lease it does not own.
\<close>

theorem foreign_call_changes_nothing:
  assumes "lease_call op = Some call" and "\<not> owns_lease s call"
  shows "coord_exec env op s = s"
proof -
  have "snd (markDroppedOrReplaced env lid i f reason h s) = s" if "\<not> owns_lease s (lid, i, f)" for lid i f reason h
    using that by (cases "normalizeLeaseOperationInput lid i f")
      (auto simp: markDroppedOrReplaced_def Let_def jm_eval dest: foreign_read)
  with assms show ?thesis
    by (cases op) (auto simp: markSigned_def markBroadcastAccepted_def markBroadcastRejected_def markFinalized_def
        release_def foreign_locked)
qed

definition held_lease :: NonceLease where
  "held_lease =
     \<lparr>leaseId = ''L1'', slot = EvmSlot example_evm_lane 7, operationId = ''op-1'', operationFingerprint = ''fp-1'',
      lease_state = Signed, reservedAtMs = 1000, expiresAtMs = 301000, batchId = None, txIndex = None\<rparr>"

definition holding :: coord where
  "holding = (initial_coord [])\<lparr>leases := [(''L1'', held_lease)]\<rparr>"

theorem foreign_call_changes_nothing_witness:
  "coord_exec example_env (OpRelease ''L1'' ''op-2'' ''fp-1'' Cancelled) holding = holding"
  by (rule foreign_call_changes_nothing [OF lease_call.simps(6)])
     (simp add: owns_lease_def holding_def held_lease_def js_trim_def js_whitespace_def)

text \<open>
  C4: A lease never changes hands. Under every call that does not reserve, each lease present
  afterwards was there before with the same lane, nonce, operation and reservation time, and its
  state came from its previous state by transitions the lease state machine allows.
\<close>

theorem leases_move_lawfully:
  assumes "parts_ok s" and "\<not> reserving op" and "map_of (leases (coord_exec env op s)) k = Some l'"
  shows "\<exists>l. map_of (leases s) k = Some l \<and> leaseId l' = leaseId l \<and> slot l' = slot l \<and>
           operationId l' = operationId l \<and> operationFingerprint l' = operationFingerprint l \<and>
           reservedAtMs l' = reservedAtMs l \<and> (\<exists>ts. lease_state l' = lease_history (lease_state l) ts)"
  using evolve.inv_exec_not_reserving [OF assms(2), of s env] assms(1,3)
  by (auto simp: evolve_rel_def leases_evolve_def lease_evolves_def parts_ok_def)

lemma holding_ok: "parts_ok holding"
  by (simp add: parts_ok_def leases_ok_def holding_def held_lease_def initial_coord_def rows_ok_def)

theorem leases_move_lawfully_witness:
  "\<exists>l ts. map_of (leases holding) ''L1'' = Some l \<and> slot l = slot held_lease \<and> lease_state held_lease = lease_history (lease_state l) ts"
proof -
  have "map_of (leases (coord_exec example_env OpClearNear holding)) ''L1'' = Some held_lease"
    by (simp add: clearNearAccessKey_def jm_apply holding_def is_near_lease_def held_lease_def)
  from leases_move_lawfully [OF holding_ok _ this] show ?thesis by auto
qed

section \<open>What a successful call does\<close>

text \<open>Exactly the lease \<open>k\<close> makes the transition \<open>tr\<close>; its expiry may be extended.\<close>

definition moved :: "coord \<Rightarrow> coord \<Rightarrow> string \<Rightarrow> NonceLeaseTransition \<Rightarrow> bool" where
  "moved s t k tr \<longleftrightarrow>
     (\<exists>l st x. map_of (leases s) k = Some l \<and> reduceNonceLeaseState (lease_state l) tr = Inr st \<and>
        map_of (leases t) = (map_of (leases s))(k \<mapsto> l\<lparr>lease_state := st, expiresAtMs := x\<rparr>))"

lemma moved_frame: "moved s t k tr \<Longrightarrow> leases s' = leases s \<Longrightarrow> leases t' = leases t \<Longrightarrow> moved s' t' k tr"
  by (simp add: moved_def)

lemma transition_moved:
  assumes "transitionLease k tr ev reason h x s = (r, t)"
  shows "(r = Inr () \<and> moved s t k tr) \<or> ((\<exists>e. r = Inl e) \<and> leases t = leases s)"
proof (cases "map_of (leases s) k")
  case None
  with assms show ?thesis by (auto simp: transitionLease_def lookupLease_def jm_eval)
next
  case (Some l)
  show ?thesis
  proof (cases "reduceNonceLeaseState (lease_state l) tr")
    case (Inl e)
    with assms Some show ?thesis by (auto simp: transitionLease_def lookupLease_def jm_eval)
  next
    case (Inr st)
    then have "moved s t k tr \<and> r = Inr ()"
      using assms Some
      by (auto simp: transitionLease_def lookupLease_def jm_eval Let_def emit_def moved_def map_of_map_entry)
    then show ?thesis by simp
  qed
qed

lemma readLease_Inr:
  "readLease (k, i, f) s = (Inr l, t) \<Longrightarrow> map_of (leases s) (js_trim k) = Some l \<and> t = s"
  by (auto simp: readLease_def lookupLease_def normalizeSessionStatusRequiredString_def Let_def jbind_ret_iff
      jseq_ret_iff jm_apply split: if_splits option.splits)

text \<open>A computation that either moves the lease \<open>k\<close> and returns, or throws and leaves every lease alone.\<close>

definition settles :: "string \<Rightarrow> NonceLeaseTransition \<Rightarrow> unit cm \<Rightarrow> bool" where
  "settles k tr m \<longleftrightarrow>
     (\<forall>s r t. m s = (r, t) \<longrightarrow> (r = Inr () \<and> moved s t k tr) \<or> ((\<exists>e. r = Inl e) \<and> leases t = leases s))"

lemma settlesD:
  assumes "settles k tr m" and "m s = (r, t)"
  obtains "r = Inr ()" "moved s t k tr" | e where "r = Inl e" "leases t = leases s"
  using assms unfolding settles_def by blast

lemma settles_transition: "settles k tr (transitionLease k tr ev reason h x)"
  unfolding settles_def using transition_moved by blast

lemma settles_jseq:
  assumes "jinv (\<lambda>s t. leases t = leases s) m" and "settles k tr n"
  shows "settles k tr (jseq m n)"
  unfolding settles_def
proof (intro allI impI)
  fix s r t
  assume "jseq m n s = (r, t)"
  then show "(r = Inr () \<and> moved s t k tr) \<or> ((\<exists>e. r = Inl e) \<and> leases t = leases s)"
  proof (cases rule: jseq_cases)
    case (throws e)
    with same_leasesD [OF assms(1) throws(1)] show ?thesis by simp
  next
    case (continues x u)
    have u: "leases u = leases s" by (rule same_leasesD [OF assms(1) continues(1)])
    from settlesD [OF assms(2) continues(2)] u show ?thesis by (metis moved_frame)
  qed
qed

lemma settles_then:
  assumes "settles k tr m" and "jinv (\<lambda>s t. leases t = leases s) n" and "\<And>s. \<exists>t. n s = (Inr (), t)"
  shows "settles k tr (jseq m n)"
  unfolding settles_def
proof (intro allI impI)
  fix s r t
  assume "jseq m n s = (r, t)"
  then show "(r = Inr () \<and> moved s t k tr) \<or> ((\<exists>e. r = Inl e) \<and> leases t = leases s)"
  proof (cases rule: jseq_cases)
    case (throws e)
    then show ?thesis using assms(1) by (auto elim: settlesD)
  next
    case (continues x u)
    from assms(3) [of u] continues(2) have "r = Inr ()" by auto
    moreover have "leases t = leases u" by (rule same_leasesD [OF assms(2) continues(2)])
    moreover from continues(1) assms(1) have "moved s u k tr" by (auto elim: settlesD)
    ultimately show ?thesis by (auto intro: moved_frame)
  qed
qed

lemma normalized_call: "normalizeLeaseOperationInput lid i f = Inr input \<Longrightarrow> input = (js_trim lid, js_trim i, js_trim f)"
  by (auto simp: normalizeLeaseOperationInput_def normalizeSessionStatusRequiredString_def Let_def
      split: if_splits sum.splits)

lemma settles_locked:
  assumes body: "\<And>l. settles (leaseId l) tr (body l)" and ok: "leases_ok s"
    and run: "withLockedLease env lid i f body s = (r, t)"
  shows "(r = Inr () \<and> moved s t (js_trim lid) tr) \<or> ((\<exists>e. r = Inl e) \<and> leases t = leases s)"
proof (cases "normalizeLeaseOperationInput lid i f")
  case (Inl e)
  with run show ?thesis by (auto simp: withLockedLease_def jm_eval)
next
  case (Inr input)
  then have input: "input = (js_trim lid, js_trim i, js_trim f)" by (rule normalized_call)
  have same: "jinv (\<lambda>s t. leases t = leases s) (readLease c)" for c by (rule same_leases.inv_readLease)
  from run Inr have "jbind (readLease input) (\<lambda>l. withLaneLock env (lease_lane l) (jbind (readLease input) body)) s = (r, t)"
    by (simp add: withLockedLease_def jbind_apply [of "jlift _"] jm_apply)
  then show ?thesis
  proof (cases rule: jbind_cases)
    case (throws e)
    with same_leasesD [OF same throws(1)] show ?thesis by simp
  next
    case (continues l u)
    from readLease_Inr [OF continues(1) [unfolded input]] have "u = s" by simp
    with continues(2) have "withLaneLock env (lease_lane l) (jbind (readLease input) body) s = (r, t)" by simp
    then show ?thesis
    proof (cases rule: withLaneLock_cases)
      case (refused e)
      then show ?thesis by (simp add: quiet_def)
    next
      case (runs v)
      then have v: "leases v = leases s" by (simp add: quiet_def)
      from runs(1) show ?thesis
      proof (cases rule: jbind_cases)
        case (throws e)
        with same_leasesD [OF same throws(1)] v show ?thesis by simp
      next
        case (continues m w)
        from readLease_Inr [OF continues(1) [unfolded input]] v
        have m: "map_of (leases s) (js_trim lid) = Some m" and w: "w = v" by simp_all
        with ok have "leaseId m = js_trim lid" by (auto simp: leases_ok_def dest!: map_of_SomeD)
        with settlesD [OF body continues(2)] v w show ?thesis by (metis moved_frame)
      qed
    qed
  qed
qed

definition settled :: "coord \<Rightarrow> string \<Rightarrow> NonceLeaseTransition \<Rightarrow> ('e + unit) \<times> coord \<Rightarrow> bool" where
  "settled s k tr result =
     (case result of (Inr _, t) \<Rightarrow> moved s t k tr | (Inl _, t) \<Rightarrow> leases t = leases s)"

lemma settledI:
  "(\<And>r t. result = (r, t) \<Longrightarrow> (r = Inr () \<and> moved s t k tr) \<or> ((\<exists>e. r = Inl e) \<and> leases t = leases s)) \<Longrightarrow>
   settled s k tr result"
  by (cases result) (fastforce simp: settled_def)

lemmas same_intros = same_leases.prim_intros same_leases.inv_releaseBackend same_leases.inv_markEvmAccepted
  same_leases.inv_markEvmFinalized same_leases.inv_markEvmOutcome same_leases.inv_persist
  same_leases.inv_removeCoordinationLease same_leases.inv_refreshNear same_leases.inv_updateNear
  same_leases.inv_liftNear near_state_ok_accepted

lemma settled_release: "leases_ok s \<Longrightarrow> settled s (js_trim lid) TRelease (release env lid i f reason s)"
  unfolding release_def
  by (rule settledI, erule settles_locked [rotated 2]) (intro settles_jseq settles_transition same_intros)+

lemma settled_accepted: "leases_ok s \<Longrightarrow> settled s (js_trim lid) TBroadcastAccepted (markBroadcastAccepted env lid i f h s)"
  unfolding markBroadcastAccepted_def
  by (rule settledI, erule settles_locked [rotated 2]) (intro settles_jseq settles_transition same_intros)+

lemma settled_rejected: "leases_ok s \<Longrightarrow> settled s (js_trim lid) TBroadcastRejected (markBroadcastRejected env lid i f e s)"
  unfolding markBroadcastRejected_def
  by (rule settledI, erule settles_locked [rotated 2]) (intro settles_jseq settles_transition same_intros)+

lemma settled_finalized: "leases_ok s \<Longrightarrow> settled s (js_trim lid) TFinalize (markFinalized env lid i f h' s)"
  unfolding markFinalized_def
  by (rule settledI, erule settles_locked [rotated 2]) (intro settles_jseq settles_transition same_intros)+

text \<open>
  C14: Releasing a lease and reporting its broadcast as accepted, rejected or finalized either succeeds,
  and then exactly the named lease makes that transition and every other lease is as before, or
  throws, and then no lease has changed: the lease is moved last, after everything that can fail.
\<close>

theorem lease_calls_settle:
  assumes "parts_ok s"
  shows "settled s (js_trim lid) TRelease (release env lid i f reason s) \<and>
         settled s (js_trim lid) TBroadcastAccepted (markBroadcastAccepted env lid i f h s) \<and>
         settled s (js_trim lid) TBroadcastRejected (markBroadcastRejected env lid i f e s) \<and>
         settled s (js_trim lid) TFinalize (markFinalized env lid i f h' s)"
  using assms by (simp add: parts_ok_def settled_release settled_accepted settled_rejected settled_finalized)

theorem lease_calls_settle_witness: "settled holding ''L1'' TRelease (release example_env ''L1'' ''op-1'' ''fp-1'' Cancelled holding)"
  using lease_calls_settle [OF holding_ok, of "''L1''" example_env "''op-1''" "''fp-1''" Cancelled]
  by (simp add: js_trim_def js_whitespace_def)

end
