(* ===== verification/ReserveProgress.thy ===== *)
theory ReserveProgress
  imports ReserveResults
begin

text \<open>
  When a reservation on an EVM lane is certain to return: the locks are granted, the chain answers and
  nothing is in flight. A durable store that is missing or fails does not stop it.
\<close>

section \<open>Code that does not throw\<close>

definition jtotal :: "('s, 'e, 'a) jsm \<Rightarrow> bool" where
  "jtotal m \<longleftrightarrow> (\<forall>s. \<exists>x t. m s = (Inr x, t))"

named_theorems jtotal_intros \<open>rules for code that does not throw\<close>

lemma jtotal_basic [jtotal_intros]:
  "jtotal (jret x)" "jtotal (jget f)" "jtotal (jmod g)" "jtotal (jlift (Inr y))"
  by (simp_all add: jtotal_def jm_apply)

lemma jtotal_bind [jtotal_intros]:
  assumes "jtotal m" and "\<And>x. jtotal (f x)"
  shows "jtotal (jbind m f)"
  unfolding jtotal_def
proof
  fix s
  from assms(1) obtain x t where "m s = (Inr x, t)" unfolding jtotal_def by blast
  with assms(2) [of x] show "\<exists>y u. jbind m f s = (Inr y, u)" by (simp add: jtotal_def jm_eval)
qed

lemma jtotal_seq [jtotal_intros]: "jtotal m \<Longrightarrow> jtotal n \<Longrightarrow> jtotal (jseq m n)"
  by (simp add: jseq_def jtotal_bind)

lemma jtotal_catch [jtotal_intros]: "(\<And>e. jtotal (h e)) \<Longrightarrow> jtotal (jcatch m h)"
  unfolding jtotal_def
proof
  fix s
  assume h: "\<And>e. \<forall>s. \<exists>x t. h e s = (Inr x, t)"
  obtain r t where "m s = (r, t)" by (cases "m s")
  then show "\<exists>x t. jcatch m h s = (Inr x, t)" using h by (cases r) (simp_all add: jm_eval)
qed

lemma jtotal_cases [jtotal_intros]:
  "(b \<Longrightarrow> jtotal m) \<Longrightarrow> (\<not> b \<Longrightarrow> jtotal n) \<Longrightarrow> jtotal (if b then m else n)"
  "jtotal m \<Longrightarrow> jtotal (jwhen b (m :: ('s, 'e, unit) jsm))"
  by (simp_all add: jwhen_def jtotal_basic)

lemma jtotal_option [jtotal_intros]:
  "jtotal n \<Longrightarrow> (\<And>x. jtotal (f x)) \<Longrightarrow> jtotal (case v of None \<Rightarrow> n | Some x \<Rightarrow> f x)"
  by (cases v) simp_all

lemma jtotal_store [jtotal_intros]:
  "jtotal u \<Longrightarrow> jtotal n \<Longrightarrow> (\<And>b. jtotal (f b)) \<Longrightarrow>
   jtotal (case c of StoreUndefined \<Rightarrow> u | StoreNull \<Rightarrow> n | StorePresent b \<Rightarrow> f b)"
  by (cases c) simp_all

lemma jtotalD:
  assumes "jtotal m"
  obtains x t where "m s = (Inr x, t)"
  using assms unfolding jtotal_def by blast

section \<open>The steps of a reservation\<close>

lemma total_ask [jtotal_intros]: "jtotal (ask f)"
  by (simp add: jtotal_def ask_def)

lemma total_now [jtotal_intros]: "jtotal (now env)"
  by (simp add: now_def total_ask)

lemma total_degraded [jtotal_intros]: "jtotal (emitCoordinationDegradedOnce reason input)"
  unfolding emitCoordinationDegradedOnce_def emit_def
  by (intro jtotal_intros) (simp add: case_prod_beta jtotal_intros)

lemma total_storeMissing [jtotal_intros]: "jtotal (degradedStoreMissing env input)"
  unfolding degradedStoreMissing_def by (intro jtotal_intros)

lemma total_readLane [jtotal_intros]: "jtotal (readCoordinationLaneRecords env lkey lane)"
  unfolding readCoordinationLaneRecords_def by (intro jtotal_intros)

lemma total_addActive [jtotal_intros]: "jtotal (addActiveRecords env fam c x ps active)"
  by (induction ps arbitrary: active) (auto intro!: jtotal_intros)

lemma total_readActiveEvm [jtotal_intros]: "jtotal (readActiveEvmLeaseNonces env lkey c x lane)"
  unfolding readActiveEvmLeaseNonces_def by (intro jtotal_intros)

lemma total_evm_state [jtotal_intros]:
  "jtotal (getOrCreateEvmState lkey)" "jtotal (updateEvmState lkey f)" "jtotal (indexEvmLaneByAccount lane lkey)"
  by (simp_all add: updateEvmState_def indexEvmLaneByAccount_def jtotal_basic)
     (simp add: jtotal_def getOrCreateEvmState_def split: prod.split)

lemma total_shouldRefresh [jtotal_intros]: "jtotal (shouldRefreshEvmLaneLocked env lkey st lane)"
  unfolding shouldRefreshEvmLaneLocked_def by (intro jtotal_intros) (simp add: jtotal_intros split: sum.split)

text \<open>The chain answers every query for the nonce of the lane.\<close>

definition chain_answers :: "coord_env \<Rightarrow> EvmNonceLane \<Rightarrow> bool" where
  "chain_answers env lane \<longleftrightarrow> (\<forall>k. \<exists>c. env_fetchChainNonce env k (evmLaneToReserveNonceInput lane) = Inr c)"

lemma total_refresh:
  assumes "chain_answers env lane"
  shows "jtotal (refreshEvmLaneFromChainLocked env lane)"
proof -
  have "jtotal (ask_rpc (\<lambda>k. env_fetchChainNonce env k (evmLaneToReserveNonceInput lane)))"
    unfolding jtotal_def
  proof
    fix s :: coord
    from assms obtain c where "env_fetchChainNonce env (tick s) (evmLaneToReserveNonceInput lane) = Inr c"
      by (auto simp: chain_answers_def)
    then show "\<exists>x t. ask_rpc (\<lambda>k. env_fetchChainNonce env k (evmLaneToReserveNonceInput lane)) s = (Inr x, t)"
      by (simp add: ask_rpc_def ask_def jm_eval)
  qed
  then show ?thesis unfolding refreshEvmLaneFromChainLocked_def Let_def by (intro jtotal_intros)
qed

lemma total_refreshIfNeeded: "chain_answers env lane \<Longrightarrow> jtotal (refreshIfNeeded env lane)"
  unfolding refreshIfNeeded_def Let_def by (intro jtotal_intros total_refresh)

lemma total_storeReserved:
  assumes "slot l = EvmSlot lane n"
  shows "jtotal (storeReservedLease env l)"
proof -
  have "\<exists>r. buildCoordinationRecord l DurableReserved exp upd runtime = Inr r" for exp upd runtime
    using assms by (simp add: buildCoordinationRecord_def buildEvmCoordinationRecord_def)
  then have "jtotal (jlift (buildCoordinationRecord l DurableReserved exp upd runtime))" for exp upd runtime
    by (metis jtotal_basic(4))
  then show ?thesis
    unfolding storeReservedLease_def set_lease_def persistCoordinationLease_def persistCoordinationRecord_def emit_def
    by (intro jtotal_intros)
qed

lemma total_takeEvm: "jtotal (takeEvmCandidate env lane operation)"
  unfolding takeEvmCandidate_def Let_def
  by (intro jtotal_intros total_storeReserved [where lane = lane]) simp

section \<open>An idle lane\<close>

definition lane_unused :: "EvmNonceLane \<Rightarrow> coord \<Rightarrow> bool" where
  "lane_unused lane s \<longleftrightarrow> (\<forall>(k, l) \<in> set (leases s). nonceLaneKey (lease_lane l) \<noteq> evm_key lane)"

definition nothing_in_flight :: "EvmNonceLane \<Rightarrow> coord \<Rightarrow> bool" where
  "nothing_in_flight lane s \<longleftrightarrow> (\<forall>st. map_of (evmStates s) (evm_key lane) = Some st \<longrightarrow> inFlight st = [])"

lemma expire_unused:
  assumes "lane_unused lane s"
  shows "expireDueLeasesForLockedLane env (EvmLane lane) s = (Inr [], s\<lparr>tick := Suc (tick s)\<rparr>)"
proof -
  have "filter (\<lambda>(k, l). nonceLaneKey (lease_lane l) = evm_key lane) (leases s) = []"
    using assms by (auto simp: filter_empty_conv lane_unused_def)
  then show ?thesis by (simp add: expireDueLeasesForLockedLane_def now_def ask_def jm_eval)
qed

abbreviation flight_kept :: "EvmNonceLane \<Rightarrow> coord \<Rightarrow> coord \<Rightarrow> bool" where
  "flight_kept lane \<equiv> keeps (nothing_in_flight lane)"

lemma flight_frame: "jinv (\<lambda>s t. leases t = leases s \<and> evmStates t = evmStates s \<and> nearState t = nearState s \<and>
    evmAccountLaneKeys t = evmAccountLaneKeys s) m \<Longrightarrow> jinv (flight_kept lane) m"
  by (erule jinv_mono) (simp add: keeps_def nothing_in_flight_def)

lemma flight_getOrCreate: "jinv (flight_kept lane) (getOrCreateEvmState lkey)"
  by (rule jinvI)
     (auto simp: getOrCreateEvmState_def keeps_def nothing_in_flight_def getOrCreateEvmNonceLaneState_def
       map_of_update_alist createEvmNonceLaneState_def split: option.splits if_splits)

lemma flight_index: "jinv (flight_kept lane) (indexEvmLaneByAccount lane' lkey)"
  unfolding indexEvmLaneByAccount_def by (intro jinv_intros) (simp add: nothing_in_flight_def)

lemma refresh_idle: "inFlight st = [] \<Longrightarrow> inFlight (refreshEvmLaneFromChain st a b c) = []"
  by (simp add: refreshEvmLaneFromChain_def Let_def)

lemma flight_refresh: "jinv (flight_kept lane) (refreshEvmLaneFromChainLocked env lane')"
proof -
  have "jinv (flight_kept lane) (updateEvmState k (\<lambda>st. refreshEvmLaneFromChain st a b c))" for k a b c
    unfolding updateEvmState_def
    by (intro jinv_jmod_keeps) (auto simp: nothing_in_flight_def map_of_map_entry refresh_idle split: if_splits option.splits)
  then show ?thesis
    unfolding refreshEvmLaneFromChainLocked_def Let_def
    by (intro jinv_intros keeps_refl keeps_trans flight_frame [OF frame.inv_now] flight_frame [OF frame.inv_ask_rpc]
        flight_frame [OF frame.inv_readActiveEvm])
qed

lemma flight_refreshIfNeeded: "jinv (flight_kept lane) (refreshIfNeeded env lane')"
  unfolding refreshIfNeeded_def Let_def
  by (intro jinv_intros keeps_refl keeps_trans flight_getOrCreate flight_frame [OF frame.inv_shouldRefresh] flight_refresh)

lemma not_blocked_idle:
  assumes "nothing_in_flight lane s"
  obtains t where "assertLaneNotBlocked env lane s = (Inr (), t)"
proof -
  let ?st = "fst (getOrCreateEvmNonceLaneState (evmStates s) (evm_key lane))"
  have "inFlight ?st = []"
    using assms by (auto simp: nothing_in_flight_def getOrCreateEvmNonceLaneState_def createEvmNonceLaneState_def split: option.split)
  then have "readBlockedEvmInFlight ?st a b = None" for a b by (simp add: readBlockedEvmInFlight_def)
  then show thesis by (intro that) (auto simp: assertLaneNotBlocked_def jstep jm_apply)
qed

lemma withLaneLock_granted:
  assumes "\<forall>k. env_lock env k = None"
  obtains u where "quiet s u" "withLaneLock env lane m s = m u"
proof -
  obtain v where v: "emitCoordinationDegradedOnce WebLocksUnavailable (lane_degradation lane) s = (Inr (), v)" "quiet s v"
    by (metis quiet_degraded surj_pair)
  have "withLaneLock env lane m s \<in> {m (s\<lparr>tick := Suc (tick s)\<rparr>), m v, m s}"
    using assms v(1) by (auto simp: withLaneLock_def ask_def jm_eval jwhen_def)
  moreover have "quiet s (s\<lparr>tick := Suc (tick s)\<rparr>)" by simp
  ultimately show thesis using that v(2) quiet_refl by blast
qed

lemma idle_reserve:
  assumes "lane_unused lane s" and "nothing_in_flight lane s" and "\<forall>k. env_lock env k = None" and "chain_answers env lane"
  shows "\<exists>l t. reserve env (EvmLane lane) operation s = (Inr l, t)"
proof -
  have unlocked: "\<exists>l t. reserveEvmNonceLeaseUnlocked env lane operation u = (Inr l, t)"
    if "lane_unused lane u" "nothing_in_flight lane u" for u
  proof -
    let ?pre = "jseq (getOrCreateEvmState (evm_key lane)) (jseq (indexEvmLaneByAccount lane (evm_key lane)) (refreshIfNeeded env lane))"
    have "jtotal ?pre" by (intro jtotal_intros total_refreshIfNeeded assms(4))
    then obtain x v where pre: "?pre (u\<lparr>tick := Suc (tick u)\<rparr>) = (Inr x, v)" by (rule jtotalD)
    have "jinv (flight_kept lane) ?pre"
      by (rule jinv_jseq [OF keeps_trans flight_getOrCreate jinv_jseq [OF keeps_trans flight_index flight_refreshIfNeeded]])
    moreover have "nothing_in_flight lane (u\<lparr>tick := Suc (tick u)\<rparr>)" using that(2) by (simp add: nothing_in_flight_def)
    ultimately have "nothing_in_flight lane v" using jinv_keepsD pre by metis
    then obtain w where free: "assertLaneNotBlocked env lane v = (Inr (), w)" by (rule not_blocked_idle)
    obtain l t where take: "takeEvmCandidate env lane operation w = (Inr l, t)" by (rule jtotalD [OF total_takeEvm])
    from pre obtain a v1 b v2 where "getOrCreateEvmState (evm_key lane) (u\<lparr>tick := Suc (tick u)\<rparr>) = (Inr a, v1)"
        "indexEvmLaneByAccount lane (evm_key lane) v1 = (Inr b, v2)" "refreshIfNeeded env lane v2 = (Inr x, v)"
      by (auto simp only: jseq_ret_iff)
    with expire_unused [OF that(1)] free take have "reserveEvmNonceLeaseUnlocked env lane operation u = (Inr l, t)"
      by (simp add: reserveEvmNonceLeaseUnlocked_def jseq_apply)
    then show ?thesis by blast
  qed
  have idle: "lane_unused lane t \<and> nothing_in_flight lane t" if "quiet s t" for t
    using that assms(1,2) by (simp add: quiet_def lane_unused_def nothing_in_flight_def)
  obtain u where "quiet s u" "reserve env (EvmLane lane) operation s = reserveEvmNonceLeaseUnlocked env lane operation u"
    unfolding reserve_def NonceLane.case by (rule withLaneLock_granted [OF assms(3)])
  with idle unlocked show ?thesis by metis
qed

text \<open>
  C12: A reservation on an EVM lane without leases and transactions in flight returns a lease whenever the
  lane lock is granted and the chain tells its nonce; a durable store that is missing, or fails at any
  moment, does not stop it.
\<close>

theorem reserve_idle_lane_succeeds:
  assumes "lane_unused lane s" and "nothing_in_flight lane s" and "\<forall>k. env_lock env k = None" and "chain_answers env lane"
  shows "\<exists>l t. reserve env (EvmLane lane) operation s = (Inr l, t)"
  using assms by (rule idle_reserve)

lemma example_chain: "chain_answers (example_env\<lparr>env_runtimeId := r, env_clock := c\<rparr>) lane" "chain_answers example_env lane"
  by (simp_all add: chain_answers_def example_env_def)

lemma initial_idle: "lane_unused lane (initial_coord rows)" "nothing_in_flight lane (initial_coord rows)"
  by (simp_all add: lane_unused_def nothing_in_flight_def initial_coord_def)

theorem reserve_idle_lane_succeeds_witness:
  "\<exists>l t. reserve (example_env\<lparr>env_storeFails := (\<lambda>_. True)\<rparr>) (EvmLane example_evm_lane) example_operation (initial_coord []) = (Inr l, t)"
  by (rule reserve_idle_lane_succeeds [OF initial_idle])
     (simp_all add: chain_answers_def example_env_def)

end
