(* ===== verification/EvmNonceLifecycle.thy ===== *)
theory EvmNonceLifecycle
  imports EvmSigningRequests CoordinatorProperties ReserveProgress
begin

text \<open>
  The nonce lifecycle of EVM-family signing: reserving a managed nonce for a request
  (\<open>evmNonceLifecycle.ts\<close>, \<open>tempoNonceLifecycle.ts\<close>) and reporting what became of the signed transaction
  (\<open>nonceLifecycleAdapter.ts\<close>), with the progress events both emit (\<open>events.ts\<close>). The functions call the nonce
  coordinator; the state is the coordinator's with the log of emitted events.
\<close>

section \<open>State and environment\<close>

text \<open>
  An event handed to \<open>onEvent\<close>: \<open>createWalletFlowEvent\<close> adds the step of the phase and, to a failed event, the
  interaction that hides the overlay.
\<close>

datatype SigningEventPhase =
    BroadcastAcceptedPhase
  | BroadcastRejectedPhase
  | NonceReconcileStarted
  | NonceReconcileSucceeded
  | TransactionDropped
  | TransactionReplaced

fun phase_str :: "SigningEventPhase \<Rightarrow> string" where
  "phase_str BroadcastAcceptedPhase = ''signing.broadcast.accepted''"
| "phase_str BroadcastRejectedPhase = ''signing.broadcast.rejected''"
| "phase_str NonceReconcileStarted = ''signing.nonce.reconcile.started''"
| "phase_str NonceReconcileSucceeded = ''signing.nonce.reconcile.succeeded''"
| "phase_str TransactionDropped = ''signing.transaction.dropped''"
| "phase_str TransactionReplaced = ''signing.transaction.replaced''"

fun phase_step :: "SigningEventPhase \<Rightarrow> nat" where
  "phase_step BroadcastAcceptedPhase = 12"
| "phase_step BroadcastRejectedPhase = 12"
| "phase_step NonceReconcileStarted = 13"
| "phase_step NonceReconcileSucceeded = 13"
| "phase_step TransactionDropped = 13"
| "phase_step TransactionReplaced = 13"

datatype EventStatus = Running | Succeeded | Failed

record lifecycle_event =
  le_walletId :: string
  le_phase :: SigningEventPhase
  le_status :: EventStatus
  le_message :: string
  le_data :: "(string \<times> jsval) list"

record SigningFlowEvent = lifecycle_event +
  fe_flowId :: string
  fe_step :: nat
  fe_hidesOverlay :: bool

record flow =
  fl_coord :: coord
  fl_events :: "SigningFlowEvent list"

text \<open>
  What the flow is given: the coordinator's environment, the configured chains, the wallet's signer
  store, and how the errors of the lower layers read as thrown values. The lane-blocked error of the
  coordinator is an object with a code and details; of the others only that they are thrown matters.
\<close>

record flow_env =
  fe_coord :: coord_env
  fe_chains :: "SeamsChainConfig list"
  fe_activeSigner :: "nat \<Rightarrow> string \<Rightarrow> chain_target \<Rightarrow> js_error + (string \<times> jsval) list option"
  fe_nonceError :: "nonce_error \<Rightarrow> js_error"
  fe_backendMessage :: "backend_error \<Rightarrow> string"

type_synonym 'a fm = "(flow, js_error, 'a) jsm"

definition coordinator_error :: "flow_env \<Rightarrow> EvmNonceLane \<Rightarrow> nonce_error \<Rightarrow> js_error" where
  "coordinator_error env lane e =
     (case e of LaneBlocked n ageMs \<Rightarrow> lane_blocked_object lane n ageMs | _ \<Rightarrow> fe_nonceError env e)"

text \<open>A call of the coordinator about a lane.\<close>

definition coordinator :: "flow_env \<Rightarrow> EvmNonceLane \<Rightarrow> 'a cm \<Rightarrow> 'a fm" where
  "coordinator env lane m =
     (\<lambda>s. case m (fl_coord s) of (r, c) \<Rightarrow> (map_sum (coordinator_error env lane) id r, s\<lparr>fl_coord := c\<rparr>))"

definition backend_result :: "flow_env \<Rightarrow> backend_error + 'a \<Rightarrow> 'a fm" where
  "backend_result env r = jlift (map_sum (\<lambda>e. new_Error (fe_backendMessage env e)) id r)"

section \<open>Events\<close>

text \<open>\<open>String(data[key] || fallback)\<close>.\<close>

definition data_text :: "(string \<times> jsval) list \<Rightarrow> string \<Rightarrow> string \<Rightarrow> string" where
  "data_text fs key fallback =
     (let text = js_String_or_empty (jfield fs key) in if text = [] then fallback else text)"

definition createEvmFamilySigningFlowId :: "'z lifecycle_event_scheme \<Rightarrow> string" where
  "createEvmFamilySigningFlowId event =
     join_with '':'' [''signing'', data_text (le_data event) ''chain'' ''evm_family'',
       data_text (le_data event) ''networkKey'' ''unknown_network'',
       data_text (le_data event) ''nonce'' (phase_str (le_phase event))]"

definition createSigningFlowEvent :: "lifecycle_event \<Rightarrow> string \<Rightarrow> SigningFlowEvent" where
  "createSigningFlowEvent event flowId =
     \<lparr>le_walletId = le_walletId event, le_phase = le_phase event, le_status = le_status event,
      le_message = le_message event, le_data = le_data event, fe_flowId = flowId,
      fe_step = phase_step (le_phase event), fe_hidesOverlay = (le_status event = Failed)\<rparr>"

text \<open>\<open>onEvent\<close> may be absent; an error it throws is dropped.\<close>

definition emitEvmFamilyBroadcastEvent :: "bool \<Rightarrow> lifecycle_event \<Rightarrow> unit fm" where
  "emitEvmFamilyBroadcastEvent onEvent event =
     jwhen onEvent (jmod (\<lambda>s. s\<lparr>fl_events := fl_events s @
       [createSigningFlowEvent event (createEvmFamilySigningFlowId event)]\<rparr>))"

section \<open>Signed results\<close>

text \<open>\<open>managedNonce\<close> is a snapshot, or absent.\<close>

datatype SignedResult =
    EvmSignedResult (txHashHex: string) (rawTxHex: string) (managedNonce: "SnapshotInput option")
  | TempoSignedResult (senderHashHex: string) (rawTxHex: string) (managedNonce: "SnapshotInput option")

definition toEvmFamilyManagedNonceReservationFromSignedResult ::
  "flow_env \<Rightarrow> SignedResult \<Rightarrow> ManagedNonceReservation fm" where
  "toEvmFamilyManagedNonceReservationFromSignedResult env signedResult =
     (case managedNonce signedResult of
        None \<Rightarrow> jthrow (new_Error ''[SigningEngine][evm-family] managedNonce is required for nonce lifecycle'')
      | Some snapshot \<Rightarrow>
          (case fromManagedNonceReservationSnapshot snapshot of
             Inl e \<Rightarrow> jthrow (new_Error (''[SigningEngine][evm-family] invalid managedNonce: '' @ fe_backendMessage env e))
           | Inr parsed \<Rightarrow> jret parsed))"

definition requireManagedNonceLeaseRef :: "ManagedNonceReservation \<Rightarrow> js_error + (string \<times> string \<times> string)" where
  "requireManagedNonceLeaseRef reservation =
     (let lease = js_trim (mr_leaseId reservation);
          opId = js_trim (mr_operationId reservation);
          opFp = js_trim (mr_operationFingerprint reservation)
      in if lease = [] \<or> opId = [] \<or> opFp = []
         then Inl (new_Error ''[SigningEngine][evm-family] managedNonce lease metadata is required'')
         else Inr (lease, opId, opFp))"

definition requireEvmFamilyBroadcastTxHash :: "string option \<Rightarrow> js_error + string" where
  "requireEvmFamilyBroadcastTxHash value =
     (let normalized = js_lower (js_trim (case value of None \<Rightarrow> [] | Some v \<Rightarrow> v))
      in if is_0x_hex 64 normalized then Inr normalized
         else Inl (new_Error ''[SigningEngine][evm-family] broadcast acceptance requires txHash''))"

text \<open>\<open>args.txHash || (signedResult.chain === 'evm' ? signedResult.txHashHex : undefined)\<close>.\<close>

definition reported_txHash :: "string option \<Rightarrow> SignedResult \<Rightarrow> string option" where
  "reported_txHash given signedResult =
     (case Option.bind given opt_of_string of
        Some h \<Rightarrow> Some h
      | None \<Rightarrow> (case signedResult of EvmSignedResult h _ _ \<Rightarrow> Some h | TempoSignedResult _ _ _ \<Rightarrow> None))"

record EvmFamilyNonceLaneStatus =
  ls_chainNextNonce :: string
  ls_unresolvedInFlightNonces :: "string list"
  ls_blocked :: bool
  ls_blockedNonce :: "string option"

definition formatNonceLaneStatus :: "NonceLaneStatus \<Rightarrow> EvmFamilyNonceLaneStatus" where
  "formatNonceLaneStatus status =
     \<lparr>ls_chainNextNonce = int_str (chainNextNonce status),
      ls_unresolvedInFlightNonces = map int_str (unresolvedInFlightNonces status),
      ls_blocked = blocked status, ls_blockedNonce = map_option int_str (blockedNonce status)\<rparr>"

definition lane_status_value :: "EvmFamilyNonceLaneStatus \<Rightarrow> jsval" where
  "lane_status_value status =
     JObj ([(''chainNextNonce'', JStr (ls_chainNextNonce status)),
            (''unresolvedInFlightNonces'', JArr (map JStr (ls_unresolvedInFlightNonces status))),
            (''blocked'', JBool (ls_blocked status))] @
           (case ls_blockedNonce status of None \<Rightarrow> [] | Some n \<Rightarrow> [(''blockedNonce'', JStr n)]))"

text \<open>The parts of an event's data that name the lane and the nonce.\<close>

definition lane_data :: "ManagedNonceReservation \<Rightarrow> (string \<times> jsval) list" where
  "lane_data reservation =
     [(''chain'', JStr (chain_target_kind (in_chainTarget reservation))),
      (''networkKey'', JStr (networkSlug (in_chainTarget reservation))),
      (''chainId'', JStr (int_str (chainId (in_chainTarget reservation))))]"

definition nonce_data :: "ManagedNonceReservation \<Rightarrow> (string \<times> jsval) list" where
  "nonce_data reservation = lane_data reservation @ [(''nonce'', JStr (int_str (mr_nonce reservation)))]"

record lifecycle_args =
  la_walletId :: string
  la_signedResult :: SignedResult
  la_onEvent :: bool

definition report_event ::
  "lifecycle_args \<Rightarrow> SigningEventPhase \<Rightarrow> EventStatus \<Rightarrow> string \<Rightarrow> (string \<times> jsval) list \<Rightarrow> unit fm" where
  "report_event args phase status message data =
     emitEvmFamilyBroadcastEvent (la_onEvent args)
       \<lparr>le_walletId = la_walletId args, le_phase = phase, le_status = status, le_message = message, le_data = data\<rparr>"

section \<open>Reports\<close>

definition releaseEvmFamilyNonceReservation :: "flow_env \<Rightarrow> ManagedNonceReservation \<Rightarrow> unit fm" where
  "releaseEvmFamilyNonceReservation env reservation =
     jbind (jlift (requireManagedNonceLeaseRef reservation)) (\<lambda>(lease, opId, opFp).
       coordinator env (evmManagedReservationToLane reservation) (release (fe_coord env) lease opId opFp SigningFailed))"

definition reportEvmFamilyBroadcastAccepted :: "flow_env \<Rightarrow> lifecycle_args \<Rightarrow> string \<Rightarrow> unit fm" where
  "reportEvmFamilyBroadcastAccepted env args txHash =
     jbind (toEvmFamilyManagedNonceReservationFromSignedResult env (la_signedResult args)) (\<lambda>reservation.
     jseq (report_event args BroadcastAcceptedPhase Running ''Marking managed nonce lane as in-flight'' (nonce_data reservation))
     (jbind (jlift (requireEvmFamilyBroadcastTxHash (reported_txHash (Some txHash) (la_signedResult args)))) (\<lambda>hash.
      jbind (jlift (requireManagedNonceLeaseRef reservation)) (\<lambda>(lease, opId, opFp).
      jseq (coordinator env (evmManagedReservationToLane reservation) (markBroadcastAccepted (fe_coord env) lease opId opFp hash))
        (report_event args BroadcastAcceptedPhase Succeeded ''Managed nonce lane marked in-flight''
           (nonce_data reservation @ [(''txHash'', JStr hash)]))))))"

text \<open>\<open>input.error instanceof Error ? input.error.message : String(input.error || '')\<close>, the coordinator's trace reason.\<close>

definition rejection_text :: "js_error \<Rightarrow> string" where
  "rejection_text e = (case e of ErrorInstance m _ _ \<Rightarrow> m | PlainValue v \<Rightarrow> js_String_or_empty v)"

definition reportEvmFamilyBroadcastRejected :: "flow_env \<Rightarrow> lifecycle_args \<Rightarrow> js_error \<Rightarrow> unit fm" where
  "reportEvmFamilyBroadcastRejected env args err =
     jbind (toEvmFamilyManagedNonceReservationFromSignedResult env (la_signedResult args)) (\<lambda>reservation.
     let lane = evmManagedReservationToLane reservation; target = in_chainTarget reservation in
     jseq (report_event args BroadcastRejectedPhase Running ''Marking managed nonce reservation rejected'' (nonce_data reservation))
     (jbind (jlift (requireManagedNonceLeaseRef reservation)) (\<lambda>(lease, opId, opFp).
      jseq (coordinator env lane (markBroadcastRejected (fe_coord env) lease opId opFp (rejection_text err)))
      (let mappedError = mapToRetryableNonceStateError err (target_family target) (networkSlug target) (chainId target) in
       jseq (report_event args BroadcastRejectedPhase Failed ''Managed nonce reservation marked rejected'' (nonce_data reservation))
       (if \<not> isNonceConflictRetryableError mappedError \<and> \<not> isNonceLaneBlockedRetryableError mappedError then jret ()
        else
        jseq (report_event args NonceReconcileStarted Running ''Reconciling managed nonce lane after broadcast error''
                (nonce_data reservation @ [(''errorCode'', JStr (extractErrorCode mappedError))]))
        (jbind (jcatch (jbind (coordinator env lane (reconcile (fe_coord env) (EvmLane lane))) (\<lambda>status. jret (Some status)))
                 (\<lambda>_. jret None)) (\<lambda>laneStatus.
         jseq (report_event args NonceReconcileSucceeded Succeeded ''Managed nonce lane reconciled''
                (lane_data reservation @ (case laneStatus of None \<Rightarrow> []
                   | Some status \<Rightarrow> [(''laneStatus'', lane_status_value (formatNonceLaneStatus status))])))
           (jthrow mappedError))))))))"

definition reportEvmFamilyFinalized :: "flow_env \<Rightarrow> lifecycle_args \<Rightarrow> string option \<Rightarrow> unit fm" where
  "reportEvmFamilyFinalized env args givenHash =
     jbind (toEvmFamilyManagedNonceReservationFromSignedResult env (la_signedResult args)) (\<lambda>reservation.
     let txHash = Option.bind (reported_txHash givenHash (la_signedResult args)) opt_of_string in
     jbind (jlift (requireManagedNonceLeaseRef reservation)) (\<lambda>(lease, opId, opFp).
       coordinator env (evmManagedReservationToLane reservation) (markFinalized (fe_coord env) lease opId opFp txHash)))"

definition reportEvmFamilyDroppedOrReplaced ::
  "flow_env \<Rightarrow> lifecycle_args \<Rightarrow> EvmNonceOutcomeReason \<Rightarrow> string option \<Rightarrow> unit fm" where
  "reportEvmFamilyDroppedOrReplaced env args reason givenHash =
     jbind (toEvmFamilyManagedNonceReservationFromSignedResult env (la_signedResult args)) (\<lambda>reservation.
     let replaced = (reason = OutcomeReplaced);
         phase = (if replaced then TransactionReplaced else TransactionDropped);
         txHash = Option.bind givenHash opt_of_string;
         data = nonce_data reservation @ [(''reason'', JStr (outcome_reason_str reason))] @
                (case txHash of None \<Rightarrow> [] | Some h \<Rightarrow> [(''txHash'', JStr h)]) in
     jseq (report_event args phase Running
             (if replaced then ''Marking managed nonce lane replaced'' else ''Marking managed nonce lane dropped'') data)
     (jbind (jlift (requireManagedNonceLeaseRef reservation)) (\<lambda>(lease, opId, opFp).
      jseq (coordinator env (evmManagedReservationToLane reservation)
              (markDroppedOrReplaced (fe_coord env) lease opId opFp reason txHash))
        (report_event args phase (if replaced then Succeeded else Failed)
           (if replaced then ''Managed nonce lane marked replaced'' else ''Managed nonce lane marked dropped'') data))))"

definition reconcileEvmFamilyNonceLane :: "flow_env \<Rightarrow> lifecycle_args \<Rightarrow> EvmFamilyNonceLaneStatus fm" where
  "reconcileEvmFamilyNonceLane env args =
     jbind (toEvmFamilyManagedNonceReservationFromSignedResult env (la_signedResult args)) (\<lambda>reservation.
     let lane = evmManagedReservationToLane reservation; target = in_chainTarget reservation in
     jseq (report_event args NonceReconcileStarted Running ''Reconciling managed nonce lane'' (lane_data reservation))
     (jbind (coordinator env lane (reconcile (fe_coord env) (EvmLane lane))) (\<lambda>laneStatus.
      let formatted = formatNonceLaneStatus laneStatus in
      jseq (report_event args NonceReconcileSucceeded Succeeded ''Managed nonce lane reconciled''
              (lane_data reservation @ [(''laneStatus'', lane_status_value formatted)]))
      (if blocked laneStatus
       then jthrow (createEvmFamilySigningNonceLaneBlockedError (target_family target) (networkSlug target) (chainId target)
              (case ls_blockedNonce formatted of None \<Rightarrow> ''unknown'' | Some n \<Rightarrow> n) None None)
       else jret formatted))))"

section \<open>Reserving\<close>

definition resolveManagedEvmNonceReservationInput ::
  "flow_env \<Rightarrow> string \<Rightarrow> MultichainSigningRequest \<Rightarrow> EvmFamilyManagedNonceSenderIdentity \<Rightarrow> ReserveNonceInput fm" where
  "resolveManagedEvmNonceReservationInput env wid request senderIdentity =
     jbind (jlift (resolveNonceNetworkKey (fe_chains env) request)) (\<lambda>netKey.
       backend_result env (reserveNonceInputFromBoundary BoundaryEvm netKey (request_chainId request)
         (senderAddressFromIdentity senderIdentity) None wid))"

text \<open>The part both reservation functions share: reserve, or throw the retryable form of the error.\<close>

definition reserveManagedNonce ::
  "flow_env \<Rightarrow> BoundaryEcdsaChainFamily \<Rightarrow> ReserveNonceInput \<Rightarrow> PreparedNonceOperationContext \<Rightarrow> ManagedNonceReservation fm" where
  "reserveManagedNonce env chain input operation =
     (let lane = evmReserveNonceInputToLane input; target = in_chainTarget input in
      jcatch (coordinator env lane
                (jbind (reserve (fe_coord env) (EvmLane lane) operation) (\<lambda>lease. jlift (evmNonceLeaseToManagedReservation lease))))
        (\<lambda>err. jthrow (mapToRetryableNonceStateError err chain (networkSlug target) (chainId target))))"

definition reserveManagedEvmNonceForRequest ::
  "flow_env \<Rightarrow> MultichainSigningRequest \<Rightarrow> ReserveNonceInput \<Rightarrow> PreparedNonceOperationContext \<Rightarrow>
   (MultichainSigningRequest \<times> ManagedNonceReservation) fm" where
  "reserveManagedEvmNonceForRequest env request input operation =
     jbind (reserveManagedNonce env BoundaryEvm input operation) (\<lambda>reservation.
       jret (with_nonce (mr_nonce reservation) request, reservation))"

definition reserveManagedTempoNonceForRequest ::
  "flow_env \<Rightarrow> string \<Rightarrow> TempoUnsignedTx \<Rightarrow> SenderSignatureAlgorithm \<Rightarrow> PreparedNonceOperationContext \<Rightarrow>
   EvmFamilyManagedNonceSenderIdentity \<Rightarrow> (MultichainSigningRequest \<times> ManagedNonceReservation) fm" where
  "reserveManagedTempoNonceForRequest env wid tx alg operation senderIdentity =
     (let request = TempoSigningRequest tx alg in
      jbind (jlift (resolveNonceNetworkKey (fe_chains env) request)) (\<lambda>netKey.
      jbind (backend_result env (reserveNonceInputFromBoundary BoundaryTempo netKey (tempo_chainId tx)
              (senderAddressFromIdentity senderIdentity) (Some (tempo_nonceKey tx)) wid)) (\<lambda>input.
      jbind (reserveManagedNonce env BoundaryTempo input operation) (\<lambda>reservation.
        jret (with_nonce (mr_nonce reservation) request, reservation)))))"

definition resolveWalletChainNonceSenderIdentity ::
  "flow_env \<Rightarrow> string \<Rightarrow> chain_target \<Rightarrow> EvmFamilyManagedNonceSenderIdentity fm" where
  "resolveWalletChainNonceSenderIdentity env wid target =
     jbind (\<lambda>s. (fe_activeSigner env (tick (fl_coord s)) wid target, s\<lparr>fl_coord := (fl_coord s)\<lparr>tick := Suc (tick (fl_coord s))\<rparr>\<rparr>))
       (\<lambda>signer. jlift (senderIdentityFromSigner wid target signer))"

end
