(* ===== verification/EvmNonceReports.thy ===== *)
theory EvmNonceReports
  imports EvmNonceLifecycle
begin

text \<open>
  What the nonce lifecycle of EVM-family signing guarantees: a report about a signed transaction settles
  the lease its nonce was reserved with, a rejected broadcast is turned into a retryable error exactly
  when it speaks of the nonce, and a nonce reserved for a request that is not signed is given back.
\<close>

declare jfield.simps [simp del]

section \<open>Calls of the coordinator\<close>

text \<open>A run of the flow, seen by the coordinator.\<close>

definition coord_outcome :: "('e + 'a) \<times> flow \<Rightarrow> ('e + 'a) \<times> coord" where
  "coord_outcome result = (case result of (r, t) \<Rightarrow> (r, fl_coord t))"

lemma coord_outcome_Pair [simp]: "coord_outcome (r, t) = (r, fl_coord t)"
  by (simp add: coord_outcome_def)

lemma coordinator_apply:
  "coordinator env lane m s = (map_sum (coordinator_error env lane) id (fst (m (fl_coord s))), s\<lparr>fl_coord := snd (m (fl_coord s))\<rparr>)"
  by (simp add: coordinator_def split: prod.split)

lemma report_event_apply:
  "report_event args phase status message data s =
     (Inr (), if la_onEvent args then s\<lparr>fl_events := fl_events s @ [createSigningFlowEvent
        \<lparr>le_walletId = la_walletId args, le_phase = phase, le_status = status, le_message = message, le_data = data\<rparr>
        (createEvmFamilySigningFlowId \<lparr>le_walletId = la_walletId args, le_phase = phase, le_status = status,
           le_message = message, le_data = data\<rparr>)]\<rparr> else s)"
  by (simp add: report_event_def emitEvmFamilyBroadcastEvent_def jwhen_def jm_apply)

text \<open>Events leave the coordinator alone, so a report does what its one call of the coordinator does.\<close>

lemma outcome_event_first [simp]:
  "coord_outcome (jseq (report_event args p st m d) n s) =
     coord_outcome (n (snd (report_event args p st m d s)))" "fl_coord (snd (report_event args p st m d s)) = fl_coord s"
  by (simp_all add: jseq_apply report_event_apply)

lemma outcome_event_last [simp]:
  "coord_outcome (jseq (coordinator env lane m) (report_event args p st msg d) s) = coord_outcome (coordinator env lane m s)"
  by (cases "m (fl_coord s)"; cases "fst (m (fl_coord s))") (auto simp: jseq_apply coordinator_apply report_event_apply)

lemma settled_coordinator [simp]:
  "settled c k tr (coord_outcome (coordinator env lane m s)) \<longleftrightarrow> settled c k tr (m (fl_coord s))"
  by (cases "m (fl_coord s)"; cases "fst (m (fl_coord s))") (auto simp: coordinator_apply settled_def)

lemma settled_throw [simp]: "settled c k tr (Inl e, d) \<longleftrightarrow> leases d = leases c"
  by (simp add: settled_def)

section \<open>The signed result names the lease\<close>

text \<open>A signed result that carries the snapshot of a reservation.\<close>

definition carries :: "SignedResult \<Rightarrow> ManagedNonceReservation \<Rightarrow> bool" where
  "carries result r \<longleftrightarrow>
     (case toManagedNonceReservationSnapshot r of
        Inr sn \<Rightarrow> managedNonce result = Some (snapshot_input sn) | Inl _ \<Rightarrow> False)"

lemma carried_reservation:
  assumes "reservation_ok r" and "carries result r"
  shows "toEvmFamilyManagedNonceReservationFromSignedResult env result = jret r"
  using assms snapshot_read [OF assms(1)]
  by (auto simp: carries_def toEvmFamilyManagedNonceReservationFromSignedResult_def split: sum.splits)

lemma lease_ref: "reservation_ok r \<Longrightarrow>
  requireManagedNonceLeaseRef r = Inr (mr_leaseId r, mr_operationId r, mr_operationFingerprint r)"
  by (simp add: requireManagedNonceLeaseRef_def reservation_ok_def stored_string_def)

lemma lease_id_trimmed: "reservation_ok r \<Longrightarrow> js_trim (mr_leaseId r) = mr_leaseId r"
  by (simp add: reservation_ok_def stored_string_def)

lemma jret_bind [simp]: "jbind (jret x) f = f x" "jbind (jlift (Inr x)) f = f x" "jbind (jlift (Inl e)) f = jthrow e"
  by (simp_all add: fun_eq_iff jm_eval)

text \<open>Reporting a dropped or replaced transaction also settles its lease.\<close>

definition outcome_transition :: "EvmNonceOutcomeReason \<Rightarrow> NonceLeaseTransition" where
  "outcome_transition reason = (if reason = OutcomeReplaced then TReplace else TDrop)"

definition drop_body :: "coord_env \<Rightarrow> EvmNonceOutcomeReason \<Rightarrow> string option \<Rightarrow> NonceLease \<Rightarrow> unit cm" where
  "drop_body env reason h lease =
     jbind (jlift (assertEvmLease lease)) (\<lambda>(lane, n).
     jseq (preflightLeaseTransition lease (outcome_transition reason))
     (jseq (markEvmDroppedOrReplaced env lease lane n reason (Option.bind h opt_of_string))
     (jseq (transitionLease (leaseId lease) (outcome_transition reason)
             (if reason = OutcomeReplaced then LeaseReplaced else LeaseDropped) (Some (outcome_reason_str reason)) h None)
       (recordDroppedReplacedAlert env lane reason))))"

lemma total_alert: "jtotal (recordDroppedReplacedAlert env lane reason)"
  unfolding recordDroppedReplacedAlert_def emit_def
  by (intro jtotal_intros) (simp add: case_prod_beta jtotal_intros)

lemma settles_drop: "settles (leaseId lease) (outcome_transition reason) (drop_body env reason h lease)"
proof (cases "assertEvmLease lease")
  case (Inl e)
  then show ?thesis by (simp add: drop_body_def settles_def jm_apply)
next
  case (Inr p)
  have "\<exists>t. recordDroppedReplacedAlert env lane reason s = (Inr (), t)" for lane s
    using jtotalD [OF total_alert] by (metis (full_types) unit.exhaust)
  then have tail: "settles (leaseId lease) tr (jseq (transitionLease (leaseId lease) tr ev w h x) (recordDroppedReplacedAlert env lane reason))"
    for tr ev w x lane by (rule settles_then [OF settles_transition same_leases.inv_alert])
  obtain lane n where "p = (lane, n)" by (cases p)
  with Inr have "drop_body env reason h lease = jseq (preflightLeaseTransition lease (outcome_transition reason))
      (jseq (markEvmDroppedOrReplaced env lease lane n reason (Option.bind h opt_of_string))
        (jseq (transitionLease (leaseId lease) (outcome_transition reason)
           (if reason = OutcomeReplaced then LeaseReplaced else LeaseDropped) (Some (outcome_reason_str reason)) h None)
          (recordDroppedReplacedAlert env lane reason)))"
    by (simp add: drop_body_def)
  then show ?thesis by (simp only:) (rule settles_jseq [OF _ settles_jseq [OF _ tail]]; intro same_intros)
qed

lemma readLease_state: "snd (readLease input s) = s"
  by (cases input) (simp add: readLease_def lookupLease_def jm_eval split: sum.split option.split prod.split)

lemma dropped_locked:
  "markDroppedOrReplaced env lid i f reason h s = withLockedLease env lid i f (drop_body env reason h) s \<or>
   (\<exists>e. markDroppedOrReplaced env lid i f reason h s = (Inl e, s))"
proof (cases "normalizeLeaseOperationInput lid i f")
  case (Inl e)
  then show ?thesis by (simp add: markDroppedOrReplaced_def jm_apply)
next
  case (Inr input)
  obtain r where read: "readLease input s = (r, s)" using readLease_state by (metis prod.collapse)
  show ?thesis
  proof (cases "\<exists>lease. r = Inr lease \<and> (\<exists>p. assertEvmLease lease = Inr p)")
    case True
    with read Inr show ?thesis
      by (auto simp: markDroppedOrReplaced_def withLockedLease_def drop_body_def [abs_def] outcome_transition_def jbind_apply
          jseq_apply jm_apply)
  next
    case False
    with read Inr show ?thesis
      by (cases r; cases "assertEvmLease (projr r)") (auto simp: markDroppedOrReplaced_def jbind_apply jseq_apply jm_apply Let_def)
  qed
qed

lemma settled_dropped:
  assumes "leases_ok s"
  shows "settled s (js_trim lid) (outcome_transition reason) (markDroppedOrReplaced env lid i f reason h s)"
  using dropped_locked [of env lid i f reason h s]
proof
  assume "markDroppedOrReplaced env lid i f reason h s = withLockedLease env lid i f (drop_body env reason h) s"
  then show ?thesis using settles_locked [OF settles_drop assms] by (intro settledI) simp
qed (auto simp: settled_def)

section \<open>Reports settle the lease of the reservation\<close>

lemma accepted_report:
  assumes "reservation_ok r" and "carries (la_signedResult args) r"
  shows "coord_outcome (reportEvmFamilyBroadcastAccepted env args h s) =
    (case requireEvmFamilyBroadcastTxHash (reported_txHash (Some h) (la_signedResult args)) of
       Inl e \<Rightarrow> (Inl e, fl_coord s)
     | Inr hash \<Rightarrow> coord_outcome (coordinator env (evmManagedReservationToLane r)
         (markBroadcastAccepted (fe_coord env) (mr_leaseId r) (mr_operationId r) (mr_operationFingerprint r) hash)
         (snd (report_event args BroadcastAcceptedPhase Running ''Marking managed nonce lane as in-flight'' (nonce_data r) s))))"
  unfolding reportEvmFamilyBroadcastAccepted_def carried_reservation [OF assms] jret_bind
  by (cases "requireEvmFamilyBroadcastTxHash (reported_txHash (Some h) (la_signedResult args))")
     (simp_all add: lease_ref [OF assms(1)] jm_apply)

lemma settled_reports:
  assumes "reservation_ok r" and "carries (la_signedResult args) r" and "leases_ok (fl_coord s)"
  shows "settled (fl_coord s) (mr_leaseId r) TBroadcastAccepted (coord_outcome (reportEvmFamilyBroadcastAccepted env args h s))"
    and "settled (fl_coord s) (mr_leaseId r) TFinalize (coord_outcome (reportEvmFamilyFinalized env args h' s))"
    and "settled (fl_coord s) (mr_leaseId r) (outcome_transition reason)
           (coord_outcome (reportEvmFamilyDroppedOrReplaced env args reason h' s))"
    and "settled (fl_coord s) (mr_leaseId r) TRelease (coord_outcome (releaseEvmFamilyNonceReservation env r s))"
proof -
  note trim = lease_id_trimmed [OF assms(1)] and ref = lease_ref [OF assms(1)]
  show "settled (fl_coord s) (mr_leaseId r) TBroadcastAccepted (coord_outcome (reportEvmFamilyBroadcastAccepted env args h s))"
    using settled_accepted [OF assms(3), of "mr_leaseId r"] trim
    by (simp add: accepted_report [OF assms(1,2)] split: sum.split)
  show "settled (fl_coord s) (mr_leaseId r) TFinalize (coord_outcome (reportEvmFamilyFinalized env args h' s))"
    using settled_finalized [OF assms(3), of "mr_leaseId r"] trim
    by (simp add: reportEvmFamilyFinalized_def carried_reservation [OF assms(1,2)] ref Let_def)
  show "settled (fl_coord s) (mr_leaseId r) (outcome_transition reason)
      (coord_outcome (reportEvmFamilyDroppedOrReplaced env args reason h' s))"
    using settled_dropped [OF assms(3), of "mr_leaseId r"] trim
    by (simp add: reportEvmFamilyDroppedOrReplaced_def carried_reservation [OF assms(1,2)] ref Let_def)
  show "settled (fl_coord s) (mr_leaseId r) TRelease (coord_outcome (releaseEvmFamilyNonceReservation env r s))"
    using settled_release [OF assms(3), of "mr_leaseId r"] trim
    by (simp add: releaseEvmFamilyNonceReservation_def ref)
qed

text \<open>
  C8: A report about a signed transaction reaches the lease its nonce was reserved with. When the signed result
  carries the snapshot of a reservation, reporting it as accepted, finalized, dropped or replaced, and
  releasing the reservation, either makes exactly that lease of the coordinator take that transition, or
  throws and changes no lease. (The report of a rejection, which may also reconcile the lane, is not among these.)
\<close>

theorem reports_settle_their_lease:
  assumes "reservation_ok r" and "carries (la_signedResult args) r" and "parts_ok (fl_coord s)"
  shows "settled (fl_coord s) (mr_leaseId r) TBroadcastAccepted (coord_outcome (reportEvmFamilyBroadcastAccepted env args h s)) \<and>
         settled (fl_coord s) (mr_leaseId r) TFinalize (coord_outcome (reportEvmFamilyFinalized env args h' s)) \<and>
         settled (fl_coord s) (mr_leaseId r) (outcome_transition reason)
           (coord_outcome (reportEvmFamilyDroppedOrReplaced env args reason h' s)) \<and>
         settled (fl_coord s) (mr_leaseId r) TRelease (coord_outcome (releaseEvmFamilyNonceReservation env r s))"
  using assms by (simp add: parts_ok_def settled_reports)

section \<open>Rejected broadcasts\<close>

definition retryable :: "js_error \<Rightarrow> bool" where
  "retryable e \<longleftrightarrow> isNonceConflictRetryableError e \<or> isNonceLaneBlockedRetryableError e"

definition mapped_rejection :: "ManagedNonceReservation \<Rightarrow> js_error \<Rightarrow> js_error" where
  "mapped_rejection r err =
     mapToRetryableNonceStateError err (target_family (in_chainTarget r)) (networkSlug (in_chainTarget r)) (chainId (in_chainTarget r))"

lemma outcome_coordinator_first:
  "coord_outcome (jseq (coordinator env lane m) n s) =
     (case m (fl_coord s) of
        (Inl e, c) \<Rightarrow> (Inl (coordinator_error env lane e), c) | (Inr _, c) \<Rightarrow> coord_outcome (n (s\<lparr>fl_coord := c\<rparr>)))"
  by (cases "m (fl_coord s)"; cases "fst (m (fl_coord s))") (auto simp: jseq_apply coordinator_apply)

text \<open>\<open>await reconcile(...).catch(() => null)\<close>, an event with the status, and a throw.\<close>

lemma outcome_reconcile:
  "coord_outcome (jbind (jcatch (jbind (coordinator env lane m) (\<lambda>status. jret (Some status))) (\<lambda>_. jret None))
     (\<lambda>st. jseq (report_event args p status msg (d st)) (jthrow e)) s) = (Inl e, snd (m (fl_coord s)))"
  by (cases "m (fl_coord s)"; cases "fst (m (fl_coord s))") (auto simp: jm_eval coordinator_apply report_event_apply)

lemma rejected_report_run:
  assumes "reservation_ok r" and "carries (la_signedResult args) r"
  shows "coord_outcome (reportEvmFamilyBroadcastRejected env args err s) =
    (case markBroadcastRejected (fe_coord env) (mr_leaseId r) (mr_operationId r) (mr_operationFingerprint r)
            (rejection_text err) (fl_coord s) of
       (Inl e, c) \<Rightarrow> (Inl (coordinator_error env (evmManagedReservationToLane r) e), c)
     | (Inr _, c) \<Rightarrow>
         if retryable (mapped_rejection r err)
         then (Inl (mapped_rejection r err), snd (reconcile (fe_coord env) (EvmLane (evmManagedReservationToLane r)) c))
         else (Inr (), c))"
  unfolding reportEvmFamilyBroadcastRejected_def carried_reservation [OF assms] jret_bind lease_ref [OF assms(1)] Let_def prod.case
    retryable_def mapped_rejection_def
  by (auto simp: outcome_coordinator_first outcome_reconcile jm_apply split: prod.split sum.split)

lemma mapped_is_object: "is_error_object (mapToRetryableNonceStateError (ErrorInstance m fs cause) chain netKey cid)"
  by (simp add: mapToRetryableNonceStateError_def mapToRetryableNonceConflictError_def mapToRetryableNonceLaneBlockedError_def
      Let_def split: option.split) (simp add: is_error_object_def)

text \<open>
  C9: What reporting a rejected broadcast does, for every error with a message and no code but the number of
  a JSON-RPC error. The lease is marked rejected, and an error of that is passed on. Then the message decides:
  when it says, anywhere and in any letter case, that the nonce is too low, too high, invalid or already used, that the transaction is
  already known or an underpriced replacement, or when it names the nonce together with a conflict or a block, then the lane is reconciled once and
  an error is thrown whose code tells the caller to retry, also when reconciling fails. A rejection with
  any other message is reported without an error and without reconciling.
\<close>

theorem rejected_report_outcome:
  assumes "reservation_ok r" and "carries (la_signedResult args) r" and "numeric_code fs"
  shows "case markBroadcastRejected (fe_coord env) (mr_leaseId r) (mr_operationId r) (mr_operationFingerprint r)
            (rejection_text (ErrorInstance m fs cause)) (fl_coord s) of
       (Inl e, c) \<Rightarrow>
         coord_outcome (reportEvmFamilyBroadcastRejected env args (ErrorInstance m fs cause) s) =
           (Inl (coordinator_error env (evmManagedReservationToLane r) e), c)
     | (Inr _, c) \<Rightarrow>
         if speaks_of_nonce m
         then \<exists>e. coord_outcome (reportEvmFamilyBroadcastRejected env args (ErrorInstance m fs cause) s) =
                (Inl e, snd (reconcile (fe_coord env) (EvmLane (evmManagedReservationToLane r)) c)) \<and>
              extractErrorCode e \<in> {''nonce_conflict_retryable'', ''nonce_lane_blocked''}
         else coord_outcome (reportEvmFamilyBroadcastRejected env args (ErrorInstance m fs cause) s) = (Inr (), c)"
proof -
  have "retryable (mapped_rejection r (ErrorInstance m fs cause)) \<longleftrightarrow> speaks_of_nonce m"
    using mapped_retryable [OF assms(3), of m cause]
    by (simp add: retryable_def mapped_rejection_def isNonceConflictRetryableError_def isNonceLaneBlockedRetryableError_def
        mapped_is_object)
  moreover have "extractErrorCode (mapped_rejection r (ErrorInstance m fs cause)) \<in> {''nonce_conflict_retryable'', ''nonce_lane_blocked''}"
    if "speaks_of_nonce m"
    using mapped_retryable [OF assms(3), of m cause] that by (simp add: mapped_rejection_def)
  ultimately show ?thesis
    by (auto simp: rejected_report_run [OF assms(1,2)] split: prod.split sum.split)
qed

text \<open>
  C40: After a retryable rejection the listener is told that the lane was reconciled even when reconciling
  it failed: the last event has the phase and status of success.
\<close>

theorem failed_reconcile_reported_succeeded:
  assumes "reservation_ok r" and "carries (la_signedResult args) r" and "la_onEvent args"
    and "markBroadcastRejected (fe_coord env) (mr_leaseId r) (mr_operationId r) (mr_operationFingerprint r)
           (rejection_text err) (fl_coord s) = (Inr (), c)"
    and "retryable (mapped_rejection r err)"
    and "reconcile (fe_coord env) (EvmLane (evmManagedReservationToLane r)) c = (Inl e, c')"
  shows "map (\<lambda>ev. (le_phase ev, le_status ev)) (fl_events (snd (reportEvmFamilyBroadcastRejected env args err s))) =
         map (\<lambda>ev. (le_phase ev, le_status ev)) (fl_events s) @
           [(BroadcastRejectedPhase, Running), (BroadcastRejectedPhase, Failed), (NonceReconcileStarted, Running),
            (NonceReconcileSucceeded, Succeeded)]"
  using assms(3-6)
  unfolding reportEvmFamilyBroadcastRejected_def carried_reservation [OF assms(1,2)] jret_bind lease_ref [OF assms(1)] Let_def
    prod.case retryable_def mapped_rejection_def
  by (auto simp: jm_eval report_event_apply coordinator_apply createSigningFlowEvent_def)

section \<open>Reserved nonces\<close>

lemma stored_last: "stored_string s \<Longrightarrow> \<not> js_whitespace (last s)"
proof -
  assume s: "stored_string s"
  let ?d = "dropWhile js_whitespace (rev (dropWhile js_whitespace s))"
  from s have d: "s = rev ?d" by (simp add: stored_string_def js_trim_def)
  with s have ne: "?d \<noteq> []" by (metis rev.simps(1) stored_string_def)
  with d have "last s = hd ?d" by (metis last_rev)
  with ne show ?thesis by (metis hd_dropWhile)
qed

lemma created_lease_id_stored:
  assumes "stored_string random"
  shows "stored_string (createNonceLeaseId chain opId n random)"
proof -
  from assms have r: "random = butlast random @ [last random]" by (simp add: stored_string_def)
  obtain mid where "createNonceLeaseId chain opId n random = CHR ''n'' # mid @ random"
    by (simp add: createNonceLeaseId_def encodeNonceKeyParts_def encode_key_part_def)
  with r have "createNonceLeaseId chain opId n random = CHR ''n'' # (mid @ butlast random) @ [last random]" by simp
  moreover have "js_trim (CHR ''n'' # (mid @ butlast random) @ [last random]) = CHR ''n'' # (mid @ butlast random) @ [last random]"
    by (rule js_trim_framed) (use stored_last [OF assms] in \<open>simp_all add: js_whitespace_def\<close>)
  ultimately show ?thesis by (simp add: stored_string_def)
qed

lemma total_releaseBackend:
  assumes "slot l = EvmSlot lane n"
  shows "jtotal (releaseBackendReservation env l)"
  unfolding releaseBackendReservation_def assms lease_slot.case releaseEvmNonceReservation_def removeCoordinationLease_def Let_def
  by (intro jtotal_intros)

lemma reserved_releases: "reduceNonceLeaseState Reserved TRelease = Inr Released"
  by code_simp

text \<open>A call about a lease the coordinator holds runs its body on that lease.\<close>

lemma locked_body:
  assumes l: "map_of (leases s) (leaseId l) = Some l"
    and ids: "stored_string (leaseId l)" "stored_string (operationId l)" "stored_string (operationFingerprint l)"
    and locks: "\<forall>k. env_lock env k = None"
  obtains u where "quiet s u"
    "withLockedLease env (leaseId l) (operationId l) (operationFingerprint l) body s = body l u"
proof -
  let ?input = "(leaseId l, operationId l, operationFingerprint l)"
  have read: "readLease ?input t = (Inr l, t)" if "leases t = leases s" for t
    using l ids that
    by (simp add: readLease_def lookupLease_def normalizeSessionStatusRequiredString_def assertOperationMatches_def
        stored_string_def jm_eval)
  obtain u where u: "quiet s u" "withLaneLock env (lease_lane l) (jbind (readLease ?input) body) s = jbind (readLease ?input) body u"
    by (rule withLaneLock_granted [OF locks])
  have "withLockedLease env (leaseId l) (operationId l) (operationFingerprint l) body s =
      withLaneLock env (lease_lane l) (jbind (readLease ?input) body) s"
    using read [OF refl] ids
    by (simp add: withLockedLease_def normalizeLeaseOperationInput_def normalizeSessionStatusRequiredString_def
        stored_string_def jbind_apply jm_apply)
  also have "\<dots> = body l u" using u read [of u] by (simp add: quiet_def jbind_apply)
  finally show thesis using that u(1) by blast
qed

lemma release_reserved:
  assumes l: "map_of (leases s) (leaseId l) = Some l" "slot l = EvmSlot lane n" "lease_state l = Reserved"
    and ids: "stored_string (leaseId l)" "stored_string (operationId l)" "stored_string (operationFingerprint l)"
    and locks: "\<forall>k. env_lock env k = None"
  shows "\<exists>u. release env (leaseId l) (operationId l) (operationFingerprint l) reason s = (Inr (), u)"
proof -
  let ?move = "transitionLease (leaseId l) TRelease LeaseReleased (Some (release_reason_str reason)) None None"
  obtain u where u: "quiet s u" and run: "release env (leaseId l) (operationId l) (operationFingerprint l) reason s =
      jseq (preflightLeaseTransition l TRelease) (jseq (releaseBackendReservation env l) ?move) u"
    unfolding release_def by (rule locked_body [OF l(1) ids locks])
  have pre: "preflightLeaseTransition l TRelease u = (Inr (), u)"
    using l(3) by (simp add: preflightLeaseTransition_def reserved_releases jm_eval)
  obtain x v where v: "releaseBackendReservation env l u = (Inr x, v)" by (rule jtotalD [OF total_releaseBackend [OF l(2)]])
  have "leases v = leases u" by (rule same_leasesD [OF same_leases.inv_releaseBackend v])
  with u l(1) have "map_of (leases v) (leaseId l) = Some l" by (simp add: quiet_def)
  then have "\<exists>w. ?move v = (Inr (), w)"
    using l(3) by (auto simp: transitionLease_def lookupLease_def emit_def reserved_releases jm_eval Let_def)
  with run pre v show ?thesis by (auto simp: jseq_apply)
qed

text \<open>What a successful reservation for a request leaves in the coordinator.\<close>

lemma take_random:
  "takeEvmCandidate env lane operation s = (Inr l, t) \<Longrightarrow>
   \<exists>n k. leaseId l = createNonceLeaseId (chain_target_kind (chainTarget lane)) (op_operationId operation) n (env_random env k)"
  by (auto simp: takeEvmCandidate_def Let_def jbind_ret_iff jseq_ret_iff ask_def jm_apply) blast

lemma reserve_lease:
  assumes "reserve env (EvmLane lane) operation s = (Inr l, t)" and "parts_ok s"
  obtains n k where "slot l = EvmSlot lane n" "lease_state l = Reserved" "map_of (leases t) (leaseId l) = Some l"
    "operationId l = op_operationId operation" "operationFingerprint l = op_operationFingerprint operation"
    "leaseId l = createNonceLeaseId (chain_target_kind (chainTarget lane)) (op_operationId operation) (int_str n) (env_random env k)"
proof -
  from assms obtain u where run: "reserveEvmNonceLeaseUnlocked env lane operation u = (Inr l, t)" and "quiet s u"
    by (auto simp: reserve_def elim: withLaneLock_cases)
  with assms(2) have ok: "parts_ok u" by (blast intro: quiet_parts)
  from run obtain v where "takeEvmCandidate env lane operation v = (Inr l, t)"
    by (auto simp: reserveEvmNonceLeaseUnlocked_def jseq_ret_iff)
  from take_random [OF this] obtain m k where
    "leaseId l = createNonceLeaseId (chain_target_kind (chainTarget lane)) (op_operationId operation) m (env_random env k)" by blast
  with run ok show thesis by (elim reserveEvm_result) (auto simp: fresh_evm_lease_def createNonceLeaseId_inject intro: that)
qed

lemma reserve_parts_ok:
  "reserve env (EvmLane lane) operation s = (r, t) \<Longrightarrow> parts_ok s \<Longrightarrow> parts_ok t"
  using jinv_keepsD [OF parts.inv_withLaneLock [OF parts.inv_reserveEvm]] by (simp add: reserve_def)

lemma reserveManaged_Inr:
  assumes "reserveManagedNonce env chain input operation s = (Inr r, t)"
  obtains l where "reserve (fe_coord env) (EvmLane (evmReserveNonceInputToLane input)) operation (fl_coord s) = (Inr l, fl_coord t)"
    "evmNonceLeaseToManagedReservation l = Inr r"
proof -
  let ?reserve = "reserve (fe_coord env) (EvmLane (evmReserveNonceInputToLane input)) operation (fl_coord s)"
  obtain res c where run: "?reserve = (res, c)" by (cases ?reserve)
  show thesis
    using assms run that
    by (cases res; cases "evmNonceLeaseToManagedReservation (projr res)")
       (auto simp: reserveManagedNonce_def Let_def jm_eval coordinator_apply)
qed

text \<open>
  A reservation the coordinator refuses reaches the caller in the form it can act on: a blocked lane as a
  retryable error that names the blocked nonce and its age with the chain and network of the request,
  any other error mapped by its code and message; the coordinator is left as the failed call left it.
\<close>

theorem refused_reservation_mapped:
  assumes "reserve (fe_coord env) (EvmLane (evmReserveNonceInputToLane input)) operation (fl_coord s) = (Inl e, c)"
    and "\<forall>n age. e = LaneBlocked n age \<longrightarrow> safe_integer age"
  shows "reserveManagedEvmNonceForRequest env request input operation s =
    (Inl (case e of
            LaneBlocked n age \<Rightarrow>
              createEvmFamilySigningNonceLaneBlockedError BoundaryEvm (networkSlug (in_chainTarget input))
                (chainId (in_chainTarget input)) (int_str n) (Some (JNum age))
                (Some (lane_blocked_object (evmReserveNonceInputToLane input) n age))
          | _ \<Rightarrow> mapToRetryableNonceStateError (fe_nonceError env e) BoundaryEvm (networkSlug (in_chainTarget input))
                (chainId (in_chainTarget input))),
     s\<lparr>fl_coord := c\<rparr>)"
  using assms
  by (cases e)
     (simp_all add: reserveManagedEvmNonceForRequest_def reserveManagedNonce_def Let_def jm_eval coordinator_apply
       coordinator_error_def coordinator_blocked_mapped)

end
