(* ===== verification/EvmSigningFlow.thy ===== *)
theory EvmSigningFlow
  imports EvmNonceReports
begin

text \<open>
  The nonce in the confirmation flow of EVM-family signing (\<open>signEvmFamilyWithUiConfirm\<close> of \<open>signingFlow.ts\<close>) and
  in the transaction executor around it (\<open>transactionExecutor.ts\<close>). The local variables that concern the nonce
  are the fields of \<open>signing_vars\<close>. Building the intent, asking the user and computing signatures do not
  touch the nonce coordinator; they are the fields of \<open>signing_phases\<close>, each an error or a result, with what the
  command sequence itself may report at its end as \<open>ph_finish\<close>.
\<close>

section \<open>The confirmation flow\<close>

record signing_vars =
  run_flow :: flow
  run_reservation :: "ManagedNonceReservation option"
  run_released :: bool
  run_signatureCreated :: bool

type_synonym 'a sm = "(signing_vars, js_error, 'a) jsm"

definition in_flow :: "'a fm \<Rightarrow> 'a sm" where
  "in_flow m = (\<lambda>s. case m (run_flow s) of (r, f) \<Rightarrow> (r, s\<lparr>run_flow := f\<rparr>))"

record 'i signing_phases =
  ph_buildIntent :: "MultichainSigningRequest \<Rightarrow> js_error + 'i"
  ph_confirm :: "js_error + unit"
  ph_authorize :: "'i \<Rightarrow> js_error + unit"
  ph_sign :: "'i \<Rightarrow> js_error + SignedResult"
  ph_finish :: "js_error + unit"

text \<open>
  \<open>input.authorization.kind\<close>. Signing as the owner confirms the prepared intent. With an active wallet
  authority the confirmation is shown while the intent is prepared; \<open>early\<close> says that it is answered
  before the nonce has been reserved.
\<close>

datatype SigningAuthorization = OwnerAuthorization | ActiveWalletAuthority (early: bool)

type_synonym prepare_request = "(MultichainSigningRequest \<times> ManagedNonceReservation) fm"

text \<open>\<open>input.prepareRequestWithManagedNonce\<close> and \<open>input.releaseNonceReservation\<close>.\<close>

record nonce_ports =
  np_prepare :: "prepare_request option"
  np_release :: "(ManagedNonceReservation \<Rightarrow> unit fm) option"

definition releaseNonceReservation :: "nonce_ports \<Rightarrow> unit sm" where
  "releaseNonceReservation ports =
     jbind (jget id) (\<lambda>s.
       case (run_released s, run_reservation s, np_release ports) of
         (False, Some reservation, Some port) \<Rightarrow>
           jseq (jmod (\<lambda>s. s\<lparr>run_released := True\<rparr>)) (jcatch (in_flow (port reservation)) (\<lambda>_. jret ()))
       | _ \<Rightarrow> jret ())"

definition markNonceReservationSigned :: "flow_env \<Rightarrow> string \<Rightarrow> unit sm" where
  "markNonceReservationSigned env nonceErrorLabel =
     jbind (jget run_reservation) (\<lambda>reservation.
       case reservation of
         None \<Rightarrow> jret ()
       | Some r \<Rightarrow>
           (let lease = js_trim (mr_leaseId r);
                opId = js_trim (mr_operationId r);
                opFp = js_trim (mr_operationFingerprint r)
            in if lease = [] \<or> opId = [] \<or> opFp = []
               then jthrow (new_Error (''[chains] managed '' @ nonceErrorLabel @ '' nonce reservation is missing lease metadata''))
               else in_flow (coordinator env (evmManagedReservationToLane r) (markSigned (fe_coord env) lease opId opFp None))))"

definition intentPreparationTask :: "nonce_ports \<Rightarrow> 'i signing_phases \<Rightarrow> MultichainSigningRequest \<Rightarrow> 'i sm" where
  "intentPreparationTask ports phases request =
     jbind (case np_prepare ports of
              None \<Rightarrow> jret request
            | Some prepare \<Rightarrow>
                jbind (in_flow prepare) (\<lambda>(preparedRequest, reservation).
                  jseq (jmod (\<lambda>s. s\<lparr>run_reservation := Some reservation\<rparr>)) (jret preparedRequest)))
       (\<lambda>preparedRequest. jlift (ph_buildIntent phases preparedRequest))"

text \<open>
  The three commands of the \<open>try\<close> block: confirm, check the authorization, sign. A confirmation that fails
  early leaves the preparation running; the \<open>catch\<close> block waits for it.
\<close>

definition runShowConfirmationCommand ::
  "nonce_ports \<Rightarrow> 'i signing_phases \<Rightarrow> SigningAuthorization \<Rightarrow> MultichainSigningRequest \<Rightarrow> 'i sm" where
  "runShowConfirmationCommand ports phases auth request =
     (case auth of
        OwnerAuthorization \<Rightarrow>
          jbind (intentPreparationTask ports phases request) (\<lambda>intent. jseq (jlift (ph_confirm phases)) (jret intent))
      | ActiveWalletAuthority True \<Rightarrow> jseq (jlift (ph_confirm phases)) (intentPreparationTask ports phases request)
      | ActiveWalletAuthority False \<Rightarrow>
          jbind (\<lambda>s. case intentPreparationTask ports phases request s of (r, t) \<Rightarrow> (Inr r, t)) (\<lambda>prepared.
            jseq (jlift (ph_confirm phases)) (jlift prepared)))"

definition runSignCommand :: "flow_env \<Rightarrow> string \<Rightarrow> 'i signing_phases \<Rightarrow> 'i \<Rightarrow> SignedResult sm" where
  "runSignCommand env nonceErrorLabel phases intent =
     jbind (jlift (ph_sign phases intent)) (\<lambda>signedResult.
     jseq (jmod (\<lambda>s. s\<lparr>run_signatureCreated := True\<rparr>))
     (jseq (markNonceReservationSigned env nonceErrorLabel) (jret signedResult)))"

fun with_managedNonce :: "SnapshotInput \<Rightarrow> SignedResult \<Rightarrow> SignedResult" where
  "with_managedNonce sn (EvmSignedResult h raw _) = EvmSignedResult h raw (Some sn)"
| "with_managedNonce sn (TempoSignedResult h raw _) = TempoSignedResult h raw (Some sn)"

definition attachManagedNonce :: "flow_env \<Rightarrow> SignedResult \<Rightarrow> SignedResult sm" where
  "attachManagedNonce env result =
     jbind (jget run_reservation) (\<lambda>reservation.
       case reservation of
         None \<Rightarrow> jret result
       | Some r \<Rightarrow>
           jbind (jlift (map_sum (\<lambda>e. new_Error (fe_backendMessage env e)) id (toManagedNonceReservationSnapshot r)))
             (\<lambda>sn. jret (with_managedNonce (snapshot_input sn) result)))"

text \<open>
  The \<open>catch\<close> block. The preparation is still to be awaited when the confirmation failed early: its nonce
  is released if the whole preparation succeeds.
\<close>

definition releaseAfterFailure ::
  "nonce_ports \<Rightarrow> 'i signing_phases \<Rightarrow> SigningAuthorization \<Rightarrow> MultichainSigningRequest \<Rightarrow> unit sm" where
  "releaseAfterFailure ports phases auth request =
     jbind (jget id) (\<lambda>s.
       if run_signatureCreated s then jret ()
       else if run_reservation s \<noteq> None then releaseNonceReservation ports
       else if np_release ports \<noteq> None \<and> auth = ActiveWalletAuthority True \<and> ph_confirm phases \<noteq> Inr ()
       then jcatch (jbind (intentPreparationTask ports phases request) (\<lambda>_. releaseNonceReservation ports)) (\<lambda>_. jret ())
       else jret ())"

text \<open>The steps after the confirmation: check the authorization, sign, and attach the snapshot of the nonce.\<close>

definition runAfterConfirmation :: "flow_env \<Rightarrow> string \<Rightarrow> 'i signing_phases \<Rightarrow> 'i \<Rightarrow> SignedResult sm" where
  "runAfterConfirmation env nonceErrorLabel phases intent =
     jseq (jlift (ph_authorize phases intent))
     (jbind (runSignCommand env nonceErrorLabel phases intent) (\<lambda>signedResult.
      jseq (jlift (ph_finish phases)) (attachManagedNonce env signedResult)))"

text \<open>
  The flow with the command sequence of a plan that is ready, or without a plan. (The caller throws for a plan
  that is not ready before it starts the flow.)
\<close>

definition signEvmFamilyWithUiConfirm ::
  "flow_env \<Rightarrow> string \<Rightarrow> nonce_ports \<Rightarrow> 'i signing_phases \<Rightarrow> SigningAuthorization \<Rightarrow> MultichainSigningRequest \<Rightarrow> SignedResult sm" where
  "signEvmFamilyWithUiConfirm env nonceErrorLabel ports phases auth request =
     jcatch
       (jbind (runShowConfirmationCommand ports phases auth request) (runAfterConfirmation env nonceErrorLabel phases))
       (\<lambda>err. jseq (releaseAfterFailure ports phases auth request) (jthrow err))"

text \<open>The variables of a run, and the run as the executor sees it.\<close>

definition signing_start :: "flow \<Rightarrow> signing_vars" where
  "signing_start f = \<lparr>run_flow = f, run_reservation = None, run_released = False, run_signatureCreated = False\<rparr>"

definition signWithUiConfirm ::
  "flow_env \<Rightarrow> string \<Rightarrow> 'i signing_phases \<Rightarrow> SigningAuthorization \<Rightarrow> MultichainSigningRequest \<Rightarrow> nonce_ports \<Rightarrow> SignedResult fm" where
  "signWithUiConfirm env nonceErrorLabel phases auth request ports =
     (\<lambda>f. case signEvmFamilyWithUiConfirm env nonceErrorLabel ports phases auth request (signing_start f) of
            (result, s) \<Rightarrow> (result, run_flow s))"

section \<open>The transaction executor\<close>

text \<open>\<open>EvmFamilyExecutorThresholdEcdsaState\<close>.\<close>

datatype ExecutorThresholdState = NotRequired | PreparedOwner (prepared_owner: string)

definition resolveThresholdOwnerNonceSenderIdentity ::
  "ExecutorThresholdState \<Rightarrow> EvmFamilyManagedNonceSenderIdentity option" where
  "resolveThresholdOwnerNonceSenderIdentity state =
     (case state of NotRequired \<Rightarrow> None | PreparedOwner owner \<Rightarrow> Some (ThresholdOwner owner))"

definition requireRawEip1559ThresholdOwnerNonceSenderIdentity ::
  "ExecutorThresholdState \<Rightarrow> string \<Rightarrow> js_error + EvmFamilyManagedNonceSenderIdentity" where
  "requireRawEip1559ThresholdOwnerNonceSenderIdentity state wid =
     (case state of
        NotRequired \<Rightarrow> Inl (new_Error (''[SigningEngine][evm-family] raw EIP-1559 signing requires prepared threshold ECDSA owner address for '' @ wid))
      | PreparedOwner owner \<Rightarrow> Inr (ThresholdOwner owner))"

record executor_args =
  ex_walletId :: string
  ex_request :: MultichainSigningRequest
  ex_chainTarget :: chain_target
  ex_thresholdState :: ExecutorThresholdState
  ex_operation :: PreparedNonceOperationContext

text \<open>
  The signer chunk is loaded (or fails to load) and is given the two nonce ports; a failure may be
  retried with a fresh email code, by \<open>retry\<close>. Durable leases are recovered before the reservation. The
  promises the executor keeps for the sender and the reservation input are resolved once, since the
  flow prepares a request once.
\<close>

definition executeConfiguredEvmFamilyTransactionSigning ::
  "flow_env \<Rightarrow> executor_args \<Rightarrow> BoundaryEcdsaChainFamily \<Rightarrow> js_error + (nonce_ports \<Rightarrow> SignedResult fm) \<Rightarrow>
   (js_error \<Rightarrow> SignedResult option fm) \<Rightarrow> prepare_request \<Rightarrow> SignedResult fm" where
  "executeConfiguredEvmFamilyTransactionSigning env args targetKind loadSigner retry prepare =
     jbind (\<lambda>s. case recoverDurableLeases (fe_coord env) (Some (ex_walletId args)) (fl_coord s) of
                 (r, c) \<Rightarrow> (Inr (map_sum (fe_nonceError env) id r), s\<lparr>fl_coord := c\<rparr>)) (\<lambda>recovered.
     jbind (jlift loadSigner) (\<lambda>signWithUiConfirm.
       jcatch
         (signWithUiConfirm
            \<lparr>np_prepare = Some (jseq (jlift recovered) prepare),
             np_release = Some (releaseEvmFamilyNonceReservation env)\<rparr>)
         (\<lambda>err.
           jbind (retry err) (\<lambda>retried.
             case retried of
               Some result \<Rightarrow> jret result
             | None \<Rightarrow>
                 jbind (jlift (resolveNonceNetworkKeyForError (fe_chains env) (ex_request args))) (\<lambda>netKey.
                   jthrow (mapToRetryableNonceStateError err targetKind netKey (chainId (ex_chainTarget args))))))))"

definition fallbackIdentity ::
  "flow_env \<Rightarrow> executor_args \<Rightarrow> EvmFamilyManagedNonceSenderIdentity option \<Rightarrow> EvmFamilyManagedNonceSenderIdentity fm" where
  "fallbackIdentity env args exact =
     (case exact of
        Some who \<Rightarrow> jret who
      | None \<Rightarrow> resolveWalletChainNonceSenderIdentity env (ex_walletId args) (ex_chainTarget args))"

definition prepareEvmRequestWithManagedNonce ::
  "flow_env \<Rightarrow> executor_args \<Rightarrow> EvmFamilyManagedNonceSenderIdentity \<Rightarrow> prepare_request" where
  "prepareEvmRequestWithManagedNonce env args who =
     jbind (resolveManagedEvmNonceReservationInput env (ex_walletId args) (ex_request args) who) (\<lambda>input.
       reserveManagedEvmNonceForRequest env (ex_request args) input (ex_operation args))"

definition executeEvmFamilyTransactionSigning ::
  "flow_env \<Rightarrow> executor_args \<Rightarrow> (BoundaryEcdsaChainFamily \<Rightarrow> js_error + (nonce_ports \<Rightarrow> SignedResult fm)) \<Rightarrow>
   (js_error \<Rightarrow> SignedResult option fm) \<Rightarrow> SignedResult fm" where
  "executeEvmFamilyTransactionSigning env args loadSigner retry =
     (case ex_request args of
        EvmSigningRequest tx \<Rightarrow>
          jbind (jlift (requireRawEip1559ThresholdOwnerNonceSenderIdentity (ex_thresholdState args) (ex_walletId args))) (\<lambda>who.
            executeConfiguredEvmFamilyTransactionSigning env args (target_family (ex_chainTarget args))
              (loadSigner (target_family (ex_chainTarget args))) retry
              (prepareEvmRequestWithManagedNonce env args who))
      | TempoSigningRequest tx alg \<Rightarrow>
          if target_family (ex_chainTarget args) = BoundaryEvm
          then
            executeConfiguredEvmFamilyTransactionSigning env args BoundaryEvm (loadSigner BoundaryEvm) retry
              (jbind (fallbackIdentity env args (resolveThresholdOwnerNonceSenderIdentity (ex_thresholdState args)))
                 (prepareEvmRequestWithManagedNonce env args))
          else
            executeConfiguredEvmFamilyTransactionSigning env args BoundaryTempo (loadSigner BoundaryTempo) retry
              (jbind (fallbackIdentity env args (resolveThresholdOwnerNonceSenderIdentity (ex_thresholdState args))) (\<lambda>who.
                 reserveManagedTempoNonceForRequest env (ex_walletId args) tx alg (ex_operation args) who)))"

section \<open>What a reservation function owes the flow\<close>

text \<open>
  Operation identifiers and random identifiers are visible text, and every request for a lane lock is
  granted. (The flow drops the error of a release to which the lock is refused.)
\<close>

definition signing_env_ok :: "flow_env \<Rightarrow> PreparedNonceOperationContext \<Rightarrow> bool" where
  "signing_env_ok env operation \<longleftrightarrow>
     stored_string (op_operationId operation) \<and> stored_string (op_operationFingerprint operation) \<and>
     (\<forall>k. stored_string (env_random (fe_coord env) k)) \<and> (\<forall>k. env_lock (fe_coord env) k = None)"

text \<open>The coordinator holds the lease of the reservation, reserved.\<close>

definition held :: "ManagedNonceReservation \<Rightarrow> coord \<Rightarrow> bool" where
  "held r c \<longleftrightarrow> leases_ok c \<and>
     (\<exists>l lane n. map_of (leases c) (mr_leaseId r) = Some l \<and> leaseId l = mr_leaseId r \<and> slot l = EvmSlot lane n \<and>
        lease_state l = Reserved \<and> operationId l = mr_operationId r \<and> operationFingerprint l = mr_operationFingerprint r \<and>
        stored_string (mr_leaseId r) \<and> stored_string (mr_operationId r) \<and> stored_string (mr_operationFingerprint r))"

definition lease_state_of :: "coord \<Rightarrow> ManagedNonceReservation \<Rightarrow> NonceLeaseState option" where
  "lease_state_of c r = map_option lease_state (map_of (leases c) (mr_leaseId r))"

lemma held_reserved: "held r c \<Longrightarrow> lease_state_of c r = Some Reserved"
  by (auto simp: held_def lease_state_of_def)

lemma held_release:
  assumes "held r (fl_coord f)" and "\<forall>k. env_lock (fe_coord env) k = None"
  obtains f' where "releaseEvmFamilyNonceReservation env r f = (Inr (), f')" "lease_state_of (fl_coord f') r = Some Released"
proof -
  from assms(1) obtain l lane n where l: "map_of (leases (fl_coord f)) (leaseId l) = Some l" "slot l = EvmSlot lane n"
      "lease_state l = Reserved" and ids: "leaseId l = mr_leaseId r" "operationId l = mr_operationId r"
      "operationFingerprint l = mr_operationFingerprint r"
    and stored: "stored_string (leaseId l)" "stored_string (operationId l)" "stored_string (operationFingerprint l)"
    and ok: "leases_ok (fl_coord f)"
    by (auto simp: held_def)
  from release_reserved [OF l stored assms(2)] obtain c where
    c: "release (fe_coord env) (leaseId l) (operationId l) (operationFingerprint l) SigningFailed (fl_coord f) = (Inr (), c)"
    by blast
  from settled_release [OF ok, of "leaseId l" "fe_coord env" "operationId l" "operationFingerprint l" SigningFailed] c l stored
  have "lease_state_of c r = Some Released"
    by (auto simp: lease_state_of_def settled_def moved_def stored_string_def reserved_releases simp flip: ids(1))
  moreover have "releaseEvmFamilyNonceReservation env r f = (Inr (), f\<lparr>fl_coord := c\<rparr>)"
    using c stored ids
    by (simp add: releaseEvmFamilyNonceReservation_def requireManagedNonceLeaseRef_def stored_string_def coordinator_apply)
  ultimately show thesis using that by simp
qed

lemma total_persist_signed:
  assumes "slot l = EvmSlot lane n"
  shows "jtotal (persistCoordinationLease env l DurableSigned exp)"
proof -
  have "\<exists>r. buildCoordinationRecord l DurableSigned exp upd runtime = Inr r" for exp upd runtime
    using assms by (simp add: buildCoordinationRecord_def buildEvmCoordinationRecord_def)
  then have "jtotal (jlift (buildCoordinationRecord l DurableSigned exp upd runtime))" for exp upd runtime
    by (metis jtotal_basic(4))
  then show ?thesis unfolding persistCoordinationLease_def persistCoordinationRecord_def by (intro jtotal_intros)
qed

lemma reserved_signs: "reduceNonceLeaseState Reserved TMarkSigned = Inr Signed"
  by code_simp

lemma held_signed:
  assumes "held r c" and "\<forall>k. env_lock env k = None"
  obtains c' where "markSigned env (mr_leaseId r) (mr_operationId r) (mr_operationFingerprint r) None c = (Inr (), c')"
    "lease_state_of c' r = Some Signed"
proof -
  from assms(1) obtain l lane n where l: "map_of (leases c) (leaseId l) = Some l" "slot l = EvmSlot lane n"
      "lease_state l = Reserved" and ids: "leaseId l = mr_leaseId r" "operationId l = mr_operationId r"
      "operationFingerprint l = mr_operationFingerprint r"
    and stored: "stored_string (leaseId l)" "stored_string (operationId l)" "stored_string (operationFingerprint l)"
    by (auto simp: held_def)
  let ?exp = "\<lambda>t. t + env_signedLeaseTtlMs env"
  obtain u where u: "quiet c u" and run: "markSigned env (leaseId l) (operationId l) (operationFingerprint l) None c =
      jbind (now env) (\<lambda>t. jseq (transitionLease (leaseId l) TMarkSigned LeaseSigned None None (Some (?exp t)))
        (jbind (lookupLease (leaseId l)) (\<lambda>signed. persistCoordinationLease env signed DurableSigned (?exp t)))) u"
    unfolding markSigned_def Let_def by (rule locked_body [OF l(1) stored assms(2)])
  define t where "t = env_clock env (tick u)"
  from u l(1) have "map_of (leases (u\<lparr>tick := Suc (tick u)\<rparr>)) (leaseId l) = Some l" by (simp add: quiet_def)
  then obtain v x where v: "transitionLease (leaseId l) TMarkSigned LeaseSigned None None (Some (?exp t)) (u\<lparr>tick := Suc (tick u)\<rparr>) = (Inr (), v)"
      "map_of (leases v) (leaseId l) = Some (l\<lparr>lease_state := Signed, expiresAtMs := x\<rparr>)"
    using l(3) by (auto simp: transitionLease_def lookupLease_def emit_def reserved_signs jm_eval Let_def map_of_map_entry)
  from l(2) have "slot (l\<lparr>lease_state := Signed, expiresAtMs := x\<rparr>) = EvmSlot lane n" by simp
  then obtain y w where w: "persistCoordinationLease env (l\<lparr>lease_state := Signed, expiresAtMs := x\<rparr>) DurableSigned (?exp t) v = (Inr y, w)"
    by (rule jtotalD [OF total_persist_signed])
  have "leases w = leases v" by (rule same_leasesD [OF same_leases.inv_persist w])
  with v(2) have "lease_state_of w r = Some Signed" by (simp add: lease_state_of_def flip: ids(1))
  moreover have "markSigned env (mr_leaseId r) (mr_operationId r) (mr_operationFingerprint r) None c = (Inr (), w)"
    using run v w by (simp add: ids now_def ask_def t_def lookupLease_def jm_eval)
  ultimately show thesis using that by blast
qed

text \<open>Both reservation functions leave the coordinator holding the lease they return.\<close>

lemma held_reserve:
  assumes "reserveManagedNonce env chain input operation s = (Inr r, t)" and "parts_ok (fl_coord s)" and "signing_env_ok env operation"
  shows "held r (fl_coord t)"
proof -
  let ?lane = "evmReserveNonceInputToLane input"
  obtain l where l: "reserve (fe_coord env) (EvmLane ?lane) operation (fl_coord s) = (Inr l, fl_coord t)"
    and conv: "evmNonceLeaseToManagedReservation l = Inr r" using assms(1) by (rule reserveManaged_Inr)
  obtain n k where lease: "slot l = EvmSlot ?lane n" "lease_state l = Reserved" "map_of (leases (fl_coord t)) (leaseId l) = Some l"
      "operationId l = op_operationId operation" "operationFingerprint l = op_operationFingerprint operation"
      "leaseId l = createNonceLeaseId (chain_target_kind (chainTarget ?lane)) (op_operationId operation) (int_str n) (env_random (fe_coord env) k)"
    using l assms(2) by (rule reserve_lease)
  then have ids: "mr_leaseId r = leaseId l" "mr_operationId r = operationId l" "mr_operationFingerprint r = operationFingerprint l"
    using conv by (auto simp: evmNonceLeaseToManagedReservation_def assertEvmLease_def)
  have "stored_string (leaseId l)" "stored_string (operationId l)" "stored_string (operationFingerprint l)"
    using lease assms(3) created_lease_id_stored by (simp_all add: signing_env_ok_def)
  moreover have "leases_ok (fl_coord t)" using reserve_parts_ok [OF l assms(2)] by (simp add: parts_ok_def)
  ultimately show ?thesis using lease ids unfolding held_def by metis
qed

section \<open>The flow over any such reservation function\<close>

text \<open>
  The phases all succeed, from the intent of the prepared request to the signature. What the command
  sequence reports after the signature is not part of it.
\<close>

definition signs :: "'i signing_phases \<Rightarrow> MultichainSigningRequest \<Rightarrow> bool" where
  "signs phases request \<longleftrightarrow>
     (case ph_buildIntent phases request of
        Inl _ \<Rightarrow> False
      | Inr intent \<Rightarrow> ph_confirm phases = Inr () \<and> ph_authorize phases intent = Inr () \<and> \<not> isl (ph_sign phases intent))"

text \<open>The confirmation is refused before the nonce is reserved, and the intent then cannot be built.\<close>

definition cancelled_unprepared :: "'i signing_phases \<Rightarrow> SigningAuthorization \<Rightarrow> MultichainSigningRequest \<Rightarrow> bool" where
  "cancelled_unprepared phases auth request \<longleftrightarrow>
     auth = ActiveWalletAuthority True \<and> isl (ph_confirm phases) \<and> isl (ph_buildIntent phases request)"

definition managed_ports :: "flow_env \<Rightarrow> prepare_request \<Rightarrow> nonce_ports" where
  "managed_ports env prepare = \<lparr>np_prepare = Some prepare, np_release = Some (releaseEvmFamilyNonceReservation env)\<rparr>"

lemma in_flow_apply: "in_flow m s = (fst (m (run_flow s)), s\<lparr>run_flow := snd (m (run_flow s))\<rparr>)"
  by (simp add: in_flow_def split: prod.split)

text \<open>What the pieces of the flow do once the nonce is held.\<close>

definition holding :: "flow_env \<Rightarrow> ManagedNonceReservation \<Rightarrow> signing_vars \<Rightarrow> bool" where
  "holding env r s \<longleftrightarrow> held r (fl_coord (run_flow s)) \<and> (\<forall>k. env_lock (fe_coord env) k = None) \<and>
     run_reservation s = Some r \<and> \<not> run_released s \<and> \<not> run_signatureCreated s"

definition lease_now :: "signing_vars \<Rightarrow> ManagedNonceReservation \<Rightarrow> NonceLeaseState option" where
  "lease_now s r = lease_state_of (fl_coord (run_flow s)) r"

lemma holding_released:
  assumes "holding env r s"
  obtains t where "releaseNonceReservation (managed_ports env prepare) s = (Inr (), t)" "lease_now t r = Some Released"
    "run_reservation t = Some r"
proof -
  from assms obtain f' where "releaseEvmFamilyNonceReservation env r (run_flow s) = (Inr (), f')"
      "lease_state_of (fl_coord f') r = Some Released"
    unfolding holding_def by (meson held_release)
  with assms show thesis
    by (intro that [of "s\<lparr>run_released := True, run_flow := f'\<rparr>"])
       (simp_all add: releaseNonceReservation_def holding_def managed_ports_def lease_now_def in_flow_apply jm_eval)
qed

lemma holding_marked:
  assumes "holding env r s"
  obtains t where "markNonceReservationSigned env label (s\<lparr>run_signatureCreated := True\<rparr>) = (Inr (), t)"
    "lease_now t r = Some Signed" "run_reservation t = Some r" "run_signatureCreated t"
proof -
  from assms obtain c where
    "markSigned (fe_coord env) (mr_leaseId r) (mr_operationId r) (mr_operationFingerprint r) None (fl_coord (run_flow s)) = (Inr (), c)"
    "lease_state_of c r = Some Signed"
    unfolding holding_def by (meson held_signed)
  moreover from assms have "stored_string (mr_leaseId r)" "stored_string (mr_operationId r)" "stored_string (mr_operationFingerprint r)"
    by (auto simp: holding_def held_def)
  ultimately show thesis using assms
    by (intro that [of "s\<lparr>run_signatureCreated := True, run_flow := (run_flow s)\<lparr>fl_coord := c\<rparr>\<rparr>"])
       (simp_all add: markNonceReservationSigned_def holding_def lease_now_def in_flow_apply coordinator_apply stored_string_def
         Let_def jm_eval)
qed

lemma holding_failed:
  assumes "holding env r s"
  obtains t where "releaseAfterFailure (managed_ports env prepare) phases auth request s = (Inr (), t)"
    "lease_now t r = Some Released" "run_reservation t = Some r"
proof -
  from assms have "releaseAfterFailure (managed_ports env prepare) phases auth request s = releaseNonceReservation (managed_ports env prepare) s"
    by (simp add: releaseAfterFailure_def holding_def jm_eval)
  with holding_released [OF assms] that show thesis by metis
qed

lemma signed_kept:
  "run_signatureCreated s \<Longrightarrow> releaseAfterFailure ports phases auth request s = (Inr (), s)"
  by (simp add: releaseAfterFailure_def jm_eval)

lemma attach_outcome:
  assumes "run_reservation s = Some r"
  obtains res where "attachManagedNonce env result s = (res, s)" "\<forall>result'. res = Inr result' \<longrightarrow> carries result' r"
    "isl res \<longrightarrow> \<not> reservation_ok r"
proof (cases "toManagedNonceReservationSnapshot r")
  case (Inl e)
  then have "\<not> reservation_ok r" by (auto simp: snapshot_of)
  with Inl assms that [of "Inl (new_Error (fe_backendMessage env e))"] show thesis
    by (simp add: attachManagedNonce_def jm_eval)
next
  case (Inr sn)
  have "managedNonce (with_managedNonce (snapshot_input sn) result) = Some (snapshot_input sn)" by (cases result) simp_all
  with assms Inr that [of "Inr (with_managedNonce (snapshot_input sn) result)"] show thesis
    by (auto simp: attachManagedNonce_def jm_eval carries_def)
qed

lemma unsigned_outcome:
  assumes "ph_authorize phases intent \<noteq> Inr () \<or> isl (ph_sign phases intent)"
  shows "\<exists>e. runAfterConfirmation env label phases intent s = (Inl e, s)"
  using assms
  by (cases "ph_authorize phases intent"; cases "ph_sign phases intent")
     (simp_all add: runAfterConfirmation_def runSignCommand_def jm_eval)

lemma signed_outcome:
  assumes "holding env r s" and "ph_authorize phases intent = Inr ()" and "ph_sign phases intent = Inr signedResult"
  obtains res t where "runAfterConfirmation env label phases intent s = (res, t)" "lease_now t r = Some Signed"
    "run_reservation t = Some r" "run_signatureCreated t" "\<forall>result. res = Inr result \<longrightarrow> carries result r"
    "isl res \<longrightarrow> isl (ph_finish phases) \<or> \<not> reservation_ok r"
proof -
  obtain t where t: "markNonceReservationSigned env label (s\<lparr>run_signatureCreated := True\<rparr>) = (Inr (), t)"
      "lease_now t r = Some Signed" "run_reservation t = Some r" "run_signatureCreated t"
    by (rule holding_marked [OF assms(1)])
  obtain res where res: "attachManagedNonce env signedResult t = (res, t)" "\<forall>result'. res = Inr result' \<longrightarrow> carries result' r"
      "isl res \<longrightarrow> \<not> reservation_ok r"
    by (rule attach_outcome [OF t(3), of env signedResult])
  have "runAfterConfirmation env label phases intent s =
      (case ph_finish phases of Inl e \<Rightarrow> (Inl e, t) | Inr _ \<Rightarrow> attachManagedNonce env signedResult t)"
    using assms(2,3) t(1)
    by (simp add: runAfterConfirmation_def runSignCommand_def jm_eval split: sum.split)
  with t res show thesis by (cases "ph_finish phases") (auto intro: that)
qed

text \<open>The outcome of a run that reserved \<open>r\<close>: signed, with the result naming the lease, or failed and given back.\<close>

definition nonce_settled ::
  "'i signing_phases \<Rightarrow> MultichainSigningRequest \<Rightarrow> ManagedNonceReservation \<Rightarrow> (js_error + SignedResult) \<times> signing_vars \<Rightarrow> bool" where
  "nonce_settled phases request r run \<longleftrightarrow>
     (case run of (res, t) \<Rightarrow> run_reservation t = Some r \<and>
        (if signs phases request
         then lease_now t r = Some Signed \<and>
              (case res of Inr result \<Rightarrow> carries result r | Inl _ \<Rightarrow> isl (ph_finish phases) \<or> \<not> reservation_ok r)
         else isl res \<and> lease_now t r = Some Released))"

lemma settled_failed:
  assumes "holding env r s" and "\<not> signs phases rq"
  shows "nonce_settled phases rq r
    (jcatch (jthrow e) (\<lambda>err. jseq (releaseAfterFailure (managed_ports env prepare) phases auth request) (jthrow err)) s)"
  by (rule holding_failed [OF assms(1), of prepare phases auth request]) (simp add: nonce_settled_def assms(2) jm_eval)

lemma settled_after_confirmation:
  assumes "holding env r s" and "ph_buildIntent phases rq = Inr intent" and "ph_confirm phases = Inr ()"
  shows "nonce_settled phases rq r
    (jcatch (runAfterConfirmation env label phases intent)
       (\<lambda>err. jseq (releaseAfterFailure (managed_ports env prepare) phases auth request) (jthrow err)) s)"
proof (cases "ph_authorize phases intent = Inr () \<and> \<not> isl (ph_sign phases intent)")
  case True
  then obtain signedResult where "ph_authorize phases intent = Inr ()" "ph_sign phases intent = Inr signedResult"
    by (cases "ph_sign phases intent") auto
  with assms(1) obtain res t where run: "runAfterConfirmation env label phases intent s = (res, t)" "lease_now t r = Some Signed"
    "run_reservation t = Some r" "run_signatureCreated t" "\<forall>result. res = Inr result \<longrightarrow> carries result r"
    "isl res \<longrightarrow> isl (ph_finish phases) \<or> \<not> reservation_ok r"
    by (rule signed_outcome)
  moreover from True assms have "signs phases rq" by (simp add: signs_def)
  ultimately show ?thesis
    by (cases res) (auto simp: nonce_settled_def jm_eval signed_kept)
next
  case False
  then obtain e where "runAfterConfirmation env label phases intent s = (Inl e, s)"
    using unsigned_outcome [of phases intent env label s] by blast
  moreover from False assms have "\<not> signs phases rq" by (auto simp: signs_def)
  ultimately show ?thesis
    using settled_failed [OF assms(1), of phases rq e prepare auth request] by (simp add: jm_eval)
qed

text \<open>A confirmation refused early: the preparation is awaited, and then its nonce is released as if it had been there.\<close>

lemma awaited_release:
  assumes "holding env r s" and "auth = ActiveWalletAuthority True" and "isl (ph_confirm phases)"
    and "intentPreparationTask (managed_ports env prepare) phases request (signing_start f) = (Inr intent, s)"
  shows "releaseAfterFailure (managed_ports env prepare) phases auth request (signing_start f) =
         releaseAfterFailure (managed_ports env prepare) phases auth request s"
proof -
  from assms(3) have "ph_confirm phases \<noteq> Inr ()" by auto
  with assms show ?thesis
    by (auto intro: holding_released [OF assms(1), of prepare]
        simp: releaseAfterFailure_def signing_start_def managed_ports_def holding_def jm_eval)
qed

text \<open>Without a reservation, or with a confirmation refused early, there is no result.\<close>

lemma unprepared_throws:
  assumes "prepare f = (Inl e, f')"
    and "signEvmFamilyWithUiConfirm env label (managed_ports env prepare) phases auth request (signing_start f) = (Inr result, t)"
  shows False
proof -
  have "intentPreparationTask (managed_ports env prepare) phases request (signing_start f) = (Inl e, (signing_start f)\<lparr>run_flow := f'\<rparr>)"
    using assms(1) by (simp add: intentPreparationTask_def managed_ports_def signing_start_def in_flow_apply jm_eval)
  with assms(2) show False
    by (cases auth; cases "early auth"; cases "ph_confirm phases")
       (auto simp: signEvmFamilyWithUiConfirm_def runShowConfirmationCommand_def jm_eval split: prod.splits sum.splits)
qed

lemma cancelled_throws:
  assumes "isl (ph_confirm phases)"
    and "signEvmFamilyWithUiConfirm env label ports phases (ActiveWalletAuthority True) request s = (Inr result, t)"
  shows False
  using assms
  by (cases "ph_confirm phases")
     (auto simp: signEvmFamilyWithUiConfirm_def runShowConfirmationCommand_def jm_eval split: prod.splits sum.splits)

text \<open>
  What the flow asks of the function it prepares requests with: a reservation it returns is held by the
  coordinator.
\<close>

locale managed_nonce_port =
  fixes prepare :: "flow_env \<Rightarrow> PreparedNonceOperationContext \<Rightarrow> prepare_request"
  assumes prepared: "signing_env_ok env operation \<Longrightarrow> parts_ok (fl_coord f) \<Longrightarrow>
    prepare env operation f = (Inr (rq, r), f') \<Longrightarrow> held r (fl_coord f')"
begin

lemma preparation:
  assumes "signing_env_ok env operation" and "parts_ok (fl_coord f)" and "prepare env operation f = (Inr (rq, r), f')"
  obtains s where "holding env r s"
    "intentPreparationTask (managed_ports env (prepare env operation)) phases request (signing_start f) = (ph_buildIntent phases rq, s)"
proof (rule that)
  let ?s = "(signing_start f)\<lparr>run_flow := f', run_reservation := Some r\<rparr>"
  show "holding env r ?s" using prepared [OF assms] assms(1) by (simp add: holding_def signing_start_def signing_env_ok_def)
  show "intentPreparationTask (managed_ports env (prepare env operation)) phases request (signing_start f) = (ph_buildIntent phases rq, ?s)"
    using assms(3)
    by (cases "ph_buildIntent phases rq") (simp_all add: intentPreparationTask_def managed_ports_def signing_start_def in_flow_apply jm_eval)
qed

lemma settles:
  assumes "signing_env_ok env operation" and "parts_ok (fl_coord f)" and "prepare env operation f = (Inr (rq, r), f')"
    and "\<not> cancelled_unprepared phases auth rq"
  shows "nonce_settled phases rq r
    (signEvmFamilyWithUiConfirm env label (managed_ports env (prepare env operation)) phases auth request (signing_start f))"
proof -
  let ?ports = "managed_ports env (prepare env operation)"
  let ?failed = "\<lambda>err. jseq (releaseAfterFailure ?ports phases auth request) (jthrow err)"
  obtain s where s: "holding env r s"
      "intentPreparationTask ?ports phases request (signing_start f) = (ph_buildIntent phases rq, s)"
    using assms(1-3) by (rule preparation)
  have confirmed: "nonce_settled phases rq r (jcatch (runAfterConfirmation env label phases intent) ?failed s)"
    if "ph_buildIntent phases rq = Inr intent" "ph_confirm phases = Inr ()" for intent
    using s(1) that by (rule settled_after_confirmation)
  have failed: "nonce_settled phases rq r (jcatch (jthrow err) ?failed s)" if "\<not> signs phases rq" for err
    using s(1) that by (rule settled_failed)
  show ?thesis
  proof (cases auth)
    case OwnerAuthorization
    with s(2) confirmed failed show ?thesis
      by (cases "ph_buildIntent phases rq"; cases "ph_confirm phases")
         (simp_all add: signEvmFamilyWithUiConfirm_def runShowConfirmationCommand_def signs_def jm_eval)
  next
    case (ActiveWalletAuthority early)
    with s(2) confirmed failed awaited_release [OF s(1), of auth phases "prepare env operation" request f] assms(4) show ?thesis
      by (cases early; cases "ph_buildIntent phases rq"; cases "ph_confirm phases")
         (simp_all add: signEvmFamilyWithUiConfirm_def runShowConfirmationCommand_def signs_def cancelled_unprepared_def jm_eval)
  qed
qed

lemma result_signed:
  assumes "signing_env_ok env operation" and "parts_ok (fl_coord f)"
    and "signEvmFamilyWithUiConfirm env label (managed_ports env (prepare env operation)) phases auth request (signing_start f) = (Inr result, t)"
  shows "\<exists>r. carries result r \<and> lease_now t r = Some Signed"
proof -
  obtain p f' where p: "prepare env operation f = (p, f')" by fastforce
  show ?thesis
  proof (cases p)
    case (Inl e)
    with p assms(3) show ?thesis by (auto dest: unprepared_throws)
  next
    case (Inr q)
    obtain rq r where q: "q = (rq, r)" by fastforce
    from assms(3) have "\<not> cancelled_unprepared phases auth rq" by (auto simp: cancelled_unprepared_def dest: cancelled_throws)
    with assms p Inr q have "nonce_settled phases rq r (Inr result, t)" using settles by metis
    then show ?thesis by (auto simp: nonce_settled_def split: if_splits)
  qed
qed

end

interpretation evm_nonce_port:
  managed_nonce_port "\<lambda>env operation. reserveManagedEvmNonceForRequest env request input operation" for request input
proof
  fix env operation f rq r f'
  assume "signing_env_ok env operation" "parts_ok (fl_coord f)"
    "reserveManagedEvmNonceForRequest env request input operation f = (Inr (rq, r), f')"
  then show "held r (fl_coord f')"
    by (auto simp: reserveManagedEvmNonceForRequest_def jbind_ret_iff jm_apply intro: held_reserve)
qed

interpretation tempo_nonce_port:
  managed_nonce_port "\<lambda>env operation. reserveManagedTempoNonceForRequest env wid tx alg operation who" for wid tx alg who
proof
  fix env operation f rq r f'
  assume *: "signing_env_ok env operation" "parts_ok (fl_coord f)"
    "reserveManagedTempoNonceForRequest env wid tx alg operation who f = (Inr (rq, r), f')"
  then obtain input where "reserveManagedNonce env BoundaryTempo input operation f = (Inr r, f')"
    by (auto simp: reserveManagedTempoNonceForRequest_def backend_result_def Let_def jbind_ret_iff jm_apply split: sum.splits)
  with * show "held r (fl_coord f')" by (blast intro: held_reserve)
qed

text \<open>The preparations the executor hands to the flow, for a given outcome of the recovery of durable leases.\<close>

lemma held_evm_request:
  assumes "prepareEvmRequestWithManagedNonce env args who s = (Inr (rq, r), t)" and "parts_ok (fl_coord s)"
    and "signing_env_ok env (ex_operation args)"
  shows "held r (fl_coord t)"
  using assms
  by (auto simp: prepareEvmRequestWithManagedNonce_def resolveManagedEvmNonceReservationInput_def reserveManagedEvmNonceForRequest_def
      backend_result_def jbind_ret_iff jm_apply intro: held_reserve split: sum.splits)

lemma fallback_parts:
  "fallbackIdentity env args exact s = (x, t) \<Longrightarrow> parts_ok (fl_coord s) \<Longrightarrow> parts_ok (fl_coord t)"
  by (auto simp: fallbackIdentity_def resolveWalletChainNonceSenderIdentity_def parts_ok_def leases_ok_def jm_eval
      split: option.splits sum.splits)

interpretation executor_evm_port:
  managed_nonce_port "\<lambda>env operation. jseq (jlift recovered)
    (prepareEvmRequestWithManagedNonce env (args\<lparr>ex_operation := operation\<rparr>) who)" for recovered args who
  by unfold_locales (auto simp: jseq_ret_iff jm_apply intro: held_evm_request split: sum.splits)

interpretation executor_fallback_port:
  managed_nonce_port "\<lambda>env operation. jseq (jlift recovered)
    (jbind (fallbackIdentity env args exact) (prepareEvmRequestWithManagedNonce env (args\<lparr>ex_operation := operation\<rparr>)))"
  for recovered args exact
  by unfold_locales
     (auto simp: jseq_ret_iff jbind_ret_iff jm_apply intro: held_evm_request fallback_parts split: sum.splits)

interpretation executor_tempo_port:
  managed_nonce_port "\<lambda>env operation. jseq (jlift recovered) (jbind (fallbackIdentity env args exact) (\<lambda>who.
    reserveManagedTempoNonceForRequest env (ex_walletId args) tx alg operation who))" for recovered args exact tx alg
  by unfold_locales
     (auto simp: jseq_ret_iff jbind_ret_iff jm_apply intro: tempo_nonce_port.prepared fallback_parts split: sum.splits)

end
