(* ===== verification/EvmSigningExamples.thy ===== *)
theory EvmSigningExamples
  imports EvmNonceReports
begin

text \<open>
  Sessions on Sepolia to which the guarantees of the nonce lifecycle are applied: a signed transaction whose
  broadcast is rejected while the chain is offline, a lane blocked by a stale transaction, and a request
  that is never signed.
\<close>

declare jfield.simps [simp del]

definition signing_input :: ReserveNonceInput where
  "signing_input =
     \<lparr>in_chainTarget = EvmTarget 11155111 ''ethereum-sepolia'', in_subjectId = ''alice'',
      in_sender = ''0x'' @ replicate 40 CHR ''a'', in_nonceKey = None\<rparr>"

definition signing_lane :: EvmNonceLane where
  "signing_lane = evmReserveNonceInputToLane signing_input"

definition signing_lease :: NonceLease where
  "signing_lease =
     \<lparr>leaseId = ''lease-7'', slot = EvmSlot signing_lane 7, operationId = ''op-1'', operationFingerprint = ''fp-1'',
      lease_state = Signed, reservedAtMs = 1000, expiresAtMs = 301000, batchId = None, txIndex = None\<rparr>"

definition signing_reservation :: ManagedNonceReservation where
  "signing_reservation =
     \<lparr>in_chainTarget = EvmTarget 11155111 ''ethereum-sepolia'', in_subjectId = ''alice'',
      in_sender = ''0x'' @ replicate 40 CHR ''a'', in_nonceKey = None, mr_nonce = 7, mr_leaseId = ''lease-7'',
      mr_operationId = ''op-1'', mr_operationFingerprint = ''fp-1'', mr_reservedAtMs = Some 1000, mr_expiresAtMs = Some 301000\<rparr>"

lemma signing_reservation_ok: "reservation_ok signing_reservation"
proof -
  have "chain_target_ok (in_chainTarget signing_reservation)" "is_0x_hex 40 (in_sender signing_reservation)"
    "stored_string (in_subjectId signing_reservation)" "\<not> hasWhitespaceOrControlCharacters (in_subjectId signing_reservation)"
    "stored_string (mr_leaseId signing_reservation)" "stored_string (mr_operationId signing_reservation)"
    "stored_string (mr_operationFingerprint signing_reservation)"
    by code_simp+
  then show ?thesis unfolding reservation_ok_def by (simp add: signing_reservation_def safe_integer_def)
qed

lemma signing_reservation_lane: "evmManagedReservationToLane signing_reservation = signing_lane"
  by (simp add: evmManagedReservationToLane_def evmReserveNonceInputToLane_def signing_reservation_def signing_lane_def signing_input_def)

definition signed_coord :: coord where
  "signed_coord = (initial_coord [])\<lparr>leases := [(''lease-7'', signing_lease)]\<rparr>"

lemma signed_coord_ok: "parts_ok signed_coord"
  using parts_ok_initial [OF rows_ok_Nil]
  by (simp add: signed_coord_def parts_ok_def leases_ok_def signing_lease_def initial_coord_def)

definition offline_env :: coord_env where
  "offline_env = local_env\<lparr>env_fetchChainNonce := (\<lambda>_ _. Inl ''offline'')\<rparr>"

definition rejected_coord :: coord where
  "rejected_coord = snd (markBroadcastRejected offline_env ''lease-7'' ''op-1'' ''fp-1'' ''nonce too low'' signed_coord)"

lemma signing_trims: "js_trim ''lease-7'' = ''lease-7''" "js_trim ''op-1'' = ''op-1''" "js_trim ''fp-1'' = ''fp-1''"
  by code_simp+

lemma signed_rejects: "reduceNonceLeaseState Signed TBroadcastRejected = Inr BroadcastRejected"
  by code_simp

lemma signing_rejected:
  "markBroadcastRejected offline_env ''lease-7'' ''op-1'' ''fp-1'' ''nonce too low'' signed_coord = (Inr (), rejected_coord)"
proof -
  have "fst (markBroadcastRejected offline_env ''lease-7'' ''op-1'' ''fp-1'' ''nonce too low'' signed_coord) = Inr ()"
    by (simp add: markBroadcastRejected_def withLockedLease_def normalizeLeaseOperationInput_def
        normalizeSessionStatusRequiredString_def signing_trims readLease_def lookupLease_def signed_coord_def signing_lease_def
        assertOperationMatches_def withLaneLock_def offline_env_def local_env_def example_env_def ask_def
        preflightLeaseTransition_def signed_rejects releaseBackendReservation_def releaseEvmNonceReservation_def
        removeCoordinationLease_def initial_coord_def transitionLease_def emit_def Let_def jm_eval)
  then show ?thesis by (metis prod.collapse rejected_coord_def)
qed

lemma signing_reconcile:
  "\<exists>c. reconcile offline_env (EvmLane signing_lane) rejected_coord = (Inl (ExternalError ''offline''), c)"
  by (simp add: reconcile_def withLaneLock_def offline_env_def local_env_def example_env_def ask_def now_def ask_rpc_def
      reconcileEvmLaneLocked_def getOrCreateEvmState_def indexEvmLaneByAccount_def refreshEvmLaneFromChainLocked_def Let_def jm_eval
      split: prod.split)

section \<open>The guarantees, applied\<close>

definition signing_env :: "coord_env \<Rightarrow> flow_env" where
  "signing_env c =
     \<lparr>fe_coord = c, fe_chains = example_cfgs, fe_activeSigner = (\<lambda>_ _ _. Inr None),
      fe_nonceError = (\<lambda>e. case e of ExternalError m \<Rightarrow> new_Error m | _ \<Rightarrow> new_Error ''nonce error''),
      fe_backendMessage = (\<lambda>_. ''invalid'')\<rparr>"

definition signing_result :: SignedResult where
  "signing_result = EvmSignedResult (''0x'' @ replicate 64 CHR ''b'') ''0x02''
     (case toManagedNonceReservationSnapshot signing_reservation of Inr sn \<Rightarrow> Some (snapshot_input sn) | Inl _ \<Rightarrow> None)"

definition signing_args :: lifecycle_args where
  "signing_args = \<lparr>la_walletId = ''alice'', la_signedResult = signing_result, la_onEvent = True\<rparr>"

definition signed_flow :: flow where
  "signed_flow = \<lparr>fl_coord = signed_coord, fl_events = []\<rparr>"

lemma signing_carries: "carries (la_signedResult signing_args) signing_reservation"
  by (simp add: carries_def signing_args_def signing_result_def snapshot_of [OF signing_reservation_ok])

lemma signed_flow_coord: "fl_coord signed_flow = signed_coord"
  by (simp add: signed_flow_def)

lemma signing_ids: "mr_leaseId signing_reservation = ''lease-7''" "mr_operationId signing_reservation = ''op-1''"
  "mr_operationFingerprint signing_reservation = ''fp-1''"
  by (simp_all add: signing_reservation_def)

theorem reports_settle_their_lease_witness:
  "settled signed_coord ''lease-7'' TBroadcastAccepted
     (coord_outcome (reportEvmFamilyBroadcastAccepted (signing_env offline_env) signing_args [] signed_flow))"
  using reports_settle_their_lease [OF signing_reservation_ok signing_carries, of signed_flow "signing_env offline_env" "[]"] signed_coord_ok
  by (simp add: signed_flow_coord signing_ids)

lemma signing_mapped: "retryable (mapped_rejection signing_reservation (new_Error ''nonce too low''))"
proof -
  let ?e = "new_Error ''nonce too low''"
  have "isSeamsChainNetwork ''ethereum-sepolia''" "is_error_object ?e" "extractErrorCode ?e \<noteq> ''nonce_conflict_retryable''"
    "inferNonceConflictReason (extractErrorCode ?e) (extractErrorMessage ?e) = Some NonceTooLow" by code_simp+
  from inferred_mapped [OF this] show ?thesis
    by (simp add: mapped_rejection_def signing_reservation_def retryable_def isNonceConflictRetryableError_def)
qed

lemma rejection_message: "rejection_text (new_Error ''nonce too low'') = ''nonce too low''"
  by (simp add: rejection_text_def new_Error_def)

lemma signing_env_coord: "fe_coord (signing_env c) = c"
  by (simp add: signing_env_def)

lemmas signing_run = signing_ids signing_env_coord rejection_message signed_flow_coord signing_reservation_lane

theorem rejected_report_outcome_witness:
  "\<exists>e. fst (coord_outcome (reportEvmFamilyBroadcastRejected (signing_env offline_env) signing_args (new_Error ''nonce too low'') signed_flow)) =
     Inl e \<and> extractErrorCode e \<in> {''nonce_conflict_retryable'', ''nonce_lane_blocked''}"
proof -
  have "numeric_code []" "speaks_of_nonce ''nonce too low''" by code_simp+
  with rejected_report_outcome [OF signing_reservation_ok signing_carries, of "[]" "signing_env offline_env" "''nonce too low''" None signed_flow]
  show ?thesis by (auto simp: new_Error_def [symmetric] signing_run signing_rejected)
qed

theorem failed_reconcile_reported_succeeded_witness:
  "(NonceReconcileSucceeded, Succeeded) \<in> set (map (\<lambda>ev. (le_phase ev, le_status ev))
     (fl_events (snd (reportEvmFamilyBroadcastRejected (signing_env offline_env) signing_args (new_Error ''nonce too low'') signed_flow))))"
proof -
  obtain c where c: "reconcile offline_env (EvmLane signing_lane) rejected_coord = (Inl (ExternalError ''offline''), c)"
    using signing_reconcile by blast
  have "la_onEvent signing_args" by (simp add: signing_args_def)
  from failed_reconcile_reported_succeeded [OF signing_reservation_ok signing_carries this, of "signing_env offline_env"
      "new_Error ''nonce too low''" signed_flow rejected_coord "ExternalError ''offline''" c]
  show ?thesis by (simp add: signing_run signing_rejected signing_mapped c)
qed

definition idle_flow :: flow where
  "idle_flow = \<lparr>fl_coord = initial_coord [], fl_events = []\<rparr>"

definition example_eip1559_request :: MultichainSigningRequest where
  "example_eip1559_request = EvmSigningRequest
     \<lparr>eip_chainId = 11155111, eip_nonce = None, eip_maxPriorityFeePerGas = 2, eip_maxFeePerGas = 9, eip_gasLimit = 21000,
      eip_to = None, eip_value = 5, eip_data = None, eip_accessList = None\<rparr>"

definition blocked_env :: coord_env where
  "blocked_env = local_env\<lparr>env_fetchChainNonce := (\<lambda>_ _. Inr 5), env_evmStaleInFlightThresholdMs := 500\<rparr>"

definition blocked_coord :: coord where
  "blocked_coord = (initial_coord [])\<lparr>evmStates := [(nonceLaneKey (EvmLane signing_lane),
     \<lparr>chainNonce = Some 5, nextCandidate = Some 6,
      inFlight = [(5, \<lparr>flight_nonce = 5, flight_txHash = None, flight_status = FlightAccepted,
                       flight_acceptedAtMs = 0, flight_updatedAtMs = 0\<rparr>)], lastRefreshMs = None\<rparr>)]\<rparr>"

lemma blocked_reserve:
  "\<exists>c. reserve blocked_env (EvmLane signing_lane) example_operation blocked_coord = (Inl (LaneBlocked 5 1000), c)"
  by (simp add: reserve_def withLaneLock_def blocked_env_def local_env_def example_env_def ask_def now_def ask_rpc_def
      blocked_coord_def reserveEvmNonceLeaseUnlocked_def expireDueLeasesForLockedLane_def initial_coord_def getOrCreateEvmState_def
      getOrCreateEvmNonceLaneState_def indexEvmLaneByAccount_def refreshIfNeeded_def shouldRefreshEvmLaneLocked_def
      shouldRefreshEvmLane_def refreshEvmLaneFromChainLocked_def readActiveEvmLeaseNonces_def readCoordinationLaneRecords_def
      updateEvmState_def refreshEvmLaneFromChain_def assertLaneNotBlocked_def readBlockedEvmInFlight_def Let_def jm_eval
      createEvmNonceLaneBlockedError_def degradedStoreMissing_def)

theorem refused_reservation_mapped_witness:
  "\<exists>cause t. reserveManagedEvmNonceForRequest (signing_env blocked_env) example_eip1559_request signing_input example_operation
     \<lparr>fl_coord = blocked_coord, fl_events = []\<rparr> =
     (Inl (createEvmFamilySigningNonceLaneBlockedError BoundaryEvm ''ethereum-sepolia'' 11155111 ''5'' (Some (JNum 1000)) cause), t)"
proof -
  obtain c where "reserve blocked_env (EvmLane signing_lane) example_operation blocked_coord = (Inl (LaneBlocked 5 1000), c)"
    using blocked_reserve by blast
  then have run: "reserve (fe_coord (signing_env blocked_env)) (EvmLane (evmReserveNonceInputToLane signing_input)) example_operation
      (fl_coord \<lparr>fl_coord = blocked_coord, fl_events = []\<rparr>) = (Inl (LaneBlocked 5 1000), c)"
    by (simp add: signing_env_coord flip: signing_lane_def)
  have "int_str 5 = ''5''" by code_simp
  with refused_reservation_mapped [OF run, of example_eip1559_request] show ?thesis
    by (simp add: safe_integer_def signing_input_def) blast
qed

end
