(* ===== verification/CrossRuntime.thy ===== *)
theory CrossRuntime
  imports ReserveProgress
begin

text \<open>
  Runtimes of one origin (tabs, the wallet iframe) that share nothing but the durable store. The
  coordinator of one runtime reads the records of the others before it chooses a nonce; here are the
  consequences for the nonces that different runtimes reserve on one EVM lane.
\<close>

declare jfield.simps [simp del]

section \<open>What reading a lane does to the store\<close>

text \<open>
  The reads of a reservation change the store only by pruning it at the times of the clock. So every
  property of the rows that pruning keeps is kept by them.
\<close>

locale lane_reading =
  fixes Q :: "coord_env \<Rightarrow> lease_rows \<Rightarrow> bool"
  assumes Q_prune: "Q env rows \<Longrightarrow> Q env (pruneExpiredNonceLaneLeaseRecords (env_clock env k) rows)"
begin

abbreviation kept :: "coord_env \<Rightarrow> coord \<Rightarrow> coord \<Rightarrow> bool" where
  "kept env \<equiv> keeps (\<lambda>s. Q env (storeRows s))"

lemma kept_ask: "jinv (kept env) (ask f)"
  by (rule jinvI) (auto simp: ask_def keeps_def)

lemma kept_now: "jinv (kept env) (now e)"
  by (simp add: now_def kept_ask)

lemma kept_ask_rpc: "jinv (kept env) (ask_rpc f)"
  unfolding ask_rpc_def by (intro jinv_intros keeps_refl keeps_trans kept_ask)

lemma kept_degraded: "jinv (kept env) (emitCoordinationDegradedOnce reason input)"
  unfolding emitCoordinationDegradedOnce_def emit_def
  by (intro jinv_intros keeps_refl keeps_trans) auto

lemma kept_degradedStoreMissing: "jinv (kept env) (degradedStoreMissing e input)"
  unfolding degradedStoreMissing_def by (intro jinv_intros keeps_refl kept_degraded)

lemma kept_query: "jinv (kept env) (store_query e f)"
  unfolding store_query_def by (intro jinv_intros keeps_refl keeps_trans kept_ask)

lemma kept_prune: "jinv (kept env) (jbind (now env) (\<lambda>t. store_tx env (\<lambda>rows. Inr (pruneExpiredNonceLaneLeaseRecords t rows))))"
  by (rule jinvI)
     (auto simp: now_def ask_def store_tx_def jm_eval keeps_def Q_prune split: if_splits)

lemma kept_readLane: "jinv (kept env) (readCoordinationLaneRecords env lkey lane)"
  unfolding readCoordinationLaneRecords_def
  by (intro jinv_intros keeps_refl keeps_trans kept_prune kept_query kept_degraded kept_degradedStoreMissing)

lemma kept_addActive: "jinv (kept env) (addActiveRecords env fam c x ps active)"
  by (induction ps arbitrary: active) (auto intro!: jinv_intros kept_now)

lemma kept_readActiveEvm: "jinv (kept env) (readActiveEvmLeaseNonces env lkey c x lane)"
  unfolding readActiveEvmLeaseNonces_def
  by (intro jinv_intros keeps_refl keeps_trans kept_readLane kept_addActive)

lemma kept_getOrCreate: "jinv (kept env) (getOrCreateEvmState lkey)"
  by (rule jinvI) (auto simp: getOrCreateEvmState_def keeps_def split: prod.splits)

lemma kept_updateEvm: "jinv (kept env) (updateEvmState lkey f)"
  unfolding updateEvmState_def by (intro jinv_intros) simp

lemma kept_index: "jinv (kept env) (indexEvmLaneByAccount lane lkey)"
  unfolding indexEvmLaneByAccount_def by (intro jinv_intros) simp

lemma kept_refresh: "jinv (kept env) (refreshEvmLaneFromChainLocked env lane)"
  unfolding refreshEvmLaneFromChainLocked_def Let_def
  by (intro jinv_intros keeps_refl keeps_trans kept_now kept_ask_rpc kept_readActiveEvm kept_updateEvm)

lemma kept_shouldRefresh: "jinv (kept env) (shouldRefreshEvmLaneLocked env lkey st lane)"
  unfolding shouldRefreshEvmLaneLocked_def
  by (intro jinv_intros keeps_refl keeps_trans kept_now kept_readActiveEvm)

lemma kept_refreshIfNeeded: "jinv (kept env) (refreshIfNeeded env lane)"
  unfolding refreshIfNeeded_def Let_def
  by (intro jinv_intros keeps_refl keeps_trans kept_getOrCreate kept_shouldRefresh kept_refresh)

lemma kept_notBlocked: "jinv (kept env) (assertLaneNotBlocked env lane)"
  unfolding assertLaneNotBlocked_def
  by (intro jinv_intros keeps_refl keeps_trans kept_getOrCreate kept_now)

lemmas kept_steps = kept_getOrCreate kept_index kept_refreshIfNeeded kept_notBlocked kept_readActiveEvm kept_readLane

lemma reserve_reads:
  assumes run: "reserve env (EvmLane lane) operation s = (Inr l, t)" and unused: "lane_unused lane s"
    and Q: "Q env (storeRows s)"
  obtains u where "takeEvmCandidate env lane operation u = (Inr l, t)" "Q env (storeRows u)"
proof -
  from run obtain v where rv: "reserveEvmNonceLeaseUnlocked env lane operation v = (Inr l, t)" and "quiet s v"
    by (auto simp: reserve_def elim: withLaneLock_cases)
  with unused Q have v: "lane_unused lane v" "Q env (storeRows v)"
    by (simp_all add: quiet_def lane_unused_def)
  let ?reads = "jseq (getOrCreateEvmState (evm_key lane)) (jseq (indexEvmLaneByAccount lane (evm_key lane))
      (jseq (refreshIfNeeded env lane) (assertLaneNotBlocked env lane)))"
  from rv expire_unused [OF v(1)] obtain x u where reads: "?reads (v\<lparr>tick := Suc (tick v)\<rparr>) = (Inr x, u)"
    and take: "takeEvmCandidate env lane operation u = (Inr l, t)"
    unfolding reserveEvmNonceLeaseUnlocked_def by (auto simp: jseq_ret_iff)
  have "jinv (kept env) ?reads"
    by (intro jinv_intros keeps_refl keeps_trans kept_steps)
  from jinv_keepsD [OF this reads] v(2) have "Q env (storeRows u)" by simp
  with take show thesis by (rule that)
qed

lemma takeEvm_writes:
  assumes run: "takeEvmCandidate env lane operation s = (Inr l, t)" and Q: "Q env (storeRows s)"
  obtains n i j s' where "l = fresh_evm_lease env lane operation n (env_clock env i) (env_random env j)"
    "storeReservedLease env l s' = (Inr (), t)" "Q env (storeRows s')"
  using run unfolding takeEvmCandidate_def Let_def
proof (cases rule: jbind_cases)
  case (continues active u)
  have u: "Q env (storeRows u)" using jinv_keepsD [OF kept_readActiveEvm continues(1) Q] .
  from continues(2) obtain n i j s' where l: "l = fresh_evm_lease env lane operation n (env_clock env i) (env_random env j)"
    "storeReservedLease env l s' = (Inr (), t)" "storeRows s' = storeRows u"
    by (simp add: jstep jseq_ret_iff jm_apply flip: fresh_evm_lease_def) fastforce
  show thesis by (rule that [OF l(1,2)]) (use u l(3) in simp)
qed simp

end

section \<open>A record of another runtime\<close>

lemma none_else: "(if b then None else x) = Some y \<longleftrightarrow> \<not> b \<and> x = Some y"
  by simp

lemma option_case_Some: "(case v of None \<Rightarrow> None | Some x \<Rightarrow> f x) = Some y \<longleftrightarrow> (\<exists>x. v = Some x \<and> f x = Some y)"
  by (cases v) simp_all

lemma row_record_expiry:
  assumes "row_record row = Some p"
  shows "row_field row ''expires_at_ms'' = JNum (rec_expiresAtMs (parsed_record p))"
proof -
  from assms obtain fs where fs: "parseNonceLeaseRow row = Some fs"
    and read: "parseNonceLaneCoordinationRecord (JObj fs) = Inr (ReadOk p)"
    by (auto simp: row_record_def split: option.splits sum.splits NonceLaneCoordinationReadResult.splits)
  from fs obtain r where row: "row = JObj r" by (cases row) (simp_all add: parseNonceLeaseRow_def)
  have rec: "parseNonceLeaseRecord (jfield r ''record'') = Some fs" and same: "jfield r ''expires_at_ms'' = jfield fs ''expiresAtMs''"
    using fs unfolding row parseNonceLeaseRow_def jsval.case option_case_Some none_else by blast+
  obtain f mid rest where base: "stored_base_ok f" and f: "fs = copied_base f @ mid @ copied_metadata f @ rest"
    by (rule parseNonceLeaseRecord_shape [OF rec])
  have "is_safe_integer_value (jfield f ''expiresAtMs'')" using base unfolding stored_base_ok_def by blast
  then obtain n where n: "jfield f ''expiresAtMs'' = JNum n" "safe_integer n"
    by (cases "jfield f ''expiresAtMs''") (simp_all add: is_safe_integer_value_def)
  have fn: "jfield fs ''expiresAtMs'' = JNum n"
    using n(1) by (simp add: f jfield.simps [of "_ # _"] copied_base_def)
  have "rec_expiresAtMs (parsed_record p) = n"
  proof -
    have "parseSafeInteger (jfield fs ''expiresAtMs'') = Some n"
      using n(2) by (simp add: fn parseSafeInteger_def safe_int_def)
    with read show ?thesis
      unfolding parseNonceLaneCoordinationRecord_def Let_def malformedRecordResult_def
      by (auto simp: buildBaseRecord_def split: option.splits if_splits dest!: parseEvmRecord_ok parseNearRecord_ok)
  qed
  with row same fn show ?thesis by (simp add: row_field_def)
qed

text \<open>The store holds the record \<open>p\<close> on the lane, and \<open>p\<close> stays active for as long as the clock says.\<close>

definition record_active :: "string \<Rightarrow> ParsedNonceLaneCoordinationRecord \<Rightarrow> coord_env \<Rightarrow> lease_rows \<Rightarrow> bool" where
  "record_active lkey p env rows \<longleftrightarrow>
     rows_ok rows \<and> rows_readable rows \<and> holds rows lkey p \<and>
     (\<forall>k. isActiveCoordinationLeaseRecord (parsed_record p) (env_clock env k))"

lemma prune_keeps_active:
  assumes ok: "rows_ok rows" and row: "(k, row) \<in> set rows" "row_record row = Some p"
    and active: "isActiveCoordinationLeaseRecord (parsed_record p) t"
  shows "(k, row) \<in> set (pruneExpiredNonceLaneLeaseRecords t rows)"
proof (cases "broadcast_record (parsed_record p)")
  case True
  with row row_record_facts(3) [OF row(2)] have "(k, row) \<in> set (store_sweep (SweepExpired t) rows)"
    by (intro set_sweep(3) [OF ok]) auto
  then show ?thesis by (simp add: store_sweep_def)
next
  case False
  with active have "t < rec_expiresAtMs (parsed_record p)"
    by (simp add: isActiveCoordinationLeaseRecord_def broadcast_record_def split: NonceDurableLeaseLifecycle.splits)
  with row row_record_expiry [OF row(2)] set_delete_scanned [OF ok _ ok subset_refl] show ?thesis
    by (auto simp: pruneExpiredNonceLaneLeaseRecords_def)
qed

lemma prune_subset:
  assumes "rows_ok rows"
  shows "rows_ok (pruneExpiredNonceLaneLeaseRecords t rows)"
    and "set (pruneExpiredNonceLaneLeaseRecords t rows) \<subseteq> set rows"
  using set_sweep(1,2) [OF assms, of "SweepExpired t"] by (simp_all add: store_sweep_def)

lemma rows_readable_subset: "rows_readable rows \<Longrightarrow> set rows' \<subseteq> set rows \<Longrightarrow> rows_readable rows'"
  unfolding rows_readable_def by (meson image_mono subsetD)

interpretation active_record: lane_reading "record_active lkey p" for lkey p
proof
  fix env rows k
  assume "record_active lkey p env rows"
  then have ok: "rows_ok rows" "rows_readable rows" and held: "holds rows lkey p"
    and active: "\<forall>k. isActiveCoordinationLeaseRecord (parsed_record p) (env_clock env k)"
    by (auto simp: record_active_def)
  let ?rows = "pruneExpiredNonceLaneLeaseRecords (env_clock env k) rows"
  have "rows_readable ?rows" using rows_readable_subset [OF ok(2) prune_subset(2) [OF ok(1)]] .
  moreover have "holds ?rows lkey p" using held active prune_keeps_active [OF ok(1)] unfolding holds_def by blast
  ultimately show "record_active lkey p env ?rows"
    using prune_subset(1) [OF ok(1)] active by (simp add: record_active_def)
qed

text \<open>A store that is there and does not fail.\<close>

definition store_works :: "coord_env \<Rightarrow> bool" where
  "store_works env \<longleftrightarrow> (\<exists>b. env_store env = StorePresent b) \<and> (\<forall>k. \<not> env_storeFails env k)"

lemma record_active_key: "record_active lkey p env rows \<Longrightarrow> stored_string lkey"
proof -
  assume "record_active lkey p env rows"
  then obtain k row where row: "(k, row) \<in> set rows" "row_field row ''lane_key'' = JStr lkey" "row_record row = Some p"
    by (auto simp: record_active_def holds_def)
  from row(3) obtain fs where "parseNonceLeaseRow row = Some fs" by (auto simp: row_record_def split: option.splits)
  from stored_lease_string [OF this] row(2) show ?thesis by auto
qed

lemma readLane_finds:
  assumes works: "store_works env" and active: "record_active lkey p env (storeRows s)"
    and run: "readCoordinationLaneRecords env lkey lane s = (Inr ps, t)"
  shows "p \<in> set ps"
proof -
  let ?rows = "pruneExpiredNonceLaneLeaseRecords (env_clock env (tick s)) (storeRows s)"
  have act: "record_active lkey p env ?rows" using active by (rule active_record.Q_prune)
  then obtain qs where qs: "store_readLane ?rows lkey = Inr qs" "set qs = {q. holds ?rows lkey q}"
    using store_readLane_ok record_active_key unfolding record_active_def by blast
  from works obtain b where env: "env_store env = StorePresent b" "\<And>k. \<not> env_storeFails env k"
    by (auto simp: store_works_def)
  from run have "ps = qs"
    by (simp add: readCoordinationLaneRecords_def env now_def ask_def store_tx_def store_query_def jm_eval qs(1))
  with qs(2) act show ?thesis by (simp add: record_active_def)
qed

lemma addActive_adds:
  assumes "p \<in> set ps" and "record_family (parsed_record p) = fam"
    and "\<And>k. isActiveCoordinationLeaseRecord (parsed_record p) (env_clock env k)"
    and "addActiveRecords env fam None None ps active s = (Inr ns, t)"
  shows "parsed_nonce p \<in> set ns"
  using assms(1,4)
proof (induction ps arbitrary: active s)
  case (Cons q ps)
  show ?case
  proof (cases "q = p")
    case True
    with Cons.prems(2) assms(2,3) have "addActiveRecords env fam None None ps (set_add (parsed_nonce p) active) (s\<lparr>tick := Suc (tick s)\<rparr>) = (Inr ns, t)"
      by (simp add: jm_eval now_def ask_def)
    from addActiveRecords_mono [OF this] show ?thesis by auto
  next
    case False
    with Cons.prems obtain a u where "p \<in> set ps" "addActiveRecords env fam None None ps a u = (Inr ns, t)"
      by (auto simp: jm_eval now_def ask_def split: if_splits)
    with Cons.IH show ?thesis by blast
  qed
qed simp

lemma readActiveEvm_sees:
  assumes works: "store_works env" and active: "record_active lkey p env (storeRows s)"
    and fam: "record_family (parsed_record p) = ''evm''"
    and run: "readActiveEvmLeaseNonces env lkey None None lane s = (Inr ns, t)"
  shows "parsed_nonce p \<in> set ns"
proof -
  from run obtain ps u a where read: "readCoordinationLaneRecords env lkey (EvmLane lane) s = (Inr ps, u)"
    and add: "addActiveRecords env ''evm'' None None ps a u = (Inr ns, t)"
    by (auto simp: readActiveEvmLeaseNonces_def jbind_ret_iff jm_apply)
  from addActive_adds [OF readLane_finds [OF works active read] fam _ add] active
  show ?thesis by (simp add: record_active_def)
qed

lemma takeEvm_avoids:
  assumes run: "takeEvmCandidate env lane operation s = (Inr l, t)" and works: "store_works env"
    and Q: "record_active (evm_key lane) p env (storeRows s)" and fam: "record_family (parsed_record p) = ''evm''"
  shows "\<exists>n. slot l = EvmSlot lane n \<and> n \<noteq> parsed_nonce p"
  using run
proof (cases rule: takeEvm_cases)
  case (some active u n now1 random s')
  have "parsed_nonce p \<in> set active" by (rule readActiveEvm_sees [OF works Q fam some(1)])
  then have "n \<noteq> parsed_nonce p" using some(2) chooseEvmCandidate_fresh(1) by metis
  with some(3) show ?thesis by (auto simp: jseq_ret_iff jm_apply fresh_evm_lease_def)
qed simp

text \<open>
  A runtime never reserves a nonce for which the shared store holds an active record of another
  runtime: a record of a transaction that was broadcast, or of a reservation or signature that has not
  expired. The store has to be readable and working, and the runtime must have no lease of its own on
  the lane (such a lease could be the one the record belongs to).
\<close>

theorem reserve_avoids_foreign_records:
  assumes "reserve env (EvmLane lane) operation s = (Inr l, t)" and "lane_unused lane s" and "store_works env"
    and "rows_ok (storeRows s)" and "rows_readable (storeRows s)"
    and "holds (storeRows s) (nonceLaneKey (EvmLane lane)) p" and "record_family (parsed_record p) = ''evm''"
    and "\<forall>k. isActiveCoordinationLeaseRecord (parsed_record p) (env_clock env k)"
  shows "\<exists>n. slot l = EvmSlot lane n \<and> n \<noteq> parsed_nonce p"
proof -
  have "record_active (evm_key lane) p env (storeRows s)" using assms(4-6,8) by (simp add: record_active_def)
  with assms(1,2) obtain u where "takeEvmCandidate env lane operation u = (Inr l, t)" "record_active (evm_key lane) p env (storeRows u)"
    by (rule active_record.reserve_reads)
  with assms(3,7) show ?thesis by (blast intro: takeEvm_avoids)
qed

section \<open>Records of reserved leases\<close>

lemma js_trim_ends: "s \<noteq> [] \<Longrightarrow> \<not> js_whitespace (hd s) \<Longrightarrow> \<not> js_whitespace (last s) \<Longrightarrow> js_trim s = s"
proof -
  have id: "dropWhile js_whitespace xs = xs" if "xs \<noteq> []" "\<not> js_whitespace (hd xs)" for xs
    using that by (cases xs) simp_all
  assume "s \<noteq> []" "\<not> js_whitespace (hd s)" "\<not> js_whitespace (last s)"
  then show ?thesis by (simp add: js_trim_def id hd_rev)
qed

lemma stored_ends:
  assumes "stored_string s"
  shows "s \<noteq> []" and "\<not> js_whitespace (last s)"
proof -
  from assms show s: "s \<noteq> []" by (simp add: stored_string_def)
  have trim: "rev (dropWhile js_whitespace (rev (dropWhile js_whitespace s))) = s"
    using assms by (simp add: stored_string_def js_trim_def)
  let ?d = "dropWhile js_whitespace (rev (dropWhile js_whitespace s))"
  have "?d \<noteq> []" using trim s by (metis rev.simps(1))
  then have "\<not> js_whitespace (hd ?d)" by (rule hd_dropWhile)
  then show "\<not> js_whitespace (last s)" using trim \<open>?d \<noteq> []\<close> by (metis last_rev)
qed

lemma digit_plain: "is_digit c \<Longrightarrow> \<not> js_whitespace c"
  by (auto simp: is_digit_def js_whitespace_def)

lemma key_part_ends: "encode_key_part x \<noteq> []" "\<not> js_whitespace (hd (encode_key_part x))"
    "x = [] \<or> \<not> js_whitespace (last x) \<Longrightarrow> \<not> js_whitespace (last (encode_key_part x))"
proof -
  obtain d ds where d: "nat_str (length x) = d # ds" by (cases "nat_str (length x)") auto
  moreover have "list_all is_digit (nat_str (length x))" by simp
  ultimately show "encode_key_part x \<noteq> []" "\<not> js_whitespace (hd (encode_key_part x))"
    by (auto simp: encode_key_part_def digit_plain)
  show "x = [] \<or> \<not> js_whitespace (last x) \<Longrightarrow> \<not> js_whitespace (last (encode_key_part x))"
    by (auto simp: encode_key_part_def js_whitespace_def)
qed

lemma join_ends:
  assumes "xs \<noteq> []" and "[] \<notin> set xs"
  shows "join_with sep xs \<noteq> []" "hd (join_with sep xs) = hd (hd xs)" "last (join_with sep xs) = last (last xs)"
  using assms by (induction sep xs rule: join_with.induct) (auto simp: hd_append)

lemma key_parts_ends:
  assumes "ps \<noteq> []" and "last ps = [] \<or> \<not> js_whitespace (last (last ps))"
  shows "encodeNonceKeyParts ps \<noteq> []" "\<not> js_whitespace (hd (encodeNonceKeyParts ps))" "\<not> js_whitespace (last (encodeNonceKeyParts ps))"
proof -
  have "map encode_key_part ps \<noteq> []" "[] \<notin> set (map encode_key_part ps)"
    using assms(1) by (auto dest!: sym [where s = "[]"] simp: key_part_ends(1))
  note j = join_ends [OF this]
  from assms(1) key_part_ends(2) show "encodeNonceKeyParts ps \<noteq> []" "\<not> js_whitespace (hd (encodeNonceKeyParts ps))"
    by (simp_all add: encodeNonceKeyParts_def j hd_map)
  from assms key_part_ends(3) show "\<not> js_whitespace (last (encodeNonceKeyParts ps))"
    by (simp add: encodeNonceKeyParts_def j last_map)
qed

lemma int_str_last: "\<not> js_whitespace (last (int_str i))"
  using stored_ends(2) [of "int_str i"] by (simp add: stored_string_def)

lemma evm_key_stored: "stored_string (evm_key lane)"
proof -
  define k where "k = (case nonceKey lane of Some k \<Rightarrow> int_str k | None \<Rightarrow> [])"
  have "k = [] \<or> \<not> js_whitespace (last k)"
    by (cases "nonceKey lane") (simp_all add: k_def int_str_last)
  then show ?thesis
    using key_parts_ends [of "[''evm'', thresholdEcdsaChainTargetKey (chainTarget lane), subjectId lane, js_lower (sender lane), k]"]
    by (simp add: nonceLaneKey_def stored_string_def js_trim_ends k_def)
qed

lemma network_key_stored: "stored_string (nonceLaneNetworkKey (EvmLane lane))"
proof -
  have "\<not> js_whitespace (CHR ''e'')" "\<not> js_whitespace (CHR ''t'')" by (simp_all add: js_whitespace_def)
  then show ?thesis
    by (cases "chainTarget lane")
       (simp_all add: nonceLaneNetworkKey_def thresholdEcdsaChainTargetKey_def stored_string_def js_trim_ends int_str_last)
qed

lemma lease_id_stored: "stored_string random \<Longrightarrow> stored_string (createNonceLeaseId c i n random)"
  using key_parts_ends [of "[c, i, n, random]"] stored_ends [of random]
  by (simp add: createNonceLeaseId_def stored_string_def) (intro js_trim_ends, simp_all add: js_whitespace_def)

text \<open>
  What a runtime has to bring along so that the records of its reservations can be read back: trimmed
  identifiers and times that are safe integers.
\<close>

definition writes_readable :: "coord_env \<Rightarrow> PreparedNonceOperationContext \<Rightarrow> bool" where
  "writes_readable env operation \<longleftrightarrow>
     (\<forall>k. stored_string (env_random env k) \<and> safe_integer (env_clock env k) \<and> safe_integer (env_clock env k + env_leaseTtlMs env)) \<and>
     stored_string (env_runtimeId env) \<and> stored_string (op_operationId operation) \<and> stored_string (op_operationFingerprint operation)"

definition evm_lane_ok :: "EvmNonceLane \<Rightarrow> bool" where
  "evm_lane_ok lane \<longleftrightarrow> record_lane_ok DurableReserved (EvmRecordLane (chainTarget lane) (subjectId lane) (sender lane) (nonceKey lane))"

definition reserved_record :: "coord_env \<Rightarrow> NonceLease \<Rightarrow> EvmNonceLane \<Rightarrow> int \<Rightarrow> int \<Rightarrow> NonceLaneCoordinationRecord" where
  "reserved_record env l lane n upd =
     commonCoordinationRecord l n (expiresAtMs l) upd (env_runtimeId env) DurableReserved
       (EvmRecordLane (chainTarget lane) (subjectId lane) (sender lane) (nonceKey lane))"

lemma reserved_record_ok:
  assumes "writes_readable env operation" and "evm_lane_ok lane" and "0 \<le> n"
  shows "record_ok (reserved_record env (fresh_evm_lease env lane operation n (env_clock env i) (env_random env j)) lane n (env_clock env k))"
  using assms evm_key_stored [of lane] network_key_stored [of lane] lease_id_stored
  by (simp add: record_ok_def reserved_record_def commonCoordinationRecord_def fresh_evm_lease_def lease_lane_def
      writes_readable_def evm_lane_ok_def buildLeaseRecordMetadata_def nonempty_def stored_opt_def)

lemma map_of_insort: "k \<notin> fst ` set xs \<Longrightarrow> map_of (insort_key fst (k, row) xs) k = Some row"
  by (induction xs) auto

lemma map_of_put_row: "map_of (put_row k row rows) k = Some row"
  unfolding put_row_def by (rule map_of_insort) auto

lemma storeReserved_writes:
  assumes run: "storeReservedLease env l s = (Inr (), t)" and works: "store_works env"
    and slot: "slot l = EvmSlot lane n" and ok: "\<And>k. record_ok (reserved_record env l lane n (env_clock env k))"
  obtains k row where "storeRows t = put_row (leaseId l) (JObj row) (storeRows s)"
    "row_record (JObj row) = Some (parsed_of (reserved_record env l lane n (env_clock env k)))"
    "row_field (JObj row) ''lane_key'' = JStr (evm_key lane)"
proof -
  let ?r = "reserved_record env l lane n (env_clock env (tick s))"
  have r: "rec_leaseId ?r = leaseId l" "rec_laneKey ?r = evm_key lane"
    "buildCoordinationRecord l DurableReserved (expiresAtMs l) (env_clock env (tick s)) (env_runtimeId env) = Inr ?r"
    using slot by (simp_all add: reserved_record_def commonCoordinationRecord_def buildCoordinationRecord_def
        buildEvmCoordinationRecord_def lease_lane_def)
  from works obtain b where env: "env_store env = StorePresent b" "\<And>k. \<not> env_storeFails env k"
    by (auto simp: store_works_def)
  obtain row where up: "store_upsert ?r (storeRows s) = Inr (put_row (leaseId l) (JObj row) (storeRows s))"
    and row: "row_record (JObj row) = Some (parsed_of ?r)" "row_field (JObj row) ''lane_key'' = JStr (evm_key lane)"
    by (rule store_put_row [OF ok, of "tick s" "storeRows s"]) (use r in auto)
  from run have "storeRows t = put_row (leaseId l) (JObj row) (storeRows s)"
    by (simp add: storeReservedLease_def set_lease_def persistCoordinationLease_def persistCoordinationRecord_def env now_def ask_def
        store_tx_def emit_def jm_eval r(3) up)
       (drule arg_cong [where f = storeRows], simp)
  with row show thesis by (intro that)
qed

interpretation any_rows: lane_reading "\<lambda>_ _. True"
  by unfold_locales simp

lemma reserve_writes_record:
  assumes "reserve env (EvmLane lane) operation s = (Inr l, t)" and "store_works env" and "writes_readable env operation"
    and "evm_lane_ok lane" and "slot l = EvmSlot lane n" and "0 \<le> n"
  obtains k row where "map_of (storeRows t) (leaseId l) = Some (JObj row)"
    "row_record (JObj row) = Some (parsed_of (reserved_record env l lane n (env_clock env k)))"
    "row_field (JObj row) ''lane_key'' = JStr (evm_key lane)"
proof -
  from assms(1) obtain v where "reserveEvmNonceLeaseUnlocked env lane operation v = (Inr l, t)"
    by (auto simp: reserve_def elim: withLaneLock_cases)
  then obtain v' where "takeEvmCandidate env lane operation v' = (Inr l, t)"
    by (auto simp: reserveEvmNonceLeaseUnlocked_def jseq_ret_iff)
  then obtain m i j w where l: "l = fresh_evm_lease env lane operation m (env_clock env i) (env_random env j)"
    and stored: "storeReservedLease env l w = (Inr (), t)"
    by (rule any_rows.takeEvm_writes) simp
  have "m = n" using l assms(5) by (simp add: fresh_evm_lease_def)
  then have ok: "record_ok (reserved_record env l lane n (env_clock env k))" for k
    using reserved_record_ok [OF assms(3,4,6)] l by simp
  show thesis
    by (rule storeReserved_writes [OF stored assms(2,5) ok]) (use that in \<open>simp add: map_of_put_row\<close>)
qed

lemma reserved_record_facts:
  "record_family (parsed_record (parsed_of (reserved_record env l lane n upd))) = ''evm''"
  "parsed_nonce (parsed_of (reserved_record env l lane n upd)) = n"
  "isActiveCoordinationLeaseRecord (parsed_record (parsed_of (reserved_record env l lane n upd))) t \<longleftrightarrow> t < expiresAtMs l"
  by (simp_all add: parsed_of_def reserved_record_def commonCoordinationRecord_def record_family_def
      isActiveCoordinationLeaseRecord_def)

text \<open>
  C3: Two runtimes that share a working store do not reserve the same nonce of an EVM lane one after the
  other. One has reserved a nonce with a lease that has not expired at any time the second looks at the
  clock; the second has no lease of its own on the lane and finds the row of that lease in the store,
  whose rows can all be read. Then a reservation of the second runtime on that lane that succeeds gets a
  different nonce.
\<close>

theorem runtimes_reserve_apart:
  assumes "reserve envA (EvmLane lane) opA s = (Inr a, s')" and "reserve envB (EvmLane lane) opB u = (Inr b, u')"
    and "store_works envA" and "store_works envB" and "writes_readable envA opA" and "evm_lane_ok lane"
    and "rows_ok (storeRows u)" and "rows_readable (storeRows u)" and "lane_unused lane u"
    and "map_of (storeRows u) (leaseId a) = map_of (storeRows s') (leaseId a)"
    and "\<forall>k. env_clock envB k < expiresAtMs a" and "slot a = EvmSlot lane n" and "0 \<le> n"
  shows "\<exists>m. slot b = EvmSlot lane m \<and> m \<noteq> n"
proof -
  obtain k row where row: "map_of (storeRows s') (leaseId a) = Some (JObj row)"
      "row_record (JObj row) = Some (parsed_of (reserved_record envA a lane n (env_clock envA k)))"
      "row_field (JObj row) ''lane_key'' = JStr (evm_key lane)"
    by (rule reserve_writes_record [OF assms(1,3,5,6,12,13)])
  let ?p = "parsed_of (reserved_record envA a lane n (env_clock envA k))"
  have "(leaseId a, JObj row) \<in> set (storeRows u)" using row(1) assms(10) by (simp add: map_of_SomeD)
  then have "holds (storeRows u) (evm_key lane) ?p" using row(2,3) by (auto simp: holds_def)
  then have "record_active (evm_key lane) ?p envB (storeRows u)"
    using assms(7,8,11) by (simp add: record_active_def reserved_record_facts)
  with assms(2,9) obtain u2 where "takeEvmCandidate envB lane opB u2 = (Inr b, u')"
      "record_active (evm_key lane) ?p envB (storeRows u2)"
    by (rule active_record.reserve_reads)
  from takeEvm_avoids [OF this(1) assms(4) this(2) reserved_record_facts(1)] show ?thesis
    by (simp add: reserved_record_facts)
qed

section \<open>Readable stores\<close>

interpretation readable_rows: lane_reading "\<lambda>_ rows. rows_ok rows \<and> rows_readable rows"
  by unfold_locales (meson rows_readable_subset prune_subset)

text \<open>A reservation leaves a readable store readable.\<close>

lemma reserve_keeps_readable:
  assumes run: "reserve env (EvmLane lane) operation s = (Inr l, t)" and unused: "lane_unused lane s"
    and ok: "rows_ok (storeRows s)" "rows_readable (storeRows s)" and works: "store_works env"
    and lane: "writes_readable env operation" "evm_lane_ok lane" and n: "slot l = EvmSlot lane n" "0 \<le> n"
  shows "rows_readable (storeRows t)"
proof -
  obtain u where take: "takeEvmCandidate env lane operation u = (Inr l, t)" and u: "rows_ok (storeRows u) \<and> rows_readable (storeRows u)"
    by (rule readable_rows.reserve_reads [OF run unused]) (use ok in auto)
  obtain v i j s' where l: "l = fresh_evm_lease env lane operation v (env_clock env i) (env_random env j)"
      and stored: "storeReservedLease env l s' = (Inr (), t)" and "rows_ok (storeRows s') \<and> rows_readable (storeRows s')"
    by (rule readable_rows.takeEvm_writes [OF take u])
  then have s': "rows_readable (storeRows s')" by simp
  have "v = n" using l n(1) by (simp add: fresh_evm_lease_def)
  then have "record_ok (reserved_record env l lane n (env_clock env k))" for k
    using reserved_record_ok [OF lane n(2)] l by simp
  then show ?thesis
    by (rule storeReserved_writes [OF stored works n(1)]) (use readable_put [OF s'] in simp)
qed

section \<open>The first reservation of a lane\<close>

lemma fresh_lane_refreshed:
  assumes run: "refreshIfNeeded env lane s = (Inr (), t)" and fresh: "map_of (evmStates s) (evm_key lane) = Some createEvmNonceLaneState"
  obtains st c where "map_of (evmStates t) (evm_key lane) = Some st" "chainNonce st = Some c" "0 \<le> c"
proof -
  have "shouldRefreshEvmLane createEvmNonceLaneState a b = Inl True" for a b
    by (simp add: shouldRefreshEvmLane_def createEvmNonceLaneState_def)
  with run fresh obtain c where "refreshEvmLaneFromChainLocked env lane (s\<lparr>tick := Suc (tick s)\<rparr>) = (Inr c, t)"
    by (auto simp: refreshIfNeeded_def Let_def jstep getOrCreate_id shouldRefreshEvmLaneLocked_def jm_apply jseq_ret_iff
        jbind_ret_iff now_def ask_def)
  from refresh_known [OF this, of createEvmNonceLaneState] fresh that show thesis by auto
qed

lemma first_reservation_nonneg:
  assumes run: "reserve env (EvmLane lane) operation s = (Inr l, t)" and unused: "lane_unused lane s"
    and fresh: "map_of (evmStates s) (evm_key lane) = None" and n: "slot l = EvmSlot lane n"
  shows "0 \<le> n"
proof -
  from run obtain v where rv: "reserveEvmNonceLeaseUnlocked env lane operation v = (Inr l, t)" and "quiet s v"
    by (auto simp: reserve_def elim: withLaneLock_cases)
  with unused fresh have v: "lane_unused lane v" "map_of (evmStates v) (evm_key lane) = None"
    by (simp_all add: quiet_def lane_unused_def)
  let ?v = "v\<lparr>tick := Suc (tick v), evmStates := AList.update (evm_key lane) createEvmNonceLaneState (evmStates v)\<rparr>"
  from rv expire_unused [OF v(1)] v(2) obtain u w x where "refreshIfNeeded env lane u = (Inr (), w)"
    and u: "evmStates u = evmStates ?v" and free: "assertLaneNotBlocked env lane w = (Inr (), x)"
    and take: "takeEvmCandidate env lane operation x = (Inr l, t)"
    by (auto simp: reserveEvmNonceLeaseUnlocked_def jseq_ret_iff getOrCreateEvmState_def getOrCreateEvmNonceLaneState_def
        indexEvmLaneByAccount_def jm_apply)
  moreover have "map_of (evmStates u) (evm_key lane) = Some createEvmNonceLaneState" by (simp add: u map_of_update_alist)
  ultimately obtain st c where st: "map_of (evmStates w) (evm_key lane) = Some st" "chainNonce st = Some c" "0 \<le> c"
    using fresh_lane_refreshed by blast
  from take show ?thesis
  proof (cases rule: takeEvm_cases)
    case (some active y m now1 random s')
    have "evmStates y = evmStates w"
      using jinvD [OF frame.inv_readActiveEvm some(1)] notBlocked_state(1) [OF free st(1)] by simp
    with st some(2) have "c \<le> m" by (simp add: getOrCreate_id chooseEvmCandidate_ge_chain)
    moreover have "m = n" using some(3) n by (auto simp: jseq_ret_iff jm_apply fresh_evm_lease_def)
    ultimately show ?thesis using st(3) by simp
  qed simp
qed

lemma reserve_expiry:
  assumes "reserve env (EvmLane lane) operation s = (Inr l, t)"
  obtains n i where "slot l = EvmSlot lane n" "expiresAtMs l = env_clock env i + env_leaseTtlMs env"
proof -
  from assms obtain v where "reserveEvmNonceLeaseUnlocked env lane operation v = (Inr l, t)"
    by (auto simp: reserve_def elim: withLaneLock_cases)
  then obtain v' where "takeEvmCandidate env lane operation v' = (Inr l, t)"
    by (auto simp: reserveEvmNonceLeaseUnlocked_def jseq_ret_iff)
  then show thesis by (rule any_rows.takeEvm_writes) (auto simp: fresh_evm_lease_def intro: that)
qed

section \<open>An example\<close>

definition shared_lane :: EvmNonceLane where
  "shared_lane = example_evm_lane\<lparr>sender := ''0x'' @ replicate 40 CHR ''a''\<rparr>"

definition run_a :: "(nonce_error + NonceLease) \<times> coord" where
  "run_a = reserve example_env (EvmLane shared_lane) example_operation (initial_coord [])"

definition env_b :: coord_env where
  "env_b = example_env\<lparr>env_runtimeId := ''runtime-b'', env_clock := (\<lambda>_. 2000)\<rparr>"

definition lease_a :: NonceLease where
  "lease_a = projr (fst run_a)"

lemma run_a_returns: "reserve example_env (EvmLane shared_lane) example_operation (initial_coord []) = (Inr lease_a, snd run_a)"
proof -
  obtain l t where "run_a = (Inr l, t)"
    using reserve_idle_lane_succeeds [OF initial_idle _ example_chain(2), of shared_lane example_operation "[]"]
    by (auto simp: run_a_def example_env_def)
  then have "run_a = (Inr lease_a, snd run_a)" unfolding lease_a_def by (metis fst_conv prod.collapse sum.sel(2))
  then show ?thesis by (simp add: run_a_def)
qed

lemma lease_a_facts: "\<exists>n \<ge> 0. slot lease_a = EvmSlot shared_lane n" "expiresAtMs lease_a = 121000"
proof -
  obtain n i where n: "slot lease_a = EvmSlot shared_lane n"
    and "expiresAtMs lease_a = env_clock example_env i + env_leaseTtlMs example_env"
    by (rule reserve_expiry [OF run_a_returns])
  then show "expiresAtMs lease_a = 121000" by (simp add: example_env_def)
  have "0 \<le> n" by (rule first_reservation_nonneg [OF run_a_returns initial_idle(1) _ n]) (simp add: initial_coord_def)
  with n show "\<exists>n \<ge> 0. slot lease_a = EvmSlot shared_lane n" by blast
qed

lemma example_works: "store_works example_env" "store_works env_b"
  by (auto simp: store_works_def example_env_def env_b_def)

lemma example_writes: "writes_readable example_env example_operation" "evm_lane_ok shared_lane"
proof -
  have "js_trim (replicate (Suc k) CHR ''r'') = replicate (Suc k) CHR ''r''" for k
    by (rule js_trim_no_whitespace) (simp add: list_all_iff js_whitespace_def)
  then have "stored_string (replicate (Suc k) CHR ''r'')" for k by (simp add: stored_string_def del: replicate_Suc)
  moreover have "stored_string ''runtime-a''" "stored_string ''op-1''" "stored_string ''fp-1''" by code_simp+
  ultimately show "writes_readable example_env example_operation"
    by (simp add: writes_readable_def example_env_def example_operation_def safe_integer_def)
  show "evm_lane_ok shared_lane" by code_simp
qed

lemma rows_a: "rows_ok (storeRows (snd run_a))" "rows_readable (storeRows (snd run_a))"
proof -
  have "coord_reach (\<lambda>_. True) example_env (coord_exec example_env (OpReserve (EvmLane shared_lane) example_operation) (initial_coord []))"
    by (intro reach_call reach_initial) (simp_all add: rows_ok_def)
  from parts_ok_reach [OF this] show "rows_ok (storeRows (snd run_a))"
    by (simp add: parts_ok_def run_a_def)
  obtain n where n: "slot lease_a = EvmSlot shared_lane n" "0 \<le> n" using lease_a_facts(1) by blast
  show "rows_readable (storeRows (snd run_a))"
    by (rule reserve_keeps_readable [OF run_a_returns initial_idle(1) _ _ example_works(1) example_writes n])
       (simp_all add: initial_coord_def rows_ok_def rows_readable_def)
qed

lemma run_b_returns:
  obtains b u where "reserve env_b (EvmLane shared_lane) example_operation (initial_coord (storeRows (snd run_a))) = (Inr b, u)"
  using reserve_idle_lane_succeeds [OF initial_idle, of env_b shared_lane example_operation "storeRows (snd run_a)"] example_chain(1)
  by (auto simp: env_b_def example_env_def)

theorem reserve_avoids_foreign_records_witness:
  "\<exists>p b u m. holds (storeRows (snd run_a)) (nonceLaneKey (EvmLane shared_lane)) p \<and>
     reserve env_b (EvmLane shared_lane) example_operation (initial_coord (storeRows (snd run_a))) = (Inr b, u) \<and>
     slot b = EvmSlot shared_lane m \<and> m \<noteq> parsed_nonce p"
proof -
  obtain b u where b: "reserve env_b (EvmLane shared_lane) example_operation (initial_coord (storeRows (snd run_a))) = (Inr b, u)"
    by (rule run_b_returns)
  obtain n where n: "slot lease_a = EvmSlot shared_lane n" "0 \<le> n" using lease_a_facts(1) by blast
  obtain k row where row: "map_of (storeRows (snd run_a)) (leaseId lease_a) = Some (JObj row)"
      "row_record (JObj row) = Some (parsed_of (reserved_record example_env lease_a shared_lane n (env_clock example_env k)))"
      "row_field (JObj row) ''lane_key'' = JStr (evm_key shared_lane)"
    by (rule reserve_writes_record [OF run_a_returns example_works(1) example_writes n])
  let ?p = "parsed_of (reserved_record example_env lease_a shared_lane n (env_clock example_env k))"
  have held: "holds (storeRows (snd run_a)) (nonceLaneKey (EvmLane shared_lane)) ?p"
    using row map_of_SomeD by (fastforce simp: holds_def)
  have "\<exists>m. slot b = EvmSlot shared_lane m \<and> m \<noteq> parsed_nonce ?p"
    by (rule reserve_avoids_foreign_records [OF b initial_idle(1) example_works(2) _ _ _ reserved_record_facts(1)])
       (use rows_a held lease_a_facts(2) in \<open>simp_all add: initial_coord_def reserved_record_facts env_b_def\<close>)
  with b held show ?thesis by blast
qed

theorem runtimes_reserve_apart_witness:
  "\<exists>b u n m. reserve env_b (EvmLane shared_lane) example_operation (initial_coord (storeRows (snd run_a))) = (Inr b, u) \<and>
     slot lease_a = EvmSlot shared_lane n \<and> slot b = EvmSlot shared_lane m \<and> m \<noteq> n"
proof -
  obtain b u where b: "reserve env_b (EvmLane shared_lane) example_operation (initial_coord (storeRows (snd run_a))) = (Inr b, u)"
    by (rule run_b_returns)
  obtain n where n: "slot lease_a = EvmSlot shared_lane n" "0 \<le> n" using lease_a_facts(1) by blast
  have "\<exists>m. slot b = EvmSlot shared_lane m \<and> m \<noteq> n"
    by (rule runtimes_reserve_apart [OF run_a_returns b example_works example_writes _ _ initial_idle(1) _ _ n])
       (use lease_a_facts(2) rows_a in \<open>simp_all add: env_b_def initial_coord_def rows_ok_def\<close>)
  with b n(1) show ?thesis by blast
qed

end
