(* ===== verification/EvmSigningGuarantees.thy ===== *)
theory EvmSigningGuarantees
  imports EvmSigningFlow EvmSigningExamples CrossRuntime
begin

text \<open>
  What a whole run of EVM-family signing does with the nonce it reserves: over the two reservation
  functions, through the executor, and in the one order of events in which the nonce is not given back.
\<close>

declare jfield.simps [simp del]

section \<open>The confirmation flow\<close>

text \<open>
  C6: Every run of the confirmation flow that reserves a nonce settles it, provided that every request for a
  lane lock is granted, for both reservation functions and in every order of confirmation and preparation.
  If the intent, the confirmation, the authorization and the signatures all succeed, the lease ends
  signed and the result names it (a failure after that point needs a failing command sequence or a
  malformed reservation); if any of them fails the flow throws and the lease ends released. The exception
  is a confirmation refused before the reservation whose intent cannot be built. The condition on the locks is needed
  because \<open>releaseNonceReservation\<close> drops its errors: when the lane lock is refused to the release, the lease stays
  reserved until it expires.
\<close>

theorem signing_flow_settles_nonce:
  assumes "prepare = reserveManagedEvmNonceForRequest env request input operation \<or>
           prepare = reserveManagedTempoNonceForRequest env wid tx alg operation who"
    and "signing_env_ok env operation" and "parts_ok (fl_coord f)" and "prepare f = (Inr (rq, r), f')"
    and "\<not> cancelled_unprepared phases auth rq"
  shows "nonce_settled phases rq r
    (signEvmFamilyWithUiConfirm env label (managed_ports env prepare) phases auth request (signing_start f))"
  using assms evm_nonce_port.settles [OF assms(2,3)] tempo_nonce_port.settles [OF assms(2,3)] by blast

text \<open>
  C39: A nonce is left reserved by a failed run in the remaining order of events: the confirmation of an active
  wallet authority is refused before the nonce is reserved, the reservation then succeeds and building
  the intent fails. The flow throws the error of the confirmation and the lease stays reserved, although
  no signature was created.
\<close>

theorem early_cancel_leaks_nonce:
  assumes "signing_env_ok env operation" and "parts_ok (fl_coord f)"
    and "reserveManagedEvmNonceForRequest env request input operation f = (Inr (rq, r), f')"
    and "ph_confirm phases = Inl e" and "ph_buildIntent phases rq = Inl e'"
  shows "\<exists>t. signEvmFamilyWithUiConfirm env label (managed_ports env (reserveManagedEvmNonceForRequest env request input operation))
           phases (ActiveWalletAuthority True) request (signing_start f) = (Inl e, t) \<and>
         run_reservation t = Some r \<and> \<not> run_signatureCreated t \<and> lease_now t r = Some Reserved"
proof -
  let ?ports = "managed_ports env (reserveManagedEvmNonceForRequest env request input operation)"
  obtain s where s: "holding env r s" "intentPreparationTask ?ports phases request (signing_start f) = (Inl e', s)"
    using evm_nonce_port.preparation [OF assms(1-3), of phases request] assms(5) by metis
  then have "lease_now s r = Some Reserved" by (simp add: holding_def lease_now_def held_reserved)
  moreover have "signEvmFamilyWithUiConfirm env label ?ports phases (ActiveWalletAuthority True) request (signing_start f) = (Inl e, s)"
    using s(2) assms(4)
    by (simp add: signEvmFamilyWithUiConfirm_def runShowConfirmationCommand_def releaseAfterFailure_def signing_start_def
        managed_ports_def jm_eval)
  ultimately show ?thesis using s(1) by (auto simp: holding_def)
qed

section \<open>The executor\<close>

lemma recovery_parts:
  assumes "recoverDurableLeases env w s = (x, t)" and "parts_ok s"
  shows "parts_ok t"
  using jinv_keepsD [OF parts.inv_recoverDurable] assms by blast

lemma configured_result:
  assumes "executeConfiguredEvmFamilyTransactionSigning env args kind (Inr signer) retry prepare f = (Inr result, f')"
    and "parts_ok (fl_coord f)"
  obtains (signed) recovered :: "js_error + unit" and g
      where "parts_ok (fl_coord g)" "signer (managed_ports env (jseq (jlift recovered) prepare)) g = (Inr result, f')"
    | (retried) err g where "retry err g = (Inr (Some result), f')"
proof -
  obtain x c where x: "recoverDurableLeases (fe_coord env) (Some (ex_walletId args)) (fl_coord f) = (x, c)" by fastforce
  let ?recovered = "map_sum (fe_nonceError env) id x"
  let ?run = "signer (managed_ports env (jseq (jlift ?recovered) prepare)) (f\<lparr>fl_coord := c\<rparr>)"
  obtain y g where y: "?run = (y, g)" by fastforce
  from x assms(2) have ok: "parts_ok (fl_coord (f\<lparr>fl_coord := c\<rparr>))" by (auto dest: recovery_parts)
  show thesis
  proof (cases y)
    case (Inr z)
    with x y assms(1) have "(y, g) = (Inr result, f')"
      by (simp add: executeConfiguredEvmFamilyTransactionSigning_def managed_ports_def jm_eval)
    with y ok show thesis by (intro signed [of "f\<lparr>fl_coord := c\<rparr>" ?recovered]) simp_all
  next
    case (Inl err)
    obtain z h where z: "retry err g = (z, h)" by fastforce
    with Inl x y assms(1) have "(z, h) = (Inr (Some result), f')"
      by (cases z; cases "resolveNonceNetworkKeyForError (fe_chains env) (ex_request args)")
         (auto simp: executeConfiguredEvmFamilyTransactionSigning_def managed_ports_def jm_eval split: option.splits)
    with z show thesis by (intro retried [of err g]) simp
  qed
qed

text \<open>
  C7: A result of the transaction executor names a lease the coordinator has marked signed, unless it is
  the result of a retry with a fresh email code: for plain EIP-1559 and Tempo requests on both chain
  families, with the sender taken from the prepared owner or looked up, after recovering durable leases, a result of
  \<open>executeEvmFamilyTransactionSigning\<close> either is one that the retry after a failure returned, or it carries the
  snapshot of a reservation whose lease is signed at the end of the run. The lane locks are
  granted throughout, and the identifiers of the operation are visible text.
\<close>

theorem executed_result_names_signed_lease:
  assumes "executeEvmFamilyTransactionSigning env args
      (\<lambda>kind. Inr (signWithUiConfirm env (label kind) (phases kind) auth (ex_request args))) retry f = (Inr result, f')"
    and "signing_env_ok env (ex_operation args)" and "parts_ok (fl_coord f)"
  shows "(\<exists>r. carries result r \<and> lease_state_of (fl_coord f') r = Some Signed) \<or>
         (\<exists>err g. retry err g = (Inr (Some result), f'))"
    (is "?signed \<or> ?retried")
proof (rule disjCI)
  assume "\<not> ?retried"
  have run: ?signed
    if exec: "executeConfiguredEvmFamilyTransactionSigning env args kind
          (Inr (signWithUiConfirm env (label kind) (phases kind) auth (ex_request args))) retry prepare f = (Inr result, f')"
      and port: "\<And>(recovered :: js_error + unit) g t. parts_ok (fl_coord g) \<Longrightarrow>
        signEvmFamilyWithUiConfirm env (label kind) (managed_ports env (jseq (jlift recovered) prepare)) (phases kind) auth
          (ex_request args) (signing_start g) = (Inr result, t) \<Longrightarrow> \<exists>r. carries result r \<and> lease_now t r = Some Signed"
    for kind prepare
  proof -
    show ?thesis
      using exec assms(3)
    proof (cases rule: configured_result)
      case (signed recovered g)
      then show ?thesis using port by (fastforce simp: signWithUiConfirm_def lease_now_def split: prod.splits)
    qed (use \<open>\<not> ?retried\<close> in blast)
  qed
  have same: "args\<lparr>ex_operation := ex_operation args\<rparr> = args" by simp
  note ports = executor_evm_port.result_signed [where args = args, OF assms(2), unfolded same]
    executor_fallback_port.result_signed [where args = args, OF assms(2), unfolded same]
    executor_tempo_port.result_signed [where args = args, OF assms(2)]
  show ?signed
  proof (cases "ex_request args")
    case (EvmSigningRequest tx)
    with assms(1) show ?thesis
      by (cases "ex_thresholdState args")
         (auto simp: executeEvmFamilyTransactionSigning_def requireRawEip1559ThresholdOwnerNonceSenderIdentity_def jm_eval
           intro: run ports)
  next
    case (TempoSigningRequest tx alg)
    with assms(1) show ?thesis
      by (auto simp: executeEvmFamilyTransactionSigning_def intro: run ports split: if_splits)
  qed
qed

section \<open>The guarantees, applied\<close>

abbreviation sepolia_env :: flow_env where
  "sepolia_env \<equiv> signing_env example_env"

definition signing_succeeds :: "unit signing_phases" where
  "signing_succeeds =
     \<lparr>ph_buildIntent = (\<lambda>_. Inr ()), ph_confirm = Inr (), ph_authorize = (\<lambda>_. Inr ()),
      ph_sign = (\<lambda>_. Inr (EvmSignedResult (''0x'' @ replicate 64 CHR ''b'') ''0x02'' None)), ph_finish = Inr ()\<rparr>"

definition signing_cancelled :: "unit signing_phases" where
  "signing_cancelled = signing_succeeds\<lparr>ph_buildIntent := (\<lambda>_. Inl (new_Error ''bad intent'')), ph_confirm := Inl (new_Error ''rejected'')\<rparr>"

lemma sepolia_ok: "signing_env_ok sepolia_env example_operation"
proof -
  have "stored_string (op_operationId example_operation)" "stored_string (op_operationFingerprint example_operation)" by code_simp+
  moreover have "\<forall>k. stored_string (env_random (fe_coord sepolia_env) k)" "\<forall>k. env_lock (fe_coord sepolia_env) k = None"
    by (simp_all add: signing_env_coord example_env_def stored_string_def js_trim_def js_whitespace_def flip: replicate_Suc)
  ultimately show ?thesis by (simp add: signing_env_ok_def)
qed

lemma idle_flow_ok: "parts_ok (fl_coord idle_flow)"
  by (simp add: idle_flow_def parts_ok_initial rows_ok_Nil)

text \<open>On an idle lane of the example chain a reservation succeeds and is well formed.\<close>

lemma take_clock:
  "takeEvmCandidate env lane operation s = (Inr l, t) \<Longrightarrow> \<exists>k. reservedAtMs l = env_clock env k"
  by (auto simp: takeEvmCandidate_def Let_def jbind_ret_iff jseq_ret_iff ask_def now_def jm_apply)

lemma reserve_clock:
  assumes "reserve env (EvmLane lane) operation s = (Inr l, t)"
  shows "\<exists>k. reservedAtMs l = env_clock env k"
proof -
  from assms obtain v where "reserveEvmNonceLeaseUnlocked env lane operation v = (Inr l, t)"
    by (auto simp: reserve_def elim: withLaneLock_cases)
  then show ?thesis by (auto simp: reserveEvmNonceLeaseUnlocked_def jseq_ret_iff dest: take_clock)
qed

lemma sepolia_reserves:
  assumes "lane_unused signing_lane (fl_coord f)" and "evmStates (fl_coord f) = []" and "parts_ok (fl_coord f)"
  obtains r f' where "reserveManagedEvmNonceForRequest sepolia_env request signing_input example_operation f =
    (Inr (with_nonce (mr_nonce r) request, r), f')" "reservation_ok r"
proof -
  have idle: "nothing_in_flight signing_lane (fl_coord f)" using assms(2) by (simp add: nothing_in_flight_def)
  have locks: "\<forall>k. env_lock example_env k = None" by (simp add: example_env_def)
  obtain l c where l: "reserve example_env (EvmLane signing_lane) example_operation (fl_coord f) = (Inr l, c)"
    using idle_reserve [OF assms(1) idle locks example_chain(2)] by blast
  obtain n i where n: "slot l = EvmSlot signing_lane n" and exp: "expiresAtMs l = env_clock example_env i + env_leaseTtlMs example_env"
    by (rule reserve_expiry [OF l])
  obtain k where res: "reservedAtMs l = env_clock example_env k" using reserve_clock [OF l] by blast
  have nonneg: "0 \<le> n" by (rule first_reservation_nonneg [OF l assms(1) _ n]) (simp add: assms(2))
  from n obtain r where conv: "evmNonceLeaseToManagedReservation l = Inr r"
    by (simp add: evmNonceLeaseToManagedReservation_def assertEvmLease_def)
  have run: "reserveManagedEvmNonceForRequest sepolia_env request signing_input example_operation f =
      (Inr (with_nonce (mr_nonce r) request, r), f\<lparr>fl_coord := c\<rparr>)"
    using l conv
    by (simp add: reserveManagedEvmNonceForRequest_def reserveManagedNonce_def Let_def jm_eval coordinator_apply signing_env_coord
        flip: signing_lane_def)
  have "held r c"
    using evm_nonce_port.prepared [OF sepolia_ok assms(3) run] by simp
  then have "reservation_ok r"
    using signing_reservation_ok conv n nonneg exp res
    by (auto simp: reservation_ok_def held_def evmNonceLeaseToManagedReservation_def assertEvmLease_def signing_reservation_def
        signing_lane_def signing_input_def evmReserveNonceInputToLane_def evmLaneToReserveNonceInput_def example_env_def safe_integer_def)
  with run show thesis by (rule that)
qed

lemma idle_reserves:
  obtains r f' where "reserveManagedEvmNonceForRequest sepolia_env request signing_input example_operation idle_flow =
    (Inr (with_nonce (mr_nonce r) request, r), f')"
  using sepolia_reserves [of idle_flow request] initial_idle(1) idle_flow_ok
  by (metis (no_types, lifting) idle_flow_def flow.select_convs(1) initial_coord_def coord.select_convs)

theorem signing_flow_settles_nonce_witness:
  "\<exists>rq r. nonce_settled signing_succeeds rq r
     (signEvmFamilyWithUiConfirm sepolia_env ''EVM''
        (managed_ports sepolia_env (reserveManagedEvmNonceForRequest sepolia_env example_eip1559_request signing_input example_operation))
        signing_succeeds OwnerAuthorization example_eip1559_request (signing_start idle_flow))"
proof -
  let ?prepare = "reserveManagedEvmNonceForRequest sepolia_env example_eip1559_request signing_input example_operation"
  obtain r f' where run: "?prepare idle_flow = (Inr (with_nonce (mr_nonce r) example_eip1559_request, r), f')"
    by (rule idle_reserves)
  have "\<not> cancelled_unprepared signing_succeeds OwnerAuthorization (with_nonce (mr_nonce r) example_eip1559_request)"
    by (simp add: cancelled_unprepared_def)
  from signing_flow_settles_nonce [OF disjI1 [OF refl] sepolia_ok idle_flow_ok run this] show ?thesis by blast
qed

theorem early_cancel_leaks_nonce_witness:
  "\<exists>r t. signEvmFamilyWithUiConfirm sepolia_env ''EVM''
      (managed_ports sepolia_env (reserveManagedEvmNonceForRequest sepolia_env example_eip1559_request signing_input example_operation))
      signing_cancelled (ActiveWalletAuthority True) example_eip1559_request (signing_start idle_flow) = (Inl (new_Error ''rejected''), t) \<and>
    lease_now t r = Some Reserved"
proof -
  obtain r f' where run: "reserveManagedEvmNonceForRequest sepolia_env example_eip1559_request signing_input example_operation idle_flow =
      (Inr (with_nonce (mr_nonce r) example_eip1559_request, r), f')"
    by (rule idle_reserves)
  show ?thesis
    using early_cancel_leaks_nonce [OF sepolia_ok idle_flow_ok run, of signing_cancelled "new_Error ''rejected''" "new_Error ''bad intent''" "''EVM''"]
    by (auto simp: signing_cancelled_def)
qed

definition sepolia_owner :: string where
  "sepolia_owner = ''0x'' @ replicate 40 CHR ''a''"

definition sepolia_args :: executor_args where
  "sepolia_args =
     \<lparr>ex_walletId = ''alice'', ex_request = example_eip1559_request, ex_chainTarget = EvmTarget 11155111 ''ethereum-sepolia'',
      ex_thresholdState = PreparedOwner sepolia_owner, ex_operation = example_operation\<rparr>"

lemma sepolia_input:
  "resolveManagedEvmNonceReservationInput sepolia_env ''alice'' example_eip1559_request (ThresholdOwner sepolia_owner) f =
     (Inr signing_input, f)"
proof -
  have request: "request_family example_eip1559_request = BoundaryEvm" "request_chainId example_eip1559_request = 11155111"
    by (simp_all add: example_eip1559_request_def)
  have key: "resolveNonceNetworkKey example_cfgs example_eip1559_request = Inr ''ethereum-sepolia''"
    by (simp add: resolveNonceNetworkKey_def tryResolveNonceNetworkKey_def request example_cfgs_def readOptionalChainId_def
        unique_network_def isEvmFamilyNetwork_def isTempoFamilyNetwork_def chainFamilyFromNetwork_def isNearChainNetwork_def isTempoChainNetwork_def
        isSeamsChainNetwork_def SEAMS_CHAIN_NETWORKS_def opt_of_string_def)
  have "reserveNonceInputFromBoundary BoundaryEvm ''ethereum-sepolia'' 11155111 sepolia_owner None ''alice'' =
      Inr signing_input" by code_simp
  with key show ?thesis
    by (simp add: resolveManagedEvmNonceReservationInput_def backend_result_def signing_env_def request jm_eval)
qed

text \<open>The executor on the idle flow: recovery finds nothing, and the flow signs.\<close>

definition recovered_flow :: flow where
  "recovered_flow = idle_flow\<lparr>fl_coord := (fl_coord idle_flow)\<lparr>tick := Suc (tick (fl_coord idle_flow))\<rparr>\<rparr>"

lemma sepolia_recovers:
  "recoverDurableLeases example_env (Some ''alice'') (fl_coord idle_flow) = (Inr (), fl_coord recovered_flow)"
proof -
  have "store_readAllForRecovery [] (Some ''alice'') = Inr []" by code_simp
  then show ?thesis
    by (simp add: recoverDurableLeases_def example_env_def store_query_def ask_def idle_flow_def initial_coord_def
        recovered_flow_def jm_eval)
qed

abbreviation sepolia_signer :: "BoundaryEcdsaChainFamily \<Rightarrow> js_error + (nonce_ports \<Rightarrow> SignedResult fm)" where
  "sepolia_signer \<equiv> \<lambda>kind. Inr (signWithUiConfirm sepolia_env ''EVM'' signing_succeeds OwnerAuthorization (ex_request sepolia_args))"

lemma sepolia_prepares:
  obtains r f' where "jseq (jlift (Inr () :: js_error + unit))
      (prepareEvmRequestWithManagedNonce sepolia_env sepolia_args (ThresholdOwner sepolia_owner)) recovered_flow =
    (Inr (with_nonce (mr_nonce r) example_eip1559_request, r), f')" "reservation_ok r"
proof -
  have "parts_ok (fl_coord recovered_flow)" using idle_flow_ok by (simp add: recovered_flow_def parts_ok_def leases_ok_def)
  then obtain r f' where "reserveManagedEvmNonceForRequest sepolia_env example_eip1559_request signing_input example_operation recovered_flow =
      (Inr (with_nonce (mr_nonce r) example_eip1559_request, r), f')" "reservation_ok r"
    using sepolia_reserves [of recovered_flow example_eip1559_request]
    by (auto simp: recovered_flow_def idle_flow_def initial_coord_def lane_unused_def)
  then show thesis
    by (intro that) (simp_all add: prepareEvmRequestWithManagedNonce_def sepolia_args_def sepolia_input jm_eval)
qed

lemma sepolia_executes:
  "\<exists>result f'. executeEvmFamilyTransactionSigning sepolia_env sepolia_args sepolia_signer (\<lambda>_. jret None) idle_flow = (Inr result, f')"
proof -
  let ?who = "ThresholdOwner sepolia_owner"
  let ?prepare = "jseq (jlift (Inr () :: js_error + unit)) (prepareEvmRequestWithManagedNonce sepolia_env sepolia_args ?who)"
  have args: "sepolia_args\<lparr>ex_operation := example_operation\<rparr> = sepolia_args" by (simp add: sepolia_args_def)
  have "parts_ok (fl_coord recovered_flow)" using idle_flow_ok by (simp add: recovered_flow_def parts_ok_def leases_ok_def)
  moreover obtain r f' where run: "?prepare recovered_flow = (Inr (with_nonce (mr_nonce r) example_eip1559_request, r), f')"
    and ok: "reservation_ok r" by (rule sepolia_prepares)
  moreover have "\<not> cancelled_unprepared signing_succeeds OwnerAuthorization (with_nonce (mr_nonce r) example_eip1559_request)"
    by (simp add: cancelled_unprepared_def)
  ultimately have settled: "nonce_settled signing_succeeds (with_nonce (mr_nonce r) example_eip1559_request) r
      (signEvmFamilyWithUiConfirm sepolia_env ''EVM'' (managed_ports sepolia_env ?prepare) signing_succeeds OwnerAuthorization
         (ex_request sepolia_args) (signing_start recovered_flow))"
    using executor_evm_port.settles [where args = sepolia_args and who = ?who, OF sepolia_ok, unfolded args] by blast
  obtain res t where "signEvmFamilyWithUiConfirm sepolia_env ''EVM'' (managed_ports sepolia_env ?prepare) signing_succeeds OwnerAuthorization
         (ex_request sepolia_args) (signing_start recovered_flow) = (res, t)" by fastforce
  moreover with settled ok have "\<exists>result. res = Inr result"
    by (cases res) (auto simp: nonce_settled_def signs_def signing_succeeds_def)
  moreover have "idle_flow\<lparr>fl_coord := fl_coord recovered_flow\<rparr> = recovered_flow" by (simp add: recovered_flow_def)
  ultimately show ?thesis
    using sepolia_recovers
    by (auto simp: executeEvmFamilyTransactionSigning_def executeConfiguredEvmFamilyTransactionSigning_def signing_env_coord
        requireRawEip1559ThresholdOwnerNonceSenderIdentity_def sepolia_args_def example_eip1559_request_def
        signWithUiConfirm_def managed_ports_def jm_eval)
qed

theorem executed_result_names_signed_lease_witness:
  "\<exists>result f' r. executeEvmFamilyTransactionSigning sepolia_env sepolia_args sepolia_signer (\<lambda>_. jret None) idle_flow = (Inr result, f') \<and>
     carries result r \<and> lease_state_of (fl_coord f') r = Some Signed"
proof -
  obtain result f' where run: "executeEvmFamilyTransactionSigning sepolia_env sepolia_args sepolia_signer (\<lambda>_. jret None) idle_flow =
      (Inr result, f')" using sepolia_executes by blast
  have "signing_env_ok sepolia_env (ex_operation sepolia_args)" using sepolia_ok by (simp add: sepolia_args_def)
  from executed_result_names_signed_lease [OF run this idle_flow_ok] run show ?thesis
    by (auto simp: jm_apply)
qed

end
