(* ===== verification/SigningSessionPlanner.thy ===== *)
theory SigningSessionPlanner
  imports EvmSigningErrors
begin

text \<open>
  Planning a signing session: the lanes a wallet can sign on and the plans for using them
  (\<open>session/operationState/types.ts\<close>), the planner that decides whether a warm session may sign or the
  user has to authenticate again (\<open>session/planning/planner.ts\<close>), and the way from a lane and its
  readiness to the authentication the confirmation asks for (\<open>resolveAuthPlanFromReadiness\<close> of
  \<open>session/SigningSessionCoordinator.ts\<close>, \<open>session/operationState/preparedOperation.ts\<close>,
  \<open>signingAuthPlanFromSigningSessionPlan\<close> of \<open>flows/shared/signingConfirmation.ts\<close>).
\<close>

declare jfield.simps [simp del]

section \<open>Lanes\<close>

datatype SignerAuthMethod = PasskeyMethod | EmailOtpMethod | VoiceIdMethod

datatype SigningLaneAuthBinding =
    PasskeyBinding (rpId: string) (credentialIdB64u: string)
  | EmailOtpBinding (providerSubjectId: string)
  | VoiceIdBinding (voice_walletAuthMethodId: string) (deviceKeyId: string)

fun signingLaneAuthMethod :: "SigningLaneAuthBinding \<Rightarrow> SignerAuthMethod" where
  "signingLaneAuthMethod (PasskeyBinding _ _) = PasskeyMethod"
| "signingLaneAuthMethod (EmailOtpBinding _) = EmailOtpMethod"
| "signingLaneAuthMethod (VoiceIdBinding _ _) = VoiceIdMethod"

record MpcMaterialActivationRef =
  ma_activationId :: string
  ma_capability :: string
  ma_materialOwner :: string
  ma_keyBinding :: string
  ma_lifecycleBinding :: string
  ma_signingWorker :: string

definition mpcMaterialActivationRefsEqual :: "MpcMaterialActivationRef \<Rightarrow> MpcMaterialActivationRef \<Rightarrow> bool" where
  "mpcMaterialActivationRefsEqual l r \<longleftrightarrow>
     ma_activationId l = ma_activationId r \<and> ma_capability l = ma_capability r \<and>
     ma_materialOwner l = ma_materialOwner r \<and> ma_keyBinding l = ma_keyBinding r \<and>
     ma_lifecycleBinding l = ma_lifecycleBinding r \<and> ma_signingWorker l = ma_signingWorker r"

text \<open>\<open>ExactEvmFamilyWalletSessionAuthorization\<close>, without the runtime the planner does not read.\<close>

record ActiveWalletSession =
  ws_walletId :: string
  ws_authorityId :: string
  ws_authMethodId :: string
  ws_authorizationId :: string
  ws_quotaId :: string
  ws_authorityDigestB64u :: string
  ws_authorityRevocationEpoch :: int

record WalletSessionAuthorization =
  au_authorityId :: string
  au_authMethodKind :: SignerAuthMethod
  au_walletAuthMethodId :: string
  au_session :: ActiveWalletSession
  au_walletSessionId :: string
  au_token :: string

datatype lane_signer =
    EvmFamilyEcdsaSigner (signer_walletId: string)
  | NearEd25519Signer (signer_walletId: string) (signer_nearAccountId: string) (signer_nearEd25519SigningKeyId: string)

datatype SigningSessionRetention = SessionRetention | SingleUseRetention

record lane_base =
  ln_signer :: lane_signer
  ln_auth :: SigningLaneAuthBinding
  ln_keyKind :: string
  ln_chainFamily :: string
  ln_sessionOrigin :: string
  ln_storageSource :: string
  ln_retention :: SigningSessionRetention

datatype SelectedSigningLane =
    Ed25519Lane (lane_info: lane_base) (ed_walletSessionId: string) (ed_quotaId: string) (ed_thresholdSessionId: string)
  | EcdsaLane (lane_info: lane_base) (ec_materialActivation: MpcMaterialActivationRef)
      (ec_authorization: WalletSessionAuthorization)

record DeferredEd25519Lane = lane_base +
  df_materialActivation :: MpcMaterialActivationRef
  df_thresholdSessionId :: string

datatype SigningCurve = Ed25519 | Ecdsa

fun lane_curve :: "SelectedSigningLane \<Rightarrow> SigningCurve" where
  "lane_curve (Ed25519Lane _ _ _ _) = Ed25519"
| "lane_curve (EcdsaLane _ _ _) = Ecdsa"

section \<open>Plans\<close>

datatype SigningKeyRefIntent =
    CachedEd25519 (key_thresholdSessionId: string)
  | CachedEcdsa (key_materialActivation: MpcMaterialActivationRef) (key_authorization: WalletSessionAuthorization)
  | ReauthKeyRef SigningCurve SignerAuthMethod

datatype PasskeyReconnectPlan =
    ReconnectEd25519 SelectedSigningLane string
  | ReconnectEcdsa SelectedSigningLane MpcMaterialActivationRef WalletSessionAuthorization

datatype SigningSessionNotReadyReason =
    MissingSession | ExpiredSession | ExhaustedSession | StatusUnknown | AuthUnavailable | StatusUnavailable | PolicyBlocked

fun not_ready_str :: "SigningSessionNotReadyReason \<Rightarrow> string" where
  "not_ready_str MissingSession = ''missing_session''"
| "not_ready_str ExpiredSession = ''expired''"
| "not_ready_str ExhaustedSession = ''exhausted''"
| "not_ready_str StatusUnknown = ''status_unknown''"
| "not_ready_str AuthUnavailable = ''auth_unavailable''"
| "not_ready_str StatusUnavailable = ''status_unavailable''"
| "not_ready_str PolicyBlocked = ''policy_blocked''"

text \<open>\<open>challenge\<close> of an email plan repeats the lane and its chain family.\<close>

datatype SigningSessionPlan =
    WarmSessionPlan SelectedSigningLane SigningKeyRefIntent
  | EmailOtpReauthPlan SelectedSigningLane
  | PasskeyReauthPlan SelectedSigningLane PasskeyReconnectPlan
  | NotReadyPlan SelectedSigningLane SigningSessionNotReadyReason
  | OperationStepUpPlan DeferredEd25519Lane

fun plan_lane_base :: "SigningSessionPlan \<Rightarrow> lane_base" where
  "plan_lane_base (WarmSessionPlan l _) = lane_info l"
| "plan_lane_base (EmailOtpReauthPlan l) = lane_info l"
| "plan_lane_base (PasskeyReauthPlan l _) = lane_info l"
| "plan_lane_base (NotReadyPlan l _) = lane_info l"
| "plan_lane_base (OperationStepUpPlan l) = lane_base.truncate l"

fun plan_kind :: "SigningSessionPlan \<Rightarrow> string" where
  "plan_kind (WarmSessionPlan _ _) = ''warm_session''"
| "plan_kind (EmailOtpReauthPlan _) = ''email_otp_reauth''"
| "plan_kind (PasskeyReauthPlan _ _) = ''passkey_reauth''"
| "plan_kind (NotReadyPlan _ _) = ''not_ready''"
| "plan_kind (OperationStepUpPlan _) = ''operation_step_up''"

record SigningLaneSummary =
  sum_authMethod :: SignerAuthMethod
  sum_curve :: SigningCurve
  sum_keyKind :: string
  sum_chainFamily :: string
  sum_sessionOrigin :: string
  sum_storageSource :: string
  sum_retention :: SigningSessionRetention
  sum_walletId :: string
  sum_near :: "(string \<times> string) option"

definition summarizeSigningLane :: "lane_base \<Rightarrow> SigningLaneSummary" where
  "summarizeSigningLane lane =
     \<lparr>sum_authMethod = signingLaneAuthMethod (ln_auth lane),
      sum_curve = (case ln_signer lane of EvmFamilyEcdsaSigner _ \<Rightarrow> Ecdsa | NearEd25519Signer _ _ _ \<Rightarrow> Ed25519),
      sum_keyKind = ln_keyKind lane, sum_chainFamily = ln_chainFamily lane, sum_sessionOrigin = ln_sessionOrigin lane,
      sum_storageSource = ln_storageSource lane, sum_retention = ln_retention lane,
      sum_walletId = signer_walletId (ln_signer lane),
      sum_near = (case ln_signer lane of EvmFamilyEcdsaSigner _ \<Rightarrow> None | NearEd25519Signer _ a k \<Rightarrow> Some (a, k))\<rparr>"

record SigningPlanSummary =
  plan_summary_kind :: string
  plan_summary_lane :: SigningLaneSummary

definition summarizeSigningSessionPlan :: "SigningSessionPlan \<Rightarrow> SigningPlanSummary" where
  "summarizeSigningSessionPlan plan =
     \<lparr>plan_summary_kind = plan_kind plan, plan_summary_lane = summarizeSigningLane (plan_lane_base plan)\<rparr>"

section \<open>The planner\<close>

datatype ReadinessStatus =
    SessionReady (ready_remainingUses: int) (ready_expiresAtMs: int)
  | SessionExhausted (ready_remainingUses: int) (ready_expiresAtMs: int)
  | SessionExpired (ready_expiresAtMs: int)
  | SessionMissing
  | SessionAuthUnavailable
  | SessionStatusUnavailable
  | SessionStatusUnknown

datatype SigningSessionReadiness =
    Ed25519Readiness (readiness_status: ReadinessStatus) (rd_thresholdSessionId: string)
  | EcdsaReadiness (readiness_status: ReadinessStatus) (rd_materialActivation: MpcMaterialActivationRef)
      (rd_authorization: WalletSessionAuthorization)

fun readiness_curve :: "SigningSessionReadiness \<Rightarrow> SigningCurve" where
  "readiness_curve (Ed25519Readiness _ _) = Ed25519"
| "readiness_curve (EcdsaReadiness _ _ _) = Ecdsa"

datatype SensitiveOperationPolicy = InheritSessionPolicy | RequireFreshSameMethod | RequirePasskey | DenyEmailOtp

record SigningSessionPlannerInput =
  pi_lane :: SelectedSigningLane
  pi_readiness :: SigningSessionReadiness
  pi_forceFreshAuth :: bool
  pi_sensitiveOperationPolicy :: "SensitiveOperationPolicy option"

definition input_auth :: "SigningSessionPlannerInput \<Rightarrow> SignerAuthMethod" where
  "input_auth input = signingLaneAuthMethod (ln_auth (lane_info (pi_lane input)))"

definition getPolicyBlock :: "SigningSessionPlannerInput \<Rightarrow> SigningSessionNotReadyReason option" where
  "getPolicyBlock input =
     (if input_auth input \<noteq> EmailOtpMethod then None
      else if pi_sensitiveOperationPolicy input = Some DenyEmailOtp \<or> pi_sensitiveOperationPolicy input = Some RequirePasskey
      then Some PolicyBlocked else None)"

definition curve_mismatch :: js_error where
  "curve_mismatch = new_Error ''[SigningSession] planner lane and readiness curves do not match''"

text \<open>The long comparison of the authorizations of an ECDSA lane and its readiness.\<close>

definition authorizations_match :: "WalletSessionAuthorization \<Rightarrow> WalletSessionAuthorization \<Rightarrow> bool" where
  "authorizations_match l r \<longleftrightarrow>
     au_authorityId l = au_authorityId r \<and> au_authMethodKind l = au_authMethodKind r \<and>
     au_walletAuthMethodId l = au_walletAuthMethodId r \<and>
     ws_walletId (au_session l) = ws_walletId (au_session r) \<and>
     ws_authorityId (au_session l) = ws_authorityId (au_session r) \<and>
     ws_authMethodId (au_session l) = ws_authMethodId (au_session r) \<and>
     ws_authorizationId (au_session l) = ws_authorizationId (au_session r) \<and>
     ws_quotaId (au_session l) = ws_quotaId (au_session r) \<and>
     ws_authorityDigestB64u (au_session l) = ws_authorityDigestB64u (au_session r) \<and>
     ws_authorityRevocationEpoch (au_session l) = ws_authorityRevocationEpoch (au_session r) \<and>
     au_walletSessionId l = au_walletSessionId r \<and> au_token l = au_token r"

fun readiness_authority_mismatch :: "SelectedSigningLane \<Rightarrow> SigningSessionReadiness \<Rightarrow> bool" where
  "readiness_authority_mismatch (EcdsaLane _ m a) (EcdsaReadiness _ m' a') \<longleftrightarrow>
     \<not> mpcMaterialActivationRefsEqual m m' \<or> \<not> authorizations_match a a'"
| "readiness_authority_mismatch _ _ \<longleftrightarrow> False"

definition needsFreshAuth :: "SigningSessionPlannerInput \<Rightarrow> bool" where
  "needsFreshAuth input \<longleftrightarrow>
     pi_forceFreshAuth input \<or> pi_sensitiveOperationPolicy input = Some RequireFreshSameMethod \<or>
     ln_retention (lane_info (pi_lane input)) = SingleUseRetention"

definition warm_plan :: "SigningSessionPlannerInput \<Rightarrow> js_error + SigningSessionPlan" where
  "warm_plan input =
     (case (pi_lane input, pi_readiness input) of
        (Ed25519Lane _ _ _ _, Ed25519Readiness _ sid) \<Rightarrow> Inr (WarmSessionPlan (pi_lane input) (CachedEd25519 sid))
      | (EcdsaLane _ _ _, EcdsaReadiness _ m a) \<Rightarrow> Inr (WarmSessionPlan (pi_lane input) (CachedEcdsa m a))
      | _ \<Rightarrow> Inl curve_mismatch)"

definition passkey_plan :: "SigningSessionPlannerInput \<Rightarrow> js_error + SigningSessionPlan" where
  "passkey_plan input =
     (case (pi_lane input, pi_readiness input) of
        (Ed25519Lane _ _ _ _, Ed25519Readiness _ sid) \<Rightarrow>
          Inr (PasskeyReauthPlan (pi_lane input) (ReconnectEd25519 (pi_lane input) sid))
      | (EcdsaLane _ _ _, EcdsaReadiness _ m a) \<Rightarrow>
          Inr (PasskeyReauthPlan (pi_lane input) (ReconnectEcdsa (pi_lane input) m a))
      | _ \<Rightarrow> Inl curve_mismatch)"

fun terminal_reason :: "ReadinessStatus \<Rightarrow> SigningSessionNotReadyReason option" where
  "terminal_reason SessionAuthUnavailable = Some AuthUnavailable"
| "terminal_reason SessionStatusUnavailable = Some StatusUnavailable"
| "terminal_reason SessionStatusUnknown = Some StatusUnknown"
| "terminal_reason _ = None"

fun is_ready :: "ReadinessStatus \<Rightarrow> bool" where
  "is_ready (SessionReady _ _) = True"
| "is_ready _ = False"

definition planSigningSession :: "SigningSessionPlannerInput \<Rightarrow> js_error + SigningSessionPlan" where
  "planSigningSession input =
     (let lane = pi_lane input; status = readiness_status (pi_readiness input) in
      if lane_curve lane \<noteq> readiness_curve (pi_readiness input) then Inl curve_mismatch
      else if readiness_authority_mismatch lane (pi_readiness input)
      then Inl (new_Error ''[SigningSession] planner ECDSA readiness authority does not match its lane'')
      else case getPolicyBlock input of
          Some reason \<Rightarrow> Inr (NotReadyPlan lane reason)
        | None \<Rightarrow>
            if is_ready status \<and> \<not> needsFreshAuth input then warm_plan input
            else (case terminal_reason status of
                Some reason \<Rightarrow> Inr (NotReadyPlan lane reason)
              | None \<Rightarrow>
                  if input_auth input = EmailOtpMethod then Inr (EmailOtpReauthPlan lane) else passkey_plan input))"

section \<open>From readiness to the authentication of the confirmation\<close>

record SigningPlannerDecisionTraceEvent =
  pt_readinessStatus :: ReadinessStatus
  pt_forceFreshAuth :: bool
  pt_sensitiveOperationPolicy :: "SensitiveOperationPolicy option"
  pt_plan :: SigningPlanSummary
  pt_lane :: SigningLaneSummary
  pt_reason :: "SigningSessionNotReadyReason option"

definition createSigningPlannerDecisionTraceEvent ::
  "SigningSessionPlannerInput \<Rightarrow> SigningSessionPlan \<Rightarrow> SigningPlannerDecisionTraceEvent" where
  "createSigningPlannerDecisionTraceEvent input plan =
     \<lparr>pt_readinessStatus = readiness_status (pi_readiness input), pt_forceFreshAuth = pi_forceFreshAuth input,
      pt_sensitiveOperationPolicy = pi_sensitiveOperationPolicy input, pt_plan = summarizeSigningSessionPlan plan,
      pt_lane = summarizeSigningLane (lane_info (pi_lane input)),
      pt_reason = (case plan of NotReadyPlan _ reason \<Rightarrow> Some reason | _ \<Rightarrow> None)\<rparr>"

text \<open>\<open>resolveAuthPlan\<close> returns the plan with the trace event of the decision.\<close>

definition resolveAuthPlan ::
  "SigningSessionPlannerInput \<Rightarrow> js_error + (SigningSessionPlan \<times> SigningPlannerDecisionTraceEvent)" where
  "resolveAuthPlan input =
     ebind (planSigningSession input) (\<lambda>plan. Inr (plan, createSigningPlannerDecisionTraceEvent input plan))"

record resolved_plan =
  rp_plan :: SigningSessionPlan
  rp_readiness :: SigningSessionReadiness
  rp_expiresAtMs :: int
  rp_remainingUses :: int

fun status_expiry :: "int \<Rightarrow> ReadinessStatus \<Rightarrow> int" where
  "status_expiry other (SessionReady _ e) = e"
| "status_expiry other (SessionExhausted _ e) = e"
| "status_expiry other (SessionExpired e) = e"
| "status_expiry other _ = other"

fun status_uses :: "ReadinessStatus \<Rightarrow> int" where
  "status_uses (SessionReady u _) = u"
| "status_uses (SessionExhausted u _) = u"
| "status_uses _ = 0"

text \<open>\<open>Math.floor(Number(value) || 0)\<close> of an optional number.\<close>

definition floor_or_zero :: "int option \<Rightarrow> int" where
  "floor_or_zero v = (case v of None \<Rightarrow> 0 | Some n \<Rightarrow> n)"

definition resolveAuthPlanFromReadiness :: "SigningSessionPlannerInput \<Rightarrow> int option \<Rightarrow> js_error + resolved_plan" where
  "resolveAuthPlanFromReadiness input expiresAt =
     (let status = readiness_status (pi_readiness input) in
      case (lane_curve (pi_lane input), readiness_curve (pi_readiness input)) of
        (Ed25519, Ed25519) \<Rightarrow>
          ebind (resolveAuthPlan input) (\<lambda>(plan, _).
            Inr \<lparr>rp_plan = plan, rp_readiness = pi_readiness input, rp_expiresAtMs = status_expiry 0 status,
                 rp_remainingUses = status_uses status\<rparr>)
      | (Ecdsa, Ecdsa) \<Rightarrow>
          ebind (resolveAuthPlan input) (\<lambda>(plan, _).
            Inr \<lparr>rp_plan = plan, rp_readiness = pi_readiness input,
                 rp_expiresAtMs = status_expiry (floor_or_zero expiresAt) status, rp_remainingUses = status_uses status\<rparr>)
      | _ \<Rightarrow> Inl (new_Error ''[SigningSessionCoordinator] lane and readiness curves do not match''))"

record threshold_lifecycle =
  tl_lane :: SelectedSigningLane
  tl_readiness :: SigningSessionReadiness
  tl_expiresAtMs :: "int option"
  tl_availableLanesGeneration :: "int option"
  tl_forceFreshAuth :: bool

record PreparedThresholdSigningOperation =
  po_lane :: SelectedSigningLane
  po_authMethod :: SignerAuthMethod
  po_plan :: SigningSessionPlan
  po_readiness :: SigningSessionReadiness
  po_expiresAtMs :: int
  po_remainingUses :: int
  po_availableLanesGeneration :: int

text \<open>\<open>lifecycleAdapter.prepare\<close> is the argument \<open>adapted\<close>, an error or the lane with its readiness.\<close>

definition prepareThresholdSigningOperation ::
  "js_error + threshold_lifecycle \<Rightarrow> bool \<Rightarrow> SensitiveOperationPolicy option \<Rightarrow> js_error + PreparedThresholdSigningOperation" where
  "prepareThresholdSigningOperation adapted forceFresh policy =
     ebind adapted (\<lambda>l.
       if lane_curve (tl_lane l) \<noteq> readiness_curve (tl_readiness l)
       then Inl (new_Error ''[SigningSession] prepared lane and readiness curves do not match'')
       else
         ebind (resolveAuthPlanFromReadiness
                  \<lparr>pi_lane = tl_lane l, pi_readiness = tl_readiness l,
                   pi_forceFreshAuth = forceFresh \<or> tl_forceFreshAuth l, pi_sensitiveOperationPolicy = policy\<rparr>
                  (tl_expiresAtMs l)) (\<lambda>resolved.
           Inr \<lparr>po_lane = tl_lane l, po_authMethod = signingLaneAuthMethod (ln_auth (lane_info (tl_lane l))),
                po_plan = rp_plan resolved, po_readiness = rp_readiness resolved,
                po_expiresAtMs = rp_expiresAtMs resolved, po_remainingUses = rp_remainingUses resolved,
                po_availableLanesGeneration = max 0 (floor_or_zero (tl_availableLanesGeneration l))\<rparr>))"

datatype TransactionReadiness =
    TransactionReady (tx_remainingUses: int) (tx_expiresAtMs: int)
  | TransactionExpired
  | TransactionExhausted
  | TransactionUnavailable (tx_status: SigningSessionNotReadyReason) (tx_reason: SigningSessionNotReadyReason)

text \<open>The other kinds are named by the same words as the reasons why a session is not ready.\<close>

fun transactionReadinessFromStatus :: "ReadinessStatus \<Rightarrow> int \<Rightarrow> int \<Rightarrow> TransactionReadiness" where
  "transactionReadinessFromStatus (SessionReady _ _) uses expiry = TransactionReady (max 0 uses) (max 0 expiry)"
| "transactionReadinessFromStatus SessionMissing uses expiry = TransactionUnavailable StatusUnavailable MissingSession"
| "transactionReadinessFromStatus (SessionExpired _) uses expiry = TransactionExpired"
| "transactionReadinessFromStatus (SessionExhausted _ _) uses expiry = TransactionExhausted"
| "transactionReadinessFromStatus SessionAuthUnavailable uses expiry = TransactionUnavailable AuthUnavailable AuthUnavailable"
| "transactionReadinessFromStatus SessionStatusUnavailable uses expiry = TransactionUnavailable StatusUnavailable StatusUnavailable"
| "transactionReadinessFromStatus SessionStatusUnknown uses expiry = TransactionUnavailable StatusUnknown StatusUnknown"

definition transactionReadinessFromThresholdOperation :: "PreparedThresholdSigningOperation \<Rightarrow> TransactionReadiness" where
  "transactionReadinessFromThresholdOperation operation =
     transactionReadinessFromStatus (readiness_status (po_readiness operation)) (po_remainingUses operation) (po_expiresAtMs operation)"

datatype SigningAuthPlan =
    WarmSessionAuth (wa_method: SignerAuthMethod) (wa_keyRef: SigningKeyRefIntent) (wa_retention: SigningSessionRetention)
      (wa_expiresAtMs: int) (wa_remainingUses: int)
  | EmailOtpReauthAuth
  | PasskeyReauthAuth
  | ActiveWalletAuthorityAuth

text \<open>The account, the intent and the prompt are copied into the plan and left out.\<close>

definition signingAuthPlanFromSigningSessionPlan ::
  "SigningSessionPlan \<Rightarrow> SigningCurve \<Rightarrow> int option \<Rightarrow> int option \<Rightarrow> js_error + SigningAuthPlan" where
  "signingAuthPlanFromSigningSessionPlan plan curve expiresAt remaining =
     (case plan of
        WarmSessionPlan lane (ReauthKeyRef _ _) \<Rightarrow>
          Inl (new_Error ''[SigningEngine] warm signing-session plan requires a cached key ref'')
      | WarmSessionPlan lane keyRef \<Rightarrow>
          (let e = floor_or_zero expiresAt; n = floor_or_zero remaining in
           if e \<le> 0 \<or> n \<le> 0
           then Inl (new_Error ''[SigningEngine] warm signing-session auth plan requires positive expiresAtMs and remainingUses'')
           else (case (curve, keyRef) of
               (Ed25519, CachedEcdsa _ _) \<Rightarrow> Inl (new_Error ''[SigningEngine] Ed25519 warm plan requires an Ed25519 key ref'')
             | (Ecdsa, CachedEd25519 _) \<Rightarrow> Inl (new_Error ''[SigningEngine] ECDSA warm plan requires an ECDSA key ref'')
             | _ \<Rightarrow> Inr (WarmSessionAuth (signingLaneAuthMethod (ln_auth (lane_info lane))) keyRef
                           (ln_retention (lane_info lane)) e n)))
      | EmailOtpReauthPlan _ \<Rightarrow> Inr EmailOtpReauthAuth
      | _ \<Rightarrow> Inr PasskeyReauthAuth)"

datatype WalletFlowAuthMethod = PasskeyFlow | EmailOtpFlow | VoiceIdFlow | WarmSessionFlow

fun resolveSigningConfirmationAuthMethod :: "SigningAuthPlan \<Rightarrow> WalletFlowAuthMethod" where
  "resolveSigningConfirmationAuthMethod EmailOtpReauthAuth = EmailOtpFlow"
| "resolveSigningConfirmationAuthMethod (WarmSessionAuth _ _ _ _ _) = WarmSessionFlow"
| "resolveSigningConfirmationAuthMethod ActiveWalletAuthorityAuth = WarmSessionFlow"
| "resolveSigningConfirmationAuthMethod PasskeyReauthAuth = PasskeyFlow"

section \<open>When a warm session signs\<close>

text \<open>
  What the planner compares of a lane and the readiness read for it: the curve and, for ECDSA, material and
  authorization. The threshold sessions of an Ed25519 lane and its readiness are not compared.
\<close>

fun same_session :: "SelectedSigningLane \<Rightarrow> SigningSessionReadiness \<Rightarrow> bool" where
  "same_session (Ed25519Lane _ _ _ _) (Ed25519Readiness _ _) = True"
| "same_session (EcdsaLane _ m a) (EcdsaReadiness _ m' a') = (m = m' \<and> a = a')"
| "same_session _ _ = False"

lemma material_equal: "mpcMaterialActivationRefsEqual m m' \<longleftrightarrow> m = m'"
  by (auto simp: mpcMaterialActivationRefsEqual_def)

lemma authorizations_equal: "authorizations_match a a' \<longleftrightarrow> a = a'"
  by (auto simp: authorizations_match_def intro!: WalletSessionAuthorization.equality ActiveWalletSession.equality)

lemma same_session_iff:
  "same_session lane readiness \<longleftrightarrow>
     lane_curve lane = readiness_curve readiness \<and> \<not> readiness_authority_mismatch lane readiness"
  by (cases lane; cases readiness) (auto simp: material_equal authorizations_equal)

fun cached_key :: "SigningSessionReadiness \<Rightarrow> SigningKeyRefIntent" where
  "cached_key (Ed25519Readiness _ sid) = CachedEd25519 sid"
| "cached_key (EcdsaReadiness _ m a) = CachedEcdsa m a"

lemma warm_plan_same: "lane_curve (pi_lane input) = readiness_curve (pi_readiness input) \<Longrightarrow>
    warm_plan input = Inr (WarmSessionPlan (pi_lane input) (cached_key (pi_readiness input)))"
  by (cases "pi_lane input"; cases "pi_readiness input") (auto simp: warm_plan_def)

lemma passkey_plan_same: "lane_curve (pi_lane input) = readiness_curve (pi_readiness input) \<Longrightarrow>
    \<exists>reconnect. passkey_plan input = Inr (PasskeyReauthPlan (pi_lane input) reconnect)"
  by (cases "pi_lane input"; cases "pi_readiness input") (auto simp: passkey_plan_def)

text \<open>The decision of the planner in one place.\<close>

definition warm_allowed :: "SigningSessionPlannerInput \<Rightarrow> bool" where
  "warm_allowed input \<longleftrightarrow>
     is_ready (readiness_status (pi_readiness input)) \<and> \<not> needsFreshAuth input \<and> getPolicyBlock input = None"

lemma planned_warm:
  assumes "same_session (pi_lane input) (pi_readiness input)" "warm_allowed input"
  shows "planSigningSession input = Inr (WarmSessionPlan (pi_lane input) (cached_key (pi_readiness input)))"
  using assms by (simp add: planSigningSession_def same_session_iff warm_allowed_def warm_plan_same Let_def)

lemma planned_cold:
  assumes "\<not> (same_session (pi_lane input) (pi_readiness input) \<and> warm_allowed input)" "planSigningSession input = Inr plan"
  shows "plan \<noteq> WarmSessionPlan lane key"
  using assms passkey_plan_same [of input]
  by (auto simp: planSigningSession_def same_session_iff warm_allowed_def Let_def split: if_splits option.splits)

definition threshold_input :: "threshold_lifecycle \<Rightarrow> bool \<Rightarrow> SensitiveOperationPolicy option \<Rightarrow> SigningSessionPlannerInput" where
  "threshold_input l forceFresh policy =
     \<lparr>pi_lane = tl_lane l, pi_readiness = tl_readiness l, pi_forceFreshAuth = forceFresh \<or> tl_forceFreshAuth l,
      pi_sensitiveOperationPolicy = policy\<rparr>"

lemma threshold_input_simps [simp]:
  "pi_lane (threshold_input l f p) = tl_lane l" "pi_readiness (threshold_input l f p) = tl_readiness l"
  "pi_forceFreshAuth (threshold_input l f p) = (f \<or> tl_forceFreshAuth l)"
  "pi_sensitiveOperationPolicy (threshold_input l f p) = p"
  by (simp_all add: threshold_input_def)

lemma prepared_operation:
  "prepareThresholdSigningOperation (Inr l) forceFresh policy = Inr prepared \<longleftrightarrow>
   (\<exists>plan. lane_curve (tl_lane l) = readiness_curve (tl_readiness l) \<and>
      planSigningSession (threshold_input l forceFresh policy) = Inr plan \<and>
      prepared = \<lparr>po_lane = tl_lane l, po_authMethod = signingLaneAuthMethod (ln_auth (lane_info (tl_lane l))),
        po_plan = plan, po_readiness = tl_readiness l,
        po_expiresAtMs = status_expiry (case lane_curve (tl_lane l) of Ed25519 \<Rightarrow> 0 | Ecdsa \<Rightarrow> floor_or_zero (tl_expiresAtMs l))
          (readiness_status (tl_readiness l)),
        po_remainingUses = status_uses (readiness_status (tl_readiness l)),
        po_availableLanesGeneration = max 0 (floor_or_zero (tl_availableLanesGeneration l))\<rparr>)"
  unfolding threshold_input_def
  by (cases "lane_curve (tl_lane l)"; cases "readiness_curve (tl_readiness l)")
     (auto simp: prepareThresholdSigningOperation_def resolveAuthPlanFromReadiness_def resolveAuthPlan_def Let_def
       split: sum.splits)

definition confirmation_auth :: "threshold_lifecycle \<Rightarrow> bool \<Rightarrow> SensitiveOperationPolicy option \<Rightarrow> js_error + SigningAuthPlan" where
  "confirmation_auth l forceFresh policy =
     ebind (prepareThresholdSigningOperation (Inr l) forceFresh policy) (\<lambda>prepared.
       signingAuthPlanFromSigningSessionPlan (po_plan prepared) (lane_curve (po_lane prepared))
         (Some (po_expiresAtMs prepared)) (Some (po_remainingUses prepared)))"

lemma confirmation_warm:
  assumes "same_session (tl_lane l) (tl_readiness l)" "warm_allowed (threshold_input l forceFresh policy)"
    "readiness_status (tl_readiness l) = SessionReady n e"
  shows "confirmation_auth l forceFresh policy =
    (if 0 < n \<and> 0 < e then Inr (WarmSessionAuth (signingLaneAuthMethod (ln_auth (lane_info (tl_lane l))))
        (cached_key (tl_readiness l)) (ln_retention (lane_info (tl_lane l))) e n)
     else Inl (new_Error ''[SigningEngine] warm signing-session auth plan requires positive expiresAtMs and remainingUses''))"
proof -
  obtain prepared where p: "prepareThresholdSigningOperation (Inr l) forceFresh policy = Inr prepared"
      "po_plan prepared = WarmSessionPlan (tl_lane l) (cached_key (tl_readiness l))" "po_lane prepared = tl_lane l"
      "po_expiresAtMs prepared = e" "po_remainingUses prepared = n"
    using assms planned_warm [of "threshold_input l forceFresh policy"] by (auto simp: prepared_operation same_session_iff)
  with assms(1) show ?thesis
    by (cases "tl_lane l"; cases "tl_readiness l")
       (auto simp: confirmation_auth_def signingAuthPlanFromSigningSessionPlan_def floor_or_zero_def Let_def)
qed

lemma confirmation_cold:
  assumes "\<not> (same_session (tl_lane l) (tl_readiness l) \<and> warm_allowed (threshold_input l forceFresh policy))"
  shows "confirmation_auth l forceFresh policy \<noteq> Inr (WarmSessionAuth factor key retention e n)"
proof (cases "prepareThresholdSigningOperation (Inr l) forceFresh policy")
  case (Inr prepared)
  then have "\<forall>lane key. po_plan prepared \<noteq> WarmSessionPlan lane key"
    using assms planned_cold [of "threshold_input l forceFresh policy"] by (auto simp: prepared_operation)
  with Inr show ?thesis
    by (cases "po_plan prepared") (auto simp: confirmation_auth_def signingAuthPlanFromSigningSessionPlan_def)
qed (simp add: confirmation_auth_def)

text \<open>
  C19: A transaction is signed without asking the user to authenticate exactly when the planner's conditions
  hold. From a lane and the readiness read for it to the authentication of the confirmation, the outcome
  is a warm session if and only if lane and readiness are of the same curve and, for ECDSA, of the same
  material and authorization (for Ed25519 nothing but the curve is compared, not the threshold session),
  the readiness reports a ready session with a positive number of uses and a positive expiry time, the lane is kept for more than
  one use, no fresh authentication is forced by the caller or the adapter or required by the policy, and
  the policy does not refuse the e-mail method of the lane; the warm session has the method of the lane,
  the key of the readiness, and its remaining uses and expiry.
\<close>

theorem warm_signing_authorized:
  "ebind (prepareThresholdSigningOperation (Inr l) forceFresh policy) (\<lambda>prepared.
     signingAuthPlanFromSigningSessionPlan (po_plan prepared) (lane_curve (po_lane prepared))
       (Some (po_expiresAtMs prepared)) (Some (po_remainingUses prepared)))
     = Inr (WarmSessionAuth factor key retention e n) \<longleftrightarrow>
   same_session (tl_lane l) (tl_readiness l) \<and>
   readiness_status (tl_readiness l) = SessionReady n e \<and> 0 < n \<and> 0 < e \<and>
   \<not> forceFresh \<and> \<not> tl_forceFreshAuth l \<and> policy \<noteq> Some RequireFreshSameMethod \<and>
   ln_retention (lane_info (tl_lane l)) = SessionRetention \<and> retention = SessionRetention \<and>
   \<not> (factor = EmailOtpMethod \<and> policy \<in> {Some DenyEmailOtp, Some RequirePasskey}) \<and>
   factor = signingLaneAuthMethod (ln_auth (lane_info (tl_lane l))) \<and> key = cached_key (tl_readiness l)"
proof -
  let ?warm = "same_session (tl_lane l) (tl_readiness l) \<and> warm_allowed (threshold_input l forceFresh policy)"
  have allowed: "warm_allowed (threshold_input l forceFresh policy) \<longleftrightarrow>
      (\<exists>n e. readiness_status (tl_readiness l) = SessionReady n e) \<and>
      \<not> forceFresh \<and> \<not> tl_forceFreshAuth l \<and> policy \<noteq> Some RequireFreshSameMethod \<and>
      ln_retention (lane_info (tl_lane l)) = SessionRetention \<and>
      \<not> (signingLaneAuthMethod (ln_auth (lane_info (tl_lane l))) = EmailOtpMethod \<and> policy \<in> {Some DenyEmailOtp, Some RequirePasskey})"
    by (cases "readiness_status (tl_readiness l)"; cases "ln_retention (lane_info (tl_lane l))")
       (auto simp: warm_allowed_def needsFreshAuth_def getPolicyBlock_def input_auth_def)
  show ?thesis
  proof (cases ?warm)
    case True
    with allowed obtain n' e' where "readiness_status (tl_readiness l) = SessionReady n' e'" by auto
    with True show ?thesis
      using confirmation_warm [of l forceFresh policy n' e'] allowed unfolding confirmation_auth_def by auto
  next
    case False
    with confirmation_cold [OF False, of factor key retention e n] allowed show ?thesis unfolding confirmation_auth_def by auto
  qed
qed

end
