(* ===== verification/SigningOperationMachine.thy ===== *)
theory SigningOperationMachine
  imports SigningSessionPlanner "HOL-Library.Sublist"
begin

text \<open>
  The machine of a signing operation (\<open>flows/shared/signingStateMachine.ts\<close>): the state of one operation
  through planning, review, authentication and cancellation, the steps a plan consists of and the run of
  their commands; the confirmation command that drives it (\<open>flows/shared/signingConfirmation.ts\<close>) and
  the command sequence of the EVM flow (\<open>runSharedSigningCommandSequence\<close> of \<open>signingFlow.ts\<close>).
\<close>

declare jfield.simps [simp del]

section \<open>States\<close>

datatype SigningOperationReviewApproval = ReviewPending | ReviewGiven

datatype SigningOperationCancellationPhase = ReviewPhase | AuthenticationPhase | ExecutionPhase

datatype SigningOperationState =
    OpCreated
  | OpPlanned SigningSessionPlan
  | OpConfirmationApproved SigningSessionPlan
  | OpAuthenticationInProgress SigningSessionPlan SigningOperationReviewApproval
  | OpAuthReady SigningSessionPlan
  | OpThresholdConnected SigningSessionPlan
  | OpPayloadPrepared SigningSessionPlan
  | OpSigned SigningSessionPlan
  | OpCleanedUp SigningSessionPlan
  | OpCompleted SigningSessionPlan
  | OpFailed SigningSessionPlan string
  | OpCancelled SigningSessionPlan SigningOperationCancellationPhase

fun state_kind :: "SigningOperationState \<Rightarrow> string" where
  "state_kind OpCreated = ''created''"
| "state_kind (OpPlanned _) = ''planned''"
| "state_kind (OpConfirmationApproved _) = ''confirmation_approved''"
| "state_kind (OpAuthenticationInProgress _ _) = ''authentication_in_progress''"
| "state_kind (OpAuthReady _) = ''auth_ready''"
| "state_kind (OpThresholdConnected _) = ''threshold_connected''"
| "state_kind (OpPayloadPrepared _) = ''payload_prepared''"
| "state_kind (OpSigned _) = ''signed''"
| "state_kind (OpCleanedUp _) = ''cleaned_up''"
| "state_kind (OpCompleted _) = ''completed''"
| "state_kind (OpFailed _ _) = ''failed''"
| "state_kind (OpCancelled _ _) = ''cancelled''"

text \<open>\<open>'plan' in state ? state.plan : undefined\<close>.\<close>

fun state_plan :: "SigningOperationState \<Rightarrow> SigningSessionPlan option" where
  "state_plan OpCreated = None"
| "state_plan (OpPlanned p) = Some p"
| "state_plan (OpConfirmationApproved p) = Some p"
| "state_plan (OpAuthenticationInProgress p _) = Some p"
| "state_plan (OpAuthReady p) = Some p"
| "state_plan (OpThresholdConnected p) = Some p"
| "state_plan (OpPayloadPrepared p) = Some p"
| "state_plan (OpSigned p) = Some p"
| "state_plan (OpCleanedUp p) = Some p"
| "state_plan (OpCompleted p) = Some p"
| "state_plan (OpFailed p _) = Some p"
| "state_plan (OpCancelled p _) = Some p"

record SigningOperationStateRef =
  ref_operationId :: string
  ref_current :: SigningOperationState

definition createSigningOperationStateRef :: "string \<Rightarrow> SigningOperationStateRef" where
  "createSigningOperationStateRef opId = \<lparr>ref_operationId = opId, ref_current = OpCreated\<rparr>"

type_synonym 'a opm = "(SigningOperationStateRef, js_error, 'a) jsm"

definition machine_error :: "string \<Rightarrow> js_error" where
  "machine_error text = new_Error (''[SigningOperationMachine] '' @ text)"

definition set_current :: "SigningOperationState \<Rightarrow> unit opm" where
  "set_current st = jmod (\<lambda>r. r\<lparr>ref_current := st\<rparr>)"

definition move_to :: "SigningOperationState \<Rightarrow> SigningOperationState opm" where
  "move_to st = jseq (set_current st) (jret st)"

section \<open>Planning, review, authentication, cancellation\<close>

definition planSigningOperationAttempt :: "SigningSessionPlan \<Rightarrow> SigningOperationState opm" where
  "planSigningOperationAttempt plan =
     jbind (jget ref_current) (\<lambda>st.
       case st of
         OpCreated \<Rightarrow> move_to (OpPlanned plan)
       | OpPlanned _ \<Rightarrow> move_to (OpPlanned plan)
       | OpAuthenticationInProgress _ approval \<Rightarrow>
           move_to (if approval = ReviewGiven then OpConfirmationApproved plan else OpPlanned plan)
       | OpCompleted _ \<Rightarrow> jthrow (machine_error ''completed operation cannot be replanned'')
       | OpFailed _ _ \<Rightarrow> jthrow (machine_error ''failed operation cannot be replanned'')
       | OpCancelled _ _ \<Rightarrow> jthrow (machine_error ''cancelled operation cannot be replanned'')
       | _ \<Rightarrow> move_to (OpConfirmationApproved plan))"

definition approveSigningOperationConfirmation :: "unit opm" where
  "approveSigningOperationConfirmation =
     jbind (jget ref_current) (\<lambda>st.
       case st of
         OpPlanned plan \<Rightarrow> set_current (OpConfirmationApproved plan)
       | OpAuthenticationInProgress plan _ \<Rightarrow> set_current (OpAuthenticationInProgress plan ReviewGiven)
       | OpCreated \<Rightarrow> jthrow (machine_error ''operation must be planned before confirmation'')
       | OpCompleted _ \<Rightarrow> jthrow (machine_error ''completed operation cannot be confirmed'')
       | OpFailed _ _ \<Rightarrow> jthrow (machine_error ''failed operation cannot be confirmed'')
       | OpCancelled _ _ \<Rightarrow> jthrow (machine_error ''cancelled operation cannot be confirmed'')
       | _ \<Rightarrow> jret ())"

definition beginSigningOperationAuthentication :: "unit opm" where
  "beginSigningOperationAuthentication =
     jbind (jget ref_current) (\<lambda>st.
       case st of
         OpPlanned plan \<Rightarrow> set_current (OpAuthenticationInProgress plan ReviewPending)
       | OpConfirmationApproved plan \<Rightarrow> set_current (OpAuthenticationInProgress plan ReviewGiven)
       | OpCreated \<Rightarrow> jthrow (machine_error ''operation must be planned before authentication'')
       | OpCompleted _ \<Rightarrow> jthrow (machine_error ''completed operation cannot authenticate'')
       | OpFailed _ _ \<Rightarrow> jthrow (machine_error ''failed operation cannot authenticate'')
       | OpCancelled _ _ \<Rightarrow> jthrow (machine_error ''cancelled operation cannot authenticate'')
       | _ \<Rightarrow> jret ())"

definition completeSigningOperationAuthentication :: "unit opm" where
  "completeSigningOperationAuthentication =
     jbind (jget ref_current) (\<lambda>st.
       case st of
         OpAuthenticationInProgress plan approval \<Rightarrow>
           if approval \<noteq> ReviewGiven
           then jthrow (machine_error ''authentication cannot complete before transaction approval'')
           else set_current (OpAuthReady plan)
       | OpCreated \<Rightarrow> jthrow (machine_error ''authentication cannot complete before transaction approval'')
       | OpPlanned _ \<Rightarrow> jthrow (machine_error ''authentication cannot complete before transaction approval'')
       | OpCompleted _ \<Rightarrow> jthrow (machine_error ''completed operation cannot authenticate'')
       | OpFailed _ _ \<Rightarrow> jthrow (machine_error ''failed operation cannot authenticate'')
       | OpCancelled _ _ \<Rightarrow> jthrow (machine_error ''cancelled operation cannot authenticate'')
       | _ \<Rightarrow> jret ())"

datatype SigningOperationInteractionEvent = ReviewApproved | AuthenticationStarted | AuthenticationCompleted

fun applySigningOperationInteractionEvent :: "SigningOperationInteractionEvent \<Rightarrow> unit opm" where
  "applySigningOperationInteractionEvent ReviewApproved = approveSigningOperationConfirmation"
| "applySigningOperationInteractionEvent AuthenticationStarted = beginSigningOperationAuthentication"
| "applySigningOperationInteractionEvent AuthenticationCompleted = completeSigningOperationAuthentication"

definition cancelSigningOperation :: "SigningOperationState opm" where
  "cancelSigningOperation =
     jbind (jget ref_current) (\<lambda>st.
       case st of
         OpPlanned plan \<Rightarrow> move_to (OpCancelled plan ReviewPhase)
       | OpAuthenticationInProgress plan _ \<Rightarrow> move_to (OpCancelled plan AuthenticationPhase)
       | OpConfirmationApproved plan \<Rightarrow> move_to (OpCancelled plan ExecutionPhase)
       | OpAuthReady plan \<Rightarrow> move_to (OpCancelled plan ExecutionPhase)
       | OpThresholdConnected plan \<Rightarrow> move_to (OpCancelled plan ExecutionPhase)
       | OpPayloadPrepared plan \<Rightarrow> move_to (OpCancelled plan ExecutionPhase)
       | OpCreated \<Rightarrow> jthrow (machine_error ''operation must be planned before cancellation'')
       | OpFailed _ _ \<Rightarrow> jthrow (machine_error ''failed operation cannot be cancelled'')
       | OpCancelled _ _ \<Rightarrow> jret st
       | _ \<Rightarrow> jthrow (machine_error ''completed signing cannot be cancelled''))"

fun isSigningOperationReviewApprovedState :: "SigningOperationState \<Rightarrow> bool" where
  "isSigningOperationReviewApprovedState OpCreated = False"
| "isSigningOperationReviewApprovedState (OpPlanned _) = False"
| "isSigningOperationReviewApprovedState (OpFailed _ _) = False"
| "isSigningOperationReviewApprovedState (OpCancelled _ _) = False"
| "isSigningOperationReviewApprovedState (OpAuthenticationInProgress _ approval) = (approval = ReviewGiven)"
| "isSigningOperationReviewApprovedState _ = True"

section \<open>The steps of a plan\<close>

datatype SigningOperationCommandKind =
  ShowConfirmation | RequestOtp | RequestPasskey | ConnectThreshold | PreparePayload | SignPayload | Cleanup

text \<open>Every operation has the intent to sign a transaction, which is left out.\<close>

record SigningOperationContext =
  ctx_operationId :: string
  ctx_operationFingerprint :: "string option"

text \<open>A command; its lane is that of its plan.\<close>

record SigningOperationCommand =
  cmd_kind :: SigningOperationCommandKind
  cmd_plan :: SigningSessionPlan
  cmd_operation :: "SigningOperationContext option"

record SigningOperationTransitionEvent =
  te_fromKind :: string
  te_toKind :: string
  te_command :: "SigningOperationCommandKind option"
  te_operationId :: "string option"
  te_plan :: SigningPlanSummary
  te_planLane :: SigningLaneSummary
  te_failure :: "string option"

record SigningOperationStep =
  step_from :: SigningOperationState
  step_to :: SigningOperationState
  step_command :: "SigningOperationCommand option"
  step_traceEvent :: SigningOperationTransitionEvent

record SigningOperationPlan =
  op_sessionPlan :: SigningSessionPlan
  op_context :: "SigningOperationContext option"
  op_commands :: "SigningOperationCommandKind list"

definition createSigningOperationPlan ::
  "SigningSessionPlan \<Rightarrow> SigningOperationContext option \<Rightarrow> SigningOperationCommandKind list \<Rightarrow> SigningOperationPlan" where
  "createSigningOperationPlan plan operation commands =
     \<lparr>op_sessionPlan = plan, op_context = operation, op_commands = commands\<rparr>"

definition getTransitionPlan :: "SigningOperationState \<Rightarrow> SigningOperationState \<Rightarrow> js_error + SigningSessionPlan" where
  "getTransitionPlan fromState toState =
     (case state_plan toState of
        Some p \<Rightarrow> Inr p
      | None \<Rightarrow> (case state_plan fromState of Some p \<Rightarrow> Inr p | None \<Rightarrow> Inl (machine_error ''transition has no signing plan'')))"

definition transition ::
  "SigningOperationState \<Rightarrow> SigningOperationState \<Rightarrow> SigningOperationCommand option \<Rightarrow> string option \<Rightarrow> js_error + SigningOperationStep" where
  "transition fromState toState command reason =
     ebind (getTransitionPlan fromState toState) (\<lambda>plan.
       Inr \<lparr>step_from = fromState, step_to = toState, step_command = command,
            step_traceEvent =
              \<lparr>te_fromKind = state_kind fromState, te_toKind = state_kind toState, te_command = map_option cmd_kind command,
               te_operationId = map_option ctx_operationId (Option.bind command cmd_operation),
               te_plan = summarizeSigningSessionPlan plan, te_planLane = summarizeSigningLane (plan_lane_base plan),
               te_failure = Option.bind reason opt_of_string\<rparr>\<rparr>)"

definition commandForPlan :: "SigningOperationPlan \<Rightarrow> SigningOperationCommandKind \<Rightarrow> SigningOperationCommand option" where
  "commandForPlan plan kind =
     (if kind \<in> set (op_commands plan)
      then Some \<lparr>cmd_kind = kind, cmd_plan = op_sessionPlan plan, cmd_operation = op_context plan\<rparr> else None)"

text \<open>The pushes of \<open>buildSigningOperationSteps\<close>: each transition starts where the one before ended.\<close>

fun pushTransitions ::
  "SigningOperationState \<Rightarrow> (SigningOperationState \<times> SigningOperationCommand option) list \<Rightarrow> js_error + SigningOperationStep list" where
  "pushTransitions st [] = Inr []"
| "pushTransitions st ((toState, command) # rest) =
     ebind (transition st toState command None) (\<lambda>step.
     ebind (pushTransitions (step_to step) rest) (\<lambda>steps. Inr (step # steps)))"

definition buildSigningOperationSteps :: "SigningOperationPlan \<Rightarrow> js_error + SigningOperationStep list" where
  "buildSigningOperationSteps operation =
     (let plan = op_sessionPlan operation; command = commandForPlan operation in
      case plan of
        NotReadyPlan _ reason \<Rightarrow>
          ebind (transition (OpPlanned plan) (OpFailed plan (not_ready_str reason)) None (Some (not_ready_str reason))) (\<lambda>step. Inr [step])
      | _ \<Rightarrow>
          pushTransitions (OpPlanned plan)
            ([(OpConfirmationApproved plan, command ShowConfirmation)] @
             (case plan of
                EmailOtpReauthPlan _ \<Rightarrow>
                  [(OpAuthReady plan, command RequestOtp), (OpThresholdConnected plan, command ConnectThreshold)]
              | PasskeyReauthPlan _ _ \<Rightarrow>
                  [(OpAuthReady plan, command RequestPasskey), (OpThresholdConnected plan, command ConnectThreshold)]
              | _ \<Rightarrow> [(OpAuthReady plan, None)]) @
             [(OpPayloadPrepared plan, command PreparePayload), (OpSigned plan, command SignPayload),
              (OpCleanedUp plan, command Cleanup), (OpCompleted plan, None)]))"

text \<open>The steps up to the last one with a command.\<close>

definition buildSigningOperationCommandSteps :: "SigningOperationPlan \<Rightarrow> js_error + SigningOperationStep list" where
  "buildSigningOperationCommandSteps operation =
     ebind (buildSigningOperationSteps operation) (\<lambda>steps.
       Inr (rev (dropWhile (\<lambda>step. step_command step = None) (rev steps))))"

section \<open>Running the commands\<close>

definition getExecutionErrorReason :: "js_error \<Rightarrow> string" where
  "getExecutionErrorReason e =
     (case e of
        ErrorInstance message _ _ \<Rightarrow> if js_trim message \<noteq> [] then message else ''execution_command_failed''
      | PlainValue _ \<Rightarrow> ''execution_command_failed'')"

datatype RunResult = RunOk SigningOperationState | RunFailed SigningOperationState js_error

type_synonym 's executor = "SigningOperationCommand \<Rightarrow> ('s, js_error, unit) jsm"
type_synonym 's observer = "SigningOperationTransitionEvent \<Rightarrow> ('s, js_error, unit) jsm"

text \<open>The loop; \<open>reached\<close> is the target of the last executed step. \<open>observe\<close> is \<open>onTransition\<close>, or does nothing.\<close>

fun runSteps ::
  "'s executor \<Rightarrow> 's observer \<Rightarrow> SigningOperationStep list \<Rightarrow> SigningOperationState option \<Rightarrow> ('s, js_error, RunResult) jsm" where
  "runSteps execute observe [] reached =
     (case reached of None \<Rightarrow> jthrow (machine_error ''command sequence produced no steps'') | Some st \<Rightarrow> jret (RunOk st))"
| "runSteps execute observe (step # rest) reached =
     (let go_on = jseq (observe (step_traceEvent step))
            (case step_to step of OpFailed _ _ \<Rightarrow> jret (RunOk (step_to step)) | _ \<Rightarrow> runSteps execute observe rest (Some (step_to step))) in
      case step_command step of
        None \<Rightarrow> go_on
      | Some command \<Rightarrow>
          jbind (\<lambda>s. case execute command s of (r, t) \<Rightarrow> (Inr r, t)) (\<lambda>r.
            case r of
              Inr _ \<Rightarrow> go_on
            | Inl e \<Rightarrow>
                (let reason = getExecutionErrorReason e in
                 jbind (jlift (transition (step_from step) (OpFailed (cmd_plan command) reason) (Some command) (Some reason)))
                   (\<lambda>failed. jseq (observe (step_traceEvent failed)) (jret (RunFailed (step_to failed) e))))))"

definition runSigningOperationCommandSteps ::
  "'s executor \<Rightarrow> 's observer \<Rightarrow> SigningOperationStep list \<Rightarrow> ('s, js_error, RunResult) jsm" where
  "runSigningOperationCommandSteps execute observe steps = runSteps execute observe steps None"

definition runUnplannedSigningOperationCommandSequence ::
  "(SigningOperationCommandKind \<Rightarrow> ('s, js_error, unit) jsm) \<Rightarrow> SigningOperationCommandKind list \<Rightarrow> ('s, js_error, unit) jsm" where
  "runUnplannedSigningOperationCommandSequence execute commands = jfor commands execute"

text \<open>What both callers do with the result of a planned run.\<close>

definition finish_run :: "RunResult \<Rightarrow> ('s, js_error, unit) jsm" where
  "finish_run result =
     (case result of
        RunFailed _ e \<Rightarrow> jthrow e
      | RunOk (OpFailed _ reason) \<Rightarrow> jthrow (new_Error reason)
      | RunOk _ \<Rightarrow> jret ())"

definition runSharedSigningCommandSequence ::
  "SigningSessionPlan option \<Rightarrow> SigningOperationContext option \<Rightarrow> 's observer \<Rightarrow>
   (SigningOperationCommandKind \<Rightarrow> ('s, js_error, unit) jsm option) \<Rightarrow> SigningOperationCommandKind list \<Rightarrow> ('s, js_error, unit) jsm" where
  "runSharedSigningCommandSequence sessionPlan operation observe handlers commands =
     (let executeCommand = (\<lambda>kind. case handlers kind of None \<Rightarrow> jret () | Some handler \<Rightarrow> handler) in
      case sessionPlan of
        None \<Rightarrow> runUnplannedSigningOperationCommandSequence executeCommand commands
      | Some plan \<Rightarrow>
          jbind (jlift (buildSigningOperationCommandSteps (createSigningOperationPlan plan operation commands))) (\<lambda>steps.
          jbind (runSigningOperationCommandSteps (\<lambda>command. executeCommand (cmd_kind command)) observe steps) finish_run))"

text \<open>\<open>runSigningOperationCommand\<close>: the executor keeps the value of the command in a variable, read at the end.\<close>

definition runSigningOperationCommand ::
  "SigningSessionPlan \<Rightarrow> SigningOperationContext \<Rightarrow> SigningOperationCommandKind \<Rightarrow> ('s, js_error, 'a) jsm \<Rightarrow>
   ('s, js_error, 'a option) jsm" where
  "runSigningOperationCommand plan operation kind execute =
     (let executor = (\<lambda>command (s, value). if cmd_kind command \<noteq> kind then (Inr (), s, value)
                        else case execute s of (Inl e, t) \<Rightarrow> (Inl e, t, value) | (Inr x, t) \<Rightarrow> (Inr (), t, Some x));
          run = jbind (jlift (buildSigningOperationCommandSteps (createSigningOperationPlan plan (Some operation) [kind])))
                  (\<lambda>steps. jbind (runSigningOperationCommandSteps executor (\<lambda>_. jret ()) steps) finish_run)
      in (\<lambda>s. case run (s, None) of (Inl e, t, _) \<Rightarrow> (Inl e, t) | (Inr _, t, value) \<Rightarrow> (Inr value, t)))"

section \<open>User cancellation\<close>

text \<open>\<open>errorMessage\<close> and \<open>isUserCancellationError\<close> of \<open>shared-ts/src/utils/errors.ts\<close>.\<close>

definition errorMessage :: "js_error \<Rightarrow> string" where
  "errorMessage e =
     (case e of
        ErrorInstance message _ _ \<Rightarrow> message
      | PlainValue v \<Rightarrow>
          (case error_field e ''message'' of
             Some (JStr message) \<Rightarrow> message
           | _ \<Rightarrow> if v = JNull \<or> v = JUndefined then [] else js_String v))"

definition isWebAuthnRpIdOriginConfigurationError :: "js_error \<Rightarrow> bool" where
  "isWebAuthnRpIdOriginConfigurationError e \<longleftrightarrow>
     (let lower = js_lower (errorMessage e) in
      js_includes lower ''relying party id'' \<or> js_includes lower ''registrable domain suffix'' \<or>
      js_includes lower ''claimed rp id'' \<or> js_includes lower ''/.well-known/webauthn'' \<or>
      js_includes lower ''.well-known/webauthn'')"

definition isWebAuthnBrowserSecurityError :: "js_error \<Rightarrow> bool" where
  "isWebAuthnBrowserSecurityError e \<longleftrightarrow>
     errorMessage e = ''Passkeys require trusted HTTPS for the app and wallet. Check both origins and their certificates.'' \<or>
     js_includes (js_lower (errorMessage e)) ''tls certificate errors''"

text \<open>An \<open>Error\<close> without a name of its own inherits \<open>Error\<close>, which is none of the names looked for.\<close>

definition isUserCancellationError :: "js_error \<Rightarrow> bool" where
  "isUserCancellationError e \<longleftrightarrow>
     \<not> isWebAuthnRpIdOriginConfigurationError e \<and> \<not> isWebAuthnBrowserSecurityError e \<and>
     (let lower = js_lower (errorMessage e);
          name = (case error_field e ''name'' of None \<Rightarrow> [] | Some v \<Rightarrow> js_trim (js_String_or_empty v));
          code = extractErrorCode e in
      code \<in> {''4001'', ''cancelled'', ''canceled'', ''abort_error'', ''user_cancelled'', ''user_canceled'',
               ''user_rejected'', ''action_rejected'', ''request_rejected''} \<or>
      name \<in> {''NotAllowedError'', ''AbortError''} \<or>
      js_includes lower ''user cancelled'' \<or> js_includes lower ''user canceled'' \<or> js_includes lower ''user rejected'' \<or>
      js_includes lower ''request cancelled'' \<or> js_includes lower ''request canceled'' \<or>
      js_includes lower ''operation cancelled'' \<or> js_includes lower ''operation canceled'')"

definition walletOperationStepUpCancelled :: js_error where
  "walletOperationStepUpCancelled =
     ErrorInstance ''Request cancelled.''
       [(''name'', JStr ''WalletOperationStepUpCancelled''), (''code'', JStr ''wallet_operation_step_up_cancelled'')] None"

text \<open>
  The confirmation command of a NEAR transaction. \<open>confirm\<close> shows the request in the given state; while it
  is shown it applies interaction events to the operation.
\<close>

definition runTransactionSigningConfirmationCommand ::
  "SigningSessionPlan \<Rightarrow> SigningOperationContext \<Rightarrow> (string \<Rightarrow> 'a opm) \<Rightarrow> 'a option opm" where
  "runTransactionSigningConfirmationCommand plan operation confirm =
     jbind (planSigningOperationAttempt plan) (\<lambda>state.
       jcatch (runSigningOperationCommand plan operation ShowConfirmation (confirm (state_kind state)))
         (\<lambda>err.
           if \<not> isUserCancellationError err then jthrow err
           else jbind cancelSigningOperation (\<lambda>cancelled.
             case cancelled of
               OpCancelled _ AuthenticationPhase \<Rightarrow> jthrow walletOperationStepUpCancelled
             | _ \<Rightarrow> jthrow err)))"

section \<open>Runs of one operation\<close>

datatype op_call = Attempt SigningSessionPlan | Interact SigningOperationInteractionEvent | CancelCall

fun op_exec :: "op_call \<Rightarrow> SigningOperationStateRef \<Rightarrow> SigningOperationStateRef" where
  "op_exec (Attempt plan) r = snd (planSigningOperationAttempt plan r)"
| "op_exec (Interact event) r = snd (applySigningOperationInteractionEvent event r)"
| "op_exec CancelCall r = snd (cancelSigningOperation r)"

definition op_run :: "op_call list \<Rightarrow> SigningOperationStateRef \<Rightarrow> SigningOperationStateRef" where
  "op_run calls r = fold op_exec calls r"

lemma op_run_simps [simp]: "op_run [] r = r" "op_run (c # cs) r = op_run cs (op_exec c r)"
  "op_run (cs @ [c]) r = op_exec c (op_run cs r)"
  by (simp_all add: op_run_def)

lemmas machine_ops = planSigningOperationAttempt_def approveSigningOperationConfirmation_def
  beginSigningOperationAuthentication_def completeSigningOperationAuthentication_def cancelSigningOperation_def
  move_to_def set_current_def

text \<open>What must have been called for the operation to be in a state, in this order.\<close>

definition called :: "op_call list \<Rightarrow> SigningOperationInteractionEvent list \<Rightarrow> bool" where
  "called calls events \<longleftrightarrow> (\<exists>plan. subseq (Attempt plan # map Interact events) calls)"

fun accounted :: "op_call list \<Rightarrow> SigningOperationState \<Rightarrow> bool" where
  "accounted calls OpCreated = True"
| "accounted calls (OpPlanned _) = called calls []"
| "accounted calls (OpConfirmationApproved _) = called calls [ReviewApproved]"
| "accounted calls (OpAuthenticationInProgress _ approval) =
     (called calls [AuthenticationStarted] \<and> (approval = ReviewGiven \<longrightarrow> called calls [ReviewApproved]))"
| "accounted calls (OpAuthReady _) =
     (called calls [ReviewApproved, AuthenticationCompleted] \<and> called calls [AuthenticationStarted, AuthenticationCompleted])"
| "accounted calls (OpCancelled _ _) = True"
| "accounted calls _ = False"

lemma called_more: "called calls events \<Longrightarrow> called (calls @ rest) events"
  unfolding called_def by (metis append_Nil2 list_emb_append_mono list_emb_Nil)

lemma called_event:
  assumes "called calls events"
  shows "called (calls @ [Interact e]) (events @ [e])"
proof -
  from assms obtain plan where "subseq (Attempt plan # map Interact events) calls" by (auto simp: called_def)
  then have "subseq ((Attempt plan # map Interact events) @ [Interact e]) (calls @ [Interact e])"
    by (rule list_emb_append_mono) simp
  then show ?thesis by (auto simp: called_def)
qed

lemma called_prefix:
  assumes "called calls (events @ rest)"
  shows "called calls events"
proof -
  from assms obtain plan where "subseq ((Attempt plan # map Interact events) @ map Interact rest) calls" by (auto simp: called_def)
  then have "subseq (Attempt plan # map Interact events) calls" by (metis prefixI prefix_imp_subseq subseq_order.trans)
  then show ?thesis by (auto simp: called_def)
qed

lemma called_attempt: "called (calls @ [Attempt plan]) []"
  unfolding called_def by (auto intro!: exI [of _ plan] list_emb_append2)

lemma accounted_step:
  assumes "accounted calls (ref_current r)"
  shows "accounted (calls @ [c]) (ref_current (op_exec c r))"
proof -
  note keep = called_more [where rest = "[c]"]
  note grow = called_event [where events = "[]"] called_event [where events = "[ReviewApproved]"]
    called_event [where events = "[AuthenticationStarted]"]
  note shrink = called_prefix [where events = "[]" and rest = "[ReviewApproved]"]
    called_prefix [where events = "[]" and rest = "[AuthenticationStarted]"]
    called_prefix [where events = "[ReviewApproved]" and rest = "[AuthenticationCompleted]"]
  show ?thesis
  proof (cases c)
    case (Attempt plan)
    with assms keep shrink called_attempt [of calls plan] show ?thesis
      by (cases "ref_current r") (auto simp: machine_ops jm_eval)
  next
    case (Interact e)
    with assms keep grow shrink show ?thesis
      by (cases e; cases "ref_current r") (auto simp: machine_ops jm_eval)
  next
    case CancelCall
    with assms keep show ?thesis by (cases "ref_current r") (auto simp: machine_ops jm_eval)
  qed
qed

lemma accounted_run: "accounted calls (ref_current (op_run calls (createSigningOperationStateRef opId)))"
  by (induction calls rule: rev_induct) (simp_all add: createSigningOperationStateRef_def accounted_step)

text \<open>
  C18: An operation is ready to sign only after the user has approved the transaction and authenticated, in
  this order of calls: whatever is called on a new operation, in the state after authentication there
  was an attempt, then an approval of the review, then the completion of an authentication, which had
  been started before. There is no other way, and in particular none around the review.
\<close>

theorem authenticated_after_review:
  assumes "ref_current (op_run calls (createSigningOperationStateRef opId)) = OpAuthReady plan"
  shows "\<exists>p q. subseq [Attempt p, Interact ReviewApproved, Interact AuthenticationCompleted] calls \<and>
               subseq [Attempt q, Interact AuthenticationStarted, Interact AuthenticationCompleted] calls"
  using accounted_run [of calls opId] assms by (simp add: called_def)

lemma op_call_cases:
  obtains plan where "c = Attempt plan" | "c = Interact ReviewApproved" | "c = Interact AuthenticationStarted"
    | "c = Interact AuthenticationCompleted" | "c = CancelCall"
  by (metis op_call.exhaust SigningOperationInteractionEvent.exhaust)

lemma approved_step: "isSigningOperationReviewApprovedState (ref_current r) \<Longrightarrow> c \<noteq> CancelCall \<Longrightarrow>
    isSigningOperationReviewApprovedState (ref_current (op_exec c r))"
  by (cases c rule: op_call_cases; cases "ref_current r") (auto simp: machine_ops jm_eval)

lemma approved_run: "isSigningOperationReviewApprovedState (ref_current r) \<Longrightarrow> CancelCall \<notin> set calls \<Longrightarrow>
    isSigningOperationReviewApprovedState (ref_current (op_run calls r))"
  by (induction calls arbitrary: r) (auto simp: approved_step)

lemma cancelled_run: "ref_current r = OpCancelled plan phase \<Longrightarrow> op_run calls r = r"
proof (induction calls)
  case (Cons c cs)
  then have "op_exec c r = r"
    by (cases c rule: op_call_cases) (auto simp: machine_ops jm_eval)
  with Cons show ?case by simp
qed simp

section \<open>Planned and unplanned runs\<close>

text \<open>The commands a plan has, in the order of its steps.\<close>

fun plan_commands :: "SigningSessionPlan \<Rightarrow> SigningOperationCommandKind list" where
  "plan_commands (NotReadyPlan _ _) = []"
| "plan_commands (EmailOtpReauthPlan _) = [ShowConfirmation, RequestOtp, ConnectThreshold, PreparePayload, SignPayload, Cleanup]"
| "plan_commands (PasskeyReauthPlan _ _) = [ShowConfirmation, RequestPasskey, ConnectThreshold, PreparePayload, SignPayload, Cleanup]"
| "plan_commands _ = [ShowConfirmation, PreparePayload, SignPayload, Cleanup]"

definition step_commands :: "SigningOperationStep list \<Rightarrow> SigningOperationCommandKind list" where
  "step_commands steps = map cmd_kind (List.map_filter step_command steps)"

lemma step_commands_simps [simp]: "step_commands [] = []"
  "step_commands (step # steps) = (case step_command step of None \<Rightarrow> [] | Some c \<Rightarrow> [cmd_kind c]) @ step_commands steps"
  "step_commands (steps @ steps') = step_commands steps @ step_commands steps'"
  by (simp_all add: step_commands_def List.map_filter_def split: option.split)

definition not_failed :: "SigningOperationState \<Rightarrow> bool" where
  "not_failed st \<longleftrightarrow> (\<forall>plan reason. st \<noteq> OpFailed plan reason)"

lemma case_not_failed: "not_failed st \<Longrightarrow> (case st of OpFailed p r \<Rightarrow> f p r | _ \<Rightarrow> g) = g"
  by (cases st) (auto simp: not_failed_def)

lemma finish_not_failed: "not_failed st \<Longrightarrow> finish_run (RunOk st) = jret ()"
  by (cases st) (auto simp: not_failed_def finish_run_def)

lemma failed_transition: "\<exists>step. transition st (OpFailed plan reason) command why = Inr step \<and> step_to step = OpFailed plan reason"
  by (simp add: transition_def getTransitionPlan_def)

text \<open>Steps that do not end in failure run their commands one after the other.\<close>

lemma run_steps:
  assumes "\<forall>step \<in> set steps. not_failed (step_to step)" and "steps \<noteq> [] \<or> (\<exists>st. reached = Some st \<and> not_failed st)"
    and "\<forall>event s. observe event s = (Inr (), s)"
  shows "jbind (runSteps (\<lambda>c. execute (cmd_kind c)) observe steps reached) finish_run s = jfor (step_commands steps) execute s"
  using assms(1, 2)
proof (induction steps arbitrary: reached s)
  case Nil
  then show ?case by (auto simp: finish_not_failed jm_eval)
next
  case (Cons step steps)
  then have to: "not_failed (step_to step)" by simp
  have quiet: "jseq (observe event) m = m" for event m by (rule ext) (simp add: assms(3) jseq_apply)
  have IH: "jbind (runSteps (\<lambda>c. execute (cmd_kind c)) observe steps (Some (step_to step))) finish_run t = jfor (step_commands steps) execute t" for t
    using Cons by simp
  show ?case
  proof (cases "step_command step")
    case None
    with IH [of s] to show ?thesis by (simp add: Let_def case_not_failed quiet jm_eval)
  next
    case (Some c)
    obtain r t where run: "execute (cmd_kind c) s = (r, t)" by fastforce
    show ?thesis
    proof (cases r)
      case (Inl e)
      with run Some failed_transition [of "step_from step" "cmd_plan c" "getExecutionErrorReason e" "Some c" "Some (getExecutionErrorReason e)"]
      show ?thesis by (auto simp: Let_def finish_run_def quiet jm_eval)
    next
      case (Inr x)
      with run Some to IH [of t] show ?thesis by (simp add: Let_def case_not_failed quiet jm_eval)
    qed
  qed
qed

text \<open>Dropping the steps after the last command drops no command.\<close>

lemma no_commands: "\<forall>step \<in> set steps. step_command step = None \<Longrightarrow> step_commands steps = []"
  by (induction steps) simp_all

lemma trimmed_commands: "step_commands (rev (dropWhile (\<lambda>step. step_command step = None) (rev steps))) = step_commands steps"
proof -
  let ?P = "\<lambda>step. step_command step = None"
  have "steps = rev (dropWhile ?P (rev steps)) @ rev (takeWhile ?P (rev steps))"
    by (metis rev_append rev_rev_ident takeWhile_dropWhile_id)
  moreover have "step_commands (rev (takeWhile ?P (rev steps))) = []"
    by (rule no_commands) (auto dest: set_takeWhileD)
  ultimately show ?thesis by (metis append_Nil2 step_commands_simps(3))
qed

lemma built_steps:
  assumes "\<forall>lane reason. plan \<noteq> NotReadyPlan lane reason"
  obtains steps where "buildSigningOperationSteps (createSigningOperationPlan plan operation commands) = Inr steps"
    "\<forall>step \<in> set steps. not_failed (step_to step)" "step_commands steps = filter (\<lambda>k. k \<in> set commands) (plan_commands plan)"
  using assms that
  by (cases plan)
     (auto simp: buildSigningOperationSteps_def createSigningOperationPlan_def commandForPlan_def transition_def
       getTransitionPlan_def not_failed_def Let_def)

text \<open>
  C20: A planned run of a command sequence does what an unplanned one does. Take a plan that is ready, an
  observer of the steps that changes nothing and does not throw, and a request for commands of which at least one is in
  the plan. Then running the sequence executes exactly the requested commands that the plan has, in the
  order of its steps, and stops at the first error, which it throws: state and outcome are those of running
  these commands without a plan, whatever the handlers do. So the EVM flow confirms, prepares and signs
  in this order with and without a plan.
\<close>

theorem planned_run_is_unplanned:
  assumes "\<forall>lane reason. plan \<noteq> NotReadyPlan lane reason" and "\<forall>event s. observe event s = (Inr (), s)"
    and "filter (\<lambda>k. k \<in> set commands) (plan_commands plan) \<noteq> []"
  shows "runSharedSigningCommandSequence (Some plan) operation observe handlers commands s =
         runSharedSigningCommandSequence None operation observe handlers (filter (\<lambda>k. k \<in> set commands) (plan_commands plan)) s"
proof -
  let ?execute = "\<lambda>kind. case handlers kind of None \<Rightarrow> jret () | Some handler \<Rightarrow> handler"
  let ?P = "\<lambda>step. step_command step = None"
  obtain steps where steps: "buildSigningOperationSteps (createSigningOperationPlan plan operation commands) = Inr steps"
      "\<forall>step \<in> set steps. not_failed (step_to step)" "step_commands steps = filter (\<lambda>k. k \<in> set commands) (plan_commands plan)"
    using assms(1) by (rule built_steps)
  let ?steps = "rev (dropWhile ?P (rev steps))"
  have commands: "step_commands ?steps = filter (\<lambda>k. k \<in> set commands) (plan_commands plan)"
    using trimmed_commands [of steps] steps(3) by simp
  with assms(3) have "?steps \<noteq> []" by (metis step_commands_simps(1))
  moreover have "\<forall>step \<in> set ?steps. not_failed (step_to step)" using steps(2) by (auto dest: set_dropWhileD)
  ultimately have "jbind (runSteps (\<lambda>c. ?execute (cmd_kind c)) observe ?steps None) finish_run s = jfor (step_commands ?steps) ?execute s"
    by (intro run_steps assms(2)) simp_all
  with steps(1) commands show ?thesis
    by (simp add: runSharedSigningCommandSequence_def buildSigningOperationCommandSteps_def runSigningOperationCommandSteps_def
        runUnplannedSigningOperationCommandSequence_def jlift_def jbind_apply)
qed

text \<open>
  C37: The reason why a session is not ready is lost. The only step of a plan that is not ready carries the reason
  but no command, and the steps after the last command are dropped; so every command sequence with such
  a plan, and every single command, throws that it produced no steps instead of the reason, which the
  code after the run is there to throw.
\<close>

theorem not_ready_reason_lost:
  "runSharedSigningCommandSequence (Some (NotReadyPlan lane reason)) operation observe handlers commands s =
     (Inl (machine_error ''command sequence produced no steps''), s) \<and>
   runSigningOperationCommand (NotReadyPlan lane reason) context kind execute t =
     (Inl (machine_error ''command sequence produced no steps''), t)"
  by (simp add: runSharedSigningCommandSequence_def runSigningOperationCommand_def buildSigningOperationCommandSteps_def
      buildSigningOperationSteps_def createSigningOperationPlan_def transition_def getTransitionPlan_def
      runSigningOperationCommandSteps_def Let_def jm_eval)

section \<open>The confirmation command\<close>

lemma run_confirmation:
  assumes "\<forall>lane reason. plan \<noteq> NotReadyPlan lane reason"
  shows "runSigningOperationCommand plan operation ShowConfirmation execute s =
    (case execute s of (Inl e, t) \<Rightarrow> (Inl e, t) | (Inr x, t) \<Rightarrow> (Inr (Some x), t))"
  using assms
  by (cases plan; cases "execute s"; cases "fst (execute s)")
     (auto simp: runSigningOperationCommand_def buildSigningOperationCommandSteps_def buildSigningOperationSteps_def
       createSigningOperationPlan_def commandForPlan_def transition_def getTransitionPlan_def runSigningOperationCommandSteps_def
       finish_run_def Let_def jm_eval)

text \<open>While a confirmation is shown the operation stays with its plan, unfinished.\<close>

definition confirming :: "SigningSessionPlan \<Rightarrow> SigningOperationState \<Rightarrow> bool" where
  "confirming plan st \<longleftrightarrow>
     st \<in> {OpPlanned plan, OpConfirmationApproved plan, OpAuthReady plan} \<or> (\<exists>a. st = OpAuthenticationInProgress plan a)"

lemma confirming_run: "confirming plan (ref_current r) \<Longrightarrow> confirming plan (ref_current (op_run (map Interact events) r))"
proof (induction events arbitrary: r)
  case (Cons e events)
  have "confirming plan (ref_current (op_exec (Interact e) r))"
    using Cons.prems by (cases e; cases "ref_current r") (auto simp: confirming_def machine_ops jm_eval)
  with Cons.IH show ?case by simp
qed simp

lemma attempt_confirming: "planSigningOperationAttempt plan r = (Inr st, r') \<Longrightarrow> ref_current r' = st \<and> confirming plan st"
  by (cases "ref_current r") (auto simp: machine_ops jm_eval confirming_def split: if_splits)

lemma cancel_confirming:
  assumes "confirming plan (ref_current r)"
  shows "cancelSigningOperation r =
    (let st = OpCancelled plan (case ref_current r of OpPlanned _ \<Rightarrow> ReviewPhase
       | OpAuthenticationInProgress _ _ \<Rightarrow> AuthenticationPhase | _ \<Rightarrow> ExecutionPhase) in (Inr st, r\<lparr>ref_current := st\<rparr>))"
  using assms by (auto simp: confirming_def machine_ops jm_eval Let_def)

lemma step_up_cancelled_recognised: "isUserCancellationError walletOperationStepUpCancelled"
  by code_simp

text \<open>
  A user who cancels a confirmation cancels the operation for good. Whatever the user did while the confirmation
  was shown, if it ends in an error that is a cancellation, the operation is cancelled under its
  plan, in the phase it was in. A cancellation while authenticating is reported as the cancelled step-up,
  which is again recognised as a cancellation; in the other phases the error itself goes on. No later
  attempt, event or cancellation changes the operation, and a new attempt is refused.
\<close>

theorem cancelled_confirmation:
  assumes "\<forall>lane reason. plan \<noteq> NotReadyPlan lane reason" and "planSigningOperationAttempt plan r = (Inr st, r1)"
    and "confirm (state_kind st) r1 = (Inl e, op_run (map Interact events) r1)" and "isUserCancellationError e"
  shows "\<exists>phase r2. runTransactionSigningConfirmationCommand plan operation confirm r =
      (Inl (if phase = AuthenticationPhase then walletOperationStepUpCancelled else e), r2) \<and>
    isUserCancellationError (if phase = AuthenticationPhase then walletOperationStepUpCancelled else e) \<and>
    ref_current r2 = OpCancelled plan phase \<and>
    (phase = AuthenticationPhase) = (\<exists>a. ref_current (op_run (map Interact events) r1) = OpAuthenticationInProgress plan a) \<and>
    (phase = ReviewPhase) = (ref_current (op_run (map Interact events) r1) = OpPlanned plan) \<and>
    (\<forall>calls. op_run calls r2 = r2) \<and>
    (\<forall>plan'. planSigningOperationAttempt plan' r2 = (Inl (machine_error ''cancelled operation cannot be replanned''), r2))"
proof -
  let ?r = "op_run (map Interact events) r1"
  let ?phase = "case ref_current ?r of OpPlanned _ \<Rightarrow> ReviewPhase | OpAuthenticationInProgress _ _ \<Rightarrow> AuthenticationPhase | _ \<Rightarrow> ExecutionPhase"
  let ?r2 = "?r\<lparr>ref_current := OpCancelled plan ?phase\<rparr>"
  have "confirming plan (ref_current ?r)"
    using attempt_confirming [OF assms(2)] by (auto intro: confirming_run)
  then have cancel: "cancelSigningOperation ?r = (Inr (OpCancelled plan ?phase), ?r2)"
      and phases: "(?phase = AuthenticationPhase) = (\<exists>a. ref_current ?r = OpAuthenticationInProgress plan a)"
        "(?phase = ReviewPhase) = (ref_current ?r = OpPlanned plan)"
    by (simp_all add: cancel_confirming Let_def) (auto simp: confirming_def)
  have "runTransactionSigningConfirmationCommand plan operation confirm r =
      (Inl (if ?phase = AuthenticationPhase then walletOperationStepUpCancelled else e), ?r2)"
    using cancel assms(2-)
    by (cases ?phase) (simp_all add: runTransactionSigningConfirmationCommand_def run_confirmation [OF assms(1)] jm_eval)
  moreover have "\<forall>calls. op_run calls ?r2 = ?r2" by (simp add: cancelled_run)
  moreover have "\<forall>plan'. planSigningOperationAttempt plan' ?r2 = (Inl (machine_error ''cancelled operation cannot be replanned''), ?r2)"
    by (simp add: machine_ops jm_eval)
  ultimately show ?thesis
    using phases assms(4) step_up_cancelled_recognised by (intro exI [of _ ?phase] exI [of _ ?r2]) auto
qed

section \<open>A concrete operation\<close>

definition demo_lane :: SelectedSigningLane where
  "demo_lane = Ed25519Lane
     \<lparr>ln_signer = NearEd25519Signer ''w'' ''alice.near'' ''k'', ln_auth = PasskeyBinding ''rp'' ''cred'', ln_keyKind = ''threshold'',
      ln_chainFamily = ''near'', ln_sessionOrigin = ''login'', ln_storageSource = ''memory'', ln_retention = SessionRetention\<rparr>
     ''ws'' ''q'' ''ts''"

definition demo_plan :: SigningSessionPlan where
  "demo_plan = PasskeyReauthPlan demo_lane (ReconnectEd25519 demo_lane ''ts'')"

definition demo_ref :: SigningOperationStateRef where
  "demo_ref = createSigningOperationStateRef ''op''"

definition demo_context :: SigningOperationContext where
  "demo_context = \<lparr>ctx_operationId = ''op'', ctx_operationFingerprint = None\<rparr>"

text \<open>The user starts to authenticate and dismisses the prompt.\<close>

definition dismissed :: js_error where
  "dismissed = ErrorInstance ''The operation was aborted.'' [(''name'', JStr ''NotAllowedError'')] None"

definition demo_confirm :: "string \<Rightarrow> unit opm" where
  "demo_confirm kind = jseq beginSigningOperationAuthentication (jthrow dismissed)"

lemma demo_ready: "\<forall>lane reason. demo_plan \<noteq> NotReadyPlan lane reason"
  by (simp add: demo_plan_def)

lemma demo_dismissed: "isUserCancellationError dismissed"
  by code_simp

lemma demo_attempt: "planSigningOperationAttempt demo_plan demo_ref = (Inr (OpPlanned demo_plan), \<lparr>ref_operationId = ''op'', ref_current = OpPlanned demo_plan\<rparr>)"
  by (simp add: machine_ops jm_eval demo_ref_def createSigningOperationStateRef_def)

theorem authenticated_after_review_witness:
  "\<exists>p q. subseq [Attempt p, Interact ReviewApproved, Interact AuthenticationCompleted]
             [Attempt demo_plan, Interact AuthenticationStarted, Interact ReviewApproved, Interact AuthenticationCompleted] \<and>
         subseq [Attempt q, Interact AuthenticationStarted, Interact AuthenticationCompleted]
             [Attempt demo_plan, Interact AuthenticationStarted, Interact ReviewApproved, Interact AuthenticationCompleted]"
  by (rule authenticated_after_review [where opId = "''op''" and plan = demo_plan])
     (simp add: machine_ops jm_eval createSigningOperationStateRef_def)

text \<open>The run writes the executed commands to a log.\<close>

definition demo_handlers :: "SigningOperationCommandKind \<Rightarrow> (SigningOperationCommandKind list, js_error, unit) jsm option" where
  "demo_handlers kind = (if kind = ConnectThreshold then None else Some (jmod (\<lambda>ks. ks @ [kind])))"

theorem planned_run_is_unplanned_witness:
  "runSharedSigningCommandSequence (Some demo_plan) None (\<lambda>_. jret ()) demo_handlers [PreparePayload, ShowConfirmation, SignPayload] [] =
     (Inr (), [ShowConfirmation, PreparePayload, SignPayload])"
proof -
  have "filter (\<lambda>k. k \<in> set [PreparePayload, ShowConfirmation, SignPayload]) (plan_commands demo_plan)
      = [ShowConfirmation, PreparePayload, SignPayload]"
    by (simp add: demo_plan_def)
  with planned_run_is_unplanned [OF demo_ready, where observe = "\<lambda>_. jret ()" and operation = None and handlers = demo_handlers
      and commands = "[PreparePayload, ShowConfirmation, SignPayload]" and s = "[]"]
  show ?thesis
    by (simp add: runSharedSigningCommandSequence_def runUnplannedSigningOperationCommandSequence_def demo_handlers_def jm_eval)
qed

theorem cancelled_confirmation_witness:
  "\<exists>r2. runTransactionSigningConfirmationCommand demo_plan demo_context demo_confirm demo_ref =
     (Inl walletOperationStepUpCancelled, r2) \<and> ref_current r2 = OpCancelled demo_plan AuthenticationPhase \<and>
     op_run [Attempt demo_plan, CancelCall] r2 = r2"
proof -
  have "demo_confirm (state_kind (OpPlanned demo_plan)) \<lparr>ref_operationId = ''op'', ref_current = OpPlanned demo_plan\<rparr> =
      (Inl dismissed, op_run (map Interact [AuthenticationStarted]) \<lparr>ref_operationId = ''op'', ref_current = OpPlanned demo_plan\<rparr>)"
    by (simp add: demo_confirm_def machine_ops jm_eval)
  with cancelled_confirmation [where plan = demo_plan and st = "OpPlanned demo_plan" and confirm = demo_confirm and e = dismissed
      and events = "[AuthenticationStarted]" and operation = demo_context, OF demo_ready demo_attempt _ demo_dismissed]
  show ?thesis by (auto simp: machine_ops jm_eval)
qed

end
