(* ===== verification/LaneInventory.thy ===== *)
theory LaneInventory
  imports Codec "HOL-Library.Sorting_Algorithms" "HOL-Library.List_Lexorder" "HOL-Library.Char_ord"
begin

text \<open>
  The canonical lane inventory (\<open>session/availability/canonicalLaneInventory.ts\<close>): of several stored facts about
  one signing lane at most one is selected, by the generation the server issued, then by exactness, then
  by the tie-break of the curve. The curves plug in through an adapter; the locale \<open>supersession\<close> states what
  the inventory asks of its tie-break, and gives that the selected fact does not depend on the order in
  which the facts were read.
\<close>

section \<open>Adapters\<close>

datatype CanonicalFactExactness = ExactTarget | SharedProjection

text \<open>
  \<open>CanonicalTieBreakOrder\<close> is \<^typ>\<open>comp\<close> of the library: \<^const>\<open>Greater\<close> for 1, \<^const>\<open>Equiv\<close> for 0, \<^const>\<open>Less\<close>
  for -1. Strings are compared by code units, which is the order of the library on character lists.
\<close>

record 'f CanonicalFactSupersession =
  sup_isOperationUsable :: "'f \<Rightarrow> bool"
  sup_generation :: "'f \<Rightarrow> string option"
  sup_exactness :: "'f \<Rightarrow> CanonicalFactExactness"
  sup_tieBreak :: "'f \<Rightarrow> 'f \<Rightarrow> comp"

record ('f, 'k, 'c) CanonicalLaneInventoryAdapter =
  ad_groupKey :: "'f \<Rightarrow> 'k"
  ad_groupKeyString :: "'k \<Rightarrow> string"
  ad_groupConflicts :: "'f list \<Rightarrow> 'c list"
  ad_supersession :: "'f CanonicalFactSupersession"

datatype ('f, 'c) CanonicalLaneSelection =
    FactSelected (selectedFact: 'f) (supersededFacts: "'f list")
  | NoCurrentLane "'f list"
  | ConflictingKeyMaterial "'c list"
  | AmbiguousMaterial "'f list"

record ('f, 'k) CanonicalFactGroup =
  grp_groupKey :: 'k
  grp_facts :: "'f list"

datatype 'f CanonicalFactPreference = PreferLeft | PreferRight | PreferAmbiguous "'f list" | PreferEqual

section \<open>Generations\<close>

text \<open>
  \<open>normalized.toString(10).padStart(20, '0')\<close>, with the exact digits of the number. (Above \<open>2 ^ 53\<close> JavaScript prints the
  shortest digits that round to it.)
\<close>

definition pad_start :: "nat \<Rightarrow> string \<Rightarrow> string" where
  "pad_start n s = replicate (n - length s) (CHR ''0'') @ s"

definition serverIssuedGenerationFromNumber :: "int option \<Rightarrow> string option" where
  "serverIssuedGenerationFromNumber v =
     (case v of None \<Rightarrow> None | Some n \<Rightarrow> if n \<le> 0 then None else Some (pad_start 20 (int_str n)))"

section \<open>Preference\<close>

text \<open>A generation that is missing or empty makes two facts incomparable.\<close>

definition canonicalGenerationPreference :: "'f \<Rightarrow> 'f \<Rightarrow> 'f CanonicalFactSupersession \<Rightarrow> 'f CanonicalFactPreference" where
  "canonicalGenerationPreference left right S =
     (case (sup_generation S left, sup_generation S right) of
        (Some l, Some r) \<Rightarrow>
          if l = [] \<or> r = [] then PreferAmbiguous [left, right]
          else if l > r then PreferLeft else if r > l then PreferRight else PreferEqual
      | _ \<Rightarrow> PreferAmbiguous [left, right])"

definition canonicalExactnessPreference :: "'f \<Rightarrow> 'f \<Rightarrow> 'f CanonicalFactSupersession \<Rightarrow> 'f CanonicalFactPreference" where
  "canonicalExactnessPreference left right S =
     (if sup_exactness S left = sup_exactness S right then PreferEqual
      else if sup_exactness S left = ExactTarget then PreferLeft else PreferRight)"

definition canonicalFactPreference :: "'f \<Rightarrow> 'f \<Rightarrow> 'f CanonicalFactSupersession \<Rightarrow> 'f CanonicalFactPreference" where
  "canonicalFactPreference left right S =
     (case canonicalGenerationPreference left right S of
        PreferEqual \<Rightarrow>
          (case canonicalExactnessPreference left right S of
             PreferEqual \<Rightarrow>
               (case sup_tieBreak S left right of
                  Greater \<Rightarrow> PreferLeft
                | Less \<Rightarrow> PreferRight
                | Equiv \<Rightarrow> PreferAmbiguous [left, right])
           | preference \<Rightarrow> preference)
      | preference \<Rightarrow> preference)"

text \<open>The loop of \<open>selectCanonicalFact\<close>; \<open>Inl\<close> are the two facts that cannot be compared.\<close>

fun selectFrom :: "'f CanonicalFactSupersession \<Rightarrow> 'f \<Rightarrow> 'f list \<Rightarrow> 'f list + 'f" where
  "selectFrom S selected [] = Inr selected"
| "selectFrom S selected (candidate # rest) =
     (case canonicalFactPreference selected candidate S of
        PreferLeft \<Rightarrow> selectFrom S selected rest
      | PreferRight \<Rightarrow> selectFrom S candidate rest
      | PreferAmbiguous candidates \<Rightarrow> Inl candidates
      | PreferEqual \<Rightarrow> selectFrom S selected rest)"

fun selectCanonicalFact :: "'f list \<Rightarrow> 'f CanonicalFactSupersession \<Rightarrow> 'f list + 'f" where
  "selectCanonicalFact [] S = Inl []"
| "selectCanonicalFact (entry # rest) S = selectFrom S entry rest"

section \<open>Selection\<close>

definition addToGroup ::
  "('f, 'k, 'c) CanonicalLaneInventoryAdapter \<Rightarrow> 'f \<Rightarrow> (string, ('f, 'k) CanonicalFactGroup) jsmap \<Rightarrow> (string, ('f, 'k) CanonicalFactGroup) jsmap" where
  "addToGroup A entry groupsByKey =
     (let groupKey = ad_groupKey A entry; encoded = ad_groupKeyString A groupKey in
      AList.update encoded
        (case map_of groupsByKey encoded of
           Some g \<Rightarrow> \<lparr>grp_groupKey = grp_groupKey g, grp_facts = grp_facts g @ [entry]\<rparr>
         | None \<Rightarrow> \<lparr>grp_groupKey = groupKey, grp_facts = [entry]\<rparr>) groupsByKey)"

definition canonicalFactGroups ::
  "'f list \<Rightarrow> ('f, 'k, 'c) CanonicalLaneInventoryAdapter \<Rightarrow> ('f, 'k) CanonicalFactGroup list" where
  "canonicalFactGroups facts A = map snd (fold (addToGroup A) facts [])"

definition canonicalFactGroupConflicts ::
  "('f, 'k) CanonicalFactGroup list \<Rightarrow> ('f, 'k, 'c) CanonicalLaneInventoryAdapter \<Rightarrow> 'c list" where
  "canonicalFactGroupConflicts groups A = concat (map (\<lambda>g. ad_groupConflicts A (grp_facts g)) groups)"

text \<open>
  The superseded facts are those that are another object than the selected one; two objects with the same
  contents tie, so none of them is selected.
\<close>

definition canonicalizeSingleLaneFactGroup ::
  "('f, 'k) CanonicalFactGroup \<Rightarrow> 'f CanonicalFactSupersession \<Rightarrow> ('f, 'c) CanonicalLaneSelection" where
  "canonicalizeSingleLaneFactGroup g S =
     (let usable = filter (sup_isOperationUsable S) (grp_facts g) in
      if usable = [] then NoCurrentLane (grp_facts g)
      else case selectCanonicalFact usable S of
          Inl candidates \<Rightarrow> AmbiguousMaterial candidates
        | Inr entry \<Rightarrow> FactSelected entry (filter (\<lambda>f. f \<noteq> entry) (grp_facts g)))"

definition canonicalizeLaneFacts ::
  "'f list \<Rightarrow> ('f, 'k, 'c) CanonicalLaneInventoryAdapter \<Rightarrow> ('f, 'c) CanonicalLaneSelection" where
  "canonicalizeLaneFacts facts A =
     (if facts = [] then NoCurrentLane []
      else
        let groups = canonicalFactGroups facts A; conflicts = canonicalFactGroupConflicts groups A in
        if conflicts \<noteq> [] then ConflictingKeyMaterial conflicts
        else if length groups \<noteq> 1 then AmbiguousMaterial facts
        else canonicalizeSingleLaneFactGroup (hd groups) (ad_supersession A))"

section \<open>Comparators\<close>

fun then_by :: "comp \<Rightarrow> comp \<Rightarrow> comp" where
  "then_by Equiv r = r"
| "then_by Less _ = Less"
| "then_by Greater _ = Greater"

lemma then_by_iff:
  "then_by r s = Equiv \<longleftrightarrow> r = Equiv \<and> s = Equiv"
  "then_by r s = Less \<longleftrightarrow> r = Less \<or> r = Equiv \<and> s = Less"
  "then_by r s = Greater \<longleftrightarrow> r = Greater \<or> r = Equiv \<and> s = Greater"
  by (cases r; simp)+

lemma comparator_key: "comparator c \<Longrightarrow> comparator (\<lambda>x y. c (f x) (f y))"
  unfolding comparator_def by blast

lemma comparator_compare: "comparator (compare c)"
  by (rule compare [simplified])

lemma comparator_then:
  assumes "comparator c" "comparator d"
  shows "comparator (\<lambda>x y. then_by (c x y) (d x y))"
proof
  fix x y z
  note c = comparator.refl [OF assms(1)] comparator.trans_equiv [OF assms(1), of x y z]
    comparator.trans_less [OF assms(1), of x y z] comparator.trans_equiv_less [OF assms(1), of x y z]
    comparator.trans_less_equiv [OF assms(1), of x y z] comparator.greater_iff_sym_less [OF assms(1), of y x]
    comparator.sym [OF assms(1), of y x]
  note d = comparator.refl [OF assms(2)] comparator.trans_equiv [OF assms(2), of x y z]
    comparator.trans_less [OF assms(2), of x y z] comparator.greater_iff_sym_less [OF assms(2), of y x]
  show "then_by (c x x) (d x x) = Equiv" using c(1) d(1) by simp
  show "then_by (c x y) (d x y) = Equiv \<Longrightarrow> then_by (c y z) (d y z) = Equiv \<Longrightarrow> then_by (c x z) (d x z) = Equiv"
    using c d by (auto simp: then_by_iff)
  show "then_by (c x y) (d x y) = Less \<Longrightarrow> then_by (c y z) (d y z) = Less \<Longrightarrow> then_by (c x z) (d x z) = Less"
    using c d by (auto simp: then_by_iff)
  show "then_by (c y x) (d y x) = Greater \<longleftrightarrow> then_by (c x y) (d x y) = Less"
    using c d by (auto simp: then_by_iff)
qed

section \<open>The order of facts\<close>

definition generation_key :: "'f CanonicalFactSupersession \<Rightarrow> 'f \<Rightarrow> string" where
  "generation_key S x = (case sup_generation S x of None \<Rightarrow> [] | Some g \<Rightarrow> g)"

definition exact_rank :: "'f CanonicalFactSupersession \<Rightarrow> 'f \<Rightarrow> nat" where
  "exact_rank S x = (if sup_exactness S x = ExactTarget then 1 else 0)"

definition fact_order :: "'f CanonicalFactSupersession \<Rightarrow> 'f \<Rightarrow> 'f \<Rightarrow> comp" where
  "fact_order S x y =
     then_by (compare default (generation_key S x) (generation_key S y))
       (then_by (compare default (exact_rank S x) (exact_rank S y)) (sup_tieBreak S x y))"

lemma compare_default_cases: "compare default (x :: 'a :: linorder) y = (if x < y then Less else if y < x then Greater else Equiv)"
  by transfer simp

lemma preference_order:
  "canonicalFactPreference x y S =
     (if generation_key S x = [] \<or> generation_key S y = [] then PreferAmbiguous [x, y]
      else case fact_order S x y of Greater \<Rightarrow> PreferLeft | Less \<Rightarrow> PreferRight | Equiv \<Rightarrow> PreferAmbiguous [x, y])"
  by (auto simp: canonicalFactPreference_def canonicalGenerationPreference_def canonicalExactnessPreference_def
      generation_key_def exact_rank_def fact_order_def compare_default_cases
      split: option.splits CanonicalFactExactness.splits) (metis CanonicalFactExactness.exhaust)+

locale supersession =
  fixes S :: "'f CanonicalFactSupersession"
  assumes tie: "comparator (sup_tieBreak S)"
begin

lemma order_comparator: "comparator (fact_order S)"
proof -
  have "comparator (\<lambda>x y. compare default (generation_key S x) (generation_key S y))"
    "comparator (\<lambda>x y. compare default (exact_rank S x) (exact_rank S y))"
    by (rule comparator_key [OF comparator_compare])+
  then show ?thesis unfolding fact_order_def by (intro comparator_then tie)
qed

lemmas greater_trans = comparator.trans_greater [OF order_comparator]
lemmas less_greater = comparator.greater_iff_sym_less [OF order_comparator]

lemma selected_greatest:
  "selectFrom S selected candidates = Inr x \<Longrightarrow>
   \<exists>as bs. selected # candidates = as @ x # bs \<and> (\<forall>y \<in> set as \<union> set bs. fact_order S x y = Greater)"
proof (induction candidates arbitrary: selected)
  case Nil
  then show ?case by (intro exI [of _ "[]"]) simp
next
  case (Cons c cs)
  show ?case
  proof (cases "fact_order S selected c")
    case Greater
    with Cons.prems have "selectFrom S selected cs = Inr x" by (auto simp: preference_order split: if_splits)
    with Cons.IH obtain as bs where *: "selected # cs = as @ x # bs" "\<forall>y \<in> set as \<union> set bs. fact_order S x y = Greater"
      by blast
    show ?thesis
    proof (cases as)
      case Nil
      with * Greater show ?thesis by (intro exI [of _ "[]"] exI [of _ "c # cs"]) auto
    next
      case (Cons a as')
      with * Greater show ?thesis
        by (intro exI [of _ "selected # c # as'"] exI [of _ bs]) (auto intro: greater_trans)
    qed
  next
    case Less
    with Cons.prems have "selectFrom S c cs = Inr x" by (auto simp: preference_order split: if_splits)
    with Cons.IH obtain as bs where *: "c # cs = as @ x # bs" "\<forall>y \<in> set as \<union> set bs. fact_order S x y = Greater"
      by blast
    have "fact_order S c selected = Greater" using Less by (simp add: less_greater)
    with * have "fact_order S x selected = Greater" by (cases as) (auto intro: greater_trans)
    with * show ?thesis by (intro exI [of _ "selected # as"] exI [of _ bs]) auto
  next
    case Equiv
    with Cons.prems show ?thesis by (auto simp: preference_order split: if_splits)
  qed
qed

lemma selected_member:
  assumes "selectCanonicalFact xs S = Inr x"
  shows "x \<in> set xs" and "y \<in> set xs \<Longrightarrow> y \<noteq> x \<Longrightarrow> fact_order S x y = Greater"
proof -
  from assms obtain x' xs' where "xs = x' # xs'" "selectFrom S x' xs' = Inr x" by (cases xs) auto
  with selected_greatest obtain as bs where "xs = as @ x # bs" "\<forall>y \<in> set as \<union> set bs. fact_order S x y = Greater"
    by blast
  then show "x \<in> set xs" "y \<in> set xs \<Longrightarrow> y \<noteq> x \<Longrightarrow> fact_order S x y = Greater" by auto
qed

lemma selected_unique:
  assumes "set xs = set ys" "selectCanonicalFact xs S = Inr x" "selectCanonicalFact ys S = Inr y"
  shows "x = y"
proof (rule ccontr)
  assume "x \<noteq> y"
  with assms selected_member have "fact_order S x y = Greater" "fact_order S y x = Greater" by metis+
  then show False by (simp add: less_greater)
qed

text \<open>Facts with a generation, no two of which tie, always have a selected one.\<close>

definition comparable :: "'f list \<Rightarrow> bool" where
  "comparable xs \<longleftrightarrow>
     (length xs \<le> 1 \<or> (\<forall>x \<in> set xs. generation_key S x \<noteq> [])) \<and>
     (\<forall>i < length xs. \<forall>j < i. fact_order S (xs ! j) (xs ! i) \<noteq> Equiv)"

lemma comparable_distinct: "comparable xs \<longleftrightarrow>
    (length xs \<le> 1 \<or> (\<forall>x \<in> set xs. generation_key S x \<noteq> [])) \<and> distinct xs \<and>
    (\<forall>x \<in> set xs. \<forall>y \<in> set xs. x \<noteq> y \<longrightarrow> fact_order S x y \<noteq> Equiv)"
proof -
  have sym: "fact_order S y x = Equiv \<longleftrightarrow> fact_order S x y = Equiv" for x y by (rule comparator.sym [OF order_comparator])
  have refl: "fact_order S x x = Equiv" for x by (rule comparator.refl [OF order_comparator])
  have "(\<forall>i < length xs. \<forall>j < i. fact_order S (xs ! j) (xs ! i) \<noteq> Equiv) \<longleftrightarrow>
      distinct xs \<and> (\<forall>x \<in> set xs. \<forall>y \<in> set xs. x \<noteq> y \<longrightarrow> fact_order S x y \<noteq> Equiv)"
    (is "?l \<longleftrightarrow> ?r")
  proof
    assume l: ?l
    then have pairs: "i < length xs \<Longrightarrow> j < length xs \<Longrightarrow> i \<noteq> j \<Longrightarrow> fact_order S (xs ! j) (xs ! i) \<noteq> Equiv" for i j
      by (metis nat_neq_iff sym)
    then have "distinct xs" by (metis distinct_conv_nth refl)
    with pairs show ?r by (metis in_set_conv_nth)
  next
    assume ?r
    then show ?l by (auto simp: distinct_conv_nth)
  qed
  then show ?thesis by (simp add: comparable_def)
qed

lemma comparable_selects: "comparable (selected # candidates) \<Longrightarrow> \<exists>x. selectFrom S selected candidates = Inr x"
proof (induction candidates arbitrary: selected)
  case (Cons c cs)
  then have gens: "\<forall>x \<in> set (selected # c # cs). generation_key S x \<noteq> []"
    and "fact_order S selected c \<noteq> Equiv" "comparable (selected # cs)" "comparable (c # cs)"
    by (auto simp: comparable_distinct)
  with Cons.IH [of selected] Cons.IH [of c] show ?case
    by (cases "fact_order S selected c") (auto simp: preference_order)
qed simp

lemma comparable_selection:
  assumes "mset xs = mset ys" "xs \<noteq> []" "comparable xs"
  shows "\<exists>x. selectCanonicalFact xs S = Inr x \<and> selectCanonicalFact ys S = Inr x"
proof -
  have "set xs = set ys" "length xs = length ys" "distinct ys = distinct xs"
    using assms(1) mset_eq_setD mset_eq_length mset_eq_imp_distinct_iff by metis+
  with assms(3) have "comparable ys" by (simp add: comparable_distinct)
  moreover obtain x xs' where "xs = x # xs'" using assms(2) by (cases xs) auto
  moreover obtain y ys' where "ys = y # ys'" using assms(1, 2) by (cases ys) auto
  ultimately obtain a b where "selectCanonicalFact xs S = Inr a" "selectCanonicalFact ys S = Inr b"
    using comparable_selects assms(3) by (metis selectCanonicalFact.simps(2))
  with selected_unique [OF \<open>set xs = set ys\<close>] show ?thesis by auto
qed

end

section \<open>Grouping\<close>

text \<open>The group of a key holds the facts with that key, in the order they were read.\<close>

lemma addToGroup_map_of:
  "map_of (addToGroup A x m) k =
     (if k = ad_groupKeyString A (ad_groupKey A x)
      then Some (case map_of m k of
          Some g \<Rightarrow> \<lparr>grp_groupKey = grp_groupKey g, grp_facts = grp_facts g @ [x]\<rparr>
        | None \<Rightarrow> \<lparr>grp_groupKey = ad_groupKey A x, grp_facts = [x]\<rparr>)
      else map_of m k)"
  by (simp add: addToGroup_def Let_def map_of_update_alist)

lemma groups_map_of:
  "distinct (map fst (fold (addToGroup A) facts [])) \<and>
   map_of (fold (addToGroup A) facts []) k =
     (case filter (\<lambda>f. ad_groupKeyString A (ad_groupKey A f) = k) facts of
        [] \<Rightarrow> None
      | f # fs \<Rightarrow> Some \<lparr>grp_groupKey = ad_groupKey A f, grp_facts = f # fs\<rparr>)"
proof (induction facts arbitrary: k rule: rev_induct)
  case (snoc x xs)
  then have "distinct (map fst (fold (addToGroup A) xs []))" by simp
  then have "distinct (map fst (fold (addToGroup A) (xs @ [x]) []))"
    by (simp add: addToGroup_def Let_def)
  moreover have "map_of (fold (addToGroup A) (xs @ [x]) []) k =
     (case filter (\<lambda>f. ad_groupKeyString A (ad_groupKey A f) = k) (xs @ [x]) of
        [] \<Rightarrow> None
      | f # fs \<Rightarrow> Some \<lparr>grp_groupKey = ad_groupKey A f, grp_facts = f # fs\<rparr>)"
    using snoc.IH [of k] by (auto simp: addToGroup_map_of split: list.splits)
  ultimately show ?case by simp
qed simp

lemma only_group_key:
  assumes "canonicalFactGroups facts A = [g]"
  shows "\<exists>k. fold (addToGroup A) facts [] = [(k, g)] \<and> (\<forall>f \<in> set facts. ad_groupKeyString A (ad_groupKey A f) = k)"
proof -
  let ?m = "fold (addToGroup A) facts []"
  from assms obtain k where m: "?m = [(k, g)]" by (auto simp: canonicalFactGroups_def)
  then have keys: "map_of ?m k' = None" if "k' \<noteq> k" for k' using that by simp
  have "ad_groupKeyString A (ad_groupKey A f) = k" if "f \<in> set facts" for f
    using groups_map_of [of A facts "ad_groupKeyString A (ad_groupKey A f)"] keys [of "ad_groupKeyString A (ad_groupKey A f)"] that
    by (auto split: list.splits dest: filter_eq_ConsD simp: filter_empty_conv)
  with m show ?thesis by blast
qed

lemma only_group:
  assumes "canonicalFactGroups facts A = [g]"
  shows "grp_facts g = facts"
proof -
  obtain k where k: "fold (addToGroup A) facts [] = [(k, g)]" "\<forall>f \<in> set facts. ad_groupKeyString A (ad_groupKey A f) = k"
    using only_group_key [OF assms] by blast
  then have "filter (\<lambda>f. ad_groupKeyString A (ad_groupKey A f) = k) facts = facts" by (simp add: filter_id_conv)
  with groups_map_of [of A facts k] k(1) show ?thesis by (auto split: list.splits)
qed

lemma one_group:
  assumes "facts \<noteq> []" and "\<forall>f \<in> set facts. ad_groupKeyString A (ad_groupKey A f) = k"
  shows "\<exists>g. canonicalFactGroups facts A = [g]"
proof -
  let ?m = "fold (addToGroup A) facts []"
  have "filter (\<lambda>f. ad_groupKeyString A (ad_groupKey A f) = k) facts = facts" using assms(2) by (simp add: filter_id_conv)
  with assms(1) have "map_of ?m k \<noteq> None" using groups_map_of [of A facts k] by (auto split: list.splits)
  moreover have "map_of ?m k' = None" if "k' \<noteq> k" for k'
  proof -
    have "filter (\<lambda>f. ad_groupKeyString A (ad_groupKey A f) = k') facts = []" using assms(2) that by (simp add: filter_empty_conv)
    then show ?thesis using groups_map_of [of A facts k'] by simp
  qed
  ultimately have "k' \<in> set (map fst ?m) \<longleftrightarrow> k' = k" for k' by (metis list.set_map map_of_eq_None_iff)
  then have "set (map fst ?m) = {k}" by blast
  moreover have "distinct (map fst ?m)" using groups_map_of by blast
  ultimately have "length (map fst ?m) = card {k}" by (metis distinct_card)
  then have "length ?m = 1" by simp
  then show ?thesis by (cases ?m) (auto simp: canonicalFactGroups_def)
qed

lemma selected_cases:
  fixes facts :: "'f list" and A :: "('f, 'k, 'c) CanonicalLaneInventoryAdapter"
  assumes "canonicalizeLaneFacts facts A = FactSelected x superseded"
  shows "selectCanonicalFact (filter (sup_isOperationUsable (ad_supersession A)) facts) (ad_supersession A) = Inr x"
    and "superseded = filter (\<lambda>f. f \<noteq> x) facts"
proof -
  let ?groups = "canonicalFactGroups facts A"
  from assms have "length ?groups = 1"
      and run: "canonicalizeSingleLaneFactGroup (hd ?groups) (ad_supersession A) = (FactSelected x superseded :: ('f, 'c) CanonicalLaneSelection)"
    by (auto simp: canonicalizeLaneFacts_def Let_def split: if_splits)
  then have "grp_facts (hd ?groups) = facts"
    by (cases ?groups) (auto intro: only_group)
  with run show "selectCanonicalFact (filter (sup_isOperationUsable (ad_supersession A)) facts) (ad_supersession A) = Inr x"
      "superseded = filter (\<lambda>f. f \<noteq> x) facts"
    by (auto simp: canonicalizeSingleLaneFactGroup_def Let_def split: if_splits sum.splits)
qed

context supersession
begin

lemma canonical_order_free:
  assumes "ad_supersession A = S" "mset facts = mset facts'"
    and "canonicalizeLaneFacts facts A = FactSelected x superseded"
    and "canonicalizeLaneFacts facts' A = FactSelected y superseded'"
  shows "x = y \<and> mset superseded = mset superseded'"
proof -
  have "set facts = set facts'" using assms(2) by (rule mset_eq_setD)
  then have "set (filter (sup_isOperationUsable S) facts) = set (filter (sup_isOperationUsable S) facts')" by simp
  then have "x = y" using selected_unique selected_cases(1) assms(1, 3, 4) by metis
  with selected_cases(2) [OF assms(3)] selected_cases(2) [OF assms(4)] assms(2) show ?thesis by simp
qed

lemma canonical_selects_greatest:
  assumes "ad_supersession A = S" "canonicalizeLaneFacts facts A = FactSelected x superseded"
  shows "x \<in> set facts" "sup_isOperationUsable S x"
    "y \<in> set facts \<Longrightarrow> sup_isOperationUsable S y \<Longrightarrow> y \<noteq> x \<Longrightarrow> fact_order S x y = Greater"
  using selected_member [OF selected_cases(1) [OF assms(2), unfolded assms(1)]] by auto

end

section \<open>Generations are ordered as numbers\<close>

lemma digit_less: "is_digit c \<Longrightarrow> is_digit d \<Longrightarrow> c < d \<longleftrightarrow> digit_val c < digit_val d"
  by (auto simp: is_digit_def digit_val_def less_char_def)

lemma digit_eq: "is_digit c \<Longrightarrow> is_digit d \<Longrightarrow> c = d \<longleftrightarrow> digit_val c = digit_val d"
  by (metis digit_less less_irrefl linorder_neqE)

lemma digits_val_Cons: "digits_val (c # s) = digit_val c * 10 ^ length s + digits_val s"
proof (induction s rule: rev_induct)
  case (snoc d s)
  have "digits_val (c # s @ [d]) = digits_val (c # s) * 10 + digit_val d"
    using digits_val_append_one [of "c # s" d] by simp
  with snoc show ?case by (simp add: digits_val_append_one algebra_simps)
qed (simp add: digits_val_def)

lemma digits_val_bound: "list_all is_digit s \<Longrightarrow> digits_val s < 10 ^ length s"
proof (induction s)
  case (Cons c s)
  then have "digit_val c \<le> 9" "digits_val s < 10 ^ length s" by (auto simp: is_digit_def digit_val_def)
  then have "digit_val c * 10 ^ length s + digits_val s < 9 * 10 ^ length s + 10 ^ length s"
    by (intro add_le_less_mono mult_le_mono1)
  then show ?case by (simp add: digits_val_Cons)
qed (simp add: digits_val_def)

lemma digit_strings_less:
  assumes "length s = length t" "list_all is_digit s" "list_all is_digit t"
  shows "s < t \<longleftrightarrow> digits_val s < digits_val t"
  using assms
proof (induction s t rule: list_induct2)
  case (Cons c s d t)
  have bounds: "digits_val s < 10 ^ length t" "digits_val t < 10 ^ length t"
    using Cons.prems Cons.hyps digits_val_bound [of s] digits_val_bound [of t] by simp_all
  have "s < t \<longleftrightarrow> digits_val s < digits_val t" "c < d \<longleftrightarrow> digit_val c < digit_val d" "c = d \<longleftrightarrow> digit_val c = digit_val d"
    using Cons by (simp_all add: digit_less digit_eq)
  moreover have "digit_val c < digit_val d \<Longrightarrow> digit_val c * 10 ^ length t + digits_val s < digit_val d * 10 ^ length t + digits_val t"
  proof -
    assume "digit_val c < digit_val d"
    then have "(digit_val c + 1) * 10 ^ length t \<le> digit_val d * 10 ^ length t" by (intro mult_le_mono1) simp
    with bounds show ?thesis by simp
  qed
  moreover have "digit_val d < digit_val c \<Longrightarrow> digit_val d * 10 ^ length t + digits_val t < digit_val c * 10 ^ length t + digits_val s"
  proof -
    assume "digit_val d < digit_val c"
    then have "(digit_val d + 1) * 10 ^ length t \<le> digit_val c * 10 ^ length t" by (intro mult_le_mono1) simp
    with bounds show ?thesis by simp
  qed
  ultimately show ?case using Cons.hyps by (auto simp: digits_val_Cons dest: nat_neq_iff [THEN iffD1])
qed (simp add: digits_val_def)

lemma nat_str_length: "n < 10 ^ k \<Longrightarrow> 0 < k \<Longrightarrow> length (nat_str n) \<le> k"
proof (induction n arbitrary: k rule: nat_str.induct)
  case (1 n)
  show ?case
  proof (cases "n < 10")
    case True
    with 1 show ?thesis by (subst nat_str.simps) simp
  next
    case False
    with "1.prems" have "1 < k" by (cases k) (auto simp: less_Suc_eq)
    then obtain j where j: "k = Suc j" "0 < j" by (cases k) auto
    with "1.prems" have "n div 10 < 10 ^ j" by (simp add: less_mult_imp_div_less)
    with "1.IH" [OF False] j have "length (nat_str (n div 10)) \<le> j" by simp
    with False j show ?thesis by (subst nat_str.simps) simp
  qed
qed

lemma pad_start_digits:
  "list_all is_digit s \<Longrightarrow> list_all is_digit (pad_start n s)" "length s \<le> n \<Longrightarrow> length (pad_start n s) = n"
  "digits_val (pad_start n s) = digits_val s"
proof -
  show "length s \<le> n \<Longrightarrow> length (pad_start n s) = n" by (simp add: pad_start_def)
  show "list_all is_digit s \<Longrightarrow> list_all is_digit (pad_start n s)" by (auto simp: pad_start_def list_all_iff is_digit_def)
  have "digits_val (replicate k (CHR ''0'') @ s) = digits_val s" for k
    by (induction k) (simp_all add: digits_val_Cons digit_val_def)
  then show "digits_val (pad_start n s) = digits_val s" by (simp add: pad_start_def)
qed

lemma padded_less:
  assumes "0 < m" "m < 10 ^ 20" "0 < n" "n < 10 ^ 20"
  shows "pad_start 20 (int_str m) < pad_start 20 (int_str n) \<longleftrightarrow> m < n"
proof -
  have "list_all is_digit (pad_start 20 (int_str i)) \<and> length (pad_start 20 (int_str i)) = 20 \<and>
      digits_val (pad_start 20 (int_str i)) = nat i" if "0 < i" "i < 10 ^ 20" for i
  proof -
    have "length (nat_str (nat i)) \<le> 20" using that by (intro nat_str_length) (simp_all add: nat_less_iff)
    with that show ?thesis by (simp add: pad_start_digits int_str_def)
  qed
  with assms show ?thesis by (simp add: digit_strings_less)
qed

text \<open>
  C28: The inventory compares generations as strings of code units, and this compares the numbers they were made
  from: for numbers below ten to the twentieth, which includes every time in milliseconds, the padded
  strings are ordered as the numbers are.
\<close>

theorem generations_ordered_as_numbers:
  assumes "0 < m" "m < 10 ^ 20" "0 < n" "n < 10 ^ 20"
  shows "\<exists>g h. serverIssuedGenerationFromNumber (Some m) = Some g \<and> serverIssuedGenerationFromNumber (Some n) = Some h \<and>
    (g < h) = (m < n) \<and> (g = h) = (m = n)"
proof -
  have "(pad_start 20 (int_str m) = pad_start 20 (int_str n)) = (m = n)"
    using padded_less [OF assms] padded_less [OF assms(3, 4, 1, 2)] by (metis less_irrefl neq_iff)
  with assms padded_less [OF assms] show ?thesis by (simp add: serverIssuedGenerationFromNumber_def)
qed

theorem generations_ordered_as_numbers_witness:
  "\<exists>g h. serverIssuedGenerationFromNumber (Some 999) = Some g \<and> serverIssuedGenerationFromNumber (Some 1000) = Some h \<and> g < h"
  using generations_ordered_as_numbers [of 999 1000] by auto

end
