(* ===== verification/NearSigningLanes.thy ===== *)
theory NearSigningLanes
  imports SigningSessionPlanner NearReadiness LaneInventory
begin

text \<open>
  The NEAR signing lanes of a wallet (\<open>session/availability/availableSigningLanes.ts\<close>, the Ed25519 part): sealed
  records and public references become lanes, authorized by the active wallet session when it is
  theirs; lanes of other owners are left out, exact duplicates collapsed, and for every signer the
  canonical inventory keeps one lane.
\<close>

declare jfield.simps [simp del]

section \<open>Lanes and authorizations\<close>

text \<open>\<open>ExactNearEd25519WalletSessionAuthorization\<close> with the fields that are read here.\<close>

datatype SelectedAuthMethod =
    PasskeyAuthRecord (am_rpId: string) (am_credentialIdB64u: string)
  | EmailOtpAuthRecord
  | VoiceIdAuthRecord (am_walletAuthMethodId: string) (am_deviceKeyId: string)

fun auth_record_kind :: "SelectedAuthMethod \<Rightarrow> SignerAuthMethod" where
  "auth_record_kind (PasskeyAuthRecord _ _) = PasskeyMethod"
| "auth_record_kind EmailOtpAuthRecord = EmailOtpMethod"
| "auth_record_kind (VoiceIdAuthRecord _ _) = VoiceIdMethod"

datatype FactorAuthority = EmailOtpFactor string | OtherFactor string

record CapabilitySubject =
  cs_kind :: string
  cs_keyFamily :: string
  cs_materialActivation :: MpcMaterialActivationRef

record NearSessionAuthorization =
  na_authMethod :: SelectedAuthMethod
  na_factor :: FactorAuthority
  na_walletId :: string
  na_quotaId :: string
  na_capabilitySubjects :: "CapabilitySubject list"
  na_walletSessionId :: string
  na_remainingUses :: int
  na_expiresAtMs :: int

definition nearEd25519SessionMatchesMaterialActivation :: "NearSessionAuthorization \<Rightarrow> MpcMaterialActivationRef \<Rightarrow> bool" where
  "nearEd25519SessionMatchesMaterialActivation authorization activation \<longleftrightarrow>
     length (filter (\<lambda>subject. cs_kind subject = ''sign'' \<and> cs_keyFamily subject = ''ed25519'' \<and>
       mpcMaterialActivationRefsEqual (cs_materialActivation subject) activation) (na_capabilitySubjects authorization)) = 1"

datatype AvailableSigningLaneState = LaneReady | LaneRestorable | LaneDeferred | LaneExpired | LaneExhausted

datatype NearLaneSource = DurableSealedRecord | PublicCapabilityReference

text \<open>A lane is in the state \<open>authorized\<close> exactly when it has an authorization.\<close>

record NearLane =
  nl_auth :: SigningLaneAuthBinding
  nl_materialActivation :: MpcMaterialActivationRef
  nl_walletId :: string
  nl_nearAccountId :: string
  nl_nearEd25519SigningKeyId :: string
  nl_signerSlot :: int
  nl_thresholdSessionId :: string
  nl_authorization :: "NearSessionAuthorization option"
  nl_state :: AvailableSigningLaneState
  nl_remainingUses :: "int option"
  nl_expiresAtMs :: "int option"
  nl_policyHint :: "(int option \<times> int option) option"
  nl_updatedAtMs :: "int option"
  nl_source :: "NearLaneSource option"

datatype AvailableEd25519SigningLane = MissingNearLane | AvailableNearLane NearLane

section \<open>Which lanes are concrete\<close>

definition isConcreteNearLane :: "int \<Rightarrow> NearLane \<Rightarrow> bool" where
  "isConcreteNearLane nowMs lane \<longleftrightarrow>
     nl_thresholdSessionId lane = js_trim (nl_thresholdSessionId lane) \<and> js_trim (nl_thresholdSessionId lane) \<noteq> [] \<and>
     (case nl_authorization lane of
        None \<Rightarrow> nl_state lane = LaneDeferred
      | Some a \<Rightarrow> na_walletSessionId a \<noteq> [] \<and> na_quotaId a \<noteq> [] \<and> na_remainingUses a > 0 \<and> na_expiresAtMs a > nowMs)"

fun isConcreteAvailableSigningLane :: "int \<Rightarrow> AvailableEd25519SigningLane \<Rightarrow> bool" where
  "isConcreteAvailableSigningLane nowMs MissingNearLane = False"
| "isConcreteAvailableSigningLane nowMs (AvailableNearLane lane) = isConcreteNearLane nowMs lane"

section \<open>Keys\<close>

text \<open>\<open>encodeURIComponent\<close>: unreserved characters stay, the others become the bytes of their UTF-8 encoding.\<close>

definition hex_digit_upper :: "nat \<Rightarrow> char" where
  "hex_digit_upper d = (if d < 10 then char_of (48 + d) else char_of (55 + d))"

definition percent_byte :: "nat \<Rightarrow> string" where
  "percent_byte n = [CHR ''%'', hex_digit_upper (n div 16), hex_digit_upper (n mod 16)]"

definition uri_unreserved :: "char \<Rightarrow> bool" where
  "uri_unreserved c \<longleftrightarrow>
     (let n = (of_char c :: nat) in is_digit c \<or> (65 \<le> n \<and> n \<le> 90) \<or> (97 \<le> n \<and> n \<le> 122) \<or>
        n \<in> {45, 95, 46, 33, 126, 42, 39, 40, 41})"

definition encode_uri_char :: "char \<Rightarrow> string" where
  "encode_uri_char c =
     (let n = (of_char c :: nat) in
      if uri_unreserved c then [c]
      else if n < 128 then percent_byte n
      else percent_byte (192 + n div 64) @ percent_byte (128 + n mod 64))"

definition encodeURIComponent :: "string \<Rightarrow> string" where
  "encodeURIComponent s = concat (map encode_uri_char s)"

definition materialActivationKey :: "MpcMaterialActivationRef \<Rightarrow> string" where
  "materialActivationKey activation =
     join_with '':'' (map encodeURIComponent
       [ma_activationId activation, ma_capability activation, ma_materialOwner activation, ma_keyBinding activation,
        ma_lifecycleBinding activation, ma_signingWorker activation])"

definition requireSigningLaneAuthKeyPart :: "string \<Rightarrow> string \<Rightarrow> js_error + string" where
  "requireSigningLaneAuthKeyPart value label =
     (let normalized = js_trim value in
      if normalized = [] then Inl (new_Error (''[SigningSession] '' @ label @ '' is required for signing lane authority''))
      else Inr normalized)"

fun signingLaneAuthBindingKey :: "SigningLaneAuthBinding \<Rightarrow> js_error + string" where
  "signingLaneAuthBindingKey (VoiceIdBinding m d) = Inr (join_with '':'' [''voiceid'', m, d])"
| "signingLaneAuthBindingKey (PasskeyBinding rp credential) =
     ebind (requireSigningLaneAuthKeyPart rp ''passkey rpId'') (\<lambda>r.
     ebind (requireSigningLaneAuthKeyPart credential ''passkey credential'') (\<lambda>c.
       Inr (join_with '':'' [''passkey'', r, c])))"
| "signingLaneAuthBindingKey (EmailOtpBinding subject) =
     ebind (requireSigningLaneAuthKeyPart subject ''Email OTP provider subject'') (\<lambda>s. Inr (join_with '':'' [''email_otp'', s]))"

fun auth_method_str :: "SignerAuthMethod \<Rightarrow> string" where
  "auth_method_str PasskeyMethod = ''passkey''"
| "auth_method_str EmailOtpMethod = ''email_otp''"
| "auth_method_str VoiceIdMethod = ''voiceid''"

text \<open>\<open>String(slot || '')\<close>.\<close>

definition slot_str :: "int \<Rightarrow> string" where
  "slot_str signer = (if signer = 0 then [] else int_str signer)"

definition ed25519AvailableLaneIdentityKey :: "AvailableEd25519SigningLane \<Rightarrow> string option" where
  "ed25519AvailableLaneIdentityKey l =
     (case l of
        MissingNearLane \<Rightarrow> None
      | AvailableNearLane lane \<Rightarrow>
          (let walletId = js_trim (nl_walletId lane); account = js_trim (nl_nearAccountId lane);
               keyId = js_trim (nl_nearEd25519SigningKeyId lane); signer = slot_str (nl_signerSlot lane);
               session = js_trim (nl_thresholdSessionId lane); activation = materialActivationKey (nl_materialActivation lane) in
           if walletId = [] \<or> account = [] \<or> keyId = [] \<or> signer = [] \<or> session = [] \<or> activation = [] then None
           else Some (join_with '':'' [walletId, account, keyId, signer, auth_method_str (signingLaneAuthMethod (nl_auth lane)),
                        ''ed25519'', ''near'', session, activation])))"

record Ed25519LaneGroupKey =
  gk_walletId :: string
  gk_authKey :: string
  gk_nearAccountId :: string
  gk_nearEd25519SigningKeyId :: string
  gk_signerSlot :: string
  gk_materialActivationKey :: string

definition ed25519LaneGroupKey :: "NearLane \<Rightarrow> js_error + Ed25519LaneGroupKey option" where
  "ed25519LaneGroupKey lane =
     ebind (signingLaneAuthBindingKey (nl_auth lane)) (\<lambda>authKey.
       let walletId = js_trim (nl_walletId lane); account = js_trim (nl_nearAccountId lane);
           keyId = js_trim (nl_nearEd25519SigningKeyId lane); signer = slot_str (nl_signerSlot lane);
           activation = materialActivationKey (nl_materialActivation lane) in
       Inr (if authKey = [] \<or> walletId = [] \<or> account = [] \<or> keyId = [] \<or> signer = [] \<or> activation = [] then None
            else Some \<lparr>gk_walletId = walletId, gk_authKey = authKey, gk_nearAccountId = account,
                       gk_nearEd25519SigningKeyId = keyId, gk_signerSlot = signer, gk_materialActivationKey = activation\<rparr>))"

definition group_key_parts :: "Ed25519LaneGroupKey \<Rightarrow> string list" where
  "group_key_parts k = [gk_walletId k, gk_authKey k, gk_nearAccountId k, gk_nearEd25519SigningKeyId k, gk_signerSlot k,
     gk_materialActivationKey k]"

definition ed25519LaneGroupKeyString :: "Ed25519LaneGroupKey \<Rightarrow> string" where
  "ed25519LaneGroupKeyString k = join_with ''|'' (map encodeURIComponent (group_key_parts k))"

section \<open>Priorities\<close>

fun lane_state_priority :: "AvailableSigningLaneState \<Rightarrow> int" where
  "lane_state_priority LaneReady = 5"
| "lane_state_priority LaneRestorable = 4"
| "lane_state_priority LaneDeferred = 3"
| "lane_state_priority LaneExpired = 2"
| "lane_state_priority LaneExhausted = 2"

fun availableLaneStatePriority :: "AvailableEd25519SigningLane \<Rightarrow> int" where
  "availableLaneStatePriority MissingNearLane = 1"
| "availableLaneStatePriority (AvailableNearLane lane) = lane_state_priority (nl_state lane)"

definition near_source_priority :: "int \<Rightarrow> NearLane \<Rightarrow> int" where
  "near_source_priority nowMs lane =
     (if isConcreteNearLane nowMs lane \<and> nl_source lane = Some DurableSealedRecord then 1 else 0)"

fun availableLaneSourcePriority :: "int \<Rightarrow> AvailableEd25519SigningLane \<Rightarrow> int" where
  "availableLaneSourcePriority nowMs MissingNearLane = 0"
| "availableLaneSourcePriority nowMs (AvailableNearLane lane) = near_source_priority nowMs lane"

fun availableLaneUpdatedAtMs :: "AvailableEd25519SigningLane \<Rightarrow> int" where
  "availableLaneUpdatedAtMs MissingNearLane = 0"
| "availableLaneUpdatedAtMs (AvailableNearLane lane) = floor_or_zero (nl_updatedAtMs lane)"

definition compareAvailableLanePriority :: "int \<Rightarrow> AvailableEd25519SigningLane \<Rightarrow> AvailableEd25519SigningLane \<Rightarrow> int" where
  "compareAvailableLanePriority nowMs left right =
     (let stateDelta = availableLaneStatePriority left - availableLaneStatePriority right;
          sourceDelta = availableLaneSourcePriority nowMs left - availableLaneSourcePriority nowMs right in
      if stateDelta \<noteq> 0 then stateDelta
      else if sourceDelta \<noteq> 0 then sourceDelta
      else availableLaneUpdatedAtMs left - availableLaneUpdatedAtMs right)"

text \<open>\<open>Array.prototype.sort\<close> with a consistent comparison: the stable sort.\<close>

fun js_insert :: "('a \<Rightarrow> 'a \<Rightarrow> int) \<Rightarrow> 'a \<Rightarrow> 'a list \<Rightarrow> 'a list" where
  "js_insert cmp x [] = [x]"
| "js_insert cmp x (y # ys) = (if cmp x y \<le> 0 then x # y # ys else y # js_insert cmp x ys)"

definition js_sort :: "('a \<Rightarrow> 'a \<Rightarrow> int) \<Rightarrow> 'a list \<Rightarrow> 'a list" where
  "js_sort cmp xs = foldr (js_insert cmp) xs []"

lemma mset_js_sort [simp]: "mset (js_sort cmp xs) = mset xs"
proof -
  have "mset (js_insert cmp x ys) = add_mset x (mset ys)" for x ys by (induction ys) auto
  then show ?thesis by (induction xs) (simp_all add: js_sort_def)
qed

lemma set_js_sort [simp]: "set (js_sort cmp xs) = set xs"
  by (metis mset_js_sort set_mset_mset)

lemma js_sort_Nil [simp]: "js_sort cmp xs = [] \<longleftrightarrow> xs = []"
  by (metis mset_js_sort mset_zero_iff)

section \<open>The canonical inventory of NEAR lanes\<close>

record Ed25519LaneRecordFact =
  ft_groupKey :: Ed25519LaneGroupKey
  ft_lane :: NearLane

definition ed25519LaneRecordFact :: "int \<Rightarrow> AvailableEd25519SigningLane \<Rightarrow> js_error + Ed25519LaneRecordFact option" where
  "ed25519LaneRecordFact nowMs l =
     (case l of
        AvailableNearLane lane \<Rightarrow>
          if isConcreteNearLane nowMs lane
          then ebind (ed25519LaneGroupKey lane) (\<lambda>k. Inr (map_option (\<lambda>g. \<lparr>ft_groupKey = g, ft_lane = lane\<rparr>) k))
          else Inr None
      | MissingNearLane \<Rightarrow> Inr None)"

definition availableLaneServerIssuedGeneration :: "NearLane \<Rightarrow> string option" where
  "availableLaneServerIssuedGeneration lane =
     serverIssuedGenerationFromNumber
       (case nl_expiresAtMs lane of Some e \<Rightarrow> Some e | None \<Rightarrow> Option.bind (nl_policyHint lane) snd)"

definition canonicalTieBreakFromNumber :: "int \<Rightarrow> int \<Rightarrow> comp" where
  "canonicalTieBreakFromNumber left right = (if left > right then Greater else if right > left then Less else Equiv)"

text \<open>\<open>localeCompare\<close> is a comparator, the argument \<open>collation\<close>.\<close>

definition canonicalTieBreakFromString :: "string comparator \<Rightarrow> string \<Rightarrow> string \<Rightarrow> comp" where
  "canonicalTieBreakFromString collation left right = compare collation left right"

fun firstCanonicalTieBreakResult :: "comp list \<Rightarrow> comp" where
  "firstCanonicalTieBreakResult [] = Equiv"
| "firstCanonicalTieBreakResult (r # rs) = (if r \<noteq> Equiv then r else firstCanonicalTieBreakResult rs)"

fun source_str :: "NearLaneSource option \<Rightarrow> string" where
  "source_str (Some PublicCapabilityReference) = ''public_capability_reference''"
| "source_str _ = ''durable_sealed_record''"

definition ed25519CanonicalStableTieBreakKey :: "NearLane \<Rightarrow> string" where
  "ed25519CanonicalStableTieBreakKey lane =
     join_with ''|'' [nl_thresholdSessionId lane,
       (case nl_authorization lane of None \<Rightarrow> [] | Some a \<Rightarrow> na_walletSessionId a),
       (case nl_authorization lane of None \<Rightarrow> [] | Some a \<Rightarrow> na_quotaId a), source_str (nl_source lane)]"

definition ed25519CanonicalTieBreak :: "string comparator \<Rightarrow> int \<Rightarrow> Ed25519LaneRecordFact \<Rightarrow> Ed25519LaneRecordFact \<Rightarrow> comp" where
  "ed25519CanonicalTieBreak collation nowMs left right =
     firstCanonicalTieBreakResult
       [canonicalTieBreakFromNumber (lane_state_priority (nl_state (ft_lane left))) (lane_state_priority (nl_state (ft_lane right))),
        canonicalTieBreakFromNumber (near_source_priority nowMs (ft_lane left)) (near_source_priority nowMs (ft_lane right)),
        canonicalTieBreakFromString collation (ed25519CanonicalStableTieBreakKey (ft_lane left))
          (ed25519CanonicalStableTieBreakKey (ft_lane right))]"

definition ed25519CanonicalSupersession :: "string comparator \<Rightarrow> int \<Rightarrow> Ed25519LaneRecordFact CanonicalFactSupersession" where
  "ed25519CanonicalSupersession collation nowMs =
     \<lparr>sup_isOperationUsable = (\<lambda>_. True), sup_generation = (\<lambda>f. availableLaneServerIssuedGeneration (ft_lane f)),
      sup_exactness = (\<lambda>_. ExactTarget), sup_tieBreak = ed25519CanonicalTieBreak collation nowMs\<rparr>"

text \<open>Ed25519 lanes never conflict: \<open>Ed25519LaneConflict\<close> is \<open>never\<close>.\<close>

definition ed25519CanonicalLaneInventoryAdapter ::
  "string comparator \<Rightarrow> int \<Rightarrow> (Ed25519LaneRecordFact, Ed25519LaneGroupKey, unit) CanonicalLaneInventoryAdapter" where
  "ed25519CanonicalLaneInventoryAdapter collation nowMs =
     \<lparr>ad_groupKey = ft_groupKey, ad_groupKeyString = ed25519LaneGroupKeyString, ad_groupConflicts = (\<lambda>_. []),
      ad_supersession = ed25519CanonicalSupersession collation nowMs\<rparr>"

definition addToFactGroup ::
  "Ed25519LaneRecordFact \<Rightarrow> (string, Ed25519LaneRecordFact list) jsmap \<Rightarrow> (string, Ed25519LaneRecordFact list) jsmap" where
  "addToFactGroup f groups =
     (let k = ed25519LaneGroupKeyString (ft_groupKey f) in
      AList.update k ((case map_of groups k of None \<Rightarrow> [] | Some fs \<Rightarrow> fs) @ [f]) groups)"

definition ed25519FactsByGroup :: "Ed25519LaneRecordFact list \<Rightarrow> (string, Ed25519LaneRecordFact list) jsmap" where
  "ed25519FactsByGroup facts = fold addToFactGroup facts []"

datatype InvalidLaneReason = InvalidConflictingKeyMaterial | InvalidAmbiguousMaterial

definition canonicalizeEd25519FactGroup ::
  "string comparator \<Rightarrow> int \<Rightarrow> Ed25519LaneRecordFact list \<Rightarrow> NearLane list \<times> InvalidLaneReason list" where
  "canonicalizeEd25519FactGroup collation nowMs facts =
     (case canonicalizeLaneFacts facts (ed25519CanonicalLaneInventoryAdapter collation nowMs) of
        FactSelected f _ \<Rightarrow> ([ft_lane f], [])
      | NoCurrentLane _ \<Rightarrow> ([], [])
      | ConflictingKeyMaterial _ \<Rightarrow> ([], [InvalidConflictingKeyMaterial])
      | AmbiguousMaterial _ \<Rightarrow> ([], [InvalidAmbiguousMaterial]))"

fun emapM :: "('a \<Rightarrow> 'e + 'b) \<Rightarrow> 'a list \<Rightarrow> 'e + 'b list" where
  "emapM f [] = Inr []"
| "emapM f (x # xs) = ebind (f x) (\<lambda>y. ebind (emapM f xs) (\<lambda>ys. Inr (y # ys)))"

definition canonicalizeEd25519AvailableLanes ::
  "string comparator \<Rightarrow> int \<Rightarrow> AvailableEd25519SigningLane list \<Rightarrow>
   js_error + (AvailableEd25519SigningLane list \<times> InvalidLaneReason list)" where
  "canonicalizeEd25519AvailableLanes collation nowMs candidates =
     ebind (emapM (ed25519LaneRecordFact nowMs) candidates) (\<lambda>entries.
       let groups = map snd (ed25519FactsByGroup (List.map_filter id entries));
           results = map (canonicalizeEd25519FactGroup collation nowMs) groups in
       Inr (js_sort (\<lambda>left right. compareAvailableLanePriority nowMs right left)
              (map AvailableNearLane (concat (map fst results))),
            concat (map snd results)))"

section \<open>Duplicates\<close>

definition addToLaneGroup :: "string \<Rightarrow> 'l \<Rightarrow> (string, 'l list) jsmap \<Rightarrow> (string, 'l list) jsmap" where
  "addToLaneGroup k lane groups =
     AList.update k ((case map_of groups k of None \<Rightarrow> [] | Some ls \<Rightarrow> ls) @ [lane]) groups"

fun collect_lanes :: "('l \<Rightarrow> string option) \<Rightarrow> 'l list \<Rightarrow> (string, 'l list) jsmap \<times> 'l list \<Rightarrow> (string, 'l list) jsmap \<times> 'l list" where
  "collect_lanes identityKey [] acc = acc"
| "collect_lanes identityKey (lane # rest) (keyed, unkeyed) =
     collect_lanes identityKey rest
       (case identityKey lane of
          Some k \<Rightarrow> if k = [] then (keyed, unkeyed @ [lane]) else (addToLaneGroup k lane keyed, unkeyed)
        | None \<Rightarrow> (keyed, unkeyed @ [lane]))"

definition collapseExactDuplicateAvailableLanes ::
  "'l list \<Rightarrow> ('l \<Rightarrow> string option) \<Rightarrow> ('l \<Rightarrow> 'l \<Rightarrow> int) \<Rightarrow> 'l list" where
  "collapseExactDuplicateAvailableLanes lanes identityKey comparePriority =
     (case collect_lanes identityKey lanes ([], []) of
        (keyed, unkeyed) \<Rightarrow>
          map (\<lambda>(_, g). hd (js_sort (\<lambda>left right. comparePriority right left) g)) keyed @ unkeyed)"

text \<open>\<open>suppressPublicEd25519CandidatesWithDurablePolicy\<close>.\<close>

definition lane_group_string :: "NearLane \<Rightarrow> js_error + string option" where
  "lane_group_string lane = ebind (ed25519LaneGroupKey lane) (\<lambda>k. Inr (map_option ed25519LaneGroupKeyString k))"

definition durable_lanes :: "int \<Rightarrow> AvailableEd25519SigningLane list \<Rightarrow> NearLane list" where
  "durable_lanes nowMs candidates =
     List.map_filter (\<lambda>l. case l of
         AvailableNearLane lane \<Rightarrow>
           if isConcreteNearLane nowMs lane \<and> nl_source lane = Some DurableSealedRecord \<and> nl_state lane \<in> {LaneReady, LaneRestorable}
           then Some lane else None
       | MissingNearLane \<Rightarrow> None) candidates"

definition keep_candidate :: "int \<Rightarrow> string list \<Rightarrow> AvailableEd25519SigningLane \<Rightarrow> js_error + bool" where
  "keep_candidate nowMs durableKeys l =
     (case l of
        MissingNearLane \<Rightarrow> Inr True
      | AvailableNearLane lane \<Rightarrow>
          if \<not> isConcreteNearLane nowMs lane \<or> nl_source lane \<noteq> Some PublicCapabilityReference then Inr True
          else ebind (lane_group_string lane) (\<lambda>k. Inr (case k of None \<Rightarrow> True | Some g \<Rightarrow> g \<notin> set durableKeys)))"

definition suppressPublicEd25519CandidatesWithDurablePolicy ::
  "int \<Rightarrow> AvailableEd25519SigningLane list \<Rightarrow> js_error + AvailableEd25519SigningLane list" where
  "suppressPublicEd25519CandidatesWithDurablePolicy nowMs candidates =
     ebind (emapM lane_group_string (durable_lanes nowMs candidates)) (\<lambda>keys.
       let durableKeys = List.map_filter id keys in
       if durableKeys = [] then Inr candidates
       else ebind (emapM (keep_candidate nowMs durableKeys) candidates) (\<lambda>keeps.
              Inr (map fst (filter snd (zip candidates keeps)))))"

section \<open>From stored records to lanes\<close>

text \<open>The scope of an owner: a passkey owner has a signer slot or is limited to ECDSA, the others name an authority.\<close>

record OwnerLaneScope =
  os_auth :: SigningLaneAuthBinding
  os_signerSlot :: "int option"
  os_ecdsaOnly :: bool
  os_ownerAuthority :: "(string \<times> string) option"

fun factor_matches :: "NearSessionAuthorization \<Rightarrow> SigningLaneAuthBinding \<Rightarrow> bool" where
  "factor_matches a (PasskeyBinding rp credential) = (na_authMethod a = PasskeyAuthRecord rp credential)"
| "factor_matches a (EmailOtpBinding subject) = (na_authMethod a = EmailOtpAuthRecord \<and> na_factor a = EmailOtpFactor subject)"
| "factor_matches a (VoiceIdBinding m d) = (na_authMethod a = VoiceIdAuthRecord m d)"

definition activeAuthorizationMatchesEd25519Lane ::
  "NearSessionAuthorization \<Rightarrow> SigningLaneAuthBinding \<Rightarrow> string \<Rightarrow> MpcMaterialActivationRef \<Rightarrow> OwnerLaneScope option \<Rightarrow> js_error + bool" where
  "activeAuthorizationMatchesEd25519Lane a auth wallet activation scope =
     (if na_walletId a \<noteq> wallet \<or> auth_record_kind (na_authMethod a) \<noteq> signingLaneAuthMethod auth \<or>
         na_walletSessionId a = [] \<or> na_quotaId a = [] \<or> \<not> nearEd25519SessionMatchesMaterialActivation a activation \<or>
         \<not> factor_matches a auth
      then Inr False
      else case scope of
          None \<Rightarrow> Inr False
        | Some s \<Rightarrow>
            ebind (signingLaneAuthBindingKey auth) (\<lambda>k.
            ebind (signingLaneAuthBindingKey (os_auth s)) (\<lambda>k'. Inr (k = k'))))"

definition matching_authorization ::
  "NearSessionAuthorization option \<Rightarrow> SigningLaneAuthBinding \<Rightarrow> string \<Rightarrow> MpcMaterialActivationRef \<Rightarrow> OwnerLaneScope option \<Rightarrow>
   js_error + NearSessionAuthorization option" where
  "matching_authorization active auth wallet activation scope =
     (case active of
        None \<Rightarrow> Inr None
      | Some a \<Rightarrow>
          ebind (activeAuthorizationMatchesEd25519Lane a auth wallet activation scope) (\<lambda>ok. Inr (if ok then Some a else None)))"

record Ed25519SealedRecord =
  sr_authMethod :: SignerAuthMethod
  sr_thresholdSessionId :: string
  sr_walletId :: string
  sr_signerSlot :: int
  sr_rpId :: string
  sr_credentialIdB64u :: string
  sr_providerSubjectId :: string
  sr_materialActivation :: MpcMaterialActivationRef
  sr_nearAccountId :: string
  sr_nearEd25519SigningKeyId :: string
  sr_expiresAtMs :: int
  sr_remainingUses :: int
  sr_updatedAtMs :: int

definition durableEd25519AuthBinding :: "Ed25519SealedRecord \<Rightarrow> SigningLaneAuthBinding option" where
  "durableEd25519AuthBinding r =
     (if sr_authMethod r = PasskeyMethod
      then (if sr_credentialIdB64u r = [] \<or> js_trim (sr_rpId r) = [] then None
            else Some (PasskeyBinding (js_trim (sr_rpId r)) (sr_credentialIdB64u r)))
      else if sr_providerSubjectId r = [] then None else Some (EmailOtpBinding (sr_providerSubjectId r)))"

definition durablePolicyHint :: "int \<Rightarrow> int \<Rightarrow> (int option \<times> int option) option" where
  "durablePolicyHint uses expiry =
     (if uses < 0 \<and> expiry \<le> 0 then None
      else Some (if uses \<ge> 0 then Some uses else None, if expiry > 0 then Some expiry else None))"

definition parseSignerSlot :: "int \<Rightarrow> int option" where
  "parseSignerSlot n = (if \<not> safe_integer n \<or> n < 1 then None else Some n)"

definition stored_lane_state :: "int \<Rightarrow> int \<Rightarrow> int \<Rightarrow> AvailableSigningLaneState" where
  "stored_lane_state nowMs expiry uses =
     (if expiry > 0 \<and> expiry \<le> nowMs then LaneExpired else if uses = 0 then LaneExhausted else LaneRestorable)"

text \<open>An id the parsers refuse ends in the \<open>catch\<close>, which drops the record.\<close>

definition recordToEd25519Lane ::
  "int \<Rightarrow> Ed25519SealedRecord \<Rightarrow> NearSessionAuthorization option \<Rightarrow> OwnerLaneScope option \<Rightarrow> js_error + NearLane option" where
  "recordToEd25519Lane nowMs r active scope =
     (let session = js_trim (sr_thresholdSessionId r); walletId = js_trim (sr_walletId r); uses = max 0 (sr_remainingUses r) in
      case (parseSignerSlot (sr_signerSlot r), durableEd25519AuthBinding r) of
        (Some signer, Some auth) \<Rightarrow>
          if session = [] \<or> walletId = [] then Inr None
          else ebind (matching_authorization active auth walletId (sr_materialActivation r) scope) (\<lambda>authorization.
            case (toWalletId (JStr walletId), toAccountId (sr_nearAccountId r)) of
              (Inr w, Inr account) \<Rightarrow>
                if js_trim (sr_nearEd25519SigningKeyId r) = [] then Inr None
                else Inr (Some \<lparr>nl_auth = auth, nl_materialActivation = sr_materialActivation r, nl_walletId = w,
                  nl_nearAccountId = account, nl_nearEd25519SigningKeyId = js_trim (sr_nearEd25519SigningKeyId r),
                  nl_signerSlot = signer, nl_thresholdSessionId = session, nl_authorization = authorization,
                  nl_state = (if authorization = None then LaneDeferred else stored_lane_state nowMs (sr_expiresAtMs r) uses),
                  nl_remainingUses = Some uses,
                  nl_expiresAtMs = (if sr_expiresAtMs r > 0 then Some (sr_expiresAtMs r) else None),
                  nl_policyHint = durablePolicyHint (sr_remainingUses r) (sr_expiresAtMs r),
                  nl_updatedAtMs = Some (sr_updatedAtMs r), nl_source = Some DurableSealedRecord\<rparr>)
            | _ \<Rightarrow> Inr None)
      | _ \<Rightarrow> Inr None)"

record Ed25519PublicReference =
  pr_auth :: SigningLaneAuthBinding
  pr_walletId :: string
  pr_nearAccountId :: string
  pr_nearEd25519SigningKeyId :: string
  pr_signerSlot :: int
  pr_thresholdSessionId :: string
  pr_materialActivation :: MpcMaterialActivationRef
  pr_expiresAtMs :: int

definition publicCapabilityReferenceToEd25519Lane ::
  "int \<Rightarrow> Ed25519PublicReference \<Rightarrow> NearSessionAuthorization option \<Rightarrow> OwnerLaneScope option \<Rightarrow> js_error + NearLane option" where
  "publicCapabilityReferenceToEd25519Lane nowMs r active scope =
     (let walletId = js_trim (pr_walletId r); account = js_trim (pr_nearAccountId r); session = js_trim (pr_thresholdSessionId r) in
      if walletId = [] \<or> account = [] \<or> session = [] then Inr None
      else ebind (matching_authorization active (pr_auth r) walletId (pr_materialActivation r) scope) (\<lambda>authorization.
        case (toWalletId (JStr walletId), toAccountId account) of
          (Inr w, Inr a) \<Rightarrow>
            (let base = \<lparr>nl_auth = pr_auth r, nl_materialActivation = pr_materialActivation r, nl_walletId = w,
                   nl_nearAccountId = a, nl_nearEd25519SigningKeyId = pr_nearEd25519SigningKeyId r,
                   nl_signerSlot = pr_signerSlot r, nl_thresholdSessionId = session, nl_authorization = authorization,
                   nl_state = LaneDeferred, nl_remainingUses = None, nl_expiresAtMs = None, nl_policyHint = None,
                   nl_updatedAtMs = None, nl_source = Some PublicCapabilityReference\<rparr> in
             case authorization of
               None \<Rightarrow> Inr (Some base)
             | Some au \<Rightarrow>
                 (let expiresAtMs = (if signingLaneAuthMethod (pr_auth r) = EmailOtpMethod then min (pr_expiresAtMs r) (na_expiresAtMs au)
                                     else na_expiresAtMs au) in
                  Inr (Some (base\<lparr>nl_state := if expiresAtMs > 0 \<and> expiresAtMs \<le> nowMs then LaneExpired else LaneReady,
                    nl_remainingUses := Some (na_remainingUses au),
                    nl_expiresAtMs := if expiresAtMs > 0 then Some expiresAtMs else None\<rparr>))))
        | _ \<Rightarrow> Inr None))"

section \<open>Owners\<close>

text \<open>
  \<open>walletAuthAuthorityRef\<close> digests an authority with WebCrypto: the argument \<open>authorityRef\<close>, giving the wallet, the
  method and the digest, or \<^const>\<open>None\<close> when it throws.
\<close>

type_synonym authority_ref = "NearSessionAuthorization \<Rightarrow> (string \<times> string \<times> string) option"

definition ownerAuthorityMatchesEd25519Lane :: "authority_ref \<Rightarrow> NearLane \<Rightarrow> OwnerLaneScope \<Rightarrow> bool" where
  "ownerAuthorityMatchesEd25519Lane authorityRef lane scope =
     (case (if signingLaneAuthMethod (os_auth scope) = PasskeyMethod then None else os_ownerAuthority scope) of
        None \<Rightarrow> True
      | Some (methodId, digest) \<Rightarrow>
          (case nl_authorization lane of
             None \<Rightarrow> True
           | Some a \<Rightarrow> authorityRef a = Some (nl_walletId lane, methodId, digest)))"

definition ed25519LaneMatchesOwnerScope ::
  "authority_ref \<Rightarrow> OwnerLaneScope \<Rightarrow> NearLane \<Rightarrow> js_error + bool" where
  "ed25519LaneMatchesOwnerScope authorityRef scope lane =
     ebind (signingLaneAuthBindingKey (nl_auth lane)) (\<lambda>k.
     ebind (signingLaneAuthBindingKey (os_auth scope)) (\<lambda>k'.
       Inr (if k \<noteq> k' then False
            else if \<not> ownerAuthorityMatchesEd25519Lane authorityRef lane scope then False
            else if signingLaneAuthMethod (os_auth scope) \<noteq> PasskeyMethod then True
            else if os_ecdsaOnly scope then False
            else os_signerSlot scope = Some (nl_signerSlot lane))))"

definition filterEd25519LanesByOwnerScope ::
  "authority_ref \<Rightarrow> OwnerLaneScope \<Rightarrow> NearLane list \<Rightarrow> js_error + NearLane list" where
  "filterEd25519LanesByOwnerScope authorityRef scope lanes =
     ebind (emapM (ed25519LaneMatchesOwnerScope authorityRef scope) lanes) (\<lambda>keeps.
       Inr (map fst (filter snd (zip lanes keeps))))"

section \<open>The primary lane\<close>

definition ed25519CompanionIdentityKey :: "int \<Rightarrow> AvailableEd25519SigningLane \<Rightarrow> string option" where
  "ed25519CompanionIdentityKey nowMs l =
     (case l of
        AvailableNearLane lane \<Rightarrow>
          (case nl_authorization lane of
             Some a \<Rightarrow>
               if isConcreteNearLane nowMs lane \<and> js_trim (nl_thresholdSessionId lane) \<noteq> []
               then Some (join_with '':'' [na_walletSessionId a, na_quotaId a, js_trim (nl_thresholdSessionId lane)]) else None
           | None \<Rightarrow> None)
      | MissingNearLane \<Rightarrow> None)"

definition concrete_method :: "int \<Rightarrow> AvailableEd25519SigningLane \<Rightarrow> SignerAuthMethod option" where
  "concrete_method nowMs l =
     (case l of
        AvailableNearLane lane \<Rightarrow> if isConcreteNearLane nowMs lane then Some (signingLaneAuthMethod (nl_auth lane)) else None
      | MissingNearLane \<Rightarrow> None)"

definition emailOtpPreferredEd25519PrimaryLane ::
  "int \<Rightarrow> AvailableEd25519SigningLane \<Rightarrow> AvailableEd25519SigningLane list \<Rightarrow> AvailableEd25519SigningLane" where
  "emailOtpPreferredEd25519PrimaryLane nowMs primary candidates =
     (if concrete_method nowMs primary \<noteq> Some PasskeyMethod then primary
      else case ed25519CompanionIdentityKey nowMs primary of
          None \<Rightarrow> primary
        | Some k \<Rightarrow>
            (case find (\<lambda>c. concrete_method nowMs c = Some EmailOtpMethod \<and> ed25519CompanionIdentityKey nowMs c = Some k) candidates of
               None \<Rightarrow> primary
             | Some email \<Rightarrow> email))"

section \<open>Reading the lanes of a wallet\<close>

datatype NearAuthorizationRead =
    AuthorizationFound NearSessionAuthorization
  | AuthorizationExpired
  | AuthorizationExhausted
  | AuthorizationAbsent string

fun found_authorization :: "NearAuthorizationRead \<Rightarrow> NearSessionAuthorization option" where
  "found_authorization (AuthorizationFound a) = Some a"
| "found_authorization _ = None"

text \<open>
  The Ed25519 part of \<open>readAvailableSigningLanes\<close>. The ports are arguments: the sealed records, the public
  references, which of them are active, and the active authorization. The readings of the clock during one
  read are taken to agree.
\<close>

record near_lane_ports =
  np_records :: "Ed25519SealedRecord list"
  np_references :: "Ed25519PublicReference list"
  np_isActive :: "Ed25519PublicReference \<Rightarrow> bool"
  np_authorization :: NearAuthorizationRead
  np_authorityRef :: authority_ref

record near_lanes_read =
  lr_generation :: int
  lr_primary :: AvailableEd25519SigningLane
  lr_candidates :: "AvailableEd25519SigningLane list"
  lr_invalid :: "InvalidLaneReason list"

definition record_lanes :: "int \<Rightarrow> near_lane_ports \<Rightarrow> OwnerLaneScope option \<Rightarrow> js_error + NearLane list" where
  "record_lanes nowMs ports scope =
     ebind (emapM (\<lambda>r. recordToEd25519Lane nowMs r (found_authorization (np_authorization ports)) scope) (np_records ports))
       (\<lambda>lanes. Inr (List.map_filter id lanes))"

definition reference_lane ::
  "int \<Rightarrow> string \<Rightarrow> SignerAuthMethod option \<Rightarrow> near_lane_ports \<Rightarrow> OwnerLaneScope option \<Rightarrow> Ed25519PublicReference \<Rightarrow> js_error + NearLane option" where
  "reference_lane nowMs wallet authMethod ports scope r =
     (if pr_walletId r \<noteq> wallet then Inr None
      else if \<not> np_isActive ports r \<and> np_authorization ports \<notin> {AuthorizationExhausted, AuthorizationExpired} then Inr None
      else ebind (publicCapabilityReferenceToEd25519Lane nowMs r (found_authorization (np_authorization ports)) scope) (\<lambda>l.
        Inr (case l of
               None \<Rightarrow> None
             | Some lane \<Rightarrow>
                 if authMethod \<noteq> None \<and> authMethod \<noteq> Some (signingLaneAuthMethod (nl_auth lane)) then None else Some lane)))"

definition reference_lanes ::
  "int \<Rightarrow> string \<Rightarrow> SignerAuthMethod option \<Rightarrow> near_lane_ports \<Rightarrow> OwnerLaneScope option \<Rightarrow> js_error + NearLane list" where
  "reference_lanes nowMs wallet authMethod ports scope =
     ebind (emapM (reference_lane nowMs wallet authMethod ports scope) (np_references ports)) (\<lambda>lanes. Inr (List.map_filter id lanes))"

definition readNearSigningLanes ::
  "string comparator \<Rightarrow> int \<Rightarrow> string \<Rightarrow> SignerAuthMethod option \<Rightarrow> OwnerLaneScope option \<Rightarrow> near_lane_ports \<Rightarrow> js_error + near_lanes_read" where
  "readNearSigningLanes collation nowMs wallet authMethod scope ports =
     ebind (record_lanes nowMs ports scope) (\<lambda>stored.
     ebind (reference_lanes nowMs wallet authMethod ports scope) (\<lambda>public.
     ebind (case scope of None \<Rightarrow> Inr (stored @ public)
            | Some s \<Rightarrow> filterEd25519LanesByOwnerScope (np_authorityRef ports) s (stored @ public)) (\<lambda>owned.
     ebind (suppressPublicEd25519CandidatesWithDurablePolicy nowMs (map AvailableNearLane owned)) (\<lambda>bound.
     let normalized = js_sort (\<lambda>left right. compareAvailableLanePriority nowMs right left)
           (collapseExactDuplicateAvailableLanes bound ed25519AvailableLaneIdentityKey (compareAvailableLanePriority nowMs)) in
     ebind (canonicalizeEd25519AvailableLanes collation nowMs normalized) (\<lambda>(candidates, invalid).
       let primary = (case candidates of [] \<Rightarrow> MissingNearLane | c # _ \<Rightarrow> c) in
       Inr \<lparr>lr_generation = fold (\<lambda>lane g. max g (availableLaneUpdatedAtMs (AvailableNearLane lane))) stored 0,
            lr_primary = emailOtpPreferredEd25519PrimaryLane nowMs primary candidates,
            lr_candidates = candidates, lr_invalid = invalid\<rparr>)))))"

section \<open>The inventory of NEAR lanes is ordered\<close>

lemma tie_break_then:
  "firstCanonicalTieBreakResult [a, b, c] = then_by a (then_by b c)"
  by (cases a; cases b; cases c) simp_all

lemma tie_break_number: "canonicalTieBreakFromNumber m n = compare default m n"
  by (simp add: canonicalTieBreakFromNumber_def compare_default_cases)

lemma tie_break_lexicographic:
  "ed25519CanonicalTieBreak collation nowMs = (\<lambda>x y.
     then_by (compare default (lane_state_priority (nl_state (ft_lane x))) (lane_state_priority (nl_state (ft_lane y))))
       (then_by (compare default (near_source_priority nowMs (ft_lane x)) (near_source_priority nowMs (ft_lane y)))
         (compare collation (ed25519CanonicalStableTieBreakKey (ft_lane x)) (ed25519CanonicalStableTieBreakKey (ft_lane y)))))"
  by (intro ext)
     (simp add: ed25519CanonicalTieBreak_def tie_break_then tie_break_number canonicalTieBreakFromString_def
       del: firstCanonicalTieBreakResult.simps)

lemma near_tie_comparator: "comparator (sup_tieBreak (ed25519CanonicalSupersession collation nowMs))"
proof -
  have by_key: "comparator (\<lambda>x y. compare c (f x) (f y))" for c :: "'k comparator" and f :: "Ed25519LaneRecordFact \<Rightarrow> 'k"
    by (rule comparator_key [OF comparator_compare])
  have "comparator (\<lambda>x y. then_by (compare c (f x) (f y)) (then_by (compare d (g x) (g y)) (compare e (h x) (h y))))"
    for c :: "'i comparator" and d :: "'j comparator" and e :: "'k comparator" and f g and h :: "Ed25519LaneRecordFact \<Rightarrow> 'k"
    by (rule comparator_then [OF by_key comparator_then [OF by_key by_key]])
  then show ?thesis by (simp add: ed25519CanonicalSupersession_def tie_break_lexicographic)
qed

interpretation near_order: supersession "ed25519CanonicalSupersession collation nowMs"
  for collation :: "string comparator" and nowMs :: int
  by (rule supersession.intro) (rule near_tie_comparator)

text \<open>What the inventory says of a group of facts: it selects one or calls them ambiguous.\<close>

lemma fact_group_cases:
  assumes "facts \<noteq> []"
  obtains (selected) f rest where "canonicalizeLaneFacts facts (ed25519CanonicalLaneInventoryAdapter collation nowMs) = FactSelected f rest"
    "canonicalizeEd25519FactGroup collation nowMs facts = ([ft_lane f], [])"
  | (ambiguous) fs where "canonicalizeLaneFacts facts (ed25519CanonicalLaneInventoryAdapter collation nowMs) = AmbiguousMaterial fs"
    "canonicalizeEd25519FactGroup collation nowMs facts = ([], [InvalidAmbiguousMaterial])"
proof -
  let ?A = "ed25519CanonicalLaneInventoryAdapter collation nowMs" and ?groups = "canonicalFactGroups facts (ed25519CanonicalLaneInventoryAdapter collation nowMs)"
  have "canonicalFactGroupConflicts ?groups ?A = []"
    by (simp add: canonicalFactGroupConflicts_def ed25519CanonicalLaneInventoryAdapter_def)
  moreover have "grp_facts (hd ?groups) = facts" if "length ?groups = 1"
    using that by (cases ?groups) (auto intro: only_group)
  ultimately have "(\<exists>f rest. canonicalizeLaneFacts facts ?A = FactSelected f rest) \<or> (\<exists>fs. canonicalizeLaneFacts facts ?A = AmbiguousMaterial fs)"
    using assms
    by (auto simp: canonicalizeLaneFacts_def canonicalizeSingleLaneFactGroup_def ed25519CanonicalSupersession_def
        ed25519CanonicalLaneInventoryAdapter_def Let_def split: sum.splits)
  then show thesis using that by (auto simp: canonicalizeEd25519FactGroup_def)
qed

definition lane_expiry :: "NearLane \<Rightarrow> int" where
  "lane_expiry lane =
     max 0 (case nl_expiresAtMs lane of Some e \<Rightarrow> e | None \<Rightarrow> floor_or_zero (Option.bind (nl_policyHint lane) snd))"

lemma generation_text:
  "generation_key (ed25519CanonicalSupersession collation nowMs) x =
     (if lane_expiry (ft_lane x) \<le> 0 then [] else pad_start 20 (int_str (lane_expiry (ft_lane x))))"
  by (auto simp: generation_key_def ed25519CanonicalSupersession_def availableLaneServerIssuedGeneration_def
      serverIssuedGenerationFromNumber_def lane_expiry_def floor_or_zero_def split: option.splits)

lemma generation_less:
  assumes "lane_expiry (ft_lane f) < lane_expiry (ft_lane g)" "lane_expiry (ft_lane g) < 10 ^ 20"
  shows "generation_key (ed25519CanonicalSupersession collation nowMs) f < generation_key (ed25519CanonicalSupersession collation nowMs) g"
proof -
  note gen = generation_text [of collation nowMs]
  show ?thesis
  proof (cases "lane_expiry (ft_lane f) \<le> 0")
    case True
    moreover have "0 < lane_expiry (ft_lane g)" using assms(1) by (auto simp: lane_expiry_def less_max_iff_disj)
    ultimately show ?thesis by (simp add: gen pad_start_def) (metis Nil_is_append_conv int_str_nonempty Nil_less_Cons list.exhaust)
  next
    case False
    with assms padded_less [of "lane_expiry (ft_lane f)" "lane_expiry (ft_lane g)"] show ?thesis by (simp add: gen)
  qed
qed

text \<open>Facts of one signer with different expiries are compared by them, in whatever order they come.\<close>

lemma distinct_expiries_comparable:
  assumes "\<forall>f \<in> set facts. 0 < lane_expiry (ft_lane f) \<and> lane_expiry (ft_lane f) < 10 ^ 20"
    and "distinct (map (\<lambda>f. lane_expiry (ft_lane f)) facts)"
  shows "near_order.comparable collation nowMs facts"
proof -
  let ?S = "ed25519CanonicalSupersession collation nowMs"
  have order: "fact_order ?S x y \<noteq> Equiv" if "x \<in> set facts" "y \<in> set facts" "x \<noteq> y" for x y
  proof -
    have "lane_expiry (ft_lane x) \<noteq> lane_expiry (ft_lane y)" using assms(2) that by (auto simp: distinct_map inj_on_def)
    moreover have "lane_expiry (ft_lane x) < 10 ^ 20" "lane_expiry (ft_lane y) < 10 ^ 20" using assms(1) that by blast+
    ultimately have "generation_key ?S x < generation_key ?S y \<or> generation_key ?S y < generation_key ?S x"
      using generation_less [of x y] generation_less [of y x] by (meson linorder_neqE)
    then show ?thesis by (auto simp: fact_order_def then_by_iff compare_default_cases)
  qed
  have "generation_key ?S x \<noteq> []" if "x \<in> set facts" for x
  proof -
    have "0 < lane_expiry (ft_lane x)" using assms(1) that by blast
    then show ?thesis by (simp add: generation_text pad_start_def)
  qed
  with order assms(2) show ?thesis unfolding near_order.comparable_distinct by (auto simp: distinct_map)
qed

lemma distinct_expiries_kept:
  assumes "canonicalizeLaneFacts facts (ed25519CanonicalLaneInventoryAdapter collation nowMs) = FactSelected f rest"
    and "mset facts' = mset facts" and "near_order.comparable collation nowMs facts"
  shows "canonicalizeEd25519FactGroup collation nowMs facts' = ([ft_lane f], [])"
proof -
  let ?A = "ed25519CanonicalLaneInventoryAdapter collation nowMs" and ?S = "ed25519CanonicalSupersession collation nowMs"
  have S: "ad_supersession ?A = ?S" by (simp add: ed25519CanonicalLaneInventoryAdapter_def)
  have all: "filter (sup_isOperationUsable ?S) fs = fs" for fs by (simp add: ed25519CanonicalSupersession_def)
  have ne: "facts \<noteq> []" using assms(1) by (auto simp: canonicalizeLaneFacts_def)
  from assms(1) have "length (canonicalFactGroups facts ?A) = 1" by (auto simp: canonicalizeLaneFacts_def Let_def split: if_splits)
  then obtain g where "canonicalFactGroups facts ?A = [g]" by (cases "canonicalFactGroups facts ?A") auto
  then obtain k where k: "\<forall>x \<in> set facts. ad_groupKeyString ?A (ad_groupKey ?A x) = k" using only_group_key by blast
  have same: "set facts' = set facts" using assms(2) by (rule mset_eq_setD)
  have ne': "facts' \<noteq> []" using ne assms(2) by auto
  from one_group [OF this, of ?A k] k same obtain g' where g': "canonicalFactGroups facts' ?A = [g']" by auto
  obtain x where "selectCanonicalFact facts ?S = Inr x" "selectCanonicalFact facts' ?S = Inr x"
    using near_order.comparable_selection [OF assms(2) [symmetric] ne assms(3)] by blast
  then have x: "selectCanonicalFact facts' ?S = Inr f" using selected_cases(1) [OF assms(1)] by (simp add: S all)
  show ?thesis
    using g' only_group [OF g'] x ne'
    by (simp add: canonicalizeEd25519FactGroup_def canonicalizeLaneFacts_def canonicalFactGroupConflicts_def
        canonicalizeSingleLaneFactGroup_def S all Let_def) (simp add: ed25519CanonicalLaneInventoryAdapter_def)
qed

text \<open>
  C27: Of the stored lanes of one signer the wallet keeps one that expires last, when it keeps one. Read in
  another order, the same lane is kept or the lanes are reported as ambiguous, never another lane; and
  when all lanes have an expiry and no two the same, the same lane is kept in every order.
  (Expiries are below \<open>10 ^ 20\<close>, so that the padded numbers compare as strings.)
\<close>

theorem near_lane_kept_latest:
  assumes "canonicalizeEd25519FactGroup collation nowMs facts = ([lane], [])" and "\<forall>f \<in> set facts. lane_expiry (ft_lane f) < 10 ^ 20"
    and "mset facts' = mset facts"
  shows "lane \<in> ft_lane ` set facts \<and> (\<forall>f \<in> set facts. lane_expiry (ft_lane f) \<le> lane_expiry lane) \<and>
    canonicalizeEd25519FactGroup collation nowMs facts' \<in> {([lane], []), ([], [InvalidAmbiguousMaterial])} \<and>
    ((\<forall>f \<in> set facts. 0 < lane_expiry (ft_lane f)) \<and> distinct (map (\<lambda>f. lane_expiry (ft_lane f)) facts) \<longrightarrow>
     canonicalizeEd25519FactGroup collation nowMs facts' = ([lane], []))"
proof -
  let ?A = "ed25519CanonicalLaneInventoryAdapter collation nowMs" and ?S = "ed25519CanonicalSupersession collation nowMs"
  have S: "ad_supersession ?A = ?S" by (simp add: ed25519CanonicalLaneInventoryAdapter_def)
  have "facts \<noteq> []" using assms(1) by (auto simp: canonicalizeEd25519FactGroup_def canonicalizeLaneFacts_def)
  then obtain f rest where f: "canonicalizeLaneFacts facts ?A = FactSelected f rest" "lane = ft_lane f"
    using assms(1) by (cases rule: fact_group_cases [of facts collation nowMs]) auto
  note greatest = near_order.canonical_selects_greatest [OF S f(1)]
  have "lane_expiry (ft_lane g) \<le> lane_expiry (ft_lane f)" if "g \<in> set facts" for g
  proof (rule ccontr)
    assume "\<not> ?thesis"
    with that assms(2) have "g \<noteq> f" "generation_key ?S f < generation_key ?S g" by (auto intro: generation_less)
    moreover from this that have "fact_order ?S f g = Greater"
      by (intro greatest(3)) (simp_all add: ed25519CanonicalSupersession_def)
    ultimately show False by (auto simp: fact_order_def then_by_iff)
  qed
  moreover have "canonicalizeEd25519FactGroup collation nowMs facts' \<in> {([lane], []), ([], [InvalidAmbiguousMaterial])}"
  proof -
    have "facts' \<noteq> []" using \<open>facts \<noteq> []\<close> assms(3) by auto
    then show ?thesis
    proof (cases rule: fact_group_cases [of facts' collation nowMs])
      case (selected g rest')
      with near_order.canonical_order_free [OF S assms(3) [symmetric] f(1)] f(2) show ?thesis by auto
    qed simp
  qed
  moreover have "canonicalizeEd25519FactGroup collation nowMs facts' = ([lane], [])"
    if "\<forall>f \<in> set facts. 0 < lane_expiry (ft_lane f)" "distinct (map (\<lambda>f. lane_expiry (ft_lane f)) facts)"
    using distinct_expiries_kept [OF f(1) assms(3) distinct_expiries_comparable] that assms(2) f(2) by blast
  ultimately show ?thesis using greatest(1) f(2) by auto
qed

text \<open>Two stored lanes of one signer, which expire at 400 and at 900.\<close>

definition sample_activation :: MpcMaterialActivationRef where
  "sample_activation = \<lparr>ma_activationId = ''a'', ma_capability = ''c'', ma_materialOwner = ''o'', ma_keyBinding = ''k'',
     ma_lifecycleBinding = ''l'', ma_signingWorker = ''s''\<rparr>"

definition sample_session :: NearSessionAuthorization where
  "sample_session = \<lparr>na_authMethod = PasskeyAuthRecord ''rp'' ''c1'', na_factor = OtherFactor ''p'', na_walletId = ''w'',
     na_quotaId = ''q'',
     na_capabilitySubjects = [\<lparr>cs_kind = ''sign'', cs_keyFamily = ''ed25519'', cs_materialActivation = sample_activation\<rparr>],
     na_walletSessionId = ''ws'', na_remainingUses = 3, na_expiresAtMs = 900\<rparr>"

definition sample_near_lane :: "int \<Rightarrow> NearLane" where
  "sample_near_lane expiry = \<lparr>nl_auth = PasskeyBinding ''rp'' ''c1'', nl_materialActivation = sample_activation, nl_walletId = ''w'',
     nl_nearAccountId = ''a.near'', nl_nearEd25519SigningKeyId = ''k'', nl_signerSlot = 1, nl_thresholdSessionId = ''t'',
     nl_authorization = Some sample_session, nl_state = LaneRestorable, nl_remainingUses = Some 3, nl_expiresAtMs = Some expiry,
     nl_policyHint = None, nl_updatedAtMs = Some 5, nl_source = Some DurableSealedRecord\<rparr>"

definition sample_facts :: "int list \<Rightarrow> Ed25519LaneRecordFact list" where
  "sample_facts expiries = map (\<lambda>e. \<lparr>ft_groupKey = \<lparr>gk_walletId = ''w'', gk_authKey = ''x'', gk_nearAccountId = ''a.near'',
     gk_nearEd25519SigningKeyId = ''k'', gk_signerSlot = ''1'', gk_materialActivationKey = ''m''\<rparr>,
     ft_lane = sample_near_lane e\<rparr>) expiries"

lemma sample_group: "canonicalizeEd25519FactGroup default 100 (sample_facts [400, 900]) = ([sample_near_lane 900], [])"
  by code_simp

theorem near_lane_kept_latest_witness:
  "canonicalizeEd25519FactGroup default 100 (sample_facts [400, 900]) = ([sample_near_lane 900], []) \<and>
   canonicalizeEd25519FactGroup default 100 (sample_facts [900, 400]) = ([sample_near_lane 900], [])"
  using sample_group near_lane_kept_latest [OF sample_group, of "sample_facts [900, 400]"]
  by (auto simp: sample_facts_def sample_near_lane_def lane_expiry_def)

text \<open>Two lanes that tie are reported as ambiguous when they come first, although the third supersedes both.\<close>

lemma tied_lanes_order:
  "canonicalizeEd25519FactGroup default 100 (sample_facts [900, 400, 400]) = ([sample_near_lane 900], [])"
  "canonicalizeEd25519FactGroup default 100 (sample_facts [400, 400, 900]) = ([], [InvalidAmbiguousMaterial])"
  by code_simp+

section \<open>Group keys identify signers\<close>

text \<open>One character can be read back from the front of an encoded text.\<close>

definition hex_value :: "char \<Rightarrow> nat" where
  "hex_value c = (if of_char c < (58 :: nat) then of_char c - 48 else of_char c - 55)"

fun decode_uri_char :: "string \<Rightarrow> (char \<times> string) option" where
  "decode_uri_char [] = None"
| "decode_uri_char (c # s) =
     (if c \<noteq> CHR ''%'' then Some (c, s)
      else case s of
          h # l # t \<Rightarrow>
            (let n = hex_value h * 16 + hex_value l in
             if n < 128 then Some (char_of n, t)
             else (case t of
                 _ # h' # l' # u \<Rightarrow> Some (char_of ((n - 192) * 64 + (hex_value h' * 16 + hex_value l' - 128)), u)
               | _ \<Rightarrow> None))
        | _ \<Rightarrow> None)"

lemma hex_value_digit: "d < 16 \<Longrightarrow> hex_value (hex_digit_upper d) = d"
  by (simp add: hex_value_def hex_digit_upper_def)

lemma percent_not_unreserved: "uri_unreserved c \<Longrightarrow> c \<noteq> CHR ''%''"
  by (auto simp: uri_unreserved_def is_digit_def Let_def)

lemma decode_encode: "decode_uri_char (encode_uri_char c @ rest) = Some (c, rest)"
proof -
  have n: "(of_char c :: nat) < 256" by (simp add: of_char_def)
  have byte: "hex_value (hex_digit_upper (m div 16)) * 16 + hex_value (hex_digit_upper (m mod 16)) = m" if "m < 256" for m
    using that by (simp add: hex_value_digit div_less)
  consider "uri_unreserved c" | "\<not> uri_unreserved c" "(of_char c :: nat) < 128" | "\<not> uri_unreserved c" "128 \<le> (of_char c :: nat)"
    by linarith
  then show ?thesis
  proof cases
    case 1
    then show ?thesis by (simp add: encode_uri_char_def Let_def percent_not_unreserved)
  next
    case 2
    with byte [of "of_char c"] show ?thesis by (simp add: encode_uri_char_def percent_byte_def Let_def)
  next
    case 3
    let ?m = "of_char c :: nat"
    have "?m div 64 < 4" using n by (simp add: less_mult_imp_div_less)
    then have "192 + ?m div 64 < 256" "128 + ?m mod 64 < 256" by simp_all
    from byte [OF this(1)] byte [OF this(2)] 3 show ?thesis
      by (simp add: encode_uri_char_def percent_byte_def Let_def)
  qed
qed

interpretation uri: field_codec encode_uri_char decode_uri_char "\<lambda>_. True"
  by (unfold_locales, rule decode_encode) (simp add: encode_uri_char_def percent_byte_def Let_def)

lemma encodeURIComponent_inject: "encodeURIComponent s = encodeURIComponent t \<longleftrightarrow> s = t"
  unfolding encodeURIComponent_def using uri.concat_inject [of s t] by auto

lemma encoded_no_bar: "CHR ''|'' \<notin> set (encodeURIComponent s)"
proof -
  have "CHR ''|'' \<noteq> hex_digit_upper d" if "d < 16" for d
  proof -
    have "(of_char (hex_digit_upper d) :: nat) < 100" using that by (simp add: hex_digit_upper_def)
    moreover have "(of_char (CHR ''|'') :: nat) = 124" by simp
    ultimately show ?thesis by (intro notI) simp
  qed
  then have "CHR ''|'' \<notin> set (percent_byte n)" if "n < 256" for n
    using that by (auto simp: percent_byte_def)
  moreover have "192 + (of_char c :: nat) div 64 < 256" "128 + (of_char c :: nat) mod 64 < 256" for c :: char
    using less_mult_imp_div_less [of "of_char c" 4 64] by (simp_all add: of_char_def)
  ultimately have "CHR ''|'' \<notin> set (encode_uri_char c)" for c
    by (auto simp: encode_uri_char_def uri_unreserved_def is_digit_def Let_def split: if_splits)
  then show ?thesis by (auto simp: encodeURIComponent_def)
qed

lemma join_bar_inject:
  assumes "length xs = length ys" "\<forall>x \<in> set xs. b \<notin> set x" "\<forall>y \<in> set ys. b \<notin> set y" "join_with [b] xs = join_with [b] ys"
  shows "xs = ys"
  using assms
proof (induction xs ys rule: list_induct2)
  case (Cons x xs y ys)
  show ?case
  proof (cases "xs = []")
    case True
    with Cons show ?thesis by simp
  next
    case False
    with Cons.hyps have "ys \<noteq> []" by auto
    with False Cons.prems have *: "x @ b # join_with [b] xs = y @ b # join_with [b] ys" by (simp add: join_with_Cons)
    have front: "takeWhile (\<lambda>c. c \<noteq> b) (z @ b # zs) = z" if "b \<notin> set z" for z zs
      using that by (subst takeWhile_append2) auto
    have "x = y" using arg_cong [OF *, of "takeWhile (\<lambda>c. c \<noteq> b)"] front Cons.prems by simp
    with * Cons show ?thesis by simp
  qed
qed simp

lemma group_key_string_inject: "ed25519LaneGroupKeyString k = ed25519LaneGroupKeyString k' \<longleftrightarrow> k = k'"
proof
  assume "ed25519LaneGroupKeyString k = ed25519LaneGroupKeyString k'"
  then have "map encodeURIComponent (group_key_parts k) = map encodeURIComponent (group_key_parts k')"
    unfolding ed25519LaneGroupKeyString_def
    by (intro join_bar_inject [where b = "CHR ''|''"]) (auto simp: encoded_no_bar group_key_parts_def)
  then have "group_key_parts k = group_key_parts k'" by (simp add: group_key_parts_def encodeURIComponent_inject)
  then show "k = k'" by (simp add: group_key_parts_def Ed25519LaneGroupKey.equality)
qed simp

section \<open>One lane per signer\<close>

lemma ebind_Inr_iff: "ebind r f = Inr y \<longleftrightarrow> (\<exists>x. r = Inr x \<and> f x = Inr y)"
  by (cases r) auto

lemma distinct_map_weaken: "distinct (map f xs) \<Longrightarrow> (\<And>x y. x \<in> set xs \<Longrightarrow> y \<in> set xs \<Longrightarrow> g x = g y \<Longrightarrow> f x = f y) \<Longrightarrow> distinct (map g xs)"
  unfolding distinct_map inj_on_def by blast

lemma emapM_Inr: "emapM f xs = Inr ys \<Longrightarrow> list_all2 (\<lambda>x y. f x = Inr y) xs ys"
  by (induction xs arbitrary: ys) (auto simp: ebind_Inr_iff)

definition lane_signer_key :: "AvailableEd25519SigningLane \<Rightarrow> Ed25519LaneGroupKey option" where
  "lane_signer_key l =
     (case l of
        AvailableNearLane lane \<Rightarrow> (case ed25519LaneGroupKey lane of Inr k \<Rightarrow> k | Inl _ \<Rightarrow> None)
      | MissingNearLane \<Rightarrow> None)"

definition signers :: "int \<Rightarrow> AvailableEd25519SigningLane list \<Rightarrow> Ed25519LaneGroupKey set" where
  "signers nowMs candidates = {k. \<exists>l \<in> set candidates. isConcreteAvailableSigningLane nowMs l \<and> lane_signer_key l = Some k}"

lemma record_fact_Some:
  "ed25519LaneRecordFact nowMs l = Inr (Some f) \<longleftrightarrow>
   l = AvailableNearLane (ft_lane f) \<and> isConcreteNearLane nowMs (ft_lane f) \<and> ed25519LaneGroupKey (ft_lane f) = Inr (Some (ft_groupKey f))"
  by (cases l; cases f) (auto simp: ed25519LaneRecordFact_def ebind_Inr_iff split: if_splits)

lemma facts_of_candidates:
  assumes "emapM (ed25519LaneRecordFact nowMs) candidates = Inr entries"
  shows "f \<in> set (List.map_filter id entries) \<longleftrightarrow> (\<exists>l \<in> set candidates. ed25519LaneRecordFact nowMs l = Inr (Some f))"
proof -
  have "list_all2 (\<lambda>l e. ed25519LaneRecordFact nowMs l = Inr e) candidates entries" using assms by (rule emapM_Inr)
  then show ?thesis
    by (induction rule: list_all2_induct) (auto simp: List.map_filter_def)
qed

lemma signers_of_facts:
  assumes "emapM (ed25519LaneRecordFact nowMs) candidates = Inr entries"
  shows "signers nowMs candidates = ft_groupKey ` set (List.map_filter id entries)"
proof (intro set_eqI iffI)
  fix k assume "k \<in> signers nowMs candidates"
  then obtain l where l: "l \<in> set candidates" "isConcreteAvailableSigningLane nowMs l" "lane_signer_key l = Some k"
    by (auto simp: signers_def)
  obtain lane where "l = AvailableNearLane lane"
    using l(2) by (cases l rule: AvailableEd25519SigningLane.exhaust) auto
  with l have "AvailableNearLane lane \<in> set candidates" "isConcreteNearLane nowMs lane" "ed25519LaneGroupKey lane = Inr (Some k)"
    by (auto simp: lane_signer_key_def split: sum.splits)
  then have "\<lparr>ft_groupKey = k, ft_lane = lane\<rparr> \<in> set (List.map_filter id entries)"
    by (auto simp: facts_of_candidates [OF assms] record_fact_Some)
  then show "k \<in> ft_groupKey ` set (List.map_filter id entries)" by force
next
  fix k assume "k \<in> ft_groupKey ` set (List.map_filter id entries)"
  then obtain f where "f \<in> set (List.map_filter id entries)" "k = ft_groupKey f" by auto
  then have "AvailableNearLane (ft_lane f) \<in> set candidates" "isConcreteNearLane nowMs (ft_lane f)"
      "ed25519LaneGroupKey (ft_lane f) = Inr (Some k)"
    by (auto simp: facts_of_candidates [OF assms] record_fact_Some)
  then show "k \<in> signers nowMs candidates"
    unfolding signers_def by (auto simp: lane_signer_key_def intro!: bexI [of _ "AvailableNearLane (ft_lane f)"])
qed

lemma facts_by_group:
  "distinct (map fst (ed25519FactsByGroup facts)) \<and>
   map_of (ed25519FactsByGroup facts) k =
     (case filter (\<lambda>f. ed25519LaneGroupKeyString (ft_groupKey f) = k) facts of [] \<Rightarrow> None | f # fs \<Rightarrow> Some (f # fs))"
proof (induction facts arbitrary: k rule: rev_induct)
  case (snoc x xs)
  have step: "ed25519FactsByGroup (xs @ [x]) = addToFactGroup x (ed25519FactsByGroup xs)" by (simp add: ed25519FactsByGroup_def)
  from snoc [of k] snoc [of "ed25519LaneGroupKeyString (ft_groupKey x)"] show ?case
    unfolding step by (auto simp: addToFactGroup_def Let_def map_of_update_alist split: list.splits)
qed (simp add: ed25519FactsByGroup_def)

lemma grouped_facts:
  assumes "(k, g) \<in> set (ed25519FactsByGroup facts)"
  shows "g \<noteq> []" "set g = {f \<in> set facts. ed25519LaneGroupKeyString (ft_groupKey f) = k}"
proof -
  have "map_of (ed25519FactsByGroup facts) k = Some g" using assms facts_by_group by (metis map_of_is_SomeI)
  with facts_by_group [of facts k] have "g \<noteq> []" "g = filter (\<lambda>f. ed25519LaneGroupKeyString (ft_groupKey f) = k) facts"
    by (auto split: list.splits)
  then show "g \<noteq> []" "set g = {f \<in> set facts. ed25519LaneGroupKeyString (ft_groupKey f) = k}" by auto
qed

lemma group_keys: "fst ` set (ed25519FactsByGroup facts) = (\<lambda>f. ed25519LaneGroupKeyString (ft_groupKey f)) ` set facts"
proof -
  have "k \<in> fst ` set (ed25519FactsByGroup facts) \<longleftrightarrow> filter (\<lambda>f. ed25519LaneGroupKeyString (ft_groupKey f) = k) facts \<noteq> []" for k
    using facts_by_group [of facts k] map_of_eq_None_iff [of "ed25519FactsByGroup facts" k] by (auto split: list.splits)
  then show ?thesis by (intro set_eqI) (simp only: filter_empty_conv, blast)
qed

text \<open>Each group gives one lane of the group or one report.\<close>

lemma group_result:
  assumes "g \<noteq> []"
  obtains f where "f \<in> set g" "canonicalizeEd25519FactGroup collation nowMs g = ([ft_lane f], [])"
  | "canonicalizeEd25519FactGroup collation nowMs g = ([], [InvalidAmbiguousMaterial])"
  using assms
proof (cases rule: fact_group_cases [of g collation nowMs])
  case (selected f rest)
  have "ad_supersession (ed25519CanonicalLaneInventoryAdapter collation nowMs) = ed25519CanonicalSupersession collation nowMs"
    by (simp add: ed25519CanonicalLaneInventoryAdapter_def)
  from near_order.canonical_selects_greatest(1) [OF this selected(1)] selected(2) show ?thesis by (rule that(1))
next
  case (ambiguous fs)
  with that show ?thesis by simp
qed

lemma results_of_groups:
  fixes collation nowMs keyOf
  assumes "\<forall>(k, g) \<in> set m. g \<noteq> [] \<and> (\<forall>f \<in> set g. keyOf (ft_lane f) = k)" "distinct (map fst m)"
  defines "results \<equiv> map (canonicalizeEd25519FactGroup collation nowMs) (map snd m)"
  shows "distinct (map keyOf (concat (map fst results))) \<and> set (map keyOf (concat (map fst results))) \<subseteq> fst ` set m \<and>
    length (concat (map fst results)) + length (concat (map snd results)) = length m \<and>
    set (concat (map fst results)) \<subseteq> (\<Union>(k, g) \<in> set m. ft_lane ` set g) \<and> set (concat (map snd results)) \<subseteq> {InvalidAmbiguousMaterial}"
  using assms(1, 2) unfolding results_def
proof (induction m)
  case (Cons x m)
  obtain k g where x: "x = (k, g)" by (cases x)
  with Cons.prems have "g \<noteq> []" and keys: "\<forall>f \<in> set g. keyOf (ft_lane f) = k" "k \<notin> fst ` set m" by auto
  from Cons have IH: "distinct (map keyOf (concat (map fst (map (canonicalizeEd25519FactGroup collation nowMs) (map snd m)))))"
    "set (map keyOf (concat (map fst (map (canonicalizeEd25519FactGroup collation nowMs) (map snd m))))) \<subseteq> fst ` set m"
    "length (concat (map fst (map (canonicalizeEd25519FactGroup collation nowMs) (map snd m)))) +
     length (concat (map snd (map (canonicalizeEd25519FactGroup collation nowMs) (map snd m)))) = length m"
    "set (concat (map fst (map (canonicalizeEd25519FactGroup collation nowMs) (map snd m)))) \<subseteq> (\<Union>(k, g) \<in> set m. ft_lane ` set g)"
    "set (concat (map snd (map (canonicalizeEd25519FactGroup collation nowMs) (map snd m)))) \<subseteq> {InvalidAmbiguousMaterial}"
    by auto
  from \<open>g \<noteq> []\<close> show ?case
  proof (cases rule: group_result [of g collation nowMs])
    case (1 f)
    with IH keys x show ?thesis by auto
  next
    case 2
    with IH x show ?thesis by auto
  qed
qed simp

text \<open>
  C26: Canonicalization leaves one lane per signer, and loses none silently. The kept lanes are lanes of the input that can be
  used, no two of them have the same wallet, factor, account, signing key, slot and material; and for
  every signer with a usable lane there is either a kept lane or a report that its lanes are ambiguous.
\<close>

theorem near_lanes_one_per_signer:
  assumes "canonicalizeEd25519AvailableLanes collation nowMs candidates = Inr (lanes, invalid)"
  shows "set lanes \<subseteq> set candidates \<and> (\<forall>l \<in> set lanes. isConcreteAvailableSigningLane nowMs l) \<and>
    distinct (map lane_signer_key lanes) \<and> length lanes + length invalid = card (signers nowMs candidates) \<and>
    set invalid \<subseteq> {InvalidAmbiguousMaterial}"
proof -
  obtain entries where entries: "emapM (ed25519LaneRecordFact nowMs) candidates = Inr entries"
    using assms by (auto simp: canonicalizeEd25519AvailableLanes_def ebind_Inr_iff)
  let ?facts = "List.map_filter id entries" and ?m = "ed25519FactsByGroup (List.map_filter id entries)"
  let ?results = "map (canonicalizeEd25519FactGroup collation nowMs) (map snd ?m)"
  let ?key = "\<lambda>lane. ed25519LaneGroupKeyString (the (lane_signer_key (AvailableNearLane lane)))"
  have lanes: "mset lanes = mset (map AvailableNearLane (concat (map fst ?results)))" "invalid = concat (map snd ?results)"
    using assms entries by (auto simp: canonicalizeEd25519AvailableLanes_def Let_def comp_assoc)
  have facts: "AvailableNearLane (ft_lane f) \<in> set candidates \<and> isConcreteNearLane nowMs (ft_lane f) \<and>
      lane_signer_key (AvailableNearLane (ft_lane f)) = Some (ft_groupKey f)" if "f \<in> set ?facts" for f
    using that by (auto simp: facts_of_candidates [OF entries] record_fact_Some lane_signer_key_def)
  have "\<forall>(k, g) \<in> set ?m. g \<noteq> [] \<and> (\<forall>f \<in> set g. ?key (ft_lane f) = k)"
    using grouped_facts facts by fastforce
  from results_of_groups [OF this, of collation nowMs] facts_by_group [of ?facts]
  have R: "distinct (map ?key (concat (map fst ?results)))"
    "length (concat (map fst ?results)) + length (concat (map snd ?results)) = length ?m"
    "set (concat (map fst ?results)) \<subseteq> (\<Union>(k, g) \<in> set ?m. ft_lane ` set g)"
    "set (concat (map snd ?results)) \<subseteq> {InvalidAmbiguousMaterial}" by auto
  have from_facts: "set (concat (map fst ?results)) \<subseteq> ft_lane ` set ?facts"
  proof
    fix lane assume "lane \<in> set (concat (map fst ?results))"
    with R(3) have "lane \<in> (\<Union>(k, g) \<in> set ?m. ft_lane ` set g)" by (rule subsetD)
    then obtain k g f where "(k, g) \<in> set ?m" "f \<in> set g" "lane = ft_lane f" by auto
    then show "lane \<in> ft_lane ` set ?facts" using grouped_facts(2) by fastforce
  qed
  have "distinct (map (lane_signer_key \<circ> AvailableNearLane) (concat (map fst ?results)))"
    using R(1) by (rule distinct_map_weaken) simp
  moreover have "mset (map lane_signer_key lanes) = mset (map (lane_signer_key \<circ> AvailableNearLane) (concat (map fst ?results)))"
    using arg_cong [OF lanes(1), of "image_mset lane_signer_key"] by (simp add: image_mset.compositionality)
  ultimately have "distinct (map lane_signer_key lanes)" by (metis mset_eq_imp_distinct_iff)
  moreover have "length ?m = card (signers nowMs candidates)"
  proof -
    have "signers nowMs candidates = ft_groupKey ` set ?facts" by (rule signers_of_facts [OF entries])
    moreover have "length ?m = card (fst ` set ?m)" using facts_by_group [of ?facts] by (metis distinct_card length_map list.set_map)
    moreover have "fst ` set ?m = ed25519LaneGroupKeyString ` (ft_groupKey ` set ?facts)" by (simp add: group_keys image_image)
    moreover have "inj_on ed25519LaneGroupKeyString X" for X by (simp add: inj_on_def group_key_string_inject)
    ultimately show ?thesis by (simp add: card_image)
  qed
  moreover have "set lanes = AvailableNearLane ` set (concat (map fst ?results))" using mset_eq_setD [OF lanes(1)] by simp
  moreover have "length lanes = length (concat (map fst ?results))" using mset_eq_length [OF lanes(1)] by simp
  ultimately show ?thesis using R from_facts facts lanes(2) by auto
qed

lemma sample_canonical:
  "canonicalizeEd25519AvailableLanes default 100 (map (AvailableNearLane \<circ> sample_near_lane) [400, 900]) =
   Inr ([AvailableNearLane (sample_near_lane 900)], [])"
  by code_simp

theorem near_lanes_one_per_signer_witness:
  "canonicalizeEd25519AvailableLanes default 100 (map (AvailableNearLane \<circ> sample_near_lane) [400, 900]) =
     Inr ([AvailableNearLane (sample_near_lane 900)], []) \<and>
   card (signers 100 (map (AvailableNearLane \<circ> sample_near_lane) [400, 900])) = 1"
  using sample_canonical near_lanes_one_per_signer [OF sample_canonical] by simp

end
