(* ===== verification/NearLaneSelection.thy ===== *)
theory NearLaneSelection
  imports NearSigningLanes
begin

text \<open>
  The choice of the lane that signs a NEAR transaction (\<open>session/identity/selectLane.ts\<close>, \<open>session/identity/laneIdentity.ts\<close>):
  of the available lanes exactly one has to fit the intent. Together with \<open>NearSigningLanes\<close> this gives which
  session, which factor and which key a NEAR transaction is signed with.
\<close>

declare jfield.simps [simp del]

section \<open>Candidates and intents\<close>

record Ed25519LaneCandidate =
  lc_auth :: SigningLaneAuthBinding
  lc_walletId :: string
  lc_nearAccountId :: string
  lc_nearEd25519SigningKeyId :: string
  lc_signerSlot :: int
  lc_materialActivation :: MpcMaterialActivationRef
  lc_thresholdSessionId :: string
  lc_state :: AvailableSigningLaneState
  lc_remainingUses :: "int option"
  lc_expiresAtMs :: "int option"
  lc_updatedAtMs :: "int option"
  lc_source :: "NearLaneSource option"
  lc_authorization :: "NearSessionAuthorization option"

definition nullablePositiveInteger :: "int option \<Rightarrow> int option" where
  "nullablePositiveInteger v = (case v of None \<Rightarrow> None | Some n \<Rightarrow> if n > 0 then Some n else None)"

definition nullableNonNegativeInteger :: "int option \<Rightarrow> int option" where
  "nullableNonNegativeInteger v = map_option (max 0) v"

definition ed25519LaneCandidateFromAvailableLane :: "int \<Rightarrow> AvailableEd25519SigningLane \<Rightarrow> Ed25519LaneCandidate option" where
  "ed25519LaneCandidateFromAvailableLane nowMs l =
     (case l of
        MissingNearLane \<Rightarrow> None
      | AvailableNearLane lane \<Rightarrow>
          if \<not> isConcreteNearLane nowMs lane then None
          else Some \<lparr>lc_auth = nl_auth lane, lc_walletId = nl_walletId lane, lc_nearAccountId = nl_nearAccountId lane,
                 lc_nearEd25519SigningKeyId = nl_nearEd25519SigningKeyId lane, lc_signerSlot = nl_signerSlot lane,
                 lc_materialActivation = nl_materialActivation lane, lc_thresholdSessionId = nl_thresholdSessionId lane,
                 lc_state = (if nl_authorization lane = None then LaneDeferred else nl_state lane),
                 lc_remainingUses = nullableNonNegativeInteger (nl_remainingUses lane),
                 lc_expiresAtMs = nullablePositiveInteger (nl_expiresAtMs lane),
                 lc_updatedAtMs = nullablePositiveInteger (nl_updatedAtMs lane),
                 lc_source = nl_source lane, lc_authorization = nl_authorization lane\<rparr>)"

definition laneCandidateAuthMethod :: "Ed25519LaneCandidate \<Rightarrow> SignerAuthMethod" where
  "laneCandidateAuthMethod candidate = signingLaneAuthMethod (lc_auth candidate)"

datatype NearSignerSelection = NearAccountSelection string | SignerSlotSelection string int

datatype TransactionAuthSelectionPolicy =
    AnyAuthMethod | ExplicitAuthMethod SignerAuthMethod | AccountClassAuthMethod SignerAuthMethod

record NearTransactionIntent =
  ti_walletId :: string
  ti_signerSelection :: NearSignerSelection
  ti_authSelectionPolicy :: TransactionAuthSelectionPolicy

fun selection_account :: "NearSignerSelection \<Rightarrow> string" where
  "selection_account (NearAccountSelection a) = a"
| "selection_account (SignerSlotSelection a _) = a"

fun policy_method :: "TransactionAuthSelectionPolicy \<Rightarrow> SignerAuthMethod option" where
  "policy_method AnyAuthMethod = None"
| "policy_method (ExplicitAuthMethod m) = Some m"
| "policy_method (AccountClassAuthMethod m) = Some m"

datatype TransactionLaneSelectionFailure =
    NoCandidate "SignerAuthMethod option"
  | AmbiguousCandidates "SignerAuthMethod list"

section \<open>Selected lanes\<close>

definition parseAuthorizationId :: "string \<Rightarrow> string \<Rightarrow> js_error + string" where
  "parseAuthorizationId value fieldName =
     (let normalized = js_trim value in
      if normalized = [] then Inl (new_Error (''[SigningSession] '' @ fieldName @ '' is required''))
      else if length normalized > 512 \<or> hasWhitespaceOrControlCharacters normalized
      then Inl (new_Error (''[SigningSession] '' @ fieldName @ '' must be a compact opaque identifier''))
      else Inr normalized)"

definition isValidAccountId :: "string \<Rightarrow> bool" where
  "isValidAccountId a \<longleftrightarrow> 2 \<le> length a \<and> length a \<le> 64 \<and> list_all (\<lambda>c. is_near_name_char c \<or> [c] = ''.'') a"

definition parseNearAccountId :: "string \<Rightarrow> js_error + string" where
  "parseNearAccountId raw =
     (let value = js_trim raw in
      if value = [] then Inl (new_Error ''[SigningSession] invalid exact Ed25519 NEAR account: NEAR account ID is required'')
      else if isImplicitNearAccountId value then Inr value
      else if \<not> isValidAccountId value \<or> \<not> js_includes value ''.''
      then Inl (new_Error (''[SigningSession] invalid exact Ed25519 NEAR account: '' @
             ''named NEAR account ID must be a valid named account containing a dot''))
      else Inr value)"

text \<open>The ids of a parser that fails are reported as \<open>[SigningSession]\<close> with its message.\<close>

definition lift_id :: "nonce_error + 'a \<Rightarrow> js_error + 'a" where
  "lift_id r = (case r of Inr x \<Rightarrow> Inr x
     | Inl (FieldRequired f) \<Rightarrow> Inl (new_Error (''[SigningSession] '' @ f @ '' is required''))
     | Inl _ \<Rightarrow> Inl (new_Error ''[SigningSession] invalid id''))"

record SelectedEd25519Lane =
  sl_walletId :: string
  sl_nearAccountId :: string
  sl_nearEd25519SigningKeyId :: string
  sl_signerSlot :: int
  sl_auth :: SigningLaneAuthBinding
  sl_walletSessionId :: string
  sl_quotaId :: string
  sl_thresholdSessionId :: string

definition selectedEd25519Lane ::
  "Ed25519LaneCandidate \<Rightarrow> NearSessionAuthorization \<Rightarrow> js_error + SelectedEd25519Lane" where
  "selectedEd25519Lane c a =
     (case parseSignerSlot (lc_signerSlot c) of
        None \<Rightarrow> Inl (new_Error ''[SigningSession] selected Ed25519 lane requires signerSlot >= 1'')
      | Some signer \<Rightarrow>
          ebind (parseAuthorizationId (na_walletSessionId a) ''walletSessionId'') (\<lambda>session.
          ebind (parseAuthorizationId (na_quotaId a) ''mpcWalletSigningQuotaId'') (\<lambda>quota.
          ebind (lift_id (parseDomainId (JStr (lc_thresholdSessionId c)) ''thresholdEd25519SessionId'')) (\<lambda>threshold.
          ebind (parseNearAccountId (lc_nearAccountId c)) (\<lambda>account.
          ebind (lift_id (toWalletId (JStr (lc_walletId c)))) (\<lambda>wallet.
            Inr \<lparr>sl_walletId = wallet, sl_nearAccountId = account, sl_nearEd25519SigningKeyId = lc_nearEd25519SigningKeyId c,
                 sl_signerSlot = signer, sl_auth = lc_auth c, sl_walletSessionId = session, sl_quotaId = quota,
                 sl_thresholdSessionId = threshold\<rparr>))))))"

section \<open>Selection\<close>

definition nearEd25519CandidateMatchesIntent :: "Ed25519LaneCandidate \<Rightarrow> NearTransactionIntent \<Rightarrow> bool" where
  "nearEd25519CandidateMatchesIntent c intent \<longleftrightarrow>
     lc_walletId c = ti_walletId intent \<and> lc_nearAccountId c = selection_account (ti_signerSelection intent) \<and>
     (case ti_signerSelection intent of NearAccountSelection _ \<Rightarrow> True | SignerSlotSelection _ s \<Rightarrow> lc_signerSlot c = s)"

text \<open>For the candidates of both curves; \<open>method_of\<close> is \<open>laneCandidateAuthMethod\<close>.\<close>

definition transactionCandidatesAllowedByAuthPolicy ::
  "TransactionAuthSelectionPolicy \<Rightarrow> ('c \<Rightarrow> SignerAuthMethod) \<Rightarrow> ('l \<times> 'c) list \<Rightarrow> ('l \<times> 'c) list" where
  "transactionCandidatesAllowedByAuthPolicy policy method_of candidates =
     (case policy_method policy of
        None \<Rightarrow> candidates
      | Some m \<Rightarrow> filter (\<lambda>(_, c). method_of c = m) candidates)"

fun selectOnlyConcreteTransactionCandidate :: "'c list \<Rightarrow> 'c option" where
  "selectOnlyConcreteTransactionCandidate [c] = Some c"
| "selectOnlyConcreteTransactionCandidate _ = None"

definition allowedAuthMethods :: "('c \<Rightarrow> SignerAuthMethod) \<Rightarrow> ('l \<times> 'c) list \<Rightarrow> SignerAuthMethod list" where
  "allowedAuthMethods method_of candidates =
     filter (\<lambda>m. m \<in> (\<lambda>(_, c). method_of c) ` set candidates) [EmailOtpMethod, PasskeyMethod, VoiceIdMethod]"

definition near_candidates ::
  "int \<Rightarrow> NearTransactionIntent \<Rightarrow> AvailableEd25519SigningLane list \<Rightarrow> (NearLane \<times> Ed25519LaneCandidate) list" where
  "near_candidates nowMs intent lanes =
     filter (\<lambda>(_, c). nearEd25519CandidateMatchesIntent c intent)
       (List.map_filter (\<lambda>l. case l of
            AvailableNearLane lane \<Rightarrow> map_option (Pair lane) (ed25519LaneCandidateFromAvailableLane nowMs l)
          | MissingNearLane \<Rightarrow> None)
         (filter (isConcreteAvailableSigningLane nowMs) lanes))"

datatype NearMaterialSelection =
    SelectionAuthorized SelectedEd25519Lane Ed25519LaneCandidate NearLane
  | SelectionAuthorizationRequired Ed25519LaneCandidate NearLane
  | SelectionFailed TransactionLaneSelectionFailure

text \<open>\<open>availableLanes\<close> that are \<open>null\<close> are the empty list.\<close>

definition selectNearEd25519MaterialCandidate ::
  "int \<Rightarrow> NearTransactionIntent \<Rightarrow> AvailableEd25519SigningLane list \<Rightarrow> js_error + NearMaterialSelection" where
  "selectNearEd25519MaterialCandidate nowMs intent lanes =
     (let allowed = transactionCandidatesAllowedByAuthPolicy (ti_authSelectionPolicy intent) laneCandidateAuthMethod
            (near_candidates nowMs intent lanes) in
      if allowed = [] then Inr (SelectionFailed (NoCandidate (policy_method (ti_authSelectionPolicy intent))))
      else case selectOnlyConcreteTransactionCandidate allowed of
          None \<Rightarrow> Inr (SelectionFailed (AmbiguousCandidates (allowedAuthMethods laneCandidateAuthMethod allowed)))
        | Some (lane, c) \<Rightarrow>
            (case lc_authorization c of
               None \<Rightarrow>
                 if nl_authorization lane \<noteq> None
                 then Inl (new_Error ''[SigningSessionSelectLane] Ed25519 material authorization mismatch'')
                 else Inr (SelectionAuthorizationRequired c lane)
             | Some a \<Rightarrow>
                 if nl_authorization lane = None
                 then Inl (new_Error ''[SigningSessionSelectLane] Ed25519 material authorization mismatch'')
                 else ebind (selectedEd25519Lane c a) (\<lambda>selected. Inr (SelectionAuthorized selected c lane))))"

datatype NearSelectableKind = TransactionReadyLane | TransactionReauthLane

record NearSelectableLane =
  ns_kind :: NearSelectableKind
  ns_candidate :: Ed25519LaneCandidate
  ns_availableLane :: NearLane
  ns_selectedLane :: SelectedEd25519Lane
  ns_authorityKey :: string

text \<open>\<open>ready\<close> and \<open>restorable\<close> lanes sign, \<open>expired\<close> and \<open>exhausted\<close> ones ask for authentication.\<close>

fun selectable_kind :: "AvailableSigningLaneState \<Rightarrow> NearSelectableKind option" where
  "selectable_kind LaneReady = Some TransactionReadyLane"
| "selectable_kind LaneRestorable = Some TransactionReadyLane"
| "selectable_kind LaneExpired = Some TransactionReauthLane"
| "selectable_kind LaneExhausted = Some TransactionReauthLane"
| "selectable_kind LaneDeferred = None"

text \<open>The projection of the lane leaves its source out; \<open>nowMs\<close> is a later reading of the clock.\<close>

definition toNearEd25519TransactionSelectableLane :: "int \<Rightarrow> NearLane \<Rightarrow> js_error + NearSelectableLane option" where
  "toNearEd25519TransactionSelectableLane nowMs lane =
     (if \<not> isConcreteNearLane nowMs lane then Inr None
      else case (nl_authorization lane, selectable_kind (nl_state lane), ed25519AvailableLaneIdentityKey (AvailableNearLane lane),
                 ed25519LaneCandidateFromAvailableLane nowMs (AvailableNearLane lane)) of
          (Some a, Some kind, Some authorityKey, Some c) \<Rightarrow>
            ebind (selectedEd25519Lane c a) (\<lambda>selected.
              Inr (Some \<lparr>ns_kind = kind, ns_candidate = c, ns_availableLane = lane\<lparr>nl_source := None\<rparr>,
                ns_selectedLane = selected, ns_authorityKey = authorityKey\<rparr>))
        | _ \<Rightarrow> Inr None)"

datatype NearLaneSelectionState =
    NearLaneSelected SelectedEd25519Lane Ed25519LaneCandidate NearSelectableLane
  | NearLaneSelectionFailed TransactionLaneSelectionFailure

text \<open>\<open>selectTransactionLaneFromAvailableLanes\<close> for a NEAR intent, by \<open>selectSelectedEd25519Lane\<close>.\<close>

definition selectTransactionLaneFromAvailableLanes ::
  "int \<Rightarrow> int \<Rightarrow> NearTransactionIntent \<Rightarrow> AvailableEd25519SigningLane list \<Rightarrow> js_error + NearLaneSelectionState" where
  "selectTransactionLaneFromAvailableLanes nowMs laterMs intent lanes =
     ebind (selectNearEd25519MaterialCandidate nowMs intent lanes) (\<lambda>selection.
       case selection of
         SelectionFailed failure \<Rightarrow> Inr (NearLaneSelectionFailed failure)
       | SelectionAuthorizationRequired c _ \<Rightarrow> Inr (NearLaneSelectionFailed (NoCandidate (Some (laneCandidateAuthMethod c))))
       | SelectionAuthorized selected c lane \<Rightarrow>
           ebind (toNearEd25519TransactionSelectableLane laterMs lane) (\<lambda>selectable.
             case selectable of
               None \<Rightarrow> Inl (new_Error ''[SigningSessionSelectLane] authorized Ed25519 lane is not selectable'')
             | Some s \<Rightarrow> Inr (NearLaneSelected selected c s)))"

section \<open>The lane that is selected\<close>

text \<open>What a lane has to be to sign for an intent, on the lane itself.\<close>

definition lane_fits :: "int \<Rightarrow> NearTransactionIntent \<Rightarrow> NearLane \<Rightarrow> bool" where
  "lane_fits nowMs intent lane \<longleftrightarrow>
     isConcreteNearLane nowMs lane \<and> nl_walletId lane = ti_walletId intent \<and>
     nl_nearAccountId lane = selection_account (ti_signerSelection intent) \<and>
     (\<forall>a s. ti_signerSelection intent = SignerSlotSelection a s \<longrightarrow> nl_signerSlot lane = s) \<and>
     policy_method (ti_authSelectionPolicy intent) \<in> {None, Some (signingLaneAuthMethod (nl_auth lane))}"

fun near_lanes :: "AvailableEd25519SigningLane list \<Rightarrow> NearLane list" where
  "near_lanes [] = []"
| "near_lanes (MissingNearLane # ls) = near_lanes ls"
| "near_lanes (AvailableNearLane lane # ls) = lane # near_lanes ls"

lemma set_near_lanes: "set (near_lanes ls) = {lane. AvailableNearLane lane \<in> set ls}"
  by (induction ls rule: near_lanes.induct) auto

definition lane_candidate :: "NearLane \<Rightarrow> Ed25519LaneCandidate" where
  "lane_candidate lane =
     \<lparr>lc_auth = nl_auth lane, lc_walletId = nl_walletId lane, lc_nearAccountId = nl_nearAccountId lane,
      lc_nearEd25519SigningKeyId = nl_nearEd25519SigningKeyId lane, lc_signerSlot = nl_signerSlot lane,
      lc_materialActivation = nl_materialActivation lane, lc_thresholdSessionId = nl_thresholdSessionId lane,
      lc_state = (if nl_authorization lane = None then LaneDeferred else nl_state lane),
      lc_remainingUses = nullableNonNegativeInteger (nl_remainingUses lane),
      lc_expiresAtMs = nullablePositiveInteger (nl_expiresAtMs lane),
      lc_updatedAtMs = nullablePositiveInteger (nl_updatedAtMs lane),
      lc_source = nl_source lane, lc_authorization = nl_authorization lane\<rparr>"

lemma candidate_of_lane:
  "ed25519LaneCandidateFromAvailableLane nowMs (AvailableNearLane lane) =
     (if isConcreteNearLane nowMs lane then Some (lane_candidate lane) else None)"
  by (simp add: ed25519LaneCandidateFromAvailableLane_def lane_candidate_def)

lemma near_candidates_fold:
  "near_candidates nowMs intent ls =
     map (\<lambda>lane. (lane, lane_candidate lane))
       (filter (\<lambda>lane. isConcreteNearLane nowMs lane \<and> nearEd25519CandidateMatchesIntent (lane_candidate lane) intent) (near_lanes ls))"
  unfolding near_candidates_def
  by (induction ls rule: near_lanes.induct) (auto simp: List.map_filter_def candidate_of_lane)

lemma allowed_candidates:
  "transactionCandidatesAllowedByAuthPolicy (ti_authSelectionPolicy intent) laneCandidateAuthMethod (near_candidates nowMs intent ls) =
     map (\<lambda>lane. (lane, lane_candidate lane)) (filter (lane_fits nowMs intent) (near_lanes ls))"
proof -
  have fits: "lane_fits nowMs intent lane \<longleftrightarrow> isConcreteNearLane nowMs lane \<and>
      nearEd25519CandidateMatchesIntent (lane_candidate lane) intent \<and>
      policy_method (ti_authSelectionPolicy intent) \<in> {None, Some (laneCandidateAuthMethod (lane_candidate lane))}" for lane
    by (auto simp: lane_fits_def nearEd25519CandidateMatchesIntent_def lane_candidate_def laneCandidateAuthMethod_def
        split: NearSignerSelection.splits)
  show ?thesis
    unfolding transactionCandidatesAllowedByAuthPolicy_def near_candidates_fold
    by (auto simp: fits filter_map comp_def conj_ac split: option.splits
        intro!: arg_cong [where f = "map (\<lambda>lane. (lane, lane_candidate lane))"] filter_cong)
qed

text \<open>
  C25: The lane of a NEAR transaction is the one available lane that can be used now and has the wallet, the
  account, the signer slot and the factor the intent asks for. With exactly one such lane, the answer is that lane
  with the demand to authorize it when it has no authorization; when it has one, the answer is the selected lane built
  from it and its authorization, or the error of building it (a slot below 1 or an identifier that does not parse). With
  none the answer is that there is no candidate, with several it is that they are ambiguous, with the factors they
  have; the answer never depends on which lane comes first. The check that candidate and lane agree on their
  authorization never fails.
\<close>

theorem near_selection_exact:
  "case filter (lane_fits nowMs intent) (near_lanes lanes) of
     [] \<Rightarrow> selectNearEd25519MaterialCandidate nowMs intent lanes =
             Inr (SelectionFailed (NoCandidate (policy_method (ti_authSelectionPolicy intent))))
   | [lane] \<Rightarrow>
       (case nl_authorization lane of
          None \<Rightarrow> selectNearEd25519MaterialCandidate nowMs intent lanes = Inr (SelectionAuthorizationRequired (lane_candidate lane) lane)
        | Some a \<Rightarrow> selectNearEd25519MaterialCandidate nowMs intent lanes =
                     map_sum id (\<lambda>selected. SelectionAuthorized selected (lane_candidate lane) lane) (selectedEd25519Lane (lane_candidate lane) a))
   | several \<Rightarrow> \<exists>methods. selectNearEd25519MaterialCandidate nowMs intent lanes = Inr (SelectionFailed (AmbiguousCandidates methods)) \<and>
             set methods = (\<lambda>lane. signingLaneAuthMethod (nl_auth lane)) ` set several"
proof -
  have auth: "lc_authorization (lane_candidate lane) = nl_authorization lane"
      "laneCandidateAuthMethod (lane_candidate lane) = signingLaneAuthMethod (nl_auth lane)" for lane
    by (simp_all add: lane_candidate_def laneCandidateAuthMethod_def)
  have methods: "set (allowedAuthMethods laneCandidateAuthMethod (map (\<lambda>lane. (lane, lane_candidate lane)) ls)) =
      (\<lambda>lane. signingLaneAuthMethod (nl_auth lane)) ` set ls" for ls
  proof (rule set_eqI)
    fix m show "m \<in> set (allowedAuthMethods laneCandidateAuthMethod (map (\<lambda>lane. (lane, lane_candidate lane)) ls)) \<longleftrightarrow>
        m \<in> (\<lambda>lane. signingLaneAuthMethod (nl_auth lane)) ` set ls"
      by (cases m) (auto simp: allowedAuthMethods_def auth image_image)
  qed
  note select = selectNearEd25519MaterialCandidate_def allowed_candidates Let_def
  show ?thesis
  proof (cases "filter (lane_fits nowMs intent) (near_lanes lanes)" rule: remdups_adj.cases)
    case (2 lane)
    then show ?thesis by (auto simp: select auth map_sum_def split: option.splits sum.splits)
  next
    case 1
    then show ?thesis by (simp add: select)
  next
    case (3 l l' ls)
    then show ?thesis using methods [of "l # l' # ls"] by (auto simp: select)
  qed
qed

section \<open>The session that signs\<close>

text \<open>A lane of a read belongs to the owner, and an authorization it has is the active one and its own.\<close>

definition lane_bound :: "near_lane_ports \<Rightarrow> OwnerLaneScope option \<Rightarrow> NearLane \<Rightarrow> bool" where
  "lane_bound ports scope lane \<longleftrightarrow>
     (case nl_authorization lane of
        None \<Rightarrow> True
      | Some a \<Rightarrow> np_authorization ports = AuthorizationFound a \<and>
          activeAuthorizationMatchesEd25519Lane a (nl_auth lane) (nl_walletId lane) (nl_materialActivation lane) scope = Inr True)"

lemma found_authorization_Some: "found_authorization r = Some a \<longleftrightarrow> r = AuthorizationFound a"
  by (cases r) auto

lemma wallet_id_trimmed: "toWalletId (JStr w) = Inr w' \<Longrightarrow> w' = js_trim w"
  by (auto simp: toWalletId_def parseWalletId_def parseDomainId_def Let_def split: if_splits)

lemma matching_authorization_Some:
  "matching_authorization active auth w activation scope = Inr (Some a) \<longleftrightarrow>
     active = Some a \<and> activeAuthorizationMatchesEd25519Lane a auth w activation scope = Inr True"
  by (auto simp: matching_authorization_def split: option.splits sum.splits)

lemma record_lane_bound:
  assumes "recordToEd25519Lane nowMs r (found_authorization (np_authorization ports)) scope = Inr (Some lane)"
  shows "lane_bound ports scope lane"
proof -
  from assms obtain auth authorization where
      "matching_authorization (found_authorization (np_authorization ports)) auth (js_trim (sr_walletId r)) (sr_materialActivation r) scope = Inr authorization"
      "nl_auth lane = auth" "nl_authorization lane = authorization" "nl_materialActivation lane = sr_materialActivation r"
      "toWalletId (JStr (js_trim (sr_walletId r))) = Inr (nl_walletId lane)"
    by (auto simp: recordToEd25519Lane_def Let_def ebind_Inr_iff split: option.splits if_splits sum.splits)
  then show ?thesis
    by (auto simp: lane_bound_def matching_authorization_Some found_authorization_Some dest!: wallet_id_trimmed split: option.splits)
qed

lemma reference_lane_bound:
  assumes "publicCapabilityReferenceToEd25519Lane nowMs r (found_authorization (np_authorization ports)) scope = Inr (Some lane)"
  shows "lane_bound ports scope lane"
proof -
  let ?m = "matching_authorization (found_authorization (np_authorization ports)) (pr_auth r) (js_trim (pr_walletId r)) (pr_materialActivation r) scope"
  let ?w = "toWalletId (JStr (js_trim (pr_walletId r)))" and ?a = "toAccountId (js_trim (pr_nearAccountId r))"
  obtain authorization where m: "?m = Inr authorization"
    using assms by (cases ?m) (auto simp: publicCapabilityReferenceToEd25519Lane_def Let_def split: if_splits)
  moreover obtain w where w: "?w = Inr w"
    using assms m by (cases ?w) (auto simp: publicCapabilityReferenceToEd25519Lane_def Let_def split: if_splits)
  moreover obtain account where "?a = Inr account"
    using assms m w by (cases ?a) (auto simp: publicCapabilityReferenceToEd25519Lane_def Let_def split: if_splits)
  ultimately have "nl_auth lane = pr_auth r" "nl_authorization lane = authorization" "nl_walletId lane = w"
      "nl_materialActivation lane = pr_materialActivation r"
    using assms by (cases authorization; auto simp: publicCapabilityReferenceToEd25519Lane_def Let_def split: if_splits)+
  then show ?thesis using m w
    by (auto simp: lane_bound_def matching_authorization_Some found_authorization_Some dest!: wallet_id_trimmed split: option.splits)
qed

lemma emapM_filter_id:
  assumes "emapM f xs = Inr ys" "y \<in> set (List.map_filter id ys)"
  shows "\<exists>x \<in> set xs. f x = Inr (Some y)"
proof -
  from emapM_Inr [OF assms(1)] have "list_all2 (\<lambda>x y. f x = Inr y) xs ys" .
  then show ?thesis using assms(2) by (induction rule: list_all2_induct) (auto simp: List.map_filter_def split: if_splits)
qed

lemma reference_lane_Some:
  assumes "reference_lane nowMs wallet authMethod ports scope r = Inr (Some lane)"
  shows "publicCapabilityReferenceToEd25519Lane nowMs r (found_authorization (np_authorization ports)) scope = Inr (Some lane)"
proof (cases "publicCapabilityReferenceToEd25519Lane nowMs r (found_authorization (np_authorization ports)) scope")
  case (Inr l)
  with assms show ?thesis by (cases l) (auto simp: reference_lane_def split: if_splits)
qed (use assms in \<open>auto simp: reference_lane_def split: if_splits\<close>)

lemma read_lanes_bound:
  assumes "record_lanes nowMs ports scope = Inr stored" "reference_lanes nowMs wallet authMethod ports scope = Inr public"
    "lane \<in> set (stored @ public)"
  shows "lane_bound ports scope lane"
proof -
  from assms(1) have "\<exists>r. recordToEd25519Lane nowMs r (found_authorization (np_authorization ports)) scope = Inr (Some lane)" if "lane \<in> set stored"
    using that unfolding record_lanes_def ebind_Inr_iff by (blast dest: emapM_filter_id)
  moreover from assms(2) have "\<exists>r. reference_lane nowMs wallet authMethod ports scope r = Inr (Some lane)" if "lane \<in> set public"
    using that unfolding reference_lanes_def ebind_Inr_iff by (blast dest: emapM_filter_id)
  ultimately show ?thesis using assms(3) by (auto dest: record_lane_bound reference_lane_Some reference_lane_bound)
qed

lemma suppressed_subset:
  "suppressPublicEd25519CandidatesWithDurablePolicy nowMs candidates = Inr kept \<Longrightarrow> set kept \<subseteq> set candidates"
  by (auto simp: suppressPublicEd25519CandidatesWithDurablePolicy_def ebind_Inr_iff Let_def split: if_splits dest!: set_zip_leftD)

lemma set_update_subset: "x \<in> set (AList.update k v m) \<Longrightarrow> x = (k, v) \<or> x \<in> set m"
  by (induction m) (auto split: if_splits)

lemma collect_lanes_subset:
  assumes "collect_lanes identityKey ls (keyed, unkeyed) = (keyed', unkeyed')" "\<forall>g \<in> snd ` set keyed. g \<noteq> [] \<and> set g \<subseteq> A"
    "set unkeyed \<subseteq> A" "set ls \<subseteq> A"
  shows "(\<forall>g \<in> snd ` set keyed'. g \<noteq> [] \<and> set g \<subseteq> A) \<and> set unkeyed' \<subseteq> A"
  using assms
proof (induction ls arbitrary: keyed unkeyed)
  case (Cons l ls)
  have old: "g \<noteq> [] \<and> set g \<subseteq> A" if "map_of keyed k = Some g" for k g
    using that Cons.prems(2) by (metis imageI map_of_SomeD snd_conv)
  have kept: "g \<noteq> [] \<and> set g \<subseteq> A" if "(k, g) \<in> set keyed" for k g
    using that Cons.prems(2) by (metis imageI snd_conv)
  have "g \<noteq> [] \<and> set g \<subseteq> A" if "(k, g) \<in> set (addToLaneGroup key l keyed)" for key k g
    using set_update_subset [OF that [unfolded addToLaneGroup_def]] Cons.prems(4) old [of key] kept by (auto split: option.splits)
  then have added: "\<forall>g \<in> snd ` set (addToLaneGroup key l keyed). g \<noteq> [] \<and> set g \<subseteq> A" for key
    by (metis imageE prod.collapse)
  show ?case
  proof (cases "identityKey l = None \<or> identityKey l = Some []")
    case True
    with Cons.prems show ?thesis by (intro Cons.IH [of keyed "unkeyed @ [l]"]) auto
  next
    case False
    then obtain key where "identityKey l = Some key" "key \<noteq> []" by auto
    with Cons.prems added show ?thesis by (intro Cons.IH [of "addToLaneGroup key l keyed" unkeyed]) auto
  qed
qed simp

lemma hd_sorted_in: "g \<noteq> [] \<Longrightarrow> hd (js_sort cmp g) \<in> set g"
  by (metis hd_in_set js_sort_Nil set_js_sort)

lemma collapsed_subset: "set (collapseExactDuplicateAvailableLanes ls identityKey cmp) \<subseteq> set ls"
proof -
  obtain keyed unkeyed where c: "collect_lanes identityKey ls ([], []) = (keyed, unkeyed)" by fastforce
  from collect_lanes_subset [OF this, of "set ls"]
  have "\<forall>g \<in> snd ` set keyed. g \<noteq> [] \<and> set g \<subseteq> set ls" "set unkeyed \<subseteq> set ls" by auto
  then have "hd (js_sort cmp' g) \<in> set ls" if "(k, g) \<in> set keyed" for k g cmp'
    using that hd_sorted_in [of g cmp'] by (metis imageI snd_conv subsetD)
  with \<open>set unkeyed \<subseteq> set ls\<close> show ?thesis by (auto simp: collapseExactDuplicateAvailableLanes_def c)
qed

lemma emapM_filtered:
  assumes "emapM f xs = Inr flags" "x \<in> set (map fst (filter snd (zip xs flags)))"
  shows "x \<in> set xs \<and> f x = Inr True"
proof -
  from emapM_Inr [OF assms(1)] have "\<forall>(x, y) \<in> set (zip xs flags). f x = Inr y" by (simp add: list_all2_iff)
  moreover from assms(2) have "(x, True) \<in> set (zip xs flags)" by auto
  ultimately show ?thesis by (auto dest: set_zip_leftD)
qed

lemma owned_lane:
  "filterEd25519LanesByOwnerScope authorityRef scope ls = Inr owned \<Longrightarrow> lane \<in> set owned \<Longrightarrow>
   lane \<in> set ls \<and> ed25519LaneMatchesOwnerScope authorityRef scope lane = Inr True"
  unfolding filterEd25519LanesByOwnerScope_def ebind_Inr_iff by (auto dest: emapM_filtered)

lemma canonical_lane:
  assumes "canonicalizeEd25519AvailableLanes collation nowMs candidates = Inr (ls, invalid)" "l \<in> set ls"
  shows "l \<in> set candidates"
proof -
  obtain entries where entries: "emapM (ed25519LaneRecordFact nowMs) candidates = Inr entries"
    using assms by (auto simp: canonicalizeEd25519AvailableLanes_def ebind_Inr_iff)
  let ?m = "ed25519FactsByGroup (List.map_filter id entries)"
  obtain k g lane where g: "(k, g) \<in> set ?m" "lane \<in> set (fst (canonicalizeEd25519FactGroup collation nowMs g))" "l = AvailableNearLane lane"
    using assms entries by (auto simp: canonicalizeEd25519AvailableLanes_def Let_def)
  from grouped_facts(1) [OF g(1)] g(2) obtain f where "f \<in> set g" "lane = ft_lane f"
    by (cases rule: group_result [of g collation nowMs]) auto
  with grouped_facts(2) [OF g(1)] have "f \<in> set (List.map_filter id entries)" by auto
  with \<open>lane = ft_lane f\<close> g(3) show ?thesis by (auto simp: facts_of_candidates [OF entries] record_fact_Some)
qed

lemma read_candidate:
  assumes "readNearSigningLanes collation nowMs wallet authMethod (Some scope) ports = Inr r"
    "AvailableNearLane lane \<in> set (lr_candidates r)"
  shows "lane_bound ports (Some scope) lane" "ed25519LaneMatchesOwnerScope (np_authorityRef ports) scope lane = Inr True"
proof -
  obtain stored public owned bound candidates invalid where steps:
      "record_lanes nowMs ports (Some scope) = Inr stored" "reference_lanes nowMs wallet authMethod ports (Some scope) = Inr public"
      "filterEd25519LanesByOwnerScope (np_authorityRef ports) scope (stored @ public) = Inr owned"
      "suppressPublicEd25519CandidatesWithDurablePolicy nowMs (map AvailableNearLane owned) = Inr bound"
      "canonicalizeEd25519AvailableLanes collation nowMs (js_sort (\<lambda>left right. compareAvailableLanePriority nowMs right left)
         (collapseExactDuplicateAvailableLanes bound ed25519AvailableLaneIdentityKey (compareAvailableLanePriority nowMs))) =
       Inr (candidates, invalid)" "lr_candidates r = candidates"
    using assms(1) by (auto simp: readNearSigningLanes_def Let_def ebind_Inr_iff)
  from canonical_lane [OF steps(5)] steps(6) assms(2) collapsed_subset [of bound] suppressed_subset [OF steps(4)]
  have "AvailableNearLane lane \<in> set (map AvailableNearLane owned)" by (metis set_js_sort subsetD)
  then have "lane \<in> set owned" by auto
  from owned_lane [OF steps(3) this] read_lanes_bound [OF steps(1, 2)]
  show "lane_bound ports (Some scope) lane" "ed25519LaneMatchesOwnerScope (np_authorityRef ports) scope lane = Inr True" by auto
qed

lemma selected_lane_fields:
  assumes "selectedEd25519Lane c a = Inr selected"
  shows "sl_walletId selected = js_trim (lc_walletId c)" "sl_nearAccountId selected = js_trim (lc_nearAccountId c)"
    "sl_auth selected = lc_auth c" "sl_nearEd25519SigningKeyId selected = lc_nearEd25519SigningKeyId c"
    "sl_signerSlot selected = lc_signerSlot c" "sl_walletSessionId selected = js_trim (na_walletSessionId a)"
    "sl_quotaId selected = js_trim (na_quotaId a)"
proof -
  have near: "x = js_trim y" if "parseNearAccountId y = Inr x" for x y
    using that by (auto simp: parseNearAccountId_def Let_def split: if_splits)
  have ids: "x = js_trim y" if "parseAuthorizationId y f = Inr x" for x y f
    using that by (auto simp: parseAuthorizationId_def Let_def split: if_splits)
  have lifted: "lift_id q = Inr x \<longleftrightarrow> q = Inr x" for q :: "nonce_error + 'x" and x
    by (auto simp: lift_id_def split: sum.splits nonce_error.splits)
  from assms show "sl_walletId selected = js_trim (lc_walletId c)" "sl_nearAccountId selected = js_trim (lc_nearAccountId c)"
    "sl_auth selected = lc_auth c" "sl_nearEd25519SigningKeyId selected = lc_nearEd25519SigningKeyId c"
    "sl_signerSlot selected = lc_signerSlot c" "sl_walletSessionId selected = js_trim (na_walletSessionId a)"
    "sl_quotaId selected = js_trim (na_quotaId a)"
    by (auto simp: selectedEd25519Lane_def ebind_Inr_iff lifted parseSignerSlot_def dest!: near ids wallet_id_trimmed
        split: option.splits if_splits)
qed

lemma lane_selected:
  assumes "selectTransactionLaneFromAvailableLanes nowMs laterMs intent lanes = Inr (NearLaneSelected selected c s)"
  obtains lane a where "AvailableNearLane lane \<in> set lanes" "lane_fits nowMs intent lane" "nl_authorization lane = Some a"
    "c = lane_candidate lane" "selectedEd25519Lane c a = Inr selected" "isConcreteNearLane laterMs lane" "ns_selectedLane s = selected"
proof -
  obtain lane where sel: "selectNearEd25519MaterialCandidate nowMs intent lanes = Inr (SelectionAuthorized selected c lane)"
      "toNearEd25519TransactionSelectableLane laterMs lane = Inr (Some s)"
  proof (cases "selectNearEd25519MaterialCandidate nowMs intent lanes")
    case (Inr selection)
    with assms that show thesis
      by (cases selection) (auto simp: selectTransactionLaneFromAvailableLanes_def split: sum.splits option.splits)
  qed (use assms in \<open>simp add: selectTransactionLaneFromAvailableLanes_def\<close>)
  then obtain a where a: "filter (lane_fits nowMs intent) (near_lanes lanes) = [lane]" "nl_authorization lane = Some a"
      "c = lane_candidate lane" "selectedEd25519Lane c a = Inr selected"
    by (cases "filter (lane_fits nowMs intent) (near_lanes lanes)" rule: remdups_adj.cases)
       (auto simp: selectNearEd25519MaterialCandidate_def allowed_candidates Let_def ebind_Inr_iff lane_candidate_def
         split: option.splits if_splits)
  have "lane \<in> set (filter (lane_fits nowMs intent) (near_lanes lanes))" by (simp add: a(1))
  then have "AvailableNearLane lane \<in> set lanes" "lane_fits nowMs intent lane" by (auto simp: set_near_lanes)
  moreover have "isConcreteNearLane laterMs lane" "ns_selectedLane s = selected"
    using sel(2) a by (auto simp: toNearEd25519TransactionSelectableLane_def ebind_Inr_iff candidate_of_lane
        split: option.splits if_splits)
  ultimately show thesis using that a by blast
qed

text \<open>
  C21: A NEAR transaction signs with the session of its wallet and of nobody else. When the lanes are read for an owner
  and one of them is selected for the intent, then the wallet has an active authorization, it is the authorization of the intent's
  wallet, authenticated by the factor of the selected lane, which is the owner's, it covers the key material of
  the lane exactly once, has uses left and has not expired when the lane is selected; and the session and the
  quota that the signature will spend are its session and quota. The selected signer is the one the intent names.
\<close>

theorem near_signing_session:
  assumes "readNearSigningLanes collation readMs wallet authMethod (Some scope) ports = Inr r"
    and "selectTransactionLaneFromAvailableLanes nowMs laterMs intent (lr_candidates r) = Inr (NearLaneSelected selected c s)"
  shows "\<exists>a. np_authorization ports = AuthorizationFound a \<and> na_walletId a = ti_walletId intent \<and>
    factor_matches a (sl_auth selected) \<and> signingLaneAuthBindingKey (sl_auth selected) = signingLaneAuthBindingKey (os_auth scope) \<and>
    nearEd25519SessionMatchesMaterialActivation a (lc_materialActivation c) \<and> 0 < na_remainingUses a \<and>
    max nowMs laterMs < na_expiresAtMs a \<and> sl_walletSessionId selected = js_trim (na_walletSessionId a) \<and>
    sl_quotaId selected = js_trim (na_quotaId a) \<and> sl_walletId selected = js_trim (ti_walletId intent) \<and>
    sl_nearAccountId selected = js_trim (selection_account (ti_signerSelection intent)) \<and>
    policy_method (ti_authSelectionPolicy intent) \<in> {None, Some (signingLaneAuthMethod (sl_auth selected))}"
proof -
  obtain lane a where lane: "AvailableNearLane lane \<in> set (lr_candidates r)" "lane_fits nowMs intent lane"
      "nl_authorization lane = Some a" "c = lane_candidate lane" "selectedEd25519Lane c a = Inr selected" "isConcreteNearLane laterMs lane"
    using assms(2) by (rule lane_selected)
  note fields = selected_lane_fields [OF lane(5)]
  note bound = read_candidate [OF assms(1) lane(1)]
  have active: "np_authorization ports = AuthorizationFound a"
      "activeAuthorizationMatchesEd25519Lane a (nl_auth lane) (nl_walletId lane) (nl_materialActivation lane) (Some scope) = Inr True"
    using bound(1) lane(3) by (simp_all add: lane_bound_def)
  from active(2) have "na_walletId a = nl_walletId lane" "factor_matches a (nl_auth lane)"
      "nearEd25519SessionMatchesMaterialActivation a (nl_materialActivation lane)"
    by (simp_all add: activeAuthorizationMatchesEd25519Lane_def split: if_splits)
  moreover have "signingLaneAuthBindingKey (nl_auth lane) = signingLaneAuthBindingKey (os_auth scope)"
    using bound(2) by (auto simp: ed25519LaneMatchesOwnerScope_def ebind_Inr_iff split: if_splits)
  moreover have "0 < na_remainingUses a" "max nowMs laterMs < na_expiresAtMs a"
    using lane(2, 3, 6) by (auto simp: lane_fits_def isConcreteNearLane_def)
  ultimately show ?thesis using active(1) fields lane(2, 4) by (auto simp: lane_fits_def lane_candidate_def)
qed

text \<open>A wallet with a sealed record, a public reference of the same signer, and an active session.\<close>

definition sample_scope :: OwnerLaneScope where
  "sample_scope = \<lparr>os_auth = PasskeyBinding ''rp'' ''c1'', os_signerSlot = Some 1, os_ecdsaOnly = False, os_ownerAuthority = None\<rparr>"

definition sample_ports :: near_lane_ports where
  "sample_ports = \<lparr>
     np_records = [\<lparr>sr_authMethod = PasskeyMethod, sr_thresholdSessionId = ''t'', sr_walletId = ''w'', sr_signerSlot = 1, sr_rpId = ''rp'',
       sr_credentialIdB64u = ''c1'', sr_providerSubjectId = [], sr_materialActivation = sample_activation, sr_nearAccountId = ''a.near'',
       sr_nearEd25519SigningKeyId = ''k'', sr_expiresAtMs = 900, sr_remainingUses = 3, sr_updatedAtMs = 5\<rparr>],
     np_references = [\<lparr>pr_auth = PasskeyBinding ''rp'' ''c1'', pr_walletId = ''w'', pr_nearAccountId = ''a.near'',
       pr_nearEd25519SigningKeyId = ''k'', pr_signerSlot = 1, pr_thresholdSessionId = ''t'', pr_materialActivation = sample_activation,
       pr_expiresAtMs = 800\<rparr>],
     np_isActive = (\<lambda>_. True), np_authorization = AuthorizationFound sample_session, np_authorityRef = (\<lambda>_. None)\<rparr>"

definition sample_intent :: NearTransactionIntent where
  "sample_intent = \<lparr>ti_walletId = ''w'', ti_signerSelection = NearAccountSelection ''a.near'', ti_authSelectionPolicy = AnyAuthMethod\<rparr>"

lemma sample_selection:
  "case readNearSigningLanes default 100 ''w'' None (Some sample_scope) sample_ports of
     Inr r \<Rightarrow> (case selectTransactionLaneFromAvailableLanes 110 120 sample_intent (lr_candidates r) of
                Inr (NearLaneSelected selected c s) \<Rightarrow> True | _ \<Rightarrow> False)
   | Inl _ \<Rightarrow> False"
  by code_simp

theorem near_signing_session_witness:
  "\<exists>r selected c s. readNearSigningLanes default 100 ''w'' None (Some sample_scope) sample_ports = Inr r \<and>
     selectTransactionLaneFromAvailableLanes 110 120 sample_intent (lr_candidates r) = Inr (NearLaneSelected selected c s) \<and>
     sl_quotaId selected = js_trim (na_quotaId sample_session)"
proof -
  obtain r selected c s where run: "readNearSigningLanes default 100 ''w'' None (Some sample_scope) sample_ports = Inr r"
      "selectTransactionLaneFromAvailableLanes 110 120 sample_intent (lr_candidates r) = Inr (NearLaneSelected selected c s)"
    using sample_selection by (auto split: sum.splits NearLaneSelectionState.splits)
  have "np_authorization sample_ports = AuthorizationFound sample_session" by (simp add: sample_ports_def)
  with run near_signing_session [OF run] show ?thesis by auto
qed

end
