(* ===== verification/EcdsaSigningLanes.thy ===== *)
theory EcdsaSigningLanes
  imports NearSigningLanes
begin

text \<open>
  The EVM-family signing lanes of a wallet (\<open>session/availability/availableSigningLanes.ts\<close>, the ECDSA part): the lanes
  of canonical capabilities and of the active wallet authority are collected per chain target, filtered by
  owner, and reduced to at most one lane per target; lanes of one key family that disagree about the key are
  dropped with a report.
\<close>

declare jfield.simps [simp del]

section \<open>Lanes\<close>

record EvmFamilyEcdsaKeyIdentity =
  ek_walletId :: string
  ek_ecdsaThresholdKeyId :: string
  ek_signingRootId :: string
  ek_signingRootVersion :: string
  ek_participantIds :: "int list"
  ek_thresholdOwnerAddress :: string

text \<open>The code compares public facts with \<open>===\<close>; \<open>pf_object\<close> tells the objects apart.\<close>

record VerifiedEcdsaPublicFacts =
  pf_object :: nat
  pf_keyHandle :: string
  pf_publicKeyB64u :: string
  pf_participantIds :: "int list"
  pf_thresholdOwnerAddress :: string

record ResolvedEvmFamilyEcdsaKey =
  rk_kind :: string
  rk_authBindingKind :: string
  rk_walletId :: string
  rk_publicFacts :: VerifiedEcdsaPublicFacts

text \<open>\<open>ExactEvmFamilyWalletSessionAuthorization\<close> with the uses and the expiry of its runtime.\<close>

record EcdsaSessionAuthorization =
  ea_authorization :: WalletSessionAuthorization
  ea_remainingUses :: int
  ea_expiresAtMs :: int

record ActiveWalletAuthorityEcdsaRuntime =
  rt_kind :: string
  rt_walletId :: string
  rt_materialActivation :: MpcMaterialActivationRef
  rt_publicFacts :: VerifiedEcdsaPublicFacts
  rt_factorAuthorityRef :: "string \<times> string"

text \<open>The source of a lane, with what only that source has: the authority of the manifest and the authorization, or the runtime.\<close>

datatype EcdsaLaneSource =
    CanonicalCapability (src_authority: "string \<times> string") (src_authorization: "EcdsaSessionAuthorization option")
  | ActiveWalletAuthoritySource (src_runtime: ActiveWalletAuthorityEcdsaRuntime) (src_authorizationRequired: bool)

fun lane_authorization :: "EcdsaLaneSource \<Rightarrow> EcdsaSessionAuthorization option" where
  "lane_authorization (CanonicalCapability _ a) = a"
| "lane_authorization (ActiveWalletAuthoritySource _ _) = None"

record ConcreteEcdsaLane =
  el_key :: EvmFamilyEcdsaKeyIdentity
  el_materialActivation :: MpcMaterialActivationRef
  el_publicFacts :: VerifiedEcdsaPublicFacts
  el_chainTarget :: chain_target
  el_state :: AvailableSigningLaneState
  el_auth :: SigningLaneAuthBinding
  el_resolvedKey :: "ResolvedEvmFamilyEcdsaKey option"
  el_source :: EcdsaLaneSource
  el_remainingUses :: "int option"
  el_expiresAtMs :: "int option"
  el_policyHint :: "(int option \<times> int option) option"
  el_updatedAtMs :: "int option"

datatype AvailableEcdsaSigningLane = MissingEcdsaLane chain_target | AvailableEcdsaLane ConcreteEcdsaLane

definition ecdsaAuthorizationPolicyMatchesLane :: "ConcreteEcdsaLane \<Rightarrow> EcdsaSessionAuthorization option \<Rightarrow> bool" where
  "ecdsaAuthorizationPolicyMatchesLane lane authorization \<longleftrightarrow>
     (case authorization of
        None \<Rightarrow> True
      | Some a \<Rightarrow> el_remainingUses lane = Some (ea_remainingUses a) \<and> el_expiresAtMs lane = Some (ea_expiresAtMs a))"

definition hasEcdsaFields :: "ConcreteEcdsaLane \<Rightarrow> bool" where
  "hasEcdsaFields lane \<longleftrightarrow>
     js_trim (ek_walletId (el_key lane)) \<noteq> [] \<and> js_trim (ek_ecdsaThresholdKeyId (el_key lane)) \<noteq> [] \<and>
     js_trim (ek_signingRootId (el_key lane)) \<noteq> [] \<and> js_trim (ek_signingRootVersion (el_key lane)) \<noteq> [] \<and>
     ek_participantIds (el_key lane) \<noteq> [] \<and> js_trim (ek_thresholdOwnerAddress (el_key lane)) \<noteq> [] \<and>
     pf_keyHandle (el_publicFacts lane) \<noteq> [] \<and> js_trim (pf_publicKeyB64u (el_publicFacts lane)) \<noteq> [] \<and>
     pf_participantIds (el_publicFacts lane) \<noteq> [] \<and> js_trim (pf_thresholdOwnerAddress (el_publicFacts lane)) \<noteq> []"

definition active_authority_ok :: "ConcreteEcdsaLane \<Rightarrow> bool" where
  "active_authority_ok lane \<longleftrightarrow>
     (case el_source lane of
        CanonicalCapability _ _ \<Rightarrow> True
      | ActiveWalletAuthoritySource runtime required \<Rightarrow>
          el_state lane = LaneDeferred \<and> required \<and> rt_kind runtime = ''active_wallet_authority_ecdsa_runtime_v1'' \<and>
          rt_walletId runtime = ek_walletId (el_key lane) \<and>
          mpcMaterialActivationRefsEqual (rt_materialActivation runtime) (el_materialActivation lane) \<and>
          pf_object (rt_publicFacts runtime) = pf_object (el_publicFacts lane))"

definition resolved_key_ok :: "ConcreteEcdsaLane \<Rightarrow> bool" where
  "resolved_key_ok lane \<longleftrightarrow>
     (if signingLaneAuthMethod (el_auth lane) = PasskeyMethod
      then (case el_resolvedKey lane of
              None \<Rightarrow> False
            | Some k \<Rightarrow> rk_kind k = ''resolved_evm_family_ecdsa_key'' \<and> rk_authBindingKind k = ''passkey_ecdsa_auth_binding'' \<and>
                rk_walletId k = ek_walletId (el_key lane) \<and> pf_object (rk_publicFacts k) = pf_object (el_publicFacts lane))
      else el_resolvedKey lane = None)"

definition isConcreteEcdsaLane :: "ConcreteEcdsaLane \<Rightarrow> bool" where
  "isConcreteEcdsaLane lane \<longleftrightarrow>
     active_authority_ok lane \<and> hasEcdsaFields lane \<and>
     (case el_source lane of
        CanonicalCapability _ authorization \<Rightarrow> ecdsaAuthorizationPolicyMatchesLane lane authorization
      | ActiveWalletAuthoritySource _ _ \<Rightarrow> True) \<and>
     resolved_key_ok lane"

section \<open>Facts about lanes\<close>

datatype EcdsaLaneRecordFactSource = FromCanonicalCapability | FromActiveWalletAuthority

record EcdsaLaneGroupKey =
  eg_walletId :: string
  eg_authKey :: string
  eg_materialActivationKey :: string
  eg_ecdsaThresholdKeyId :: string
  eg_signingRootId :: string
  eg_signingRootVersion :: string

record EcdsaLaneRecordFact =
  ef_source :: EcdsaLaneRecordFactSource
  ef_groupKey :: EcdsaLaneGroupKey
  ef_chainTargetKey :: string
  ef_lane :: ConcreteEcdsaLane

fun ecdsaLaneRecordFactSource :: "EcdsaLaneSource \<Rightarrow> EcdsaLaneRecordFactSource" where
  "ecdsaLaneRecordFactSource (CanonicalCapability _ _) = FromCanonicalCapability"
| "ecdsaLaneRecordFactSource (ActiveWalletAuthoritySource _ _) = FromActiveWalletAuthority"

definition root_version :: "ConcreteEcdsaLane \<Rightarrow> string" where
  "root_version lane =
     (if ek_signingRootVersion (el_key lane) = [] then ''default'' else ek_signingRootVersion (el_key lane))"

definition ecdsaLaneGroupKey :: "ConcreteEcdsaLane \<Rightarrow> js_error + EcdsaLaneGroupKey" where
  "ecdsaLaneGroupKey lane =
     ebind (signingLaneAuthBindingKey (el_auth lane)) (\<lambda>authKey.
       Inr \<lparr>eg_walletId = ek_walletId (el_key lane), eg_authKey = authKey,
            eg_materialActivationKey = materialActivationKey (el_materialActivation lane),
            eg_ecdsaThresholdKeyId = ek_ecdsaThresholdKeyId (el_key lane), eg_signingRootId = ek_signingRootId (el_key lane),
            eg_signingRootVersion = root_version lane\<rparr>)"

definition ecdsaLaneGroupKeyString :: "EcdsaLaneGroupKey \<Rightarrow> string" where
  "ecdsaLaneGroupKeyString k =
     join_with ''|'' (map encodeURIComponent
       [eg_walletId k, eg_authKey k, eg_materialActivationKey k, eg_ecdsaThresholdKeyId k, eg_signingRootId k, eg_signingRootVersion k])"

definition ecdsaLaneRecordFact :: "ConcreteEcdsaLane \<Rightarrow> js_error + EcdsaLaneRecordFact" where
  "ecdsaLaneRecordFact lane =
     ebind (ecdsaLaneGroupKey lane) (\<lambda>k.
       Inr \<lparr>ef_source = ecdsaLaneRecordFactSource (el_source lane), ef_groupKey = k,
            ef_chainTargetKey = thresholdEcdsaChainTargetKey (el_chainTarget lane), ef_lane = lane\<rparr>)"

definition ecdsaLaneFamilyGroupKeyString :: "ConcreteEcdsaLane \<Rightarrow> js_error + string" where
  "ecdsaLaneFamilyGroupKeyString lane =
     ebind (signingLaneAuthBindingKey (el_auth lane)) (\<lambda>authKey.
       Inr (join_with ''|'' (map encodeURIComponent
         [ek_walletId (el_key lane), authKey, materialActivationKey (el_materialActivation lane), ek_signingRootId (el_key lane),
          root_version lane])))"

section \<open>Conflicts\<close>

datatype EcdsaConflictField =
    KeyIdField | OwnerAddressField | KeyHandleField | PublicKeyField | ParticipantsField

record EcdsaLaneConflict =
  cf_groupKey :: EcdsaLaneGroupKey
  cf_field :: EcdsaConflictField
  cf_values :: "string list"

fun read_field :: "EcdsaConflictField \<Rightarrow> ConcreteEcdsaLane \<Rightarrow> string" where
  "read_field KeyIdField lane = ek_ecdsaThresholdKeyId (el_key lane)"
| "read_field OwnerAddressField lane = js_lower (pf_thresholdOwnerAddress (el_publicFacts lane))"
| "read_field KeyHandleField lane = pf_keyHandle (el_publicFacts lane)"
| "read_field PublicKeyField lane = pf_publicKeyB64u (el_publicFacts lane)"
| "read_field ParticipantsField lane = join_with '','' (map int_str (pf_participantIds (el_publicFacts lane)))"

text \<open>The different non-empty values in the order of \<open>Array.prototype.sort\<close>, that of code units.\<close>

definition ecdsaCanonicalPublicFactValues :: "EcdsaLaneRecordFact list \<Rightarrow> (ConcreteEcdsaLane \<Rightarrow> string) \<Rightarrow> string list" where
  "ecdsaCanonicalPublicFactValues facts read = sorted_list_of_set (set (filter (\<lambda>v. v \<noteq> []) (map (\<lambda>f. read (ef_lane f)) facts)))"

definition ecdsaLaneGroupConflicts :: "EcdsaLaneGroupKey \<Rightarrow> EcdsaLaneRecordFact list \<Rightarrow> EcdsaLaneConflict list" where
  "ecdsaLaneGroupConflicts k facts =
     map (\<lambda>(field, vals). \<lparr>cf_groupKey = k, cf_field = field, cf_values = vals\<rparr>)
       (filter (\<lambda>(_, vals). length vals > 1)
         (map (\<lambda>field. (field, ecdsaCanonicalPublicFactValues facts (read_field field)))
           [KeyIdField, OwnerAddressField, KeyHandleField, PublicKeyField, ParticipantsField]))"

text \<open>A family key is never empty, so every fact has its family.\<close>

definition addToFamily ::
  "string \<Rightarrow> EcdsaLaneRecordFact \<Rightarrow> (string, EcdsaLaneRecordFact list) jsmap \<Rightarrow> (string, EcdsaLaneRecordFact list) jsmap" where
  "addToFamily k f groups = AList.update k ((case map_of groups k of None \<Rightarrow> [] | Some fs \<Rightarrow> fs) @ [f]) groups"

definition ecdsaFamilyGroupConflicts :: "EcdsaLaneRecordFact list \<Rightarrow> js_error + (string, EcdsaLaneConflict list) jsmap" where
  "ecdsaFamilyGroupConflicts facts =
     ebind (emapM (\<lambda>f. ecdsaLaneFamilyGroupKeyString (ef_lane f)) facts) (\<lambda>keys.
       let families = fold (\<lambda>(k, f). addToFamily k f) (zip keys facts) [] in
       Inr (filter (\<lambda>(_, conflicts). conflicts \<noteq> [])
         (map (\<lambda>(k, fs). (k, ecdsaLaneGroupConflicts (ef_groupKey (hd fs)) fs)) families)))"

definition ecdsaFactFamilyConflicts ::
  "EcdsaLaneRecordFact \<Rightarrow> (string, EcdsaLaneConflict list) jsmap \<Rightarrow> js_error + EcdsaLaneConflict list" where
  "ecdsaFactFamilyConflicts f conflictsByFamilyGroup =
     ebind (ecdsaLaneFamilyGroupKeyString (ef_lane f)) (\<lambda>k.
       Inr (case map_of conflictsByFamilyGroup k of None \<Rightarrow> [] | Some conflicts \<Rightarrow> conflicts))"

definition concrete_ecdsa_lanes :: "AvailableEcdsaSigningLane list \<Rightarrow> ConcreteEcdsaLane list" where
  "concrete_ecdsa_lanes candidates =
     List.map_filter (\<lambda>l. case l of
         AvailableEcdsaLane lane \<Rightarrow> if isConcreteEcdsaLane lane then Some lane else None
       | MissingEcdsaLane _ \<Rightarrow> None) candidates"

definition ecdsaRecordFactsForCandidates :: "AvailableEcdsaSigningLane list \<Rightarrow> js_error + EcdsaLaneRecordFact list" where
  "ecdsaRecordFactsForCandidates candidates = emapM ecdsaLaneRecordFact (concrete_ecdsa_lanes candidates)"

section \<open>The canonical inventory of ECDSA lanes\<close>

fun ecdsaCanonicalSourcePriority :: "EcdsaLaneSource \<Rightarrow> int" where
  "ecdsaCanonicalSourcePriority (ActiveWalletAuthoritySource _ _) = 2"
| "ecdsaCanonicalSourcePriority (CanonicalCapability _ _) = 1"

fun isEcdsaCanonicalFactOperationUsable :: "EcdsaLaneSource \<Rightarrow> AvailableSigningLaneState \<Rightarrow> bool" where
  "isEcdsaCanonicalFactOperationUsable (ActiveWalletAuthoritySource _ _) _ = True"
| "isEcdsaCanonicalFactOperationUsable (CanonicalCapability _ authorization) state = (state \<noteq> LaneDeferred \<or> authorization = None)"

fun ecdsa_source_str :: "EcdsaLaneSource \<Rightarrow> string" where
  "ecdsa_source_str (CanonicalCapability _ _) = ''canonical_capability''"
| "ecdsa_source_str (ActiveWalletAuthoritySource _ _) = ''active_wallet_authority''"

definition ecdsaCanonicalStableTieBreakKey :: "ConcreteEcdsaLane \<Rightarrow> string" where
  "ecdsaCanonicalStableTieBreakKey lane =
     join_with ''|'' [materialActivationKey (el_materialActivation lane), ecdsa_source_str (el_source lane),
       thresholdEcdsaChainTargetKey (el_chainTarget lane)]"

definition ecdsaCanonicalTieBreak :: "string comparator \<Rightarrow> EcdsaLaneRecordFact \<Rightarrow> EcdsaLaneRecordFact \<Rightarrow> comp" where
  "ecdsaCanonicalTieBreak collation left right =
     firstCanonicalTieBreakResult
       [canonicalTieBreakFromNumber (lane_state_priority (el_state (ef_lane left))) (lane_state_priority (el_state (ef_lane right))),
        canonicalTieBreakFromNumber (ecdsaCanonicalSourcePriority (el_source (ef_lane left)))
          (ecdsaCanonicalSourcePriority (el_source (ef_lane right))),
        canonicalTieBreakFromString collation (ecdsaCanonicalStableTieBreakKey (ef_lane left))
          (ecdsaCanonicalStableTieBreakKey (ef_lane right))]"

definition ecdsaLaneServerIssuedGeneration :: "ConcreteEcdsaLane \<Rightarrow> string option" where
  "ecdsaLaneServerIssuedGeneration lane =
     serverIssuedGenerationFromNumber
       (case el_expiresAtMs lane of Some e \<Rightarrow> Some e | None \<Rightarrow> Option.bind (el_policyHint lane) snd)"

definition ecdsaCanonicalSupersession :: "string comparator \<Rightarrow> EcdsaLaneRecordFact CanonicalFactSupersession" where
  "ecdsaCanonicalSupersession collation =
     \<lparr>sup_isOperationUsable = (\<lambda>f. isEcdsaCanonicalFactOperationUsable (el_source (ef_lane f)) (el_state (ef_lane f))),
      sup_generation = (\<lambda>f. ecdsaLaneServerIssuedGeneration (ef_lane f)),
      sup_exactness = (\<lambda>_. ExactTarget), sup_tieBreak = ecdsaCanonicalTieBreak collation\<rparr>"

definition ecdsaCanonicalGroupConflicts :: "EcdsaLaneRecordFact list \<Rightarrow> EcdsaLaneConflict list" where
  "ecdsaCanonicalGroupConflicts facts = (case facts of [] \<Rightarrow> [] | f # _ \<Rightarrow> ecdsaLaneGroupConflicts (ef_groupKey f) facts)"

definition ecdsaCanonicalLaneInventoryAdapter ::
  "string comparator \<Rightarrow> (EcdsaLaneRecordFact, EcdsaLaneGroupKey, EcdsaLaneConflict) CanonicalLaneInventoryAdapter" where
  "ecdsaCanonicalLaneInventoryAdapter collation =
     \<lparr>ad_groupKey = ef_groupKey, ad_groupKeyString = ecdsaLaneGroupKeyString, ad_groupConflicts = ecdsaCanonicalGroupConflicts,
      ad_supersession = ecdsaCanonicalSupersession collation\<rparr>"

text \<open>Exact duplicates have the same material, source and target; the one of higher state and later update stays.\<close>

definition ecdsaMaterialIdentityKey :: "AvailableEcdsaSigningLane \<Rightarrow> string option" where
  "ecdsaMaterialIdentityKey l =
     (case l of
        AvailableEcdsaLane lane \<Rightarrow> if isConcreteEcdsaLane lane then Some (ecdsaCanonicalStableTieBreakKey lane) else None
      | MissingEcdsaLane _ \<Rightarrow> None)"

fun ecdsaLaneStatePriority :: "AvailableEcdsaSigningLane \<Rightarrow> int" where
  "ecdsaLaneStatePriority (MissingEcdsaLane _) = 1"
| "ecdsaLaneStatePriority (AvailableEcdsaLane lane) = lane_state_priority (el_state lane)"

fun ecdsaLaneUpdatedAtMs :: "AvailableEcdsaSigningLane \<Rightarrow> int" where
  "ecdsaLaneUpdatedAtMs (MissingEcdsaLane _) = 0"
| "ecdsaLaneUpdatedAtMs (AvailableEcdsaLane lane) = floor_or_zero (el_updatedAtMs lane)"

text \<open>The source priority of every ECDSA lane is zero.\<close>

definition compareEcdsaLanePriority :: "AvailableEcdsaSigningLane \<Rightarrow> AvailableEcdsaSigningLane \<Rightarrow> int" where
  "compareEcdsaLanePriority left right =
     (let stateDelta = ecdsaLaneStatePriority left - ecdsaLaneStatePriority right in
      if stateDelta \<noteq> 0 then stateDelta else ecdsaLaneUpdatedAtMs left - ecdsaLaneUpdatedAtMs right)"

record EcdsaInvalidLane =
  il_reason :: InvalidLaneReason
  il_targetKey :: string
  il_conflicts :: "EcdsaLaneConflict list"

type_synonym ecdsa_row = "AvailableEcdsaSigningLane \<times> AvailableEcdsaSigningLane list \<times> EcdsaInvalidLane list"

definition empty_row :: "chain_target \<Rightarrow> EcdsaInvalidLane list \<Rightarrow> ecdsa_row" where
  "empty_row target invalid = (MissingEcdsaLane target, [], invalid)"

text \<open>\<open>canonicalEcdsaLaneSelectionForFacts\<close> and the cases of the loop over the targets.\<close>

definition selection_row :: "string comparator \<Rightarrow> chain_target \<Rightarrow> EcdsaLaneRecordFact list \<Rightarrow> ecdsa_row" where
  "selection_row collation target facts =
     (let targetKey = thresholdEcdsaChainTargetKey target in
      case canonicalizeLaneFacts facts (ecdsaCanonicalLaneInventoryAdapter collation) of
        FactSelected f _ \<Rightarrow> (AvailableEcdsaLane (ef_lane f), [AvailableEcdsaLane (ef_lane f)], [])
      | NoCurrentLane _ \<Rightarrow> empty_row target []
      | ConflictingKeyMaterial conflicts \<Rightarrow>
          empty_row target [\<lparr>il_reason = InvalidConflictingKeyMaterial, il_targetKey = targetKey, il_conflicts = conflicts\<rparr>]
      | AmbiguousMaterial _ \<Rightarrow>
          empty_row target [\<lparr>il_reason = InvalidAmbiguousMaterial, il_targetKey = targetKey, il_conflicts = []\<rparr>])"

definition target_candidates :: "(string, 'l list) jsmap \<Rightarrow> chain_target \<Rightarrow> 'l list" where
  "target_candidates byTarget target =
     (case map_of byTarget (thresholdEcdsaChainTargetKey target) of None \<Rightarrow> [] | Some ls \<Rightarrow> ls)"

definition target_row ::
  "string comparator \<Rightarrow> (string, EcdsaLaneConflict list) jsmap \<Rightarrow> (string, AvailableEcdsaSigningLane list) jsmap \<Rightarrow>
   chain_target \<Rightarrow> js_error + ecdsa_row" where
  "target_row collation conflictsByFamilyGroup candidatesByTarget target =
     ebind (ecdsaRecordFactsForCandidates (target_candidates candidatesByTarget target)) (\<lambda>facts.
     ebind (emapM (\<lambda>f. ecdsaFactFamilyConflicts f conflictsByFamilyGroup) facts) (\<lambda>conflicts.
       Inr (if concat conflicts \<noteq> []
            then empty_row target [\<lparr>il_reason = InvalidConflictingKeyMaterial,
                   il_targetKey = thresholdEcdsaChainTargetKey target, il_conflicts = concat conflicts\<rparr>]
            else selection_row collation target facts)))"

record EcdsaCanonicalLanes =
  cl_lanesByTarget :: "(string, AvailableEcdsaSigningLane) jsmap"
  cl_candidatesByTarget :: "(string, AvailableEcdsaSigningLane list) jsmap"
  cl_invalid :: "EcdsaInvalidLane list"

definition collapse_ecdsa :: "(string, AvailableEcdsaSigningLane list) jsmap \<Rightarrow> (string, AvailableEcdsaSigningLane list) jsmap" where
  "collapse_ecdsa byTarget =
     map (\<lambda>(k, ls). (k, collapseExactDuplicateAvailableLanes ls ecdsaMaterialIdentityKey compareEcdsaLanePriority)) byTarget"

definition canonicalizeEcdsaAvailableLanes ::
  "string comparator \<Rightarrow> chain_target list \<Rightarrow> (string, AvailableEcdsaSigningLane list) jsmap \<Rightarrow> js_error + EcdsaCanonicalLanes" where
  "canonicalizeEcdsaAvailableLanes collation targets byTarget =
     (let candidatesByTarget = collapse_ecdsa byTarget in
      ebind (emapM (\<lambda>(_, ls). ecdsaRecordFactsForCandidates ls) candidatesByTarget) (\<lambda>facts.
      ebind (ecdsaFamilyGroupConflicts (concat facts)) (\<lambda>conflicts.
      ebind (emapM (target_row collation conflicts candidatesByTarget) targets) (\<lambda>rows.
        let keyed = zip (map thresholdEcdsaChainTargetKey targets) rows in
        Inr \<lparr>cl_lanesByTarget = fold (\<lambda>(k, row). AList.update k (fst row)) keyed [],
             cl_candidatesByTarget = fold (\<lambda>(k, row). AList.update k (fst (snd row))) keyed [],
             cl_invalid = concat (map (snd \<circ> snd) rows)\<rparr>))))"

section \<open>Reading the lanes of a wallet\<close>

definition ownerAuthorityMatchesLane :: "ConcreteEcdsaLane \<Rightarrow> OwnerLaneScope \<Rightarrow> bool" where
  "ownerAuthorityMatchesLane lane scope \<longleftrightarrow>
     (case (if signingLaneAuthMethod (os_auth scope) = PasskeyMethod then None else os_ownerAuthority scope) of
        None \<Rightarrow> True
      | Some authority \<Rightarrow>
          (case el_source lane of
             ActiveWalletAuthoritySource runtime _ \<Rightarrow> rt_factorAuthorityRef runtime = authority
           | CanonicalCapability manifest _ \<Rightarrow> manifest = authority))"

definition ecdsaLaneMatchesOwnerScope :: "OwnerLaneScope \<Rightarrow> AvailableEcdsaSigningLane \<Rightarrow> js_error + bool" where
  "ecdsaLaneMatchesOwnerScope scope l =
     (case l of
        MissingEcdsaLane _ \<Rightarrow> Inr False
      | AvailableEcdsaLane lane \<Rightarrow>
          ebind (signingLaneAuthBindingKey (el_auth lane)) (\<lambda>k.
          ebind (signingLaneAuthBindingKey (os_auth scope)) (\<lambda>k'.
            Inr (k = k' \<and> ownerAuthorityMatchesLane lane scope))))"

record ecdsa_lane_ports =
  ep_canonicalLanes :: "ConcreteEcdsaLane list"
  ep_authorityLanes :: "ConcreteEcdsaLane list"

text \<open>\<open>ecdsaTargetsByKey\<close>: the last target of a key, at the place of the first.\<close>

definition ecdsa_targets :: "chain_target list \<Rightarrow> (string, chain_target) jsmap" where
  "ecdsa_targets targets = fold (\<lambda>t. AList.update (thresholdEcdsaChainTargetKey t) t) targets []"

definition accepted_lanes ::
  "string \<Rightarrow> SignerAuthMethod option \<Rightarrow> (string, chain_target) jsmap \<Rightarrow> ConcreteEcdsaLane list \<Rightarrow> ConcreteEcdsaLane list" where
  "accepted_lanes wallet authMethod targetsByKey lanes =
     filter (\<lambda>lane. (authMethod = None \<or> authMethod = Some (signingLaneAuthMethod (el_auth lane))) \<and>
       ek_walletId (el_key lane) = wallet \<and>
       map_of targetsByKey (thresholdEcdsaChainTargetKey (el_chainTarget lane)) \<noteq> None) lanes"

definition candidates_by_target ::
  "(string, chain_target) jsmap \<Rightarrow> ConcreteEcdsaLane list \<Rightarrow> (string, AvailableEcdsaSigningLane list) jsmap" where
  "candidates_by_target targetsByKey lanes =
     fold (\<lambda>lane. addToLaneGroup (thresholdEcdsaChainTargetKey (el_chainTarget lane)) (AvailableEcdsaLane lane)) lanes
       (map (\<lambda>(k, _). (k, [])) targetsByKey)"

definition owned_candidates ::
  "OwnerLaneScope \<Rightarrow> AvailableEcdsaSigningLane list \<Rightarrow> js_error + AvailableEcdsaSigningLane list" where
  "owned_candidates scope ls =
     ebind (emapM (ecdsaLaneMatchesOwnerScope scope) ls) (\<lambda>keeps. Inr (map fst (filter snd (zip ls keeps))))"

definition filter_by_owner ::
  "OwnerLaneScope option \<Rightarrow> (string, AvailableEcdsaSigningLane list) jsmap \<Rightarrow> js_error + (string, AvailableEcdsaSigningLane list) jsmap" where
  "filter_by_owner scope byTarget =
     (case scope of
        None \<Rightarrow> Inr byTarget
      | Some s \<Rightarrow> emapM (\<lambda>(k, ls). ebind (owned_candidates s ls) (\<lambda>owned. Inr (k, owned))) byTarget)"

text \<open>
  The ECDSA part of \<open>readAvailableSigningLanes\<close>: the inventory is canonicalized twice. The diagnostics it writes
  out are left out.
\<close>

record ecdsa_lanes_read =
  er_generation :: int
  er_lanes :: EcdsaCanonicalLanes
  er_invalid :: "EcdsaInvalidLane list"

definition readEcdsaSigningLanes ::
  "string comparator \<Rightarrow> string \<Rightarrow> chain_target list \<Rightarrow> SignerAuthMethod option \<Rightarrow> OwnerLaneScope option \<Rightarrow> ecdsa_lane_ports \<Rightarrow>
   js_error + ecdsa_lanes_read" where
  "readEcdsaSigningLanes collation wallet chainTargets authMethod scope ports =
     (let targetsByKey = ecdsa_targets chainTargets; targets = map snd targetsByKey;
          canonical = (if targets = [] then [] else accepted_lanes wallet authMethod targetsByKey (ep_canonicalLanes ports));
          authority = (if targets = [] then [] else accepted_lanes wallet authMethod targetsByKey (ep_authorityLanes ports)) in
      ebind (filter_by_owner scope (candidates_by_target targetsByKey (canonical @ authority))) (\<lambda>owned.
      ebind (canonicalizeEcdsaAvailableLanes collation targets owned) (\<lambda>once.
      ebind (canonicalizeEcdsaAvailableLanes collation targets (cl_candidatesByTarget once)) (\<lambda>again.
        Inr \<lparr>er_generation = fold (\<lambda>lane g. max g (floor_or_zero (el_updatedAtMs lane))) canonical 0,
             er_lanes = again, er_invalid = cl_invalid once @ cl_invalid again\<rparr>))))"

end
