(* ===== verification/EcdsaLaneConsistency.thy ===== *)
theory EcdsaLaneConsistency
  imports EcdsaSigningLanes
begin

text \<open>
  What the canonical inventory guarantees about the EVM-family lanes: the lanes of all chains that belong to one key family
  agree about the key, and canonicalizing a second time, as the read does, changes nothing.
\<close>

section \<open>The order of ECDSA lanes\<close>

lemma ecdsa_tie_comparator: "comparator (sup_tieBreak (ecdsaCanonicalSupersession collation))"
proof -
  have by_key: "comparator (\<lambda>x y. compare c (f x) (f y))" for c :: "'k comparator" and f :: "EcdsaLaneRecordFact \<Rightarrow> 'k"
    by (rule comparator_key [OF comparator_compare])
  have "comparator (\<lambda>x y. then_by (compare c (f x) (f y)) (then_by (compare d (g x) (g y)) (compare e (h x) (h y))))"
    for c :: "'i comparator" and d :: "'j comparator" and e :: "'k comparator" and f g and h :: "EcdsaLaneRecordFact \<Rightarrow> 'k"
    by (rule comparator_then [OF by_key comparator_then [OF by_key by_key]])
  moreover have "ecdsaCanonicalTieBreak collation = (\<lambda>x y.
     then_by (compare default (lane_state_priority (el_state (ef_lane x))) (lane_state_priority (el_state (ef_lane y))))
       (then_by (compare default (ecdsaCanonicalSourcePriority (el_source (ef_lane x))) (ecdsaCanonicalSourcePriority (el_source (ef_lane y))))
         (compare collation (ecdsaCanonicalStableTieBreakKey (ef_lane x)) (ecdsaCanonicalStableTieBreakKey (ef_lane y)))))"
    by (intro ext)
       (simp add: ecdsaCanonicalTieBreak_def tie_break_then tie_break_number canonicalTieBreakFromString_def
         del: firstCanonicalTieBreakResult.simps)
  ultimately show ?thesis by (simp add: ecdsaCanonicalSupersession_def)
qed

interpretation ecdsa_order: supersession "ecdsaCanonicalSupersession collation"
  for collation :: "string comparator"
  by (rule supersession.intro) (rule ecdsa_tie_comparator)

section \<open>Agreement of public facts\<close>

text \<open>The facts of a list agree when no public field has two values.\<close>

definition facts_agree :: "EcdsaLaneRecordFact list \<Rightarrow> bool" where
  "facts_agree facts \<longleftrightarrow> (\<forall>field. \<forall>f \<in> set facts. \<forall>g \<in> set facts.
     read_field field (ef_lane f) \<noteq> [] \<longrightarrow> read_field field (ef_lane g) \<noteq> [] \<longrightarrow> read_field field (ef_lane f) = read_field field (ef_lane g))"

lemma one_value: "finite A \<Longrightarrow> length (sorted_list_of_set (A :: string set)) \<le> 1 \<longleftrightarrow> (\<forall>x \<in> A. \<forall>y \<in> A. x = y)"
  by (simp add: card_le_Suc0_iff_eq)

lemma no_conflicts: "ecdsaLaneGroupConflicts k facts = [] \<longleftrightarrow> facts_agree facts"
proof -
  have none: "map g (filter P (map h xs)) = [] \<longleftrightarrow> (\<forall>x \<in> set xs. \<not> P (h x))"
    for g :: "'b \<Rightarrow> EcdsaLaneConflict" and P and h :: "EcdsaConflictField \<Rightarrow> 'b" and xs
    by (auto simp: filter_empty_conv)
  have "field \<in> set [KeyIdField, OwnerAddressField, KeyHandleField, PublicKeyField, ParticipantsField]" for field
    by (cases field) simp_all
  then have "ecdsaLaneGroupConflicts k facts = [] \<longleftrightarrow> (\<forall>field. length (ecdsaCanonicalPublicFactValues facts (read_field field)) \<le> 1)"
    unfolding ecdsaLaneGroupConflicts_def none by (metis (mono_tags, lifting) case_prod_conv not_less)
  also have "\<dots> \<longleftrightarrow> facts_agree facts"
    unfolding ecdsaCanonicalPublicFactValues_def facts_agree_def by (subst one_value) auto
  finally show ?thesis .
qed

lemma concrete_fields: "isConcreteEcdsaLane lane \<Longrightarrow> read_field field lane \<noteq> []"
proof -
  have joined: "join_with '','' (int_str i # more) \<noteq> []" for i :: int and more
    using int_str_nonempty [of i] by (cases more) (simp_all add: join_with_Cons)
  have trimmed: "s \<noteq> []" if "js_trim s \<noteq> []" for s using that by (auto simp: js_trim_def)
  assume "isConcreteEcdsaLane lane"
  then show "read_field field lane \<noteq> []"
    by (cases field; cases "pf_participantIds (el_publicFacts lane)")
       (auto simp: isConcreteEcdsaLane_def hasEcdsaFields_def js_lower_def joined dest!: trimmed)
qed

section \<open>Families\<close>

lemma families_map_of:
  "distinct (map fst (fold (\<lambda>(k, f). addToFamily k f) kfs [])) \<and>
   map_of (fold (\<lambda>(k, f). addToFamily k f) kfs []) k =
     (case map snd (filter (\<lambda>x. fst x = k) kfs) of [] \<Rightarrow> None | f # fs \<Rightarrow> Some (f # fs))"
proof (induction kfs arbitrary: k rule: rev_induct)
  case (snoc x xs)
  obtain k' f where x: "x = (k', f)" by (cases x)
  from snoc [of k] snoc [of k'] show ?case
    by (auto simp: x addToFamily_def map_of_update_alist split: list.splits)
qed simp

lemma family_conflicts:
  assumes "ecdsaFamilyGroupConflicts facts = Inr conflicts"
  obtains keys where "list_all2 (\<lambda>f k. ecdsaLaneFamilyGroupKeyString (ef_lane f) = Inr k) facts keys"
    "\<And>k fs. fs = map snd (filter (\<lambda>x. fst x = k) (zip keys facts)) \<Longrightarrow>
       (case map_of conflicts k of None \<Rightarrow> [] | Some c \<Rightarrow> c) = [] \<longleftrightarrow> facts_agree fs"
proof -
  obtain keys where keys: "emapM (\<lambda>f. ecdsaLaneFamilyGroupKeyString (ef_lane f)) facts = Inr keys"
    and conflicts: "conflicts = filter (\<lambda>(_, c). c \<noteq> []) (map (\<lambda>(k, fs). (k, ecdsaLaneGroupConflicts (ef_groupKey (hd fs)) fs))
        (fold (\<lambda>(k, f). addToFamily k f) (zip keys facts) []))"
    using assms by (auto simp: ecdsaFamilyGroupConflicts_def ebind_Inr_iff Let_def)
  let ?m = "fold (\<lambda>(k, f). addToFamily k f) (zip keys facts) []"
  have lookup: "map_of (filter (\<lambda>(_, c). c \<noteq> []) (map (\<lambda>(k, fs). (k, h fs)) m)) k =
      (case map_of m k of None \<Rightarrow> None | Some fs \<Rightarrow> if h fs = [] then None else Some (h fs))"
    if "distinct (map fst m)" for m k and h :: "EcdsaLaneRecordFact list \<Rightarrow> EcdsaLaneConflict list"
    using that
  proof (induction m)
    case (Cons x m)
    obtain k' fs where x: "x = (k', fs)" by (cases x)
    with Cons.prems have "map_of m k' = None" by (simp add: map_of_eq_None_iff)
    with Cons x show ?case by (auto split: option.splits)
  qed simp
  have "(case map_of conflicts k of None \<Rightarrow> [] | Some c \<Rightarrow> c) = [] \<longleftrightarrow> facts_agree fs"
    if "fs = map snd (filter (\<lambda>x. fst x = k) (zip keys facts))" for k fs
  proof (cases fs)
    case Nil
    with that families_map_of [of "zip keys facts" k] have "map_of ?m k = None" by simp
    with Nil show ?thesis by (simp add: conflicts lookup families_map_of facts_agree_def)
  next
    case (Cons f fs')
    with that families_map_of [of "zip keys facts" k] have "map_of ?m k = Some fs"
      by (metis (no_types, lifting) list.simps(5))
    then show ?thesis by (simp add: conflicts lookup families_map_of no_conflicts split: if_splits)
  qed
  moreover have "list_all2 (\<lambda>f k. ecdsaLaneFamilyGroupKeyString (ef_lane f) = Inr k) facts keys"
    using keys by (rule emapM_Inr)
  ultimately show thesis using that by blast
qed

section \<open>What a target keeps\<close>

lemma record_fact_lane: "ecdsaLaneRecordFact lane = Inr f \<Longrightarrow> ef_lane f = lane"
  by (auto simp: ecdsaLaneRecordFact_def ebind_Inr_iff)

lemma set_concrete_lanes: "lane \<in> set (concrete_ecdsa_lanes ls) \<longleftrightarrow> AvailableEcdsaLane lane \<in> set ls \<and> isConcreteEcdsaLane lane"
proof (induction ls)
  case (Cons l ls)
  then show ?case by (cases l) (auto simp: concrete_ecdsa_lanes_def List.map_filter_def)
qed (simp add: concrete_ecdsa_lanes_def List.map_filter_def)

lemma candidate_fact:
  assumes "ecdsaRecordFactsForCandidates ls = Inr facts" "f \<in> set facts"
  shows "ecdsaLaneRecordFact (ef_lane f) = Inr f" "isConcreteEcdsaLane (ef_lane f)" "AvailableEcdsaLane (ef_lane f) \<in> set ls"
proof -
  have "list_all2 (\<lambda>lane f. ecdsaLaneRecordFact lane = Inr f) (concrete_ecdsa_lanes ls) facts"
    using assms(1) unfolding ecdsaRecordFactsForCandidates_def by (rule emapM_Inr)
  then have "\<exists>lane \<in> set (concrete_ecdsa_lanes ls). ecdsaLaneRecordFact lane = Inr f"
    using assms(2) by (induction rule: list_all2_induct) auto
  then obtain lane where "lane \<in> set (concrete_ecdsa_lanes ls)" "ecdsaLaneRecordFact lane = Inr f" by blast
  moreover from this(2) have "ef_lane f = lane" by (rule record_fact_lane)
  ultimately show "ecdsaLaneRecordFact (ef_lane f) = Inr f" "isConcreteEcdsaLane (ef_lane f)" "AvailableEcdsaLane (ef_lane f) \<in> set ls"
    by (simp_all add: set_concrete_lanes)
qed

lemma emapM_all_Nil:
  assumes "emapM f xs = Inr yss" "concat yss = []" "x \<in> set xs"
  shows "f x = Inr []"
proof -
  have "list_all2 (\<lambda>x y. f x = Inr y) xs yss" using assms(1) by (rule emapM_Inr)
  then show ?thesis using assms(2, 3) by (induction rule: list_all2_induct) auto
qed

text \<open>A target keeps nothing, or one usable fact of its candidates whose family has no conflict.\<close>

lemma target_row_cases:
  assumes "target_row collation conflicts candidatesByTarget target = Inr row"
  obtains (empty) invalid where "row = empty_row target invalid"
  | (kept) f facts where "row = (AvailableEcdsaLane (ef_lane f), [AvailableEcdsaLane (ef_lane f)], [])"
    "ecdsaRecordFactsForCandidates (target_candidates candidatesByTarget target) = Inr facts" "f \<in> set facts"
    "isEcdsaCanonicalFactOperationUsable (el_source (ef_lane f)) (el_state (ef_lane f))" "ecdsaFactFamilyConflicts f conflicts = Inr []"
proof -
  obtain facts conflictss where facts: "ecdsaRecordFactsForCandidates (target_candidates candidatesByTarget target) = Inr facts"
      "emapM (\<lambda>f. ecdsaFactFamilyConflicts f conflicts) facts = Inr conflictss"
    and row: "row = (if concat conflictss \<noteq> []
       then empty_row target [\<lparr>il_reason = InvalidConflictingKeyMaterial, il_targetKey = thresholdEcdsaChainTargetKey target, il_conflicts = concat conflictss\<rparr>]
       else selection_row collation target facts)"
    using assms by (auto simp: target_row_def ebind_Inr_iff)
  show thesis
  proof (cases "concat conflictss = []")
    case False
    with row show thesis by (intro empty) simp
  next
    case True
    with row have sel: "row = selection_row collation target facts" by simp
    show thesis
    proof (cases "canonicalizeLaneFacts facts (ecdsaCanonicalLaneInventoryAdapter collation)")
      case (FactSelected f rest)
      have "ad_supersession (ecdsaCanonicalLaneInventoryAdapter collation) = ecdsaCanonicalSupersession collation"
        by (simp add: ecdsaCanonicalLaneInventoryAdapter_def)
      note greatest = ecdsa_order.canonical_selects_greatest [OF this FactSelected]
      have "isEcdsaCanonicalFactOperationUsable (el_source (ef_lane f)) (el_state (ef_lane f))"
        using greatest(2) by (simp add: ecdsaCanonicalSupersession_def)
      moreover have "ecdsaFactFamilyConflicts f conflicts = Inr []" using facts(2) True greatest(1) by (rule emapM_all_Nil)
      moreover have "row = (AvailableEcdsaLane (ef_lane f), [AvailableEcdsaLane (ef_lane f)], [])"
        using sel FactSelected by (simp add: selection_row_def)
      ultimately show thesis using facts(1) greatest(1) by (intro kept)
    qed (use sel empty in \<open>simp_all add: selection_row_def Let_def\<close>)
  qed
qed

lemma map_of_fold_update:
  assumes "map_of (fold (\<lambda>(k, row). AList.update k (g row)) xs m) k = Some v"
  shows "map_of m k = Some v \<or> (\<exists>row. (k, row) \<in> set xs \<and> g row = v)"
  using assms
proof (induction xs arbitrary: m)
  case (Cons x xs)
  obtain k' row where x: "x = (k', row)" by (cases x)
  from Cons.IH [of "AList.update k' (g row) m"] Cons.prems show ?case
    by (auto simp: x map_of_update_alist split: if_splits)
qed simp

lemma collapsed_target:
  "map_of (collapse_ecdsa byTarget) k = map_option (\<lambda>ls. collapseExactDuplicateAvailableLanes ls ecdsaMaterialIdentityKey compareEcdsaLanePriority) (map_of byTarget k)"
  unfolding collapse_ecdsa_def by (induction byTarget) auto

text \<open>All the facts of a run, and what holds of the lanes it keeps.\<close>

definition kept_fact :: "EcdsaLaneRecordFact list \<Rightarrow> (string, EcdsaLaneConflict list) jsmap \<Rightarrow> EcdsaLaneRecordFact \<Rightarrow> bool" where
  "kept_fact facts conflicts f \<longleftrightarrow>
     f \<in> set facts \<and> ecdsaLaneRecordFact (ef_lane f) = Inr f \<and> isConcreteEcdsaLane (ef_lane f) \<and>
     isEcdsaCanonicalFactOperationUsable (el_source (ef_lane f)) (el_state (ef_lane f)) \<and> ecdsaFactFamilyConflicts f conflicts = Inr []"

lemma target_fact_in_all:
  assumes "emapM (\<lambda>(_, ls). ecdsaRecordFactsForCandidates ls) m = Inr factss"
    "ecdsaRecordFactsForCandidates (target_candidates m target) = Inr facts" "f \<in> set facts"
  shows "f \<in> set (concat factss)"
proof (cases "map_of m (thresholdEcdsaChainTargetKey target)")
  case None
  with assms(2, 3) show ?thesis by (auto simp: target_candidates_def ecdsaRecordFactsForCandidates_def concrete_ecdsa_lanes_def List.map_filter_def)
next
  case (Some ls)
  have "list_all2 (\<lambda>x y. (\<lambda>(_, ls). ecdsaRecordFactsForCandidates ls) x = Inr y) m factss" using assms(1) by (rule emapM_Inr)
  moreover from Some have "(thresholdEcdsaChainTargetKey target, ls) \<in> set m" by (rule map_of_SomeD)
  ultimately obtain y where "y \<in> set factss" "ecdsaRecordFactsForCandidates ls = Inr y"
    by (induction rule: list_all2_induct) auto
  with assms(2, 3) Some show ?thesis by (auto simp: target_candidates_def)
qed

lemma canonicalize_rows:
  assumes "canonicalizeEcdsaAvailableLanes collation targets byTarget = Inr r"
  obtains factss conflicts rows where
    "emapM (\<lambda>(_, ls). ecdsaRecordFactsForCandidates ls) (collapse_ecdsa byTarget) = Inr factss"
    "ecdsaFamilyGroupConflicts (concat factss) = Inr conflicts"
    "list_all2 (\<lambda>t row. target_row collation conflicts (collapse_ecdsa byTarget) t = Inr row) targets rows"
    "cl_lanesByTarget r = fold (\<lambda>(k, row). AList.update k (fst row)) (zip (map thresholdEcdsaChainTargetKey targets) rows) []"
    "cl_candidatesByTarget r = fold (\<lambda>(k, row). AList.update k (fst (snd row))) (zip (map thresholdEcdsaChainTargetKey targets) rows) []"
    "cl_invalid r = concat (map (snd \<circ> snd) rows)"
  using assms that unfolding canonicalizeEcdsaAvailableLanes_def Let_def ebind_Inr_iff
  by (auto dest: emapM_Inr)

section \<open>Lanes of one key family\<close>

lemma join_free_inject:
  assumes "xs \<noteq> []" "ys \<noteq> []" "\<forall>x \<in> set xs. b \<notin> set x" "\<forall>y \<in> set ys. b \<notin> set y" "join_with [b] xs = join_with [b] ys"
  shows "xs = ys"
  using assms
proof (induction xs arbitrary: ys)
  case (Cons x xs)
  then obtain y zs where ys: "ys = y # zs" by (cases ys) auto
  have front: "takeWhile (\<lambda>c. c \<noteq> b) (z @ b # r) = z" if "b \<notin> set z" for z r
    using that by (subst takeWhile_append2) auto
  show ?case
  proof (cases "xs = [] \<or> zs = []")
    case True
    have "b \<in> set (join_with [b] (v # vs))" if "vs \<noteq> []" for v vs using that by (simp add: join_with_Cons)
    with True Cons.prems show ?thesis unfolding ys by (cases "xs = []"; cases "zs = []") auto
  next
    case False
    with Cons.prems have *: "x @ b # join_with [b] xs = y @ b # join_with [b] zs" by (simp add: ys join_with_Cons)
    have "x = y" using arg_cong [OF *, of "takeWhile (\<lambda>c. c \<noteq> b)"] front Cons.prems ys by simp
    with * Cons False show ?thesis unfolding ys by auto
  qed
qed simp

lemma int_str_no_comma: "CHR '','' \<notin> set (int_str i)"
proof -
  have "list_all is_digit (nat_str n)" for n by simp
  moreover have "\<not> is_digit (CHR '','')" by (simp add: is_digit_def)
  ultimately have "CHR '','' \<notin> set (nat_str n)" for n by (metis list_all_iff)
  then show ?thesis by (auto simp: int_str_def)
qed

lemma participants_inject:
  assumes "isConcreteEcdsaLane l" "isConcreteEcdsaLane l'" "read_field ParticipantsField l = read_field ParticipantsField l'"
  shows "pf_participantIds (el_publicFacts l) = pf_participantIds (el_publicFacts l')"
proof -
  have "map int_str (pf_participantIds (el_publicFacts l)) = map int_str (pf_participantIds (el_publicFacts l'))"
    using assms by (intro join_free_inject [where b = "CHR '',''"]) (auto simp: isConcreteEcdsaLane_def hasEcdsaFields_def int_str_no_comma)
  moreover have "inj int_str" by (auto intro!: injI)
  ultimately show ?thesis by (simp add: inj_map_eq_map)
qed

lemma kept_agrees:
  assumes "ecdsaFamilyGroupConflicts facts = Inr conflicts" "kept_fact facts conflicts f" "g \<in> set facts"
    "isConcreteEcdsaLane (ef_lane g)" "ecdsaLaneFamilyGroupKeyString (ef_lane f) = ecdsaLaneFamilyGroupKeyString (ef_lane g)"
  shows "read_field field (ef_lane f) = read_field field (ef_lane g)"
  using assms(1)
proof (rule family_conflicts)
  fix keys
  assume keys: "list_all2 (\<lambda>f k. ecdsaLaneFamilyGroupKeyString (ef_lane f) = Inr k) facts keys"
    and agree: "\<And>k fs. fs = map snd (filter (\<lambda>x. fst x = k) (zip keys facts)) \<Longrightarrow>
       ((case map_of conflicts k of None \<Rightarrow> [] | Some c \<Rightarrow> c) = []) = facts_agree fs"
  obtain k where k: "ecdsaLaneFamilyGroupKeyString (ef_lane f) = Inr k" "(case map_of conflicts k of None \<Rightarrow> [] | Some c \<Rightarrow> c) = []"
    using assms(2) by (auto simp: kept_fact_def ecdsaFactFamilyConflicts_def ebind_Inr_iff)
  let ?fs = "map snd (filter (\<lambda>x. fst x = k) (zip keys facts))"
  have "h \<in> set ?fs" if "h \<in> set facts" "ecdsaLaneFamilyGroupKeyString (ef_lane h) = Inr k" for h
    using keys that by (induction rule: list_all2_induct) auto
  then have "f \<in> set ?fs" "g \<in> set ?fs" using assms(2, 3, 5) k(1) by (auto simp: kept_fact_def)
  moreover have "facts_agree ?fs" using agree [OF refl, of k] k(2) by simp
  moreover have "read_field field (ef_lane f) \<noteq> []" "read_field field (ef_lane g) \<noteq> []"
    using assms(2, 4) by (simp_all add: kept_fact_def concrete_fields)
  ultimately show ?thesis unfolding facts_agree_def by blast
qed

lemma kept_row:
  assumes "emapM (\<lambda>(_, ls). ecdsaRecordFactsForCandidates ls) m = Inr factss"
    "target_row collation conflicts m target = Inr row" "AvailableEcdsaLane lane \<in> set (fst (snd row))"
  obtains f where "kept_fact (concat factss) conflicts f" "ef_lane f = lane" "row = (AvailableEcdsaLane lane, [AvailableEcdsaLane lane], [])"
  using assms(2)
proof (cases rule: target_row_cases)
  case (empty invalid)
  with assms(3) show thesis by (simp add: empty_row_def)
next
  case (kept f facts)
  with candidate_fact [OF kept(2, 3)] target_fact_in_all [OF assms(1) kept(2, 3)] have "kept_fact (concat factss) conflicts f"
    by (simp add: kept_fact_def)
  moreover have "lane = ef_lane f" using kept(1) assms(3) by simp
  ultimately show thesis using kept(1) that by simp
qed

lemma kept_candidate:
  assumes "emapM (\<lambda>(_, ls). ecdsaRecordFactsForCandidates ls) m = Inr factss"
    "list_all2 (\<lambda>t row. target_row collation conflicts m t = Inr row) targets rows"
    "map_of (fold (\<lambda>(k, row). AList.update k (fst (snd row))) (zip (map thresholdEcdsaChainTargetKey targets) rows) []) k = Some cs"
    "AvailableEcdsaLane lane \<in> set cs"
  shows "\<exists>f. kept_fact (concat factss) conflicts f \<and> ef_lane f = lane"
proof -
  from map_of_fold_update [OF assms(3)] obtain row where row: "(k, row) \<in> set (zip (map thresholdEcdsaChainTargetKey targets) rows)" "fst (snd row) = cs"
    by auto
  from assms(2) row(1) obtain t where "target_row collation conflicts m t = Inr row"
    by (induction rule: list_all2_induct) auto
  from kept_row [OF assms(1) this] row(2) assms(4) show ?thesis by blast
qed

text \<open>
  C23: One key family has one key on every chain. When the lanes of a wallet are canonicalized and a lane is kept for each of two
  chains, both of the same wallet, factor, key material and signing root, then the two lanes have the same
  threshold key, key handle, public key, participants and owner address (up to the case of its letters);
  lanes that disagree are never offered for signing.
\<close>

theorem ecdsa_family_agrees:
  assumes "canonicalizeEcdsaAvailableLanes collation targets byTarget = Inr r"
    and "map_of (cl_candidatesByTarget r) k = Some cs" "AvailableEcdsaLane l \<in> set cs"
    and "map_of (cl_candidatesByTarget r) k' = Some cs'" "AvailableEcdsaLane l' \<in> set cs'"
    and "ecdsaLaneFamilyGroupKeyString l = ecdsaLaneFamilyGroupKeyString l'"
  shows "ek_ecdsaThresholdKeyId (el_key l) = ek_ecdsaThresholdKeyId (el_key l') \<and>
    pf_keyHandle (el_publicFacts l) = pf_keyHandle (el_publicFacts l') \<and>
    pf_publicKeyB64u (el_publicFacts l) = pf_publicKeyB64u (el_publicFacts l') \<and>
    pf_participantIds (el_publicFacts l) = pf_participantIds (el_publicFacts l') \<and>
    js_lower (pf_thresholdOwnerAddress (el_publicFacts l)) = js_lower (pf_thresholdOwnerAddress (el_publicFacts l'))"
proof -
  from assms(1) obtain factss conflicts rows where run:
      "emapM (\<lambda>(_, ls). ecdsaRecordFactsForCandidates ls) (collapse_ecdsa byTarget) = Inr factss"
      "ecdsaFamilyGroupConflicts (concat factss) = Inr conflicts"
      "list_all2 (\<lambda>t row. target_row collation conflicts (collapse_ecdsa byTarget) t = Inr row) targets rows"
      "cl_candidatesByTarget r = fold (\<lambda>(k, row). AList.update k (fst (snd row))) (zip (map thresholdEcdsaChainTargetKey targets) rows) []"
    by (rule canonicalize_rows)
  obtain f where f: "kept_fact (concat factss) conflicts f" "ef_lane f = l"
    using kept_candidate [OF run(1, 3) assms(2) [unfolded run(4)] assms(3)] by blast
  obtain g where g: "kept_fact (concat factss) conflicts g" "ef_lane g = l'"
    using kept_candidate [OF run(1, 3) assms(4) [unfolded run(4)] assms(5)] by blast
  have same: "read_field field l = read_field field l'" for field
    using kept_agrees [OF run(2) f(1), of g] f(2) g assms(6) by (auto simp: kept_fact_def)
  have "pf_participantIds (el_publicFacts l) = pf_participantIds (el_publicFacts l')"
    using f g same by (intro participants_inject) (auto simp: kept_fact_def)
  then show ?thesis using same [of KeyIdField] same [of OwnerAddressField] same [of KeyHandleField] same [of PublicKeyField] by simp
qed

section \<open>Canonicalizing twice\<close>

lemma update_absent: "k \<notin> fst ` set m \<Longrightarrow> AList.update k v m = m @ [(k, v)]"
  by (induction m) auto

lemma fold_update_distinct:
  assumes "distinct (map fst xs)" "fst ` set xs \<inter> fst ` set m = {}"
  shows "fold (\<lambda>(k, row). AList.update k (g row)) xs m = m @ map (\<lambda>(k, row). (k, g row)) xs"
  using assms
proof (induction xs arbitrary: m)
  case (Cons x xs)
  obtain k row where x: "x = (k, row)" by (cases x)
  with Cons.prems have "AList.update k (g row) m = m @ [(k, g row)]" by (intro update_absent) auto
  with Cons x show ?case by auto
qed simp

lemma emapM_pure: "(\<And>x. x \<in> set xs \<Longrightarrow> f x = Inr (g x)) \<Longrightarrow> emapM f xs = Inr (map g xs)"
  by (induction xs) auto

lemma emapM_all2: "list_all2 (\<lambda>x y. f x = Inr y) xs ys \<Longrightarrow> emapM f xs = Inr ys"
  by (induction rule: list_all2_induct) auto

lemma collapse_few: "length ls \<le> 1 \<Longrightarrow> collapseExactDuplicateAvailableLanes ls identityKey cmp = ls"
proof -
  assume "length ls \<le> 1"
  then consider "ls = []" | l where "ls = [l]" by (cases ls; cases "tl ls") auto
  then show ?thesis
    by cases (auto simp: collapseExactDuplicateAvailableLanes_def addToLaneGroup_def js_sort_def split: option.splits)
qed

lemma no_family_conflicts:
  assumes "\<And>f. f \<in> set facts \<Longrightarrow> ecdsaLaneFamilyGroupKeyString (ef_lane f) = Inr (fam f)"
    and "\<And>f g field. f \<in> set facts \<Longrightarrow> g \<in> set facts \<Longrightarrow> fam f = fam g \<Longrightarrow> read_field field (ef_lane f) = read_field field (ef_lane g)"
  shows "ecdsaFamilyGroupConflicts facts = Inr []"
proof -
  let ?m = "fold (\<lambda>(k, f). addToFamily k f) (zip (map fam facts) facts) []"
  have "facts_agree fs" if "(k, fs) \<in> set ?m" for k fs
  proof -
    have "map_of ?m k = Some fs" using that families_map_of by (metis map_of_is_SomeI)
    with families_map_of [of "zip (map fam facts) facts" k] have "fs = map snd (filter (\<lambda>x. fst x = k) (zip (map fam facts) facts))"
      by (auto split: list.splits)
    then have "f \<in> set facts \<and> fam f = k" if "f \<in> set fs" for f
      using that by (auto simp: zip_map1 zip_same in_set_zip)
    then show ?thesis unfolding facts_agree_def using assms(2) by metis
  qed
  then have "\<forall>x \<in> set ?m. ecdsaLaneGroupConflicts (ef_groupKey (hd (snd x))) (snd x) = []" by (auto simp: no_conflicts)
  moreover have "emapM (\<lambda>f. ecdsaLaneFamilyGroupKeyString (ef_lane f)) facts = Inr (map fam facts)" by (rule emapM_pure) (rule assms(1))
  ultimately show ?thesis by (auto simp: ecdsaFamilyGroupConflicts_def Let_def filter_empty_conv)
qed

lemma single_fact_selected:
  assumes "isEcdsaCanonicalFactOperationUsable (el_source (ef_lane f)) (el_state (ef_lane f))"
  shows "selection_row collation target [f] = (AvailableEcdsaLane (ef_lane f), [AvailableEcdsaLane (ef_lane f)], [])"
proof -
  have "ecdsaLaneGroupConflicts k [f] = []" for k by (simp add: no_conflicts facts_agree_def)
  with assms show ?thesis
    by (simp add: selection_row_def canonicalizeLaneFacts_def canonicalFactGroups_def addToGroup_def canonicalFactGroupConflicts_def
        ecdsaCanonicalLaneInventoryAdapter_def ecdsaCanonicalGroupConflicts_def canonicalizeSingleLaneFactGroup_def
        ecdsaCanonicalSupersession_def Let_def)
qed

lemma facts_of_few:
  "ecdsaRecordFactsForCandidates [] = Inr []"
  "kept_fact facts conflicts f \<Longrightarrow> ecdsaRecordFactsForCandidates [AvailableEcdsaLane (ef_lane f)] = Inr [f]"
  by (simp_all add: ecdsaRecordFactsForCandidates_def concrete_ecdsa_lanes_def List.map_filter_def kept_fact_def)

lemma kept_family: "kept_fact facts conflicts f \<Longrightarrow> \<exists>k. ecdsaLaneFamilyGroupKeyString (ef_lane f) = Inr k"
  by (auto simp: kept_fact_def ecdsaFactFamilyConflicts_def ebind_Inr_iff)

definition settled_row :: "EcdsaLaneRecordFact list \<Rightarrow> (string, EcdsaLaneConflict list) jsmap \<Rightarrow> chain_target \<Rightarrow> ecdsa_row \<Rightarrow> bool" where
  "settled_row facts conflicts target row \<longleftrightarrow>
     (\<exists>invalid. row = empty_row target invalid) \<or>
     (\<exists>f. kept_fact facts conflicts f \<and> row = (AvailableEcdsaLane (ef_lane f), [AvailableEcdsaLane (ef_lane f)], []))"

lemma row_settled:
  assumes "emapM (\<lambda>(_, ls). ecdsaRecordFactsForCandidates ls) m = Inr factss" "target_row collation conflicts m target = Inr row"
  shows "settled_row (concat factss) conflicts target row"
  using assms(2)
proof (cases rule: target_row_cases)
  case (empty invalid)
  then show ?thesis by (auto simp: settled_row_def)
next
  case (kept f facts)
  with candidate_fact [OF kept(2, 3)] target_fact_in_all [OF assms(1) kept(2, 3)] have "kept_fact (concat factss) conflicts f"
    by (simp add: kept_fact_def)
  with kept(1) show ?thesis by (auto simp: settled_row_def)
qed

lemma settled_row_again:
  assumes "settled_row facts conflicts target row" "target_candidates m target = fst (snd row)"
  shows "target_row collation [] m target = Inr (fst row, fst (snd row), [])"
  using assms(1) unfolding settled_row_def
proof (elim disjE exE conjE)
  fix invalid assume "row = empty_row target invalid"
  with assms(2) show ?thesis
    by (simp add: target_row_def facts_of_few selection_row_def canonicalizeLaneFacts_def empty_row_def)
next
  fix f assume f: "kept_fact facts conflicts f" and row: "row = (AvailableEcdsaLane (ef_lane f), [AvailableEcdsaLane (ef_lane f)], [])"
  obtain k where "ecdsaLaneFamilyGroupKeyString (ef_lane f) = Inr k" using kept_family [OF f] by blast
  then have "ecdsaFactFamilyConflicts f [] = Inr []" by (simp add: ecdsaFactFamilyConflicts_def)
  moreover have "isEcdsaCanonicalFactOperationUsable (el_source (ef_lane f)) (el_state (ef_lane f))" using f by (simp add: kept_fact_def)
  ultimately show ?thesis using assms(2) row by (simp add: target_row_def facts_of_few(2) [OF f] single_fact_selected)
qed

definition settled_facts :: "ecdsa_row \<Rightarrow> EcdsaLaneRecordFact list" where
  "settled_facts row = (case ecdsaRecordFactsForCandidates (fst (snd row)) of Inr fs \<Rightarrow> fs | Inl _ \<Rightarrow> [])"

lemma settled_row_facts:
  assumes "settled_row facts conflicts target row"
  shows "ecdsaRecordFactsForCandidates (fst (snd row)) = Inr (settled_facts row)" "f \<in> set (settled_facts row) \<Longrightarrow> kept_fact facts conflicts f"
    "length (fst (snd row)) \<le> 1"
proof -
  have "ecdsaRecordFactsForCandidates (fst (snd row)) = Inr (settled_facts row) \<and> (\<forall>f \<in> set (settled_facts row). kept_fact facts conflicts f) \<and>
      length (fst (snd row)) \<le> 1"
    using assms unfolding settled_row_def
  proof (elim disjE exE conjE)
    fix f assume "kept_fact facts conflicts f" "row = (AvailableEcdsaLane (ef_lane f), [AvailableEcdsaLane (ef_lane f)], [])"
    then show ?thesis by (simp add: settled_facts_def facts_of_few(2))
  qed (simp add: settled_facts_def facts_of_few empty_row_def)
  then show "ecdsaRecordFactsForCandidates (fst (snd row)) = Inr (settled_facts row)" "f \<in> set (settled_facts row) \<Longrightarrow> kept_fact facts conflicts f"
    "length (fst (snd row)) \<le> 1" by blast+
qed

lemma kept_facts_conflict_free:
  assumes "ecdsaFamilyGroupConflicts facts = Inr conflicts" "\<And>f. f \<in> set kept \<Longrightarrow> kept_fact facts conflicts f"
  shows "ecdsaFamilyGroupConflicts kept = Inr []"
proof (rule no_family_conflicts)
  let ?fam = "\<lambda>f. projr (ecdsaLaneFamilyGroupKeyString (ef_lane f))"
  show fam: "ecdsaLaneFamilyGroupKeyString (ef_lane f) = Inr (?fam f)" if "f \<in> set kept" for f
    using kept_family [OF assms(2) [OF that]] by auto
  fix f g field assume "f \<in> set kept" "g \<in> set kept" "?fam f = ?fam g"
  with fam [of f] fam [of g] assms(2) [of f] assms(2) [of g] show "read_field field (ef_lane f) = read_field field (ef_lane g)"
    by (intro kept_agrees [OF assms(1)]) (auto simp: kept_fact_def)
qed

text \<open>
  C24: The read canonicalizes the EVM-family lanes twice, and the second time changes nothing: it succeeds, keeps for every target the lane
  and the candidates of the first, and reports nothing more. The targets are those of the read, one per key.
\<close>

theorem ecdsa_canonical_idempotent:
  assumes "canonicalizeEcdsaAvailableLanes collation targets byTarget = Inr r" and "distinct (map thresholdEcdsaChainTargetKey targets)"
  shows "canonicalizeEcdsaAvailableLanes collation targets (cl_candidatesByTarget r) = Inr (r\<lparr>cl_invalid := []\<rparr>)"
proof -
  from assms(1) obtain factss conflicts rows where run:
      "emapM (\<lambda>(_, ls). ecdsaRecordFactsForCandidates ls) (collapse_ecdsa byTarget) = Inr factss"
      "ecdsaFamilyGroupConflicts (concat factss) = Inr conflicts"
      "list_all2 (\<lambda>t row. target_row collation conflicts (collapse_ecdsa byTarget) t = Inr row) targets rows"
      "cl_lanesByTarget r = fold (\<lambda>(k, row). AList.update k (fst row)) (zip (map thresholdEcdsaChainTargetKey targets) rows) []"
      "cl_candidatesByTarget r = fold (\<lambda>(k, row). AList.update k (fst (snd row))) (zip (map thresholdEcdsaChainTargetKey targets) rows) []"
    by (rule canonicalize_rows)
  let ?ks = "map thresholdEcdsaChainTargetKey targets" and ?F = "concat factss"
  have settled: "list_all2 (settled_row ?F conflicts) targets rows"
    using run(3) by (rule list_all2_mono) (rule row_settled [OF run(1)])
  then have len: "length targets = length rows" by (rule list_all2_lengthD)
  with assms(2) have keyed: "distinct (map fst (zip ?ks rows))" by simp
  have cands: "cl_candidatesByTarget r = map (\<lambda>(k, row). (k, fst (snd row))) (zip ?ks rows)"
    and lanes: "cl_lanesByTarget r = map (\<lambda>(k, row). (k, fst row)) (zip ?ks rows)"
    using fold_update_distinct [OF keyed, of "[]"] run(4, 5) by simp_all
  have settled_in: "\<exists>t. settled_row ?F conflicts t row" if "row \<in> set rows" for row
    using settled that by (induction rule: list_all2_induct) auto
  have collapsed: "collapse_ecdsa (cl_candidatesByTarget r) = cl_candidatesByTarget r"
    unfolding collapse_ecdsa_def cands
    by (auto intro!: map_idI collapse_few dest!: set_zip_rightD settled_in intro: settled_row_facts(3))
  have "emapM (\<lambda>(_, ls). ecdsaRecordFactsForCandidates ls) (cl_candidatesByTarget r) = Inr (map settled_facts rows)"
  proof (rule emapM_all2)
    have "ecdsaRecordFactsForCandidates (fst (snd (rows ! i))) = Inr (settled_facts (rows ! i))" if "i < length rows" for i
      using settled_in [OF nth_mem [OF that]] settled_row_facts(1) by blast
    then show "list_all2 (\<lambda>x y. (\<lambda>(_, ls). ecdsaRecordFactsForCandidates ls) x = Inr y) (cl_candidatesByTarget r) (map settled_facts rows)"
      by (simp add: cands list_all2_conv_all_nth len)
  qed
  moreover have "ecdsaFamilyGroupConflicts (concat (map settled_facts rows)) = Inr []"
    using run(2) by (rule kept_facts_conflict_free) (auto dest!: settled_in intro: settled_row_facts(2))
  moreover have "emapM (target_row collation [] (cl_candidatesByTarget r)) targets = Inr (map (\<lambda>row. (fst row, fst (snd row), [])) rows)"
  proof (rule emapM_all2)
    have "target_row collation [] (cl_candidatesByTarget r) (targets ! i) = Inr (fst (rows ! i), fst (snd (rows ! i)), [])"
      if "i < length rows" for i
    proof (rule settled_row_again)
      show "settled_row ?F conflicts (targets ! i) (rows ! i)" using settled that by (simp add: list_all2_conv_all_nth)
      have "(?ks ! i, fst (snd (rows ! i))) \<in> set (cl_candidatesByTarget r)"
        using that len by (force simp: cands set_zip)
      moreover have "distinct (map fst (cl_candidatesByTarget r))" using keyed by (simp add: cands comp_def case_prod_beta)
      ultimately have "map_of (cl_candidatesByTarget r) (?ks ! i) = Some (fst (snd (rows ! i)))" by (intro map_of_is_SomeI)
      then show "target_candidates (cl_candidatesByTarget r) (targets ! i) = fst (snd (rows ! i))"
        using that len by (simp add: target_candidates_def)
    qed
    then show "list_all2 (\<lambda>x y. target_row collation [] (cl_candidatesByTarget r) x = Inr y) targets (map (\<lambda>row. (fst row, fst (snd row), [])) rows)"
      by (simp add: list_all2_conv_all_nth len)
  qed
  moreover let ?rows = "map (\<lambda>row. (fst row, fst (snd row), [] :: EcdsaInvalidLane list)) rows"
  have "\<lparr>cl_lanesByTarget = fold (\<lambda>(k, row). AList.update k (fst row)) (zip ?ks ?rows) [],
      cl_candidatesByTarget = fold (\<lambda>(k, row). AList.update k (fst (snd row))) (zip ?ks ?rows) [],
      cl_invalid = concat (map (snd \<circ> snd) ?rows)\<rparr> = r\<lparr>cl_invalid := []\<rparr>"
    using assms(2) len
    by (intro EcdsaCanonicalLanes.equality) (simp_all add: fold_update_distinct cands lanes zip_map2 comp_def case_prod_beta)
  ultimately show ?thesis unfolding canonicalizeEcdsaAvailableLanes_def Let_def collapsed by simp
qed

section \<open>Examples\<close>

text \<open>The lanes of one key on an EVM chain and on Tempo.\<close>

definition sample_public_facts :: VerifiedEcdsaPublicFacts where
  "sample_public_facts = \<lparr>pf_object = 7, pf_keyHandle = ''h'', pf_publicKeyB64u = ''pk'', pf_participantIds = [1, 2],
     pf_thresholdOwnerAddress = ''0xA''\<rparr>"

definition sample_ecdsa_activation :: MpcMaterialActivationRef where
  "sample_ecdsa_activation = sample_activation\<lparr>ma_materialOwner := ''w''\<rparr>"

definition sample_ecdsa_authorization :: EcdsaSessionAuthorization where
  "sample_ecdsa_authorization = \<lparr>
     ea_authorization = \<lparr>au_authorityId = ''i'', au_authMethodKind = PasskeyMethod, au_walletAuthMethodId = ''m'',
       au_session = \<lparr>ws_walletId = ''w'', ws_authorityId = ''i'', ws_authMethodId = ''m'', ws_authorizationId = ''z'', ws_quotaId = ''q'',
         ws_authorityDigestB64u = ''d'', ws_authorityRevocationEpoch = 1\<rparr>,
       au_walletSessionId = ''ws'', au_token = ''t''\<rparr>,
     ea_remainingUses = 3, ea_expiresAtMs = 900\<rparr>"

definition sample_ecdsa_lane :: "chain_target \<Rightarrow> ConcreteEcdsaLane" where
  "sample_ecdsa_lane target = \<lparr>
     el_key = \<lparr>ek_walletId = ''w'', ek_ecdsaThresholdKeyId = ''id'', ek_signingRootId = ''r'', ek_signingRootVersion = ''1'',
       ek_participantIds = [1, 2], ek_thresholdOwnerAddress = ''0xA''\<rparr>,
     el_materialActivation = sample_ecdsa_activation, el_publicFacts = sample_public_facts, el_chainTarget = target, el_state = LaneReady,
     el_auth = PasskeyBinding ''rp'' ''c1'',
     el_resolvedKey = Some \<lparr>rk_kind = ''resolved_evm_family_ecdsa_key'', rk_authBindingKind = ''passkey_ecdsa_auth_binding'',
       rk_walletId = ''w'', rk_publicFacts = sample_public_facts\<rparr>,
     el_source = CanonicalCapability (''m'', ''d'') (Some sample_ecdsa_authorization), el_remainingUses = Some 3,
     el_expiresAtMs = Some 900, el_policyHint = None, el_updatedAtMs = Some 5\<rparr>"

definition sample_targets :: "chain_target list" where
  "sample_targets = [EvmTarget 1 ''ethereum'', TempoTarget 2 ''tempo'']"

definition sample_by_target :: "(string, AvailableEcdsaSigningLane list) jsmap" where
  "sample_by_target = map (\<lambda>t. (thresholdEcdsaChainTargetKey t, [AvailableEcdsaLane (sample_ecdsa_lane t)])) sample_targets"

definition sample_canonical_lanes :: EcdsaCanonicalLanes where
  "sample_canonical_lanes = \<lparr>
     cl_lanesByTarget = map (\<lambda>t. (thresholdEcdsaChainTargetKey t, AvailableEcdsaLane (sample_ecdsa_lane t))) sample_targets,
     cl_candidatesByTarget = sample_by_target, cl_invalid = []\<rparr>"

lemma sample_canonical_run: "canonicalizeEcdsaAvailableLanes default sample_targets sample_by_target = Inr sample_canonical_lanes"
  by code_simp

lemma sample_candidates:
  "map_of (cl_candidatesByTarget sample_canonical_lanes) (thresholdEcdsaChainTargetKey (EvmTarget 1 ''ethereum'')) =
     Some [AvailableEcdsaLane (sample_ecdsa_lane (EvmTarget 1 ''ethereum''))]"
  "map_of (cl_candidatesByTarget sample_canonical_lanes) (thresholdEcdsaChainTargetKey (TempoTarget 2 ''tempo'')) =
     Some [AvailableEcdsaLane (sample_ecdsa_lane (TempoTarget 2 ''tempo''))]"
  by (simp_all add: sample_canonical_lanes_def sample_by_target_def sample_targets_def thresholdEcdsaChainTargetKey_def)

theorem ecdsa_family_agrees_witness:
  "canonicalizeEcdsaAvailableLanes default sample_targets sample_by_target = Inr sample_canonical_lanes \<and>
   pf_publicKeyB64u (el_publicFacts (sample_ecdsa_lane (EvmTarget 1 ''ethereum''))) =
   pf_publicKeyB64u (el_publicFacts (sample_ecdsa_lane (TempoTarget 2 ''tempo'')))"
proof -
  have "ecdsaLaneFamilyGroupKeyString (sample_ecdsa_lane (EvmTarget 1 ''ethereum'')) =
      ecdsaLaneFamilyGroupKeyString (sample_ecdsa_lane (TempoTarget 2 ''tempo''))"
    by code_simp
  with sample_canonical_run
    ecdsa_family_agrees [OF sample_canonical_run sample_candidates(1) _ sample_candidates(2),
      of "sample_ecdsa_lane (EvmTarget 1 ''ethereum'')" "sample_ecdsa_lane (TempoTarget 2 ''tempo'')"]
  show ?thesis by simp
qed

theorem ecdsa_canonical_idempotent_witness:
  "canonicalizeEcdsaAvailableLanes default sample_targets (cl_candidatesByTarget sample_canonical_lanes) =
   Inr (sample_canonical_lanes\<lparr>cl_invalid := []\<rparr>)"
  by (rule ecdsa_canonical_idempotent [OF sample_canonical_run]) (simp add: sample_targets_def thresholdEcdsaChainTargetKey_def)

end
