(* ===== verification/EvmLaneSelection.thy ===== *)
theory EvmLaneSelection
  imports NearLaneSelection EcdsaLaneConsistency
begin

text \<open>
  The choice of the lane that signs an EVM-family transaction (\<open>session/identity/selectLane.ts\<close>,
  \<open>session/identity/laneIdentity.ts\<close>, \<open>session/identity/exactSigningLaneIdentity.ts\<close>) from the lanes that were read for its wallet.
\<close>

declare jfield.simps [simp del]

section \<open>Candidates\<close>

record EcdsaLaneCandidate =
  vc_walletId :: string
  vc_auth :: SigningLaneAuthBinding
  vc_key :: EvmFamilyEcdsaKeyIdentity
  vc_materialActivation :: MpcMaterialActivationRef
  vc_resolvedKey :: "ResolvedEvmFamilyEcdsaKey option"
  vc_keyHandle :: string
  vc_chainTarget :: chain_target
  vc_state :: AvailableSigningLaneState
  vc_authorization :: "EcdsaSessionAuthorization option"
  vc_runtime :: "ActiveWalletAuthorityEcdsaRuntime option"

definition candidate_runtime :: "EcdsaLaneSource \<Rightarrow> ActiveWalletAuthorityEcdsaRuntime option" where
  "candidate_runtime source = (case source of ActiveWalletAuthoritySource runtime _ \<Rightarrow> Some runtime | CanonicalCapability _ _ \<Rightarrow> None)"

definition ecdsaLaneCandidateFromAvailableLane :: "string \<Rightarrow> ConcreteEcdsaLane \<Rightarrow> js_error + EcdsaLaneCandidate option" where
  "ecdsaLaneCandidateFromAvailableLane wallet lane =
     (if \<not> isConcreteEcdsaLane lane then Inr None
      else ebind (lift_id (toWalletId (JStr wallet))) (\<lambda>walletId.
        Inr (Some \<lparr>vc_walletId = walletId, vc_auth = el_auth lane, vc_key = el_key lane,
          vc_materialActivation = el_materialActivation lane,
          vc_resolvedKey = (if signingLaneAuthMethod (el_auth lane) = PasskeyMethod then el_resolvedKey lane else None),
          vc_keyHandle = pf_keyHandle (el_publicFacts lane), vc_chainTarget = el_chainTarget lane,
          vc_state = (if lane_authorization (el_source lane) = None then LaneDeferred else el_state lane),
          vc_authorization = lane_authorization (el_source lane), vc_runtime = candidate_runtime (el_source lane)\<rparr>)))"

definition ecdsaCandidateAuthMethod :: "EcdsaLaneCandidate \<Rightarrow> SignerAuthMethod" where
  "ecdsaCandidateAuthMethod c = signingLaneAuthMethod (vc_auth c)"

record EvmTransactionIntent =
  vi_walletId :: string
  vi_chainTarget :: chain_target
  vi_authSelectionPolicy :: TransactionAuthSelectionPolicy

section \<open>Selected lanes\<close>

text \<open>A value that is not a text cannot occur in a lane; a missing one is reported with the name of its field.\<close>

definition parseActivationField :: "string \<Rightarrow> string \<Rightarrow> js_error + string" where
  "parseActivationField value fieldName =
     (case parseDomainId (JStr value) fieldName of Inr v \<Rightarrow> Inr v | Inl _ \<Rightarrow> Inl (new_Error (fieldName @ '' is required'')))"

definition parseMpcMaterialActivationRef :: "MpcMaterialActivationRef \<Rightarrow> js_error + MpcMaterialActivationRef" where
  "parseMpcMaterialActivationRef m =
     ebind (parseActivationField (ma_activationId m) ''mpcMaterialActivationId'') (\<lambda>activationId.
     ebind (parseActivationField (ma_capability m) ''capabilityInstanceRef'') (\<lambda>capability.
     ebind (parseActivationField (ma_materialOwner m) ''mpcMaterialOwnerRef'') (\<lambda>materialOwner.
     ebind (parseActivationField (ma_keyBinding m) ''mpcKeyBindingRef'') (\<lambda>keyBinding.
     ebind (parseActivationField (ma_lifecycleBinding m) ''mpcLifecycleBindingRef'') (\<lambda>lifecycleBinding.
     ebind (parseActivationField (ma_signingWorker m) ''mpcSigningWorkerRef'') (\<lambda>signingWorker.
       Inr \<lparr>ma_activationId = activationId, ma_capability = capability, ma_materialOwner = materialOwner, ma_keyBinding = keyBinding,
            ma_lifecycleBinding = lifecycleBinding, ma_signingWorker = signingWorker\<rparr>))))))"

record EvmFamilyEcdsaSignerBinding =
  sb_walletId :: string
  sb_chainTarget :: chain_target
  sb_keyHandle :: string
  sb_key :: EvmFamilyEcdsaKeyIdentity
  sb_materialActivation :: MpcMaterialActivationRef

definition buildEvmFamilyEcdsaSignerBinding ::
  "string \<Rightarrow> chain_target \<Rightarrow> string \<Rightarrow> EvmFamilyEcdsaKeyIdentity \<Rightarrow> MpcMaterialActivationRef \<Rightarrow> js_error + EvmFamilyEcdsaSignerBinding" where
  "buildEvmFamilyEcdsaSignerBinding wallet target keyHandle ek m =
     (if ek_walletId ek \<noteq> wallet then Inl (new_Error ''[SigningSession] exact ECDSA lane identity wallet mismatch'')
      else ebind (parseMpcMaterialActivationRef m) (\<lambda>activation.
        if ma_materialOwner activation \<noteq> wallet
        then Inl (new_Error ''[SigningSession] exact ECDSA lane material owner mismatch'')
        else ebind (lift_id (toWalletId (JStr wallet))) (\<lambda>walletId.
          Inr \<lparr>sb_walletId = walletId, sb_chainTarget = target, sb_keyHandle = keyHandle, sb_key = ek, sb_materialActivation = activation\<rparr>)))"

definition toEvmFamilyEcdsaKeyHandle :: "string \<Rightarrow> js_error + string" where
  "toEvmFamilyEcdsaKeyHandle value =
     (let normalized = js_trim value in
      if normalized = [] then Inl (new_Error ''[evm-family-ecdsa] keyHandle is required'') else Inr normalized)"

record SelectedEcdsaLane =
  se_signer :: EvmFamilyEcdsaSignerBinding
  se_auth :: SigningLaneAuthBinding
  se_materialActivation :: MpcMaterialActivationRef
  se_authorization :: EcdsaSessionAuthorization

definition selectedEcdsaLane :: "EcdsaLaneCandidate \<Rightarrow> EcdsaSessionAuthorization \<Rightarrow> js_error + SelectedEcdsaLane" where
  "selectedEcdsaLane c a =
     ebind (toEvmFamilyEcdsaKeyHandle (vc_keyHandle c)) (\<lambda>keyHandle.
       if ek_walletId (vc_key c) \<noteq> vc_walletId c
       then Inl (new_Error ''[SigningSession] selected ECDSA lane wallet mismatch'')
       else ebind (buildEvmFamilyEcdsaSignerBinding (vc_walletId c) (vc_chainTarget c) keyHandle (vc_key c) (vc_materialActivation c)) (\<lambda>signer.
         Inr \<lparr>se_signer = signer, se_auth = vc_auth c, se_materialActivation = vc_materialActivation c, se_authorization = a\<rparr>))"

definition selectedEvmFamilyLaneFromCandidate ::
  "EvmTransactionIntent \<Rightarrow> EcdsaLaneCandidate \<Rightarrow> EcdsaSessionAuthorization \<Rightarrow> js_error + SelectedEcdsaLane" where
  "selectedEvmFamilyLaneFromCandidate intent c a =
     (if \<not> thresholdEcdsaChainTargetsEqual (vc_chainTarget c) (vi_chainTarget intent)
      then Inl (new_Error ''[SigningSessionSelectLane] ECDSA available lane target mismatch'')
      else selectedEcdsaLane c a)"

section \<open>Selection\<close>

datatype EvmMaterialSelection =
    EvmAuthorized SelectedEcdsaLane EcdsaLaneCandidate ConcreteEcdsaLane
  | EvmAuthorizationRequired EcdsaLaneCandidate ConcreteEcdsaLane
  | EvmSelectionFailed TransactionLaneSelectionFailure

definition evm_candidates ::
  "EvmTransactionIntent \<Rightarrow> AvailableEcdsaSigningLane list \<Rightarrow> js_error + (ConcreteEcdsaLane \<times> EcdsaLaneCandidate) list" where
  "evm_candidates intent lanes =
     ebind (emapM (\<lambda>lane. ebind (ecdsaLaneCandidateFromAvailableLane (vi_walletId intent) lane) (\<lambda>c. Inr (map_option (Pair lane) c)))
       (concrete_ecdsa_lanes lanes)) (\<lambda>entries. Inr (List.map_filter id entries))"

definition selectEvmFamilyEcdsaMaterialCandidate :: "EvmTransactionIntent \<Rightarrow> ecdsa_lanes_read \<Rightarrow> js_error + EvmMaterialSelection" where
  "selectEvmFamilyEcdsaMaterialCandidate intent r =
     ebind (evm_candidates intent (target_candidates (cl_candidatesByTarget (er_lanes r)) (vi_chainTarget intent))) (\<lambda>candidates.
       let allowed = transactionCandidatesAllowedByAuthPolicy (vi_authSelectionPolicy intent) ecdsaCandidateAuthMethod candidates in
       if allowed = [] then Inr (EvmSelectionFailed (NoCandidate (policy_method (vi_authSelectionPolicy intent))))
       else case selectOnlyConcreteTransactionCandidate allowed of
           None \<Rightarrow> Inr (EvmSelectionFailed (AmbiguousCandidates (allowedAuthMethods ecdsaCandidateAuthMethod allowed)))
         | Some (lane, c) \<Rightarrow>
             (case vc_authorization c of
                None \<Rightarrow> Inr (EvmAuthorizationRequired c lane)
              | Some a \<Rightarrow> ebind (selectedEvmFamilyLaneFromCandidate intent c a) (\<lambda>selected. Inr (EvmAuthorized selected c lane))))"

datatype EvmLaneSelectionState =
    EvmLaneSelected SelectedEcdsaLane EcdsaLaneCandidate ConcreteEcdsaLane
  | EvmLaneSelectionFailed TransactionLaneSelectionFailure

definition selectEvmFamilyEcdsaTransactionLane :: "EvmTransactionIntent \<Rightarrow> ecdsa_lanes_read \<Rightarrow> js_error + EvmLaneSelectionState" where
  "selectEvmFamilyEcdsaTransactionLane intent r =
     ebind (selectEvmFamilyEcdsaMaterialCandidate intent r) (\<lambda>selection.
       Inr (case selection of
              EvmSelectionFailed failure \<Rightarrow> EvmLaneSelectionFailed failure
            | EvmAuthorizationRequired c _ \<Rightarrow> EvmLaneSelectionFailed (NoCandidate (Some (ecdsaCandidateAuthMethod c)))
            | EvmAuthorized selected c lane \<Rightarrow> EvmLaneSelected selected c lane))"

section \<open>Where a candidate comes from\<close>

lemma canonical_candidates:
  assumes "canonicalizeEcdsaAvailableLanes collation targets byTarget = Inr r" "map_of (cl_candidatesByTarget r) k = Some cs"
  shows "length cs \<le> 1"
    and "AvailableEcdsaLane lane \<in> set cs \<Longrightarrow> \<exists>ls. map_of byTarget k = Some ls \<and> AvailableEcdsaLane lane \<in> set ls"
proof -
  from assms(1) obtain factss conflicts rows where run:
      "emapM (\<lambda>(_, ls). ecdsaRecordFactsForCandidates ls) (collapse_ecdsa byTarget) = Inr factss"
      "list_all2 (\<lambda>t row. target_row collation conflicts (collapse_ecdsa byTarget) t = Inr row) targets rows"
      "cl_candidatesByTarget r = fold (\<lambda>(k, row). AList.update k (fst (snd row))) (zip (map thresholdEcdsaChainTargetKey targets) rows) []"
    by (rule canonicalize_rows)
  from map_of_fold_update [OF assms(2) [unfolded run(3)]] obtain row
    where row: "(k, row) \<in> set (zip (map thresholdEcdsaChainTargetKey targets) rows)" "fst (snd row) = cs" by auto
  from run(2) row(1) obtain t where t: "target_row collation conflicts (collapse_ecdsa byTarget) t = Inr row" "thresholdEcdsaChainTargetKey t = k"
    by (induction rule: list_all2_induct) auto
  from settled_row_facts(3) [OF row_settled [OF run(1) t(1)]] row(2) show "length cs \<le> 1" by simp
  assume lane: "AvailableEcdsaLane lane \<in> set cs"
  from t(1) show "\<exists>ls. map_of byTarget k = Some ls \<and> AvailableEcdsaLane lane \<in> set ls"
  proof (cases rule: target_row_cases)
    case (empty invalid)
    with lane row(2) show ?thesis by (simp add: empty_row_def)
  next
    case (kept f facts)
    then have "cs = [AvailableEcdsaLane (ef_lane f)]" using row(2) by simp
    then have "lane = ef_lane f" using lane by simp
    with candidate_fact(3) [OF kept(2, 3)] t(2) obtain ls where "map_of (collapse_ecdsa byTarget) k = Some ls" "AvailableEcdsaLane lane \<in> set ls"
      by (cases "map_of (collapse_ecdsa byTarget) k") (auto simp: target_candidates_def)
    then show ?thesis using collapsed_subset by (fastforce simp: collapsed_target)
  qed
qed

lemma grouped_candidate:
  assumes "map_of (fold (\<lambda>lane. addToLaneGroup (thresholdEcdsaChainTargetKey (el_chainTarget lane)) (AvailableEcdsaLane lane)) lanes m) k = Some ls"
    "AvailableEcdsaLane lane \<in> set ls"
  shows "(\<exists>ls'. map_of m k = Some ls' \<and> AvailableEcdsaLane lane \<in> set ls') \<or>
    lane \<in> set lanes \<and> thresholdEcdsaChainTargetKey (el_chainTarget lane) = k"
  using assms
proof (induction lanes arbitrary: m)
  case (Cons x lanes)
  let ?k = "thresholdEcdsaChainTargetKey (el_chainTarget x)"
  from Cons.IH [of "addToLaneGroup ?k (AvailableEcdsaLane x) m"] Cons.prems
  consider ls' where "map_of (addToLaneGroup ?k (AvailableEcdsaLane x) m) k = Some ls'" "AvailableEcdsaLane lane \<in> set ls'"
    | "lane \<in> set lanes" "thresholdEcdsaChainTargetKey (el_chainTarget lane) = k" by auto
  then show ?case
  proof cases
    case 1
    then show ?thesis by (cases "map_of m ?k") (auto simp: addToLaneGroup_def map_of_update_alist split: if_splits)
  qed simp
qed simp

lemma by_target_candidate:
  assumes "map_of (candidates_by_target targetsByKey lanes) k = Some ls" "AvailableEcdsaLane lane \<in> set ls"
  shows "lane \<in> set lanes \<and> thresholdEcdsaChainTargetKey (el_chainTarget lane) = k"
proof -
  have "map_of (map (\<lambda>(k, _). (k, [])) targetsByKey) k = Some ls' \<Longrightarrow> ls' = []" for ls' :: "AvailableEcdsaSigningLane list"
    by (induction targetsByKey) (auto split: if_splits)
  with grouped_candidate [OF assms(1) [unfolded candidates_by_target_def] assms(2)] show ?thesis by auto
qed

lemma owner_filtered:
  assumes "filter_by_owner (Some scope) byTarget = Inr owned" "map_of owned k = Some ls" "l \<in> set ls"
  shows "\<exists>ls'. map_of byTarget k = Some ls' \<and> l \<in> set ls' \<and> ecdsaLaneMatchesOwnerScope scope l = Inr True"
proof -
  have "list_all2 (\<lambda>x y. (\<lambda>(k, ls). ebind (owned_candidates scope ls) (\<lambda>owned. Inr (k, owned))) x = Inr y) byTarget owned"
    using assms(1) unfolding filter_by_owner_def option.case by (rule emapM_Inr)
  then have "\<exists>ls'. map_of byTarget k = Some ls' \<and> owned_candidates scope ls' = Inr ls" using assms(2)
    by (induction rule: list_all2_induct) (auto simp: ebind_Inr_iff split: if_splits)
  with assms(3) show ?thesis
    unfolding owned_candidates_def ebind_Inr_iff by (auto dest: emapM_filtered)
qed

lemma read_ecdsa_candidate:
  assumes "readEcdsaSigningLanes collation wallet chainTargets authMethod (Some scope) ports = Inr r"
    "map_of (cl_candidatesByTarget (er_lanes r)) k = Some cs"
  shows "length cs \<le> 1"
    and "AvailableEcdsaLane lane \<in> set cs \<Longrightarrow> lane \<in> set (ep_canonicalLanes ports @ ep_authorityLanes ports) \<and>
      ek_walletId (el_key lane) = wallet \<and> thresholdEcdsaChainTargetKey (el_chainTarget lane) = k \<and>
      ecdsaLaneMatchesOwnerScope scope (AvailableEcdsaLane lane) = Inr True"
proof -
  let ?targets = "map snd (ecdsa_targets chainTargets)"
  let ?accepted = "\<lambda>ls. if ?targets = [] then [] else accepted_lanes wallet authMethod (ecdsa_targets chainTargets) ls"
  obtain owned once again where steps:
      "filter_by_owner (Some scope) (candidates_by_target (ecdsa_targets chainTargets)
         (?accepted (ep_canonicalLanes ports) @ ?accepted (ep_authorityLanes ports))) = Inr owned"
      "canonicalizeEcdsaAvailableLanes collation ?targets owned = Inr once"
      "canonicalizeEcdsaAvailableLanes collation ?targets (cl_candidatesByTarget once) = Inr again" "er_lanes r = again"
    using assms(1) by (auto simp: readEcdsaSigningLanes_def Let_def ebind_Inr_iff split: if_splits)
  note again = canonical_candidates [OF steps(3) assms(2) [unfolded steps(4)]]
  show "length cs \<le> 1" by (rule again(1))
  assume "AvailableEcdsaLane lane \<in> set cs"
  from again(2) [OF this] obtain ls where "map_of (cl_candidatesByTarget once) k = Some ls" "AvailableEcdsaLane lane \<in> set ls" by blast
  from canonical_candidates(2) [OF steps(2) this] obtain ls' where "map_of owned k = Some ls'" "AvailableEcdsaLane lane \<in> set ls'" by blast
  from owner_filtered [OF steps(1) this] by_target_candidate
  show "lane \<in> set (ep_canonicalLanes ports @ ep_authorityLanes ports) \<and> ek_walletId (el_key lane) = wallet \<and>
      thresholdEcdsaChainTargetKey (el_chainTarget lane) = k \<and> ecdsaLaneMatchesOwnerScope scope (AvailableEcdsaLane lane) = Inr True"
    by (fastforce simp: accepted_lanes_def split: if_splits)
qed

section \<open>The session that signs\<close>

lemma map_filter_length: "length (List.map_filter f xs) \<le> length xs"
  by (simp add: List.map_filter_def)

lemma evm_candidates_Inr:
  assumes "evm_candidates intent ls = Inr candidates"
  shows "length candidates \<le> length ls"
    and "(lane, c) \<in> set candidates \<Longrightarrow> AvailableEcdsaLane lane \<in> set ls \<and> isConcreteEcdsaLane lane \<and>
      ecdsaLaneCandidateFromAvailableLane (vi_walletId intent) lane = Inr (Some c)"
proof -
  let ?f = "\<lambda>lane. ebind (ecdsaLaneCandidateFromAvailableLane (vi_walletId intent) lane) (\<lambda>c. Inr (map_option (Pair lane) c))"
  obtain entries where entries: "emapM ?f (concrete_ecdsa_lanes ls) = Inr entries" "candidates = List.map_filter id entries"
    using assms by (auto simp: evm_candidates_def ebind_Inr_iff)
  have "length entries = length (concrete_ecdsa_lanes ls)" using emapM_Inr [OF entries(1)] by (simp add: list_all2_lengthD)
  then show "length candidates \<le> length ls" using entries(2) map_filter_length unfolding concrete_ecdsa_lanes_def by (metis le_trans)
  assume "(lane, c) \<in> set candidates"
  with emapM_filter_id [OF entries(1)] entries(2) obtain x where "x \<in> set (concrete_ecdsa_lanes ls)" "?f x = Inr (Some (lane, c))" by blast
  then show "AvailableEcdsaLane lane \<in> set ls \<and> isConcreteEcdsaLane lane \<and> ecdsaLaneCandidateFromAvailableLane (vi_walletId intent) lane = Inr (Some c)"
    by (auto simp: set_concrete_lanes ebind_Inr_iff)
qed

lemma allowed_subset:
  "set (transactionCandidatesAllowedByAuthPolicy policy method_of cs) \<subseteq> {(l, c) \<in> set cs. policy_method policy \<in> {None, Some (method_of c)}}"
  "length (transactionCandidatesAllowedByAuthPolicy policy method_of cs) \<le> length cs"
  by (auto simp: transactionCandidatesAllowedByAuthPolicy_def split: option.splits)

lemma candidate_fields:
  assumes "ecdsaLaneCandidateFromAvailableLane wallet lane = Inr (Some c)"
  shows "vc_walletId c = js_trim wallet" "vc_auth c = el_auth lane" "vc_key c = el_key lane" "vc_materialActivation c = el_materialActivation lane"
    "vc_chainTarget c = el_chainTarget lane" "vc_authorization c = lane_authorization (el_source lane)" "isConcreteEcdsaLane lane"
  using assms
  by (auto simp: ecdsaLaneCandidateFromAvailableLane_def ebind_Inr_iff lift_id_def dest!: wallet_id_trimmed
      split: if_splits sum.splits nonce_error.splits)

lemma activation_owner: "parseMpcMaterialActivationRef m = Inr m' \<Longrightarrow> ma_materialOwner m' = js_trim (ma_materialOwner m)"
  by (auto simp: parseMpcMaterialActivationRef_def ebind_Inr_iff parseActivationField_def parseDomainId_def Let_def split: if_splits)

lemma selected_ecdsa_fields:
  assumes "selectedEvmFamilyLaneFromCandidate intent c a = Inr selected"
  shows "thresholdEcdsaChainTargetsEqual (vc_chainTarget c) (vi_chainTarget intent)" "ek_walletId (vc_key c) = vc_walletId c"
    "js_trim (ma_materialOwner (vc_materialActivation c)) = vc_walletId c" "se_auth selected = vc_auth c" "se_authorization selected = a"
    "sb_key (se_signer selected) = vc_key c" "sb_chainTarget (se_signer selected) = vc_chainTarget c"
  using assms
  by (auto simp: selectedEvmFamilyLaneFromCandidate_def selectedEcdsaLane_def buildEvmFamilyEcdsaSignerBinding_def ebind_Inr_iff
      dest: activation_owner split: if_splits)

lemma read_target_candidates:
  fixes target :: chain_target
  assumes "readEcdsaSigningLanes collation wallet chainTargets authMethod (Some scope) ports = Inr r"
  defines "ls \<equiv> target_candidates (cl_candidatesByTarget (er_lanes r)) target"
  shows "length ls \<le> 1"
    and "AvailableEcdsaLane lane \<in> set ls \<Longrightarrow> lane \<in> set (ep_canonicalLanes ports @ ep_authorityLanes ports) \<and>
      ek_walletId (el_key lane) = wallet \<and> ecdsaLaneMatchesOwnerScope scope (AvailableEcdsaLane lane) = Inr True"
proof -
  show "length ls \<le> 1"
    using read_ecdsa_candidate(1) [OF assms(1)] by (auto simp: ls_def target_candidates_def split: option.splits)
  assume lane: "AvailableEcdsaLane lane \<in> set ls"
  show "lane \<in> set (ep_canonicalLanes ports @ ep_authorityLanes ports) \<and> ek_walletId (el_key lane) = wallet \<and>
      ecdsaLaneMatchesOwnerScope scope (AvailableEcdsaLane lane) = Inr True"
  proof (cases "map_of (cl_candidatesByTarget (er_lanes r)) (thresholdEcdsaChainTargetKey target)")
    case (Some cs)
    with lane read_ecdsa_candidate(2) [OF assms(1) Some] show ?thesis by (simp add: ls_def target_candidates_def)
  qed (use lane in \<open>simp add: ls_def target_candidates_def\<close>)
qed

text \<open>With at most one lane for the target the selection is that lane, or there is none.\<close>

lemma evm_selection_cases:
  assumes "length (target_candidates (cl_candidatesByTarget (er_lanes r)) (vi_chainTarget intent)) \<le> 1"
  obtains (failed) "\<And>selected c lane methods. selectEvmFamilyEcdsaTransactionLane intent r \<noteq> Inr (EvmLaneSelected selected c lane) \<and>
      selectEvmFamilyEcdsaTransactionLane intent r \<noteq> Inr (EvmLaneSelectionFailed (AmbiguousCandidates methods))"
  | (selected) lane c a selected where "selectEvmFamilyEcdsaTransactionLane intent r = Inr (EvmLaneSelected selected c lane)"
    "AvailableEcdsaLane lane \<in> set (target_candidates (cl_candidatesByTarget (er_lanes r)) (vi_chainTarget intent))"
    "ecdsaLaneCandidateFromAvailableLane (vi_walletId intent) lane = Inr (Some c)" "vc_authorization c = Some a"
    "selectedEvmFamilyLaneFromCandidate intent c a = Inr selected"
    "policy_method (vi_authSelectionPolicy intent) \<in> {None, Some (ecdsaCandidateAuthMethod c)}"
proof (cases "evm_candidates intent (target_candidates (cl_candidatesByTarget (er_lanes r)) (vi_chainTarget intent))")
  case (Inl e)
  then show thesis by (intro failed) (simp add: selectEvmFamilyEcdsaTransactionLane_def selectEvmFamilyEcdsaMaterialCandidate_def)
next
  case (Inr candidates)
  let ?allowed = "transactionCandidatesAllowedByAuthPolicy (vi_authSelectionPolicy intent) ecdsaCandidateAuthMethod candidates"
  note select = selectEvmFamilyEcdsaTransactionLane_def selectEvmFamilyEcdsaMaterialCandidate_def Inr Let_def
  have "length ?allowed \<le> 1" using assms evm_candidates_Inr(1) [OF Inr] allowed_subset(2) by (metis le_trans)
  then consider "?allowed = []" | lane c where "?allowed = [(lane, c)]" by (cases ?allowed; cases "tl ?allowed") auto
  then show thesis
  proof cases
    case 1
    then show thesis by (intro failed) (simp add: select)
  next
    case (2 lane c)
    then have c: "(lane, c) \<in> set candidates" "policy_method (vi_authSelectionPolicy intent) \<in> {None, Some (ecdsaCandidateAuthMethod c)}"
      using allowed_subset(1) [of "vi_authSelectionPolicy intent" ecdsaCandidateAuthMethod candidates] by simp_all
    consider "vc_authorization c = None" | a e where "vc_authorization c = Some a" "selectedEvmFamilyLaneFromCandidate intent c a = Inl e"
      | a selected where "vc_authorization c = Some a" "selectedEvmFamilyLaneFromCandidate intent c a = Inr selected"
      by (metis not_None_eq old.sum.exhaust)
    then show thesis
    proof cases
      case (3 a selected)
      with 2 have "selectEvmFamilyEcdsaTransactionLane intent r = Inr (EvmLaneSelected selected c lane)" by (simp add: select)
      with 3 c(2) evm_candidates_Inr(2) [OF Inr c(1)] show thesis by (intro selected) auto
    qed (use 2 failed in \<open>simp_all add: select\<close>)
  qed
qed

text \<open>
  C22: An EVM-family transaction signs with a lane of its wallet and owner, and the choice is never ambiguous. After the lanes of a wallet
  have been read for an owner, the selection for an intent never reports several candidates; and a lane it selects is one of the lanes the stores
  listed, on the chain of the intent, with a key and key material of the wallet that was read, which is the wallet of the
  intent, held by the factor and the authority of the owner, and with a factor the intent allows. The selected lane is authorized by
  the authorization of that lane, whose uses and expiry are the ones the lane shows.
\<close>

theorem evm_signing_session:
  assumes "readEcdsaSigningLanes collation wallet chainTargets authMethod (Some scope) ports = Inr r"
  shows "case selectEvmFamilyEcdsaTransactionLane intent r of
      Inr (EvmLaneSelected selected c lane) \<Rightarrow>
        lane \<in> set (ep_canonicalLanes ports @ ep_authorityLanes ports) \<and>
        thresholdEcdsaChainTargetsEqual (sb_chainTarget (se_signer selected)) (vi_chainTarget intent) \<and>
        sb_key (se_signer selected) = el_key lane \<and> ek_walletId (el_key lane) = wallet \<and> wallet = js_trim (vi_walletId intent) \<and>
        js_trim (ma_materialOwner (el_materialActivation lane)) = wallet \<and> se_auth selected = el_auth lane \<and>
        signingLaneAuthBindingKey (el_auth lane) = signingLaneAuthBindingKey (os_auth scope) \<and> ownerAuthorityMatchesLane lane scope \<and>
        policy_method (vi_authSelectionPolicy intent) \<in> {None, Some (signingLaneAuthMethod (el_auth lane))} \<and>
        lane_authorization (el_source lane) = Some (se_authorization selected) \<and>
        el_remainingUses lane = Some (ea_remainingUses (se_authorization selected)) \<and>
        el_expiresAtMs lane = Some (ea_expiresAtMs (se_authorization selected))
    | Inr (EvmLaneSelectionFailed (AmbiguousCandidates _)) \<Rightarrow> False
    | _ \<Rightarrow> True"
proof (cases rule: evm_selection_cases [OF read_target_candidates(1) [OF assms, of "vi_chainTarget intent"]])
  case 1
  then show ?thesis
    by (auto split: sum.splits EvmLaneSelectionState.splits TransactionLaneSelectionFailure.splits)
next
  case (2 lane c a selected)
  note from_lane = candidate_fields [OF 2(3)]
  note chosen = selected_ecdsa_fields [OF 2(5)]
  note source = read_target_candidates(2) [OF assms 2(2)]
  have "ecdsaAuthorizationPolicyMatchesLane lane (Some a)"
    using from_lane(6, 7) 2(4) by (cases "el_source lane") (auto simp: isConcreteEcdsaLane_def)
  then show ?thesis using 2(1, 4, 6) from_lane chosen source
    by (auto simp: ecdsaAuthorizationPolicyMatchesLane_def ecdsaLaneMatchesOwnerScope_def ebind_Inr_iff ecdsaCandidateAuthMethod_def)
qed

definition sample_ecdsa_ports :: ecdsa_lane_ports where
  "sample_ecdsa_ports = \<lparr>ep_canonicalLanes = map sample_ecdsa_lane sample_targets, ep_authorityLanes = []\<rparr>"

definition sample_evm_intent :: EvmTransactionIntent where
  "sample_evm_intent = \<lparr>vi_walletId = ''w'', vi_chainTarget = EvmTarget 1 ''ethereum'', vi_authSelectionPolicy = AnyAuthMethod\<rparr>"

definition sample_ecdsa_read :: ecdsa_lanes_read where
  "sample_ecdsa_read = \<lparr>er_generation = 5, er_lanes = sample_canonical_lanes, er_invalid = []\<rparr>"

lemma sample_owned:
  "filter_by_owner (Some sample_scope) (candidates_by_target (ecdsa_targets sample_targets)
     (accepted_lanes ''w'' None (ecdsa_targets sample_targets) (map sample_ecdsa_lane sample_targets))) = Inr sample_by_target"
  by code_simp

lemma sample_ecdsa_read_run: "readEcdsaSigningLanes default ''w'' sample_targets None (Some sample_scope) sample_ecdsa_ports = Inr sample_ecdsa_read"
proof -
  have "map snd (ecdsa_targets sample_targets) = sample_targets" by code_simp
  moreover have "ecdsa_targets sample_targets \<noteq> []" "sample_targets \<noteq> []" by code_simp+
  moreover have "accepted_lanes ''w'' None (ecdsa_targets sample_targets) (map sample_ecdsa_lane sample_targets) = map sample_ecdsa_lane sample_targets"
    by code_simp
  moreover have "fold (\<lambda>lane g. max g (floor_or_zero (el_updatedAtMs lane))) (map sample_ecdsa_lane sample_targets) 0 = 5"
    by (simp add: sample_targets_def sample_ecdsa_lane_def floor_or_zero_def)
  moreover have "cl_candidatesByTarget sample_canonical_lanes = sample_by_target" "cl_invalid sample_canonical_lanes = []"
    by (simp_all add: sample_canonical_lanes_def)
  moreover have "accepted_lanes ''w'' None (ecdsa_targets sample_targets) [] = []" by (simp add: accepted_lanes_def)
  ultimately show ?thesis using sample_owned sample_canonical_run
    by (simp add: readEcdsaSigningLanes_def sample_ecdsa_ports_def sample_ecdsa_read_def Let_def)
qed

lemma sample_evm_selected:
  "case selectEvmFamilyEcdsaTransactionLane sample_evm_intent sample_ecdsa_read of
     Inr (EvmLaneSelected selected c lane) \<Rightarrow> True | _ \<Rightarrow> False"
  by code_simp

theorem evm_signing_session_witness:
  "\<exists>selected c lane. selectEvmFamilyEcdsaTransactionLane sample_evm_intent sample_ecdsa_read = Inr (EvmLaneSelected selected c lane) \<and>
     lane \<in> set (map sample_ecdsa_lane sample_targets) \<and> ek_walletId (el_key lane) = ''w''"
proof -
  obtain selected c lane where "selectEvmFamilyEcdsaTransactionLane sample_evm_intent sample_ecdsa_read = Inr (EvmLaneSelected selected c lane)"
    using sample_evm_selected by (auto split: sum.splits EvmLaneSelectionState.splits)
  with evm_signing_session [OF sample_ecdsa_read_run, of sample_evm_intent] show ?thesis by (auto simp: sample_ecdsa_ports_def)
qed

end
