(* ===== verification/Spec2Isabelle.thy ===== *)
theory Spec2Isabelle
  imports LaneProperties StoreProperties LaneLocks DurableLock EvmReceiptVerdicts EvmSigningGuarantees SigningOperationMachine EvmLaneSelection
begin

text \<open>
  \<^bold>\<open>Nonce coordination of the Seams wallet.\<close>

  The wallet signs transactions for EVM chains and for NEAR. Every transaction needs a nonce that no
  other transaction of the same account uses. The subsystem under
  \<open>src/packages/wallet/src/core/signingEngine/nonce\<close> hands nonces out as leases, follows each lease from
  its reservation to the outcome of its transaction, keeps the leases of all tabs of an origin apart by
  records in IndexedDB and by locks, and recovers them after a restart. This library models that
  subsystem, with the part of the wallet database it stores its records and locks in, the EVM client that
  follows a broadcast transaction, the flow that signs EVM-family transactions with a reserved nonce, and
  the choice of the lane, the planning, the review and the authentication of a signing operation, and proves what
  makes them correct.

  \<^bold>\<open>Parts and theories.\<close> Paths are relative to \<open>src/packages/wallet/src/core\<close> unless they name a package.

  \<^item> \<open>Prelude\<close>: JavaScript strings, \<open>BigInt\<close> and decimal text, insertion-ordered maps, untyped values, and
    the monad of state and exceptions with its invariant rules (\<open>jinv\<close>) and triples (\<open>jvalid\<close>).
  \<^item> \<open>NonceTypes\<close> (\<open>nonceTypes.ts\<close>): lanes, leases, records, events, errors.
  \<^item> \<open>NonceLeaseStates\<close> (\<open>nonceLeaseState.ts\<close>): the lease state machine, one function per transition. The
    locale for lease histories gives: a finished lease never holds a nonce again, a signed lease is never
    released unsigned, at most four changes of state.
  \<^item> \<open>Codec\<close>, \<open>NonceLaneKeys\<close> (\<open>nonceLaneKeys.ts\<close>, \<open>nonceUtils.ts\<close>): lane keys and lease ids. The locale
    \<open>field_codec\<close> of self-delimiting encodings gives that keys identify lanes.
  \<^item> \<open>EvmNonceLanes\<close> (\<open>evmNonceLane.ts\<close>): the state of an EVM lane, refresh from the chain, choice of a
    candidate, in-flight transactions, detection of a blocked lane.
  \<^item> \<open>EvmNonceBackend\<close> (\<open>rpcClients/evm/nonceBackend.ts\<close>): snapshots of reservations, which read back to the
    same reservation, and the two chain queries, which only reach the endpoint of a configured chain with
    the right chain id. Its requests are an argument.
  \<^item> \<open>EvmRpcClient\<close> (\<open>rpcClients/evm/EvmClient.ts\<close>, \<open>jsonRpc.ts\<close> and \<open>evmRpcResults.ts\<close> of \<open>shared-ts\<close>): a JSON-RPC
    request over the configured endpoints, the decoders and the four queries. The network is a function of
    the environment, and each request is logged with its answer. The locales \<open>outside_relation\<close> and
    \<open>rpc_relation\<close> say what requests keep; a result comes from the first usable endpoint.
  \<^item> \<open>EvmReceiptWait\<close>, \<open>EvmReceiptVerdicts\<close> (\<open>waitForTransactionReceipt\<close> of \<open>EvmClient.ts\<close>): the polling loop, one
    definition per branch of a poll. It ends after a bounded number of requests, returns only a confirmed
    receipt of the transaction, and gives it up only with the answers and after the time its verdicts
    stand for. The locales \<open>wait_relation\<close> and \<open>wait_verdicts\<close> carry the invariants and the errors through
    the branches.
  \<^item> \<open>EvmSigningErrors\<close>, \<open>EvmSigningRequests\<close> (\<open>errors.ts\<close>, \<open>types.ts\<close>, \<open>nonceResolution.ts\<close>, \<open>addresses.ts\<close> of
    \<open>signingEngine/flows/signEvmFamily\<close>): thrown values and their retryable forms, a classification that mapping
    twice does not change; signing requests, the network and the sender a nonce is reserved for.
  \<^item> \<open>EvmNonceLifecycle\<close>, \<open>EvmNonceReports\<close>, \<open>EvmSigningExamples\<close> (\<open>nonceLifecycleAdapter.ts\<close>, \<open>evmNonceLifecycle.ts\<close>,
    \<open>tempoNonceLifecycle.ts\<close>, \<open>events.ts\<close>): reserving for a request and reporting the outcome of a signed
    transaction, with the emitted events. The state \<open>flow\<close> is the coordinator's with the event log. A report
    settles the lease its snapshot names; a rejection is retried exactly when its message speaks of the nonce.
  \<^item> \<open>EvmSigningFlow\<close>, \<open>EvmSigningGuarantees\<close> (\<open>signingFlow.ts\<close>, \<open>transactionExecutor.ts\<close>): the confirmation flow and the
    executor around it. The locale \<open>managed_nonce_port\<close> states what the flow asks of a reservation function; it is
    interpreted on the EVM and Tempo reservations and on the executor's compositions of them. A run that
    reserves a nonce signs with it or gives it back while the lane locks are granted, with one order of events excepted.
  \<^item> \<open>SigningSessionPlanner\<close> (\<open>planner.ts\<close>, \<open>types.ts\<close>, \<open>preparedOperation.ts\<close> and others of \<open>signingEngine/session\<close>): the lanes a
    wallet signs on, the plan for a lane and its readiness, and the authentication the confirmation asks for.
    A transaction is signed without authentication exactly when readiness, caller and policy allow it.
  \<^item> \<open>SigningOperationMachine\<close> (\<open>signingStateMachine.ts\<close> and \<open>signingConfirmation.ts\<close> of \<open>signingEngine/flows/shared\<close>): the
    states of one signing operation, the steps of a plan and the run of their commands, with the command
    sequence of \<open>signingFlow.ts\<close>. Nothing is signed before review and authentication, a cancelled operation
    stays cancelled, and running with a ready plan is running those of its commands that were requested, in order.
  \<^item> \<open>LaneInventory\<close> (\<open>session/availability/canonicalLaneInventory.ts\<close>): the choice of one among the stored facts about a
    lane. The locale \<open>supersession\<close> asks of the tie-break that it is a comparator, and gives that a chosen fact is the
    greatest, so that no order of the facts leads to another one, and that facts that do not tie have one.
  \<^item> \<open>NearSigningLanes\<close> (the NEAR part of \<open>session/availability/availableSigningLanes.ts\<close>): from sealed records and public
    references to the lanes a wallet can sign NEAR transactions on. One lane is kept per signer, the one that
    expires last; group keys identify signers, by \<open>field_codec\<close> for \<open>encodeURIComponent\<close>.
  \<^item> \<open>NearLaneSelection\<close> (\<open>session/identity/selectLane.ts\<close>, \<open>laneIdentity.ts\<close>): the lane that signs a transaction is the only one
    that fits its intent; read and selection together use the active session of the right wallet and factor.
  \<^item> \<open>EcdsaSigningLanes\<close>, \<open>EcdsaLaneConsistency\<close> (the ECDSA part of \<open>availableSigningLanes.ts\<close>): the EVM-family lanes of a wallet, at
    most one per chain. The lanes of one key family agree about the key on every chain, and the second canonicalization of
    the read changes nothing. \<open>supersession\<close> is interpreted on their order too.
  \<^item> \<open>EvmLaneSelection\<close> (\<open>selectLane.ts\<close>, \<open>laneIdentity.ts\<close>, \<open>exactSigningLaneIdentity.ts\<close>): the lane that signs an EVM-family transaction;
    after a read it is never ambiguous, and it belongs to the wallet, the owner and the chain of the intent.
  \<^item> \<open>ChainTargets\<close> (\<open>interfaces/ecdsaChainTarget.ts\<close>, \<open>config/chains.ts\<close>, the id parsers of
    \<open>shared-ts\<close>): chain targets, chain families, wallet and account names.
  \<^item> \<open>NearNonceLanes\<close>, \<open>NearReadiness\<close> (\<open>nearNonceLane.ts\<close>, \<open>nearNonceLaneIdentity.ts\<close>): the NEAR access-key
    lifecycle, fetching and freshness of the transaction context, reservation of nonces, reconciliation.
  \<^item> \<open>NonceRecords\<close>, \<open>NonceRecordRoundtrip\<close> (\<open>nonceCoordinationRecordBoundary.ts\<close>,
    \<open>indexedDB/nonceLaneCoordinationStore.ts\<close>, \<open>indexedDB/seamsWalletDB/nonceLeaseRows.ts\<close>): durable records, their
    rows and both parsers; what is written is read back.
  \<^item> \<open>NonceStore\<close> (\<open>indexedDB/seamsWalletDB/repositories.ts\<close>): the lease table and its operations. The locale
    \<open>coordination_store\<close> states the contract (a write is visible, a removal takes its id only, sweeps keep
    broadcast records) and is interpreted on the rows.
  \<^item> \<open>NonceDiagnostics\<close> (\<open>nonceDiagnostics.ts\<close>): degradations, alerts, outcome metrics, the report.
  \<^item> \<open>CoordinatorState\<close>, \<open>NonceCoordinator\<close> (\<open>NonceCoordinator.ts\<close>): the closure variables of
    \<open>createNonceCoordinator\<close> as the record \<open>coord\<close>, its dependencies as \<open>coord_env\<close>, every internal function and
    every method of the returned object as a definition of the same name.
  \<^item> \<open>CoordinatorRelations\<close>, \<open>CoordinatorInvariants\<close>: the locales \<open>coord_outside\<close>, \<open>coord_base\<close>, \<open>coord_relation\<close>
    and their extensions prove once that a relation kept by the primitive changes is kept by every
    operation; the interpretations are the invariants (well-formedness, same leases, metrics, lawful
    lease moves). \<open>coord_reach\<close> are the states a coordinator goes through.
  \<^item> \<open>NonceExclusion\<close>, \<open>CoordinatorProperties\<close>: nonces of active leases are distinct in every reachable
    state, calls settle exactly the lease they name, foreign calls change nothing.
  \<^item> \<open>ReserveResults\<close>, \<open>ReserveProgress\<close>: what a reservation returns, and when it is certain to return.
  \<^item> \<open>CrossRuntime\<close>: two runtimes that share only the store reserve different nonces of an EVM lane. The locale
    \<open>lane_reading\<close> says what the reads of a reservation keep of the store.
  \<^item> \<open>LaneLocks\<close>: the promise chain \<open>withLocalLaneLock\<close> as a system of interleaved calls; exclusion,
    refinement of a queue per lane, progress, and what \<open>clearAll\<close> does to it.
  \<^item> \<open>DurableLock\<close> (\<open>withNonceLaneCoordinationLock\<close> of \<open>repositories.ts\<close>): the lock rows with expiry and
    fencing tokens as a system of interleaved callers; exclusion within the time to live, bounded
    polling, and that a task can outlive its lock.
  \<^item> \<open>CoordinatorExamples\<close>, \<open>LaneProperties\<close>, \<open>StoreProperties\<close>: concrete states, and the properties of single
    components.

  \<^bold>\<open>How the model relates to the code.\<close> A \<open>Map\<close> is an association list in insertion order, a \<open>Set\<close> a list
  without repetitions; \<open>bigint\<close> values and times are \<open>int\<close>; a stored object is a \<^typ>\<open>jsval\<close>, where \<open>JNum\<close>
  is a safe integer and every other number is opaque. Characters are those of \<^typ>\<open>char\<close>, so case
  mapping and white space are those of Latin-1. An exception is \<^const>\<open>Inl\<close> of a \<^typ>\<open>nonce_error\<close>, with the state as it
  was when it was thrown.

  What comes from outside (clock, random ids, RPC answers, the outcome of store transactions and lock
  requests) is a function of the number of outside interactions so far; the theorems hold for every such
  function, so for every behaviour of the outside world. The operations of the coordinator are atomic:
  each runs under the lock of its lane, and the two lock theories justify this, with the exceptions their
  last theorems show. Operations of different lanes that overlap in time are not modelled, and neither is
  the moment between the start of a fire-and-forget store call and its end.

  Between two calls the rows of the shared store may change in any way that keeps them keyed by lease id
  (\<open>reach_store\<close>), because other runtimes write to them.

  In the signing flow, building the intent, the confirmation, the authorization check and the signatures
  are arguments with any outcome; they do not touch the coordinator. The preparation runs beside the
  confirmation only for an active wallet authority; the argument of \<open>ActiveWalletAuthority\<close> says which of
  the two ends first. The messages of coordinator errors other than a blocked lane and the lookup of the
  active signer are part of the environment \<open>flow_env\<close>.

  In the lane theories the records, references and the active authorization that the ports return are arguments, and so are
  the digest of an authority (\<open>walletAuthAuthorityRef\<close>) and \<open>localeCompare\<close>, which is any comparator. Public facts that the
  code compares by identity carry a number for the object. One read of
  the lanes uses one reading of the clock; the selection has two later readings of its own.

  \<^bold>\<open>Loops.\<close> Every recursive definition terminates by itself: loops over lists and maps recurse on them,
  the search for a free nonce (\<open>next_free\<close>) on the number of taken nonces at or past its start. There is no
  fuel. The wait for a receipt recurses on the time left until its deadline, because each poll that goes on
  sleeps at least a millisecond; for this \<open>Date.now()\<close> is taken not to go back. The polling loop of the
  durable lock is a step relation, and its length is bounded by a theorem.

  \<^bold>\<open>Not modelled.\<close> The NEAR RPC client, the network, Web Locks and WebCrypto (inputs of the coordinator, answers of any kind),
  the browser's IndexedDB below its transactions, sleeping and timers apart from their order, log output,
  the retry of EVM signing with a fresh email code (an argument of the executor), progress events of the
  signing flow, and the wallet outside: the stores of threshold sessions, from which the readiness of a lane is
  read (an argument of the planner), the identity keys of ECDSA lanes that other modules use, step-up authorization, the NEAR signing flows, user confirmation, registration, the iframe transport, the servers, the cryptographic crates, the
  voice identification product and the command line tool. They are protocols with other parties, user
  interface, or cryptography in other languages, and use the nonce subsystem through the operations
  modelled here.
\<close>

end
